(* ===== verification/Go_Prelude.thy ===== *)
theory Go_Prelude
  imports Main "HOL-Library.Word" "HOL-Library.Char_ord" "HOL-Library.List_Lexorder"
    "HOL-Library.AList" "HOL-Library.State_Monad"
begin

text \<open>
  What every component shares: Go error values, Go maps as association lists, the state monad in
  which the stateful operations are written together with its weakest-precondition calculus, and
  the 64-bit arithmetic of \<open>time.Duration\<close>.

  A Go function that changes shared state is a value of \<open>('s, 'a) state\<close> of
  \<open>HOL-Library.State_Monad\<close>: \<open>wp m Q s\<close> says that running \<open>m\<close> from \<open>s\<close> ends in a result and a
  state that satisfy \<open>Q\<close>; the collection \<open>wp_simps\<close> computes it.
\<close>

section \<open>Collections\<close>

named_theorems wp_simps \<open>weakest preconditions of the state monad's constructs\<close>
named_theorems go_map_simps \<open>lookups after updates of Go maps\<close>
named_theorems frame_simps \<open>fields an operation leaves alone\<close>

section \<open>Go error values\<close>

text \<open>
  The sentinel errors of \<open>internal/platform/types.go\<close>; \<open>ErrNamed\<close> is the sentinel another package
  declares, by its qualified name, and \<open>ErrText\<close> any error that wraps no sentinel. \<open>fmt.Errorf("...: %w", e)\<close> is the error it wraps, since the code only ever asks
  \<open>errors.Is\<close>.
\<close>

datatype err =
    ErrNotFound
  | ErrUnauthenticated
  | ErrForbidden
  | ErrUnavailable
  | ErrConflict
  | ErrInvalid
  | ErrNamed string
  | ErrText string

section \<open>Go maps\<close>

text \<open>
  A Go map is an association list with distinct keys. Assignment is \<open>AList.update\<close>. Ranging over a
  map goes through its entries in an order Go leaves open; here it is the order of the list, and
  the lemma \<open>find_value_unique\<close> is what makes the order immaterial: when at most one entry
  satisfies the predicate, every order finds that one.
\<close>

type_synonym ('k, 'v) go_map = "('k \<times> 'v) list"

definition find_value :: "('v \<Rightarrow> bool) \<Rightarrow> ('k, 'v) go_map \<Rightarrow> 'v option" where
  "find_value P m = map_option snd (find (\<lambda>e. P (snd e)) m)"

definition map_values :: "('v \<Rightarrow> 'v) \<Rightarrow> ('k, 'v) go_map \<Rightarrow> ('k, 'v) go_map" where
  "map_values f m = map (\<lambda>(k, v). (k, f v)) m"

lemma find_value_Nil [simp]: "find_value P [] = None"
  by (simp add: find_value_def)

lemma find_value_Cons [simp]:
  "find_value P ((k, v) # m) = (if P v then Some v else find_value P m)"
  by (simp add: find_value_def)

lemma find_value_append:
  "find_value P (m @ m') = (case find_value P m of None \<Rightarrow> find_value P m' | Some v \<Rightarrow> Some v)"
  by (induction m) auto

lemma find_value_SomeD: "find_value P m = Some v \<Longrightarrow> P v \<and> (\<exists>k. (k, v) \<in> set m)"
  by (induction m) (auto split: if_splits)

lemma find_value_None_iff: "find_value P m = None \<longleftrightarrow> (\<forall>e \<in> set m. \<not> P (snd e))"
  by (auto simp: find_value_def find_None_iff)

lemma find_value_unique:
  assumes "(k, v) \<in> set m" and "P v" and uniq: "\<And>k' v'. (k', v') \<in> set m \<Longrightarrow> P v' \<Longrightarrow> v' = v"
  shows "find_value P m = Some v"
proof (cases "find_value P m")
  case None
  with assms(1,2) show ?thesis by (force simp: find_value_None_iff)
next
  case (Some w)
  then show ?thesis using find_value_SomeD uniq by metis
qed

lemma find_value_perm:
  assumes "set m = set m'" and "\<And>e e'. e \<in> set m \<Longrightarrow> e' \<in> set m \<Longrightarrow> P (snd e) \<Longrightarrow> P (snd e') \<Longrightarrow> snd e = snd e'"
  shows "find_value P m = find_value P m'"
proof (cases "find_value P m")
  case None
  then have "find_value P m' = None"
    using assms(1) by (simp add: find_value_None_iff)
  with None show ?thesis by simp
next
  case (Some v)
  then obtain k where kv: "P v" "(k, v) \<in> set m" by (blast dest: find_value_SomeD)
  have "find_value P m' = Some v"
  proof (rule find_value_unique)
    show "(k, v) \<in> set m'" using kv assms(1) by simp
    show "P v" by (rule kv)
    show "\<And>k' v'. (k', v') \<in> set m' \<Longrightarrow> P v' \<Longrightarrow> v' = v"
      using assms(2) [OF _ kv(2)] assms(1) kv by auto
  qed
  with Some show ?thesis by simp
qed

lemma find_value_update_same:
  "find_value P (AList.update k v m) = Some v" if "find_value P m = None" and "P v"
  using that by (induction m) (auto split: if_splits)

lemma map_of_map_values [go_map_simps]: "map_of (map_values f m) k = map_option f (map_of m k)"
  by (induction m) (auto simp: map_values_def)

lemma dom_map_values [simp]: "map fst (map_values f m) = map fst m"
  by (auto simp: map_values_def comp_def split_def)

lemma set_map_values: "set (map_values f m) = (\<lambda>(k, v). (k, f v)) ` set m"
  by (simp add: map_values_def)

lemma map_of_update [go_map_simps]: "map_of (AList.update k v m) k' = (if k' = k then Some v else map_of m k')"
  by (simp add: update_conv')

text \<open>
  A map whose keys are distinct and equal to the identifier inside the value, as every table of the
  in-memory store is.
\<close>

definition keyed :: "('v \<Rightarrow> 'k) \<Rightarrow> ('k, 'v) go_map \<Rightarrow> bool" where
  "keyed f m \<longleftrightarrow> distinct (map fst m) \<and> (\<forall>(k, v) \<in> set m. f v = k)"

lemma keyed_Nil [simp, intro]: "keyed f []"
  by (simp add: keyed_def)

lemma keyed_lookup: "keyed f m \<Longrightarrow> map_of m k = Some v \<Longrightarrow> f v = k"
  by (auto simp: keyed_def dest!: map_of_SomeD)

lemma keyed_member: "keyed f m \<Longrightarrow> (k, v) \<in> set m \<Longrightarrow> map_of m (f v) = Some v"
  by (auto simp: keyed_def)

lemma keyed_update [intro]: "keyed f m \<Longrightarrow> f v = k \<Longrightarrow> keyed f (AList.update k v m)"
  unfolding keyed_def
proof (elim conjE, intro conjI)
  assume d: "distinct (map fst m)" and i: "\<forall>(k, v) \<in> set m. f v = k" and k: "f v = k"
  show d': "distinct (map fst (AList.update k v m))" using d by (rule distinct_update)
  show "\<forall>(k', v') \<in> set (AList.update k v m). f v' = k'"
  proof safe
    fix k' v' assume "(k', v') \<in> set (AList.update k v m)"
    then have "map_of (AList.update k v m) k' = Some v'" using d' by simp
    then show "f v' = k'" using i k by (auto simp: map_of_update split: if_splits dest: map_of_SomeD)
  qed
qed

lemma keyed_map_values: "keyed f m \<Longrightarrow> (\<And>v. f (g v) = f v) \<Longrightarrow> keyed f (map_values g m)"
  by (auto simp: keyed_def set_map_values)

lemma keyed_find_value: "keyed f m \<Longrightarrow> find_value P m = Some v \<Longrightarrow> map_of m (f v) = Some v"
  by (metis find_value_SomeD keyed_member)

lemma keyed_find: "keyed f m \<Longrightarrow> find P m = Some (k, v) \<Longrightarrow> f v = k \<and> map_of m k = Some v \<and> P (k, v)"
proof -
  assume "keyed f m" and f: "find P m = Some (k, v)"
  moreover from f have "(k, v) \<in> set m" and "P (k, v)"
    by (auto simp: find_Some_iff in_set_conv_nth)
  ultimately show ?thesis by (auto simp: keyed_def)
qed

lemma find_value_update_found:
  "find_value P m = Some v0 \<Longrightarrow> keyed f m \<Longrightarrow> f v0 = k \<Longrightarrow> P v \<Longrightarrow> find_value P (AList.update k v m) = Some v"
proof (induction m)
  case (Cons e m)
  obtain k0 w where e: "e = (k0, w)" by (cases e)
  have k0: "f w = k0" and km: "keyed f m" and notin: "k0 \<notin> fst ` set m"
    using Cons.prems(2) by (auto simp: keyed_def e)
  show ?case
  proof (cases "P w")
    case True
    with Cons.prems e k0 show ?thesis by auto
  next
    case False
    with Cons.prems e have f: "find_value P m = Some v0" by simp
    then have "k \<in> fst ` set m"
      using keyed_find_value [OF km] Cons.prems(3) by (force dest: map_of_SomeD)
    with notin have "k0 \<noteq> k" by auto
    with False e f Cons.IH km Cons.prems(3,4) show ?thesis by simp
  qed
qed simp

lemma find_value_put:
  assumes "keyed f m" and "P x" and "\<And>y. find_value P m = Some y \<Longrightarrow> f y = f x"
  shows "find_value P (AList.update (f x) x m) = Some x"
proof (cases "find_value P m")
  case None
  then show ?thesis using assms(2) by (rule find_value_update_same)
next
  case (Some y)
  then show ?thesis using assms by (intro find_value_update_found)
qed

lemma keyed_find_valueD:
  "find_value P m = Some v \<Longrightarrow> keyed f m \<Longrightarrow> P v \<and> map_of m (f v) = Some v"
  using keyed_find_value find_value_SomeD by metis

lemma update_fresh: "map_of m k = None \<Longrightarrow> AList.update k v m = m @ [(k, v)]"
  by (induction m) (auto split: if_splits)

lemma update_found:
  "distinct (map fst m) \<Longrightarrow> map_of m k = Some v0 \<Longrightarrow>
   AList.update k v m = map (\<lambda>(k', v'). (k', if k' = k then v else v')) m"
proof (induction m)
  case (Cons e m)
  show ?case
  proof (cases "fst e = k")
    case True
    with Cons.prems(1) have "k \<notin> fst ` set m" by auto
    then have "map (\<lambda>(k', v'). (k', if k' = k then v else v')) m = m"
      by (intro map_idI) force
    with True show ?thesis by (cases e) simp
  next
    case False
    with Cons show ?thesis by (cases e) auto
  qed
qed simp

lemma update_same: "map_of m k = Some v \<Longrightarrow> AList.update k v m = m"
  by (rule update_triv)

section \<open>The state monad and its weakest preconditions\<close>

definition wp :: "('s, 'a) state \<Rightarrow> ('a \<Rightarrow> 's \<Rightarrow> bool) \<Rightarrow> 's \<Rightarrow> bool" where
  "wp m Q s = (case run_state m s of (a, t) \<Rightarrow> Q a t)"

text \<open>
  \<open>if err != nil { return err }\<close> after a call: the error is the result, a value goes on.
\<close>

definition or_return :: "('s, 'e + 'a) state \<Rightarrow> ('a \<Rightarrow> ('s, 'e + 'b) state) \<Rightarrow> ('s, 'e + 'b) state" where
  "or_return m k = State_Monad.bind m (\<lambda>r. case r of Inl e \<Rightarrow> State_Monad.return (Inl e) | Inr a \<Rightarrow> k a)"

lemma run_state_bind [simp]:
  "run_state (State_Monad.bind m f) s = (case run_state m s of (a, t) \<Rightarrow> run_state (f a) t)"
  by (simp add: State_Monad.bind_def)

lemma run_state_return [simp]: "run_state (State_Monad.return a) s = (a, s)"
  by (simp add: State_Monad.return_def)

lemma run_state_get [simp]: "run_state State_Monad.get s = (s, s)"
  by (simp add: State_Monad.get_def)

lemma run_state_set [simp]: "run_state (State_Monad.set t) s = ((), t)"
  by (simp add: State_Monad.set_def)

lemma run_state_update [simp]: "run_state (State_Monad.update f) s = ((), f s)"
  by (simp add: State_Monad.update_def)

lemma run_state_or_return [simp]:
  "run_state (or_return m k) s =
     (case run_state m s of (r, t) \<Rightarrow> (case r of Inl e \<Rightarrow> (Inl e, t) | Inr a \<Rightarrow> run_state (k a) t))"
  by (auto simp: or_return_def split: prod.splits sum.splits)

lemma wp_run: "wp m Q s \<longleftrightarrow> (\<forall>a t. run_state m s = (a, t) \<longrightarrow> Q a t)"
  by (auto simp: wp_def split: prod.splits)

lemma wpI: "(\<And>a t. run_state m s = (a, t) \<Longrightarrow> Q a t) \<Longrightarrow> wp m Q s"
  by (simp add: wp_run)

lemma wpD: "wp m Q s \<Longrightarrow> run_state m s = (a, t) \<Longrightarrow> Q a t"
  by (simp add: wp_run)

lemma wp_mono: "wp m Q s \<Longrightarrow> (\<And>a t. Q a t \<Longrightarrow> R a t) \<Longrightarrow> wp m R s"
  by (simp add: wp_run)

lemma wp_conj: "wp m Q s \<Longrightarrow> wp m R s \<Longrightarrow> wp m (\<lambda>a t. Q a t \<and> R a t) s"
  by (simp add: wp_run)

lemma wp_return [wp_simps]: "wp (State_Monad.return a) Q s = Q a s"
  by (simp add: wp_def)

lemma wp_bind [wp_simps]: "wp (State_Monad.bind m f) Q s = wp m (\<lambda>a. wp (f a) Q) s"
  by (simp add: wp_def split: prod.splits)

lemma wp_get [wp_simps]: "wp State_Monad.get Q s = Q s s"
  by (simp add: wp_def)

lemma wp_set [wp_simps]: "wp (State_Monad.set t) Q s = Q () t"
  by (simp add: wp_def)

lemma wp_update [wp_simps]: "wp (State_Monad.update f) Q s = Q () (f s)"
  by (simp add: wp_def)

lemma wp_State [wp_simps]: "wp (State f) Q s = (case f s of (a, t) \<Rightarrow> Q a t)"
  by (simp add: wp_def)

lemma wp_or_return [wp_simps]:
  "wp (or_return m k) Q s = wp m (\<lambda>r t. case r of Inl e \<Rightarrow> Q (Inl e) t | Inr a \<Rightarrow> wp (k a) Q t) s"
  by (auto simp: wp_def split: prod.splits sum.splits)

lemma wp_if [wp_simps]: "wp (if b then m else n) Q s = (if b then wp m Q s else wp n Q s)"
  by simp

lemma wp_case_option [wp_simps]:
  "wp (case x of None \<Rightarrow> m | Some y \<Rightarrow> f y) Q s = (case x of None \<Rightarrow> wp m Q s | Some y \<Rightarrow> wp (f y) Q s)"
  by (simp split: option.splits)

lemma wp_case_sum [wp_simps]:
  "wp (case x of Inl e \<Rightarrow> f e | Inr y \<Rightarrow> g y) Q s = (case x of Inl e \<Rightarrow> wp (f e) Q s | Inr y \<Rightarrow> wp (g y) Q s)"
  by (simp split: sum.splits)

lemma wp_case_prod [wp_simps]:
  "wp (case x of (a, b) \<Rightarrow> f a b) Q s = (case x of (a, b) \<Rightarrow> wp (f a b) Q s)"
  by (simp split: prod.splits)

section \<open>Operations that move the state along a preorder\<close>

text \<open>
  Many facts about an operation say that the state after it is related to the state before it by a
  reflexive and transitive relation: a table it leaves alone, an invariant it keeps, rows that only
  grow. The locale collects how such a fact composes along the code's control flow.
\<close>

definition preserves :: "('s \<Rightarrow> 's \<Rightarrow> bool) \<Rightarrow> ('s, 'a) state \<Rightarrow> bool" where
  "preserves R m \<longleftrightarrow> (\<forall>s. R s (snd (run_state m s)))"

lemma preservesI: "(\<And>s a t. run_state m s = (a, t) \<Longrightarrow> R s t) \<Longrightarrow> preserves R m"
  unfolding preserves_def by (metis prod.collapse)

lemma preservesD: "preserves R m \<Longrightarrow> run_state m s = (a, t) \<Longrightarrow> R s t"
  by (metis preserves_def snd_conv)

lemma preserves_get_bind: "(\<And>s. R s (snd (run_state (f s) s))) \<Longrightarrow> preserves R (State_Monad.bind State_Monad.get f)"
  by (simp add: preserves_def)

locale step_preorder =
  fixes R :: "'s \<Rightarrow> 's \<Rightarrow> bool"
  assumes rel_refl: "R s s"
    and rel_trans: "R s t \<Longrightarrow> R t u \<Longrightarrow> R s u"
begin

lemma pres_return: "preserves R (State_Monad.return a)"
  by (simp add: preserves_def rel_refl)

lemma pres_get: "preserves R State_Monad.get"
  by (simp add: preserves_def rel_refl)

lemma pres_update: "(\<And>s. R s (f s)) \<Longrightarrow> preserves R (State_Monad.update f)"
  by (simp add: preserves_def)

lemma pres_bind: "preserves R m \<Longrightarrow> (\<And>a. preserves R (f a)) \<Longrightarrow> preserves R (State_Monad.bind m f)"
  by (auto intro!: preservesI split: prod.splits) (metis preservesD rel_trans)

lemma pres_sum: "(\<And>e. preserves R (f e)) \<Longrightarrow> (\<And>a. preserves R (g a)) \<Longrightarrow> preserves R (case x of Inl e \<Rightarrow> f e | Inr a \<Rightarrow> g a)"
  by (cases x) auto

lemma pres_option: "preserves R m \<Longrightarrow> (\<And>a. preserves R (f a)) \<Longrightarrow> preserves R (case x of None \<Rightarrow> m | Some a \<Rightarrow> f a)"
  by (cases x) auto

lemma pres_if: "preserves R m \<Longrightarrow> preserves R n \<Longrightarrow> preserves R (if b then m else n)"
  by simp

lemma pres_or_return: "preserves R m \<Longrightarrow> (\<And>a. preserves R (k a)) \<Longrightarrow> preserves R (or_return m k)"
  unfolding or_return_def by (intro pres_bind pres_sum pres_return)

lemmas pres_rules = pres_return pres_get pres_bind pres_sum pres_option pres_if pres_or_return

lemma rtranclp_rel: "(\<And>s t. step s t \<Longrightarrow> R s t) \<Longrightarrow> step\<^sup>*\<^sup>* s t \<Longrightarrow> R s t"
proof -
  assume st: "\<And>s t. step s t \<Longrightarrow> R s t" and "step\<^sup>*\<^sup>* s t"
  from this(2) show "R s t"
    by (induction rule: rtranclp_induct) (auto intro: rel_refl rel_trans st)
qed

end

section \<open>64-bit signed arithmetic\<close>

text \<open>
  \<open>time.Duration\<close> and \<open>int\<close> are 64-bit two's complement. Values are kept as \<open>int\<close>; an
  operation that may overflow is wrapped by \<open>wrap64\<close>, and \<open>time.Time.Sub\<close> saturates.
\<close>

definition wrap64 :: "int \<Rightarrow> int" where
  "wrap64 x = sint (word_of_int x :: 64 word)"

definition max_int64 :: int where
  "max_int64 = 2 ^ 63 - 1"

definition min_int64 :: int where
  "min_int64 = - (2 ^ 63)"

definition time_sub :: "int \<Rightarrow> int \<Rightarrow> int" where
  "time_sub a b = max min_int64 (min max_int64 (a - b))"

lemma wrap64_id: "min_int64 \<le> x \<Longrightarrow> x \<le> max_int64 \<Longrightarrow> wrap64 x = x"
  by (simp add: wrap64_def min_int64_def max_int64_def signed_of_int signed_take_bit_int_eq_self)

lemma wrap64_ge: "min_int64 \<le> wrap64 x"
  using sint_ge [of "word_of_int x :: 64 word"] by (simp add: wrap64_def min_int64_def)

lemma wrap64_le: "wrap64 x \<le> max_int64"
  using sint_lt [of "word_of_int x :: 64 word"] by (simp add: wrap64_def max_int64_def)

end
