(* ===== verification/Go_Strings.thy ===== *)
theory Go_Strings
  imports Go_Prelude
begin

text \<open>
  Go strings are byte strings: \<open>string\<close> (a list of 8-bit characters) with the byte-level meaning of
  the \<open>strings\<close>, \<open>regexp\<close>, \<open>encoding/hex\<close> and \<open>encoding/base64\<close> functions the code calls.
\<close>

section \<open>Character classes and byte searches\<close>

definition is_lower :: "char \<Rightarrow> bool" where
  "is_lower c \<longleftrightarrow> CHR ''a'' \<le> c \<and> c \<le> CHR ''z''"

definition is_upper :: "char \<Rightarrow> bool" where
  "is_upper c \<longleftrightarrow> CHR ''A'' \<le> c \<and> c \<le> CHR ''Z''"

definition is_digit :: "char \<Rightarrow> bool" where
  "is_digit c \<longleftrightarrow> CHR ''0'' \<le> c \<and> c \<le> CHR ''9''"

definition is_alnum :: "char \<Rightarrow> bool" where
  "is_alnum c \<longleftrightarrow> is_lower c \<or> is_upper c \<or> is_digit c"

definition has_prefix :: "string \<Rightarrow> string \<Rightarrow> bool" where
  "has_prefix p s \<longleftrightarrow> take (length p) s = p"

definition has_suffix :: "string \<Rightarrow> string \<Rightarrow> bool" where
  "has_suffix p s \<longleftrightarrow> has_prefix (rev p) (rev s)"

definition contains_any :: "string \<Rightarrow> string \<Rightarrow> bool" where
  "contains_any s cs \<longleftrightarrow> list_ex (\<lambda>c. c \<in> set cs) s"

fun contains_str :: "string \<Rightarrow> string \<Rightarrow> bool" where
  "contains_str sub [] = (sub = [])"
| "contains_str sub (c # s) = (has_prefix sub (c # s) \<or> contains_str sub s)"

definition trim_right :: "string \<Rightarrow> string \<Rightarrow> string" where
  "trim_right cs s = rev (dropWhile (\<lambda>c. c \<in> set cs) (rev s))"

lemma has_prefix_append [simp]: "has_prefix p (p @ s)"
  by (simp add: has_prefix_def)

lemma has_prefix_Nil [simp]: "has_prefix [] s"
  by (simp add: has_prefix_def)

lemma has_prefix_Cons [simp]: "has_prefix (c # p) (d # s) \<longleftrightarrow> c = d \<and> has_prefix p s"
  by (auto simp: has_prefix_def)

lemma has_prefix_iff: "has_prefix p s \<longleftrightarrow> (\<exists>t. s = p @ t)"
  by (auto simp: has_prefix_def) (metis append_take_drop_id)

lemma has_prefix_take: "has_prefix p (take n s) \<Longrightarrow> has_prefix p s"
  by (auto simp: has_prefix_iff) (metis append_assoc append_take_drop_id)

lemma trim_right_idem: "trim_right cs (trim_right cs s) = trim_right cs s"
  by (simp add: trim_right_def dropWhile_idem)

section \<open>strings.TrimSpace\<close>

text \<open>
  The UTF-8 encodings of the white space of \<open>unicode.IsSpace\<close>: six ASCII bytes, U+0085, U+00A0,
  U+1680, U+2000 to U+200A, U+2028, U+2029, U+202F, U+205F and U+3000.
\<close>

definition space_runes :: "string list" where
  "space_runes =
     [[CHR 0x20], [CHR 0x09], [CHR 0x0A], [CHR 0x0B], [CHR 0x0C], [CHR 0x0D],
      [CHR 0xC2, CHR 0x85], [CHR 0xC2, CHR 0xA0], [CHR 0xE1, CHR 0x9A, CHR 0x80],
      [CHR 0xE2, CHR 0x80, CHR 0x80], [CHR 0xE2, CHR 0x80, CHR 0x81], [CHR 0xE2, CHR 0x80, CHR 0x82],
      [CHR 0xE2, CHR 0x80, CHR 0x83], [CHR 0xE2, CHR 0x80, CHR 0x84], [CHR 0xE2, CHR 0x80, CHR 0x85],
      [CHR 0xE2, CHR 0x80, CHR 0x86], [CHR 0xE2, CHR 0x80, CHR 0x87], [CHR 0xE2, CHR 0x80, CHR 0x88],
      [CHR 0xE2, CHR 0x80, CHR 0x89], [CHR 0xE2, CHR 0x80, CHR 0x8A], [CHR 0xE2, CHR 0x80, CHR 0xA8],
      [CHR 0xE2, CHR 0x80, CHR 0xA9], [CHR 0xE2, CHR 0x80, CHR 0xAF], [CHR 0xE2, CHR 0x81, CHR 0x9F],
      [CHR 0xE3, CHR 0x80, CHR 0x80]]"

lemma find_rune_shorter:
  assumes "find (\<lambda>r. r \<noteq> [] \<and> has_prefix r s) rs = Some r"
  shows "length (drop (length r) s) < length s"
proof -
  from assms have "r \<noteq> []" and "has_prefix r s" by (auto simp: find_Some_iff)
  then have "0 < length r" and "length r \<le> length s" by (auto simp: has_prefix_iff)
  then show ?thesis unfolding length_drop by linarith
qed

function strip_runes :: "string list \<Rightarrow> string \<Rightarrow> string" where
  "strip_runes rs s =
     (case find (\<lambda>r. r \<noteq> [] \<and> has_prefix r s) rs of
        None \<Rightarrow> s
      | Some r \<Rightarrow> strip_runes rs (drop (length r) s))"
  by pat_completeness auto
termination
  by (relation "measure (\<lambda>(rs, s). length s)") (use find_rune_shorter in auto)

declare strip_runes.simps [simp del]

definition trim_space :: "string \<Rightarrow> string" where
  "trim_space s = rev (strip_runes (map rev space_runes) (rev (strip_runes space_runes s)))"

lemma strip_runes_fixed: "find (\<lambda>r. r \<noteq> [] \<and> has_prefix r (strip_runes rs s)) rs = None"
proof (induction rs s rule: strip_runes.induct)
  case (1 rs s)
  then show ?case
    by (subst (1) strip_runes.simps) (auto split: option.splits)
qed

lemma strip_runes_idem: "strip_runes rs (strip_runes rs s) = strip_runes rs s"
  using strip_runes_fixed [of rs s] by (subst strip_runes.simps) simp

lemma strip_runes_suffix: "\<exists>p. s = p @ strip_runes rs s"
proof (induction rs s rule: strip_runes.induct)
  case (1 rs s)
  show ?case
  proof (cases "find (\<lambda>r. r \<noteq> [] \<and> has_prefix r s) rs")
    case None
    then show ?thesis by (subst strip_runes.simps) simp
  next
    case (Some r)
    with "1" obtain p where "drop (length r) s = p @ strip_runes rs (drop (length r) s)" by blast
    then have "s = (take (length r) s @ p) @ strip_runes rs (drop (length r) s)"
      by (metis append_assoc append_take_drop_id)
    moreover from Some have "strip_runes rs s = strip_runes rs (drop (length r) s)"
      by (subst strip_runes.simps) simp
    ultimately show ?thesis by metis
  qed
qed

lemma strip_runes_id_take:
  assumes "strip_runes rs s = s"
  shows "strip_runes rs (take n s) = take n s"
proof -
  have "find (\<lambda>r. r \<noteq> [] \<and> has_prefix r s) rs = None"
    using strip_runes_fixed [of rs s] assms by simp
  then have "find (\<lambda>r. r \<noteq> [] \<and> has_prefix r (take n s)) rs = None"
    by (simp only: find_None_iff) (blast dest: has_prefix_take)
  then show ?thesis by (subst strip_runes.simps) simp
qed

lemma rev_strip_rev_take: "\<exists>n. rev (strip_runes rs (rev s)) = take n s"
proof -
  obtain p where "rev s = p @ strip_runes rs (rev s)" using strip_runes_suffix by blast
  then have "s = rev (strip_runes rs (rev s)) @ rev p" by (metis rev_append rev_rev_ident)
  then have "rev (strip_runes rs (rev s)) = take (length (strip_runes rs (rev s))) s"
    by (metis append_eq_conv_conj length_rev)
  then show ?thesis ..
qed

lemma trim_space_idem [simp]: "trim_space (trim_space s) = trim_space s"
proof -
  let ?l = "strip_runes space_runes s"
  obtain n where n: "trim_space s = take n ?l"
    using rev_strip_rev_take by (fastforce simp: trim_space_def)
  have "strip_runes space_runes (trim_space s) = trim_space s"
    unfolding n by (rule strip_runes_id_take) (rule strip_runes_idem)
  then show ?thesis
    by (simp add: trim_space_def strip_runes_idem)
qed

section \<open>The regular expressions of the validators\<close>

definition bounded_pattern :: "(char \<Rightarrow> bool) \<Rightarrow> (char \<Rightarrow> bool) \<Rightarrow> nat \<Rightarrow> string \<Rightarrow> bool" where
  "bounded_pattern P Q n s = (case s of [] \<Rightarrow> False | c # r \<Rightarrow> P c \<and> length r \<le> n \<and> list_all Q r)"

definition slug_pattern :: "string \<Rightarrow> bool" where
  "slug_pattern = bounded_pattern (\<lambda>c. is_lower c \<or> is_digit c)
     (\<lambda>c. is_lower c \<or> is_digit c \<or> c = CHR ''-'') 62"

definition alias_pattern :: "string \<Rightarrow> bool" where
  "alias_pattern = bounded_pattern is_alnum (\<lambda>c. is_alnum c \<or> c \<in> set ''._:-'') 127"

definition secret_ref_pattern :: "string \<Rightarrow> bool" where
  "secret_ref_pattern = bounded_pattern is_upper
     (\<lambda>c. is_upper c \<or> is_digit c \<or> c = CHR ''_'') 127"

definition evidence_pattern :: "string \<Rightarrow> bool" where
  "evidence_pattern = bounded_pattern is_alnum (\<lambda>c. is_alnum c \<or> c \<in> set ''._:/-'') 254"

lemmas pattern_defs = bounded_pattern_def slug_pattern_def alias_pattern_def
  secret_ref_pattern_def evidence_pattern_def is_lower_def is_upper_def is_digit_def is_alnum_def

lemma bounded_pattern_length: "bounded_pattern P Q n s \<Longrightarrow> s \<noteq> [] \<and> length s \<le> Suc n"
  by (auto simp: bounded_pattern_def split: list.splits)

section \<open>encoding/hex\<close>

definition hex_digit :: "nat \<Rightarrow> char" where
  "hex_digit n = ''0123456789abcdef'' ! n"

definition hex_val :: "char \<Rightarrow> nat option" where
  "hex_val c =
     (if is_digit c then Some (of_char c - 48)
      else if CHR ''a'' \<le> c \<and> c \<le> CHR ''f'' then Some (of_char c - 87)
      else if CHR ''A'' \<le> c \<and> c \<le> CHR ''F'' then Some (of_char c - 55)
      else None)"

fun hex_encode :: "string \<Rightarrow> string" where
  "hex_encode [] = []"
| "hex_encode (c # s) = hex_digit (of_char c div 16) # hex_digit (of_char c mod 16) # hex_encode s"

fun hex_decode :: "string \<Rightarrow> string option" where
  "hex_decode [] = Some []"
| "hex_decode [c] = None"
| "hex_decode (a # b # s) =
     (case (hex_val a, hex_val b) of
        (Some x, Some y) \<Rightarrow> map_option (Cons (char_of (16 * x + y))) (hex_decode s)
      | _ \<Rightarrow> None)"

lemma hex_val_digit_all: "list_all (\<lambda>n. hex_val (hex_digit n) = Some n) [0..<16]"
  by code_simp

lemma hex_val_digit: "n < 16 \<Longrightarrow> hex_val (hex_digit n) = Some n"
  using hex_val_digit_all by (simp add: list_all_iff)

lemma of_char_lt: "(of_char c :: nat) < 256"
proof -
  have "(of_char c :: nat) mod 256 < 256" by simp
  then show ?thesis by simp
qed

lemma hex_decode_encode: "hex_decode (hex_encode s) = Some s"
proof (induction s)
  case (Cons c s)
  have "(of_char c :: nat) div 16 < 16" using of_char_lt [of c] by linarith
  with Cons show ?case by (simp add: hex_val_digit)
qed simp

lemma length_hex_encode [simp]: "length (hex_encode s) = 2 * length s"
  by (induction s) auto

lemma hex_encode_inject: "hex_encode s = hex_encode t \<longleftrightarrow> s = t"
  by (metis hex_decode_encode option.inject)

section \<open>encoding/base64, RawURLEncoding\<close>

definition b64_alphabet :: string where
  "b64_alphabet = ''ABCDEFGHIJKLMNOPQRSTUVWXYZabcdefghijklmnopqrstuvwxyz0123456789-_''"

definition b64_digit :: "nat \<Rightarrow> char" where
  "b64_digit n = b64_alphabet ! n"

definition b64_val :: "char \<Rightarrow> nat option" where
  "b64_val c =
     (if is_upper c then Some (of_char c - 65)
      else if is_lower c then Some (of_char c - 71)
      else if is_digit c then Some (of_char c + 4)
      else if c = CHR ''-'' then Some 62
      else if c = CHR ''_'' then Some 63
      else None)"

fun b64_sextets :: "string \<Rightarrow> nat list" where
  "b64_sextets [] = []"
| "b64_sextets [a] = (let v = of_char a * 65536 in [v div 262144, v div 4096 mod 64])"
| "b64_sextets [a, b] =
     (let v = of_char a * 65536 + of_char b * 256
      in [v div 262144, v div 4096 mod 64, v div 64 mod 64])"
| "b64_sextets (a # b # c # s) =
     (let v = of_char a * 65536 + of_char b * 256 + of_char c
      in v div 262144 # v div 4096 mod 64 # v div 64 mod 64 # v mod 64 # b64_sextets s)"

definition b64_encode :: "string \<Rightarrow> string" where
  "b64_encode s = map b64_digit (b64_sextets s)"

text \<open>
  The decoder ignores carriage returns and newlines and, as \<open>RawURLEncoding\<close> is not strict, the
  unused low bits of a final partial quantum.
\<close>

fun b64_quanta :: "nat list \<Rightarrow> string option" where
  "b64_quanta [] = Some []"
| "b64_quanta [p] = None"
| "b64_quanta [p, q] = Some [char_of ((p * 262144 + q * 4096) div 65536)]"
| "b64_quanta [p, q, r] =
     (let v = p * 262144 + q * 4096 + r * 64 in Some [char_of (v div 65536), char_of (v div 256)])"
| "b64_quanta (p # q # r # t # s) =
     (let v = p * 262144 + q * 4096 + r * 64 + t
      in map_option (\<lambda>d. char_of (v div 65536) # char_of (v div 256) # char_of v # d) (b64_quanta s))"

definition b64_decode :: "string \<Rightarrow> string option" where
  "b64_decode s =
     (let t = map b64_val (filter (\<lambda>c. c \<noteq> CHR 0x0A \<and> c \<noteq> CHR 0x0D) s)
      in if list_all (\<lambda>v. v \<noteq> None) t then b64_quanta (map the t) else None)"

lemma b64_val_digit_all: "list_all (\<lambda>n. b64_val (b64_digit n) = Some n) [0..<64]"
  by code_simp

lemma b64_val_digit: "n < 64 \<Longrightarrow> b64_val (b64_digit n) = Some n"
  using b64_val_digit_all by (simp add: list_all_iff)

lemma b64_first_sextet_lt:
  "(of_char a * 65536 + of_char b * 256 + of_char c :: nat) div 262144 < 64"
  "(of_char a * 65536 + of_char b * 256 :: nat) div 262144 < 64"
  "(of_char a * 65536 :: nat) div 262144 < 64"
proof -
  have "(of_char a * 65536 + of_char b * 256 + of_char c :: nat) < 64 * 262144"
    using of_char_lt [of a] of_char_lt [of b] of_char_lt [of c] by linarith
  then show "(of_char a * 65536 + of_char b * 256 + of_char c :: nat) div 262144 < 64"
    and "(of_char a * 65536 + of_char b * 256 :: nat) div 262144 < 64"
    and "(of_char a * 65536 :: nat) div 262144 < 64"
    by (simp_all add: less_mult_imp_div_less)
qed

lemma b64_sextets_lt: "n \<in> set (b64_sextets s) \<Longrightarrow> n < 64"
proof (induction s rule: b64_sextets.induct)
  case (2 a)
  then show ?case using b64_first_sextet_lt(3) [of a] by (auto simp: Let_def)
next
  case (3 a b)
  then show ?case using b64_first_sextet_lt(2) [of a b] by (auto simp: Let_def)
next
  case (4 a b c s)
  then show ?case using b64_first_sextet_lt(1) [of a b c] by (auto simp: Let_def)
qed simp

lemma b64_sextet_split:
  fixes v :: nat
  shows "v div 262144 * 262144 + v div 4096 mod 64 * 4096 + v div 64 mod 64 * 64 + v mod 64 = v"
proof -
  define x y z where "x = v div 64" and "y = x div 64" and "z = y div 64"
  have "v div 4096 = y" and "v div 262144 = z"
    by (simp_all add: x_def y_def z_def div_mult2_eq [symmetric])
  moreover have "x * 64 + v mod 64 = v" and "y * 64 + x mod 64 = x" and "z * 64 + y mod 64 = y"
    unfolding x_def y_def z_def by (rule div_mult_mod_eq)+
  ultimately show ?thesis unfolding x_def [symmetric] by simp
qed

lemma char_of_eqI: "n mod 256 = of_char c \<Longrightarrow> char_of (n :: nat) = c"
  by (rule of_char_eqI [where 'a = nat]) simp

lemma three_bytes:
  assumes "a < 256" and "b < 256" and "c < (256 :: nat)" and "v = a * 65536 + b * 256 + c"
  shows "v div 65536 mod 256 = a" and "v div 256 mod 256 = b" and "v mod 256 = c"
proof -
  have v: "v = c + (a * 256 + b) * 256" using assms(4) by simp
  have q: "v div 256 = b + a * 256" unfolding v using assms(3) by simp
  have "v div 65536 = v div 256 div 256" by (simp add: div_mult2_eq [symmetric])
  also have "\<dots> = a" unfolding q using assms(2) by simp
  finally show "v div 65536 mod 256 = a" using assms(1) by simp
  show "v div 256 mod 256 = b" unfolding q using assms(2) by simp
  show "v mod 256 = c" unfolding v using assms(3) by (subst mod_mult_self1) simp
qed

lemma b64_quanta_sextets: "b64_quanta (b64_sextets s) = Some s"
proof (induction s rule: b64_sextets.induct)
  case (2 a)
  let ?v = "of_char a * 65536 :: nat"
  have "?v div 64 = of_char a * 16 * 64" by simp
  then have "?v div 64 mod 64 = 0" and "?v mod 64 = 0" by (simp_all only: mod_mult_self2_is_0) simp
  then have v: "?v div 262144 * 262144 + ?v div 4096 mod 64 * 4096 = ?v"
    using b64_sextet_split [of ?v] by linarith
  have "?v div 65536 mod 256 = of_char a"
    using three_bytes [of "of_char a" 0 0 ?v] of_char_lt by simp
  then show ?case by (simp only: b64_sextets.simps b64_quanta.simps Let_def v char_of_eqI)
next
  case (3 a b)
  let ?v = "of_char a * 65536 + of_char b * 256 :: nat"
  have "?v = (of_char a * 1024 + of_char b * 4) * 64" by simp
  then have "?v mod 64 = 0" by (simp only: mod_mult_self2_is_0)
  then have v: "?v div 262144 * 262144 + ?v div 4096 mod 64 * 4096 + ?v div 64 mod 64 * 64 = ?v"
    using b64_sextet_split [of ?v] by linarith
  have "?v div 65536 mod 256 = of_char a" and "?v div 256 mod 256 = of_char b"
    using three_bytes [of "of_char a" "of_char b" 0 ?v] of_char_lt by simp_all
  then show ?case by (simp only: b64_sextets.simps b64_quanta.simps Let_def v char_of_eqI)
next
  case (4 a b c s)
  let ?v = "of_char a * 65536 + of_char b * 256 + of_char c :: nat"
  have "?v div 65536 mod 256 = of_char a" "?v div 256 mod 256 = of_char b" "?v mod 256 = of_char c"
    using three_bytes [of "of_char a" "of_char b" "of_char c" ?v] of_char_lt by simp_all
  then show ?case
    by (simp only: b64_sextets.simps b64_quanta.simps Let_def b64_sextet_split char_of_eqI 4 option.map)
qed simp

lemma b64_decode_encode: "b64_decode (b64_encode s) = Some s"
proof -
  let ?d = "b64_sextets s"
  have val: "map b64_val (map b64_digit ?d) = map Some ?d"
    using b64_sextets_lt by (simp add: b64_val_digit)
  have "b64_val (CHR 0x0A) = None" and "b64_val (CHR 0x0D) = None" by code_simp+
  then have "filter (\<lambda>c. c \<noteq> CHR 0x0A \<and> c \<noteq> CHR 0x0D) (map b64_digit ?d) = map b64_digit ?d"
    using b64_sextets_lt b64_val_digit by (fastforce simp: filter_id_conv)
  with val show ?thesis
    by (simp only: b64_decode_def b64_encode_def Let_def list_all_iff) (simp add: b64_quanta_sextets)
qed

lemma length_b64_encode: "length (b64_encode s) = (4 * length s + 2) div 3"
proof -
  have "length (b64_sextets s) = (4 * length s + 2) div 3"
    by (induction s rule: b64_sextets.induct) (auto simp: Let_def)
  then show ?thesis by (simp add: b64_encode_def)
qed

end
