(* ===== verification/Go_Json.thy ===== *)
theory Go_Json
  imports Go_Strings
begin

text \<open>
  What the program uses of \<open>encoding/json\<close>: reading exactly one JSON value from a text, and decoding
  a value into a Go struct. A \<open>json.RawMessage\<close> is the value it holds (\<open>None\<close> when the field was
  absent, so \<open>len(raw) == 0\<close>).
\<close>

section \<open>Values\<close>

datatype json =
    JNull
  | JBool bool
  | JNumber string
  | JString string
  | JArray "json list"
  | JObject "(string \<times> json) list"

text \<open>
  Decoding into a map keeps the last of several members with the same name.
\<close>

definition member :: "(string \<times> json) list \<Rightarrow> string \<Rightarrow> json option" where
  "member es k = map_of (rev es) k"

fun last_entries :: "(string \<times> 'v) list \<Rightarrow> (string \<times> 'v) list" where
  "last_entries [] = []"
| "last_entries ((k, v) # es) = (if k \<in> fst ` set es then last_entries es else (k, v) # last_entries es)"

lemma last_entries_subset: "set (last_entries es) \<subseteq> set es"
  by (induction es rule: last_entries.induct) auto

lemma fst_last_entries: "fst ` set (last_entries es) = fst ` set es"
  by (induction es rule: last_entries.induct) auto

lemma distinct_last_entries: "distinct (map fst (last_entries es))"
proof (induction es rule: last_entries.induct)
  case (2 k v es)
  have "fst ` set (last_entries es) = fst ` set es" by (rule fst_last_entries)
  with 2 show ?case by auto
qed simp

lemma member_last_entries: "member es k = map_of (last_entries es) k"
  unfolding member_def
proof (induction es rule: last_entries.induct)
  case (2 k' v es)
  show ?case
  proof (cases "k' \<in> fst ` set es")
    case True
    then obtain w where "map_of (rev es) k' = Some w"
      by (metis (no_types, lifting) domIff dom_map_of_conv_image_fst image_set option.exhaust rev_map set_rev)
    with 2 True show ?thesis by (auto simp: map_add_def split: option.splits)
  next
    case False
    then have "map_of (rev es) k' = None" by (simp add: map_of_eq_None_iff image_iff)
    with 2 False show ?thesis by (auto simp: map_add_def split: option.splits)
  qed
qed simp

section \<open>Text\<close>

definition is_json_space :: "char \<Rightarrow> bool" where
  "is_json_space c \<longleftrightarrow> c = CHR 0x20 \<or> c = CHR 0x09 \<or> c = CHR 0x0D \<or> c = CHR 0x0A"

definition skip_ws :: "string \<Rightarrow> string" where
  "skip_ws s = dropWhile is_json_space s"

lemma length_skip_ws: "length (skip_ws s) \<le> length s"
  by (simp add: skip_ws_def length_dropWhile_le)

definition byte :: "char \<Rightarrow> nat" where
  "byte c = of_char c"

text \<open>
  The number of bytes of the UTF-8 sequence at the head of a text, 0 when there is none.
\<close>

definition in_bytes :: "nat \<Rightarrow> nat \<Rightarrow> char \<Rightarrow> bool" where
  "in_bytes lo hi c \<longleftrightarrow> lo \<le> byte c \<and> byte c \<le> hi"

definition utf8_len :: "string \<Rightarrow> nat" where
  "utf8_len s =
     (case s of
        [] \<Rightarrow> 0
      | c # t \<Rightarrow>
          if in_bytes 0 0x7F c then 1
          else if in_bytes 0xC2 0xDF c then
            (case t of d # _ \<Rightarrow> if in_bytes 0x80 0xBF d then 2 else 0 | _ \<Rightarrow> 0)
          else if in_bytes 0xE0 0xEF c then
            (case t of d # e # _ \<Rightarrow>
               if in_bytes (if byte c = 0xE0 then 0xA0 else 0x80) (if byte c = 0xED then 0x9F else 0xBF) d \<and>
                  in_bytes 0x80 0xBF e then 3 else 0
             | _ \<Rightarrow> 0)
          else if in_bytes 0xF0 0xF4 c then
            (case t of d # e # f # _ \<Rightarrow>
               if in_bytes (if byte c = 0xF0 then 0x90 else 0x80) (if byte c = 0xF4 then 0x8F else 0xBF) d \<and>
                  in_bytes 0x80 0xBF e \<and> in_bytes 0x80 0xBF f then 4 else 0
             | _ \<Rightarrow> 0)
          else 0)"

definition utf8_encode :: "nat \<Rightarrow> string" where
  "utf8_encode r = map char_of
     (if r < 0x80 then [r]
      else if r < 0x800 then [0xC0 + r div 64, 0x80 + r mod 64]
      else if r < 0x10000 then [0xE0 + r div 4096, 0x80 + r div 64 mod 64, 0x80 + r mod 64]
      else [0xF0 + r div 262144, 0x80 + r div 4096 mod 64, 0x80 + r div 64 mod 64, 0x80 + r mod 64])"

definition rune_error :: string where
  "rune_error = [CHR 0xEF, CHR 0xBF, CHR 0xBD]"

definition hex4 :: "string \<Rightarrow> nat option" where
  "hex4 s = (case s of
      a # b # c # d # _ \<Rightarrow>
        (case (hex_val a, hex_val b, hex_val c, hex_val d) of
           (Some w, Some x, Some y, Some z) \<Rightarrow> Some (((w * 16 + x) * 16 + y) * 16 + z)
         | _ \<Rightarrow> None)
    | _ \<Rightarrow> None)"

text \<open>
  The rune of a \<open>\u\<close> escape whose first four digits are \<open>r\<close>, and how many of the bytes after them
  belong to it: a high surrogate takes a following escaped low surrogate along, a lone surrogate
  becomes the replacement rune.
\<close>

definition escape_rune :: "nat \<Rightarrow> string \<Rightarrow> string \<times> nat" where
  "escape_rune r rest =
     (if 0xD800 \<le> r \<and> r \<le> 0xDFFF then
        (case rest of
           b # u # more \<Rightarrow>
             (case if b = CHR 0x5C \<and> u = CHR ''u'' then hex4 more else None of
                Some r1 \<Rightarrow>
                  if r \<le> 0xDBFF \<and> 0xDC00 \<le> r1 \<and> r1 \<le> 0xDFFF
                  then (utf8_encode ((r - 0xD800) * 1024 + (r1 - 0xDC00) + 0x10000), 6)
                  else (rune_error, 0)
              | None \<Rightarrow> (rune_error, 0))
         | _ \<Rightarrow> (rune_error, 0))
      else (utf8_encode r, 0))"

definition simple_escape :: "char \<Rightarrow> char option" where
  "simple_escape e =
     (if e = CHR 0x22 \<or> e = CHR 0x5C \<or> e = CHR ''/'' then Some e
      else if e = CHR ''b'' then Some CHR 0x08 else if e = CHR ''f'' then Some CHR 0x0C
      else if e = CHR ''n'' then Some CHR 0x0A else if e = CHR ''r'' then Some CHR 0x0D
      else if e = CHR ''t'' then Some CHR 0x09 else None)"

text \<open>The rest of a string literal after its opening quote.\<close>

function json_chars :: "string \<Rightarrow> (string \<times> string) option" where
  "json_chars [] = None"
| "json_chars (c # s) =
     (if c = CHR 0x22 then Some ([], s)
      else if c = CHR 0x5C then
        (case s of
           [] \<Rightarrow> None
         | e # t \<Rightarrow>
             if e = CHR ''u'' then
               (case hex4 t of
                  None \<Rightarrow> None
                | Some r \<Rightarrow>
                    (case escape_rune r (drop 4 t) of
                       (bs, n) \<Rightarrow> map_option (\<lambda>(w, u). (bs @ w, u)) (json_chars (drop n (drop 4 t)))))
             else
               (case simple_escape e of
                  None \<Rightarrow> None
                | Some b \<Rightarrow> map_option (\<lambda>(w, u). (b # w, u)) (json_chars t)))
      else if byte c < 0x20 then None
      else if utf8_len (c # s) = 0 then map_option (\<lambda>(w, u). (rune_error @ w, u)) (json_chars s)
      else map_option (\<lambda>(w, u). (take (utf8_len (c # s)) (c # s) @ w, u))
             (json_chars (drop (utf8_len (c # s)) (c # s))))"
  by pat_completeness auto
termination
  by (relation "measure length") auto

text \<open>Number literals: an optional sign, an integer part without leading zeros, a fraction, an exponent.\<close>

definition digits :: "string \<Rightarrow> string" where
  "digits s = takeWhile is_digit s"

definition json_fraction :: "string \<Rightarrow> string option" where
  "json_fraction s =
     (case s of
        [] \<Rightarrow> Some []
      | c # t \<Rightarrow>
          if c \<noteq> CHR ''.'' then Some [] else if digits t = [] then None else Some (c # digits t))"

definition json_exponent :: "string \<Rightarrow> string option" where
  "json_exponent s =
     (case s of
        e # t \<Rightarrow>
          if e = CHR ''e'' \<or> e = CHR ''E'' then
            (let sign = (case t of c # _ \<Rightarrow> if c = CHR ''+'' \<or> c = CHR ''-'' then [c] else [] | [] \<Rightarrow> []);
                 ds = digits (drop (length sign) t)
             in if ds = [] then None else Some (e # sign @ ds))
          else Some []
      | [] \<Rightarrow> Some [])"

definition json_integer :: "string \<Rightarrow> string option" where
  "json_integer s =
     (case s of
        c # _ \<Rightarrow> if c = CHR ''0'' then Some [c] else if is_digit c then Some (digits s) else None
      | [] \<Rightarrow> None)"

definition json_number :: "string \<Rightarrow> (string \<times> string) option" where
  "json_number s =
     (let sign = (case s of c # _ \<Rightarrow> if c = CHR ''-'' then [c] else [] | [] \<Rightarrow> []);
          s1 = drop (length sign) s
      in case json_integer s1 of
           None \<Rightarrow> None
         | Some i \<Rightarrow>
             (case json_fraction (drop (length i) s1) of
                None \<Rightarrow> None
              | Some f \<Rightarrow>
                  (case json_exponent (drop (length i + length f) s1) of
                     None \<Rightarrow> None
                   | Some x \<Rightarrow>
                       (let lit = sign @ i @ f @ x in Some (lit, drop (length lit) s)))))"

definition max_nesting :: nat where
  "max_nesting = 10000"

text \<open>
  One value, the elements after an opening bracket and the members after an opening brace. The
  comparison of lengths before a recursive call always holds (each value takes at least a byte); it
  makes termination evident.
\<close>

function json_value :: "nat \<Rightarrow> string \<Rightarrow> (json \<times> string) option"
  and json_elements :: "nat \<Rightarrow> string \<Rightarrow> (json list \<times> string) option"
  and json_members :: "nat \<Rightarrow> string \<Rightarrow> ((string \<times> json) list \<times> string) option" where
  "json_value d s =
     (case skip_ws s of
        [] \<Rightarrow> None
      | c # t \<Rightarrow>
          if c = CHR ''{'' then
            (if max_nesting \<le> d then None
             else case skip_ws t of
                [] \<Rightarrow> None
              | b # u \<Rightarrow>
                  if b = CHR ''}'' then Some (JObject [], u)
                  else if length (b # u) < length s
                  then map_option (\<lambda>(es, r). (JObject es, r)) (json_members (d + 1) (b # u))
                  else None)
          else if c = CHR ''['' then
            (if max_nesting \<le> d then None
             else case skip_ws t of
                [] \<Rightarrow> None
              | b # u \<Rightarrow>
                  if b = CHR '']'' then Some (JArray [], u)
                  else if length (b # u) < length s
                  then map_option (\<lambda>(vs, r). (JArray vs, r)) (json_elements (d + 1) (b # u))
                  else None)
          else if c = CHR 0x22 then map_option (\<lambda>(w, r). (JString w, r)) (json_chars t)
          else if has_prefix ''null'' (c # t) then Some (JNull, drop 4 (c # t))
          else if has_prefix ''true'' (c # t) then Some (JBool True, drop 4 (c # t))
          else if has_prefix ''false'' (c # t) then Some (JBool False, drop 5 (c # t))
          else map_option (\<lambda>(w, r). (JNumber w, r)) (json_number (c # t)))"
| "json_elements d s =
     (case json_value d s of
        None \<Rightarrow> None
      | Some (v, r) \<Rightarrow>
          (case skip_ws r of
             [] \<Rightarrow> None
           | c # u \<Rightarrow>
               if c = CHR '']'' then Some ([v], u)
               else if c = CHR '','' \<and> length u < length s
               then map_option (\<lambda>(vs, r). (v # vs, r)) (json_elements d u)
               else None))"
| "json_members d s =
     (case skip_ws s of
        [] \<Rightarrow> None
      | q # t \<Rightarrow>
          (case if q = CHR 0x22 then json_chars t else None of
             None \<Rightarrow> None
           | Some (k, r) \<Rightarrow>
               (case skip_ws r of
                  [] \<Rightarrow> None
                | b # u \<Rightarrow>
                    (if b = CHR '':'' \<and> length u < length s then
                       (case json_value d u of
                          None \<Rightarrow> None
                        | Some (v, r') \<Rightarrow>
                            (case skip_ws r' of
                               [] \<Rightarrow> None
                             | c # u' \<Rightarrow>
                                 if c = CHR ''}'' then Some ([(k, v)], u')
                                 else if c = CHR '','' \<and> length u' < length s
                                 then map_option (\<lambda>(es, r). ((k, v) # es, r)) (json_members d u')
                                 else None))
                     else None))))"
  by pat_completeness auto
termination
  by (relation "measure (case_sum (\<lambda>(d, s). 2 * length s)
        (case_sum (\<lambda>(d, s). 2 * length s + 1) (\<lambda>(d, s). 2 * length s + 1)))") auto

text \<open>
  \<open>decoder.Decode\<close> followed by a second \<open>Decode\<close> that must report the end of the input, and
  \<open>json.Unmarshal\<close>: exactly one value with nothing but white space around it.
\<close>

definition json_decode :: "string \<Rightarrow> json option" where
  "json_decode s =
     (case json_value 0 s of
        None \<Rightarrow> None
      | Some (v, r) \<Rightarrow> if skip_ws r = [] then Some v else None)"

section \<open>Integers in decimal\<close>

text \<open>\<open>strconv.Atoi\<close>: an optional sign and decimal digits, refused outside 64 bits.\<close>

definition digits_value :: "string \<Rightarrow> int" where
  "digits_value ds = foldl (\<lambda>n c. n * 10 + (int (byte c) - 48)) 0 ds"

definition go_atoi :: "string \<Rightarrow> int option" where
  "go_atoi s =
     (case s of
        [] \<Rightarrow> None
      | c # t \<Rightarrow>
          (let ds = (if c = CHR ''-'' \<or> c = CHR ''+'' then t else s);
               v = (if c = CHR ''-'' then - digits_value ds else digits_value ds)
           in if ds = [] \<or> \<not> list_all is_digit ds \<or> v < min_int64 \<or> max_int64 < v then None else Some v))"

fun nat_digits :: "nat \<Rightarrow> string" where
  "nat_digits n = (if n < 10 then [char_of (48 + n)] else nat_digits (n div 10) @ [char_of (48 + n mod 10)])"

definition go_itoa :: "int \<Rightarrow> string" where
  "go_itoa i = (if i < 0 then CHR ''-'' # nat_digits (nat (- i)) else nat_digits (nat i))"

declare nat_digits.simps [simp del]

lemma digits_value_snoc: "digits_value (ds @ [c]) = digits_value ds * 10 + (int (byte c) - 48)"
  by (simp add: digits_value_def)

lemma digit_byte: "n < 10 \<Longrightarrow> byte (char_of (48 + n)) = 48 + n"
  by (simp add: byte_def)

lemma is_digit_char_of: "n < 10 \<Longrightarrow> is_digit (char_of (48 + n :: nat))"
  by (auto simp: is_digit_def less_eq_char_def)

lemma nat_digits_value: "digits_value (nat_digits n) = int n"
proof (induction n rule: nat_digits.induct)
  case (1 n)
  show ?case
  proof (cases "n < 10")
    case True
    then show ?thesis by (subst nat_digits.simps) (simp add: digits_value_def digit_byte)
  next
    case False
    have "int (n div 10) * 10 + int (n mod 10) = int n" by presburger
    with False 1 show ?thesis by (subst nat_digits.simps) (simp add: digits_value_snoc digit_byte)
  qed
qed

lemma nat_digits_all: "list_all is_digit (nat_digits n) \<and> nat_digits n \<noteq> []"
proof (induction n rule: nat_digits.induct)
  case (1 n)
  then show ?case by (cases "n < 10"; subst nat_digits.simps; subst nat_digits.simps; simp add: is_digit_char_of)
qed

lemma go_atoi_itoa: "min_int64 \<le> i \<Longrightarrow> i \<le> max_int64 \<Longrightarrow> go_atoi (go_itoa i) = Some i"
proof -
  assume b: "min_int64 \<le> i" "i \<le> max_int64"
  have nosign: "c \<noteq> CHR ''-'' \<and> c \<noteq> CHR ''+''" if "nat_digits n = c # t" for n c t
    using nat_digits_all [of n] that by (auto simp: is_digit_def)
  show ?thesis
  proof (cases "i < 0")
    case True
    with b nat_digits_all [of "nat (- i)"] show ?thesis
      by (simp add: go_itoa_def go_atoi_def Let_def nat_digits_value)
  next
    case False
    then obtain c t where "nat_digits (nat i) = c # t" using nat_digits_all by (metis neq_Nil_conv)
    with b False nosign nat_digits_all [of "nat i"] nat_digits_value [of "nat i"] show ?thesis
      by (simp add: go_itoa_def go_atoi_def Let_def)
  qed
qed

section \<open>Decoding into a struct\<close>

text \<open>
  The decoder goes through an object's members in order and reports the first mismatch. A member
  belongs to the field of exactly that name, otherwise to the field whose name it folds to; a name
  without a field is skipped, or refused when unknown fields are disallowed. A field decoder maps the
  struct so far to the struct with that field set, so a repeated member acts on what the first left.
\<close>

datatype decode_error = UnknownField string | Mismatch

fun fold_name :: "string \<Rightarrow> string" where
  "fold_name [] = []"
| "fold_name (c # s) =
     (if has_prefix [CHR 0xC5, CHR 0xBF] (c # s) then CHR ''S'' # fold_name (drop 1 s)
      else if has_prefix [CHR 0xE2, CHR 0x84, CHR 0xAA] (c # s) then CHR ''K'' # fold_name (drop 2 s)
      else (if is_lower c then char_of (byte c - 32) else c) # fold_name s)"

type_synonym 'r field = "string \<times> (json \<Rightarrow> 'r \<Rightarrow> decode_error + 'r)"

definition find_field :: "'r field list \<Rightarrow> string \<Rightarrow> (json \<Rightarrow> 'r \<Rightarrow> decode_error + 'r) option" where
  "find_field fs k =
     (case map_of fs k of
        Some d \<Rightarrow> Some d
      | None \<Rightarrow> map_of (map (\<lambda>(n, d). (fold_name n, d)) fs) (fold_name k))"

fun decode_members :: "bool \<Rightarrow> 'r field list \<Rightarrow> (string \<times> json) list \<Rightarrow> 'r \<Rightarrow> decode_error + 'r" where
  "decode_members strict fs [] r = Inr r"
| "decode_members strict fs ((k, v) # es) r =
     (case find_field fs k of
        None \<Rightarrow> if strict then Inl (UnknownField k) else decode_members strict fs es r
      | Some d \<Rightarrow>
          (case d v r of
             Inl e \<Rightarrow> Inl e
           | Inr r' \<Rightarrow> decode_members strict fs es r'))"

definition decode_struct :: "bool \<Rightarrow> 'r field list \<Rightarrow> json \<Rightarrow> 'r \<Rightarrow> decode_error + 'r" where
  "decode_struct strict fs v r =
     (case v of
        JNull \<Rightarrow> Inr r
      | JObject es \<Rightarrow> decode_members strict fs es r
      | _ \<Rightarrow> Inl Mismatch)"

fun decode_array :: "(json \<Rightarrow> 'a \<Rightarrow> decode_error + 'a) \<Rightarrow> 'a \<Rightarrow> json list \<Rightarrow> 'a list \<Rightarrow> decode_error + 'a list" where
  "decode_array d zero [] old = Inr []"
| "decode_array d zero (v # vs) old =
     (case d v (case old of [] \<Rightarrow> zero | x # _ \<Rightarrow> x) of
        Inl e \<Rightarrow> Inl e
      | Inr x \<Rightarrow>
          (case decode_array d zero vs (drop 1 old) of
             Inl e \<Rightarrow> Inl e
           | Inr xs \<Rightarrow> Inr (x # xs)))"

definition decode_slice ::
  "(json \<Rightarrow> 'a \<Rightarrow> decode_error + 'a) \<Rightarrow> 'a \<Rightarrow> json \<Rightarrow> 'a list \<Rightarrow> decode_error + 'a list" where
  "decode_slice d zero v old =
     (case v of
        JNull \<Rightarrow> Inr []
      | JArray vs \<Rightarrow> decode_array d zero vs old
      | _ \<Rightarrow> Inl Mismatch)"

definition decode_string :: "json \<Rightarrow> string \<Rightarrow> decode_error + string" where
  "decode_string v old =
     (case v of JNull \<Rightarrow> Inr old | JString s \<Rightarrow> Inr s | _ \<Rightarrow> Inl Mismatch)"

definition decode_string_ptr :: "json \<Rightarrow> string option \<Rightarrow> decode_error + string option" where
  "decode_string_ptr v old =
     (case v of JNull \<Rightarrow> Inr None | JString s \<Rightarrow> Inr (Some s) | _ \<Rightarrow> Inl Mismatch)"

definition decode_bool_ptr :: "json \<Rightarrow> bool option \<Rightarrow> decode_error + bool option" where
  "decode_bool_ptr v old =
     (case v of JNull \<Rightarrow> Inr None | JBool b \<Rightarrow> Inr (Some b) | _ \<Rightarrow> Inl Mismatch)"

definition decode_int :: "json \<Rightarrow> int \<Rightarrow> decode_error + int" where
  "decode_int v old =
     (case v of
        JNull \<Rightarrow> Inr old
      | JNumber lit \<Rightarrow> (case go_atoi lit of None \<Rightarrow> Inl Mismatch | Some i \<Rightarrow> Inr i)
      | _ \<Rightarrow> Inl Mismatch)"

definition decode_int_ptr :: "json \<Rightarrow> int option \<Rightarrow> decode_error + int option" where
  "decode_int_ptr v old =
     (case v of
        JNull \<Rightarrow> Inr None
      | JNumber lit \<Rightarrow> (case go_atoi lit of None \<Rightarrow> Inl Mismatch | Some i \<Rightarrow> Inr (Some i))
      | _ \<Rightarrow> Inl Mismatch)"

definition decode_raw :: "json \<Rightarrow> json option \<Rightarrow> decode_error + json option" where
  "decode_raw v old = Inr (Some v)"

text \<open>A field decoder from a decoder for the field's type and the record's selector and update.\<close>

definition field_of ::
  "string \<Rightarrow> (json \<Rightarrow> 'f \<Rightarrow> decode_error + 'f) \<Rightarrow> ('r \<Rightarrow> 'f) \<Rightarrow> (('f \<Rightarrow> 'f) \<Rightarrow> 'r \<Rightarrow> 'r) \<Rightarrow> 'r field" where
  "field_of n d sel upd =
     (n, \<lambda>v r. case d v (sel r) of Inl e \<Rightarrow> Inl e | Inr x \<Rightarrow> Inr (upd (\<lambda>_. x) r))"

text \<open>\<open>bytes.Equal(bytes.TrimSpace(raw), []byte("null"))\<close> and \<open>len(raw) == 0\<close>.\<close>

definition raw_absent :: "json option \<Rightarrow> bool" where
  "raw_absent raw \<longleftrightarrow> raw = None"

definition raw_null :: "json option \<Rightarrow> bool" where
  "raw_null raw \<longleftrightarrow> raw = Some JNull"

end
