(* ===== verification/Gateway_Request.thy ===== *)
theory Gateway_Request
  imports Complex_Main Go_Json "HOL-Library.Multiset"
begin

text \<open>
  \<open>internal/gateway/request.go\<close>: the bounded Chat Completions request the gateway accepts, its
  decoding from JSON and its validation. A validator returns the error it reports, \<open>None\<close> for nil.
  A \<open>float64\<close> is the rational number it stands for; \<open>parse_float\<close>, the rounding of a literal to the
  nearest double, is a parameter.
\<close>

section \<open>The request\<close>

definition max_messages :: int where "max_messages = 128"
definition max_message_parts :: int where "max_message_parts = 128"
definition max_tools :: int where "max_tools = 128"
definition max_tool_calls :: int where "max_tool_calls = 128"
definition max_tool_name_length :: int where "max_tool_name_length = 64"
definition max_reasoning_bytes :: int where "max_reasoning_bytes = 262144"

lemmas request_limits = max_messages_def max_message_parts_def max_tools_def max_tool_calls_def
  max_tool_name_length_def max_reasoning_bytes_def

record stream_options =
  so_include_usage :: "bool option"

record tool_function =
  tf_name :: string
  tf_arguments :: string

record tool_call =
  tc_id :: string
  tc_type :: string
  tc_function :: tool_function
  tc_namespace :: string

record message =
  m_role :: string
  m_content :: "json option"
  m_reasoning_content :: "string option"
  m_tool_calls :: "tool_call list"
  m_tool_call_id :: string
  m_name :: string

record tool_definition =
  td_name :: string
  td_description :: string
  td_parameters :: "json option"
  td_strict :: "bool option"

record tool =
  tl_type :: string
  tl_function :: tool_definition

record text_part =
  tp_type :: string
  tp_text :: string

record named_tool_choice =
  nc_type :: string
  nc_name :: string

record responses_tool_identity =
  ti_namespace :: string
  ti_name :: string

record chat_request =
  cr_model :: string
  cr_messages :: "message list"
  cr_stream :: "bool option"
  cr_stream_options :: "stream_options option"
  cr_temperature :: "rat option"
  cr_top_p :: "rat option"
  cr_max_tokens :: "int option"
  cr_max_completion_tokens :: "int option"
  cr_reasoning_effort :: string
  cr_stop :: "json option"
  cr_parallel_tool_calls :: "bool option"
  cr_tools :: "tool list"
  cr_tool_choice :: "json option"
  cr_responses_tool_aliases :: "(string, responses_tool_identity) go_map"

record request_error =
  re_status :: int
  re_code :: string
  re_message :: string

definition zero_request :: chat_request where
  "zero_request =
     \<lparr>cr_model = [], cr_messages = [], cr_stream = None, cr_stream_options = None,
      cr_temperature = None, cr_top_p = None, cr_max_tokens = None, cr_max_completion_tokens = None,
      cr_reasoning_effort = [], cr_stop = None, cr_parallel_tool_calls = None, cr_tools = [],
      cr_tool_choice = None, cr_responses_tool_aliases = []\<rparr>"

definition bad_request :: "string \<Rightarrow> string \<Rightarrow> request_error" where
  "bad_request code msg = \<lparr>re_status = 400, re_code = code, re_message = msg\<rparr>"

definition invalid_messages :: "string \<Rightarrow> request_error option" where
  "invalid_messages msg = Some (bad_request ''invalid_messages'' msg)"

definition invalid_tools :: "string \<Rightarrow> request_error" where
  "invalid_tools msg = bad_request ''invalid_tools'' msg"

definition invalid_tool_choice :: request_error where
  "invalid_tool_choice =
     bad_request ''invalid_tool_choice'' ''tool_choice must select a declared supported function tool''"

section \<open>Decoding\<close>

text \<open>
  The fields of each struct. \<open>strict\<close> says whether the decoder refuses unknown fields in the structs
  within, which \<open>DisallowUnknownFields\<close> sets for a whole decoder.
\<close>

definition stream_options_fields :: "stream_options field list" where
  "stream_options_fields = [field_of ''include_usage'' decode_bool_ptr so_include_usage so_include_usage_update]"

definition tool_function_fields :: "tool_function field list" where
  "tool_function_fields =
     [field_of ''name'' decode_string tf_name tf_name_update,
      field_of ''arguments'' decode_string tf_arguments tf_arguments_update]"

definition tool_call_fields :: "bool \<Rightarrow> tool_call field list" where
  "tool_call_fields strict =
     [field_of ''id'' decode_string tc_id tc_id_update,
      field_of ''type'' decode_string tc_type tc_type_update,
      field_of ''function'' (decode_struct strict tool_function_fields) tc_function tc_function_update]"

definition zero_tool_call :: tool_call where
  "zero_tool_call = \<lparr>tc_id = [], tc_type = [], tc_function = \<lparr>tf_name = [], tf_arguments = []\<rparr>, tc_namespace = []\<rparr>"

definition message_fields :: "bool \<Rightarrow> message field list" where
  "message_fields strict =
     [field_of ''role'' decode_string m_role m_role_update,
      field_of ''content'' decode_raw m_content m_content_update,
      field_of ''reasoning_content'' decode_string_ptr m_reasoning_content m_reasoning_content_update,
      field_of ''tool_calls'' (decode_slice (decode_struct strict (tool_call_fields strict)) zero_tool_call)
        m_tool_calls m_tool_calls_update,
      field_of ''tool_call_id'' decode_string m_tool_call_id m_tool_call_id_update,
      field_of ''name'' decode_string m_name m_name_update]"

definition zero_message :: message where
  "zero_message = \<lparr>m_role = [], m_content = None, m_reasoning_content = None, m_tool_calls = [],
     m_tool_call_id = [], m_name = []\<rparr>"

definition tool_definition_fields :: "tool_definition field list" where
  "tool_definition_fields =
     [field_of ''name'' decode_string td_name td_name_update,
      field_of ''description'' decode_string td_description td_description_update,
      field_of ''parameters'' decode_raw td_parameters td_parameters_update,
      field_of ''strict'' decode_bool_ptr td_strict td_strict_update]"

definition tool_fields :: "bool \<Rightarrow> tool field list" where
  "tool_fields strict =
     [field_of ''type'' decode_string tl_type tl_type_update,
      field_of ''function'' (decode_struct strict tool_definition_fields) tl_function tl_function_update]"

definition zero_tool :: tool where
  "zero_tool = \<lparr>tl_type = [], tl_function = \<lparr>td_name = [], td_description = [], td_parameters = None, td_strict = None\<rparr>\<rparr>"

definition decode_float_ptr :: "(string \<Rightarrow> rat option) \<Rightarrow> json \<Rightarrow> rat option \<Rightarrow> decode_error + rat option" where
  "decode_float_ptr parse_float v old =
     (case v of
        JNull \<Rightarrow> Inr None
      | JNumber lit \<Rightarrow> (case parse_float lit of None \<Rightarrow> Inl Mismatch | Some f \<Rightarrow> Inr (Some f))
      | _ \<Rightarrow> Inl Mismatch)"

definition decode_stream_options :: "bool \<Rightarrow> json \<Rightarrow> stream_options option \<Rightarrow> decode_error + stream_options option" where
  "decode_stream_options strict v old =
     (case v of
        JNull \<Rightarrow> Inr None
      | _ \<Rightarrow>
          (case decode_struct strict stream_options_fields v
                  (case old of None \<Rightarrow> \<lparr>so_include_usage = None\<rparr> | Some o' \<Rightarrow> o') of
             Inl e \<Rightarrow> Inl e
           | Inr x \<Rightarrow> Inr (Some x)))"

definition chat_request_fields :: "bool \<Rightarrow> (string \<Rightarrow> rat option) \<Rightarrow> chat_request field list" where
  "chat_request_fields strict parse_float =
     [field_of ''model'' decode_string cr_model cr_model_update,
      field_of ''messages'' (decode_slice (decode_struct strict (message_fields strict)) zero_message)
        cr_messages cr_messages_update,
      field_of ''stream'' decode_bool_ptr cr_stream cr_stream_update,
      field_of ''stream_options'' (decode_stream_options strict) cr_stream_options cr_stream_options_update,
      field_of ''temperature'' (decode_float_ptr parse_float) cr_temperature cr_temperature_update,
      field_of ''top_p'' (decode_float_ptr parse_float) cr_top_p cr_top_p_update,
      field_of ''max_tokens'' decode_int_ptr cr_max_tokens cr_max_tokens_update,
      field_of ''max_completion_tokens'' decode_int_ptr cr_max_completion_tokens cr_max_completion_tokens_update,
      field_of ''reasoning_effort'' decode_string cr_reasoning_effort cr_reasoning_effort_update,
      field_of ''stop'' decode_raw cr_stop cr_stop_update,
      field_of ''parallel_tool_calls'' decode_bool_ptr cr_parallel_tool_calls cr_parallel_tool_calls_update,
      field_of ''tools'' (decode_slice (decode_struct strict (tool_fields strict)) zero_tool) cr_tools cr_tools_update,
      field_of ''tool_choice'' decode_raw cr_tool_choice cr_tool_choice_update]"

text \<open>\<open>decodeStrict\<close> into a \<open>ChatRequest\<close>: the first error of the value itself, then what follows it.\<close>

definition decode_strict :: "'r field list \<Rightarrow> 'r \<Rightarrow> string \<Rightarrow> decode_error + 'r" where
  "decode_strict fs zero data =
     (case json_value 0 data of
        None \<Rightarrow> Inl Mismatch
      | Some (v, rest) \<Rightarrow>
          (case decode_struct True fs v zero of
             Inl e \<Rightarrow> Inl e
           | Inr r \<Rightarrow> if skip_ws rest = [] then Inr r else Inl Mismatch))"

definition decode_chat_request :: "(string \<Rightarrow> rat option) \<Rightarrow> string \<Rightarrow> decode_error + chat_request" where
  "decode_chat_request parse_float data = decode_strict (chat_request_fields True parse_float) zero_request data"

section \<open>Names and metadata\<close>

definition safe_metadata :: "string \<Rightarrow> string \<Rightarrow> bool" where
  "safe_metadata value extra \<longleftrightarrow>
     list_all (\<lambda>c. is_lower c \<or> is_upper c \<or> is_digit c \<or> c \<in> set (''._:-'' @ extra)) value"

definition valid_tool_name :: "string \<Rightarrow> bool" where
  "valid_tool_name value \<longleftrightarrow>
     value \<noteq> [] \<and> int (length value) \<le> max_tool_name_length \<and>
     list_all (\<lambda>c. is_lower c \<or> is_upper c \<or> is_digit c \<or> c = CHR ''_'' \<or> c = CHR ''-'') value"

definition valid_tool_call_id :: "string \<Rightarrow> bool" where
  "valid_tool_call_id value \<longleftrightarrow> value \<noteq> [] \<and> length value \<le> 200 \<and> safe_metadata value ''-''"

text \<open>\<open>decodeJSONValue\<close> into a \<open>map[string]interface{}\<close>: \<open>null\<close> leaves the map nil.\<close>

definition valid_json_object_string :: "string \<Rightarrow> bool" where
  "valid_json_object_string value =
     (case json_decode value of Some (JObject _) \<Rightarrow> True | _ \<Rightarrow> False)"

section \<open>Content\<close>

definition text_part_fields :: "text_part field list" where
  "text_part_fields =
     [field_of ''type'' decode_string tp_type tp_type_update,
      field_of ''text'' decode_string tp_text tp_text_update]"

definition zero_text_part :: text_part where
  "zero_text_part = \<lparr>tp_type = [], tp_text = []\<rparr>"

text \<open>\<open>None\<close> is an error; otherwise whether the content holds text.\<close>

definition valid_text_content :: "json option \<Rightarrow> bool \<Rightarrow> bool \<Rightarrow> bool option" where
  "valid_text_content raw allow_null allow_parts =
     (case raw of
        None \<Rightarrow> None
      | Some JNull \<Rightarrow> if allow_null then Some False else None
      | Some (JString text) \<Rightarrow> Some (text \<noteq> [])
      | Some v \<Rightarrow>
          if \<not> allow_parts then None
          else (case decode_slice (decode_struct True text_part_fields) zero_text_part v [] of
                  Inl _ \<Rightarrow> None
                | Inr parts \<Rightarrow>
                    if parts = [] \<or> int (length parts) > max_message_parts then None
                    else if list_ex (\<lambda>p. tp_type p \<noteq> ''text'' \<or> tp_text p = []) parts then None
                    else Some True))"

section \<open>Messages\<close>

text \<open>
  \<open>outstanding\<close> maps the calls still to be answered to their function names, \<open>seen\<close> is the set of all
  call identifiers so far.
\<close>

fun validate_calls ::
  "tool_call list \<Rightarrow> (string, string) go_map \<Rightarrow> string set \<Rightarrow>
   request_error + (string, string) go_map \<times> string set" where
  "validate_calls [] outstanding seen = Inr (outstanding, seen)"
| "validate_calls (call # calls) outstanding seen =
     (if tc_type call \<noteq> ''function'' \<or> \<not> valid_tool_name (tf_name (tc_function call)) \<or>
         \<not> valid_tool_call_id (tc_id call)
      then Inl (bad_request ''invalid_messages'' ''assistant tool calls must be named function calls'')
      else if tc_id call \<in> seen
      then Inl (bad_request ''invalid_messages'' ''assistant tool call IDs must be unique'')
      else if \<not> valid_json_object_string (tf_arguments (tc_function call))
      then Inl (bad_request ''invalid_messages'' ''assistant tool call arguments must be a JSON object string'')
      else validate_calls calls (AList.update (tc_id call) (tf_name (tc_function call)) outstanding)
             (insert (tc_id call) seen))"

definition validate_message ::
  "message \<Rightarrow> (string, string) go_map \<Rightarrow> string set \<Rightarrow>
   request_error + (string, string) go_map \<times> string set" where
  "validate_message m outstanding seen =
     (let bad = (\<lambda>msg. Inl (bad_request ''invalid_messages'' msg))
      in if m_role m \<noteq> ''tool'' \<and> outstanding \<noteq> []
         then bad ''tool results must immediately follow the assistant tool calls they answer''
         else if m_role m = ''system'' \<or> m_role m = ''user'' then
           (if m_reasoning_content m \<noteq> None \<or> m_tool_calls m \<noteq> [] \<or> m_tool_call_id m \<noteq> [] \<or> m_name m \<noteq> []
            then bad ''message fields are outside the supported text subset''
            else if valid_text_content (m_content m) False True \<noteq> Some True
            then bad ''system and user content must be non-empty text''
            else Inr (outstanding, seen))
         else if m_role m = ''assistant'' then
           (if m_tool_call_id m \<noteq> [] \<or> m_name m \<noteq> [] \<or> int (length (m_tool_calls m)) > max_tool_calls
            then bad ''assistant message fields are outside the supported subset''
            else if (case m_reasoning_content m of None \<Rightarrow> False | Some t \<Rightarrow> int (length t) > max_reasoning_bytes)
            then bad ''assistant reasoning content exceeds the supported limit''
            else (case valid_text_content (m_content m) (m_tool_calls m \<noteq> []) True of
                    None \<Rightarrow> bad ''assistant content must be text or accompanied by function tool calls''
                  | Some has_text \<Rightarrow>
                      if \<not> has_text \<and> m_tool_calls m = []
                      then bad ''assistant content must be text or accompanied by function tool calls''
                      else validate_calls (m_tool_calls m) outstanding seen))
         else if m_role m = ''tool'' then
           (if m_reasoning_content m \<noteq> None \<or> m_tool_calls m \<noteq> [] \<or> \<not> valid_tool_call_id (m_tool_call_id m)
            then bad ''tool messages require a valid tool_call_id''
            else (case map_of outstanding (m_tool_call_id m) of
                    None \<Rightarrow> bad ''tool messages must answer a preceding assistant tool call''
                  | Some expected \<Rightarrow>
                      if m_name m \<noteq> [] \<and> (m_name m \<noteq> expected \<or> \<not> valid_tool_name (m_name m))
                      then bad ''tool result name does not match its assistant tool call''
                      else if valid_text_content (m_content m) False False \<noteq> Some True
                      then bad ''tool result content must be a non-empty string''
                      else Inr (AList.delete (m_tool_call_id m) outstanding, seen)))
         else bad ''message role is outside the supported subset'')"

fun validate_messages_from ::
  "message list \<Rightarrow> (string, string) go_map \<Rightarrow> string set \<Rightarrow> request_error option" where
  "validate_messages_from [] outstanding seen =
     (if outstanding \<noteq> []
      then invalid_messages ''every assistant tool call must have a following tool result'' else None)"
| "validate_messages_from (m # ms) outstanding seen =
     (case validate_message m outstanding seen of
        Inl e \<Rightarrow> Some e
      | Inr (outstanding', seen') \<Rightarrow> validate_messages_from ms outstanding' seen')"

definition validate_messages :: "message list \<Rightarrow> request_error option" where
  "validate_messages ms = validate_messages_from ms [] {}"

section \<open>Tools\<close>

lemma size_member: "(k, c) \<in> set (last_entries es) \<Longrightarrow> size c < size (JObject es)"
proof -
  assume "(k, c) \<in> set (last_entries es)"
  then have "(k, c) \<in> set es" using last_entries_subset by blast
  then have "size_prod (\<lambda>_. 0) size (k, c) \<le> size_list (size_prod (\<lambda>_. 0) size) es"
    by (rule size_list_estimation') simp
  then show ?thesis by simp
qed

lemma size_element: "c \<in> set vs \<Longrightarrow> size c < size (JArray vs)"
  using size_list_estimation' [of c vs "size c" size] by simp

function validate_json_depth :: "json \<Rightarrow> nat \<Rightarrow> bool" where
  "validate_json_depth v depth =
     (if depth > 32 then False
      else (case v of
              JObject es \<Rightarrow>
                list_all (\<lambda>(k, c). k \<noteq> [] \<and> length k \<le> 256 \<and> validate_json_depth c (depth + 1)) (last_entries es)
            | JArray vs \<Rightarrow> list_all (\<lambda>c. validate_json_depth c (depth + 1)) vs
            | _ \<Rightarrow> True))"
  by pat_completeness auto
termination
  by (relation "measure (\<lambda>(v, depth). 33 - depth)") auto

declare validate_json_depth.simps [simp del]

definition validate_required :: "(string \<times> json) list \<Rightarrow> json list \<Rightarrow> bool" where
  "validate_required properties required \<longleftrightarrow>
     list_all (\<lambda>v. case v of JString name \<Rightarrow> name \<noteq> [] \<and> member properties name \<noteq> None | _ \<Rightarrow> False) required \<and>
     distinct required"

definition validate_tool_parameters :: "json option \<Rightarrow> bool" where
  "validate_tool_parameters raw =
     (case raw of
        Some (JObject schema) \<Rightarrow>
          (if member schema ''type'' \<noteq> Some (JString ''object'') then False
           else (case member schema ''properties'' of
                   Some (JObject properties) \<Rightarrow>
                     (case member schema ''required'' of
                        None \<Rightarrow> True
                      | Some (JArray required) \<Rightarrow> validate_required properties required
                      | Some _ \<Rightarrow> False) \<and>
                     validate_json_depth (JObject schema) 0
                 | _ \<Rightarrow> False))
      | _ \<Rightarrow> False)"

fun validate_tools_from :: "tool list \<Rightarrow> string set \<Rightarrow> request_error + string set" where
  "validate_tools_from [] names = Inr names"
| "validate_tools_from (t # ts) names =
     (let def = tl_function t
      in if tl_type t \<noteq> ''function'' \<or> \<not> valid_tool_name (td_name def)
         then Inl (invalid_tools ''tools must be named function definitions'')
         else if length (td_description def) > 8192
         then Inl (invalid_tools ''tool descriptions exceed the supported limit'')
         else if td_name def \<in> names then Inl (invalid_tools ''tool names must be unique'')
         else if \<not> validate_tool_parameters (td_parameters def)
         then Inl (invalid_tools ''tool parameters must be a supported object JSON Schema'')
         else validate_tools_from ts (insert (td_name def) names))"

definition validate_tools :: "tool list \<Rightarrow> request_error + string set" where
  "validate_tools tools =
     (if int (length tools) > max_tools
      then Inl (invalid_tools ''tools must contain at most 128 function definitions'')
      else validate_tools_from tools {})"

definition named_tool_choice_fields :: "named_tool_choice field list" where
  "named_tool_choice_fields =
     [field_of ''type'' decode_string nc_type nc_type_update,
      field_of ''function'' (decode_struct True [field_of ''name'' decode_string id (\<lambda>f. f)]) nc_name nc_name_update]"

definition validate_tool_choice :: "json option \<Rightarrow> string set \<Rightarrow> request_error option" where
  "validate_tool_choice raw tools =
     (case raw of
        None \<Rightarrow> None
      | Some JNull \<Rightarrow> Some invalid_tool_choice
      | Some (JString choice) \<Rightarrow>
          if choice \<noteq> ''auto'' \<and> choice \<noteq> ''none'' \<and> choice \<noteq> ''required'' then Some invalid_tool_choice
          else if choice \<noteq> ''none'' \<and> tools = {} then Some invalid_tool_choice else None
      | Some v \<Rightarrow>
          (case decode_struct True named_tool_choice_fields v \<lparr>nc_type = [], nc_name = []\<rparr> of
             Inl _ \<Rightarrow> Some invalid_tool_choice
           | Inr named \<Rightarrow>
               if nc_type named \<noteq> ''function'' \<or> \<not> valid_tool_name (nc_name named) then Some invalid_tool_choice
               else if nc_name named \<notin> tools then Some invalid_tool_choice else None))"

section \<open>The whole request\<close>

definition bounded_stop :: "string \<Rightarrow> bool" where
  "bounded_stop s \<longleftrightarrow> s \<noteq> [] \<and> length s \<le> 1024"

definition validate_stop :: "json option \<Rightarrow> request_error option" where
  "validate_stop raw =
     (let unbounded = Some (bad_request ''invalid_stop'' ''stop must contain bounded non-empty text'')
      in case raw of
           None \<Rightarrow> None
         | Some JNull \<Rightarrow> unbounded
         | Some (JString single) \<Rightarrow> if bounded_stop single then None else unbounded
         | Some v \<Rightarrow>
             (case decode_slice decode_string [] v [] of
                Inl _ \<Rightarrow> Some (bad_request ''invalid_stop'' ''stop must be text or an array of up to 16 strings'')
              | Inr values \<Rightarrow>
                  if values = [] \<or> length values > 16
                  then Some (bad_request ''invalid_stop'' ''stop must be text or an array of up to 16 strings'')
                  else if list_all bounded_stop values then None else unbounded))"

definition streaming :: "chat_request \<Rightarrow> bool" where
  "streaming r \<longleftrightarrow> cr_stream r = Some True"

definition max_output_tokens :: "chat_request \<Rightarrow> int option" where
  "max_output_tokens r =
     (case cr_max_completion_tokens r of Some n \<Rightarrow> Some n | None \<Rightarrow> cr_max_tokens r)"

definition outside :: "'n::linorder option \<Rightarrow> 'n \<Rightarrow> 'n \<Rightarrow> bool" where
  "outside x lo hi = (case x of None \<Rightarrow> False | Some v \<Rightarrow> v < lo \<or> hi < v)"

definition reasoning_efforts :: "string list" where
  "reasoning_efforts = [''none'', ''minimal'', ''low'', ''medium'', ''high'', ''xhigh'']"

definition validate_request :: "chat_request \<Rightarrow> request_error option" where
  "validate_request r =
     (if cr_model r = [] \<or> length (cr_model r) > 128
      then Some (bad_request ''invalid_model'' ''model alias is required'')
      else if cr_messages r = [] \<or> int (length (cr_messages r)) > max_messages
      then Some (bad_request ''invalid_messages'' ''messages must contain between 1 and 128 entries'')
      else case validate_messages (cr_messages r) of Some e \<Rightarrow> Some e | None \<Rightarrow>
      if outside (cr_temperature r) 0 2
      then Some (bad_request ''invalid_temperature'' ''temperature must be between 0 and 2'')
      else if outside (cr_top_p r) 0 1
      then Some (bad_request ''invalid_top_p'' ''top_p must be between 0 and 1'')
      else if cr_max_tokens r \<noteq> None \<and> cr_max_completion_tokens r \<noteq> None
      then Some (bad_request ''invalid_max_tokens'' ''max_tokens and max_completion_tokens cannot both be supplied'')
      else if outside (max_output_tokens r) 1 1000000
      then Some (bad_request ''invalid_max_tokens'' ''max_tokens is outside the supported range'')
      else if cr_reasoning_effort r \<noteq> [] \<and> cr_reasoning_effort r \<notin> set reasoning_efforts
      then Some (bad_request ''invalid_reasoning_effort'' ''reasoning_effort is outside the supported range'')
      else case validate_stop (cr_stop r) of Some e \<Rightarrow> Some e | None \<Rightarrow>
      if (case cr_stream_options r of None \<Rightarrow> False
          | Some opts \<Rightarrow> \<not> streaming r \<or> so_include_usage opts = None)
      then Some (bad_request ''invalid_stream_options''
        ''stream_options requires streaming and an include_usage boolean'')
      else case validate_tools (cr_tools r) of Inl e \<Rightarrow> Some e | Inr names \<Rightarrow>
        validate_tool_choice (cr_tool_choice r) names)"

section \<open>What an accepted conversation looks like\<close>

definition text_message :: "message \<Rightarrow> bool" where
  "text_message m \<longleftrightarrow>
     m_role m \<in> {''system'', ''user''} \<and> m_reasoning_content m = None \<and> m_tool_calls m = [] \<and>
     m_tool_call_id m = [] \<and> m_name m = [] \<and> valid_text_content (m_content m) False True = Some True"

definition function_call :: "tool_call \<Rightarrow> bool" where
  "function_call c \<longleftrightarrow>
     tc_type c = ''function'' \<and> valid_tool_name (tf_name (tc_function c)) \<and> valid_tool_call_id (tc_id c) \<and>
     valid_json_object_string (tf_arguments (tc_function c))"

definition assistant_message :: "message \<Rightarrow> bool" where
  "assistant_message m \<longleftrightarrow>
     m_role m = ''assistant'' \<and> m_tool_call_id m = [] \<and> m_name m = [] \<and> length (m_tool_calls m) \<le> 128 \<and>
     (\<forall>t. m_reasoning_content m = Some t \<longrightarrow> length t \<le> 262144) \<and>
     (\<exists>b. valid_text_content (m_content m) (m_tool_calls m \<noteq> []) True = Some b \<and> (b \<or> m_tool_calls m \<noteq> [])) \<and>
     list_all function_call (m_tool_calls m) \<and> distinct (map tc_id (m_tool_calls m))"

definition tool_message :: "(string \<rightharpoonup> string) \<Rightarrow> message \<Rightarrow> bool" where
  "tool_message names m \<longleftrightarrow>
     m_role m = ''tool'' \<and> m_reasoning_content m = None \<and> m_tool_calls m = [] \<and>
     valid_tool_call_id (m_tool_call_id m) \<and>
     (\<exists>name. names (m_tool_call_id m) = Some name \<and> (m_name m \<noteq> [] \<longrightarrow> m_name m = name \<and> valid_tool_name name)) \<and>
     valid_text_content (m_content m) False False = Some True"

definition call_names :: "tool_call list \<Rightarrow> (string, string) go_map" where
  "call_names cs = map (\<lambda>c. (tc_id c, tf_name (tc_function c))) cs"

inductive conversation :: "string set \<Rightarrow> message list \<Rightarrow> bool" where
  conv_end: "conversation S []"
| conv_text: "text_message m \<Longrightarrow> conversation S ms \<Longrightarrow> conversation S (m # ms)"
| conv_turn: "assistant_message m \<Longrightarrow> set (map tc_id (m_tool_calls m)) \<inter> S = {} \<Longrightarrow>
    mset (map m_tool_call_id rs) = mset (map tc_id (m_tool_calls m)) \<Longrightarrow>
    list_all (tool_message (map_of (call_names (m_tool_calls m)))) rs \<Longrightarrow>
    conversation (S \<union> set (map tc_id (m_tool_calls m))) ms \<Longrightarrow> conversation S (m # rs @ ms)"

inductive_cases conversation_ConsE: "conversation S (m # ms)"

lemma fst_call_names [simp]: "map fst (call_names cs) = map tc_id cs"
  by (simp add: call_names_def)

lemma image_fst_call_names [simp]: "fst ` set (call_names cs) = tc_id ` set cs"
  by (force simp: call_names_def)

lemma validate_calls_Inr_iff:
  assumes "fst ` set out \<subseteq> seen"
  shows "validate_calls cs out seen = Inr (out', seen') \<longleftrightarrow>
    list_all function_call cs \<and> distinct (map tc_id cs) \<and> set (map tc_id cs) \<inter> seen = {} \<and>
    out' = out @ call_names cs \<and> seen' = seen \<union> set (map tc_id cs)"
  using assms
proof (induction cs arbitrary: out seen)
  case Nil
  then show ?case by (auto simp: call_names_def)
next
  case (Cons c cs)
  show ?case
  proof (cases "tc_id c \<in> seen")
    case False
    then have "map_of out (tc_id c) = None"
      using Cons.prems by (auto simp: map_of_eq_None_iff)
    then have up: "AList.update (tc_id c) (tf_name (tc_function c)) out = out @ [(tc_id c, tf_name (tc_function c))]"
      by (rule update_fresh)
    show ?thesis
      using Cons.IH [of "out @ [(tc_id c, tf_name (tc_function c))]" "insert (tc_id c) seen"] Cons.prems False
      by (auto simp: up function_call_def call_names_def)
  qed auto
qed

definition pending :: "string set \<Rightarrow> (string, string) go_map \<Rightarrow> message list \<Rightarrow> bool" where
  "pending seen out ms \<longleftrightarrow> (\<exists>rs rest. ms = rs @ rest \<and> mset (map m_tool_call_id rs) = mset (map fst out) \<and>
     list_all (tool_message (map_of out)) rs \<and> conversation seen rest)"

lemma pending_Nil [simp]: "pending seen [] ms \<longleftrightarrow> conversation seen ms"
  by (simp add: pending_def)

lemma pending_no_messages [simp]: "pending seen out [] \<longleftrightarrow> out = []"
  by (auto simp: pending_def intro: conv_end)

lemma conversation_not_tool: "m_role m = ''tool'' \<Longrightarrow> \<not> conversation S (m # ms)"
  by (auto elim: conversation_ConsE simp: text_message_def assistant_message_def)

lemma conversation_text: "m_role m \<in> {''system'', ''user''} \<Longrightarrow>
   conversation S (m # ms) \<longleftrightarrow> text_message m \<and> conversation S ms"
  by (auto elim: conversation_ConsE simp: assistant_message_def intro: conv_text)

lemma conversation_assistant: "m_role m = ''assistant'' \<Longrightarrow>
   conversation S (m # ms) \<longleftrightarrow> assistant_message m \<and> set (map tc_id (m_tool_calls m)) \<inter> S = {} \<and>
     pending (S \<union> set (map tc_id (m_tool_calls m))) (call_names (m_tool_calls m)) ms"
  by (auto elim!: conversation_ConsE simp: text_message_def pending_def intro: conv_turn [unfolded set_map mset_map])

lemma pending_not_tool: "out \<noteq> [] \<Longrightarrow> m_role m \<noteq> ''tool'' \<Longrightarrow> \<not> pending seen out (m # ms)"
  by (auto simp: pending_def tool_message_def Cons_eq_append_conv)

lemma mset_map_fst_delete:
  "distinct (map fst m) \<Longrightarrow> k \<in> fst ` set m \<Longrightarrow> mset (map fst m) = add_mset k (mset (map fst (AList.delete k m)))"
  by (induction m) (auto simp: delete_id image_iff)

lemma tool_message_delete:
  "m_tool_call_id r \<noteq> k \<Longrightarrow> tool_message (map_of (AList.delete k m)) r \<longleftrightarrow> tool_message (map_of m) r"
  by (simp add: tool_message_def delete_conv')

lemma pending_tool:
  assumes "distinct (map fst out)" and "m_role m = ''tool''"
  shows "pending seen out (m # ms) \<longleftrightarrow> tool_message (map_of out) m \<and> pending seen (AList.delete (m_tool_call_id m) out) ms"
    (is "_ \<longleftrightarrow> _ \<and> pending seen ?out ms")
proof -
  have tm: "list_all (tool_message (map_of ?out)) rs \<longleftrightarrow> list_all (tool_message (map_of out)) rs"
    if "mset (map m_tool_call_id rs) = mset (map fst ?out)" for rs
  proof -
    have "m_tool_call_id r \<noteq> m_tool_call_id m" if "r \<in> set rs" for r
    proof -
      have "m_tool_call_id r \<in> set (map fst ?out)"
        using that mset_eq_setD [OF \<open>mset (map m_tool_call_id rs) = _\<close>] by force
      then show ?thesis by (auto simp: delete_keys)
    qed
    then show ?thesis by (auto simp: list_all_iff tool_message_delete)
  qed
  show ?thesis
  proof
    assume "pending seen out (m # ms)"
    then obtain rs rest where r: "m # ms = rs @ rest" "mset (map m_tool_call_id rs) = mset (map fst out)"
      "list_all (tool_message (map_of out)) rs" "conversation seen rest" by (auto simp: pending_def)
    then have "rs \<noteq> []" using conversation_not_tool [OF assms(2)] by auto
    then obtain rs' where rs: "rs = m # rs'" using r(1) by (cases rs) auto
    have "m_tool_call_id m \<in> fst ` set out" using r(3) rs by (auto simp: tool_message_def dest: map_of_SomeD intro: rev_image_eqI)
    then have ms: "mset (map m_tool_call_id rs') = mset (map fst ?out)"
      using mset_map_fst_delete [OF assms(1)] r(2) rs by simp
    show "tool_message (map_of out) m \<and> pending seen ?out ms"
      using r rs ms tm [OF ms] by (auto simp: pending_def)
  next
    assume t: "tool_message (map_of out) m \<and> pending seen ?out ms"
    then obtain rs rest where r: "ms = rs @ rest" "mset (map m_tool_call_id rs) = mset (map fst ?out)"
      "list_all (tool_message (map_of ?out)) rs" "conversation seen rest" by (auto simp: pending_def)
    have "m_tool_call_id m \<in> fst ` set out" using t by (auto simp: tool_message_def dest: map_of_SomeD intro: rev_image_eqI)
    then have "mset (map m_tool_call_id (m # rs)) = mset (map fst out)"
      using mset_map_fst_delete [OF assms(1)] r(2) by simp
    then show "pending seen out (m # ms)"
      using r t tm [OF r(2)] unfolding pending_def
      by (intro exI [of _ "m # rs"] exI [of _ rest]) simp
  qed
qed

lemma validate_messages_from_iff:
  "distinct (map fst out) \<Longrightarrow> fst ` set out \<subseteq> seen \<Longrightarrow>
   validate_messages_from ms out seen = None \<longleftrightarrow> pending seen out ms"
proof (induction ms arbitrary: out seen)
  case Nil
  then show ?case by (simp add: invalid_messages_def)
next
  case (Cons m ms)
  consider (stray) "m_role m \<noteq> ''tool''" "out \<noteq> []" | (plain) "m_role m \<in> {''system'', ''user''}" "out = []"
    | (assistant) "m_role m = ''assistant''" "out = []" | (tool) "m_role m = ''tool''"
    | (other) "m_role m \<notin> {''system'', ''user'', ''assistant'', ''tool''}" "out = []"
    by blast
  then show ?case
  proof cases
    case stray
    then show ?thesis by (simp add: validate_message_def pending_not_tool)
  next
    case plain
    then show ?thesis using Cons.IH [of "[]" seen] conversation_text [OF plain(1)]
      by (auto simp: validate_message_def text_message_def)
  next
    case assistant
    let ?cs = "m_tool_calls m"
    show ?thesis
    proof (cases "assistant_message m \<and> set (map tc_id ?cs) \<inter> seen = {}")
      case True
      then have "validate_calls ?cs [] seen = Inr (call_names ?cs, seen \<union> set (map tc_id ?cs))"
        by (subst validate_calls_Inr_iff) (auto simp: assistant_message_def)
      moreover have "validate_message m [] seen = validate_calls ?cs [] seen"
        using True by (auto simp: validate_message_def assistant_message_def request_limits split: option.splits)
      moreover have "validate_messages_from ms (call_names ?cs) (seen \<union> set (map tc_id ?cs)) = None \<longleftrightarrow>
          pending (seen \<union> set (map tc_id ?cs)) (call_names ?cs) ms"
        using True by (intro Cons.IH) (auto simp: assistant_message_def)
      ultimately show ?thesis
        using True unfolding assistant(2) conversation_assistant [OF assistant(1)] pending_Nil by simp
    next
      case False
      have "\<exists>e. validate_message m [] seen = Inl e"
      proof (rule ccontr)
        assume "\<not> ?thesis"
        then obtain o' s' where v: "validate_message m [] seen = Inr (o', s')" by (metis sum.exhaust surj_pair)
        then have "validate_calls ?cs [] seen = Inr (o', s')"
          using assistant by (auto simp: validate_message_def Let_def split: if_splits option.splits)
        with v assistant False show False
          by (auto simp: validate_calls_Inr_iff assistant_message_def validate_message_def request_limits
              split: if_splits option.splits)
      qed
      with False assistant show ?thesis using conversation_assistant [OF assistant(1)] by auto
    qed
  next
    case tool
    let ?out = "AList.delete (m_tool_call_id m) out"
    have IH: "validate_messages_from ms ?out seen = None \<longleftrightarrow> pending seen ?out ms"
      using Cons.prems by (intro Cons.IH distinct_delete subset_trans [OF dom_delete_subset])
    show ?thesis unfolding pending_tool [OF Cons.prems(1) tool] IH [symmetric]
      using tool by (auto simp: validate_message_def tool_message_def split: option.splits)
  next
    case other
    then show ?thesis
      by (auto simp: validate_message_def elim!: conversation_ConsE simp: text_message_def assistant_message_def)
  qed
qed

text \<open>
  C7: the message validator accepts exactly the well-formed conversations: system and user messages
  with text, and assistant messages whose function calls, with identifiers never used before, are
  each answered exactly once, in any order, by the tool messages that directly follow, under the
  function's name when one is given.
\<close>

theorem validate_messages_conversation: "validate_messages ms = None \<longleftrightarrow> conversation {} ms"
  by (simp add: validate_messages_def validate_messages_from_iff)

section \<open>Bounds of accepted tools\<close>

text \<open>
  How deep the values inside a decoded value are nested; members a later one overwrote do not count.
\<close>

function json_height :: "json \<Rightarrow> nat" where
  "json_height v =
     (case v of
        JObject es \<Rightarrow> foldr max (map (\<lambda>(k, c). Suc (json_height c)) (last_entries es)) 0
      | JArray vs \<Rightarrow> foldr max (map (\<lambda>c. Suc (json_height c)) vs) 0
      | _ \<Rightarrow> 0)"
  by pat_completeness auto
termination
  by (relation "measure size") (auto dest: size_member size_element)

declare json_height.simps [simp del]

lemma foldr_max_le: "foldr max (map f xs) 0 \<le> (n :: nat) \<longleftrightarrow> (\<forall>x \<in> set xs. f x \<le> n)"
  by (induction xs) auto

lemma validate_json_depth_height: "validate_json_depth v d \<Longrightarrow> d + json_height v \<le> 32"
proof (induction v d rule: validate_json_depth.induct)
  case (1 v d)
  from "1.prems" have d: "\<not> 32 < d" by (subst (asm) validate_json_depth.simps) (auto split: if_splits)
  have "json_height v \<le> 32 - d"
  proof (cases v)
    case (JArray vs)
    have "Suc (json_height c) \<le> 32 - d" if c: "c \<in> set vs" for c
    proof -
      have "validate_json_depth c (d + 1)"
        using "1.prems" d JArray c by (subst (asm) validate_json_depth.simps) (simp add: list_all_iff)
      from "1.IH"(1) [OF d JArray c this] show ?thesis by simp
    qed
    then show ?thesis using JArray by (subst json_height.simps) (simp add: foldr_max_le)
  next
    case (JObject es)
    have "Suc (json_height c) \<le> 32 - d" if c: "(k, c) \<in> set (last_entries es)" for k c
    proof -
      have "validate_json_depth c (d + 1)"
        using "1.prems" d JObject c by (subst (asm) validate_json_depth.simps) (auto simp: list_all_iff)
      from "1.IH"(2) [OF d JObject c refl this] show ?thesis by simp
    qed
    then show ?thesis using JObject by (subst json_height.simps) (auto simp: foldr_max_le)
  qed (simp_all add: json_height.simps)
  with d show ?case by simp
qed

definition tool_name :: "tool \<Rightarrow> string" where
  "tool_name t = td_name (tl_function t)"

definition bounded_tool :: "tool \<Rightarrow> bool" where
  "bounded_tool t \<longleftrightarrow>
     tl_type t = ''function'' \<and> valid_tool_name (tool_name t) \<and> length (td_description (tl_function t)) \<le> 8192 \<and>
     (\<exists>schema properties. td_parameters (tl_function t) = Some (JObject schema) \<and>
        member schema ''type'' = Some (JString ''object'') \<and>
        member schema ''properties'' = Some (JObject properties) \<and> json_height (JObject schema) \<le> 32 \<and>
        (\<forall>v. member schema ''required'' = Some v \<longrightarrow>
           (\<exists>names. v = JArray (map JString names) \<and> distinct names \<and> [] \<notin> set names \<and>
              set names \<subseteq> fst ` set properties)))"

lemma member_in: "member es k = Some v \<Longrightarrow> k \<in> fst ` set es"
  unfolding member_def by (drule map_of_SomeD) force

lemma validate_required_names:
  "validate_required properties required \<Longrightarrow>
   \<exists>names. required = map JString names \<and> distinct names \<and> [] \<notin> set names \<and> set names \<subseteq> fst ` set properties"
proof -
  assume v: "validate_required properties required"
  define names where "names = map (\<lambda>v. case v of JString n \<Rightarrow> n | _ \<Rightarrow> []) required"
  have "required = map JString names"
    using v by (auto simp: validate_required_def names_def list_all_iff intro!: map_idI [symmetric] split: json.splits)
  moreover from this have "distinct names"
    using v by (metis distinct_map validate_required_def)
  moreover have "[] \<notin> set names \<and> set names \<subseteq> fst ` set properties"
    using v \<open>required = _\<close> by (auto simp: validate_required_def list_all_iff dest: member_in)
  ultimately show ?thesis by blast
qed

lemma validate_tool_parametersD:
  assumes h: "validate_tool_parameters raw"
  shows "\<exists>schema properties. raw = Some (JObject schema) \<and> member schema ''type'' = Some (JString ''object'') \<and>
    member schema ''properties'' = Some (JObject properties) \<and> validate_json_depth (JObject schema) 0 \<and>
    (\<forall>v. member schema ''required'' = Some v \<longrightarrow> (\<exists>r. v = JArray r \<and> validate_required properties r))"
proof -
  from h obtain schema where raw: "raw = Some (JObject schema)"
    by (cases raw; cases "the raw") (auto simp: validate_tool_parameters_def)
  with h have t: "member schema ''type'' = Some (JString ''object'')"
    by (simp add: validate_tool_parameters_def split: if_splits)
  from h raw t obtain properties where p: "member schema ''properties'' = Some (JObject properties)"
    by (cases "member schema ''properties''"; cases "the (member schema ''properties'')")
      (auto simp: validate_tool_parameters_def)
  with h raw t have "validate_json_depth (JObject schema) 0"
    by (simp add: validate_tool_parameters_def)
  moreover have "\<exists>r. v = JArray r \<and> validate_required properties r" if "member schema ''required'' = Some v" for v
    using h raw t p that by (cases v) (auto simp: validate_tool_parameters_def)
  ultimately show ?thesis using raw t p by blast
qed

lemma bounded_toolI:
  assumes "tl_type t = ''function''" "valid_tool_name (tool_name t)" "length (td_description (tl_function t)) \<le> 8192"
    and v: "validate_tool_parameters (td_parameters (tl_function t))"
  shows "bounded_tool t"
proof -
  from validate_tool_parametersD [OF v] obtain schema properties where
    s: "td_parameters (tl_function t) = Some (JObject schema)" "member schema ''type'' = Some (JString ''object'')"
    "member schema ''properties'' = Some (JObject properties)" "validate_json_depth (JObject schema) 0"
    and r: "\<forall>v. member schema ''required'' = Some v \<longrightarrow> (\<exists>r. v = JArray r \<and> validate_required properties r)"
    by blast
  have "json_height (JObject schema) \<le> 32" using validate_json_depth_height [OF s(4)] by simp
  moreover have "\<exists>names. v = JArray (map JString names) \<and> distinct names \<and> [] \<notin> set names \<and>
      set names \<subseteq> fst ` set properties" if "member schema ''required'' = Some v" for v
    using r that validate_required_names by blast
  ultimately show ?thesis using assms(1-3) s(1-3) by (auto simp: bounded_tool_def)
qed

lemma validate_tools_from_Inr:
  "validate_tools_from ts seen = Inr names \<Longrightarrow>
   list_all bounded_tool ts \<and> distinct (map tool_name ts) \<and> set (map tool_name ts) \<inter> seen = {} \<and>
   names = seen \<union> set (map tool_name ts)"
proof (induction ts arbitrary: seen)
  case (Cons t ts)
  let ?d = "tl_function t"
  from Cons.prems have t: "tl_type t = ''function''" "valid_tool_name (td_name ?d)"
    "length (td_description ?d) \<le> 8192" "td_name ?d \<notin> seen" "validate_tool_parameters (td_parameters ?d)"
    and rest: "validate_tools_from ts (insert (td_name ?d) seen) = Inr names"
    by (auto simp: Let_def split: if_splits)
  have "bounded_tool t" using t by (intro bounded_toolI) (simp_all add: tool_name_def)
  with Cons.IH [OF rest] t(4) show ?case by (auto simp: tool_name_def)
qed simp


lemma validate_tools_Inr:
  "validate_tools ts = Inr names \<Longrightarrow>
   length ts \<le> 128 \<and> list_all bounded_tool ts \<and> distinct (map tool_name ts) \<and> names = set (map tool_name ts)"
  using validate_tools_from_Inr [of ts "{}" names]
  by (auto simp: validate_tools_def request_limits split: if_splits)

lemma validate_tool_choice_accepts:
  assumes "validate_tool_choice raw names = None"
  shows "raw = None \<or> raw = Some (JString ''none'') \<or>
    (raw = Some (JString ''auto'') \<or> raw = Some (JString ''required'')) \<and> names \<noteq> {} \<or>
    (\<exists>v named. raw = Some v \<and> decode_struct True named_tool_choice_fields v \<lparr>nc_type = [], nc_name = []\<rparr> = Inr named \<and>
       nc_type named = ''function'' \<and> nc_name named \<in> names)"
proof (cases raw)
  case (Some v)
  with assms show ?thesis
    by (cases v) (auto simp: validate_tool_choice_def split: if_splits sum.splits)
qed simp

lemma decode_strings_bounded:
  "decode_array decode_string [] vs [] = Inr ss \<Longrightarrow> list_all bounded_stop ss \<Longrightarrow> vs = map JString ss"
  by (induction vs arbitrary: ss) (auto simp: decode_string_def bounded_stop_def split: json.splits sum.splits)

lemma validate_stop_accepts:
  assumes "validate_stop raw = None"
  shows "raw = None \<or> (\<exists>s. raw = Some (JString s) \<and> bounded_stop s) \<or>
    (\<exists>ss. raw = Some (JArray (map JString ss)) \<and> ss \<noteq> [] \<and> length ss \<le> 16 \<and> list_all bounded_stop ss)"
  using assms
  by (auto simp: validate_stop_def Let_def decode_slice_def not_less dest: decode_strings_bounded
    split: option.splits json.splits sum.splits if_splits)

text \<open>
  C12: what the gateway forwards is bounded: a request that passes validation has a model alias of 1 to
  128 bytes, 1 to 128 messages that form a well-formed conversation, a temperature between 0 and 2 and a
  top_p between 0 and 1 when they are given, at most one of the two output limits, between 1 and 1000000,
  a known reasoning effort or none, no stop sequence or 1 to 16 of them, each of 1 to 1024 bytes, stream options only
  when it streams and with a choice of \<open>include_usage\<close>, and at most 128 tools with distinct names, each an
  object schema nested at most 32 deep whose required names are distinct declared properties; a tool
  choice names a declared tool, or asks for one only when tools are declared. \<open>parallel_tool_calls\<close> and
  \<open>stream\<close> are booleans.
\<close>

theorem accepted_request_bounded:
  assumes "validate_request r = None"
  shows "cr_model r \<noteq> [] \<and> length (cr_model r) \<le> 128 \<and>
    cr_messages r \<noteq> [] \<and> length (cr_messages r) \<le> 128 \<and> conversation {} (cr_messages r) \<and>
    (case cr_temperature r of None \<Rightarrow> True | Some x \<Rightarrow> 0 \<le> x \<and> x \<le> 2) \<and>
    (case cr_top_p r of None \<Rightarrow> True | Some x \<Rightarrow> 0 \<le> x \<and> x \<le> 1) \<and>
    (cr_max_tokens r = None \<or> cr_max_completion_tokens r = None) \<and>
    (\<forall>n. max_output_tokens r = Some n \<longrightarrow> 1 \<le> n \<and> n \<le> 1000000) \<and>
    cr_reasoning_effort r \<in> {[], ''none'', ''minimal'', ''low'', ''medium'', ''high'', ''xhigh''} \<and>
    (cr_stop r = None \<or> (\<exists>s. cr_stop r = Some (JString s) \<and> s \<noteq> [] \<and> length s \<le> 1024) \<or>
      (\<exists>ss. cr_stop r = Some (JArray (map JString ss)) \<and> ss \<noteq> [] \<and> length ss \<le> 16 \<and>
        list_all (\<lambda>s. s \<noteq> [] \<and> length s \<le> 1024) ss)) \<and>
    (case cr_stream_options r of None \<Rightarrow> True | Some opts \<Rightarrow> cr_stream r = Some True \<and> so_include_usage opts \<noteq> None) \<and>
    length (cr_tools r) \<le> 128 \<and> list_all bounded_tool (cr_tools r) \<and> distinct (map tool_name (cr_tools r)) \<and>
    (case cr_tool_choice r of
       None \<Rightarrow> True
     | Some v \<Rightarrow> v = JString ''none'' \<or> (v = JString ''auto'' \<or> v = JString ''required'') \<and> cr_tools r \<noteq> [] \<or>
        (\<exists>named. decode_struct True named_tool_choice_fields v \<lparr>nc_type = [], nc_name = []\<rparr> = Inr named \<and>
          nc_type named = ''function'' \<and> nc_name named \<in> tool_name ` set (cr_tools r)))"
proof -
  from assms obtain names where n: "validate_tools (cr_tools r) = Inr names"
    and c: "validate_tool_choice (cr_tool_choice r) names = None"
    and m: "validate_messages (cr_messages r) = None" and s: "validate_stop (cr_stop r) = None"
    and rest: "cr_model r \<noteq> []" "length (cr_model r) \<le> 128" "cr_messages r \<noteq> []" "length (cr_messages r) \<le> 128"
      "\<not> outside (max_output_tokens r) 1 1000000"
    and limits: "\<not> outside (cr_temperature r) 0 2" "\<not> outside (cr_top_p r) 0 1"
      "cr_max_tokens r = None \<or> cr_max_completion_tokens r = None"
      "cr_reasoning_effort r = [] \<or> cr_reasoning_effort r \<in> set reasoning_efforts"
      "case cr_stream_options r of None \<Rightarrow> True | Some opts \<Rightarrow> streaming r \<and> so_include_usage opts \<noteq> None"
    unfolding validate_request_def by (auto simp: request_limits split: if_splits option.splits sum.splits)
  have "conversation {} (cr_messages r)"
    using m by (simp add: validate_messages_def validate_messages_from_iff)
  moreover have "case cr_temperature r of None \<Rightarrow> True | Some x \<Rightarrow> 0 \<le> x \<and> x \<le> 2"
    "case cr_top_p r of None \<Rightarrow> True | Some x \<Rightarrow> 0 \<le> x \<and> x \<le> 1"
    "\<forall>n. max_output_tokens r = Some n \<longrightarrow> 1 \<le> n \<and> n \<le> 1000000"
    using limits(1,2) rest(5) by (auto simp: outside_def split: option.splits)
  moreover have "cr_reasoning_effort r \<in> {[], ''none'', ''minimal'', ''low'', ''medium'', ''high'', ''xhigh''}"
    using limits(4) by (auto simp: reasoning_efforts_def)
  moreover have "case cr_stream_options r of None \<Rightarrow> True | Some opts \<Rightarrow> cr_stream r = Some True \<and> so_include_usage opts \<noteq> None"
    using limits(5) by (auto simp: streaming_def split: option.splits)
  moreover note validate_stop_accepts [OF s, unfolded bounded_stop_def]
  moreover have "length (cr_tools r) \<le> 128 \<and> list_all bounded_tool (cr_tools r) \<and> distinct (map tool_name (cr_tools r)) \<and>
    (case cr_tool_choice r of
       None \<Rightarrow> True
     | Some v \<Rightarrow> v = JString ''none'' \<or> (v = JString ''auto'' \<or> v = JString ''required'') \<and> cr_tools r \<noteq> [] \<or>
        (\<exists>named. decode_struct True named_tool_choice_fields v \<lparr>nc_type = [], nc_name = []\<rparr> = Inr named \<and>
          nc_type named = ''function'' \<and> nc_name named \<in> tool_name ` set (cr_tools r)))"
    using validate_tools_Inr [OF n] validate_tool_choice_accepts [OF c] by auto
  ultimately show ?thesis using rest(1-4) limits(3) by blast
qed

definition sample_schema :: json where
  "sample_schema = JObject
     [(''type'', JString ''object''), (''properties'', JObject [(''city'', JObject [(''type'', JString ''string'')])]),
      (''required'', JArray [JString ''city''])]"

definition sample_call :: tool_call where
  "sample_call = \<lparr>tc_id = ''call-1'', tc_type = ''function'',
     tc_function = \<lparr>tf_name = ''weather'', tf_arguments = ''{}''\<rparr>, tc_namespace = []\<rparr>"

definition sample_chat :: chat_request where
  "sample_chat = zero_request
     \<lparr>cr_model := ''small'', cr_max_tokens := Some 20,
      cr_messages :=
        [zero_message\<lparr>m_role := ''user'', m_content := Some (JString ''hi'')\<rparr>,
         zero_message\<lparr>m_role := ''assistant'', m_content := Some JNull, m_tool_calls := [sample_call]\<rparr>,
         zero_message\<lparr>m_role := ''tool'', m_content := Some (JString ''sunny''), m_tool_call_id := ''call-1''\<rparr>],
      cr_tools := [\<lparr>tl_type = ''function'', tl_function =
        \<lparr>td_name = ''weather'', td_description = [], td_parameters = Some sample_schema, td_strict = None\<rparr>\<rparr>],
      cr_tool_choice := Some (JString ''auto'')\<rparr>"

lemma sample_chat_accepted: "validate_request sample_chat = None"
  by code_simp

theorem accepted_request_bounded_witness:
  "conversation {} (cr_messages sample_chat) \<and> list_all bounded_tool (cr_tools sample_chat)"
  using accepted_request_bounded [OF sample_chat_accepted] by blast

end
