(* ===== verification/Credentials.thy ===== *)
theory Credentials
  imports Go_Strings
begin

text \<open>
  \<open>internal/ids/ids.go\<close> and \<open>internal/credentials/credentials.go\<close>: identifiers and API keys made
  from random bytes, and the format check a presented token must pass. A read of the random source
  (\<open>io.ReadFull\<close>) is \<open>Some\<close> of the bytes or \<open>None\<close> when it fails; the SHA-256 digest is the
  parameter \<open>sha\<close>.
\<close>

section \<open>Identifiers\<close>

definition ids_from :: "string \<Rightarrow> string option \<Rightarrow> err + string" where
  "ids_from pre src =
     (case src of
        None \<Rightarrow> Inl (ErrText ''unexpected EOF'')
      | Some value \<Rightarrow> Inr (pre @ ''_'' @ hex_encode value))"

lemma ids_from_inject:
  "ids_from pre (Some a) = Inr i \<Longrightarrow> ids_from pre (Some b) = Inr i \<Longrightarrow> a = b"
  by (auto simp: ids_from_def hex_encode_inject)

section \<open>API keys\<close>

record key =
  key_token :: string
  key_prefix :: string
  key_digest :: string

definition token_marker :: string where
  "token_marker = ''alz_k_''"

definition human_token_marker :: string where
  "human_token_marker = ''alz_u_''"

definition generate_from :: "(string \<Rightarrow> string) \<Rightarrow> string option \<Rightarrow> string option \<Rightarrow> string \<Rightarrow> err + key" where
  "generate_from sha public secret marker =
     (case public of
        None \<Rightarrow> Inl (ErrText ''unexpected EOF'')
      | Some pub \<Rightarrow>
          (case secret of
             None \<Rightarrow> Inl (ErrText ''unexpected EOF'')
           | Some sec \<Rightarrow>
               (let pre = marker @ hex_encode pub; token = pre @ ''.'' @ b64_encode sec
                in Inr \<lparr>key_token = token, key_prefix = pre, key_digest = sha token\<rparr>)))"

definition generate :: "(string \<Rightarrow> string) \<Rightarrow> string option \<Rightarrow> string option \<Rightarrow> err + key" where
  "generate sha public secret = generate_from sha public secret token_marker"

definition generate_human :: "(string \<Rightarrow> string) \<Rightarrow> string option \<Rightarrow> string option \<Rightarrow> err + key" where
  "generate_human sha public secret = generate_from sha public secret human_token_marker"

text \<open>\<open>True\<close> is the nil error; every refusal is the same error \<open>invalid API key format\<close>.\<close>

definition validate_format_with :: "string \<Rightarrow> string \<Rightarrow> bool" where
  "validate_format_with token marker =
     (if length token \<noteq> length marker + 16 + 1 + 32 \<or> \<not> has_prefix marker token then False
      else let separator = length marker + 16
           in if token ! separator \<noteq> CHR ''.'' then False
              else if hex_decode (take 16 (drop (length marker) token)) = None then False
              else (case b64_decode (drop (separator + 1) token) of
                      None \<Rightarrow> False
                    | Some secret \<Rightarrow> length secret = 24))"

definition validate_format :: "string \<Rightarrow> bool" where
  "validate_format token = validate_format_with token token_marker"

definition validate_human_format :: "string \<Rightarrow> bool" where
  "validate_human_format token = validate_format_with token human_token_marker"

lemma generate_from_InrD:
  "generate_from sha public secret marker = Inr k \<Longrightarrow>
   \<exists>pub sec. public = Some pub \<and> secret = Some sec \<and> key_prefix k = marker @ hex_encode pub \<and>
     key_token k = key_prefix k @ ''.'' @ b64_encode sec \<and> key_digest k = sha (key_token k)"
  by (auto simp: generate_from_def Let_def split: option.splits)

lemma validate_format_with_token:
  assumes "length pub = 8" and "length sec = 24"
  shows "validate_format_with (marker @ hex_encode pub @ ''.'' @ b64_encode sec) marker"
proof -
  let ?t = "marker @ hex_encode pub @ ''.'' @ b64_encode sec"
  have len: "length (hex_encode pub) = 16" "length (b64_encode sec) = 32"
    using assms by (simp_all add: length_b64_encode)
  then have "?t ! (length marker + 16) = CHR ''.''"
    by (simp add: nth_append)
  moreover have "take 16 (drop (length marker) ?t) = hex_encode pub"
    using len by simp
  moreover have "drop (length marker + 16 + 1) ?t = b64_encode sec"
    using len by simp
  ultimately show ?thesis
    using len assms(2) by (simp add: validate_format_with_def Let_def hex_decode_encode b64_decode_encode)
qed

lemma validate_format_with_marker:
  "validate_format_with t m \<Longrightarrow> has_prefix m t"
  by (auto simp: validate_format_with_def split: if_splits)

text \<open>
  The two kinds of credential are told apart by their markers alone: no token passes both checks.
\<close>

lemma formats_disjoint: "\<not> (validate_format t \<and> validate_human_format t)"
  by (auto simp: validate_format_def validate_human_format_def token_marker_def human_token_marker_def
      has_prefix_iff dest!: validate_format_with_marker)

text \<open>
  C34: every key the generator returns from 8 and 24 random bytes has a token of 55 bytes that the
  gateway's format check for its own kind accepts and the check for the other kind refuses, that
  starts with the stored key prefix, and whose stored digest is the digest of the token presented.
\<close>

theorem generated_key_validates:
  assumes "generate sha (Some pub) (Some sec) = Inr k"
    and "generate_human sha (Some pub) (Some sec) = Inr h"
    and "length pub = 8" and "length sec = 24"
  shows "validate_format (key_token k) \<and> \<not> validate_human_format (key_token k) \<and>
    validate_human_format (key_token h) \<and> \<not> validate_format (key_token h) \<and>
    length (key_token k) = 55 \<and> has_prefix (key_prefix k) (key_token k) \<and>
    key_digest k = sha (key_token k)"
proof -
  from generate_from_InrD [OF assms(1) [unfolded generate_def]]
  have k: "key_prefix k = token_marker @ hex_encode pub"
    "key_token k = key_prefix k @ ''.'' @ b64_encode sec" "key_digest k = sha (key_token k)" by auto
  from generate_from_InrD [OF assms(2) [unfolded generate_human_def]]
  have h: "key_token h = human_token_marker @ hex_encode pub @ ''.'' @ b64_encode sec" by auto
  have "validate_format (key_token k)" and vh: "validate_human_format (key_token h)"
    using validate_format_with_token [OF assms(3,4)] k h
    by (simp_all add: validate_format_def validate_human_format_def)
  moreover have "length (key_token k) = 55" and "has_prefix (key_prefix k) (key_token k)"
    using k assms(3,4) by (simp_all add: length_b64_encode token_marker_def)
  ultimately show ?thesis using formats_disjoint k(3) by blast
qed

theorem generated_key_validates_witness:
  "\<exists>k h. generate id (Some (replicate 8 CHR 0xAB)) (Some (replicate 24 CHR ''x'')) = Inr k \<and>
     generate_human id (Some (replicate 8 CHR 0xAB)) (Some (replicate 24 CHR ''x'')) = Inr h \<and>
     validate_format (key_token k) \<and> \<not> validate_human_format (key_token k)"
proof -
  let ?p = "replicate 8 CHR 0xAB" and ?s = "replicate 24 CHR ''x''"
  obtain k where k: "generate id (Some ?p) (Some ?s) = Inr k"
    by (simp add: generate_def generate_from_def Let_def)
  obtain h where h: "generate_human id (Some ?p) (Some ?s) = Inr h"
    by (simp add: generate_human_def generate_from_def Let_def)
  show ?thesis using k h generated_key_validates [OF k h] by auto
qed

end
