(* ===== verification/Platform.thy ===== *)
theory Platform
  imports Go_Strings
begin

text \<open>
  The data model of \<open>internal/platform/types.go\<close>. A pointer \<open>*T\<close> is an \<open>option\<close>; \<open>time.Time\<close> is
  the number of nanoseconds since the Unix epoch (\<open>zero_time\<close> is Go's zero instant) and
  \<open>time.Duration\<close> a number of nanoseconds. Every status, class and mode stays the string the code
  stores.
\<close>

type_synonym time = int
type_synonym duration = int

definition zero_time :: time where
  "zero_time = - 62135596800000000000"

definition nanosecond_per_second :: int where
  "nanosecond_per_second = 1000000000"

definition millisecond :: duration where
  "millisecond = 1000000"

definition minute :: duration where
  "minute = 60000000000"

definition hour :: duration where
  "hour = 3600000000000"

section \<open>Principals and their permissions\<close>

definition scope_inference_write :: string where
  "scope_inference_write = ''inference:write''"

definition scope_usage_read :: string where
  "scope_usage_read = ''usage:read''"

definition scope_routes_read :: string where
  "scope_routes_read = ''routes:read''"

record principal =
  p_credential_kind :: string
  p_organisation_id :: string
  p_organisation_name :: string
  p_organisation_slug :: string
  p_project_id :: string
  p_project_name :: string
  p_project_slug :: string
  p_environment_id :: string
  p_environment_name :: string
  p_environment_slug :: string
  p_service_account_id :: string
  p_service_account :: string
  p_api_key_id :: string
  p_key_prefix :: string
  p_human_user_id :: string
  p_human_membership_id :: string
  p_agent_grant_id :: string
  p_agent_token_id :: string
  p_allowed_model_aliases :: "string list"
  p_scopes :: "string list"

definition zero_principal :: principal where
  "zero_principal =
     \<lparr>p_credential_kind = [], p_organisation_id = [], p_organisation_name = [],
      p_organisation_slug = [], p_project_id = [], p_project_name = [], p_project_slug = [],
      p_environment_id = [], p_environment_name = [], p_environment_slug = [],
      p_service_account_id = [], p_service_account = [], p_api_key_id = [], p_key_prefix = [],
      p_human_user_id = [], p_human_membership_id = [], p_agent_grant_id = [], p_agent_token_id = [],
      p_allowed_model_aliases = [], p_scopes = []\<rparr>"

fun has_scope_loop :: "string list \<Rightarrow> string \<Rightarrow> bool" where
  "has_scope_loop [] scope = False"
| "has_scope_loop (candidate # rest) scope = (if candidate = scope then True else has_scope_loop rest scope)"

definition has_scope :: "principal \<Rightarrow> string \<Rightarrow> bool" where
  "has_scope p scope = has_scope_loop (p_scopes p) scope"

definition allows_model :: "principal \<Rightarrow> string \<Rightarrow> bool" where
  "allows_model p alias =
     (if p_credential_kind p \<noteq> ''human_agent_token'' then True
      else has_scope_loop (p_allowed_model_aliases p) alias)"

lemma has_scope_loop_iff [simp]: "has_scope_loop xs s \<longleftrightarrow> s \<in> set xs"
  by (induction xs) auto

lemma has_scope_iff: "has_scope p s \<longleftrightarrow> s \<in> set (p_scopes p)"
  by (simp add: has_scope_def)

text \<open>The tenant scope of a principal, which every ledger row and route carries a copy of.\<close>

type_synonym tenant = "string \<times> string \<times> string"

definition tenant_of :: "principal \<Rightarrow> tenant" where
  "tenant_of p = (p_organisation_id p, p_project_id p, p_environment_id p)"

section \<open>Targets and routes\<close>

record target =
  t_id :: string
  t_name :: string
  t_execution_class :: string
  t_capacity_mode :: string
  t_capacity_evidence_ref :: string
  t_owner_organisation_id :: string
  t_base_url :: string
  t_provider_model :: string
  t_secret_ref :: string
  t_timeout :: duration
  t_max_attempts :: int
  t_enabled :: bool
  t_health_status :: string
  t_last_health_check_at :: "time option"
  t_last_success_at :: "time option"

definition zero_target :: target where
  "zero_target =
     \<lparr>t_id = [], t_name = [], t_execution_class = [], t_capacity_mode = [],
      t_capacity_evidence_ref = [], t_owner_organisation_id = [], t_base_url = [],
      t_provider_model = [], t_secret_ref = [], t_timeout = 0, t_max_attempts = 0,
      t_enabled = False, t_health_status = [], t_last_health_check_at = None,
      t_last_success_at = None\<rparr>"

record route =
  r_id :: string
  r_organisation_id :: string
  r_project_id :: string
  r_environment_id :: string
  r_model_id :: string
  r_model_alias :: string
  r_model_version :: string
  r_model_enabled :: bool
  r_binding_generation :: int
  r_enabled :: bool
  r_target :: target
  r_created_at :: time
  r_updated_at :: time

definition route_tenant :: "route \<Rightarrow> tenant" where
  "route_tenant r = (r_organisation_id r, r_project_id r, r_environment_id r)"

section \<open>Usage and the ledger rows\<close>

record token_usage =
  u_input_tokens :: "int option"
  u_output_tokens :: "int option"
  u_total_tokens :: "int option"
  u_cached_tokens :: "int option"
  u_cached_write_tokens :: "int option"
  u_cached_write_tokens_5m :: "int option"
  u_cached_write_tokens_1h :: "int option"
  u_reasoning_tokens :: "int option"
  u_text_input_tokens :: "int option"
  u_audio_input_tokens :: "int option"
  u_image_input_tokens :: "int option"
  u_normalization :: string

definition zero_usage :: token_usage where
  "zero_usage =
     \<lparr>u_input_tokens = None, u_output_tokens = None, u_total_tokens = None, u_cached_tokens = None,
      u_cached_write_tokens = None, u_cached_write_tokens_5m = None,
      u_cached_write_tokens_1h = None, u_reasoning_tokens = None, u_text_input_tokens = None,
      u_audio_input_tokens = None, u_image_input_tokens = None, u_normalization = []\<rparr>"

record inference_request =
  ir_id :: string
  ir_organisation_id :: string
  ir_project_id :: string
  ir_environment_id :: string
  ir_route_id :: string
  ir_bound_target_id :: string
  ir_bound_model_id :: string
  ir_route_binding_generation :: int
  ir_service_account_id :: string
  ir_api_key_id :: string
  ir_key_prefix :: string
  ir_model_alias :: string
  ir_executed_model :: string
  ir_provider_request_id :: string
  ir_started_at :: time
  ir_completed_at :: "time option"
  ir_status :: string
  ir_http_status :: int
  ir_error_class :: string
  ir_duration :: duration
  ir_usage :: token_usage
  ir_usage_finality :: string
  ir_attempt_count :: int

definition request_tenant :: "inference_request \<Rightarrow> tenant" where
  "request_tenant r = (ir_organisation_id r, ir_project_id r, ir_environment_id r)"

record provider_attempt =
  pa_id :: string
  pa_inference_request_id :: string
  pa_target_id :: string
  pa_attempt_number :: int
  pa_started_at :: time
  pa_completed_at :: "time option"
  pa_status :: string
  pa_provider_http_status :: int
  pa_error_class :: string
  pa_duration :: duration
  pa_provider_request_id :: string
  pa_usage :: token_usage
  pa_usage_finality :: string

record request_start =
  rs_id :: string
  rs_principal :: principal
  rs_model_alias :: string
  rs_started_at :: time

record request_finish =
  rf_id :: string
  rf_completed_at :: time
  rf_status :: string
  rf_http_status :: int
  rf_error_class :: string
  rf_executed_model :: string
  rf_provider_request_id :: string
  rf_duration :: duration
  rf_usage :: token_usage
  rf_usage_finality :: string

record attempt_start =
  as_id :: string
  as_inference_request_id :: string
  as_target_id :: string
  as_attempt_number :: int
  as_started_at :: time

record attempt_finish =
  af_id :: string
  af_completed_at :: time
  af_status :: string
  af_provider_http_status :: int
  af_error_class :: string
  af_duration :: duration
  af_provider_request_id :: string
  af_usage :: token_usage
  af_usage_finality :: string

record usage_filter =
  uf_from :: time
  uf_to :: time
  uf_model_alias :: string
  uf_limit :: int

record request_page =
  rp_requests :: "inference_request list"
  rp_truncated :: bool

section \<open>Provisioning inputs and results\<close>

record provision_spec =
  ps_organisation_name :: string
  ps_organisation_slug :: string
  ps_project_name :: string
  ps_project_slug :: string
  ps_environment_name :: string
  ps_environment_slug :: string
  ps_model_alias :: string
  ps_model_version :: string
  ps_target_name :: string
  ps_execution_class :: string
  ps_capacity_mode :: string
  ps_capacity_evidence_ref :: string
  ps_target_base_url :: string
  ps_provider_model :: string
  ps_secret_ref :: string
  ps_target_timeout :: duration
  ps_max_attempts :: int
  ps_probe_enabled :: bool
  ps_probe_interval :: duration
  ps_service_account :: string
  ps_scopes :: "string list"
  ps_service_plan_code :: string
  ps_service_plan_name :: string
  ps_shared_request_allowance :: "int option"
  ps_shared_request_allowance_period :: string
  ps_shared_token_allowance :: "int option"
  ps_shared_token_allowance_period :: string
  ps_dedicated_resource_class :: string
  ps_dedicated_accelerator_count :: "int option"
  ps_service_plan_source :: string
  ps_service_plan_finality :: string

record provision_result =
  pr_organisation_id :: string
  pr_project_id :: string
  pr_environment_id :: string
  pr_route_id :: string
  pr_target_id :: string
  pr_service_account_id :: string
  pr_key_prefix :: string
  pr_api_key :: string
  pr_key_created :: bool
  pr_scopes :: "string list"
  pr_service_plan_code :: string

record rotate_key_spec =
  rk_organisation_slug :: string
  rk_project_slug :: string
  rk_environment_slug :: string
  rk_service_account :: string
  rk_scopes :: "string list"

record key_result =
  kr_key_prefix :: string
  kr_api_key :: string
  kr_scopes :: "string list"

end
