(* ===== verification/Provisioning.thy ===== *)
theory Provisioning
  imports Platform
begin

text \<open>
  \<open>internal/provisioning/validate.go\<close>: the validation every provisioning and key-rotation input
  passes before it touches a store. The parser and printer of \<open>net/url\<close> are the parameter
  \<open>url_lib\<close>; every error of this package wraps \<open>ErrInvalid\<close>.
\<close>

section \<open>net/url as a parameter\<close>

text \<open>
  The fields of \<open>url.URL\<close> the code reads or writes; \<open>url_rest\<close> stands for the others, which only
  the printer sees.
\<close>

record url =
  url_scheme :: string
  url_user :: bool
  url_host :: string
  url_path :: string
  url_raw_path :: string
  url_raw_query :: string
  url_fragment :: string
  url_rest :: string

record url_lib =
  url_parse :: "string \<Rightarrow> url option"
  url_escaped_path :: "url \<Rightarrow> string"
  url_string :: "url \<Rightarrow> string"

section \<open>Scopes\<close>

fun validate_scopes_loop :: "string list \<Rightarrow> string list \<Rightarrow> string list \<Rightarrow> err + string list" where
  "validate_scopes_loop seen scopes [] = Inr scopes"
| "validate_scopes_loop seen scopes (scope # rest) =
     (if scope \<noteq> scope_inference_write \<and> scope \<noteq> scope_usage_read \<and> scope \<noteq> scope_routes_read
      then Inl ErrInvalid
      else if scope \<in> set seen then validate_scopes_loop seen scopes rest
      else validate_scopes_loop (scope # seen) (scopes @ [scope]) rest)"

definition validate_scopes :: "string list \<Rightarrow> err + string list" where
  "validate_scopes input =
     (case validate_scopes_loop [] [] input of
        Inl e \<Rightarrow> Inl e
      | Inr scopes \<Rightarrow> if scopes = [] then Inl ErrInvalid else Inr (sort scopes))"

definition known_scopes :: "string set" where
  "known_scopes = {scope_inference_write, scope_usage_read, scope_routes_read}"

lemma validate_scopes_loop_sound:
  "validate_scopes_loop seen scopes input = Inr out \<Longrightarrow> set seen = set scopes \<Longrightarrow> distinct scopes \<Longrightarrow>
   distinct out \<and> set out = set scopes \<union> set input \<and> set input \<subseteq> known_scopes"
  by (induction seen scopes input rule: validate_scopes_loop.induct)
    (auto simp: known_scopes_def split: if_splits)

lemma validate_scopes_loop_complete:
  "set input \<subseteq> known_scopes \<Longrightarrow> \<exists>out. validate_scopes_loop seen scopes input = Inr out"
  by (induction seen scopes input rule: validate_scopes_loop.induct) (auto simp: known_scopes_def)

lemma validate_scopes_Inr_iff:
  "validate_scopes input = Inr out \<longleftrightarrow>
     input \<noteq> [] \<and> set input \<subseteq> known_scopes \<and> out = sorted_list_of_set (set input)"
proof
  assume "validate_scopes input = Inr out"
  then obtain l where l: "validate_scopes_loop [] [] input = Inr l" "l \<noteq> []" "out = sort l"
    by (auto simp: validate_scopes_def split: sum.splits if_splits)
  from validate_scopes_loop_sound [OF l(1)] have "distinct l" "set l = set input" "set input \<subseteq> known_scopes"
    by auto
  with l(2,3) show "input \<noteq> [] \<and> set input \<subseteq> known_scopes \<and> out = sorted_list_of_set (set input)"
    by (metis list.set(1) set_empty sorted_list_of_set_sort_remdups distinct_remdups_id)
next
  assume r: "input \<noteq> [] \<and> set input \<subseteq> known_scopes \<and> out = sorted_list_of_set (set input)"
  then obtain l where l: "validate_scopes_loop [] [] input = Inr l"
    using validate_scopes_loop_complete by blast
  from validate_scopes_loop_sound [OF l] have "distinct l" "set l = set input" by auto
  with r l show "validate_scopes input = Inr out"
    by (auto simp: validate_scopes_def) (metis sorted_list_of_set_sort_remdups distinct_remdups_id)
qed

lemma validate_scopes_error: "validate_scopes input = Inl e \<Longrightarrow> e = ErrInvalid"
proof -
  have "validate_scopes_loop seen scopes input = Inl e \<Longrightarrow> e = ErrInvalid" for seen scopes
    by (induction seen scopes input rule: validate_scopes_loop.induct) (auto split: if_splits)
  then show "validate_scopes input = Inl e \<Longrightarrow> e = ErrInvalid"
    by (auto simp: validate_scopes_def split: sum.splits if_splits)
qed

section \<open>Service plans\<close>

definition valid_period :: "string \<Rightarrow> bool" where
  "valid_period value \<longleftrightarrow> value = ''hour'' \<or> value = ''day'' \<or> value = ''month'' \<or> value = ''contract_term''"

text \<open>An allowance and its period: \<open>None\<close> of the result is the nil error.\<close>

definition validate_allowance :: "int option \<Rightarrow> string \<Rightarrow> err option" where
  "validate_allowance allowance period =
     (case allowance of
        Some value \<Rightarrow> if value < 0 \<or> \<not> valid_period period then Some ErrInvalid else None
      | None \<Rightarrow> if period \<noteq> [] then Some ErrInvalid else None)"

definition validate_service_plan :: "provision_spec \<Rightarrow> err option" where
  "validate_service_plan spec =
     (if ps_service_plan_code spec = [] then
        (if ps_service_plan_name spec \<noteq> [] \<or> ps_shared_request_allowance spec \<noteq> None \<or>
            ps_shared_token_allowance spec \<noteq> None \<or> ps_dedicated_resource_class spec \<noteq> [] \<or>
            ps_dedicated_accelerator_count spec \<noteq> None \<or> ps_service_plan_source spec \<noteq> [] \<or>
            ps_service_plan_finality spec \<noteq> []
         then Some ErrInvalid else None)
      else if \<not> slug_pattern (ps_service_plan_code spec) \<or> trim_space (ps_service_plan_name spec) = [] \<or>
              length (ps_service_plan_name spec) > 255 then Some ErrInvalid
      else if \<not> evidence_pattern (ps_service_plan_source spec) \<or>
              contains_str ''://'' (ps_service_plan_source spec) then Some ErrInvalid
      else if ps_service_plan_finality spec \<noteq> ''declared'' \<and> ps_service_plan_finality spec \<noteq> ''unknown''
        then Some ErrInvalid
      else if ps_capacity_mode spec = ''shared'' then
        (if ps_dedicated_resource_class spec \<noteq> [] \<or> ps_dedicated_accelerator_count spec \<noteq> None
           then Some ErrInvalid
         else if validate_allowance (ps_shared_request_allowance spec) (ps_shared_request_allowance_period spec) \<noteq> None
           then Some ErrInvalid
         else validate_allowance (ps_shared_token_allowance spec) (ps_shared_token_allowance_period spec))
      else if ps_shared_request_allowance spec \<noteq> None \<or> ps_shared_request_allowance_period spec \<noteq> [] \<or>
              ps_shared_token_allowance spec \<noteq> None \<or> ps_shared_token_allowance_period spec \<noteq> []
        then Some ErrInvalid
      else if ps_dedicated_resource_class spec \<noteq> [] \<and> \<not> evidence_pattern (ps_dedicated_resource_class spec)
        then Some ErrInvalid
      else if (case ps_dedicated_accelerator_count spec of None \<Rightarrow> False | Some n \<Rightarrow> n \<le> 0)
        then Some ErrInvalid
      else None)"

section \<open>Provisioning specifications\<close>

definition trim_spec :: "provision_spec \<Rightarrow> provision_spec" where
  "trim_spec spec = spec
     \<lparr>ps_organisation_name := trim_space (ps_organisation_name spec),
      ps_project_name := trim_space (ps_project_name spec),
      ps_environment_name := trim_space (ps_environment_name spec),
      ps_service_account := trim_space (ps_service_account spec),
      ps_target_name := trim_space (ps_target_name spec),
      ps_provider_model := trim_space (ps_provider_model spec),
      ps_model_version := trim_space (ps_model_version spec)\<rparr>"

definition bounded_name :: "string \<Rightarrow> bool" where
  "bounded_name value \<longleftrightarrow> \<not> (value = [] \<or> length value > 255)"

definition validate_identity :: "provision_spec \<Rightarrow> err option" where
  "validate_identity spec =
     (if \<not> list_all slug_pattern [ps_organisation_slug spec, ps_project_slug spec, ps_environment_slug spec]
        then Some ErrInvalid
      else if \<not> list_all bounded_name
        [ps_organisation_name spec, ps_project_name spec, ps_environment_name spec,
         ps_service_account spec, ps_target_name spec, ps_provider_model spec, ps_model_version spec]
        then Some ErrInvalid
      else if \<not> alias_pattern (ps_model_alias spec) then Some ErrInvalid
      else None)"

definition validate_capacity :: "provision_spec \<Rightarrow> err option" where
  "validate_capacity spec =
     (if ps_execution_class spec \<noteq> ''external_pilot'' \<and> ps_execution_class spec \<noteq> ''private_compatible''
        then Some ErrInvalid
      else if ps_capacity_mode spec \<noteq> ''shared'' \<and> ps_capacity_mode spec \<noteq> ''dedicated'' then Some ErrInvalid
      else if ps_execution_class spec = ''external_pilot'' \<and> ps_capacity_mode spec \<noteq> ''shared''
        then Some ErrInvalid
      else if ps_capacity_mode spec = ''dedicated'' then
        (if \<not> evidence_pattern (ps_capacity_evidence_ref spec) \<or>
            contains_str ''://'' (ps_capacity_evidence_ref spec) then Some ErrInvalid else None)
      else if ps_capacity_evidence_ref spec \<noteq> [] then Some ErrInvalid
      else None)"

definition validate_target_url :: "url_lib \<Rightarrow> bool \<Rightarrow> string \<Rightarrow> err + string" where
  "validate_target_url lib allow_insecure base =
     (case url_parse lib base of
        None \<Rightarrow> Inl ErrInvalid
      | Some u \<Rightarrow>
          if url_host u = [] \<or> url_user u \<or> url_raw_query u \<noteq> [] \<or> url_fragment u \<noteq> [] \<or>
             contains_str ''%'' (url_escaped_path lib u) then Inl ErrInvalid
          else if url_scheme u \<noteq> ''https'' \<and> \<not> (allow_insecure \<and> url_scheme u = ''http'') then Inl ErrInvalid
          else Inr (trim_right ''/'' (url_string lib u)))"

definition validate_limits :: "provision_spec \<Rightarrow> err + provision_spec" where
  "validate_limits spec =
     (if ps_target_timeout spec < 100 * millisecond \<or> ps_target_timeout spec > minute then Inl ErrInvalid
      else if ps_max_attempts spec < 1 \<or> ps_max_attempts spec > 4 then Inl ErrInvalid
      else let spec = (if ps_probe_interval spec = 0 then spec\<lparr>ps_probe_interval := 5 * minute\<rparr> else spec)
           in if ps_probe_interval spec < minute div 2 \<or> ps_probe_interval spec > 24 * hour then Inl ErrInvalid
              else Inr spec)"

definition validate :: "url_lib \<Rightarrow> provision_spec \<Rightarrow> bool \<Rightarrow> err + provision_spec" where
  "validate lib spec0 allow_insecure =
     (let spec = trim_spec spec0 in
      if validate_identity spec \<noteq> None then Inl ErrInvalid
      else if validate_capacity spec \<noteq> None then Inl ErrInvalid
      else if \<not> secret_ref_pattern (ps_secret_ref spec) then Inl ErrInvalid
      else case validate_target_url lib allow_insecure (ps_target_base_url spec) of
             Inl e \<Rightarrow> Inl e
           | Inr base \<Rightarrow>
               (case validate_limits (spec\<lparr>ps_target_base_url := base\<rparr>) of
                  Inl e \<Rightarrow> Inl e
                | Inr spec \<Rightarrow>
                    (case validate_service_plan spec of
                       Some e \<Rightarrow> Inl e
                     | None \<Rightarrow>
                         (case validate_scopes (ps_scopes spec) of
                            Inl e \<Rightarrow> Inl e
                          | Inr scopes \<Rightarrow> Inr (spec\<lparr>ps_scopes := scopes\<rparr>)))))"

section \<open>Key rotation inputs\<close>

definition rotation_template :: "rotate_key_spec \<Rightarrow> provision_spec" where
  "rotation_template spec =
     \<lparr>ps_organisation_name = ''validation'', ps_organisation_slug = rk_organisation_slug spec,
      ps_project_name = ''validation'', ps_project_slug = rk_project_slug spec,
      ps_environment_name = ''validation'', ps_environment_slug = rk_environment_slug spec,
      ps_model_alias = ''validation'', ps_model_version = ''validation'',
      ps_target_name = ''validation'', ps_execution_class = ''external_pilot'',
      ps_capacity_mode = ''shared'', ps_capacity_evidence_ref = [],
      ps_target_base_url = ''https://validation.invalid/v1'', ps_provider_model = ''validation'',
      ps_secret_ref = ''VALIDATION_SECRET'', ps_target_timeout = nanosecond_per_second,
      ps_max_attempts = 1, ps_probe_enabled = False, ps_probe_interval = 0,
      ps_service_account = rk_service_account spec, ps_scopes = rk_scopes spec,
      ps_service_plan_code = [], ps_service_plan_name = [], ps_shared_request_allowance = None,
      ps_shared_request_allowance_period = [], ps_shared_token_allowance = None,
      ps_shared_token_allowance_period = [], ps_dedicated_resource_class = [],
      ps_dedicated_accelerator_count = None, ps_service_plan_source = [],
      ps_service_plan_finality = []\<rparr>"

definition validate_rotate :: "url_lib \<Rightarrow> rotate_key_spec \<Rightarrow> err + rotate_key_spec" where
  "validate_rotate lib spec =
     (if \<not> slug_pattern (rk_organisation_slug spec) \<or> \<not> slug_pattern (rk_project_slug spec) \<or>
         \<not> slug_pattern (rk_environment_slug spec) then Inl ErrInvalid
      else if trim_space (rk_service_account spec) = [] then Inl ErrInvalid
      else case validate lib (rotation_template spec) False of
             Inl e \<Rightarrow> Inl e
           | Inr validated \<Rightarrow>
               Inr (spec\<lparr>rk_service_account := ps_service_account validated,
                         rk_scopes := ps_scopes validated\<rparr>))"

section \<open>What an accepted specification looks like\<close>

definition default_interval :: "duration \<Rightarrow> duration" where
  "default_interval d = (if d = 0 then 5 * minute else d)"

lemma validate_limits_Inr_iff:
  "validate_limits spec = Inr w \<longleftrightarrow>
     100 * millisecond \<le> ps_target_timeout spec \<and> ps_target_timeout spec \<le> minute \<and>
     1 \<le> ps_max_attempts spec \<and> ps_max_attempts spec \<le> 4 \<and>
     minute div 2 \<le> default_interval (ps_probe_interval spec) \<and>
     default_interval (ps_probe_interval spec) \<le> 24 * hour \<and>
     w = spec\<lparr>ps_probe_interval := default_interval (ps_probe_interval spec)\<rparr>"
  by (auto simp: validate_limits_def default_interval_def Let_def)

lemma spec_checks_frame [frame_simps]:
  "validate_identity (s\<lparr>ps_target_base_url := b\<rparr>) = validate_identity s"
  "validate_identity (s\<lparr>ps_probe_interval := d\<rparr>) = validate_identity s"
  "validate_identity (s\<lparr>ps_scopes := sc\<rparr>) = validate_identity s"
  "validate_capacity (s\<lparr>ps_target_base_url := b\<rparr>) = validate_capacity s"
  "validate_capacity (s\<lparr>ps_probe_interval := d\<rparr>) = validate_capacity s"
  "validate_capacity (s\<lparr>ps_scopes := sc\<rparr>) = validate_capacity s"
  "validate_service_plan (s\<lparr>ps_target_base_url := b\<rparr>) = validate_service_plan s"
  "validate_service_plan (s\<lparr>ps_probe_interval := d\<rparr>) = validate_service_plan s"
  "validate_service_plan (s\<lparr>ps_scopes := sc\<rparr>) = validate_service_plan s"
  "trim_spec (s\<lparr>ps_target_base_url := b\<rparr>) = (trim_spec s)\<lparr>ps_target_base_url := b\<rparr>"
  "trim_spec (s\<lparr>ps_probe_interval := d\<rparr>) = (trim_spec s)\<lparr>ps_probe_interval := d\<rparr>"
  "trim_spec (s\<lparr>ps_scopes := sc\<rparr>) = (trim_spec s)\<lparr>ps_scopes := sc\<rparr>"
  by (simp_all add: validate_identity_def validate_capacity_def validate_service_plan_def trim_spec_def)

lemma trim_spec_idem: "trim_spec (trim_spec s) = trim_spec s"
  by (simp add: trim_spec_def)

text \<open>The whole validation in one equivalence: which checks pass, and what comes out.\<close>

lemma validate_Inr_iff:
  "validate lib s insecure = Inr v \<longleftrightarrow>
     validate_identity (trim_spec s) = None \<and> validate_capacity (trim_spec s) = None \<and>
     secret_ref_pattern (ps_secret_ref s) \<and> validate_service_plan (trim_spec s) = None \<and>
     (\<exists>base w. validate_target_url lib insecure (ps_target_base_url s) = Inr base \<and>
        validate_limits ((trim_spec s)\<lparr>ps_target_base_url := base\<rparr>) = Inr w \<and>
        (\<exists>sc. validate_scopes (ps_scopes s) = Inr sc \<and> v = w\<lparr>ps_scopes := sc\<rparr>))"
proof -
  have [simp]: "ps_secret_ref (trim_spec s) = ps_secret_ref s"
    "ps_target_base_url (trim_spec s) = ps_target_base_url s" "ps_scopes (trim_spec s) = ps_scopes s"
    by (simp_all add: trim_spec_def)
  have w: "validate_service_plan w = validate_service_plan (trim_spec s) \<and> ps_scopes w = ps_scopes s"
    if "validate_limits ((trim_spec s)\<lparr>ps_target_base_url := base\<rparr>) = Inr w" for base w
    using that by (auto simp: validate_limits_Inr_iff frame_simps)
  show ?thesis
    by (auto simp: validate_def Let_def w split: sum.splits option.splits if_splits)
qed

lemma validate_service_plan_error: "validate_service_plan s = Some e \<Longrightarrow> e = ErrInvalid"
  by (auto simp: validate_service_plan_def validate_allowance_def split: if_splits option.splits)

lemma validate_error: "validate lib s insecure = Inl e \<Longrightarrow> e = ErrInvalid"
  by (auto simp: validate_def validate_target_url_def validate_limits_def Let_def
      dest: validate_service_plan_error validate_scopes_error
      split: if_splits option.splits sum.splits)

text \<open>
  The contract of the package, which the stores rely on: names are trimmed and bounded, an external
  pilot is always shared, dedicated capacity always carries evidence and shared capacity never does,
  and the retry, timeout and probe limits are in range.
\<close>

definition admissible_spec :: "provision_spec \<Rightarrow> bool" where
  "admissible_spec v \<longleftrightarrow>
     list_all slug_pattern [ps_organisation_slug v, ps_project_slug v, ps_environment_slug v] \<and>
     list_all (\<lambda>n. n \<noteq> [] \<and> length n \<le> 255 \<and> trim_space n = n)
       [ps_organisation_name v, ps_project_name v, ps_environment_name v, ps_service_account v,
        ps_target_name v, ps_provider_model v, ps_model_version v] \<and>
     alias_pattern (ps_model_alias v) \<and> secret_ref_pattern (ps_secret_ref v) \<and>
     ps_execution_class v \<in> {''external_pilot'', ''private_compatible''} \<and>
     (ps_execution_class v = ''external_pilot'' \<longrightarrow> ps_capacity_mode v = ''shared'') \<and>
     (ps_capacity_mode v = ''shared'' \<and> ps_capacity_evidence_ref v = [] \<or>
      ps_capacity_mode v = ''dedicated'' \<and> evidence_pattern (ps_capacity_evidence_ref v) \<and>
        \<not> contains_str ''://'' (ps_capacity_evidence_ref v)) \<and>
     100 * millisecond \<le> ps_target_timeout v \<and> ps_target_timeout v \<le> minute \<and>
     1 \<le> ps_max_attempts v \<and> ps_max_attempts v \<le> 4 \<and>
     minute div 2 \<le> ps_probe_interval v \<and> ps_probe_interval v \<le> 24 * hour \<and>
     ps_scopes v \<noteq> [] \<and> set (ps_scopes v) \<subseteq> known_scopes \<and> sorted_wrt (<) (ps_scopes v)"

lemma validate_identityD:
  assumes "validate_identity (trim_spec s) = None"
  shows "list_all slug_pattern [ps_organisation_slug s, ps_project_slug s, ps_environment_slug s]"
    and "list_all (\<lambda>n. n \<noteq> [] \<and> length n \<le> 255 \<and> trim_space n = n)
       [trim_space (ps_organisation_name s), trim_space (ps_project_name s),
        trim_space (ps_environment_name s), trim_space (ps_service_account s),
        trim_space (ps_target_name s), trim_space (ps_provider_model s),
        trim_space (ps_model_version s)]"
    and "alias_pattern (ps_model_alias s)"
  using assms by (simp_all add: validate_identity_def trim_spec_def bounded_name_def split: if_splits)

lemma validate_capacityD:
  assumes "validate_capacity s = None"
  shows "ps_execution_class s \<in> {''external_pilot'', ''private_compatible''}"
    and "ps_execution_class s = ''external_pilot'' \<longrightarrow> ps_capacity_mode s = ''shared''"
    and "ps_capacity_mode s = ''shared'' \<and> ps_capacity_evidence_ref s = [] \<or>
      ps_capacity_mode s = ''dedicated'' \<and> evidence_pattern (ps_capacity_evidence_ref s) \<and>
        \<not> contains_str ''://'' (ps_capacity_evidence_ref s)"
  using assms by (auto simp: validate_capacity_def split: if_splits)

lemma validate_rotate_fields:
  "validate_rotate lib spec = Inr v \<Longrightarrow>
   v = spec\<lparr>rk_service_account := trim_space (rk_service_account spec),
            rk_scopes := sorted_list_of_set (set (rk_scopes spec))\<rparr>"
  by (auto simp: validate_rotate_def validate_Inr_iff validate_limits_Inr_iff validate_scopes_Inr_iff trim_spec_def
      rotation_template_def split: if_splits sum.splits)

section \<open>Properties\<close>

text \<open>
  An instance of the URL parameter for concrete runs: every text that starts with \<open>https://\<close> is a
  URL that prints as itself.
\<close>

definition plain_url_lib :: url_lib where
  "plain_url_lib =
     \<lparr>url_parse = (\<lambda>s. if has_prefix ''https://'' s
        then Some \<lparr>url_scheme = ''https'', url_user = False, url_host = ''host'', url_path = [],
                   url_raw_path = [], url_raw_query = [], url_fragment = [], url_rest = s\<rparr>
        else None),
      url_escaped_path = url_path, url_string = (\<lambda>u. url_rest u @ url_path u)\<rparr>"

definition sample_spec :: provision_spec where
  "sample_spec = (rotation_template
     \<lparr>rk_organisation_slug = ''tenant'', rk_project_slug = ''app'', rk_environment_slug = ''production'',
      rk_service_account = '' app '', rk_scopes = [''usage:read'', ''inference:write'', ''usage:read'']\<rparr>)
     \<lparr>ps_target_base_url := ''https://host/v1/''\<rparr>"

text \<open>
  C15: whatever the input, a provisioning specification that passes validation is admissible: names
  trimmed and within 255 bytes, an external pilot shared, dedicated capacity always with evidence and
  shared capacity never, timeout, attempts and probe interval in range, and the scopes a strictly
  sorted non-empty list of known scopes; and a refusal is always \<open>ErrInvalid\<close>.
\<close>

theorem validate_admissible:
  "case validate lib s insecure of
     Inl e \<Rightarrow> e = ErrInvalid
   | Inr v \<Rightarrow> admissible_spec v \<and> ps_scopes v = sorted_list_of_set (set (ps_scopes s))"
proof (cases "validate lib s insecure")
  case (Inl e)
  then show ?thesis by (simp add: validate_error)
next
  case (Inr v)
  from this [unfolded validate_Inr_iff] obtain base w sc where
    i: "validate_identity (trim_spec s) = None" and c: "validate_capacity (trim_spec s) = None"
    and r: "secret_ref_pattern (ps_secret_ref s)"
    and l: "validate_limits ((trim_spec s)\<lparr>ps_target_base_url := base\<rparr>) = Inr w"
    and sc: "validate_scopes (ps_scopes s) = Inr sc" and v: "v = w\<lparr>ps_scopes := sc\<rparr>"
    by blast
  have "sc \<noteq> []" "set sc \<subseteq> known_scopes" "sorted_wrt (<) sc" "sc = sorted_list_of_set (set (ps_scopes s))"
    using sc by (auto simp: validate_scopes_Inr_iff)
  with validate_identityD [OF i] validate_capacityD [OF c] r l v Inr show ?thesis
    by (simp add: admissible_spec_def validate_limits_Inr_iff trim_spec_def)
qed

text \<open>
  Validation is idempotent: validating an accepted specification again accepts it unchanged, so
  a stored specification can be re-submitted, whenever the URL library reads back the base URL the
  first pass printed as a URL with the same scheme, host and path that prints the same way.
\<close>

theorem validate_idempotent:
  assumes "validate lib s insecure = Inr v"
    and "\<And>u. url_parse lib (ps_target_base_url s) = Some u \<Longrightarrow>
      \<exists>u'. url_parse lib (trim_right ''/'' (url_string lib u)) = Some u' \<and>
        url_scheme u' = url_scheme u \<and> url_host u' = url_host u \<and> url_user u' = url_user u \<and>
        url_raw_query u' = url_raw_query u \<and> url_fragment u' = url_fragment u \<and>
        \<not> contains_str ''%'' (url_escaped_path lib u') \<and>
        trim_right ''/'' (url_string lib u') = trim_right ''/'' (url_string lib u)"
  shows "validate lib v insecure = Inr v"
proof -
  from assms(1) [unfolded validate_Inr_iff] obtain base w sc where
    i: "validate_identity (trim_spec s) = None" and c: "validate_capacity (trim_spec s) = None"
    and r: "secret_ref_pattern (ps_secret_ref s)" and p: "validate_service_plan (trim_spec s) = None"
    and b: "validate_target_url lib insecure (ps_target_base_url s) = Inr base"
    and l: "validate_limits ((trim_spec s)\<lparr>ps_target_base_url := base\<rparr>) = Inr w"
    and sc: "validate_scopes (ps_scopes s) = Inr sc" and v: "v = w\<lparr>ps_scopes := sc\<rparr>"
    by blast
  from b assms(2) have b': "validate_target_url lib insecure base = Inr base"
    by (fastforce simp: validate_target_url_def split: option.splits if_splits)
  from sc have sc': "validate_scopes sc = Inr sc"
    by (auto simp: validate_scopes_Inr_iff)
  from l have w: "w = (trim_spec s)\<lparr>ps_target_base_url := base,
      ps_probe_interval := default_interval (ps_probe_interval s)\<rparr>"
    by (simp add: validate_limits_Inr_iff trim_spec_def)
  have t: "trim_spec v = v" by (simp add: v w frame_simps trim_spec_idem)
  have l': "validate_limits (v\<lparr>ps_target_base_url := base\<rparr>) = Inr v"
    using l by (auto simp: v w validate_limits_Inr_iff default_interval_def minute_def trim_spec_def)
  have f: "ps_secret_ref v = ps_secret_ref s" "ps_target_base_url v = base" "ps_scopes v = sc"
    by (simp_all add: v w trim_spec_def)
  show ?thesis
    unfolding validate_Inr_iff t f using i c r p b' l' sc' f(3)
    by (auto simp: v w frame_simps)
qed

theorem validate_idempotent_witness:
  "\<exists>v. validate plain_url_lib sample_spec False = Inr v \<and> ps_target_base_url v = ''https://host/v1'' \<and>
     ps_scopes v = [''inference:write'', ''usage:read''] \<and> validate plain_url_lib v False = Inr v"
proof -
  obtain v where v: "validate plain_url_lib sample_spec False = Inr v"
    and f: "ps_target_base_url v = ''https://host/v1''" "ps_scopes v = [''inference:write'', ''usage:read'']"
  proof -
    have "case validate plain_url_lib sample_spec False of Inl e \<Rightarrow> False
      | Inr v \<Rightarrow> ps_target_base_url v = ''https://host/v1'' \<and> ps_scopes v = [''inference:write'', ''usage:read'']"
      by code_simp
    then show ?thesis using that by (auto split: sum.splits)
  qed
  moreover have "validate plain_url_lib v False = Inr v"
  proof (rule validate_idempotent [OF v])
    fix u assume "url_parse plain_url_lib (ps_target_base_url sample_spec) = Some u"
    then have u: "u = \<lparr>url_scheme = ''https'', url_user = False, url_host = ''host'', url_path = [],
        url_raw_path = [], url_raw_query = [], url_fragment = [], url_rest = ''https://host/v1/''\<rparr>"
      by (simp add: plain_url_lib_def sample_spec_def)
    show "\<exists>u'. url_parse plain_url_lib (trim_right ''/'' (url_string plain_url_lib u)) = Some u' \<and>
        url_scheme u' = url_scheme u \<and> url_host u' = url_host u \<and> url_user u' = url_user u \<and>
        url_raw_query u' = url_raw_query u \<and> url_fragment u' = url_fragment u \<and>
        \<not> contains_str ''%'' (url_escaped_path plain_url_lib u') \<and>
        trim_right ''/'' (url_string plain_url_lib u') = trim_right ''/'' (url_string plain_url_lib u)"
      by (simp add: u plain_url_lib_def trim_right_def)
  qed
  ultimately show ?thesis by blast
qed

text \<open>
  C16: key rotation validates by sending a dummy specification through the provisioning validator.
  None of the dummy's own fields can fail: the rotation is accepted exactly when the three slugs, the
  trimmed service account and the scopes are, and then only the account (trimmed) and the scopes
  (sorted, without duplicates) change, provided the URL library reads the constant validation URL.
\<close>

theorem validate_rotate_exact:
  assumes "url_parse lib ''https://validation.invalid/v1'' = Some u"
    and "url_scheme u = ''https''" and "url_host u \<noteq> []" and "\<not> url_user u"
    and "url_raw_query u = []" and "url_fragment u = []"
    and "\<not> contains_str ''%'' (url_escaped_path lib u)"
  shows "validate_rotate lib spec = Inr v \<longleftrightarrow>
    list_all slug_pattern [rk_organisation_slug spec, rk_project_slug spec, rk_environment_slug spec] \<and>
    trim_space (rk_service_account spec) \<noteq> [] \<and> length (trim_space (rk_service_account spec)) \<le> 255 \<and>
    rk_scopes spec \<noteq> [] \<and> set (rk_scopes spec) \<subseteq> known_scopes \<and>
    v = spec\<lparr>rk_service_account := trim_space (rk_service_account spec),
             rk_scopes := sorted_list_of_set (set (rk_scopes spec))\<rparr>"
proof -
  let ?t = "rotation_template spec"
  have trims: "trim_space ''validation'' = ''validation''" by code_simp
  have pats: "alias_pattern ''validation''" "secret_ref_pattern ''VALIDATION_SECRET''" by code_simp+
  have url: "\<exists>b. validate_target_url lib False (ps_target_base_url ?t) = Inr b"
    using assms by (simp add: validate_target_url_def rotation_template_def)
  have cap: "validate_capacity (trim_spec ?t) = None"
    by (simp add: validate_capacity_def trim_spec_def rotation_template_def)
  have plan: "validate_service_plan (trim_spec ?t) = None"
    by (simp add: validate_service_plan_def trim_spec_def rotation_template_def)
  have ident: "validate_identity (trim_spec ?t) = None \<longleftrightarrow>
      list_all slug_pattern [rk_organisation_slug spec, rk_project_slug spec, rk_environment_slug spec] \<and>
      bounded_name (trim_space (rk_service_account spec))"
    using pats by (auto simp: validate_identity_def trim_spec_def rotation_template_def trims bounded_name_def)
  have lim: "validate_limits ((trim_spec ?t)\<lparr>ps_target_base_url := b\<rparr>) =
      Inr ((trim_spec ?t)\<lparr>ps_target_base_url := b, ps_probe_interval := 5 * minute\<rparr>)" for b
    by (simp add: validate_limits_Inr_iff trim_spec_def rotation_template_def default_interval_def
        nanosecond_per_second_def millisecond_def minute_def hour_def)
  have fields: "ps_secret_ref ?t = ''VALIDATION_SECRET''" "ps_scopes ?t = rk_scopes spec"
    by (simp_all add: rotation_template_def)
  have acc: "validate lib ?t False = Inr w \<longleftrightarrow>
      (validate_identity (trim_spec ?t) = None \<and> (\<exists>b sc.
        validate_target_url lib False (ps_target_base_url ?t) = Inr b \<and> validate_scopes (rk_scopes spec) = Inr sc \<and>
        w = (trim_spec ?t)\<lparr>ps_target_base_url := b, ps_probe_interval := 5 * minute, ps_scopes := sc\<rparr>))" for w
    unfolding validate_Inr_iff cap plan lim fields sum.inject using pats(2) by blast
  obtain b where b: "validate_target_url lib False (ps_target_base_url ?t) = Inr b" using url by blast
  have "validate_rotate lib spec = Inr v \<longleftrightarrow>
      list_all slug_pattern [rk_organisation_slug spec, rk_project_slug spec, rk_environment_slug spec] \<and>
      trim_space (rk_service_account spec) \<noteq> [] \<and>
      (\<exists>w. validate lib ?t False = Inr w \<and>
        v = spec\<lparr>rk_service_account := ps_service_account w, rk_scopes := ps_scopes w\<rparr>)"
    by (auto simp: validate_rotate_def split: sum.splits)
  also have "(\<exists>w. validate lib ?t False = Inr w \<and>
        v = spec\<lparr>rk_service_account := ps_service_account w, rk_scopes := ps_scopes w\<rparr>) \<longleftrightarrow>
      validate_identity (trim_spec ?t) = None \<and> (\<exists>sc. validate_scopes (rk_scopes spec) = Inr sc \<and>
        v = spec\<lparr>rk_service_account := trim_space (rk_service_account spec), rk_scopes := sc\<rparr>)"
    unfolding acc b by (auto simp: trim_spec_def rotation_template_def)
  also have "(\<exists>sc. validate_scopes (rk_scopes spec) = Inr sc \<and>
        v = spec\<lparr>rk_service_account := trim_space (rk_service_account spec), rk_scopes := sc\<rparr>) \<longleftrightarrow>
      rk_scopes spec \<noteq> [] \<and> set (rk_scopes spec) \<subseteq> known_scopes \<and>
      v = spec\<lparr>rk_service_account := trim_space (rk_service_account spec),
               rk_scopes := sorted_list_of_set (set (rk_scopes spec))\<rparr>"
    by (simp add: validate_scopes_Inr_iff)
  finally show ?thesis
    unfolding ident bounded_name_def by (simp add: not_less) blast
qed

definition sample_rotation :: rotate_key_spec where
  "sample_rotation =
     \<lparr>rk_organisation_slug = ''tenant'', rk_project_slug = ''app'', rk_environment_slug = ''production'',
      rk_service_account = '' app '', rk_scopes = [''usage:read'', ''inference:write'', ''usage:read'']\<rparr>"

theorem validate_rotate_exact_witness:
  "validate_rotate plain_url_lib sample_rotation =
     Inr (sample_rotation\<lparr>rk_service_account := ''app'', rk_scopes := [''inference:write'', ''usage:read'']\<rparr>)"
proof -
  have p: "list_all slug_pattern [rk_organisation_slug sample_rotation, rk_project_slug sample_rotation,
      rk_environment_slug sample_rotation]" by code_simp
  have t: "trim_space (rk_service_account sample_rotation) = ''app''" by code_simp
  have k: "set (rk_scopes sample_rotation) \<subseteq> known_scopes"
    by (simp add: sample_rotation_def known_scopes_def scope_inference_write_def scope_usage_read_def)
  have o: "sorted_list_of_set (set (rk_scopes sample_rotation)) = [''inference:write'', ''usage:read'']"
    by code_simp
  show ?thesis
    by (subst validate_rotate_exact [where u = "\<lparr>url_scheme = ''https'', url_user = False,
        url_host = ''host'', url_path = [], url_raw_path = [], url_raw_query = [], url_fragment = [],
        url_rest = ''https://validation.invalid/v1''\<rparr>"])
      (use p t k o in \<open>simp_all add: plain_url_lib_def sample_rotation_def\<close>)
qed

end
