(* ===== verification/Memory_Store.thy ===== *)
theory Memory_Store
  imports Credentials Provisioning
begin

text \<open>
  \<open>internal/store/memory/store.go\<close>: the in-memory store behind the gateway's \<open>Store\<close> interface and
  the operator's \<open>Provisioner\<close> interface. Its mutex makes every operation atomic, so an execution is
  a sequence of the operations below. The clock reading an operation takes is an argument; the
  state field \<open>ms_entropy\<close> holds the outcomes of the coming reads of \<open>crypto/rand\<close>.
\<close>

section \<open>State\<close>

record organisation =
  org_id :: string
  org_slug :: string
  org_name :: string

record project =
  prj_id :: string
  prj_organisation_id :: string
  prj_slug :: string
  prj_name :: string

record environment =
  env_id :: string
  env_organisation_id :: string
  env_project_id :: string
  env_slug :: string
  env_name :: string

record model =
  mdl_id :: string
  mdl_alias :: string
  mdl_version :: string
  mdl_enabled :: bool

record service_account =
  sa_id :: string
  sa_organisation_id :: string
  sa_project_id :: string
  sa_environment_id :: string
  sa_name :: string

record api_key =
  ak_id :: string
  ak_service_account_id :: string
  ak_prefix :: string
  ak_digest :: string
  ak_scopes :: "string list"
  ak_revoked_at :: "time option"

record stored_route =
  sr_id :: string
  sr_organisation_id :: string
  sr_project_id :: string
  sr_environment_id :: string
  sr_model_id :: string
  sr_target_id :: string
  sr_binding_generation :: int
  sr_enabled :: bool
  sr_created_at :: time
  sr_updated_at :: time

record mem_store =
  ms_organisations :: "(string, organisation) go_map"
  ms_projects :: "(string, project) go_map"
  ms_environments :: "(string, environment) go_map"
  ms_models :: "(string, model) go_map"
  ms_targets :: "(string, target) go_map"
  ms_service_accounts :: "(string, service_account) go_map"
  ms_keys :: "(string, api_key) go_map"
  ms_routes :: "(string, stored_route) go_map"
  ms_requests :: "(string, inference_request) go_map"
  ms_attempts :: "(string, provider_attempt) go_map"
  ms_entropy :: "string option list"

definition new_store :: "string option list \<Rightarrow> mem_store" where
  "new_store entropy =
     \<lparr>ms_organisations = [], ms_projects = [], ms_environments = [], ms_models = [], ms_targets = [],
      ms_service_accounts = [], ms_keys = [], ms_routes = [], ms_requests = [], ms_attempts = [],
      ms_entropy = entropy\<rparr>"

section \<open>Lookups\<close>

definition find_organisation :: "(string, organisation) go_map \<Rightarrow> string \<Rightarrow> organisation option" where
  "find_organisation values slug = find_value (\<lambda>v. org_slug v = slug) values"

definition find_project :: "(string, project) go_map \<Rightarrow> string \<Rightarrow> string \<Rightarrow> project option" where
  "find_project values oid slug =
     find_value (\<lambda>v. prj_organisation_id v = oid \<and> prj_slug v = slug) values"

definition find_environment ::
  "(string, environment) go_map \<Rightarrow> string \<Rightarrow> string \<Rightarrow> string \<Rightarrow> environment option" where
  "find_environment values oid pid slug =
     find_value (\<lambda>v. env_organisation_id v = oid \<and> env_project_id v = pid \<and> env_slug v = slug) values"

definition find_model :: "(string, model) go_map \<Rightarrow> string \<Rightarrow> model option" where
  "find_model values alias = find_value (\<lambda>v. mdl_alias v = alias) values"

definition find_target :: "(string, target) go_map \<Rightarrow> string \<Rightarrow> target option" where
  "find_target values name = find_value (\<lambda>v. t_name v = name) values"

definition find_route ::
  "(string, stored_route) go_map \<Rightarrow> string \<Rightarrow> string \<Rightarrow> string \<Rightarrow> string \<Rightarrow> stored_route option" where
  "find_route values oid pid eid mid =
     find_value (\<lambda>v. sr_organisation_id v = oid \<and> sr_project_id v = pid \<and>
       sr_environment_id v = eid \<and> sr_model_id v = mid) values"

definition find_service_account ::
  "(string, service_account) go_map \<Rightarrow> string \<Rightarrow> string \<Rightarrow> string \<Rightarrow> string \<Rightarrow> service_account option" where
  "find_service_account values oid pid eid name =
     find_value (\<lambda>v. sa_organisation_id v = oid \<and> sa_project_id v = pid \<and>
       sa_environment_id v = eid \<and> sa_name v = name) values"

definition active_key_for_account :: "mem_store \<Rightarrow> string \<Rightarrow> api_key option" where
  "active_key_for_account s account =
     find_value (\<lambda>k. ak_service_account_id k = account \<and> ak_revoked_at k = None) (ms_keys s)"

lemmas find_defs = find_organisation_def find_project_def find_environment_def find_model_def
  find_target_def find_route_def find_service_account_def active_key_for_account_def

definition materialise_route :: "stored_route \<Rightarrow> model \<Rightarrow> target \<Rightarrow> route" where
  "materialise_route rt mdl target =
     \<lparr>r_id = sr_id rt, r_organisation_id = sr_organisation_id rt, r_project_id = sr_project_id rt,
      r_environment_id = sr_environment_id rt, r_model_id = mdl_id mdl, r_model_alias = mdl_alias mdl,
      r_model_version = mdl_version mdl, r_model_enabled = mdl_enabled mdl,
      r_binding_generation = sr_binding_generation rt, r_enabled = sr_enabled rt, r_target = target,
      r_created_at = sr_created_at rt, r_updated_at = sr_updated_at rt\<rparr>"

section \<open>Random identifiers and keys\<close>

definition read_full :: "nat \<Rightarrow> (mem_store, string option) state" where
  "read_full n = do {
     s \<leftarrow> State_Monad.get;
     case ms_entropy s of
       [] \<Rightarrow> State_Monad.return None
     | e # rest \<Rightarrow> do {
         State_Monad.set (s\<lparr>ms_entropy := rest\<rparr>);
         State_Monad.return (case e of None \<Rightarrow> None | Some b \<Rightarrow> if length b = n then Some b else None)
       }
   }"

definition new_id :: "string \<Rightarrow> (mem_store, err + string) state" where
  "new_id pre = do {
     value \<leftarrow> read_full 16;
     State_Monad.return (ids_from pre value)
   }"

definition generate_key :: "(string \<Rightarrow> string) \<Rightarrow> (mem_store, err + key) state" where
  "generate_key sha = do {
     public \<leftarrow> read_full 8;
     case public of
       None \<Rightarrow> State_Monad.return (generate sha None None)
     | Some pub \<Rightarrow> do {
         secret \<leftarrow> read_full 24;
         State_Monad.return (generate sha (Some pub) secret)
       }
   }"

section \<open>Provisioning\<close>

definition upsert_organisation :: "provision_spec \<Rightarrow> (mem_store, err + organisation) state" where
  "upsert_organisation spec = do {
     s \<leftarrow> State_Monad.get;
     case find_organisation (ms_organisations s) (ps_organisation_slug spec) of
       None \<Rightarrow> or_return (new_id ''org'') (\<lambda>i. do {
         let org = \<lparr>org_id = i, org_slug = ps_organisation_slug spec, org_name = ps_organisation_name spec\<rparr>;
         State_Monad.update (\<lambda>s. s\<lparr>ms_organisations := AList.update i org (ms_organisations s)\<rparr>);
         State_Monad.return (Inr org)
       })
     | Some org \<Rightarrow> do {
         let org = org\<lparr>org_name := ps_organisation_name spec\<rparr>;
         State_Monad.update (\<lambda>s. s\<lparr>ms_organisations := AList.update (org_id org) org (ms_organisations s)\<rparr>);
         State_Monad.return (Inr org)
       }
   }"

definition upsert_project :: "provision_spec \<Rightarrow> string \<Rightarrow> (mem_store, err + project) state" where
  "upsert_project spec oid = do {
     s \<leftarrow> State_Monad.get;
     case find_project (ms_projects s) oid (ps_project_slug spec) of
       None \<Rightarrow> or_return (new_id ''prj'') (\<lambda>i. do {
         let proj = \<lparr>prj_id = i, prj_organisation_id = oid, prj_slug = ps_project_slug spec,
           prj_name = ps_project_name spec\<rparr>;
         State_Monad.update (\<lambda>s. s\<lparr>ms_projects := AList.update i proj (ms_projects s)\<rparr>);
         State_Monad.return (Inr proj)
       })
     | Some proj \<Rightarrow> do {
         let proj = proj\<lparr>prj_name := ps_project_name spec\<rparr>;
         State_Monad.update (\<lambda>s. s\<lparr>ms_projects := AList.update (prj_id proj) proj (ms_projects s)\<rparr>);
         State_Monad.return (Inr proj)
       }
   }"

definition upsert_environment ::
  "provision_spec \<Rightarrow> string \<Rightarrow> string \<Rightarrow> (mem_store, err + environment) state" where
  "upsert_environment spec oid pid = do {
     s \<leftarrow> State_Monad.get;
     case find_environment (ms_environments s) oid pid (ps_environment_slug spec) of
       None \<Rightarrow> or_return (new_id ''env'') (\<lambda>i. do {
         let env = \<lparr>env_id = i, env_organisation_id = oid, env_project_id = pid,
           env_slug = ps_environment_slug spec, env_name = ps_environment_name spec\<rparr>;
         State_Monad.update (\<lambda>s. s\<lparr>ms_environments := AList.update i env (ms_environments s)\<rparr>);
         State_Monad.return (Inr env)
       })
     | Some env \<Rightarrow> do {
         let env = env\<lparr>env_name := ps_environment_name spec\<rparr>;
         State_Monad.update (\<lambda>s. s\<lparr>ms_environments := AList.update (env_id env) env (ms_environments s)\<rparr>);
         State_Monad.return (Inr env)
       }
   }"

definition upsert_model :: "provision_spec \<Rightarrow> (mem_store, err + model) state" where
  "upsert_model spec = do {
     s \<leftarrow> State_Monad.get;
     case find_model (ms_models s) (ps_model_alias spec) of
       None \<Rightarrow> or_return (new_id ''mdl'') (\<lambda>i. do {
         let mdl = \<lparr>mdl_id = i, mdl_alias = ps_model_alias spec, mdl_version = ps_model_version spec,
           mdl_enabled = True\<rparr>;
         State_Monad.update (\<lambda>s. s\<lparr>ms_models := AList.update i mdl (ms_models s)\<rparr>);
         State_Monad.return (Inr mdl)
       })
     | Some mdl \<Rightarrow>
         if mdl_version mdl \<noteq> ps_model_version spec then State_Monad.return (Inl ErrConflict)
         else do {
           let mdl = mdl\<lparr>mdl_enabled := True\<rparr>;
           State_Monad.update (\<lambda>s. s\<lparr>ms_models := AList.update (mdl_id mdl) mdl (ms_models s)\<rparr>);
           State_Monad.return (Inr mdl)
         }
   }"

definition target_owner :: "provision_spec \<Rightarrow> string \<Rightarrow> string" where
  "target_owner spec oid = (if ps_capacity_mode spec = ''dedicated'' then oid else [])"

definition target_conflicts :: "target \<Rightarrow> provision_spec \<Rightarrow> string \<Rightarrow> bool" where
  "target_conflicts target spec oid \<longleftrightarrow>
     t_execution_class target \<noteq> ps_execution_class spec \<or> t_capacity_mode target \<noteq> ps_capacity_mode spec \<or>
     t_capacity_evidence_ref target \<noteq> ps_capacity_evidence_ref spec \<or>
     t_owner_organisation_id target \<noteq> target_owner spec oid \<or>
     t_base_url target \<noteq> ps_target_base_url spec \<or> t_provider_model target \<noteq> ps_provider_model spec \<or>
     t_secret_ref target \<noteq> ps_secret_ref spec \<or> t_timeout target \<noteq> ps_target_timeout spec \<or>
     t_max_attempts target \<noteq> ps_max_attempts spec"

definition configure_target :: "target \<Rightarrow> provision_spec \<Rightarrow> string \<Rightarrow> target" where
  "configure_target target spec oid = target
     \<lparr>t_name := ps_target_name spec, t_execution_class := ps_execution_class spec,
      t_capacity_mode := ps_capacity_mode spec, t_capacity_evidence_ref := ps_capacity_evidence_ref spec,
      t_owner_organisation_id := target_owner spec oid, t_base_url := ps_target_base_url spec,
      t_provider_model := ps_provider_model spec, t_secret_ref := ps_secret_ref spec,
      t_timeout := ps_target_timeout spec, t_max_attempts := ps_max_attempts spec, t_enabled := True,
      t_health_status := (if t_health_status target = [] then ''unknown'' else t_health_status target)\<rparr>"

definition upsert_target :: "provision_spec \<Rightarrow> string \<Rightarrow> (mem_store, err + target) state" where
  "upsert_target spec oid = do {
     s \<leftarrow> State_Monad.get;
     or_return
       (case find_target (ms_targets s) (ps_target_name spec) of
          None \<Rightarrow> or_return (new_id ''tgt'') (\<lambda>i. State_Monad.return (Inr (zero_target\<lparr>t_id := i\<rparr>)))
        | Some target \<Rightarrow>
            if target_conflicts target spec oid then State_Monad.return (Inl ErrConflict)
            else State_Monad.return (Inr target))
       (\<lambda>target. do {
          let target = configure_target target spec oid;
          State_Monad.update (\<lambda>s. s\<lparr>ms_targets := AList.update (t_id target) target (ms_targets s)\<rparr>);
          State_Monad.return (Inr target)
        })
   }"

definition upsert_route ::
  "time \<Rightarrow> string \<Rightarrow> string \<Rightarrow> string \<Rightarrow> string \<Rightarrow> target \<Rightarrow> (mem_store, err + stored_route) state" where
  "upsert_route now oid pid eid mid target = do {
     s \<leftarrow> State_Monad.get;
     or_return
       (case find_route (ms_routes s) oid pid eid mid of
          None \<Rightarrow> or_return (new_id ''rte'') (\<lambda>i. State_Monad.return (Inr
            \<lparr>sr_id = i, sr_organisation_id = oid, sr_project_id = pid, sr_environment_id = eid,
             sr_model_id = mid, sr_target_id = [], sr_binding_generation = 1, sr_enabled = False,
             sr_created_at = now, sr_updated_at = zero_time\<rparr>))
        | Some rt \<Rightarrow> State_Monad.return (Inr
            (if sr_target_id rt \<noteq> t_id target
             then rt\<lparr>sr_binding_generation := sr_binding_generation rt + 1\<rparr> else rt)))
       (\<lambda>rt.
          if t_capacity_mode target = ''dedicated'' \<and> t_owner_organisation_id target \<noteq> oid
          then State_Monad.return (Inl ErrConflict)
          else do {
            let rt = rt\<lparr>sr_target_id := t_id target, sr_enabled := True, sr_updated_at := now\<rparr>;
            State_Monad.update (\<lambda>s. s\<lparr>ms_routes := AList.update (sr_id rt) rt (ms_routes s)\<rparr>);
            State_Monad.return (Inr rt)
          })
   }"

definition upsert_service_account ::
  "provision_spec \<Rightarrow> string \<Rightarrow> string \<Rightarrow> string \<Rightarrow> (mem_store, err + service_account) state" where
  "upsert_service_account spec oid pid eid = do {
     s \<leftarrow> State_Monad.get;
     case find_service_account (ms_service_accounts s) oid pid eid (ps_service_account spec) of
       None \<Rightarrow> or_return (new_id ''sa'') (\<lambda>i. do {
         let account = \<lparr>sa_id = i, sa_organisation_id = oid, sa_project_id = pid,
           sa_environment_id = eid, sa_name = ps_service_account spec\<rparr>;
         State_Monad.update (\<lambda>s. s\<lparr>ms_service_accounts := AList.update i account (ms_service_accounts s)\<rparr>);
         State_Monad.return (Inr account)
       })
     | Some account \<Rightarrow> State_Monad.return (Inr account)
   }"

definition issue_key ::
  "(string \<Rightarrow> string) \<Rightarrow> string \<Rightarrow> string list \<Rightarrow> (mem_store, err + key) state" where
  "issue_key sha account scopes =
     or_return (generate_key sha) (\<lambda>generated.
       or_return (new_id ''key'') (\<lambda>i. do {
         State_Monad.update (\<lambda>s. s\<lparr>ms_keys := AList.update (key_digest generated)
           \<lparr>ak_id = i, ak_service_account_id = account, ak_prefix = key_prefix generated,
            ak_digest = key_digest generated, ak_scopes = scopes, ak_revoked_at = None\<rparr> (ms_keys s)\<rparr>);
         State_Monad.return (Inr generated)
       }))"

definition provision_key ::
  "(string \<Rightarrow> string) \<Rightarrow> provision_spec \<Rightarrow> provision_result \<Rightarrow> (mem_store, err + provision_result) state" where
  "provision_key sha spec result = do {
     s \<leftarrow> State_Monad.get;
     case active_key_for_account s (pr_service_account_id result) of
       Some existing \<Rightarrow>
         State_Monad.return (Inr (result\<lparr>pr_key_prefix := ak_prefix existing, pr_scopes := ak_scopes existing\<rparr>))
     | None \<Rightarrow>
         or_return (issue_key sha (pr_service_account_id result) (ps_scopes spec)) (\<lambda>generated.
           State_Monad.return (Inr (result\<lparr>pr_key_prefix := key_prefix generated,
             pr_api_key := key_token generated, pr_key_created := True\<rparr>)))
   }"

definition provision ::
  "url_lib \<Rightarrow> (string \<Rightarrow> string) \<Rightarrow> time \<Rightarrow> provision_spec \<Rightarrow> (mem_store, err + provision_result) state" where
  "provision lib sha now input =
     (case validate lib input True of
        Inl e \<Rightarrow> State_Monad.return (Inl e)
      | Inr spec \<Rightarrow>
          or_return (upsert_organisation spec) (\<lambda>org.
          or_return (upsert_project spec (org_id org)) (\<lambda>proj.
          or_return (upsert_environment spec (org_id org) (prj_id proj)) (\<lambda>env.
          or_return (upsert_model spec) (\<lambda>mdl.
          or_return (upsert_target spec (org_id org)) (\<lambda>target.
          or_return (upsert_route now (org_id org) (prj_id proj) (env_id env) (mdl_id mdl) target) (\<lambda>rt.
          or_return (upsert_service_account spec (org_id org) (prj_id proj) (env_id env)) (\<lambda>account.
            provision_key sha spec
              \<lparr>pr_organisation_id = org_id org, pr_project_id = prj_id proj, pr_environment_id = env_id env,
               pr_route_id = sr_id rt, pr_target_id = t_id target, pr_service_account_id = sa_id account,
               pr_key_prefix = [], pr_api_key = [], pr_key_created = False, pr_scopes = ps_scopes spec,
               pr_service_plan_code = []\<rparr>))))))))"

section \<open>Key rotation and revocation\<close>

definition revoke_account_keys :: "time \<Rightarrow> string \<Rightarrow> (mem_store, unit) state" where
  "revoke_account_keys now account =
     State_Monad.update (\<lambda>s. s\<lparr>ms_keys := map_values
       (\<lambda>key. if ak_service_account_id key = account \<and> ak_revoked_at key = None
              then key\<lparr>ak_revoked_at := Some now\<rparr> else key) (ms_keys s)\<rparr>)"

definition rotate_key ::
  "url_lib \<Rightarrow> (string \<Rightarrow> string) \<Rightarrow> time \<Rightarrow> rotate_key_spec \<Rightarrow> (mem_store, err + key_result) state" where
  "rotate_key lib sha now input =
     (case validate_rotate lib input of
        Inl e \<Rightarrow> State_Monad.return (Inl e)
      | Inr spec \<Rightarrow> do {
          s \<leftarrow> State_Monad.get;
          case find_organisation (ms_organisations s) (rk_organisation_slug spec) of
            None \<Rightarrow> State_Monad.return (Inl ErrNotFound)
          | Some org \<Rightarrow>
          (case find_project (ms_projects s) (org_id org) (rk_project_slug spec) of
            None \<Rightarrow> State_Monad.return (Inl ErrNotFound)
          | Some proj \<Rightarrow>
          (case find_environment (ms_environments s) (org_id org) (prj_id proj) (rk_environment_slug spec) of
            None \<Rightarrow> State_Monad.return (Inl ErrNotFound)
          | Some env \<Rightarrow>
          (case find_service_account (ms_service_accounts s) (org_id org) (prj_id proj) (env_id env)
                  (rk_service_account spec) of
            None \<Rightarrow> State_Monad.return (Inl ErrNotFound)
          | Some account \<Rightarrow> do {
              _ \<leftarrow> revoke_account_keys now (sa_id account);
              or_return (issue_key sha (sa_id account) (rk_scopes spec)) (\<lambda>generated.
                State_Monad.return (Inr \<lparr>kr_key_prefix = key_prefix generated,
                  kr_api_key = key_token generated, kr_scopes = rk_scopes spec\<rparr>))
            })))
        })"

definition revoke_key :: "time \<Rightarrow> string \<Rightarrow> (mem_store, err option) state" where
  "revoke_key now prefix = do {
     s \<leftarrow> State_Monad.get;
     case find (\<lambda>e. ak_prefix (snd e) = prefix) (ms_keys s) of
       None \<Rightarrow> State_Monad.return (Some ErrNotFound)
     | Some (digest, key) \<Rightarrow> do {
         (if ak_revoked_at key = None
          then State_Monad.set (s\<lparr>ms_keys := AList.update digest (key\<lparr>ak_revoked_at := Some now\<rparr>) (ms_keys s)\<rparr>)
          else State_Monad.return ());
         State_Monad.return None
       }
   }"

section \<open>Authentication and routing\<close>

definition authenticate :: "mem_store \<Rightarrow> string \<Rightarrow> err + principal" where
  "authenticate s digest =
     (case map_of (ms_keys s) digest of
        None \<Rightarrow> Inl ErrUnauthenticated
      | Some key \<Rightarrow>
          if ak_revoked_at key \<noteq> None then Inl ErrUnauthenticated
          else (case map_of (ms_service_accounts s) (ak_service_account_id key) of
                  None \<Rightarrow> Inl ErrUnauthenticated
                | Some account \<Rightarrow>
                    (case (map_of (ms_organisations s) (sa_organisation_id account),
                           map_of (ms_projects s) (sa_project_id account),
                           map_of (ms_environments s) (sa_environment_id account)) of
                       (Some org, Some proj, Some env) \<Rightarrow> Inr (zero_principal
                         \<lparr>p_organisation_id := org_id org, p_organisation_name := org_name org,
                          p_organisation_slug := org_slug org, p_project_id := prj_id proj,
                          p_project_name := prj_name proj, p_project_slug := prj_slug proj,
                          p_environment_id := env_id env, p_environment_name := env_name env,
                          p_environment_slug := env_slug env, p_service_account_id := sa_id account,
                          p_service_account := sa_name account, p_api_key_id := ak_id key,
                          p_key_prefix := ak_prefix key, p_scopes := ak_scopes key\<rparr>)
                     | _ \<Rightarrow> Inl ErrUnauthenticated)))"

definition resolve_route :: "mem_store \<Rightarrow> principal \<Rightarrow> string \<Rightarrow> err + route" where
  "resolve_route s pr alias =
     (case find_model (ms_models s) alias of
        None \<Rightarrow> Inl ErrNotFound
      | Some mdl \<Rightarrow>
          if \<not> mdl_enabled mdl then Inl ErrNotFound
          else (case find_route (ms_routes s) (p_organisation_id pr) (p_project_id pr)
                       (p_environment_id pr) (mdl_id mdl) of
                  None \<Rightarrow> Inl ErrNotFound
                | Some rt \<Rightarrow>
                    if \<not> sr_enabled rt then Inl ErrUnavailable
                    else (case map_of (ms_targets s) (sr_target_id rt) of
                            None \<Rightarrow> Inl ErrUnavailable
                          | Some target \<Rightarrow>
                              if \<not> t_enabled target \<or> t_health_status target = ''unavailable''
                                then Inl ErrUnavailable
                              else if t_capacity_mode target = ''dedicated'' \<and>
                                      t_owner_organisation_id target \<noteq> p_organisation_id pr
                                then Inl ErrForbidden
                              else Inr (materialise_route rt mdl target))))"

end
