(* ===== verification/Memory_Ledger.thy ===== *)
theory Memory_Ledger
  imports Memory_Store
begin

text \<open>
  The usage ledger of \<open>internal/store/memory/store.go\<close>: logical inference requests, the provider
  attempts made for them, target health, and the tenant-scoped reads.
\<close>

section \<open>Requests\<close>

definition new_request :: "request_start \<Rightarrow> inference_request" where
  "new_request start =
     \<lparr>ir_id = rs_id start, ir_organisation_id = p_organisation_id (rs_principal start),
      ir_project_id = p_project_id (rs_principal start),
      ir_environment_id = p_environment_id (rs_principal start), ir_route_id = [],
      ir_bound_target_id = [], ir_bound_model_id = [], ir_route_binding_generation = 0,
      ir_service_account_id = p_service_account_id (rs_principal start),
      ir_api_key_id = p_api_key_id (rs_principal start),
      ir_key_prefix = p_key_prefix (rs_principal start), ir_model_alias = rs_model_alias start,
      ir_executed_model = [], ir_provider_request_id = [], ir_started_at = rs_started_at start,
      ir_completed_at = None, ir_status = ''in_progress'', ir_http_status = 0, ir_error_class = [],
      ir_duration = 0, ir_usage = zero_usage, ir_usage_finality = ''unknown'', ir_attempt_count = 0\<rparr>"

definition put_request :: "inference_request \<Rightarrow> mem_store \<Rightarrow> mem_store" where
  "put_request record s = s\<lparr>ms_requests := AList.update (ir_id record) record (ms_requests s)\<rparr>"

definition create_inference_request :: "request_start \<Rightarrow> (mem_store, err option) state" where
  "create_inference_request start = do {
     s \<leftarrow> State_Monad.get;
     case map_of (ms_requests s) (rs_id start) of
       Some existing \<Rightarrow> State_Monad.return (Some ErrConflict)
     | None \<Rightarrow> do {
         State_Monad.set (put_request (new_request start) s);
         State_Monad.return None
       }
   }"

definition set_inference_request_route :: "string \<Rightarrow> string \<Rightarrow> (mem_store, err option) state" where
  "set_inference_request_route rid route_id = do {
     s \<leftarrow> State_Monad.get;
     case map_of (ms_requests s) rid of
       None \<Rightarrow> State_Monad.return (Some ErrNotFound)
     | Some record \<Rightarrow>
         (case map_of (ms_routes s) route_id of
            None \<Rightarrow> State_Monad.return (Some ErrForbidden)
          | Some rt \<Rightarrow>
              (case map_of (ms_models s) (sr_model_id rt) of
                 None \<Rightarrow> State_Monad.return (Some ErrForbidden)
               | Some mdl \<Rightarrow>
                   if mdl_alias mdl \<noteq> ir_model_alias record \<or>
                      sr_organisation_id rt \<noteq> ir_organisation_id record \<or>
                      sr_project_id rt \<noteq> ir_project_id record \<or>
                      sr_environment_id rt \<noteq> ir_environment_id record
                   then State_Monad.return (Some ErrForbidden)
                   else if ir_status record \<noteq> ''in_progress'' \<or> ir_route_id record \<noteq> [] \<or>
                           ir_attempt_count record \<noteq> 0
                   then State_Monad.return (Some ErrConflict)
                   else do {
                     State_Monad.set (s\<lparr>ms_requests := AList.update rid (record
                       \<lparr>ir_route_id := route_id, ir_bound_target_id := sr_target_id rt,
                        ir_bound_model_id := sr_model_id rt,
                        ir_route_binding_generation := sr_binding_generation rt\<rparr>) (ms_requests s)\<rparr>);
                     State_Monad.return None
                   }))
   }"

definition finish_request :: "request_finish \<Rightarrow> inference_request \<Rightarrow> inference_request" where
  "finish_request finish record = record
     \<lparr>ir_completed_at := Some (rf_completed_at finish), ir_status := rf_status finish,
      ir_http_status := rf_http_status finish, ir_error_class := rf_error_class finish,
      ir_executed_model := rf_executed_model finish,
      ir_provider_request_id := rf_provider_request_id finish, ir_duration := rf_duration finish,
      ir_usage := rf_usage finish, ir_usage_finality := rf_usage_finality finish\<rparr>"

definition complete_inference_request :: "request_finish \<Rightarrow> (mem_store, err option) state" where
  "complete_inference_request finish = do {
     s \<leftarrow> State_Monad.get;
     case map_of (ms_requests s) (rf_id finish) of
       None \<Rightarrow> State_Monad.return (Some ErrNotFound)
     | Some record \<Rightarrow>
         if ir_status record \<noteq> ''in_progress'' then State_Monad.return (Some ErrConflict)
         else do {
           State_Monad.set (s\<lparr>ms_requests := AList.update (rf_id finish) (finish_request finish record) (ms_requests s)\<rparr>);
           State_Monad.return None
         }
   }"

section \<open>Attempts\<close>

definition new_attempt :: "attempt_start \<Rightarrow> provider_attempt" where
  "new_attempt start =
     \<lparr>pa_id = as_id start, pa_inference_request_id = as_inference_request_id start,
      pa_target_id = as_target_id start, pa_attempt_number = as_attempt_number start,
      pa_started_at = as_started_at start, pa_completed_at = None, pa_status = ''in_progress'',
      pa_provider_http_status = 0, pa_error_class = [], pa_duration = 0, pa_provider_request_id = [],
      pa_usage = zero_usage, pa_usage_finality = ''unknown''\<rparr>"

definition create_provider_attempt :: "attempt_start \<Rightarrow> (mem_store, err option) state" where
  "create_provider_attempt start = do {
     s \<leftarrow> State_Monad.get;
     case map_of (ms_attempts s) (as_id start) of
       Some existing \<Rightarrow> State_Monad.return (Some ErrConflict)
     | None \<Rightarrow>
         (case map_of (ms_requests s) (as_inference_request_id start) of
            None \<Rightarrow> State_Monad.return (Some ErrNotFound)
          | Some record \<Rightarrow>
              if ir_status record \<noteq> ''in_progress'' then State_Monad.return (Some ErrConflict)
              else if ir_route_id record = [] \<or> ir_bound_target_id record = [] \<or>
                      ir_bound_target_id record \<noteq> as_target_id start \<or>
                      as_attempt_number start \<noteq> ir_attempt_count record + 1
              then State_Monad.return (Some ErrConflict)
              else do {
                State_Monad.set (put_request (record\<lparr>ir_attempt_count := ir_attempt_count record + 1\<rparr>)
                  (s\<lparr>ms_attempts := AList.update (as_id start) (new_attempt start) (ms_attempts s)\<rparr>));
                State_Monad.return None
              })
   }"

definition finish_attempt :: "attempt_finish \<Rightarrow> provider_attempt \<Rightarrow> provider_attempt" where
  "finish_attempt finish attempt = attempt
     \<lparr>pa_completed_at := Some (af_completed_at finish), pa_status := af_status finish,
      pa_provider_http_status := af_provider_http_status finish,
      pa_error_class := af_error_class finish, pa_duration := af_duration finish,
      pa_provider_request_id := af_provider_request_id finish, pa_usage := af_usage finish,
      pa_usage_finality := (if af_usage_finality finish = [] then ''unknown'' else af_usage_finality finish)\<rparr>"

definition complete_provider_attempt :: "attempt_finish \<Rightarrow> (mem_store, err option) state" where
  "complete_provider_attempt finish = do {
     s \<leftarrow> State_Monad.get;
     case map_of (ms_attempts s) (af_id finish) of
       None \<Rightarrow> State_Monad.return (Some ErrNotFound)
     | Some attempt \<Rightarrow>
         if pa_status attempt \<noteq> ''in_progress'' then State_Monad.return (Some ErrConflict)
         else do {
           State_Monad.set (s\<lparr>ms_attempts := AList.update (af_id finish) (finish_attempt finish attempt) (ms_attempts s)\<rparr>);
           State_Monad.return None
         }
   }"

section \<open>Target health\<close>

definition update_target_health :: "string \<Rightarrow> string \<Rightarrow> time \<Rightarrow> bool \<Rightarrow> (mem_store, err option) state" where
  "update_target_health target_id status checked_at successful = do {
     s \<leftarrow> State_Monad.get;
     case map_of (ms_targets s) target_id of
       None \<Rightarrow> State_Monad.return (Some ErrNotFound)
     | Some target \<Rightarrow> do {
         let target = target\<lparr>t_health_status := status, t_last_health_check_at := Some checked_at\<rparr>;
         let target = (if successful then target\<lparr>t_last_success_at := Some checked_at\<rparr> else target);
         State_Monad.set (s\<lparr>ms_targets := AList.update target_id target (ms_targets s)\<rparr>);
         State_Monad.return None
       }
   }"

section \<open>Tenant-scoped reads\<close>

definition list_routes :: "mem_store \<Rightarrow> principal \<Rightarrow> route list" where
  "list_routes s pr = sort_key r_model_alias (List.map_filter
     (\<lambda>(_, rt).
        if sr_organisation_id rt \<noteq> p_organisation_id pr \<or> sr_project_id rt \<noteq> p_project_id pr \<or>
           sr_environment_id rt \<noteq> p_environment_id pr then None
        else (case (map_of (ms_models s) (sr_model_id rt), map_of (ms_targets s) (sr_target_id rt)) of
                (Some mdl, Some target) \<Rightarrow> Some (materialise_route rt mdl target)
              | _ \<Rightarrow> None))
     (ms_routes s))"

definition in_filter :: "principal \<Rightarrow> usage_filter \<Rightarrow> inference_request \<Rightarrow> bool" where
  "in_filter pr flt record \<longleftrightarrow>
     request_tenant record = tenant_of pr \<and>
     \<not> (uf_from flt \<noteq> zero_time \<and> ir_started_at record < uf_from flt) \<and>
     \<not> (uf_to flt \<noteq> zero_time \<and> \<not> ir_started_at record < uf_to flt) \<and>
     \<not> (uf_model_alias flt \<noteq> [] \<and> ir_model_alias record \<noteq> uf_model_alias flt)"

definition list_inference_requests :: "mem_store \<Rightarrow> principal \<Rightarrow> usage_filter \<Rightarrow> request_page" where
  "list_inference_requests s pr flt =
     (let items = sort_key (\<lambda>r. - ir_started_at r) (filter (in_filter pr flt) (map snd (ms_requests s)))
      in if uf_limit flt > 0 \<and> int (length items) > uf_limit flt
         then \<lparr>rp_requests = take (nat (uf_limit flt)) items, rp_truncated = True\<rparr>
         else \<lparr>rp_requests = items, rp_truncated = False\<rparr>)"

definition get_inference_request :: "mem_store \<Rightarrow> principal \<Rightarrow> string \<Rightarrow> err + inference_request" where
  "get_inference_request s pr rid =
     (case map_of (ms_requests s) rid of
        None \<Rightarrow> Inl ErrNotFound
      | Some record \<Rightarrow>
          if ir_organisation_id record \<noteq> p_organisation_id pr \<or> ir_project_id record \<noteq> p_project_id pr \<or>
             ir_environment_id record \<noteq> p_environment_id pr
          then Inl ErrNotFound else Inr record)"

definition attempts_of :: "mem_store \<Rightarrow> string \<Rightarrow> provider_attempt list" where
  "attempts_of s rid = filter (\<lambda>a. pa_inference_request_id a = rid) (map snd (ms_attempts s))"

definition attempts_for_request :: "mem_store \<Rightarrow> string \<Rightarrow> provider_attempt list" where
  "attempts_for_request s rid = sort_key pa_attempt_number (attempts_of s rid)"

end
