(* ===== verification/Memory_Invariants.thy ===== *)
theory Memory_Invariants
  imports Memory_Ledger "HOL-Library.Multiset"
begin

text \<open>
  What every operation of the in-memory store keeps: the tables stay keyed by the identifiers of
  their rows, ledger rows only ever grow, a finished row never changes, and the attempts of a request
  are numbered without gaps.
\<close>

section \<open>Executions\<close>

text \<open>One operation under the store's mutex; executions are the reflexive transitive closure.\<close>

inductive mem_step :: "url_lib \<Rightarrow> (string \<Rightarrow> string) \<Rightarrow> mem_store \<Rightarrow> mem_store \<Rightarrow> bool"
  for lib :: url_lib and sha :: "string \<Rightarrow> string" where
  step_provision: "run_state (provision lib sha now input) s = (r, t) \<Longrightarrow> mem_step lib sha s t"
| step_rotate: "run_state (rotate_key lib sha now rinput) s = (kr, t) \<Longrightarrow> mem_step lib sha s t"
| step_revoke: "run_state (revoke_key now prefix) s = (e, t) \<Longrightarrow> mem_step lib sha s t"
| step_create_request: "run_state (create_inference_request rstart) s = (e, t) \<Longrightarrow> mem_step lib sha s t"
| step_set_route: "run_state (set_inference_request_route rid route_id) s = (e, t) \<Longrightarrow> mem_step lib sha s t"
| step_complete_request: "run_state (complete_inference_request rfinish) s = (e, t) \<Longrightarrow> mem_step lib sha s t"
| step_create_attempt: "run_state (create_provider_attempt astart) s = (e, t) \<Longrightarrow> mem_step lib sha s t"
| step_complete_attempt: "run_state (complete_provider_attempt afinish) s = (e, t) \<Longrightarrow> mem_step lib sha s t"
| step_health: "run_state (update_target_health tid status at ok) s = (e, t) \<Longrightarrow> mem_step lib sha s t"

section \<open>Well-formed tables\<close>

definition nonempty_keys :: "(string, 'v) go_map \<Rightarrow> bool" where
  "nonempty_keys m \<longleftrightarrow> [] \<notin> fst ` set m"

definition store_wf :: "mem_store \<Rightarrow> bool" where
  "store_wf s \<longleftrightarrow>
     keyed org_id (ms_organisations s) \<and> keyed prj_id (ms_projects s) \<and>
     keyed env_id (ms_environments s) \<and> keyed mdl_id (ms_models s) \<and> keyed t_id (ms_targets s) \<and>
     keyed sa_id (ms_service_accounts s) \<and> keyed ak_digest (ms_keys s) \<and> keyed sr_id (ms_routes s) \<and>
     keyed ir_id (ms_requests s) \<and> keyed pa_id (ms_attempts s) \<and>
     nonempty_keys (ms_targets s) \<and> nonempty_keys (ms_routes s)"

lemma wf_tables:
  assumes "store_wf s"
  shows "keyed org_id (ms_organisations s)" "keyed prj_id (ms_projects s)"
    "keyed env_id (ms_environments s)" "keyed mdl_id (ms_models s)" "keyed t_id (ms_targets s)"
    "keyed sa_id (ms_service_accounts s)" "keyed ak_digest (ms_keys s)" "keyed sr_id (ms_routes s)"
    "keyed ir_id (ms_requests s)" "keyed pa_id (ms_attempts s)"
  using assms by (auto simp: store_wf_def)

lemma nonempty_keys_update: "nonempty_keys m \<Longrightarrow> k \<noteq> [] \<Longrightarrow> nonempty_keys (AList.update k v m)"
  by (simp add: nonempty_keys_def dom_update)

lemma nonempty_keys_lookup: "nonempty_keys m \<Longrightarrow> map_of m k = Some v \<Longrightarrow> k \<noteq> []"
  by (force simp: nonempty_keys_def dest: map_of_SomeD)

lemma store_wf_new [simp]: "store_wf (new_store entropy)"
  by (simp add: store_wf_def new_store_def nonempty_keys_def)

lemma ids_from_nonempty: "ids_from pre src = Inr i \<Longrightarrow> i \<noteq> []"
  by (auto simp: ids_from_def split: option.splits)

lemma read_full_cases:
  obtains (same) "run_state (read_full n) s = (None, s)"
  | (draw) e rest b where "ms_entropy s = e # rest" "run_state (read_full n) s = (b, s\<lparr>ms_entropy := rest\<rparr>)"
  by (cases "ms_entropy s") (auto simp: read_full_def)

lemma new_id_run:
  "\<exists>rest. snd (run_state (new_id pre) s) = s\<lparr>ms_entropy := rest\<rparr> \<and>
     (\<forall>i. fst (run_state (new_id pre) s) = Inr i \<longrightarrow> i \<noteq> [])"
proof (cases rule: read_full_cases [of 16 s])
  case same
  then show ?thesis
    by (auto simp: new_id_def dest: ids_from_nonempty intro!: exI [of _ "ms_entropy s"])
next
  case (draw e rest b)
  then show ?thesis by (auto simp: new_id_def dest: ids_from_nonempty)
qed

lemma new_id_runE:
  assumes "run_state (new_id pre) s = (r, t)"
  obtains rest where "t = s\<lparr>ms_entropy := rest\<rparr>" "\<And>i. r = Inr i \<Longrightarrow> i \<noteq> []"
  using new_id_run [of pre s] assms by auto

lemma generate_key_run:
  "\<exists>rest. snd (run_state (generate_key sha) s) = s\<lparr>ms_entropy := rest\<rparr>"
proof (cases rule: read_full_cases [of 8 s])
  case same
  then show ?thesis by (auto simp: generate_key_def intro!: exI [of _ "ms_entropy s"])
next
  case (draw e rest b)
  show ?thesis
  proof (cases b)
    case None
    with draw show ?thesis by (auto simp: generate_key_def)
  next
    case (Some pub)
    with draw show ?thesis
      by (cases rule: read_full_cases [of 24 "s\<lparr>ms_entropy := rest\<rparr>"])
        (auto simp: generate_key_def)
  qed
qed

lemma generate_key_runE:
  assumes "run_state (generate_key sha) s = (r, t)"
  obtains rest where "t = s\<lparr>ms_entropy := rest\<rparr>"
  using generate_key_run [of sha s] assms by auto

section \<open>Rows only grow\<close>

text \<open>
  How a request row may change: its identity never does, a binding is made once, the attempt counter
  never decreases, and a row that has left \<open>in_progress\<close> stays exactly as it is.
\<close>

definition request_grows :: "inference_request \<Rightarrow> inference_request \<Rightarrow> bool" where
  "request_grows r r' \<longleftrightarrow>
     ir_id r' = ir_id r \<and> request_tenant r' = request_tenant r \<and>
     ir_service_account_id r' = ir_service_account_id r \<and> ir_api_key_id r' = ir_api_key_id r \<and>
     ir_key_prefix r' = ir_key_prefix r \<and>
     ir_model_alias r' = ir_model_alias r \<and> ir_started_at r' = ir_started_at r \<and>
     (ir_route_id r \<noteq> [] \<longrightarrow>
        ir_route_id r' = ir_route_id r \<and> ir_bound_target_id r' = ir_bound_target_id r \<and>
        ir_bound_model_id r' = ir_bound_model_id r \<and>
        ir_route_binding_generation r' = ir_route_binding_generation r) \<and>
     ir_attempt_count r \<le> ir_attempt_count r' \<and>
     (ir_status r \<noteq> ''in_progress'' \<longrightarrow> r' = r)"

definition attempt_grows :: "provider_attempt \<Rightarrow> provider_attempt \<Rightarrow> bool" where
  "attempt_grows a a' \<longleftrightarrow>
     pa_id a' = pa_id a \<and> pa_inference_request_id a' = pa_inference_request_id a \<and>
     pa_target_id a' = pa_target_id a \<and> pa_attempt_number a' = pa_attempt_number a \<and>
     pa_started_at a' = pa_started_at a \<and> (pa_status a \<noteq> ''in_progress'' \<longrightarrow> a' = a)"

definition ledger_grows :: "mem_store \<Rightarrow> mem_store \<Rightarrow> bool" where
  "ledger_grows s t \<longleftrightarrow>
     (\<forall>i r. map_of (ms_requests s) i = Some r \<longrightarrow>
        (\<exists>r'. map_of (ms_requests t) i = Some r' \<and> request_grows r r')) \<and>
     (\<forall>i a. map_of (ms_attempts s) i = Some a \<longrightarrow>
        (\<exists>a'. map_of (ms_attempts t) i = Some a' \<and> attempt_grows a a'))"

lemma request_grows_refl [simp]: "request_grows r r"
  by (simp add: request_grows_def)

lemma request_grows_trans: "request_grows a b \<Longrightarrow> request_grows b c \<Longrightarrow> request_grows a c"
  by (auto simp: request_grows_def)

lemma attempt_grows_refl [simp]: "attempt_grows a a"
  by (simp add: attempt_grows_def)

lemma attempt_grows_trans: "attempt_grows a b \<Longrightarrow> attempt_grows b c \<Longrightarrow> attempt_grows a c"
  by (auto simp: attempt_grows_def)

lemma ledger_grows_same:
  "ms_requests t = ms_requests s \<Longrightarrow> ms_attempts t = ms_attempts s \<Longrightarrow> ledger_grows s t"
  by (auto simp: ledger_grows_def)

definition advances :: "mem_store \<Rightarrow> mem_store \<Rightarrow> bool" where
  "advances s t \<longleftrightarrow> (store_wf s \<longrightarrow> store_wf t \<and> ledger_grows s t)"

interpretation adv: step_preorder advances
proof unfold_locales
  show "advances s s" for s by (simp add: advances_def ledger_grows_same)
  show "advances s t \<Longrightarrow> advances t u \<Longrightarrow> advances s u" for s t u
    unfolding advances_def ledger_grows_def by (meson request_grows_trans attempt_grows_trans)
qed

text \<open>An operation that writes one of the tables outside the ledger.\<close>

definition keeps_ledger :: "mem_store \<Rightarrow> mem_store \<Rightarrow> bool" where
  "keeps_ledger s t \<longleftrightarrow>
     (store_wf s \<longrightarrow> store_wf t) \<and> ms_requests t = ms_requests s \<and> ms_attempts t = ms_attempts s"

interpretation kl: step_preorder keeps_ledger
  by unfold_locales (auto simp: keeps_ledger_def)

lemmas keeps_tables = keeps_ledger_def store_wf_def

lemma keeps_ledger_advances: "keeps_ledger s t \<Longrightarrow> advances s t"
  by (simp add: keeps_ledger_def advances_def ledger_grows_same)

lemma preserves_new_id [intro]: "preserves keeps_ledger (new_id pre)"
  by (rule preservesI, erule new_id_runE) (auto simp: keeps_tables)

lemma preserves_generate_key [intro]: "preserves keeps_ledger (generate_key sha)"
  by (rule preservesI, erule generate_key_runE) (auto simp: keeps_tables)

lemma keeps_upsert_organisation: "preserves keeps_ledger (upsert_organisation spec)"
  unfolding upsert_organisation_def
  by (rule preserves_get_bind)
    (auto simp: keeps_tables find_defs Let_def elim!: new_id_runE split: option.splits prod.splits sum.splits)

lemma keeps_upsert_project: "preserves keeps_ledger (upsert_project spec oid)"
  unfolding upsert_project_def
  by (rule preserves_get_bind)
    (auto simp: keeps_tables find_defs Let_def elim!: new_id_runE split: option.splits prod.splits sum.splits)

lemma keeps_upsert_environment: "preserves keeps_ledger (upsert_environment spec oid pid)"
  unfolding upsert_environment_def
  by (rule preserves_get_bind)
    (auto simp: keeps_tables find_defs Let_def elim!: new_id_runE split: option.splits prod.splits sum.splits)

lemma keeps_upsert_model: "preserves keeps_ledger (upsert_model spec)"
  unfolding upsert_model_def
  by (rule preserves_get_bind)
    (auto simp: keeps_tables find_defs Let_def elim!: new_id_runE split: option.splits prod.splits sum.splits)

lemma keeps_upsert_service_account: "preserves keeps_ledger (upsert_service_account spec oid pid eid)"
  unfolding upsert_service_account_def
  by (rule preserves_get_bind)
    (auto simp: keeps_tables find_defs Let_def elim!: new_id_runE split: option.splits prod.splits sum.splits)

lemma found_target_nonempty:
  assumes "store_wf s" and "find_value P (ms_targets s) = Some x"
  shows "t_id x \<noteq> []"
proof -
  have "keyed t_id (ms_targets s)" and "nonempty_keys (ms_targets s)" using assms(1) by (auto simp: store_wf_def)
  with assms(2) show ?thesis using keyed_find_value nonempty_keys_lookup by metis
qed

lemma found_route_nonempty:
  assumes "store_wf s" and "find_value P (ms_routes s) = Some x"
  shows "sr_id x \<noteq> []"
proof -
  have "keyed sr_id (ms_routes s)" and "nonempty_keys (ms_routes s)" using assms(1) by (auto simp: store_wf_def)
  with assms(2) show ?thesis using keyed_find_value nonempty_keys_lookup by metis
qed

lemma keeps_wf: "preserves keeps_ledger m \<Longrightarrow> run_state m s = (a, t) \<Longrightarrow> store_wf s \<Longrightarrow> store_wf t"
  using preservesD by (fastforce simp: keeps_ledger_def)

lemma keeps_entropy: "keeps_ledger s (s\<lparr>ms_entropy := e\<rparr>)"
  by (auto simp: keeps_tables)

lemma keeps_put_target:
  assumes "t_id v = k" and "store_wf s \<Longrightarrow> k \<noteq> []"
  shows "keeps_ledger s (s\<lparr>ms_targets := AList.update k v (ms_targets s)\<rparr>)"
    and "keeps_ledger s (s\<lparr>ms_entropy := e, ms_targets := AList.update k v (ms_targets s)\<rparr>)"
  using assms by (auto simp: keeps_tables nonempty_keys_update)

lemma keeps_put_route:
  assumes "sr_id v = k" and "store_wf s \<Longrightarrow> k \<noteq> []"
  shows "keeps_ledger s (s\<lparr>ms_routes := AList.update k v (ms_routes s)\<rparr>)"
    and "keeps_ledger s (s\<lparr>ms_entropy := e, ms_routes := AList.update k v (ms_routes s)\<rparr>)"
  using assms by (auto simp: keeps_tables nonempty_keys_update)

lemma configure_target_id [simp]: "t_id (configure_target x spec oid) = t_id x"
  by (simp add: configure_target_def)

lemma keeps_upsert_target: "preserves keeps_ledger (upsert_target spec oid)"
  unfolding upsert_target_def
  by (rule preserves_get_bind)
    (auto simp: find_defs Let_def kl.rel_refl
        intro!: keeps_put_target keeps_entropy dest: found_target_nonempty
        elim!: new_id_runE split: option.splits prod.splits sum.splits)

lemma keeps_upsert_route: "preserves keeps_ledger (upsert_route now oid pid eid mid target)"
  unfolding upsert_route_def
  by (rule preserves_get_bind)
    (auto simp: find_defs Let_def kl.rel_refl
        intro!: keeps_put_route keeps_entropy dest: found_route_nonempty
        elim!: new_id_runE split: option.splits prod.splits sum.splits)

lemma keeps_issue_key: "preserves keeps_ledger (issue_key sha account scopes)"
  unfolding issue_key_def
  by (intro kl.pres_rules preserves_new_id preserves_generate_key kl.pres_update)
    (auto simp: keeps_tables)

lemma keeps_provision_key: "preserves keeps_ledger (provision_key sha spec result)"
  unfolding provision_key_def
  by (intro kl.pres_rules keeps_issue_key)

lemma keeps_provision: "preserves keeps_ledger (provision lib sha now input)"
  unfolding provision_def
  by (intro kl.pres_rules keeps_upsert_organisation keeps_upsert_project
      keeps_upsert_environment keeps_upsert_model keeps_upsert_target keeps_upsert_route
      keeps_upsert_service_account keeps_provision_key)

lemma keeps_rotate_key: "preserves keeps_ledger (rotate_key lib sha now input)"
proof -
  have "preserves keeps_ledger (revoke_account_keys now account)" for account
    unfolding revoke_account_keys_def
    by (rule kl.pres_update) (auto simp: keeps_tables intro!: keyed_map_values)
  then show ?thesis
    unfolding rotate_key_def by (intro kl.pres_rules keeps_issue_key)
qed

lemma keeps_revoke_key: "preserves keeps_ledger (revoke_key now prefix)"
  unfolding revoke_key_def
proof (rule preserves_get_bind, goal_cases)
  case (1 s)
  have "ak_digest v = k" if "store_wf s" and "find (\<lambda>e. ak_prefix (snd e) = prefix) (ms_keys s) = Some (k, v)" for k v
    using keyed_find [of ak_digest "ms_keys s"] that by (simp add: store_wf_def)
  then show ?case
    by (auto simp: keeps_tables intro!: keyed_update split: option.splits prod.splits)
qed

lemma grows_requests:
  assumes "map_of (ms_requests s) k = Some r" and "request_grows r r'"
  shows "ledger_grows s (s\<lparr>ms_requests := AList.update k r' (ms_requests s)\<rparr>)"
  using assms by (auto simp: ledger_grows_def go_map_simps)

lemma grows_attempts:
  assumes "map_of (ms_attempts s) k = Some a" and "attempt_grows a a'"
  shows "ledger_grows s (s\<lparr>ms_attempts := AList.update k a' (ms_attempts s)\<rparr>)"
  using assms by (auto simp: ledger_grows_def go_map_simps)

lemma grows_fresh_request:
  "map_of (ms_requests s) k = None \<Longrightarrow> ledger_grows s (s\<lparr>ms_requests := AList.update k r (ms_requests s)\<rparr>)"
  by (auto simp: ledger_grows_def go_map_simps)

lemma grows_fresh_attempt:
  "map_of (ms_attempts s) k = None \<Longrightarrow> ledger_grows s (s\<lparr>ms_attempts := AList.update k a (ms_attempts s)\<rparr>)"
  by (auto simp: ledger_grows_def go_map_simps)

lemma wf_requests: "store_wf s \<Longrightarrow> ir_id r = k \<Longrightarrow> store_wf (s\<lparr>ms_requests := AList.update k r (ms_requests s)\<rparr>)"
  by (simp add: store_wf_def keyed_update)

lemma wf_attempts: "store_wf s \<Longrightarrow> pa_id a = k \<Longrightarrow> store_wf (s\<lparr>ms_attempts := AList.update k a (ms_attempts s)\<rparr>)"
  by (simp add: store_wf_def keyed_update)

lemma wf_request_id: "store_wf s \<Longrightarrow> map_of (ms_requests s) k = Some r \<Longrightarrow> ir_id r = k"
  unfolding store_wf_def by (elim conjE) (rule keyed_lookup)

lemma wf_attempt_id: "store_wf s \<Longrightarrow> map_of (ms_attempts s) k = Some a \<Longrightarrow> pa_id a = k"
  unfolding store_wf_def by (elim conjE) (rule keyed_lookup)

lemma advances_create_request: "preserves advances (create_inference_request start)"
  unfolding create_inference_request_def
  by (rule preserves_get_bind)
    (auto simp: adv.rel_refl advances_def put_request_def new_request_def grows_fresh_request wf_requests
      ledger_grows_same split: option.splits)

lemma advances_set_route: "preserves advances (set_inference_request_route rid route_id)"
  unfolding set_inference_request_route_def
  by (rule preserves_get_bind)
    (auto simp: advances_def ledger_grows_same request_grows_def request_tenant_def dest: wf_request_id
      intro!: grows_requests wf_requests split: option.splits)

lemma advances_complete_request: "preserves advances (complete_inference_request finish)"
  unfolding complete_inference_request_def
  by (rule preserves_get_bind)
    (auto simp: advances_def ledger_grows_same request_grows_def request_tenant_def finish_request_def
      dest: wf_request_id intro!: grows_requests wf_requests split: option.splits)

lemma advances_complete_attempt: "preserves advances (complete_provider_attempt finish)"
  unfolding complete_provider_attempt_def
  by (rule preserves_get_bind)
    (auto simp: advances_def ledger_grows_same attempt_grows_def finish_attempt_def
      dest: wf_attempt_id intro!: grows_attempts wf_attempts split: option.splits)

lemma advances_count_attempt:
  assumes "map_of (ms_requests s) rid = Some r" and "ir_status r = ''in_progress''"
  shows "advances s (put_request (r\<lparr>ir_attempt_count := ir_attempt_count r + 1\<rparr>) s)"
  unfolding advances_def
proof
  assume wf: "store_wf s"
  with assms(1) have "ir_id r = rid" by (simp add: wf_request_id)
  with wf assms show "store_wf (put_request (r\<lparr>ir_attempt_count := ir_attempt_count r + 1\<rparr>) s) \<and>
      ledger_grows s (put_request (r\<lparr>ir_attempt_count := ir_attempt_count r + 1\<rparr>) s)"
    by (simp add: put_request_def wf_requests grows_requests request_grows_def request_tenant_def)
qed

lemma advances_new_attempt:
  assumes "map_of (ms_attempts s) (as_id start) = None" and "map_of (ms_requests s) rid = Some r"
    and "ir_status r = ''in_progress''"
  shows "advances s (put_request (r\<lparr>ir_attempt_count := ir_attempt_count r + 1\<rparr>)
    (s\<lparr>ms_attempts := AList.update (as_id start) (new_attempt start) (ms_attempts s)\<rparr>))"
proof (rule adv.rel_trans)
  let ?t = "s\<lparr>ms_attempts := AList.update (as_id start) (new_attempt start) (ms_attempts s)\<rparr>"
  show "advances s ?t"
    using assms(1) by (simp add: advances_def grows_fresh_attempt wf_attempts new_attempt_def)
  show "advances ?t (put_request (r\<lparr>ir_attempt_count := ir_attempt_count r + 1\<rparr>) ?t)"
    using assms(2,3) by (intro advances_count_attempt [where rid = rid]) simp_all
qed

lemma advances_create_attempt: "preserves advances (create_provider_attempt start)"
  unfolding create_provider_attempt_def
  by (rule preserves_get_bind) (auto simp: adv.rel_refl advances_new_attempt split: option.splits)

lemma wf_target_key: "store_wf s \<Longrightarrow> map_of (ms_targets s) k = Some v \<Longrightarrow> t_id v = k \<and> k \<noteq> []"
  unfolding store_wf_def by (elim conjE) (rule conjI, erule (1) keyed_lookup, erule (1) nonempty_keys_lookup)

lemma wf_route_key: "store_wf s \<Longrightarrow> map_of (ms_routes s) k = Some v \<Longrightarrow> sr_id v = k \<and> k \<noteq> []"
  unfolding store_wf_def by (elim conjE) (rule conjI, erule (1) keyed_lookup, erule (1) nonempty_keys_lookup)

lemma keeps_same_target:
  assumes "map_of (ms_targets s) k = Some v" and "t_id v' = t_id v"
  shows "keeps_ledger s (s\<lparr>ms_targets := AList.update k v' (ms_targets s)\<rparr>)"
proof (cases "store_wf s")
  case True
  with assms have "t_id v' = k" and "k \<noteq> []" by (auto dest: wf_target_key)
  then show ?thesis by (rule keeps_put_target(1))
qed (simp add: keeps_ledger_def)

lemma keeps_health: "preserves keeps_ledger (update_target_health tid status at ok)"
  unfolding update_target_health_def
  by (rule preserves_get_bind)
    (auto simp: kl.rel_refl Let_def intro: keeps_same_target split: option.splits)

text \<open>
  A step either leaves both ledger tables alone or is one of the five ledger operations.
\<close>

lemma mem_step_cases:
  assumes "mem_step lib sha s t"
  obtains (tables) "keeps_ledger s t"
  | (create) start e where "run_state (create_inference_request start) s = (e, t)"
  | (bind) rid route_id e where "run_state (set_inference_request_route rid route_id) s = (e, t)"
  | (finish) rf e where "run_state (complete_inference_request rf) s = (e, t)"
  | (attempt) astart e where "run_state (create_provider_attempt astart) s = (e, t)"
  | (finish_attempt) af e where "run_state (complete_provider_attempt af) s = (e, t)"
  using assms
proof (cases rule: mem_step.cases)
  case step_provision
  then show ?thesis using preservesD [OF keeps_provision] tables by blast
next
  case step_rotate
  then show ?thesis using preservesD [OF keeps_rotate_key] tables by blast
next
  case step_revoke
  then show ?thesis using preservesD [OF keeps_revoke_key] tables by blast
next
  case step_health
  then show ?thesis using preservesD [OF keeps_health] tables by blast
qed (use create bind finish attempt finish_attempt in blast)+

lemmas advances_ledger = advances_create_request advances_set_route advances_complete_request
  advances_create_attempt advances_complete_attempt

lemma mem_step_advances: "mem_step lib sha s t \<Longrightarrow> advances s t"
  by (erule mem_step_cases)
    (erule keeps_ledger_advances | erule preservesD [rotated], rule advances_ledger)+

lemma mem_steps_advance: "(mem_step lib sha)\<^sup>*\<^sup>* s t \<Longrightarrow> advances s t"
  by (rule adv.rtranclp_rel [OF mem_step_advances])

definition mem_reachable :: "url_lib \<Rightarrow> (string \<Rightarrow> string) \<Rightarrow> mem_store \<Rightarrow> bool" where
  "mem_reachable lib sha s \<longleftrightarrow> (\<exists>entropy. (mem_step lib sha)\<^sup>*\<^sup>* (new_store entropy) s)"

lemma reachable_wf: "mem_reachable lib sha s \<Longrightarrow> store_wf s"
  using mem_steps_advance by (fastforce simp: mem_reachable_def advances_def)

section \<open>Attempts are numbered without gaps\<close>

definition numbered :: "mem_store \<Rightarrow> string \<Rightarrow> bool" where
  "numbered s rid \<longleftrightarrow>
     (case map_of (ms_requests s) rid of
        None \<Rightarrow> attempts_of s rid = []
      | Some r \<Rightarrow>
          0 \<le> ir_attempt_count r \<and>
          mset (map pa_attempt_number (attempts_of s rid)) = mset [1..ir_attempt_count r] \<and>
          list_all (\<lambda>t. t = ir_bound_target_id r) (map pa_target_id (attempts_of s rid)) \<and>
          (0 < ir_attempt_count r \<longrightarrow> ir_route_id r \<noteq> []))"

lemma attempts_of_requests [simp]:
  "attempts_of (s\<lparr>ms_requests := m\<rparr>) rid = attempts_of s rid"
  by (simp add: attempts_of_def)

lemma attempts_of_fresh:
  "map_of (ms_attempts s) k = None \<Longrightarrow>
   attempts_of (s\<lparr>ms_attempts := AList.update k a (ms_attempts s)\<rparr>) rid =
     attempts_of s rid @ (if pa_inference_request_id a = rid then [a] else [])"
  by (simp add: attempts_of_def update_fresh)

lemma attempts_of_found:
  assumes "store_wf s" and "map_of (ms_attempts s) k = Some a0"
    and "pa_inference_request_id a = pa_inference_request_id a0" and "f a = f a0"
  shows "map f (attempts_of (s\<lparr>ms_attempts := AList.update k a (ms_attempts s)\<rparr>) rid) = map f (attempts_of s rid)"
proof -
  have d: "distinct (map fst (ms_attempts s))" using assms(1) by (simp add: store_wf_def keyed_def)
  let ?u = "\<lambda>m. map (\<lambda>(k', v'). (k', if k' = k then a else v')) m"
  have step: "(\<And>v. (k, v) \<in> set m \<Longrightarrow> v = a0) \<Longrightarrow>
      map f (filter (\<lambda>a. pa_inference_request_id a = rid) (map snd (?u m))) =
      map f (filter (\<lambda>a. pa_inference_request_id a = rid) (map snd m))" for m
  proof (induction m)
    case (Cons e m)
    then show ?case using assms(3,4) by (cases e) auto
  qed simp
  have v: "v = a0" if "(k, v) \<in> set (ms_attempts s)" for v
    using that d assms(2) by simp
  have eq: "ms_attempts (s\<lparr>ms_attempts := AList.update k a (ms_attempts s)\<rparr>) = ?u (ms_attempts s)"
    by (simp add: update_found [OF d assms(2)])
  show ?thesis unfolding attempts_of_def eq by (rule step) (rule v)
qed

lemma numbered_same:
  "ms_requests t = ms_requests s \<Longrightarrow> ms_attempts t = ms_attempts s \<Longrightarrow> numbered s rid \<Longrightarrow> numbered t rid"
proof -
  assume t: "ms_requests t = ms_requests s" "ms_attempts t = ms_attempts s" and n: "numbered s rid"
  from t have "attempts_of t rid = attempts_of s rid" by (simp add: attempts_of_def)
  with t n show "numbered t rid" by (simp add: numbered_def split: option.splits)
qed

lemma numbered_put_request:
  assumes "numbered s rid" and "map_of (ms_requests s) k = Some r"
    and "ir_attempt_count r' = ir_attempt_count r"
    and "ir_attempt_count r = 0 \<or> ir_bound_target_id r' = ir_bound_target_id r \<and> ir_route_id r' = ir_route_id r"
  shows "numbered (s\<lparr>ms_requests := AList.update k r' (ms_requests s)\<rparr>) rid"
  using assms by (cases "rid = k") (auto simp: numbered_def go_map_simps split: option.splits)

lemma numbered_create_attempt:
  assumes n: "\<And>rid. numbered s rid" and wf: "store_wf s"
    and run: "run_state (create_provider_attempt start) s = (e, t)"
  shows "numbered t rid"
proof (cases e)
  case (Some x)
  with run have "t = s" by (auto simp: create_provider_attempt_def split: option.splits if_splits)
  with n show ?thesis by simp
next
  case None
  let ?q = "as_inference_request_id start"
  from run None obtain r where fresh: "map_of (ms_attempts s) (as_id start) = None"
    and r: "map_of (ms_requests s) ?q = Some r" "ir_route_id r \<noteq> []"
      "as_target_id start = ir_bound_target_id r" "as_attempt_number start = ir_attempt_count r + 1"
    and t: "t = put_request (r\<lparr>ir_attempt_count := ir_attempt_count r + 1\<rparr>)
      (s\<lparr>ms_attempts := AList.update (as_id start) (new_attempt start) (ms_attempts s)\<rparr>)"
    by (auto simp: create_provider_attempt_def split: option.splits if_splits)
  have id: "ir_id r = ?q" using wf r(1) by (rule wf_request_id)
  have a: "attempts_of t rid = attempts_of s rid @ (if ?q = rid then [new_attempt start] else [])"
    using attempts_of_fresh [OF fresh, of "new_attempt start" rid] by (simp add: t put_request_def new_attempt_def)
  show ?thesis
  proof (cases "rid = ?q")
    case True
    have up: "0 \<le> c \<Longrightarrow> mset [1..c + 1] = mset [1..c] + {#c + 1#}" for c :: int
      by (simp add: upto_rec2)
    from n [of rid] True r a id up show ?thesis
      by (auto simp: numbered_def t put_request_def go_map_simps new_attempt_def)
  next
    case False
    with n [of rid] a id show ?thesis
      by (auto simp: numbered_def t put_request_def go_map_simps split: option.splits)
  qed
qed

lemma numbered_step:
  assumes "mem_step lib sha s t" and wf: "store_wf s" and n: "\<And>rid. numbered s rid"
  shows "numbered t rid"
  using assms(1)
proof (cases rule: mem_step_cases)
  case tables
  then show ?thesis using n by (auto simp: keeps_ledger_def intro: numbered_same)
next
  case (create start e)
  with n [of rid] show ?thesis
    by (auto simp: create_inference_request_def put_request_def new_request_def numbered_def go_map_simps
        split: option.splits if_splits)
next
  case (bind rid' route_id e)
  then show ?thesis using n [of rid]
    by (auto simp: set_inference_request_route_def split: option.splits if_splits intro: numbered_put_request)
next
  case (finish rf e)
  then show ?thesis using n [of rid]
    by (auto simp: complete_inference_request_def finish_request_def
        split: option.splits if_splits intro: numbered_put_request)
next
  case (attempt astart e)
  then show ?thesis using numbered_create_attempt [OF n wf] by blast
next
  case (finish_attempt af e)
  show ?thesis
  proof (cases "map_of (ms_attempts s) (af_id af)")
    case None
    with finish_attempt n show ?thesis by (simp add: complete_provider_attempt_def)
  next
    case (Some a0)
    let ?a = "Memory_Ledger.finish_attempt af a0"
    let ?t = "s\<lparr>ms_attempts := AList.update (af_id af) ?a (ms_attempts s)\<rparr>"
    have "map pa_attempt_number (attempts_of ?t rid) = map pa_attempt_number (attempts_of s rid)"
      "map pa_target_id (attempts_of ?t rid) = map pa_target_id (attempts_of s rid)"
      by (intro attempts_of_found [OF wf Some]; simp add: finish_attempt_def)+
    moreover from this(1) have "attempts_of ?t rid = [] \<longleftrightarrow> attempts_of s rid = []"
      by (metis map_is_Nil_conv)
    moreover have "ms_requests ?t = ms_requests s" by simp
    ultimately have "numbered ?t rid"
      using n [of rid] unfolding numbered_def by (simp only:)
    moreover have "t = s \<or> t = ?t"
      using finish_attempt Some by (auto simp: complete_provider_attempt_def split: if_splits)
    ultimately show ?thesis using n by auto
  qed
qed

lemma reachable_numbered: "mem_reachable lib sha s \<Longrightarrow> numbered s rid"
proof -
  assume "mem_reachable lib sha s"
  then obtain entropy where "(mem_step lib sha)\<^sup>*\<^sup>* (new_store entropy) s" by (auto simp: mem_reachable_def)
  then have "store_wf s \<and> (\<forall>rid. numbered s rid)"
  proof (induction rule: rtranclp_induct)
    case base
    show ?case by (simp add: numbered_def attempts_of_def new_store_def store_wf_def nonempty_keys_def)
  next
    case (step s t)
    then show ?case
      using mem_step_advances [OF step.hyps(2)] numbered_step [OF step.hyps(2)] by (simp add: advances_def)
  qed
  then show "numbered s rid" by simp
qed

end
