(* ===== verification/Store_Interface.thy ===== *)
theory Store_Interface
  imports Memory_Invariants
begin

text \<open>
  The \<open>Store\<close> interface of \<open>internal/platform/types.go\<close> as the gateway sees it: a table of
  operations over an abstract store, the laws the gateway's ledger accounting relies on, and the
  in-memory store as an implementation of them.
\<close>

section \<open>The method table\<close>

text \<open>
  \<open>st_authenticate_human\<close> is \<open>None\<close> for a store that does not have the optional method
  \<open>AuthenticateHuman\<close>.
\<close>

record 's store_ops =
  st_authenticate :: "string \<Rightarrow> ('s, err + principal) state"
  st_authenticate_human :: "(string \<Rightarrow> ('s, err + principal) state) option"
  st_resolve_route :: "principal \<Rightarrow> string \<Rightarrow> ('s, err + route) state"
  st_create_inference_request :: "request_start \<Rightarrow> ('s, err option) state"
  st_set_inference_request_route :: "string \<Rightarrow> string \<Rightarrow> ('s, err option) state"
  st_complete_inference_request :: "request_finish \<Rightarrow> ('s, err option) state"
  st_create_provider_attempt :: "attempt_start \<Rightarrow> ('s, err option) state"
  st_complete_provider_attempt :: "attempt_finish \<Rightarrow> ('s, err option) state"
  st_update_target_health :: "string \<Rightarrow> string \<Rightarrow> time \<Rightarrow> bool \<Rightarrow> ('s, err option) state"
  st_list_routes :: "principal \<Rightarrow> ('s, err + route list) state"
  st_list_inference_requests :: "principal \<Rightarrow> usage_filter \<Rightarrow> ('s, err + request_page) state"
  st_get_inference_request :: "principal \<Rightarrow> string \<Rightarrow> ('s, err + inference_request) state"

section \<open>The laws\<close>

text \<open>
  \<open>row s i\<close> is the ledger row of request \<open>i\<close>, \<open>good\<close> the store's own invariant. Creating, binding,
  counting an attempt and completing each change exactly one row, in the way the in-memory store
  does, and only while it is in progress; every refusal and every other operation leaves all rows
  alone.
\<close>

definition bind_request :: "string \<Rightarrow> inference_request \<Rightarrow> inference_request \<Rightarrow> bool" where
  "bind_request route_id r r' \<longleftrightarrow>
     (\<exists>tid mid gen. r' = r\<lparr>ir_route_id := route_id, ir_bound_target_id := tid, ir_bound_model_id := mid,
        ir_route_binding_generation := gen\<rparr>)"

lemma bind_requestI [simp]:
  "bind_request i r (r\<lparr>ir_route_id := i, ir_bound_target_id := tid, ir_bound_model_id := mid,
     ir_route_binding_generation := gen\<rparr>)"
  unfolding bind_request_def by blast

text \<open>
  What a store may record differently from what it is given: of a new request who made it - PostgreSQL keeps
  no key prefix for a person's agent - and of a finished one the resolution of its duration.
\<close>

definition fresh_row :: "request_start \<Rightarrow> inference_request \<Rightarrow> bool" where
  "fresh_row rstart q \<longleftrightarrow>
     q\<lparr>ir_service_account_id := [], ir_api_key_id := [], ir_key_prefix := []\<rparr> =
     (new_request rstart)\<lparr>ir_service_account_id := [], ir_api_key_id := [], ir_key_prefix := []\<rparr>"

definition finished_row :: "request_finish \<Rightarrow> inference_request \<Rightarrow> inference_request \<Rightarrow> bool" where
  "finished_row rfinish q q' \<longleftrightarrow> q' = finish_request (rfinish\<lparr>rf_duration := ir_duration q'\<rparr>) q"

lemma fresh_row_new [simp]: "fresh_row rstart (new_request rstart)"
  by (simp add: fresh_row_def)

lemma finished_row_finish [simp]: "finished_row rfinish q (finish_request rfinish q)"
  by (simp add: finished_row_def finish_request_def)

locale request_ledger =
  fixes ops :: "'s store_ops"
    and row :: "'s \<Rightarrow> string \<rightharpoonup> inference_request"
    and good :: "'s \<Rightarrow> bool"
  assumes authenticate_rows: "good s \<Longrightarrow> run_state (st_authenticate ops d) s = (r, t) \<Longrightarrow> good t \<and> row t = row s"
    and authenticate_human_rows: "good s \<Longrightarrow> st_authenticate_human ops = Some f \<Longrightarrow>
      run_state (f d) s = (r, t) \<Longrightarrow> good t \<and> row t = row s"
    and resolve_rows: "good s \<Longrightarrow> run_state (st_resolve_route ops pr alias) s = (rt, t) \<Longrightarrow> good t \<and> row t = row s"
    and create_rows: "good s \<Longrightarrow> run_state (st_create_inference_request ops rstart) s = (e, t) \<Longrightarrow> good t \<and>
      (case e of
         None \<Rightarrow> row s (rs_id rstart) = None \<and> (\<exists>q. fresh_row rstart q \<and> row t = (row s)(rs_id rstart \<mapsto> q))
       | Some _ \<Rightarrow> row t = row s)"
    and bind_rows: "good s \<Longrightarrow> run_state (st_set_inference_request_route ops rid route_id) s = (e, t) \<Longrightarrow> good t \<and>
      (case e of
         None \<Rightarrow> (\<exists>q q'. row s rid = Some q \<and> ir_status q = ''in_progress'' \<and> bind_request route_id q q' \<and>
                    row t = (row s)(rid \<mapsto> q'))
       | Some _ \<Rightarrow> row t = row s)"
    and complete_rows: "good s \<Longrightarrow> run_state (st_complete_inference_request ops rfinish) s = (e, t) \<Longrightarrow> good t \<and>
      (case e of
         None \<Rightarrow> (\<exists>q q'. row s (rf_id rfinish) = Some q \<and> ir_status q = ''in_progress'' \<and> finished_row rfinish q q' \<and>
                    row t = (row s)(rf_id rfinish \<mapsto> q'))
       | Some _ \<Rightarrow> row t = row s)"
    and attempt_rows: "good s \<Longrightarrow> run_state (st_create_provider_attempt ops astart) s = (e, t) \<Longrightarrow> good t \<and>
      (case e of
         None \<Rightarrow> (\<exists>q. row s (as_inference_request_id astart) = Some q \<and> ir_status q = ''in_progress'' \<and>
                    as_attempt_number astart = ir_attempt_count q + 1 \<and>
                    row t = (row s)(as_inference_request_id astart \<mapsto> q\<lparr>ir_attempt_count := ir_attempt_count q + 1\<rparr>))
       | Some _ \<Rightarrow> row t = row s)"
    and finish_attempt_rows: "good s \<Longrightarrow> run_state (st_complete_provider_attempt ops afinish) s = (e, t) \<Longrightarrow>
      good t \<and> row t = row s"
    and health_rows: "good s \<Longrightarrow> run_state (st_update_target_health ops tid status at ok) s = (e, t) \<Longrightarrow>
      good t \<and> row t = row s"

text \<open>
  The tenant-scoped reads leave the ledger alone, and what they return is the caller's own: rows of
  the ledger that match the filter, routes of the caller's tenant.
\<close>

locale request_reader = request_ledger +
  assumes list_rows: "good s \<Longrightarrow> run_state (st_list_inference_requests ops pr flt) s = (pg, t) \<Longrightarrow> good t \<and> row t = row s \<and>
      (case pg of
         Inr page \<Rightarrow> (\<forall>q \<in> set (rp_requests page). row s (ir_id q) = Some q \<and> in_filter pr flt q) \<and>
                     distinct (map ir_id (rp_requests page)) \<and>
                     (0 < uf_limit flt \<longrightarrow> int (length (rp_requests page)) \<le> uf_limit flt) \<and>
                     (\<not> rp_truncated page \<longrightarrow>
                       (\<forall>rid q. row s rid = Some q \<longrightarrow> in_filter pr flt q \<longrightarrow> q \<in> set (rp_requests page)))
       | Inl _ \<Rightarrow> True)"
    and get_rows: "good s \<Longrightarrow> run_state (st_get_inference_request ops pr rid) s = (rq, t) \<Longrightarrow> good t \<and> row t = row s \<and>
      (case rq of
         Inr q \<Rightarrow> row s rid = Some q \<and> request_tenant q = tenant_of pr
       | Inl _ \<Rightarrow> True)"
    and routes_rows: "good s \<Longrightarrow> run_state (st_list_routes ops pr) s = (rts, t) \<Longrightarrow> good t \<and> row t = row s \<and>
      (case rts of
         Inr routes \<Rightarrow> (\<forall>rt \<in> set routes. route_tenant rt = tenant_of pr)
       | Inl _ \<Rightarrow> True)"

section \<open>The in-memory store implements them\<close>

definition memory_ops :: "mem_store store_ops" where
  "memory_ops =
     \<lparr>st_authenticate = (\<lambda>d. State (\<lambda>s. (authenticate s d, s))),
      st_authenticate_human = None,
      st_resolve_route = (\<lambda>pr alias. State (\<lambda>s. (resolve_route s pr alias, s))),
      st_create_inference_request = create_inference_request,
      st_set_inference_request_route = set_inference_request_route,
      st_complete_inference_request = complete_inference_request,
      st_create_provider_attempt = create_provider_attempt,
      st_complete_provider_attempt = complete_provider_attempt,
      st_update_target_health = update_target_health,
      st_list_routes = (\<lambda>pr. State (\<lambda>s. (Inr (list_routes s pr), s))),
      st_list_inference_requests = (\<lambda>pr flt. State (\<lambda>s. (Inr (list_inference_requests s pr flt), s))),
      st_get_inference_request = (\<lambda>pr rid. State (\<lambda>s. (get_inference_request s pr rid, s)))\<rparr>"

definition memory_row :: "mem_store \<Rightarrow> string \<rightharpoonup> inference_request" where
  "memory_row s = map_of (ms_requests s)"

lemma memory_row_put: "memory_row (s\<lparr>ms_requests := AList.update k r (ms_requests s)\<rparr>) = (memory_row s)(k \<mapsto> r)"
  by (simp add: memory_row_def update_conv' fun_eq_iff)

lemma memory_row_tables [simp]:
  "memory_row (s\<lparr>ms_attempts := a\<rparr>) = memory_row s" "memory_row (s\<lparr>ms_targets := b\<rparr>) = memory_row s"
  by (simp_all add: memory_row_def)

lemma advances_wf: "preserves advances m \<Longrightarrow> store_wf s \<Longrightarrow> run_state m s = (e, t) \<Longrightarrow> store_wf t"
  using preservesD by (fastforce simp: advances_def)

lemma memory_row_fold: "map_of (ms_requests s) = memory_row s"
  by (simp add: memory_row_def)

lemma memory_bind_rows:
  assumes "run_state (set_inference_request_route rid route_id) s = (e, t)"
  shows "case e of
      None \<Rightarrow> (\<exists>q q'. memory_row s rid = Some q \<and> ir_status q = ''in_progress'' \<and> bind_request route_id q q' \<and>
                 memory_row t = (memory_row s)(rid \<mapsto> q'))
    | Some _ \<Rightarrow> memory_row t = memory_row s"
  using assms
  by (auto simp: set_inference_request_route_def memory_row_put memory_row_fold intro!: exI split: option.splits if_splits)

lemma memory_create_rows:
  assumes "run_state (create_inference_request rstart) s = (e, t)"
  shows "case e of
      None \<Rightarrow> memory_row s (rs_id rstart) = None \<and> (\<exists>q. fresh_row rstart q \<and> memory_row t = (memory_row s)(rs_id rstart \<mapsto> q))
    | Some _ \<Rightarrow> memory_row t = memory_row s"
proof (cases e)
  case None
  with assms have "memory_row s (rs_id rstart) = None \<and> memory_row t = (memory_row s)(rs_id rstart \<mapsto> new_request rstart)"
    by (auto simp: create_inference_request_def put_request_def new_request_def memory_row_put split: option.splits)
      (auto simp: memory_row_def)
  then show ?thesis using None by (auto intro!: exI [of _ "new_request rstart"])
qed (use assms in \<open>auto simp: create_inference_request_def split: option.splits\<close>)

lemma memory_complete_rows:
  assumes "run_state (complete_inference_request rfinish) s = (e, t)"
  shows "case e of
      None \<Rightarrow> (\<exists>q q'. memory_row s (rf_id rfinish) = Some q \<and> ir_status q = ''in_progress'' \<and> finished_row rfinish q q' \<and>
                 memory_row t = (memory_row s)(rf_id rfinish \<mapsto> q'))
    | Some _ \<Rightarrow> memory_row t = memory_row s"
proof (cases e)
  case None
  with assms obtain q where "memory_row s (rf_id rfinish) = Some q" "ir_status q = ''in_progress''"
      "memory_row t = (memory_row s)(rf_id rfinish \<mapsto> finish_request rfinish q)"
    by (auto simp: complete_inference_request_def memory_row_put split: option.splits if_splits)
      (auto simp: memory_row_def)
  then show ?thesis using None by (auto intro!: exI [of _ q] exI [of _ "finish_request rfinish q"])
qed (use assms in \<open>auto simp: complete_inference_request_def split: option.splits if_splits\<close>)

lemma memory_attempt_rows:
  assumes run: "run_state (create_provider_attempt astart) s = (e, t)" and wf: "store_wf s"
  shows "case e of
      None \<Rightarrow> (\<exists>q. memory_row s (as_inference_request_id astart) = Some q \<and> ir_status q = ''in_progress'' \<and>
                 as_attempt_number astart = ir_attempt_count q + 1 \<and>
                 memory_row t = (memory_row s)(as_inference_request_id astart \<mapsto> q\<lparr>ir_attempt_count := ir_attempt_count q + 1\<rparr>))
    | Some _ \<Rightarrow> memory_row t = memory_row s"
proof -
  have "ir_id q = as_inference_request_id astart"
    if "map_of (ms_requests s) (as_inference_request_id astart) = Some q" for q
    using wf that by (rule wf_request_id)
  then show ?thesis
    using run by (auto simp: create_provider_attempt_def put_request_def memory_row_def update_conv'
        split: option.splits if_splits)
qed

lemma memory_ledger_rows:
  assumes "run_state (complete_provider_attempt afinish) s = (e, t) \<or> run_state (update_target_health tid status at ok) s = (e, t)"
  shows "memory_row t = memory_row s"
  using assms
  by (auto simp: complete_provider_attempt_def update_target_health_def Let_def split: option.splits if_splits)

lemma memory_laws:
  "store_wf s \<Longrightarrow> run_state (create_inference_request rstart) s = (e, t) \<Longrightarrow> store_wf t \<and>
      (case e of
         None \<Rightarrow> memory_row s (rs_id rstart) = None \<and> (\<exists>q. fresh_row rstart q \<and> memory_row t = (memory_row s)(rs_id rstart \<mapsto> q))
       | Some _ \<Rightarrow> memory_row t = memory_row s)"
  "store_wf s \<Longrightarrow> run_state (set_inference_request_route rid route_id) s = (e, t) \<Longrightarrow> store_wf t \<and>
      (case e of
         None \<Rightarrow> (\<exists>q q'. memory_row s rid = Some q \<and> ir_status q = ''in_progress'' \<and> bind_request route_id q q' \<and>
                    memory_row t = (memory_row s)(rid \<mapsto> q'))
       | Some _ \<Rightarrow> memory_row t = memory_row s)"
  "store_wf s \<Longrightarrow> run_state (complete_inference_request rfinish) s = (e, t) \<Longrightarrow> store_wf t \<and>
      (case e of
         None \<Rightarrow> (\<exists>q q'. memory_row s (rf_id rfinish) = Some q \<and> ir_status q = ''in_progress'' \<and> finished_row rfinish q q' \<and>
                    memory_row t = (memory_row s)(rf_id rfinish \<mapsto> q'))
       | Some _ \<Rightarrow> memory_row t = memory_row s)"
  "store_wf s \<Longrightarrow> run_state (create_provider_attempt astart) s = (e, t) \<Longrightarrow> store_wf t \<and>
      (case e of
         None \<Rightarrow> (\<exists>q. memory_row s (as_inference_request_id astart) = Some q \<and> ir_status q = ''in_progress'' \<and>
                    as_attempt_number astart = ir_attempt_count q + 1 \<and>
                    memory_row t = (memory_row s)(as_inference_request_id astart \<mapsto> q\<lparr>ir_attempt_count := ir_attempt_count q + 1\<rparr>))
       | Some _ \<Rightarrow> memory_row t = memory_row s)"
  "store_wf s \<Longrightarrow> run_state (complete_provider_attempt afinish) s = (e, t) \<Longrightarrow> store_wf t \<and> memory_row t = memory_row s"
  "store_wf s \<Longrightarrow> run_state (update_target_health tid status at ok) s = (e, t) \<Longrightarrow> store_wf t \<and> memory_row t = memory_row s"
  by (rule conjI, erule (1) advances_wf [OF advances_create_request], erule memory_create_rows,
      rule conjI, erule (1) advances_wf [OF advances_set_route], erule memory_bind_rows,
      rule conjI, erule (1) advances_wf [OF advances_complete_request], erule memory_complete_rows,
      rule conjI, erule (1) advances_wf [OF advances_create_attempt], erule (1) memory_attempt_rows,
      rule conjI, erule (1) advances_wf [OF advances_complete_attempt], erule memory_ledger_rows [OF disjI1],
      rule conjI, erule (1) keeps_wf [OF keeps_health, rotated], erule memory_ledger_rows [OF disjI2])

lemma memory_reads:
  "run_state (State (\<lambda>s. (f s, s))) s = (r, t) \<Longrightarrow> store_wf s \<Longrightarrow> store_wf t \<and> memory_row t = memory_row s"
  by simp

interpretation mem: request_ledger memory_ops memory_row store_wf
  by (unfold_locales; unfold memory_ops_def store_ops.select_convs;
      (rule memory_laws memory_reads; assumption | (simp only: option.distinct)))

lemma memory_list_rows:
  assumes "store_wf s" and "rp_requests (list_inference_requests s pr flt) = rs"
  shows "list_all (\<lambda>q. memory_row s (ir_id q) = Some q \<and> in_filter pr flt q) rs"
proof -
  have kd: "keyed ir_id (ms_requests s)" using assms(1) by (rule wf_tables)
  have "set rs \<subseteq> set (filter (in_filter pr flt) (map snd (ms_requests s)))"
    using assms(2) by (auto simp: list_inference_requests_def Let_def split: if_splits dest: in_set_takeD)
  then show ?thesis
    using keyed_member [OF kd] by (force simp: list_all_iff memory_row_def)
qed

lemma memory_list_distinct:
  assumes "store_wf s"
  shows "distinct (map ir_id (rp_requests (list_inference_requests s pr flt)))"
proof -
  have kd: "keyed ir_id (ms_requests s)" using assms by (rule wf_tables)
  then have "map ir_id (map snd (ms_requests s)) = map fst (ms_requests s)" by (auto simp: keyed_def)
  with kd have "distinct (map ir_id (filter (in_filter pr flt) (map snd (ms_requests s))))"
    by (metis distinct_map_filter keyed_def)
  then have "distinct (map ir_id (sort_key (\<lambda>r. - ir_started_at r) (filter (in_filter pr flt) (map snd (ms_requests s)))))"
    by (simp add: distinct_map)
  then show ?thesis
    by (auto simp: list_inference_requests_def Let_def take_map [symmetric] intro: distinct_take simp del: distinct_map)
qed

lemma memory_list_limit:
  "0 < uf_limit flt \<Longrightarrow> int (length (rp_requests (list_inference_requests s pr flt))) \<le> uf_limit flt"
  by (auto simp: list_inference_requests_def Let_def)

lemma memory_list_all:
  assumes "\<not> rp_truncated (list_inference_requests s pr flt)" "memory_row s rid = Some q" "in_filter pr flt q"
  shows "q \<in> set (rp_requests (list_inference_requests s pr flt))"
  using assms by (force simp: list_inference_requests_def Let_def memory_row_def dest: map_of_SomeD split: if_splits)

lemma memory_get_rows:
  "get_inference_request s pr rid = Inr q \<Longrightarrow> memory_row s rid = Some q \<and> request_tenant q = tenant_of pr"
  by (auto simp: get_inference_request_def memory_row_def request_tenant_def tenant_of_def split: option.splits if_splits)

lemma memory_routes_rows: "rt \<in> set (list_routes s pr) \<Longrightarrow> route_tenant rt = tenant_of pr"
  by (auto simp: list_routes_def map_filter_def materialise_route_def route_tenant_def tenant_of_def
      split: option.splits if_splits)

interpretation mem_reads: request_reader memory_ops memory_row store_wf
proof unfold_locales
  show "store_wf t \<and> memory_row t = memory_row s \<and>
      (case pg of
         Inr page \<Rightarrow> (\<forall>q \<in> set (rp_requests page). memory_row s (ir_id q) = Some q \<and> in_filter pr flt q) \<and>
                     distinct (map ir_id (rp_requests page)) \<and>
                     (0 < uf_limit flt \<longrightarrow> int (length (rp_requests page)) \<le> uf_limit flt) \<and>
                     (\<not> rp_truncated page \<longrightarrow>
                       (\<forall>rid q. memory_row s rid = Some q \<longrightarrow> in_filter pr flt q \<longrightarrow> q \<in> set (rp_requests page)))
       | Inl _ \<Rightarrow> True)"
    if "store_wf s" "run_state (st_list_inference_requests memory_ops pr flt) s = (pg, t)" for s pr flt pg t
    using that memory_list_rows [OF that(1) refl, of pr flt] memory_list_all [of s pr flt]
      memory_list_distinct [OF that(1), of pr flt] memory_list_limit [of flt s pr]
    by (auto simp: memory_ops_def list_all_iff)
  show "store_wf t \<and> memory_row t = memory_row s \<and>
      (case rq of
         Inr q \<Rightarrow> memory_row s rid = Some q \<and> request_tenant q = tenant_of pr
       | Inl _ \<Rightarrow> True)"
    if "store_wf s" "run_state (st_get_inference_request memory_ops pr rid) s = (rq, t)" for s pr rid rq t
    using that memory_get_rows by (auto simp: memory_ops_def split: sum.splits)
  show "store_wf t \<and> memory_row t = memory_row s \<and>
      (case rts of
         Inr routes \<Rightarrow> (\<forall>rt \<in> set routes. route_tenant rt = tenant_of pr)
       | Inl _ \<Rightarrow> True)"
    if "store_wf s" "run_state (st_list_routes memory_ops pr) s = (rts, t)" for s pr rts t
    using that memory_routes_rows by (auto simp: memory_ops_def)
qed

end
