(* ===== verification/Gateway_Core.thy ===== *)
theory Gateway_Core
  imports Gateway_Request Store_Interface
begin

text \<open>
  The pure parts of \<open>internal/gateway/gateway.go\<close>: the classification of provider answers, usage
  normalisation, the retry delay, the target endpoint and the metadata filters.
\<close>

section \<open>Attempt results\<close>

record attempt_result =
  ar_success :: bool
  ar_retryable :: bool
  ar_class :: string
  ar_client_status :: int
  ar_message :: string
  ar_body :: string
  ar_model :: string
  ar_provider_id :: string
  ar_usage :: token_usage
  ar_finality :: string
  ar_retry_after :: duration
  ar_retry_after_set :: bool
  ar_retry_after_header :: string

definition zero_result :: attempt_result where
  "zero_result =
     \<lparr>ar_success = False, ar_retryable = False, ar_class = [], ar_client_status = 0, ar_message = [],
      ar_body = [], ar_model = [], ar_provider_id = [], ar_usage = zero_usage, ar_finality = [],
      ar_retry_after = 0, ar_retry_after_set = False, ar_retry_after_header = []\<rparr>"

definition failed_attempt :: "bool \<Rightarrow> string \<Rightarrow> int \<Rightarrow> string \<Rightarrow> attempt_result" where
  "failed_attempt retryable class status msg =
     zero_result\<lparr>ar_retryable := retryable, ar_class := class, ar_client_status := status, ar_message := msg\<rparr>"

definition ledger_failure :: attempt_result where
  "ledger_failure = failed_attempt False ''ledger_error'' 503 ''request attempt result could not be recorded''"

definition client_cancelled :: attempt_result where
  "client_cancelled = failed_attempt False ''client_cancelled'' 499 ''request was cancelled''"

definition classify_provider_status :: "int \<Rightarrow> attempt_result" where
  "classify_provider_status status =
     (if status = 400 \<or> status = 422
      then failed_attempt False ''upstream_rejected'' 400 ''upstream inference rejected the supported request''
      else if status = 429
      then failed_attempt True ''upstream_rate_limited'' 429 ''upstream inference is rate limited''
      else if status = 503
      then failed_attempt True ''upstream_unavailable'' 503 ''upstream inference is unavailable''
      else if status = 401 \<or> status = 403 \<or> status = 404
      then failed_attempt False ''target_configuration'' 502
        ''configured inference target rejected its server-side configuration''
      else failed_attempt False ''upstream_error'' 502 ''upstream inference failed'')"

definition route_error :: "err \<Rightarrow> int \<times> string \<times> string" where
  "route_error e =
     (case e of
        ErrUnavailable \<Rightarrow> (503, ''target_unavailable'', ''configured inference target is unavailable'')
      | ErrForbidden \<Rightarrow> (403, ''route_forbidden'', ''request is not authorised for this model'')
      | ErrNotFound \<Rightarrow> (404, ''model_not_authorised'', ''request is not authorised for this model'')
      | _ \<Rightarrow> (503, ''route_unavailable'', ''route resolution is temporarily unavailable''))"

definition degrading_classes :: "string list" where
  "degrading_classes =
     [''target_configuration'', ''upstream_rate_limited'', ''upstream_timeout'', ''upstream_transport'',
      ''upstream_unavailable'', ''upstream_error'', ''invalid_upstream_response'', ''upstream_response_too_large'']"

definition failure_health_status :: "string \<Rightarrow> string" where
  "failure_health_status class = (if class \<in> set degrading_classes then ''degraded'' else [])"

section \<open>Usage\<close>

text \<open>\<open>inference.Usage\<close> and \<open>inference.ProviderError\<close>, \<open>inference.Result\<close> of \<open>internal/inference/bifrost.go\<close>.\<close>

record engine_usage =
  eu_prompt_tokens :: int
  eu_completion_tokens :: int
  eu_total_tokens :: int
  eu_cached_read_tokens :: int
  eu_cached_write_tokens :: int
  eu_cached_write_tokens_5m :: int
  eu_cached_write_tokens_1h :: int
  eu_reasoning_tokens :: int
  eu_text_input_tokens :: int
  eu_audio_input_tokens :: int
  eu_image_input_tokens :: int
  eu_finality :: string
  eu_has_prompt_tokens :: bool
  eu_has_completion_tokens :: bool
  eu_has_total_tokens :: bool
  eu_has_prompt_details :: bool
  eu_has_completion_details :: bool

record engine_result =
  er_body :: string
  er_model :: string
  er_provider_request_id :: string
  er_usage :: "engine_usage option"

record provider_error =
  pe_status_code :: int
  pe_provider_request_id :: string
  pe_billed_usage :: "engine_usage option"
  pe_message :: string
  pe_retry_after :: string

definition normalization_version :: string where
  "normalization_version = ''bifrost-core/v1.7.13''"

definition if_has :: "bool \<Rightarrow> 'a \<Rightarrow> 'a option" where
  "if_has b x = (if b then Some x else None)"

definition platform_usage :: "engine_usage option \<Rightarrow> string \<Rightarrow> token_usage \<times> string" where
  "platform_usage value known_finality =
     (case value of
        None \<Rightarrow> (zero_usage, ''unknown'')
      | Some v \<Rightarrow>
          (let finality = (if eu_finality v \<noteq> [] then eu_finality v else known_finality);
               result =
                 \<lparr>u_input_tokens = if_has (eu_has_prompt_tokens v) (eu_prompt_tokens v),
                  u_output_tokens = if_has (eu_has_completion_tokens v) (eu_completion_tokens v),
                  u_total_tokens = if_has (eu_has_total_tokens v) (eu_total_tokens v),
                  u_cached_tokens = if_has (eu_has_prompt_details v) (eu_cached_read_tokens v),
                  u_cached_write_tokens = if_has (eu_has_prompt_details v) (eu_cached_write_tokens v),
                  u_cached_write_tokens_5m = if_has (eu_has_prompt_details v) (eu_cached_write_tokens_5m v),
                  u_cached_write_tokens_1h = if_has (eu_has_prompt_details v) (eu_cached_write_tokens_1h v),
                  u_reasoning_tokens = if_has (eu_has_completion_details v) (eu_reasoning_tokens v),
                  u_text_input_tokens = if_has (eu_has_prompt_details v) (eu_text_input_tokens v),
                  u_audio_input_tokens = if_has (eu_has_prompt_details v) (eu_audio_input_tokens v),
                  u_image_input_tokens = if_has (eu_has_prompt_details v) (eu_image_input_tokens v),
                  u_normalization = normalization_version\<rparr>
           in if u_input_tokens result = None \<and> u_output_tokens result = None \<and> u_total_tokens result = None \<and>
                 u_cached_tokens result = None \<and> u_cached_write_tokens result = None \<and>
                 u_reasoning_tokens result = None \<and> u_text_input_tokens result = None \<and>
                 u_audio_input_tokens result = None \<and> u_image_input_tokens result = None
              then (zero_usage, ''unknown'') else (result, finality)))"

definition classify_bifrost_error :: "provider_error option \<Rightarrow> attempt_result" where
  "classify_bifrost_error value =
     (case value of
        None \<Rightarrow> failed_attempt True ''upstream_transport'' 502 ''upstream inference connection failed''
      | Some v \<Rightarrow>
          if pe_status_code v = 0
          then failed_attempt True ''upstream_transport'' 502 ''upstream inference connection failed''
          else classify_provider_status (pe_status_code v))"

record provider_usage =
  pu_prompt_tokens :: "int option"
  pu_completion_tokens :: "int option"
  pu_cached_tokens :: "int option"
  pu_reasoning_tokens :: "int option"
  pu_prompt_tokens_details :: "int option option"
  pu_completion_tokens_details :: "int option option"

definition or_details :: "int option \<Rightarrow> int option option \<Rightarrow> int option" where
  "or_details value details =
     (case value of Some n \<Rightarrow> Some n | None \<Rightarrow> (case details of None \<Rightarrow> None | Some d \<Rightarrow> d))"

text \<open>\<open>None\<close> is the error \<open>negative usage\<close>.\<close>

definition parse_provider_usage :: "provider_usage option \<Rightarrow> (token_usage \<times> string) option" where
  "parse_provider_usage response =
     (case response of
        None \<Rightarrow> Some (zero_usage, ''unknown'')
      | Some r \<Rightarrow>
          (let usage = zero_usage
                 \<lparr>u_input_tokens := pu_prompt_tokens r, u_output_tokens := pu_completion_tokens r,
                  u_cached_tokens := or_details (pu_cached_tokens r) (pu_prompt_tokens_details r),
                  u_reasoning_tokens := or_details (pu_reasoning_tokens r) (pu_completion_tokens_details r)\<rparr>;
               counts = [u_input_tokens usage, u_output_tokens usage, u_cached_tokens usage, u_reasoning_tokens usage]
           in if list_ex (\<lambda>v. case v of None \<Rightarrow> False | Some n \<Rightarrow> n < 0) counts then None
              else if u_input_tokens usage \<noteq> None \<and> u_output_tokens usage \<noteq> None then Some (usage, ''final'')
              else if list_ex (\<lambda>v. v \<noteq> None) counts then Some (usage, ''partial'')
              else Some (usage, ''unknown'')))"

section \<open>Provider metadata\<close>

definition safe_provider_id :: "string \<Rightarrow> string" where
  "safe_provider_id value =
     (if value = [] \<or> length value > 200 \<or> \<not> safe_metadata value ''/'' then [] else value)"

definition safe_model :: "string \<Rightarrow> string" where
  "safe_model value =
     (if value = [] \<or> length value > 255 \<or> \<not> safe_metadata value ''/@'' then [] else value)"

record provider_response =
  rp_id :: string
  rp_model :: string
  rp_choices :: "json list"
  rp_usage :: "provider_usage option"

record provider_meta =
  pm_model :: string
  pm_provider_id :: string
  pm_usage :: token_usage
  pm_finality :: string

text \<open>\<open>*struct{ f *int64 }\<close>: a pointer to a struct with one counter.\<close>

definition decode_details :: "string \<Rightarrow> json \<Rightarrow> int option option \<Rightarrow> decode_error + int option option" where
  "decode_details name v old =
     (case v of
        JNull \<Rightarrow> Inr None
      | _ \<Rightarrow>
          (case decode_struct False [(name, decode_int_ptr)] v (case old of None \<Rightarrow> None | Some d \<Rightarrow> d) of
             Inl e \<Rightarrow> Inl e
           | Inr d \<Rightarrow> Inr (Some d)))"

definition provider_usage_fields :: "provider_usage field list" where
  "provider_usage_fields =
     [field_of ''prompt_tokens'' decode_int_ptr pu_prompt_tokens pu_prompt_tokens_update,
      field_of ''completion_tokens'' decode_int_ptr pu_completion_tokens pu_completion_tokens_update,
      field_of ''cached_tokens'' decode_int_ptr pu_cached_tokens pu_cached_tokens_update,
      field_of ''reasoning_tokens'' decode_int_ptr pu_reasoning_tokens pu_reasoning_tokens_update,
      field_of ''prompt_tokens_details'' (decode_details ''cached_tokens'') pu_prompt_tokens_details
        pu_prompt_tokens_details_update,
      field_of ''completion_tokens_details'' (decode_details ''reasoning_tokens'') pu_completion_tokens_details
        pu_completion_tokens_details_update]"

definition zero_provider_usage :: provider_usage where
  "zero_provider_usage =
     \<lparr>pu_prompt_tokens = None, pu_completion_tokens = None, pu_cached_tokens = None, pu_reasoning_tokens = None,
      pu_prompt_tokens_details = None, pu_completion_tokens_details = None\<rparr>"

definition decode_provider_usage :: "json \<Rightarrow> provider_usage option \<Rightarrow> decode_error + provider_usage option" where
  "decode_provider_usage v old =
     (case v of
        JNull \<Rightarrow> Inr None
      | _ \<Rightarrow>
          (case decode_struct False provider_usage_fields v (case old of None \<Rightarrow> zero_provider_usage | Some u \<Rightarrow> u) of
             Inl e \<Rightarrow> Inl e
           | Inr u \<Rightarrow> Inr (Some u)))"

definition provider_response_fields :: "provider_response field list" where
  "provider_response_fields =
     [field_of ''id'' decode_string rp_id rp_id_update,
      field_of ''model'' decode_string rp_model rp_model_update,
      field_of ''choices'' (decode_slice (\<lambda>v old. Inr v) JNull) rp_choices rp_choices_update,
      field_of ''usage'' decode_provider_usage rp_usage rp_usage_update]"

definition parse_provider_response :: "string \<Rightarrow> provider_meta option" where
  "parse_provider_response body =
     (case json_decode body of
        None \<Rightarrow> None
      | Some v \<Rightarrow>
          (case decode_struct False provider_response_fields v
                  \<lparr>rp_id = [], rp_model = [], rp_choices = [], rp_usage = None\<rparr> of
             Inl _ \<Rightarrow> None
           | Inr response \<Rightarrow>
               if rp_choices response = [] then None
               else (case parse_provider_usage (rp_usage response) of
                       None \<Rightarrow> None
                     | Some (usage, finality) \<Rightarrow> Some
                         \<lparr>pm_model = safe_model (rp_model response), pm_provider_id = safe_provider_id (rp_id response),
                          pm_usage = usage, pm_finality = finality\<rparr>)))"

section \<open>Target endpoint\<close>

definition target_endpoint :: "url_lib \<Rightarrow> string \<Rightarrow> bool \<Rightarrow> string option" where
  "target_endpoint lib base_url allow_insecure =
     (case url_parse lib base_url of
        None \<Rightarrow> None
      | Some parsed \<Rightarrow>
          if url_host parsed = [] \<or> url_user parsed \<or> url_raw_query parsed \<noteq> [] \<or> url_fragment parsed \<noteq> [] \<or>
             contains_str ''%'' (url_escaped_path lib parsed)
          then None
          else if url_scheme parsed \<noteq> ''https'' \<and> \<not> (allow_insecure \<and> url_scheme parsed = ''http'') then None
          else Some (url_string lib (parsed
                 \<lparr>url_path := trim_right ''/'' (url_path parsed) @ ''/chat/completions'', url_raw_path := []\<rparr>)))"

section \<open>Durations\<close>

definition elapsed :: "time \<Rightarrow> time \<Rightarrow> duration" where
  "elapsed start finish = (if finish < start then 0 else time_sub finish start)"

text \<open>Go's integer division truncates towards zero.\<close>

definition go_quot :: "int \<Rightarrow> int \<Rightarrow> int" where
  "go_quot a b = sgn a * sgn b * (\<bar>a\<bar> div \<bar>b\<bar>)"

text \<open>
  \<open>http.ParseTime\<close> is the parameter \<open>parse_time\<close>. Multiplying a \<open>time.Duration\<close> wraps at 64 bits.
\<close>

definition parse_retry_after :: "(string \<Rightarrow> time option) \<Rightarrow> string \<Rightarrow> time \<Rightarrow> duration \<times> bool \<times> string" where
  "parse_retry_after parse_time value now =
     (let by_date = (case parse_time value of
             Some date \<Rightarrow>
               (let delay = (if time_sub date now < 0 then 0 else time_sub date now);
                    seconds = go_quot (wrap64 (delay + nanosecond_per_second - 1)) nanosecond_per_second
                in (delay, True, go_itoa seconds))
           | None \<Rightarrow> (0, False, []))
      in if value = [] then (0, False, [])
         else (case go_atoi value of
                 Some seconds \<Rightarrow>
                   if seconds \<ge> 0 then (wrap64 (seconds * nanosecond_per_second), True, go_itoa seconds) else by_date
               | None \<Rightarrow> by_date))"

section \<open>Waiting before a retry\<close>

text \<open>
  \<open>1<<(attemptNumber-1)\<close> and its product with the base delay wrap at 64 bits. \<open>retry_delay\<close> is the
  delay both retry loops compute before \<open>wait\<close>.
\<close>

definition backoff :: "duration \<Rightarrow> int \<Rightarrow> duration" where
  "backoff base attempt_number = wrap64 (base * wrap64 (2 ^ nat (attempt_number - 1)))"

definition retry_delay :: "duration \<Rightarrow> duration \<Rightarrow> attempt_result \<Rightarrow> int \<Rightarrow> duration" where
  "retry_delay base max_delay terminal attempt_number =
     (let delay = (if \<not> ar_retry_after_set terminal then backoff base attempt_number else ar_retry_after terminal)
      in if delay > max_delay then max_delay else delay)"

section \<open>Facts\<close>

lemma failed_attempt_simps [simp]:
  "ar_success (failed_attempt r c n m) = False" "ar_retryable (failed_attempt r c n m) = r"
  "ar_class (failed_attempt r c n m) = c" "ar_client_status (failed_attempt r c n m) = n"
  "ar_message (failed_attempt r c n m) = m" "ar_retry_after_set (failed_attempt r c n m) = False"
  "ar_provider_id (failed_attempt r c n m) = []" "ar_retry_after_header (failed_attempt r c n m) = []"
  by (simp_all add: failed_attempt_def zero_result_def)

text \<open>
  C17: the provider's status decides the client's: only rate limiting (429), unavailability (503) and a
  missing response (0) are retried; a rejected request (400, 422) is the client's 400; a refusal of the
  server-side configuration (401, 403, 404) and every other status is 502 and never reaches the client
  as its own; and every retryable class marks the target degraded.
\<close>

theorem provider_status_classes:
  "(ar_retryable (classify_bifrost_error (Some e)) \<longleftrightarrow> pe_status_code e \<in> {0, 429, 503}) \<and>
   ar_client_status (classify_bifrost_error (Some e)) =
     (if pe_status_code e \<in> {400, 422} then 400
      else if pe_status_code e \<in> {429, 503} then pe_status_code e else 502) \<and>
   ar_class (classify_bifrost_error (Some e)) \<noteq> [] \<and> \<not> ar_success (classify_bifrost_error (Some e)) \<and>
   (failure_health_status (ar_class (classify_bifrost_error (Some e))) = [] \<longleftrightarrow> pe_status_code e \<in> {400, 422})"
  by (auto simp: classify_bifrost_error_def classify_provider_status_def failure_health_status_def degrading_classes_def)

lemma wrap64_nonneg: "0 \<le> x \<Longrightarrow> x \<le> max_int64 \<Longrightarrow> wrap64 x = x"
  by (rule wrap64_id) (simp_all add: min_int64_def)

lemma wrap64_period: "wrap64 (x - 18446744073709551616) = wrap64 x"
proof -
  have "(18446744073709551616 :: 64 word) = 0" by (rule word_uint_eqI) simp
  then show ?thesis by (simp only: wrap64_def of_int_diff of_int_numeral diff_zero)
qed

text \<open>
  C18: the retry delay: for the deployed settings (a base of at most an hour, at most four attempts)
  the exponential backoff does not overflow, doubles with each attempt and is capped by the maximum;
  and a \<open>Retry-After\<close> of up to 9223372036 seconds is waited out exactly, capped by the maximum.
\<close>

theorem retry_delay_bounded:
  assumes "0 < base" "base \<le> hour" "1 \<le> n" "n \<le> 4"
    and "0 \<le> secs" "secs \<le> 9223372036"
  shows "retry_delay base cap (failed_attempt True c st m) n = min cap (base * 2 ^ nat (n - 1)) \<and>
    parse_retry_after parse_time (go_itoa secs) now = (secs * nanosecond_per_second, True, go_itoa secs) \<and>
    retry_delay base cap ((failed_attempt True c st m)
      \<lparr>ar_retry_after := secs * nanosecond_per_second, ar_retry_after_set := True\<rparr>) n =
      min cap (secs * nanosecond_per_second)"
proof -
  have p: "(2 :: int) ^ nat (n - 1) \<le> 8" and p1: "(1 :: int) \<le> 2 ^ nat (n - 1)"
    using assms(3,4) power_increasing [of "nat (n - 1)" 3 "2 :: int"] by auto
  have b: "base * 2 ^ nat (n - 1) \<le> max_int64"
    using mult_mono [OF assms(2) p] assms(1) by (simp add: max_int64_def hour_def)
  have "backoff base n = base * 2 ^ nat (n - 1)"
    using p p1 b assms(1) by (simp add: backoff_def wrap64_nonneg max_int64_def)
  moreover have "go_atoi (go_itoa secs) = Some secs"
    using assms(5,6) by (intro go_atoi_itoa) (simp_all add: min_int64_def max_int64_def)
  moreover have "go_itoa secs \<noteq> []" using nat_digits_all by (simp add: go_itoa_def)
  moreover have "wrap64 (secs * nanosecond_per_second) = secs * nanosecond_per_second"
    using assms(5,6) by (intro wrap64_nonneg) (simp_all add: max_int64_def nanosecond_per_second_def)
  ultimately show ?thesis
    using assms(5) by (auto simp: retry_delay_def parse_retry_after_def min_def Let_def)
qed

theorem retry_delay_bounded_witness:
  "retry_delay (50 * millisecond) (5 * nanosecond_per_second) (failed_attempt True ''upstream_timeout'' 504 []) 3 =
     200 * millisecond \<and>
   parse_retry_after (\<lambda>_. None) (go_itoa 7) 0 = (7000000000, True, go_itoa 7)"
  using retry_delay_bounded [of "50 * millisecond" 3 7 "5 * nanosecond_per_second" "''upstream_timeout''" 504 "[]" "\<lambda>_. None" 0]
  by (simp add: millisecond_def hour_def nanosecond_per_second_def)

text \<open>
  C19: one second more and the multiplication wraps: a provider that answers \<open>Retry-After: 9223372037\<close>
  makes the delay negative, which the cap by the maximum lets through, so the next attempt is made at
  once instead of after the maximal delay.
\<close>

theorem retry_after_overflow:
  "parse_retry_after parse_time ''9223372037'' now = (- 9223372036709551616, True, ''9223372037'') \<and>
   (0 \<le> cap \<longrightarrow> retry_delay base cap (zero_result\<lparr>ar_retry_after := - 9223372036709551616, ar_retry_after_set := True\<rparr>) n < 0)"
proof -
  have i: "go_itoa 9223372037 = ''9223372037''"
    by (simp add: go_itoa_def nat_digits.simps [of "nat _"] nat_digits.simps [of "_ div _"] nat_digits.simps [of "numeral _"] char_of_def bit_0)
  have "go_atoi ''9223372037'' = Some 9223372037"
    using go_atoi_itoa [of 9223372037] by (simp add: i min_int64_def max_int64_def)
  moreover have "wrap64 (9223372037 * nanosecond_per_second) = wrap64 (- 9223372036709551616)"
    using wrap64_period [of "9223372037 * nanosecond_per_second"] by (simp add: nanosecond_per_second_def)
  then have "wrap64 (9223372037 * nanosecond_per_second) = - 9223372036709551616"
    by (simp add: wrap64_id min_int64_def max_int64_def)
  ultimately show ?thesis
    by (simp add: parse_retry_after_def retry_delay_def Let_def i)
qed

theorem retry_after_overflow_witness:
  "retry_delay (50 * millisecond) (5 * nanosecond_per_second)
     (zero_result\<lparr>ar_retry_after := - 9223372036709551616, ar_retry_after_set := True\<rparr>) 1 < 0"
  using retry_after_overflow [of "\<lambda>_. None" 0 "5 * nanosecond_per_second" "50 * millisecond" 1]
  by (simp add: nanosecond_per_second_def)

end
