(* ===== verification/Http_Api.thy ===== *)
theory Http_Api
  imports Store_Interface Go_Json
begin

text \<open>
  \<open>internal/api/api.go\<close>: bearer and basic authentication over the store interface, error responses
  and response headers. An HTTP message's header is a map from canonical names to the list of
  values; a response body is the sequence of writes, each raw bytes or a value handed to the JSON
  encoder.
\<close>

section \<open>Requests and responses\<close>

type_synonym http_header = "(string, string list) go_map"

definition header_values :: "http_header \<Rightarrow> string \<Rightarrow> string list" where
  "header_values h k = (case map_of h k of None \<Rightarrow> [] | Some vs \<Rightarrow> vs)"

definition header_get :: "http_header \<Rightarrow> string \<Rightarrow> string" where
  "header_get h k = (case header_values h k of [] \<Rightarrow> [] | v # _ \<Rightarrow> v)"

definition header_set :: "string \<Rightarrow> string \<Rightarrow> http_header \<Rightarrow> http_header" where
  "header_set k v h = AList.update k [v] h"

definition header_add :: "string \<Rightarrow> string \<Rightarrow> http_header \<Rightarrow> http_header" where
  "header_add k v h = AList.update k (header_values h k @ [v]) h"

definition header_del :: "string \<Rightarrow> http_header \<Rightarrow> http_header" where
  "header_del k h = AList.delete k h"

record http_request =
  hr_method :: string
  hr_path :: string
  hr_raw_query :: string
  hr_header :: http_header
  hr_body :: string
  hr_body_error :: "string option"

datatype payload = Json json | Bytes string

text \<open>
  \<open>rw_sent\<close> is the status line and the header as they were when the header was written; later changes
  of the header, and a second \<open>WriteHeader\<close>, have no effect on them.
\<close>

record response_writer =
  rw_header :: http_header
  rw_sent :: "(int \<times> http_header) option"
  rw_body :: "payload list"

definition write_header :: "int \<Rightarrow> response_writer \<Rightarrow> response_writer" where
  "write_header status w =
     (case rw_sent w of None \<Rightarrow> w\<lparr>rw_sent := Some (status, rw_header w)\<rparr> | Some _ \<Rightarrow> w)"

definition write_payload :: "payload \<Rightarrow> response_writer \<Rightarrow> response_writer" where
  "write_payload p w = (let w = write_header 200 w in w\<lparr>rw_body := rw_body w @ [p]\<rparr>)"

definition set_header :: "string \<Rightarrow> string \<Rightarrow> response_writer \<Rightarrow> response_writer" where
  "set_header k v w = w\<lparr>rw_header := header_set k v (rw_header w)\<rparr>"

definition response_status :: "response_writer \<Rightarrow> int option" where
  "response_status w = map_option fst (rw_sent w)"

section \<open>Error responses\<close>

definition write_json :: "int \<Rightarrow> json \<Rightarrow> response_writer \<Rightarrow> response_writer" where
  "write_json status value w =
     write_payload (Json value)
       (write_header status
         (set_header ''Cache-Control'' ''no-store''
           (set_header ''Content-Type'' ''application/json; charset=utf-8'' w)))"

definition error_envelope :: "string \<Rightarrow> string \<Rightarrow> string \<Rightarrow> string \<Rightarrow> json" where
  "error_envelope code error_type msg request_id =
     JObject
       [(''error'', JObject
          [(''message'', JString msg), (''type'', JString error_type), (''code'', JString code)]),
        (''request_id'', JString request_id)]"

definition response_request_id :: "string \<Rightarrow> response_writer \<Rightarrow> string" where
  "response_request_id request_id w =
     (if request_id = [] then header_get (rw_header w) ''X-Alzette-Request-Id'' else request_id)"

definition write_error :: "int \<Rightarrow> string \<Rightarrow> string \<Rightarrow> string \<Rightarrow> string \<Rightarrow> response_writer \<Rightarrow> response_writer" where
  "write_error status code error_type msg request_id w =
     write_json status (error_envelope code error_type msg (response_request_id request_id w)) w"

lemma set_header_sent [simp]: "rw_sent (set_header k v w) = rw_sent w"
  by (simp add: set_header_def)

lemma write_json_status [simp]: "rw_sent w = None \<Longrightarrow> response_status (write_json st v w) = Some st"
  by (simp add: write_json_def write_payload_def write_header_def response_status_def Let_def)

lemma write_error_status [simp]: "rw_sent w = None \<Longrightarrow> response_status (write_error st c t m i w) = Some st"
  by (simp add: write_error_def)

definition method_not_allowed :: "string \<Rightarrow> string \<Rightarrow> response_writer \<Rightarrow> response_writer" where
  "method_not_allowed allow request_id w =
     write_error 405 ''method_not_allowed'' ''invalid_request_error'' ''method not allowed'' request_id
       (set_header ''Allow'' allow w)"

section \<open>Security headers\<close>

definition to_lower :: "char \<Rightarrow> char" where
  "to_lower c = (if is_upper c then char_of (byte c + 32) else c)"

text \<open>\<open>strings.EqualFold\<close> against an ASCII name that has neither a \<open>k\<close> nor an \<open>s\<close>.\<close>

definition equal_fold :: "string \<Rightarrow> string \<Rightarrow> bool" where
  "equal_fold a b \<longleftrightarrow> map to_lower a = map to_lower b"

fun split_on :: "char \<Rightarrow> string \<Rightarrow> string list" where
  "split_on sep [] = [[]]"
| "split_on sep (c # s) =
     (if c = sep then [] # split_on sep s
      else (case split_on sep s of [] \<Rightarrow> [[c]] | w # ws \<Rightarrow> (c # w) # ws))"

definition append_vary :: "string \<Rightarrow> http_header \<Rightarrow> http_header" where
  "append_vary value h =
     (if list_ex (\<lambda>line. list_ex (\<lambda>existing. equal_fold (trim_space existing) value) (split_on CHR '','' line))
           (header_values h ''Vary'')
      then h else header_add ''Vary'' value h)"

definition content_security_policy :: string where
  "content_security_policy =
     ''default-src 'self'; script-src 'self' 'unsafe-inline'; style-src 'self' 'unsafe-inline'; '' @
     ''img-src 'self' data:; connect-src 'self'; object-src 'none'; base-uri 'none'; '' @
     ''form-action 'self'; frame-ancestors 'none'' @ [CHR 0x27]"

definition security_headers :: "(http_request \<Rightarrow> response_writer \<Rightarrow> response_writer) \<Rightarrow>
    http_request \<Rightarrow> response_writer \<Rightarrow> response_writer" where
  "security_headers next r w =
     next r
       (set_header ''Permissions-Policy'' ''camera=(), microphone=(), geolocation=()''
       (set_header ''Content-Security-Policy'' content_security_policy
       (set_header ''X-Frame-Options'' ''DENY''
       (set_header ''Referrer-Policy'' ''no-referrer''
       (set_header ''X-Content-Type-Options'' ''nosniff''
         (w\<lparr>rw_header := append_vary ''Authorization'' (rw_header w)\<rparr>))))))"

section \<open>Authentication\<close>

text \<open>
  \<open>errors.Is(err, ErrUnauthenticated) || errors.Is(err, ErrNotFound)\<close> become \<open>ErrUnauthenticated\<close>; any
  other error is passed on.
\<close>

definition auth_error :: "err \<Rightarrow> err" where
  "auth_error e = (if e = ErrUnauthenticated \<or> e = ErrNotFound then ErrUnauthenticated else e)"

definition map_auth_error :: "err + principal \<Rightarrow> err + principal" where
  "map_auth_error r = (case r of Inl e \<Rightarrow> Inl (auth_error e) | Inr p \<Rightarrow> Inr p)"

definition bearer_token :: "http_header \<Rightarrow> string option" where
  "bearer_token h =
     (if length (header_values h ''Authorization'') \<noteq> 1 then None
      else let header = header_get h ''Authorization''
           in if header = [] \<or> contains_str '','' header \<or> \<not> has_prefix ''Bearer '' header then None
              else let token = drop 7 header
                   in if trim_space token \<noteq> token then None else Some token)"

definition api_authenticate ::
  "(string \<Rightarrow> string) \<Rightarrow> 's store_ops \<Rightarrow> http_header \<Rightarrow> ('s, err + principal) state" where
  "api_authenticate sha ops h =
     (case bearer_token h of
        None \<Rightarrow> State_Monad.return (Inl ErrUnauthenticated)
      | Some token \<Rightarrow>
          if has_prefix ''alz_k_'' token then
            (if \<not> validate_format token then State_Monad.return (Inl ErrUnauthenticated)
             else do {
               r \<leftarrow> st_authenticate ops (sha token);
               State_Monad.return (map_auth_error r)
             })
          else if has_prefix ''alz_u_'' token then
            (if \<not> validate_human_format token then State_Monad.return (Inl ErrUnauthenticated)
             else (case st_authenticate_human ops of
                     None \<Rightarrow> State_Monad.return (Inl ErrUnauthenticated)
                   | Some authenticate_human \<Rightarrow> do {
                       r \<leftarrow> authenticate_human (sha token);
                       State_Monad.return (map_auth_error r)
                     }))
          else State_Monad.return (Inl ErrUnauthenticated))"

text \<open>
  \<open>r.BasicAuth\<close> is the parameter \<open>basic\<close>: the user name and password of an \<open>Authorization\<close> value.
\<close>

definition api_authenticate_basic ::
  "(string \<Rightarrow> string) \<Rightarrow> (string \<Rightarrow> (string \<times> string) option) \<Rightarrow> 's store_ops \<Rightarrow> http_header \<Rightarrow>
   ('s, err + principal) state" where
  "api_authenticate_basic sha basic ops h =
     (if length (header_values h ''Authorization'') \<noteq> 1 then State_Monad.return (Inl ErrUnauthenticated)
      else (case basic (header_get h ''Authorization'') of
              None \<Rightarrow> State_Monad.return (Inl ErrUnauthenticated)
            | Some (user, token) \<Rightarrow>
                if trim_space token \<noteq> token \<or> \<not> validate_format token
                then State_Monad.return (Inl ErrUnauthenticated)
                else do {
                  r \<leftarrow> st_authenticate ops (sha token);
                  State_Monad.return (map_auth_error r)
                }))"

context request_ledger
begin

lemma api_authenticate_rows:
  "good s \<Longrightarrow> run_state (api_authenticate sha ops h) s = (r, t) \<Longrightarrow> good t \<and> row t = row s"
  unfolding api_authenticate_def
  by (auto split: option.splits if_splits prod.splits dest: authenticate_rows authenticate_human_rows)

end

text \<open>
  A bearer request authenticates against the in-memory store exactly when it carries one
  \<open>Authorization\<close> value \<open>Bearer\<close> and a well-formed service-account token, without a comma or
  surrounding white space, whose digest the store accepts; everything else, a human agent's token
  included, is the one error \<open>ErrUnauthenticated\<close>, and the store is not changed.
\<close>

theorem api_authenticate_memory:
  "run_state (api_authenticate sha memory_ops h) s =
     (case bearer_token h of
        Some token \<Rightarrow>
          if validate_format token then (authenticate s (sha token), s) else (Inl ErrUnauthenticated, s)
      | None \<Rightarrow> (Inl ErrUnauthenticated, s)) \<and>
   (\<forall>token. bearer_token h = Some token \<longleftrightarrow>
      header_values h ''Authorization'' = [''Bearer '' @ token] \<and> CHR '','' \<notin> set token \<and> trim_space token = token)"
proof (intro conjI allI)
  have err: "auth_error e = ErrUnauthenticated" if "authenticate s d = Inl e" for d e
    using that by (auto simp: authenticate_def auth_error_def split: option.splits if_splits)
  have kinds: "has_prefix ''alz_k_'' token" if "validate_format token" for token
    using that validate_format_with_marker by (simp add: validate_format_def token_marker_def)
  show "run_state (api_authenticate sha memory_ops h) s =
     (case bearer_token h of
        Some token \<Rightarrow>
          if validate_format token then (authenticate s (sha token), s) else (Inl ErrUnauthenticated, s)
      | None \<Rightarrow> (Inl ErrUnauthenticated, s))"
  proof (cases "bearer_token h")
    case (Some token)
    have e: "map_auth_error (authenticate s (sha token)) = authenticate s (sha token)"
      using err by (auto simp: map_auth_error_def authenticate_def auth_error_def split: sum.splits option.splits)
    show ?thesis
      using Some kinds by (auto simp: api_authenticate_def memory_ops_def e)
  qed (simp add: api_authenticate_def)
next
  fix token
  have comma: "contains_str '','' w \<longleftrightarrow> CHR '','' \<in> set w" for w :: string
    by (induction w) (auto simp: has_prefix_def)
  show "bearer_token h = Some token \<longleftrightarrow>
      header_values h ''Authorization'' = [''Bearer '' @ token] \<and> CHR '','' \<notin> set token \<and> trim_space token = token"
    by (auto simp: bearer_token_def header_get_def Let_def comma has_prefix_iff length_Suc_conv split: if_splits)
qed

end
