(* ===== verification/Go_Marshal.thy ===== *)
theory Go_Marshal
  imports Go_Json
begin

text \<open>
  What the program uses of \<open>json.Marshal\<close>, \<open>strings.Join\<close> and \<open>fmt.Sprintf\<close>: printing a value. A Go
  map prints its members sorted by name (\<open>json_map\<close>), a struct in the order of its fields
  (\<open>JObject\<close>). Strings are printed with the escapes of the HTML-safe encoder.
\<close>

section \<open>Joining\<close>

fun join_with :: "string \<Rightarrow> string list \<Rightarrow> string" where
  "join_with sep [] = []"
| "join_with sep [s] = s"
| "join_with sep (s # t # ss) = s @ sep @ join_with sep (t # ss)"

section \<open>Strings\<close>

definition short_escape :: "char \<Rightarrow> char option" where
  "short_escape c =
     (if c = CHR 0x22 \<or> c = CHR 0x5C then Some c
      else if c = CHR 0x08 then Some (CHR ''b'') else if c = CHR 0x0C then Some (CHR ''f'')
      else if c = CHR 0x0A then Some (CHR ''n'') else if c = CHR 0x0D then Some (CHR ''r'')
      else if c = CHR 0x09 then Some (CHR ''t'') else None)"

definition escape_u :: "char \<Rightarrow> string" where
  "escape_u c = [CHR 0x5C, CHR ''u'', CHR ''0'', CHR ''0'', hex_digit (byte c div 16), hex_digit (byte c mod 16)]"

definition html_unsafe :: "char \<Rightarrow> bool" where
  "html_unsafe c \<longleftrightarrow> c = CHR ''<'' \<or> c = CHR ''>'' \<or> c = CHR ''&''"

definition escape_rune_bytes :: "string \<Rightarrow> string" where
  "escape_rune_bytes w =
     (if w = [CHR 0xE2, CHR 0x80, CHR 0xA8] then CHR 0x5C # ''u2028''
      else if w = [CHR 0xE2, CHR 0x80, CHR 0xA9] then CHR 0x5C # ''u2029''
      else w)"

function escape_string :: "string \<Rightarrow> string" where
  "escape_string [] = []"
| "escape_string (c # s) =
     (case short_escape c of
        Some e \<Rightarrow> CHR 0x5C # e # escape_string s
      | None \<Rightarrow>
          if byte c < 0x20 \<or> html_unsafe c then escape_u c @ escape_string s
          else if utf8_len (c # s) = 0 then (CHR 0x5C # ''ufffd'') @ escape_string s
          else escape_rune_bytes (take (utf8_len (c # s)) (c # s)) @ escape_string (drop (utf8_len (c # s)) (c # s)))"
  by pat_completeness auto
termination
  by (relation "measure length") auto

section \<open>Values\<close>

fun json_print :: "json \<Rightarrow> string" where
  "json_print JNull = ''null''"
| "json_print (JBool b) = (if b then ''true'' else ''false'')"
| "json_print (JNumber lit) = lit"
| "json_print (JString s) = CHR 0x22 # escape_string s @ [CHR 0x22]"
| "json_print (JArray vs) = CHR ''['' # join_with '','' (map json_print vs) @ '']''"
| "json_print (JObject es) =
     CHR ''{'' # join_with '','' (map (\<lambda>(k, v). CHR 0x22 # escape_string k @ CHR 0x22 # CHR '':'' # json_print v) es) @ ''}''"

definition json_map :: "(string \<times> json) list \<Rightarrow> json" where
  "json_map es = JObject (sort_key fst es)"

definition json_int :: "int \<Rightarrow> json" where
  "json_int i = JNumber (go_itoa i)"

text \<open>
  Decoding into an \<open>interface{}\<close> and printing the result again: numbers go through \<open>float64\<close>, which
  is the parameter \<open>float_text\<close> (\<open>None\<close> when the literal is out of range), and objects through Go maps.
\<close>

fun through_any :: "(string \<Rightarrow> string option) \<Rightarrow> json \<Rightarrow> json option" where
  "through_any float_text JNull = Some JNull"
| "through_any float_text (JBool b) = Some (JBool b)"
| "through_any float_text (JNumber lit) = map_option JNumber (float_text lit)"
| "through_any float_text (JString s) = Some (JString s)"
| "through_any float_text (JArray vs) =
     (let ws = map (through_any float_text) vs
      in if None \<in> set ws then None else Some (JArray (map the ws)))"
| "through_any float_text (JObject es) =
     (let ws = map (\<lambda>(k, v). (k, through_any float_text v)) es
      in if None \<in> snd ` set ws then None else Some (json_map (last_entries (map (\<lambda>(k, w). (k, the w)) ws))))"

end
