(* ===== verification/Gateway_Protocol.thy ===== *)
theory Gateway_Protocol
  imports Gateway_Core Http_Api Go_Marshal
begin

text \<open>
  \<open>internal/gateway/protocol.go\<close> and what the protocol adapters share: the three client dialects, their
  errors and authentication, and reading a provider's chat completion before it is translated. The
  adapters' errors are all \<open>protocolConversionError\<close>s, which the gateway answers as they are, so they
  are the \<open>request_error\<close> it answers with. \<open>quote\<close> is \<open>strconv.Quote\<close>.
\<close>

section \<open>Dialects and their errors\<close>

datatype wire_protocol = ProtocolChat | ProtocolResponses | ProtocolAnthropic

definition protocol_for_path :: "string \<Rightarrow> wire_protocol option" where
  "protocol_for_path path =
     (if path = ''/v1/chat/completions'' then Some ProtocolChat
      else if path = ''/v1/responses'' then Some ProtocolResponses
      else if path = ''/v1/messages'' then Some ProtocolAnthropic
      else None)"

definition unsupported_protocol_field :: "(string \<Rightarrow> string) \<Rightarrow> string \<Rightarrow> string \<Rightarrow> request_error" where
  "unsupported_protocol_field quote protocol field =
     bad_request ''unsupported_request_field''
       (protocol @ '' field '' @ quote field @ '' is outside Alzette's supported protocol subset'')"

definition invalid_protocol_request :: "string \<Rightarrow> string \<Rightarrow> request_error" where
  "invalid_protocol_request protocol msg = bad_request ''invalid_request'' (protocol @ '' request '' @ msg)"

definition raw_string :: "string \<Rightarrow> json" where
  "raw_string value = JString value"

definition raw_null_value :: json where
  "raw_null_value = JNull"

definition join_text_parts :: "string list \<Rightarrow> json" where
  "join_text_parts parts =
     (if length parts = 1 then raw_string (hd parts)
      else JArray (map (\<lambda>value. JObject [(''type'', JString ''text''), (''text'', JString value)]) parts))"

definition decode_one_json :: "'r field list \<Rightarrow> 'r \<Rightarrow> string \<Rightarrow> decode_error + 'r" where
  "decode_one_json fs zero raw =
     (case json_decode raw of None \<Rightarrow> Inl Mismatch | Some v \<Rightarrow> decode_struct False fs v zero)"

definition anthropic_error_type :: "int \<Rightarrow> string \<Rightarrow> string" where
  "anthropic_error_type status code =
     (if status = 401 then ''authentication_error''
      else if status = 403 then ''permission_error''
      else if status = 404 then ''not_found_error''
      else if status = 413 then ''request_too_large''
      else if status = 429 then ''rate_limit_error''
      else if status = 503 \<or> code = ''target_unavailable'' then ''overloaded_error''
      else if status \<ge> 500 then ''api_error''
      else ''invalid_request_error'')"

definition anthropic_envelope :: "int \<Rightarrow> string \<Rightarrow> string \<Rightarrow> string \<Rightarrow> json" where
  "anthropic_envelope status code msg request_id =
     JObject
       ([(''type'', JString ''error''),
         (''error'', JObject [(''type'', JString (anthropic_error_type status code)), (''message'', JString msg)])] @
        (if request_id = [] then [] else [(''request_id'', JString request_id)]))"

definition write_protocol_error ::
  "wire_protocol \<Rightarrow> int \<Rightarrow> string \<Rightarrow> string \<Rightarrow> string \<Rightarrow> string \<Rightarrow> response_writer \<Rightarrow> response_writer" where
  "write_protocol_error protocol status code error_type msg request_id w =
     (if protocol \<noteq> ProtocolAnthropic then write_error status code error_type msg request_id w
      else write_json status (anthropic_envelope status code msg (response_request_id request_id w)) w)"

section \<open>Authentication\<close>

definition authenticate_protocol ::
  "(string \<Rightarrow> string) \<Rightarrow> 's store_ops \<Rightarrow> wire_protocol \<Rightarrow> http_header \<Rightarrow> ('s, err + principal) state" where
  "authenticate_protocol sha ops protocol h =
     (if protocol \<noteq> ProtocolAnthropic \<or> header_values h ''X-Api-Key'' = [] then api_authenticate sha ops h
      else if length (header_values h ''X-Api-Key'') \<noteq> 1 \<or> header_values h ''Authorization'' \<noteq> []
      then State_Monad.return (Inl ErrUnauthenticated)
      else let token = header_get h ''X-Api-Key''
           in if token = [] \<or> trim_space token \<noteq> token \<or> contains_str '','' token
              then State_Monad.return (Inl ErrUnauthenticated)
              else api_authenticate sha ops
                     (header_set ''Authorization'' (''Bearer '' @ token) (header_del ''X-Api-Key'' h)))"

context request_ledger
begin

lemma authenticate_protocol_rows:
  "good s \<Longrightarrow> run_state (authenticate_protocol sha ops p h) s = (r, t) \<Longrightarrow> good t \<and> row t = row s"
  unfolding authenticate_protocol_def Let_def
  by (auto split: if_splits dest: api_authenticate_rows)

end

section \<open>The provider's completion\<close>

record chat_completion_message =
  cm_role :: string
  cm_content :: "string option"
  cm_tool_calls :: "tool_call list"

record chat_completion_choice =
  co_index :: int
  co_message :: chat_completion_message
  co_finish_reason :: string

record chat_completion_response =
  cc_id :: string
  cc_created :: int
  cc_model :: string
  cc_choices :: "chat_completion_choice list"
  cc_usage :: "provider_usage option"

definition chat_completion_message_fields :: "chat_completion_message field list" where
  "chat_completion_message_fields =
     [field_of ''role'' decode_string cm_role cm_role_update,
      field_of ''content'' decode_string_ptr cm_content cm_content_update,
      field_of ''tool_calls'' (decode_slice (decode_struct False (tool_call_fields False)) zero_tool_call)
        cm_tool_calls cm_tool_calls_update]"

definition zero_completion_choice :: chat_completion_choice where
  "zero_completion_choice =
     \<lparr>co_index = 0, co_message = \<lparr>cm_role = [], cm_content = None, cm_tool_calls = []\<rparr>, co_finish_reason = []\<rparr>"

definition chat_completion_choice_fields :: "chat_completion_choice field list" where
  "chat_completion_choice_fields =
     [field_of ''index'' decode_int co_index co_index_update,
      field_of ''message'' (decode_struct False chat_completion_message_fields) co_message co_message_update,
      field_of ''finish_reason'' decode_string co_finish_reason co_finish_reason_update]"

definition chat_completion_response_fields :: "chat_completion_response field list" where
  "chat_completion_response_fields =
     [field_of ''id'' decode_string cc_id cc_id_update,
      field_of ''created'' decode_int cc_created cc_created_update,
      field_of ''model'' decode_string cc_model cc_model_update,
      field_of ''choices'' (decode_slice (decode_struct False chat_completion_choice_fields) zero_completion_choice)
        cc_choices cc_choices_update,
      field_of ''usage'' decode_provider_usage cc_usage cc_usage_update]"

definition convertible_call :: "tool_call \<Rightarrow> bool" where
  "convertible_call call \<longleftrightarrow>
     tc_type call = ''function'' \<and> valid_tool_call_id (tc_id call) \<and> valid_tool_name (tf_name (tc_function call)) \<and>
     valid_json_object_string (tf_arguments (tc_function call))"

definition convertible_choice :: "chat_completion_choice \<Rightarrow> bool" where
  "convertible_choice choice \<longleftrightarrow>
     co_index choice = 0 \<and> cm_role (co_message choice) = ''assistant'' \<and>
     \<not> (cm_content (co_message choice) = None \<and> cm_tool_calls (co_message choice) = []) \<and>
     list_all convertible_call (cm_tool_calls (co_message choice))"

definition parse_chat_completion :: "string \<Rightarrow> chat_completion_response option" where
  "parse_chat_completion body =
     (case decode_one_json chat_completion_response_fields
             \<lparr>cc_id = [], cc_created = 0, cc_model = [], cc_choices = [], cc_usage = None\<rparr> body of
        Inl _ \<Rightarrow> None
      | Inr response \<Rightarrow>
          if length (cc_choices response) \<noteq> 1 then None
          else if convertible_choice (hd (cc_choices response)) then Some response else None)"

text \<open>The token counts the translated usage reports: 0 where the provider gave none.\<close>

definition count_or :: "int option \<Rightarrow> int \<Rightarrow> int" where
  "count_or value fallback = (case value of None \<Rightarrow> fallback | Some n \<Rightarrow> n)"

definition details_or :: "int option option \<Rightarrow> int \<Rightarrow> int" where
  "details_or details fallback = (case details of None \<Rightarrow> fallback | Some value \<Rightarrow> count_or value fallback)"

end
