(* ===== verification/Gateway_Anthropic.thy ===== *)
theory Gateway_Anthropic
  imports Gateway_Protocol
begin

text \<open>
  \<open>internal/gateway/protocol_anthropic.go\<close>: Anthropic Messages requests to chat requests, chat
  completions to Anthropic responses. A raw message is its value; \<open>spell\<close> is the text it was received
  as, needed where the code copies that text into a string.
\<close>

section \<open>Requests\<close>

record anthropic_message =
  am_role :: string
  am_content :: "json option"

record anthropic_tool =
  at_name :: string
  at_description :: string
  at_input_schema :: "json option"
  at_cache_control :: "json option"

record anthropic_request =
  an_model :: string
  an_max_tokens :: int
  an_messages :: "anthropic_message list"
  an_system :: "json option"
  an_stream :: "bool option"
  an_temperature :: "rat option"
  an_top_p :: "rat option"
  an_top_k :: "int option"
  an_stop_sequences :: "string list"
  an_tools :: "anthropic_tool list"
  an_tool_choice :: "json option"
  an_metadata :: "json option"
  an_thinking :: "json option"
  an_service_tier :: string

record anthropic_content_block =
  cb_type :: string
  cb_text :: string
  cb_id :: string
  cb_name :: string
  cb_input :: "json option"
  cb_tool_use_id :: string
  cb_content :: "json option"
  cb_is_error :: "bool option"
  cb_cache_control :: "json option"

definition anthropic_message_fields :: "anthropic_message field list" where
  "anthropic_message_fields =
     [field_of ''role'' decode_string am_role am_role_update,
      field_of ''content'' decode_raw am_content am_content_update]"

definition anthropic_tool_fields :: "anthropic_tool field list" where
  "anthropic_tool_fields =
     [field_of ''name'' decode_string at_name at_name_update,
      field_of ''description'' decode_string at_description at_description_update,
      field_of ''input_schema'' decode_raw at_input_schema at_input_schema_update,
      field_of ''cache_control'' decode_raw at_cache_control at_cache_control_update]"

definition anthropic_request_fields :: "(string \<Rightarrow> rat option) \<Rightarrow> anthropic_request field list" where
  "anthropic_request_fields parse_float =
     [field_of ''model'' decode_string an_model an_model_update,
      field_of ''max_tokens'' decode_int an_max_tokens an_max_tokens_update,
      field_of ''messages''
        (decode_slice (decode_struct True anthropic_message_fields) \<lparr>am_role = [], am_content = None\<rparr>)
        an_messages an_messages_update,
      field_of ''system'' decode_raw an_system an_system_update,
      field_of ''stream'' decode_bool_ptr an_stream an_stream_update,
      field_of ''temperature'' (decode_float_ptr parse_float) an_temperature an_temperature_update,
      field_of ''top_p'' (decode_float_ptr parse_float) an_top_p an_top_p_update,
      field_of ''top_k'' decode_int_ptr an_top_k an_top_k_update,
      field_of ''stop_sequences'' (decode_slice decode_string []) an_stop_sequences an_stop_sequences_update,
      field_of ''tools''
        (decode_slice (decode_struct True anthropic_tool_fields)
          \<lparr>at_name = [], at_description = [], at_input_schema = None, at_cache_control = None\<rparr>)
        an_tools an_tools_update,
      field_of ''tool_choice'' decode_raw an_tool_choice an_tool_choice_update,
      field_of ''metadata'' decode_raw an_metadata an_metadata_update,
      field_of ''thinking'' decode_raw an_thinking an_thinking_update,
      field_of ''service_tier'' decode_string an_service_tier an_service_tier_update]"

definition anthropic_content_block_fields :: "anthropic_content_block field list" where
  "anthropic_content_block_fields =
     [field_of ''type'' decode_string cb_type cb_type_update,
      field_of ''text'' decode_string cb_text cb_text_update,
      field_of ''id'' decode_string cb_id cb_id_update,
      field_of ''name'' decode_string cb_name cb_name_update,
      field_of ''input'' decode_raw cb_input cb_input_update,
      field_of ''tool_use_id'' decode_string cb_tool_use_id cb_tool_use_id_update,
      field_of ''content'' decode_raw cb_content cb_content_update,
      field_of ''is_error'' decode_bool_ptr cb_is_error cb_is_error_update,
      field_of ''cache_control'' decode_raw cb_cache_control cb_cache_control_update]"

definition zero_anthropic_request :: anthropic_request where
  "zero_anthropic_request =
     \<lparr>an_model = [], an_max_tokens = 0, an_messages = [], an_system = None, an_stream = None,
      an_temperature = None, an_top_p = None, an_top_k = None, an_stop_sequences = [], an_tools = [],
      an_tool_choice = None, an_metadata = None, an_thinking = None, an_service_tier = []\<rparr>"

definition zero_content_block :: anthropic_content_block where
  "zero_content_block =
     \<lparr>cb_type = [], cb_text = [], cb_id = [], cb_name = [], cb_input = None, cb_tool_use_id = [],
      cb_content = None, cb_is_error = None, cb_cache_control = None\<rparr>"

definition has_non_null :: "json option \<Rightarrow> bool" where
  "has_non_null raw \<longleftrightarrow> raw \<noteq> None \<and> raw \<noteq> Some JNull"

definition raw_json_object :: "json option \<Rightarrow> bool" where
  "raw_json_object raw = (case raw of Some (JObject _) \<Rightarrow> True | _ \<Rightarrow> False)"

definition anthropic_error :: "string \<Rightarrow> request_error" where
  "anthropic_error msg = invalid_protocol_request ''Anthropic Messages'' msg"

definition anthropic_unsupported :: "(string \<Rightarrow> string) \<Rightarrow> string \<Rightarrow> request_error" where
  "anthropic_unsupported quote field = unsupported_protocol_field quote ''Anthropic Messages'' field"

text \<open>\<open>json.Unmarshal\<close> into a string: \<open>null\<close> leaves it empty.\<close>

definition raw_text :: "json option \<Rightarrow> string option" where
  "raw_text raw = (case raw of Some (JString t) \<Rightarrow> Some t | Some JNull \<Rightarrow> Some [] | _ \<Rightarrow> None)"

definition decode_blocks :: "json option \<Rightarrow> anthropic_content_block list option" where
  "decode_blocks raw =
     (case raw of
        None \<Rightarrow> None
      | Some v \<Rightarrow>
          (case decode_slice (decode_struct True anthropic_content_block_fields) zero_content_block v [] of
             Inl _ \<Rightarrow> None
           | Inr blocks \<Rightarrow>
               if blocks = [] \<or> int (length blocks) > max_message_parts then None else Some blocks))"

text \<open>\<open>responsesTextContent\<close> of \<open>protocol_responses.go\<close>.\<close>

definition responses_text_content :: "json option \<Rightarrow> bool \<Rightarrow> string option" where
  "responses_text_content raw allow_plain =
     (case raw_text raw of
        Some text \<Rightarrow> if \<not> allow_plain \<and> text = [] then None else Some text
      | None \<Rightarrow>
          (case raw of
             None \<Rightarrow> None
           | Some v \<Rightarrow>
               (case decode_slice (decode_struct True text_part_fields) zero_text_part v [] of
                  Inl _ \<Rightarrow> None
                | Inr parts \<Rightarrow>
                    if parts = [] \<or> int (length parts) > max_message_parts then None
                    else if list_ex (\<lambda>p. tp_type p \<notin> {''input_text'', ''output_text'', ''text''} \<or> tp_text p = []) parts
                    then None
                    else Some (join_with [CHR 0x0A] (map tp_text parts)))))"

definition anthropic_tool_result_text :: "json option \<Rightarrow> string option" where
  "anthropic_tool_result_text raw = responses_text_content raw True"

section \<open>Messages\<close>

text \<open>The loop over an assistant message's blocks: the texts and the calls so far.\<close>

fun assistant_blocks ::
  "(string \<Rightarrow> string) \<Rightarrow> (json \<Rightarrow> string) \<Rightarrow> anthropic_content_block list \<Rightarrow> string list \<Rightarrow> tool_call list \<Rightarrow>
   request_error + string list \<times> tool_call list" where
  "assistant_blocks quote spell [] texts calls = Inr (texts, calls)"
| "assistant_blocks quote spell (b # bs) texts calls =
     (if has_non_null (cb_cache_control b) then Inl (anthropic_unsupported quote ''messages.content.cache_control'')
      else if cb_type b = ''text'' then
        (if cb_text b = [] then Inl (anthropic_error ''text block must not be empty'')
         else assistant_blocks quote spell bs (texts @ [cb_text b]) calls)
      else if cb_type b = ''tool_use'' then
        (if \<not> valid_tool_call_id (cb_id b) \<or> \<not> valid_tool_name (cb_name b) \<or> \<not> raw_json_object (cb_input b)
         then Inl (anthropic_error ''tool_use block is invalid'')
         else assistant_blocks quote spell bs texts
                (calls @ [\<lparr>tc_id = cb_id b, tc_type = ''function'',
                           tc_function = \<lparr>tf_name = cb_name b, tf_arguments = spell (the (cb_input b))\<rparr>,
                           tc_namespace = []\<rparr>]))
      else Inl (anthropic_unsupported quote (''messages.content.'' @ cb_type b)))"

text \<open>The loop over a user message's blocks: the tool results and the texts so far.\<close>

fun user_blocks ::
  "(string \<Rightarrow> string) \<Rightarrow> anthropic_content_block list \<Rightarrow> message list \<Rightarrow> string list \<Rightarrow>
   request_error + message list \<times> string list" where
  "user_blocks quote [] result texts = Inr (result, texts)"
| "user_blocks quote (b # bs) result texts =
     (if has_non_null (cb_cache_control b) then Inl (anthropic_unsupported quote ''messages.content.cache_control'')
      else if cb_type b = ''text'' then
        (if cb_text b = [] then Inl (anthropic_error ''text block must not be empty'')
         else user_blocks quote bs result (texts @ [cb_text b]))
      else if cb_type b = ''tool_result'' then
        (if \<not> valid_tool_call_id (cb_tool_use_id b)
         then Inl (anthropic_error ''tool_result tool_use_id is invalid'')
         else (case anthropic_tool_result_text (cb_content b) of
                 None \<Rightarrow> Inl (anthropic_error ''tool_result must contain text'')
               | Some content \<Rightarrow>
                   if content = [] then Inl (anthropic_error ''tool_result must contain text'')
                   else user_blocks quote bs
                          (result @ [zero_message\<lparr>m_role := ''tool'', m_content := Some (raw_string content),
                                                  m_tool_call_id := cb_tool_use_id b\<rparr>]) texts))
      else Inl (anthropic_unsupported quote (''messages.content.'' @ cb_type b)))"

definition anthropic_message_to_chat ::
  "(string \<Rightarrow> string) \<Rightarrow> (json \<Rightarrow> string) \<Rightarrow> anthropic_message \<Rightarrow> request_error + message list" where
  "anthropic_message_to_chat quote spell msg =
     (if am_role msg \<noteq> ''user'' \<and> am_role msg \<noteq> ''assistant''
      then Inl (anthropic_error ''message role is unsupported'')
      else (case raw_text (am_content msg) of
              Some text \<Rightarrow>
                if text = [] then Inl (anthropic_error ''message text must not be empty'')
                else Inr [zero_message\<lparr>m_role := am_role msg, m_content := Some (raw_string text)\<rparr>]
            | None \<Rightarrow>
                (case decode_blocks (am_content msg) of
                   None \<Rightarrow> Inl (anthropic_error ''message content blocks are invalid'')
                 | Some blocks \<Rightarrow>
                     if am_role msg = ''assistant'' then
                       (case assistant_blocks quote spell blocks [] [] of
                          Inl e \<Rightarrow> Inl e
                        | Inr (texts, calls) \<Rightarrow>
                            Inr [zero_message
                              \<lparr>m_role := ''assistant'',
                               m_content := Some (if texts \<noteq> [] then join_text_parts texts else raw_null_value),
                               m_tool_calls := calls\<rparr>])
                     else
                       (case user_blocks quote blocks [] [] of
                          Inl e \<Rightarrow> Inl e
                        | Inr (result, texts) \<Rightarrow>
                            (let result = (if texts \<noteq> []
                               then result @ [zero_message\<lparr>m_role := ''user'', m_content := Some (join_text_parts texts)\<rparr>]
                               else result)
                             in if result = [] then Inl (anthropic_error ''user message contains no supported content'')
                                else Inr result)))))"

fun anthropic_messages_to_chat ::
  "(string \<Rightarrow> string) \<Rightarrow> (json \<Rightarrow> string) \<Rightarrow> anthropic_message list \<Rightarrow> message list \<Rightarrow> request_error + message list" where
  "anthropic_messages_to_chat quote spell [] messages = Inr messages"
| "anthropic_messages_to_chat quote spell (m # ms) messages =
     (case anthropic_message_to_chat quote spell m of
        Inl e \<Rightarrow> Inl e
      | Inr converted \<Rightarrow> anthropic_messages_to_chat quote spell ms (messages @ converted))"

section \<open>System text, tools and tool choice\<close>

definition anthropic_text_blocks :: "json option \<Rightarrow> string list option" where
  "anthropic_text_blocks raw =
     (case raw_text raw of
        Some text \<Rightarrow> if text = [] then None else Some [text]
      | None \<Rightarrow>
          (case decode_blocks raw of
             None \<Rightarrow> None
           | Some blocks \<Rightarrow>
               if list_ex (\<lambda>b. has_non_null (cb_cache_control b) \<or> cb_type b \<noteq> ''text'' \<or> cb_text b = []) blocks
               then None else Some (map cb_text blocks)))"

definition anthropic_metadata_safe :: "json option \<Rightarrow> bool" where
  "anthropic_metadata_safe raw \<longleftrightarrow>
     (case raw of
        None \<Rightarrow> True
      | Some v \<Rightarrow>
          (case decode_struct True [field_of ''user_id'' decode_string (\<lambda>u. u) (\<lambda>f. f)] v [] of
             Inl _ \<Rightarrow> False
           | Inr user_id \<Rightarrow> length user_id \<le> 256))"

record anthropic_choice =
  ac_type :: string
  ac_name :: string
  ac_disable_parallel_tool_use :: "bool option"

definition anthropic_choice_fields :: "anthropic_choice field list" where
  "anthropic_choice_fields =
     [field_of ''type'' decode_string ac_type ac_type_update,
      field_of ''name'' decode_string ac_name ac_name_update,
      field_of ''disable_parallel_tool_use'' decode_bool_ptr ac_disable_parallel_tool_use
        ac_disable_parallel_tool_use_update]"

definition anthropic_tool_choice :: "json option \<Rightarrow> request_error + json option" where
  "anthropic_tool_choice raw =
     (if \<not> has_non_null raw then Inr None
      else (case decode_struct True anthropic_choice_fields (the raw)
                   \<lparr>ac_type = [], ac_name = [], ac_disable_parallel_tool_use = None\<rparr> of
              Inl _ \<Rightarrow> Inl (anthropic_error ''tool_choice is invalid'')
            | Inr value \<Rightarrow>
                if ac_type value = ''auto'' then Inr (Some (raw_string ''auto''))
                else if ac_type value = ''any'' then Inr (Some (raw_string ''required''))
                else if ac_type value = ''none'' then Inr (Some (raw_string ''none''))
                else if ac_type value = ''tool'' then
                  (if \<not> valid_tool_name (ac_name value) then Inl (anthropic_error ''tool_choice name is invalid'')
                   else Inr (Some (JObject [(''type'', JString ''function''),
                                            (''function'', JObject [(''name'', JString (ac_name value))])])))
                else Inl (anthropic_error ''tool_choice is unsupported'')))"

text \<open>
  The second, strict reading of the tool choice, into a struct that knows only
  \<open>disable_parallel_tool_use\<close>.
\<close>

definition anthropic_parallel :: "json option \<Rightarrow> bool option" where
  "anthropic_parallel raw =
     (if \<not> has_non_null raw then None
      else (case decode_struct True [field_of ''disable_parallel_tool_use'' decode_bool_ptr (\<lambda>d. d) (\<lambda>f. f)]
                   (the raw) None of
              Inr (Some disabled) \<Rightarrow> Some (\<not> disabled)
            | _ \<Rightarrow> None))"

definition anthropic_tool_to_chat :: "anthropic_tool \<Rightarrow> tool" where
  "anthropic_tool_to_chat value =
     \<lparr>tl_type = ''function'',
      tl_function = \<lparr>td_name = at_name value, td_description = at_description value,
                     td_parameters = at_input_schema value, td_strict = None\<rparr>\<rparr>"

text \<open>The checks before the messages, and the conversion of a decoded request.\<close>

definition anthropic_policy :: "(string \<Rightarrow> string) \<Rightarrow> anthropic_request \<Rightarrow> request_error option" where
  "anthropic_policy quote input =
     (if an_max_tokens input < 1 then Some (anthropic_error ''requires max_tokens'')
      else if an_top_k input \<noteq> None then Some (anthropic_unsupported quote ''top_k'')
      else if has_non_null (an_thinking input) then Some (anthropic_unsupported quote ''thinking'')
      else if an_service_tier input \<noteq> [] \<and> an_service_tier input \<noteq> ''auto''
      then Some (anthropic_unsupported quote ''service_tier'')
      else if \<not> anthropic_metadata_safe (an_metadata input) then Some (anthropic_error ''metadata is invalid'')
      else None)"

definition anthropic_system :: "json option \<Rightarrow> request_error + message list" where
  "anthropic_system raw =
     (if \<not> has_non_null raw then Inr []
      else (case anthropic_text_blocks raw of
              None \<Rightarrow> Inl (anthropic_error ''system must contain text blocks'')
            | Some texts \<Rightarrow> Inr [zero_message\<lparr>m_role := ''system'', m_content := Some (join_text_parts texts)\<rparr>]))"

definition anthropic_to_chat ::
  "(string \<Rightarrow> string) \<Rightarrow> (json \<Rightarrow> string) \<Rightarrow> anthropic_request \<Rightarrow> request_error + chat_request" where
  "anthropic_to_chat quote spell input =
     (case anthropic_policy quote input of
        Some e \<Rightarrow> Inl e
      | None \<Rightarrow>
          (case anthropic_system (an_system input) of
             Inl e \<Rightarrow> Inl e
           | Inr system \<Rightarrow>
               (case anthropic_messages_to_chat quote spell (an_messages input) system of
                  Inl e \<Rightarrow> Inl e
                | Inr messages \<Rightarrow>
                    if list_ex (\<lambda>t. has_non_null (at_cache_control t)) (an_tools input)
                    then Inl (anthropic_unsupported quote ''tools.cache_control'')
                    else (case anthropic_tool_choice (an_tool_choice input) of
                            Inl e \<Rightarrow> Inl e
                          | Inr choice \<Rightarrow>
                              Inr (zero_request
                                \<lparr>cr_model := an_model input, cr_messages := messages, cr_stream := an_stream input,
                                 cr_temperature := an_temperature input, cr_top_p := an_top_p input,
                                 cr_max_tokens := Some (an_max_tokens input),
                                 cr_stop := (if an_stop_sequences input \<noteq> []
                                             then Some (JArray (map JString (an_stop_sequences input))) else None),
                                 cr_tools := map anthropic_tool_to_chat (an_tools input), cr_tool_choice := choice,
                                 cr_parallel_tool_calls := anthropic_parallel (an_tool_choice input),
                                 cr_stream_options := (if an_stream input = Some True
                                   then Some \<lparr>so_include_usage = Some True\<rparr> else None)\<rparr>)))))"

definition decode_anthropic_request ::
  "(string \<Rightarrow> rat option) \<Rightarrow> (string \<Rightarrow> string) \<Rightarrow> (json \<Rightarrow> string) \<Rightarrow> string \<Rightarrow> request_error + chat_request" where
  "decode_anthropic_request parse_float quote spell data =
     (case decode_strict (anthropic_request_fields parse_float) zero_anthropic_request data of
        Inl (UnknownField k) \<Rightarrow> Inl (anthropic_unsupported quote (quote k))
      | Inl Mismatch \<Rightarrow> Inl (anthropic_error ''is not valid JSON'')
      | Inr input \<Rightarrow> anthropic_to_chat quote spell input)"

section \<open>Responses\<close>

definition anthropic_stop_reason :: "string \<Rightarrow> string option" where
  "anthropic_stop_reason finish_reason =
     (if finish_reason = ''length'' then Some ''max_tokens''
      else if finish_reason = ''tool_calls'' then Some ''tool_use''
      else if finish_reason = ''stop'' \<or> finish_reason = [] then Some ''end_turn''
      else None)"

fun anthropic_tool_uses :: "(string \<Rightarrow> string option) \<Rightarrow> tool_call list \<Rightarrow> json list option" where
  "anthropic_tool_uses float_text [] = Some []"
| "anthropic_tool_uses float_text (call # calls) =
     (case map_option (through_any float_text) (json_decode (tf_arguments (tc_function call))) of
        Some (Some (JObject es)) \<Rightarrow>
          map_option (\<lambda>rest. json_map [(''type'', JString ''tool_use''), (''id'', JString (tc_id call)),
              (''name'', JString (tf_name (tc_function call))), (''input'', JObject es)] # rest)
            (anthropic_tool_uses float_text calls)
      | _ \<Rightarrow> None)"

definition anthropic_usage :: "provider_usage option \<Rightarrow> json" where
  "anthropic_usage usage =
     (case usage of
        None \<Rightarrow> json_map [(''input_tokens'', json_int 0), (''output_tokens'', json_int 0),
          (''cache_read_input_tokens'', json_int 0), (''cache_creation_input_tokens'', json_int 0)]
      | Some u \<Rightarrow> json_map
          [(''input_tokens'', json_int (count_or (pu_prompt_tokens u) 0)),
           (''output_tokens'', json_int (count_or (pu_completion_tokens u) 0)),
           (''cache_read_input_tokens'',
              json_int (details_or (pu_prompt_tokens_details u) (count_or (pu_cached_tokens u) 0))),
           (''cache_creation_input_tokens'', json_int 0)])"

definition anthropic_content :: "(string \<Rightarrow> string option) \<Rightarrow> chat_completion_message \<Rightarrow> json list option" where
  "anthropic_content float_text msg =
     map_option (append (case cm_content msg of
         None \<Rightarrow> []
       | Some t \<Rightarrow> [json_map [(''type'', JString ''text''), (''text'', JString t)]]))
       (anthropic_tool_uses float_text (cm_tool_calls msg))"

definition encode_anthropic_response ::
  "(string \<Rightarrow> string option) \<Rightarrow> string \<Rightarrow> string \<Rightarrow> string \<Rightarrow> json option" where
  "encode_anthropic_response float_text body request_id public_model =
     (case parse_chat_completion body of
        None \<Rightarrow> None
      | Some chat \<Rightarrow>
          (let id = (if safe_provider_id (cc_id chat) = [] then request_id else safe_provider_id (cc_id chat));
               choice = hd (cc_choices chat)
           in case anthropic_content float_text (co_message choice) of
                None \<Rightarrow> None
              | Some content \<Rightarrow>
                  (case anthropic_stop_reason (co_finish_reason choice) of
                     None \<Rightarrow> None
                   | Some stop_reason \<Rightarrow>
                       Some (json_map
                         [(''id'', JString id), (''type'', JString ''message''), (''role'', JString ''assistant''),
                          (''model'', JString public_model), (''content'', JArray content),
                          (''stop_reason'', JString stop_reason), (''stop_sequence'', JNull),
                          (''usage'', anthropic_usage (cc_usage chat))]))))"

section \<open>What the adapter keeps, and what it drops\<close>

lemma parallel_field_shadows:
  "find_field [field_of ''disable_parallel_tool_use'' decode_bool_ptr (\<lambda>d. d) (\<lambda>f. f)] k = Some d \<Longrightarrow>
   find_field anthropic_choice_fields k =
     Some (snd (field_of ''disable_parallel_tool_use'' decode_bool_ptr ac_disable_parallel_tool_use
       ac_disable_parallel_tool_use_update))"
  by (auto simp: find_field_def field_of_def anthropic_choice_fields_def has_prefix_def is_lower_def byte_def
      split: if_splits)

lemma strict_parallel_keeps_type:
  "decode_members True [field_of ''disable_parallel_tool_use'' decode_bool_ptr (\<lambda>d. d) (\<lambda>f. f)] es x = Inr y \<Longrightarrow>
   decode_members True anthropic_choice_fields es r = Inr r' \<Longrightarrow> ac_type r' = ac_type r"
proof (induction es arbitrary: x r)
  case (Cons e es)
  obtain k v where e: "e = (k, v)" by force
  from Cons.prems(1) obtain d x' where d:
      "find_field [field_of ''disable_parallel_tool_use'' decode_bool_ptr (\<lambda>d. d) (\<lambda>f. f)] k = Some d"
      "decode_members True [field_of ''disable_parallel_tool_use'' decode_bool_ptr (\<lambda>d. d) (\<lambda>f. f)] es x' = Inr y"
    by (auto simp: e split: option.splits sum.splits)
  show ?case
    using Cons.prems(2) Cons.IH [OF d(2)]
    by (auto simp: e parallel_field_shadows [OF d(1)] field_of_def split: sum.splits)
qed simp

lemma parallel_ignored:
  assumes "anthropic_tool_choice raw = Inr c"
  shows "anthropic_parallel raw = None"
proof (cases "anthropic_parallel raw")
  case (Some b)
  then obtain v es y where v: "raw = Some v" "v \<noteq> JNull" "v = JObject es"
      "decode_members True [field_of ''disable_parallel_tool_use'' decode_bool_ptr (\<lambda>d. d) (\<lambda>f. f)] es None = Inr y"
    by (auto simp: anthropic_parallel_def has_non_null_def decode_struct_def split: if_splits sum.splits option.splits json.splits)
  from assms v obtain r' where r': "decode_members True anthropic_choice_fields es
      \<lparr>ac_type = [], ac_name = [], ac_disable_parallel_tool_use = None\<rparr> = Inr r'" "ac_type r' \<noteq> []"
    by (auto simp: anthropic_tool_choice_def has_non_null_def decode_struct_def split: if_splits sum.splits)
  with strict_parallel_keeps_type [OF v(4) r'(1)] show ?thesis by simp
qed simp

lemma adapter_error_status [simp]:
  "re_status (anthropic_error msg) = 400" "re_status (anthropic_unsupported quote field) = 400"
  by (simp_all add: anthropic_error_def anthropic_unsupported_def invalid_protocol_request_def
      unsupported_protocol_field_def bad_request_def)

lemma assistant_blocks_error: "assistant_blocks quote spell bs ts cs = Inl e \<Longrightarrow> re_status e = 400"
  by (induction quote spell bs ts cs rule: assistant_blocks.induct) (auto split: if_splits)

lemma user_blocks_error: "user_blocks quote bs ms ts = Inl e \<Longrightarrow> re_status e = 400"
  by (induction quote bs ms ts rule: user_blocks.induct) (auto split: if_splits option.splits)

lemma anthropic_message_error: "anthropic_message_to_chat quote spell m = Inl e \<Longrightarrow> re_status e = 400"
  by (auto simp: anthropic_message_to_chat_def Let_def split: if_splits option.splits sum.splits prod.splits
      dest: assistant_blocks_error user_blocks_error)

lemma anthropic_messages_error: "anthropic_messages_to_chat quote spell ms acc = Inl e \<Longrightarrow> re_status e = 400"
  by (induction quote spell ms acc rule: anthropic_messages_to_chat.induct)
    (auto split: sum.splits dest: anthropic_message_error)

lemma anthropic_to_chat_error:
  assumes "anthropic_to_chat quote spell input = Inl e"
  shows "re_status e = 400"
proof -
  have "anthropic_policy quote input = Some e \<Longrightarrow> re_status e = 400" for e
    by (auto simp: anthropic_policy_def split: if_splits)
  moreover have "anthropic_system raw = Inl e \<Longrightarrow> re_status e = 400" for raw e
    by (auto simp: anthropic_system_def split: if_splits option.splits)
  moreover have "anthropic_tool_choice raw = Inl e \<Longrightarrow> re_status e = 400" for raw e
    by (auto simp: anthropic_tool_choice_def split: if_splits sum.splits)
  ultimately show ?thesis
    using assms unfolding anthropic_to_chat_def
    by (auto split: option.splits sum.splits if_splits dest: anthropic_messages_error)
qed

lemma anthropic_to_chat_parallel: "anthropic_to_chat quote spell input = Inr r \<Longrightarrow> cr_parallel_tool_calls r = None"
  unfolding anthropic_to_chat_def by (auto split: option.splits sum.splits if_splits dest: parallel_ignored)

text \<open>
  C10: \<open>tool_choice.disable_parallel_tool_use\<close> never has an effect: whatever the body, an Anthropic request
  is refused with a 400 or converted into a chat request without \<open>parallel_tool_calls\<close>. The field is
  read by a second strict decoding, into a struct that lacks the \<open>type\<close> every accepted tool choice has.
\<close>

theorem parallel_tool_use_ignored:
  "case decode_anthropic_request parse_float quote spell data of
     Inl e \<Rightarrow> re_status e = 400
   | Inr r \<Rightarrow> cr_parallel_tool_calls r = None"
  using anthropic_to_chat_error anthropic_to_chat_parallel
  by (auto simp: decode_anthropic_request_def split: sum.splits decode_error.splits)

lemma tool_use_map:
  "json_map [(''type'', a), (''id'', b), (''name'', c), (''input'', d)] =
   JObject [(''id'', b), (''input'', d), (''name'', c), (''type'', a)]"
  unfolding json_map_def by code_simp

lemma text_block_map: "json_map [(''type'', a), (''text'', b)] = JObject [(''text'', b), (''type'', a)]"
  unfolding json_map_def by code_simp

lemma decode_text_block:
  "decode_struct True anthropic_content_block_fields (JObject [(''text'', JString t), (''type'', JString ''text'')]) zero_content_block =
   Inr (zero_content_block\<lparr>cb_text := t, cb_type := ''text''\<rparr>)"
  by (simp add: decode_struct_def anthropic_content_block_fields_def find_field_def field_of_def decode_string_def zero_content_block_def)

lemma decode_tool_use_block:
  "decode_struct True anthropic_content_block_fields
     (JObject [(''id'', JString i), (''input'', v), (''name'', JString n), (''type'', JString ''tool_use'')]) zero_content_block =
   Inr (zero_content_block\<lparr>cb_id := i, cb_input := Some v, cb_name := n, cb_type := ''tool_use''\<rparr>)"
  by (simp add: decode_struct_def anthropic_content_block_fields_def find_field_def field_of_def decode_string_def
      decode_raw_def zero_content_block_def)


text \<open>The call a client's echo of a translated call is read as.\<close>

definition echoed_call :: "(string \<Rightarrow> string option) \<Rightarrow> (json \<Rightarrow> string) \<Rightarrow> tool_call \<Rightarrow> tool_call" where
  "echoed_call float_text spell call =
     \<lparr>tc_id = tc_id call, tc_type = ''function'',
      tc_function = \<lparr>tf_name = tf_name (tc_function call),
        tf_arguments = spell (the (through_any float_text (the (json_decode (tf_arguments (tc_function call))))))\<rparr>,
      tc_namespace = []\<rparr>"

definition echoed_block :: "(string \<Rightarrow> string option) \<Rightarrow> tool_call \<Rightarrow> anthropic_content_block" where
  "echoed_block float_text call =
     zero_content_block\<lparr>cb_id := tc_id call,
       cb_input := through_any float_text (the (json_decode (tf_arguments (tc_function call)))),
       cb_name := tf_name (tc_function call), cb_type := ''tool_use''\<rparr>"

lemma tool_uses_decode:
  "anthropic_tool_uses float_text calls = Some js \<Longrightarrow>
   decode_array (decode_struct True anthropic_content_block_fields) zero_content_block js [] =
     Inr (map (echoed_block float_text) calls)"
proof (induction calls arbitrary: js)
  case (Cons c cs)
  from Cons.prems obtain v es rest where "json_decode (tf_arguments (tc_function c)) = Some v"
      "through_any float_text v = Some (JObject es)" "anthropic_tool_uses float_text cs = Some rest"
      "js = json_map [(''type'', JString ''tool_use''), (''id'', JString (tc_id c)),
        (''name'', JString (tf_name (tc_function c))), (''input'', JObject es)] # rest"
    by (auto split: option.splits json.splits)
  with Cons.IH show ?case
    by (simp only: tool_use_map decode_array.simps list.case decode_tool_use_block sum.case drop_Nil list.simps
        echoed_block_def option.sel)
qed simp

lemma tool_uses_blocks:
  "anthropic_tool_uses float_text calls = Some js \<Longrightarrow> list_all convertible_call calls \<Longrightarrow>
   assistant_blocks quote spell (map (echoed_block float_text) calls) ts cs =
     Inr (ts, cs @ map (echoed_call float_text spell) calls)"
  by (induction calls arbitrary: js cs)
    (auto simp: echoed_block_def echoed_call_def convertible_call_def has_non_null_def zero_content_block_def
      raw_json_object_def split: option.splits json.splits)

lemma length_tool_uses: "anthropic_tool_uses float_text calls = Some js \<Longrightarrow> length js = length calls"
  by (induction calls arbitrary: js) (auto split: option.splits json.splits)

text \<open>
  C9: an Anthropic client that sends a translated answer back as history is understood: the
  assistant message is read as the provider's text and the same calls under the same identifiers and
  names, with the arguments as the number round trip left them. Two answers cannot be sent back: one of
  more than 128 blocks, since nothing bounds the tool calls the gateway accepts from a provider while the
  history is bounded, and one whose text is the empty string, which the provider may send beside tool
  calls: its empty text block is refused.
\<close>

theorem anthropic_answer_readable:
  assumes ok: "convertible_choice choice"
    and content: "anthropic_content float_text (co_message choice) = Some content"
  shows "anthropic_message_to_chat quote spell \<lparr>am_role = ''assistant'', am_content = Some (JArray content)\<rparr> =
    (if length content > 128 then Inl (anthropic_error ''message content blocks are invalid'')
     else if cm_content (co_message choice) = Some [] then Inl (anthropic_error ''text block must not be empty'')
     else Inr [zero_message
       \<lparr>m_role := ''assistant'',
        m_content := Some (case cm_content (co_message choice) of None \<Rightarrow> JNull | Some t \<Rightarrow> JString t),
        m_tool_calls := map (echoed_call float_text spell) (cm_tool_calls (co_message choice))\<rparr>])"
proof -
  let ?m = "co_message choice"
  from content obtain js where js: "anthropic_tool_uses float_text (cm_tool_calls ?m) = Some js"
      "content = (case cm_content ?m of None \<Rightarrow> []
         | Some t \<Rightarrow> [JObject [(''text'', JString t), (''type'', JString ''text'')]]) @ js"
    by (auto simp: anthropic_content_def text_block_map split: option.splits)
  have calls: "list_all convertible_call (cm_tool_calls ?m)" and some: "cm_content ?m \<noteq> None \<or> cm_tool_calls ?m \<noteq> []"
    using ok by (auto simp: convertible_choice_def)
  note decode = decode_blocks_def decode_slice_def tool_uses_decode [OF js(1)] max_message_parts_def length_tool_uses [OF js(1)]
  show ?thesis
  proof (cases "cm_content ?m")
    case None
    have d: "decode_blocks (Some (JArray content)) =
        (if length content > 128 then None else Some (map (echoed_block float_text) (cm_tool_calls ?m)))"
      using None some js(2) by (simp add: decode)
    show ?thesis
      using None d tool_uses_blocks [OF js(1) calls, of quote spell "[]" "[]"]
      by (simp add: anthropic_message_to_chat_def raw_text_def raw_null_value_def)
  next
    case (Some t)
    let ?b = "zero_content_block\<lparr>cb_text := t, cb_type := ''text''\<rparr>"
    have d: "decode_blocks (Some (JArray content)) =
        (if length content > 128 then None else Some (?b # map (echoed_block float_text) (cm_tool_calls ?m)))"
      using Some js(2) by (simp add: decode decode_text_block)
    show ?thesis
    proof (cases "t = []")
      case True
      have e: "assistant_blocks quote spell (?b # bs) ts cs = Inl (anthropic_error ''text block must not be empty'')" for bs ts cs
        using True by (simp add: has_non_null_def zero_content_block_def)
      show ?thesis
        using Some True by (simp add: anthropic_message_to_chat_def raw_text_def d e [unfolded True] del: assistant_blocks.simps)
    next
      case False
      have e: "assistant_blocks quote spell (?b # bs) [] [] = assistant_blocks quote spell bs [t] []" for bs
        using False by (simp add: has_non_null_def zero_content_block_def)
      show ?thesis
        using Some False tool_uses_blocks [OF js(1) calls, of quote spell "[t]" "[]"]
        by (simp add: anthropic_message_to_chat_def raw_text_def d e join_text_parts_def raw_string_def del: assistant_blocks.simps)
    qed
  qed
qed

definition sample_choice :: chat_completion_choice where
  "sample_choice =
     \<lparr>co_index = 0,
      co_message = \<lparr>cm_role = ''assistant'', cm_content = Some ''hi'',
        cm_tool_calls = [\<lparr>tc_id = ''c1'', tc_type = ''function'',
          tc_function = \<lparr>tf_name = ''f'', tf_arguments = ''{}''\<rparr>, tc_namespace = []\<rparr>]\<rparr>,
      co_finish_reason = ''tool_calls''\<rparr>"

lemma sample_choice_facts:
  "convertible_choice sample_choice"
  "anthropic_content Some (co_message sample_choice) =
     Some [JObject [(''text'', JString ''hi''), (''type'', JString ''text'')],
           JObject [(''id'', JString ''c1''), (''input'', JObject []), (''name'', JString ''f''), (''type'', JString ''tool_use'')]]"
  by code_simp+

theorem anthropic_answer_readable_witness:
  "anthropic_message_to_chat id json_print \<lparr>am_role = ''assistant'', am_content = Some (JArray
       [JObject [(''text'', JString ''hi''), (''type'', JString ''text'')],
        JObject [(''id'', JString ''c1''), (''input'', JObject []), (''name'', JString ''f''), (''type'', JString ''tool_use'')]])\<rparr> =
     Inr [zero_message\<lparr>m_role := ''assistant'', m_content := Some (JString ''hi''),
       m_tool_calls := cm_tool_calls (co_message sample_choice)\<rparr>]"
proof -
  have "map (echoed_call Some json_print) (cm_tool_calls (co_message sample_choice)) = cm_tool_calls (co_message sample_choice)"
    by code_simp
  then show ?thesis
    using anthropic_answer_readable [OF sample_choice_facts, of id json_print]
    by (simp add: sample_choice_def)
qed

end
