(* ===== verification/Gateway_Responses.thy ===== *)
theory Gateway_Responses
  imports Gateway_Anthropic
begin

text \<open>
  \<open>internal/gateway/protocol_responses.go\<close>: OpenAI Responses requests to chat requests, chat completions
  to Responses objects. The Responses wire schema and its mapping to chat messages belong to the
  Bifrost library: \<open>bifrost\<close> is a table of its functions over an abstract type of messages, and the
  records below are the parts of its structs the adapter reads.
\<close>

section \<open>What the adapter reads of Bifrost's structs\<close>

text \<open>
  \<open>rf_parameters\<close> is the marshalled parameter schema: \<open>None\<close> for a nil pointer, \<open>Some None\<close> when
  marshalling fails.
\<close>

record responses_function =
  rf_parameters :: "json option option"
  rf_strict :: "bool option"

datatype responses_tool_kind = FunctionTool | NamespaceTool | OtherTool

datatype responses_message_kind = AdditionalTools | FunctionCall | OtherMessage

record responses_child =
  rc_type :: responses_tool_kind
  rc_name :: "string option"
  rc_description :: "string option"
  rc_function :: "responses_function option"

record responses_tool = responses_child +
  rt_children :: "responses_child list option"

text \<open>\<open>rm_is_tool\<close> is \<open>ResponsesToolMessage != nil\<close>, \<open>rm_rest\<close> what the adapter hands on unread.\<close>

record 'm responses_message =
  rm_type :: "responses_message_kind option"
  rm_is_tool :: bool
  rm_name :: "string option"
  rm_namespace :: "string option"
  rm_additional_tools :: string
  rm_rest :: 'm

record responses_wire =
  rw_model :: string
  rw_stream :: "bool option"
  rw_previous_response_id :: "string option"
  rw_store :: "bool option"
  rw_background :: "bool option"
  rw_conversation :: "string option"
  rw_text_format :: "string option"
  rw_truncation :: "string option"
  rw_context_management :: string

record 'm bifrost =
  bf_decode :: "string \<Rightarrow> responses_wire option"
  bf_normalise :: "string \<Rightarrow> (responses_tool list \<times> 'm responses_message list) option"
  bf_decode_tools :: "string \<Rightarrow> responses_tool list option"
  bf_to_chat :: "string \<Rightarrow> 'm responses_message list \<Rightarrow> json option option"

definition responses_error :: "string \<Rightarrow> request_error" where
  "responses_error msg = invalid_protocol_request ''Responses'' msg"

definition responses_unsupported :: "(string \<Rightarrow> string) \<Rightarrow> string \<Rightarrow> request_error" where
  "responses_unsupported quote field = unsupported_protocol_field quote ''Responses'' field"

section \<open>Policy\<close>

definition validate_responses_policy ::
  "(string \<Rightarrow> string) \<Rightarrow> (string \<times> json) list \<Rightarrow> responses_wire \<Rightarrow> request_error option" where
  "validate_responses_policy quote envelope input =
     (if rw_previous_response_id input \<notin> {None, Some []}
      then Some (responses_unsupported quote ''previous_response_id'')
      else if rw_store input = Some True then Some (responses_unsupported quote ''store=true'')
      else if rw_background input = Some True then Some (responses_unsupported quote ''background=true'')
      else if rw_conversation input \<notin> {None, Some []} then Some (responses_unsupported quote ''conversation'')
      else if has_non_null (member envelope ''prompt'') then Some (responses_unsupported quote ''prompt'')
      else if rw_text_format input \<notin> {None, Some [], Some ''text''}
      then Some (responses_unsupported quote ''text.format'')
      else if rw_truncation input \<notin> {None, Some [], Some ''disabled''}
      then Some (responses_unsupported quote ''truncation'')
      else if trim_space (rw_context_management input) \<notin> {[], ''null'', ''{}''}
      then Some (responses_unsupported quote ''context_management'')
      else None)"

section \<open>Tools\<close>

fun hoist_responses_additional_tools ::
  "(string \<Rightarrow> responses_tool list option) \<Rightarrow> 'm responses_message list \<Rightarrow> responses_tool list \<Rightarrow> 'm responses_message list \<Rightarrow>
   request_error + responses_tool list \<times> 'm responses_message list" where
  "hoist_responses_additional_tools decode [] tools filtered = Inr (tools, filtered)"
| "hoist_responses_additional_tools decode (msg # msgs) tools filtered =
     (if rm_type msg \<noteq> Some AdditionalTools then
        hoist_responses_additional_tools decode msgs tools (filtered @ [msg])
      else if rm_additional_tools msg = [] then hoist_responses_additional_tools decode msgs tools filtered
      else (case decode (rm_additional_tools msg) of
              None \<Rightarrow> Inl (responses_error ''additional_tools contains invalid tools'')
            | Some declared \<Rightarrow> hoist_responses_additional_tools decode msgs (tools @ declared) filtered))"

definition responses_identity_key :: "string \<Rightarrow> string \<Rightarrow> string" where
  "responses_identity_key namespace name = namespace @ [CHR 0x00] @ name"

text \<open>\<open>fmt.Sprintf("alz_ns_%x", sum[:12])\<close>\<close>

definition hashed_alias :: "(string \<Rightarrow> string) \<Rightarrow> string \<Rightarrow> string \<Rightarrow> string" where
  "hashed_alias sha namespace name = ''alz_ns_'' @ hex_encode (take 12 (sha (responses_identity_key namespace name)))"

definition namespace_alias :: "(string \<Rightarrow> string) \<Rightarrow> string \<Rightarrow> string \<Rightarrow> string" where
  "namespace_alias sha namespace name =
     (let alias = (if has_suffix ''_'' namespace then namespace @ name else namespace @ ''__'' @ name)
      in if valid_tool_name alias then alias else hashed_alias sha namespace name)"

text \<open>The tools translated so far, their public identities and the aliases of the identities.\<close>

record tool_translation =
  tt_tools :: "tool list"
  tt_aliases :: "(string, responses_tool_identity) go_map"
  tt_identities :: "(string, string) go_map"
  tt_used :: "string list"

definition acceptable_child :: "responses_child \<Rightarrow> string \<Rightarrow> bool" where
  "acceptable_child value namespace \<longleftrightarrow>
     rc_name value \<noteq> None \<and> valid_tool_name (the (rc_name value)) \<and> rc_function value \<noteq> None \<and>
     (namespace = [] \<or> valid_tool_name namespace)"

definition child_parameters :: "responses_child \<Rightarrow> json option" where
  "child_parameters value =
     (case rf_parameters (the (rc_function value)) of
        None \<Rightarrow> Some (JObject [(''type'', JString ''object''), (''properties'', JObject [])])
      | Some encoded \<Rightarrow> encoded)"

definition add_alias :: "responses_child \<Rightarrow> string \<Rightarrow> string \<Rightarrow> tool_translation \<Rightarrow> request_error + tool_translation" where
  "add_alias value namespace alias st =
     (case child_parameters value of
        None \<Rightarrow> Inl (responses_error ''contains invalid function parameters'')
      | Some parameters \<Rightarrow>
          (let name = the (rc_name value);
               translated = \<lparr>tl_type = ''function'', tl_function =
                 \<lparr>td_name = alias, td_description = (case rc_description value of None \<Rightarrow> [] | Some d \<Rightarrow> d),
                  td_parameters = Some parameters, td_strict = rf_strict (the (rc_function value))\<rparr>\<rparr>;
               st = st\<lparr>tt_tools := tt_tools st @ [translated], tt_used := alias # tt_used st\<rparr>
           in Inr (if namespace = [] then st
                   else st\<lparr>tt_aliases := AList.update alias \<lparr>ti_namespace = namespace, ti_name = name\<rparr> (tt_aliases st),
                           tt_identities := AList.update (responses_identity_key namespace name) alias (tt_identities st)\<rparr>)))"

definition add_function ::
  "(string \<Rightarrow> string) \<Rightarrow> responses_child \<Rightarrow> string \<Rightarrow> tool_translation \<Rightarrow> request_error + tool_translation" where
  "add_function sha value namespace st =
     (if \<not> acceptable_child value namespace then Inr st
      else
        let name = the (rc_name value);
            alias = (if namespace = [] then name else namespace_alias sha namespace name)
        in if alias \<notin> set (tt_used st) then add_alias value namespace alias st
           else if namespace = [] then Inl (responses_error ''declares duplicate function tools'')
           else if hashed_alias sha namespace name \<in> set (tt_used st)
           then Inl (responses_error ''declares colliding namespace tools'')
           else add_alias value namespace (hashed_alias sha namespace name) st)"

fun add_children ::
  "(string \<Rightarrow> string) \<Rightarrow> string \<Rightarrow> responses_child list \<Rightarrow> tool_translation \<Rightarrow> request_error + tool_translation" where
  "add_children sha namespace [] st = Inr st"
| "add_children sha namespace (child # children) st =
     (if rc_type child \<noteq> FunctionTool then add_children sha namespace children st
      else (case add_function sha child namespace st of
              Inl e \<Rightarrow> Inl e
            | Inr st \<Rightarrow> add_children sha namespace children st))"

definition add_declaration :: "(string \<Rightarrow> string) \<Rightarrow> responses_tool \<Rightarrow> tool_translation \<Rightarrow> request_error + tool_translation" where
  "add_declaration sha value st =
     (if rc_type value = FunctionTool then add_function sha (responses_child.truncate value) [] st
      else if rc_type value = NamespaceTool then
        (if rc_name value = None \<or> rt_children value = None then Inr st
         else add_children sha (the (rc_name value)) (the (rt_children value)) st)
      else Inr st)"

fun translate_tools :: "(string \<Rightarrow> string) \<Rightarrow> responses_tool list \<Rightarrow> tool_translation \<Rightarrow> request_error + tool_translation" where
  "translate_tools sha [] st = Inr st"
| "translate_tools sha (value # values) st =
     (case add_declaration sha value st of
        Inl e \<Rightarrow> Inl e
      | Inr st' \<Rightarrow>
          if int (length (tt_tools st')) > max_tools \<and>
             \<not> (rc_type value = NamespaceTool \<and> (rc_name value = None \<or> rt_children value = None))
          then Inl (responses_error ''declares too many compatible function tools'')
          else translate_tools sha values st')"

definition responses_tools_to_chat :: "(string \<Rightarrow> string) \<Rightarrow> responses_tool list \<Rightarrow> request_error + tool_translation" where
  "responses_tools_to_chat sha values =
     translate_tools sha values \<lparr>tt_tools = [], tt_aliases = [], tt_identities = [], tt_used = []\<rparr>"

section \<open>History\<close>

fun rewrite_responses_namespace_history ::
  "(string, string) go_map \<Rightarrow> 'm responses_message list \<Rightarrow> request_error + 'm responses_message list" where
  "rewrite_responses_namespace_history identities [] = Inr []"
| "rewrite_responses_namespace_history identities (msg # msgs) =
     (if rm_type msg \<noteq> Some FunctionCall \<or> \<not> rm_is_tool msg \<or> rm_namespace msg \<in> {None, Some []} then
        (case rewrite_responses_namespace_history identities msgs of Inl e \<Rightarrow> Inl e | Inr out \<Rightarrow> Inr (msg # out))
      else if rm_name msg \<in> {None, Some []} then
        Inl (responses_error ''namespace function_call is missing a name'')
      else (case map_of identities (responses_identity_key (the (rm_namespace msg)) (the (rm_name msg))) of
              None \<Rightarrow> Inl (responses_error ''function_call references an undeclared namespace tool'')
            | Some alias \<Rightarrow>
                (case rewrite_responses_namespace_history identities msgs of
                   Inl e \<Rightarrow> Inl e
                 | Inr out \<Rightarrow> Inr (msg\<lparr>rm_name := Some alias, rm_namespace := None\<rparr> # out))))"

section \<open>Requests\<close>

definition decode_responses_request ::
  "'m bifrost \<Rightarrow> (string \<Rightarrow> rat option) \<Rightarrow> (string \<Rightarrow> string) \<Rightarrow> (string \<Rightarrow> string) \<Rightarrow> string \<Rightarrow>
   request_error + chat_request" where
  "decode_responses_request bifrost parse_float quote sha data =
     (case json_decode data of
        Some (JObject envelope) \<Rightarrow>
          if \<not> has_non_null (member envelope ''input'') then Inl (responses_error ''requires input'')
          else (case bf_decode bifrost data of
                  None \<Rightarrow> Inl (responses_error ''is not a valid Responses request'')
                | Some wire \<Rightarrow>
          (case validate_responses_policy quote envelope wire of
             Some e \<Rightarrow> Inl e
           | None \<Rightarrow>
          (case bf_normalise bifrost data of
             None \<Rightarrow> Inl (responses_error ''could not be normalized'')
           | Some (declared, input) \<Rightarrow>
          (case hoist_responses_additional_tools (bf_decode_tools bifrost) input [] [] of
             Inl e \<Rightarrow> Inl e
           | Inr (additional, filtered) \<Rightarrow>
          (case responses_tools_to_chat sha (declared @ additional) of
             Inl e \<Rightarrow> Inl e
           | Inr translation \<Rightarrow>
          (case rewrite_responses_namespace_history (tt_identities translation) filtered of
             Inl e \<Rightarrow> Inl e
           | Inr history \<Rightarrow>
          (case bf_to_chat bifrost data history of
             None \<Rightarrow> Inl (responses_error ''could not be mapped to the configured model API'')
           | Some None \<Rightarrow> Inl (responses_error ''could not be normalized'')
           | Some (Some encoded) \<Rightarrow>
          (case decode_struct False (chat_request_fields False parse_float) encoded zero_request of
             Inl _ \<Rightarrow> Inl (responses_error ''could not be normalized'')
           | Inr normalized \<Rightarrow>
               Inr (normalized
                 \<lparr>cr_model := rw_model wire, cr_stream := rw_stream wire, cr_tools := tt_tools translation,
                  cr_responses_tool_aliases := tt_aliases translation,
                  cr_stream_options := (if rw_stream wire = Some True then Some \<lparr>so_include_usage = Some True\<rparr>
                    else cr_stream_options normalized)\<rparr>)))))))))
      | _ \<Rightarrow> Inl (responses_error ''is not valid JSON''))"

section \<open>Responses\<close>

text \<open>The public name and namespace of a function the provider calls.\<close>

definition responses_function_call ::
  "(string, responses_tool_identity) go_map \<Rightarrow> string \<Rightarrow> string \<times> string option" where
  "responses_function_call aliases name =
     (case map_of aliases name of
        None \<Rightarrow> (name, None)
      | Some identity \<Rightarrow> (ti_name identity, Some (ti_namespace identity)))"

definition responses_usage :: "provider_usage option \<Rightarrow> json" where
  "responses_usage value =
     (let u = (case value of None \<Rightarrow> zero_provider_usage | Some u \<Rightarrow> u);
          input = count_or (pu_prompt_tokens u) 0;
          output = count_or (pu_completion_tokens u) 0;
          cached = details_or (pu_prompt_tokens_details u) (count_or (pu_cached_tokens u) 0);
          reasoning = details_or (pu_completion_tokens_details u) (count_or (pu_reasoning_tokens u) 0)
      in json_map
           [(''input_tokens'', json_int input), (''output_tokens'', json_int output),
            (''total_tokens'', json_int (wrap64 (input + output))),
            (''input_tokens_details'', json_map [(''cached_tokens'', json_int cached)]),
            (''output_tokens_details'', json_map [(''reasoning_tokens'', json_int reasoning)])])"

definition usage_from_platform :: "token_usage \<Rightarrow> json" where
  "usage_from_platform value =
     responses_usage (Some (zero_provider_usage
       \<lparr>pu_prompt_tokens := u_input_tokens value, pu_completion_tokens := u_output_tokens value,
        pu_cached_tokens := u_cached_tokens value, pu_reasoning_tokens := u_reasoning_tokens value\<rparr>))"

definition output_text_part :: "string \<Rightarrow> json" where
  "output_text_part text' =
     json_map [(''type'', JString ''output_text''), (''text'', JString text'), (''annotations'', JArray [])]"

definition message_item :: "string \<Rightarrow> string \<Rightarrow> json list \<Rightarrow> json" where
  "message_item item_id status content =
     json_map [(''type'', JString ''message''), (''id'', JString item_id), (''status'', JString status),
       (''role'', JString ''assistant''), (''content'', JArray content)]"

definition function_call_id :: "string \<Rightarrow> int \<Rightarrow> string" where
  "function_call_id request_id index = ''fc_'' @ request_id @ ''_'' @ go_itoa index"

definition function_call_item ::
  "string \<Rightarrow> string \<Rightarrow> string \<Rightarrow> string option \<Rightarrow> string \<Rightarrow> string \<Rightarrow> json" where
  "function_call_item item_id call_id name namespace arguments status =
     json_map ([(''type'', JString ''function_call''), (''id'', JString item_id), (''call_id'', JString call_id),
       (''name'', JString name), (''arguments'', JString arguments), (''status'', JString status)] @
       (case namespace of None \<Rightarrow> [] | Some ns \<Rightarrow> [(''namespace'', JString ns)]))"

fun function_call_items ::
  "string \<Rightarrow> (string, responses_tool_identity) go_map \<Rightarrow> int \<Rightarrow> tool_call list \<Rightarrow> json list" where
  "function_call_items request_id aliases index [] = []"
| "function_call_items request_id aliases index (call # calls) =
     (case responses_function_call aliases (tf_name (tc_function call)) of
        (name, namespace) \<Rightarrow>
          function_call_item (function_call_id request_id index) (tc_id call) name namespace
            (tf_arguments (tc_function call)) ''completed'')
     # function_call_items request_id aliases (index + 1) calls"

definition response_object :: "string \<Rightarrow> int \<Rightarrow> string \<Rightarrow> json \<Rightarrow> string \<Rightarrow> json list \<Rightarrow> json \<Rightarrow> json" where
  "response_object response_id created status incomplete public_model output usage =
     json_map
       [(''id'', JString response_id), (''object'', JString ''response''), (''created_at'', json_int created),
        (''status'', JString status), (''error'', JNull), (''incomplete_details'', incomplete),
        (''instructions'', JNull), (''model'', JString public_model), (''output'', JArray output),
        (''parallel_tool_calls'', JBool True), (''tool_choice'', JString ''auto''), (''tools'', JArray []),
        (''usage'', usage)]"

definition incomplete_reason :: json where
  "incomplete_reason = json_map [(''reason'', JString ''max_output_tokens'')]"

text \<open>\<open>now\<close> is \<open>now.Unix()\<close>.\<close>

definition encode_responses_response ::
  "string \<Rightarrow> string \<Rightarrow> string \<Rightarrow> int \<Rightarrow> (string, responses_tool_identity) go_map \<Rightarrow> json option" where
  "encode_responses_response body request_id public_model now aliases =
     (case parse_chat_completion body of
        None \<Rightarrow> None
      | Some chat \<Rightarrow>
          (let id = (if safe_provider_id (cc_id chat) = [] then request_id else safe_provider_id (cc_id chat));
               created = (if cc_created chat \<le> 0 then now else cc_created chat);
               choice = hd (cc_choices chat);
               output = (case cm_content (co_message choice) of
                   None \<Rightarrow> []
                 | Some t \<Rightarrow> [message_item (''msg_'' @ request_id) ''completed'' [output_text_part t]])
                 @ function_call_items request_id aliases 0 (cm_tool_calls (co_message choice));
               truncated = (co_finish_reason choice = ''length'')
           in Some (response_object id created (if truncated then ''incomplete'' else ''completed'')
                (if truncated then incomplete_reason else JNull) public_model output (responses_usage (cc_usage chat)))))"

section \<open>Every translated tool keeps its public identity\<close>

text \<open>
  The functions a declaration list offers, in order: the namespace (empty for a plain function) and the
  name of every declaration the adapter can carry over.
\<close>

definition offered_children :: "string \<Rightarrow> responses_child list \<Rightarrow> (string \<times> string) list" where
  "offered_children namespace children =
     map (\<lambda>c. (namespace, the (rc_name c))) (filter (\<lambda>c. rc_type c = FunctionTool \<and> acceptable_child c namespace) children)"

definition offered_functions :: "responses_tool list \<Rightarrow> (string \<times> string) list" where
  "offered_functions values =
     concat (map (\<lambda>v.
       if rc_type v = FunctionTool then offered_children [] [responses_child.truncate v]
       else if rc_type v = NamespaceTool \<and> rc_name v \<noteq> None \<and> rt_children v \<noteq> None
       then offered_children (the (rc_name v)) (the (rt_children v))
       else []) values)"

definition public_function :: "string \<times> string \<Rightarrow> string \<times> string option" where
  "public_function f = (snd f, if fst f = [] then None else Some (fst f))"

text \<open>What holds of the translation of the functions \<open>fs\<close>.\<close>

definition translates :: "(string \<times> string) list \<Rightarrow> tool_translation \<Rightarrow> bool" where
  "translates fs st \<longleftrightarrow>
     map (\<lambda>t. td_name (tl_function t)) (tt_tools st) = rev (tt_used st) \<and>
     distinct (tt_used st) \<and> list_all valid_tool_name (tt_used st) \<and>
     fst ` set (tt_aliases st) \<subseteq> set (tt_used st) \<and>
     map (responses_function_call (tt_aliases st)) (rev (tt_used st)) = map public_function fs \<and>
     (\<forall>(ns, n) \<in> set fs. CHR 0x00 \<notin> set ns \<and>
        (ns \<noteq> [] \<longrightarrow> (\<exists>a. map_of (tt_identities st) (responses_identity_key ns n) = Some a \<and>
                         map_of (tt_aliases st) a = Some \<lparr>ti_namespace = ns, ti_name = n\<rparr>)))"

lemma valid_tool_name_no_nul: "valid_tool_name s \<Longrightarrow> CHR 0x00 \<notin> set s"
proof
  assume "valid_tool_name s" "CHR 0x00 \<in> set s"
  then have "is_lower CHR 0x00 \<or> is_upper CHR 0x00 \<or> is_digit CHR 0x00 \<or> CHR 0x00 = CHR ''_'' \<or> CHR 0x00 = CHR ''-''"
    unfolding valid_tool_name_def list_all_iff by blast
  then show False by (simp add: is_lower_def is_upper_def is_digit_def)
qed

lemma identity_key_inject:
  assumes "responses_identity_key ns n = responses_identity_key ns' n'" "CHR 0x00 \<notin> set ns" "CHR 0x00 \<notin> set ns'"
  shows "ns = ns' \<and> n = n'"
proof -
  have "takeWhile (\<lambda>c. c \<noteq> CHR 0x00) (responses_identity_key m k) = m" "dropWhile (\<lambda>c. c \<noteq> CHR 0x00) (responses_identity_key m k) = CHR 0x00 # k"
    if "CHR 0x00 \<notin> set m" for m k
  proof -
    have all: "\<And>c. c \<in> set m \<Longrightarrow> c \<noteq> CHR 0x00" using that by metis
    show "takeWhile (\<lambda>c. c \<noteq> CHR 0x00) (responses_identity_key m k) = m"
      by (simp add: responses_identity_key_def takeWhile_append2 all)
    show "dropWhile (\<lambda>c. c \<noteq> CHR 0x00) (responses_identity_key m k) = CHR 0x00 # k"
      by (simp add: responses_identity_key_def dropWhile_append2 all)
  qed
  with assms show ?thesis by (metis list.inject)
qed

lemma translates_identity:
  assumes "translates fs st" "(ns, n) \<in> set fs"
  shows "CHR 0x00 \<notin> set ns \<and>
    (ns \<noteq> [] \<longrightarrow> (\<exists>a. map_of (tt_identities st) (responses_identity_key ns n) = Some a \<and>
                    map_of (tt_aliases st) a = Some \<lparr>ti_namespace = ns, ti_name = n\<rparr>))"
  using assms unfolding translates_def by (elim conjE) (drule (1) bspec, simp)

lemma translates_add_alias:
  assumes inv: "translates fs st" and run: "add_alias value ns alias st = Inr st'"
    and fresh: "alias \<notin> set (tt_used st)" and valid: "valid_tool_name alias" "ns = [] \<or> valid_tool_name ns"
    and plain: "ns = [] \<longrightarrow> alias = the (rc_name value)"
  shows "translates (fs @ [(ns, the (rc_name value))]) st'"
proof -
  let ?n = "the (rc_name value)"
  have used: "tt_used st' = alias # tt_used st" and tools: "map (\<lambda>t. td_name (tl_function t)) (tt_tools st') =
      map (\<lambda>t. td_name (tl_function t)) (tt_tools st) @ [alias]"
    and al: "tt_aliases st' = (if ns = [] then tt_aliases st
      else AList.update alias \<lparr>ti_namespace = ns, ti_name = ?n\<rparr> (tt_aliases st))"
    and idn: "tt_identities st' = (if ns = [] then tt_identities st
      else AList.update (responses_identity_key ns ?n) alias (tt_identities st))"
    using run by (auto simp: add_alias_def Let_def split: option.splits if_splits)
  have old: "fst ` set (tt_aliases st) \<subseteq> set (tt_used st)" using inv by (simp add: translates_def)
  have none: "map_of (tt_aliases st) alias = None"
    using old fresh by (auto simp: map_of_eq_None_iff)
  have same: "map_of (tt_aliases st') a = map_of (tt_aliases st) a" if "a \<noteq> alias" for a
    using that by (simp add: al update_conv')
  have new: "responses_function_call (tt_aliases st') alias = public_function (ns, ?n)"
    using none plain by (auto simp: responses_function_call_def al update_conv' public_function_def)
  have keep: "map (responses_function_call (tt_aliases st')) (rev (tt_used st)) =
      map (responses_function_call (tt_aliases st)) (rev (tt_used st))"
  proof (rule map_cong [OF refl])
    fix a assume "a \<in> set (rev (tt_used st))"
    with fresh have "a \<noteq> alias" by auto
    then show "responses_function_call (tt_aliases st') a = responses_function_call (tt_aliases st) a"
      by (simp add: responses_function_call_def same)
  qed
  have nul: "CHR 0x00 \<notin> set ns" using valid(2) valid_tool_name_no_nul by auto
  have ids: "CHR 0x00 \<notin> set ms \<and> (ms \<noteq> [] \<longrightarrow> (\<exists>a. map_of (tt_identities st') (responses_identity_key ms m) = Some a \<and>
      map_of (tt_aliases st') a = Some \<lparr>ti_namespace = ms, ti_name = m\<rparr>))" if mem: "(ms, m) \<in> set fs" for ms m
  proof (intro conjI impI)
    show z: "CHR 0x00 \<notin> set ms" using translates_identity [OF inv mem] by blast
    assume "ms \<noteq> []"
    then obtain a where a: "map_of (tt_identities st) (responses_identity_key ms m) = Some a"
        "map_of (tt_aliases st) a = Some \<lparr>ti_namespace = ms, ti_name = m\<rparr>"
      using translates_identity [OF inv mem] by blast
    then have ne: "a \<noteq> alias" using none by auto
    show "\<exists>a. map_of (tt_identities st') (responses_identity_key ms m) = Some a \<and>
        map_of (tt_aliases st') a = Some \<lparr>ti_namespace = ms, ti_name = m\<rparr>"
    proof (cases "ns \<noteq> [] \<and> responses_identity_key ms m = responses_identity_key ns ?n")
      case True
      then have "ms = ns" "m = ?n" using identity_key_inject [of ms m ns ?n] z nul by simp_all
      then show ?thesis using True by (simp add: al idn update_conv')
    next
      case False
      then show ?thesis using a same [OF ne] by (auto simp: idn update_conv')
    qed
  qed
  have new_id: "ns \<noteq> [] \<Longrightarrow> map_of (tt_identities st') (responses_identity_key ns ?n) = Some alias \<and>
      map_of (tt_aliases st') alias = Some \<lparr>ti_namespace = ns, ti_name = ?n\<rparr>"
    by (simp add: al idn update_conv')
  show ?thesis
    unfolding translates_def
  proof (intro conjI)
    show "map (\<lambda>t. td_name (tl_function t)) (tt_tools st') = rev (tt_used st')"
      using inv by (simp only: used tools translates_def rev.simps)
    show "distinct (tt_used st')" "list_all valid_tool_name (tt_used st')"
      using inv fresh valid(1) by (simp_all add: used translates_def)
    show "fst ` set (tt_aliases st') \<subseteq> set (tt_used st')"
      using old by (auto simp: al used dom_map_of_conv_image_fst [symmetric] update_conv' split: if_splits)
    show "map (responses_function_call (tt_aliases st')) (rev (tt_used st')) = map public_function (fs @ [(ns, ?n)])"
      using inv by (simp only: used rev.simps map_append keep new list.map translates_def)
    show "\<forall>(ms, m) \<in> set (fs @ [(ns, ?n)]). CHR 0x00 \<notin> set ms \<and>
        (ms \<noteq> [] \<longrightarrow> (\<exists>a. map_of (tt_identities st') (responses_identity_key ms m) = Some a \<and>
                         map_of (tt_aliases st') a = Some \<lparr>ti_namespace = ms, ti_name = m\<rparr>))"
    proof clarify
      fix ms m assume "(ms, m) \<in> set (fs @ [(ns, ?n)])"
      then consider "(ms, m) \<in> set fs" | "ms = ns" "m = ?n" by auto
      then show "CHR 0x00 \<notin> set ms \<and> (ms \<noteq> [] \<longrightarrow> (\<exists>a. map_of (tt_identities st') (responses_identity_key ms m) = Some a \<and>
                         map_of (tt_aliases st') a = Some \<lparr>ti_namespace = ms, ti_name = m\<rparr>))"
        by cases (use ids in blast, use nul new_id in blast)
    qed
  qed
qed

lemma hashed_alias_valid: "valid_tool_name (hashed_alias sha ns n)"
proof -
  have "list_all (\<lambda>c. is_lower c \<or> is_digit c) ''0123456789abcdef''" by code_simp
  then have *: "is_lower (hex_digit n) \<or> is_digit (hex_digit n)" if "n < 16" for n
    using that by (simp add: hex_digit_def list_all_length)
  have hex: "list_all (\<lambda>c. is_lower c \<or> is_upper c \<or> is_digit c \<or> c = CHR ''_'' \<or> c = CHR ''-'') (hex_encode w)" for w
  proof (induction w)
    case (Cons c w)
    have "of_char c div 16 < (16::nat)" using of_char_lt [of c] by linarith
    with Cons * [of "of_char c div 16"] * [of "of_char c mod 16"] show ?case by auto
  qed simp
  have "length (hex_encode w) = 2 * length w" for w by (induction w) auto
  then show ?thesis
    using hex by (simp add: hashed_alias_def valid_tool_name_def max_tool_name_length_def is_lower_def is_digit_def)
qed

lemma namespace_alias_valid: "valid_tool_name (namespace_alias sha ns n)"
  by (simp add: namespace_alias_def Let_def hashed_alias_valid)

lemma translates_add_function:
  assumes inv: "translates fs st" and run: "add_function sha value ns st = Inr st'"
  shows "translates (fs @ (if acceptable_child value ns then [(ns, the (rc_name value))] else [])) st'"
proof (cases "acceptable_child value ns")
  case True
  then have ns: "ns = [] \<or> valid_tool_name ns" and nm: "valid_tool_name (the (rc_name value))"
    by (auto simp: acceptable_child_def)
  from run True obtain al where "add_alias value ns al st = Inr st'" "al \<notin> set (tt_used st)"
      "valid_tool_name al" "ns = [] \<longrightarrow> al = the (rc_name value)"
    using nm by (auto simp: add_function_def Let_def namespace_alias_valid hashed_alias_valid split: if_splits)
  with True translates_add_alias [OF inv] ns show ?thesis by simp
qed (use assms in \<open>simp add: add_function_def\<close>)

lemma translates_add_children:
  "translates fs st \<Longrightarrow> add_children sha ns children st = Inr st' \<Longrightarrow> translates (fs @ offered_children ns children) st'"
proof (induction children arbitrary: fs st)
  case (Cons c cs)
  show ?case
  proof (cases "rc_type c = FunctionTool")
    case True
    with Cons.prems(2) obtain st1 where st1: "add_function sha c ns st = Inr st1" "add_children sha ns cs st1 = Inr st'"
      by (auto split: sum.splits)
    from Cons.IH [OF translates_add_function [OF Cons.prems(1) st1(1)] st1(2)] True show ?thesis
      by (auto simp: offered_children_def)
  qed (use Cons in \<open>simp add: offered_children_def\<close>)
qed (simp add: offered_children_def)

lemma translates_add_declaration:
  assumes "translates fs st" and "add_declaration sha v st = Inr st'"
  shows "translates (fs @ offered_functions [v]) st'"
proof -
  have kind: "rc_type (responses_child.truncate v) = rc_type v" by (simp add: responses_child.defs)
  consider (fn) "rc_type v = FunctionTool" | (ns) "rc_type v = NamespaceTool" | (other) "rc_type v = OtherTool"
    by (cases "rc_type v") auto
  then show ?thesis
  proof cases
    case fn
    with assms(2) have "add_function sha (responses_child.truncate v) [] st = Inr st'" by (simp add: add_declaration_def)
    from translates_add_function [OF assms(1) this] fn show ?thesis
      by (auto simp: offered_functions_def offered_children_def kind)
  next
    case ns
    with assms translates_add_children [OF assms(1), of sha "the (rc_name v)" "the (rt_children v)" st'] show ?thesis
      by (auto simp: offered_functions_def add_declaration_def split: if_splits)
  qed (use assms in \<open>auto simp: offered_functions_def add_declaration_def\<close>)
qed

lemma offered_functions_Cons: "offered_functions (v # vs) = offered_functions [v] @ offered_functions vs"
  by (simp add: offered_functions_def)

lemma translates_translate_tools:
  "translates fs st \<Longrightarrow> translate_tools sha vs st = Inr st' \<Longrightarrow> translates (fs @ offered_functions vs) st'"
proof (induction vs arbitrary: fs st)
  case Nil
  then show ?case by (simp add: offered_functions_def)
next
  case (Cons v vs)
  from Cons.prems(2) obtain st1 where "add_declaration sha v st = Inr st1" "translate_tools sha vs st1 = Inr st'"
    by (auto split: sum.splits if_splits)
  with Cons.IH [OF translates_add_declaration [OF Cons.prems(1)]] show ?case
    by (simp add: offered_functions_Cons [of v vs])
qed

lemma responses_error_status [simp]:
  "re_status (responses_error msg) = 400" "re_status (responses_unsupported quote field) = 400"
  by (simp_all add: responses_error_def responses_unsupported_def invalid_protocol_request_def
      unsupported_protocol_field_def bad_request_def)

lemma responses_tools_error: "responses_tools_to_chat sha values = Inl e \<Longrightarrow> re_status e = 400"
proof -
  have add: "add_alias v ns a st = Inl e \<Longrightarrow> re_status e = 400" for v ns a st e
    by (auto simp: add_alias_def Let_def split: option.splits)
  have fn: "add_function sha v ns st = Inl e \<Longrightarrow> re_status e = 400" for v ns st e
    by (auto simp: add_function_def Let_def split: if_splits dest: add)
  have ch: "add_children sha ns cs st = Inl e \<Longrightarrow> re_status e = 400" for ns cs st e
    by (induction cs arbitrary: st) (auto split: if_splits sum.splits dest: fn)
  have "translate_tools sha vs st = Inl e \<Longrightarrow> re_status e = 400" for vs st
    by (induction vs arbitrary: st)
      (auto simp: add_declaration_def split: if_splits sum.splits dest: fn ch)
  then show "responses_tools_to_chat sha values = Inl e \<Longrightarrow> re_status e = 400"
    by (simp add: responses_tools_to_chat_def)
qed

lemma responses_policy_error: "validate_responses_policy quote es wire = Some e \<Longrightarrow> re_status e = 400"
  by (auto simp: validate_responses_policy_def split: if_splits option.splits)

lemma hoist_error: "hoist_responses_additional_tools dec ms ts fs = Inl e \<Longrightarrow> re_status e = 400"
  by (induction dec ms ts fs rule: hoist_responses_additional_tools.induct)
    (auto split: if_splits option.splits sum.splits)

lemma rewrite_error: "rewrite_responses_namespace_history ids ms = Inl e \<Longrightarrow> re_status e = 400"
  by (induction ids ms rule: rewrite_responses_namespace_history.induct)
    (auto split: if_splits option.splits sum.splits)

lemma decode_responses_error: "decode_responses_request bf pf quote sha data = Inl e \<Longrightarrow> re_status e = 400"
  unfolding decode_responses_request_def
  by (auto split: option.splits json.splits sum.splits if_splits
      dest!: responses_tools_error responses_policy_error hoist_error rewrite_error)

text \<open>
  C8: whatever tools a Responses request declares, an accepted translation offers the provider one
  function for each declaration that can be carried over, in order, under distinct valid names; and a
  call of a translated name is reported to the client under the name and namespace it was declared
  with, while a call of the history under a declared namespace and name is sent under a name that
  translates back to it.
\<close>

theorem tool_identities_restored:
  "case responses_tools_to_chat sha values of
     Inl e \<Rightarrow> re_status e = 400
   | Inr t \<Rightarrow>
       (let names = map (\<lambda>x. td_name (tl_function x)) (tt_tools t)
        in distinct names \<and> list_all valid_tool_name names \<and>
           map (responses_function_call (tt_aliases t)) names = map public_function (offered_functions values) \<and>
           list_all (\<lambda>(ns, n). ns = [] \<or>
             map_option (responses_function_call (tt_aliases t)) (map_of (tt_identities t) (responses_identity_key ns n)) =
               Some (n, Some ns)) (offered_functions values))"
proof (cases "responses_tools_to_chat sha values")
  case (Inl e)
  then show ?thesis using responses_tools_error by simp
next
  case (Inr t)
  have "translates [] \<lparr>tt_tools = [], tt_aliases = [], tt_identities = [], tt_used = []\<rparr>"
    by (simp add: translates_def)
  from translates_translate_tools [OF this Inr [unfolded responses_tools_to_chat_def]]
  have t: "translates (offered_functions values) t" by simp
  have "map_option (responses_function_call (tt_aliases t)) (map_of (tt_identities t) (responses_identity_key ns n)) = Some (n, Some ns)"
    if mem: "(ns, n) \<in> set (offered_functions values)" and ne: "ns \<noteq> []" for ns n
  proof -
    from translates_identity [OF t mem] ne obtain a where "map_of (tt_identities t) (responses_identity_key ns n) = Some a"
        "map_of (tt_aliases t) a = Some \<lparr>ti_namespace = ns, ti_name = n\<rparr>"
      by blast
    then show ?thesis by (simp add: responses_function_call_def)
  qed
  moreover have "distinct (rev (tt_used t))" "list_all valid_tool_name (rev (tt_used t))"
      "map (\<lambda>x. td_name (tl_function x)) (tt_tools t) = rev (tt_used t)"
      "map (responses_function_call (tt_aliases t)) (rev (tt_used t)) = map public_function (offered_functions values)"
    using t unfolding translates_def list_all_iff by simp_all
  ultimately show ?thesis
    using Inr by (auto simp: list_all_iff Let_def)
qed

end
