(* ===== verification/Gateway_Attempt.thy ===== *)
theory Gateway_Attempt
  imports Gateway_Core Http_Api
begin

text \<open>
  One buffered provider attempt of \<open>internal/gateway/gateway.go\<close>, recorded in the ledger before it is
  made and completed in the ledger before its result is used.

  The gateway runs over a \<open>world\<close>: the store, the response being written, whether its stream sink has
  committed, the calls made to the provider, and a tick that advances with every question put to the environment. The environment
  answers by tick, so any interleaving with clocks, cancellation and provider behaviour is a value of
  \<open>gateway_env\<close>.
\<close>

section \<open>The world around a request\<close>

record upstream_call =
  uc_url :: string
  uc_model :: string
  uc_timeout :: duration
  uc_allow_private :: bool
  uc_secret :: string
  uc_request_id :: string
  uc_accept :: string
  uc_body :: string

datatype body_end = BodyEOF | BodyUnexpectedEOF | BodyFailed

record http_reply =
  hp_status :: int
  hp_header :: http_header
  hp_body :: string
  hp_end :: body_end

record 's world =
  w_store :: 's
  w_tick :: nat
  w_writer :: response_writer
  w_committed :: bool
  w_calls :: "upstream_call list"

text \<open>
  \<open>ge_cancelled\<close> answers \<open>r.Context().Err() != nil\<close>, \<open>ge_deadline\<close> whether the attempt's own context
  has passed its deadline, \<open>ge_interrupted\<close> whether the request is cancelled during a wait of the given
  length, \<open>ge_write_fails\<close> whether a downstream write fails or is short, \<open>ge_flusher\<close> whether the response
  writer can flush. \<open>ge_chat\<close> is the Bifrost engine,
  \<open>ge_do\<close> the HTTP client (\<open>None\<close> is an error). The remaining fields are the library functions
  \<open>json.Marshal\<close>, \<open>mime.ParseMediaType\<close>, \<open>http.ParseTime\<close>, \<open>strconv.ParseFloat\<close>, \<open>net/url\<close> and
  \<open>sha256.Sum256\<close>.
\<close>

record gateway_env =
  ge_new_id :: "nat \<Rightarrow> string \<Rightarrow> err + string"
  ge_clock :: "nat \<Rightarrow> time"
  ge_cancelled :: "nat \<Rightarrow> bool"
  ge_deadline :: "nat \<Rightarrow> bool"
  ge_interrupted :: "nat \<Rightarrow> duration \<Rightarrow> bool"
  ge_write_fails :: "nat \<Rightarrow> bool"
  ge_flusher :: bool
  ge_chat :: "nat \<Rightarrow> upstream_call \<Rightarrow> engine_result option \<times> provider_error option"
  ge_do :: "nat \<Rightarrow> upstream_call \<Rightarrow> http_reply option"
  ge_marshal :: "chat_request \<Rightarrow> string option"
  ge_media_type :: "string \<Rightarrow> string option"
  ge_parse_time :: "string \<Rightarrow> time option"
  ge_parse_float :: "string \<Rightarrow> rat option"
  ge_url :: url_lib
  ge_sha :: "string \<Rightarrow> string"

record gateway_config =
  gc_secret_lookup :: "string \<Rightarrow> string option"
  gc_max_request_bytes :: int
  gc_max_response_bytes :: int
  gc_retry_base_delay :: duration
  gc_max_retry_delay :: duration
  gc_allow_insecure_targets :: bool
  gc_legacy_http :: bool

text \<open>
  \<open>New\<close>: the defaults of the configuration. \<open>lookup\<close> is \<open>Config.SecretLookup\<close>, \<open>secrets_lookup\<close> the
  process-wide lookup the default one guards with the allowed references.
\<close>

definition default_secret_lookup :: "(string \<Rightarrow> string option) \<Rightarrow> string list \<Rightarrow> string \<Rightarrow> string option" where
  "default_secret_lookup secrets_lookup allowed_refs reference =
     (let refs = (if allowed_refs = [] then [''OPENROUTER_API_KEY''] else allowed_refs)
      in if reference \<in> set (filter (\<lambda>r. r \<noteq> []) refs) then secrets_lookup reference else None)"

definition new_gateway ::
  "(string \<Rightarrow> string option) \<Rightarrow> (string \<Rightarrow> string option) option \<Rightarrow> string list \<Rightarrow> bool \<Rightarrow> gateway_config \<Rightarrow>
   err + gateway_config" where
  "new_gateway secrets_lookup lookup allowed_refs has_store config =
     (if \<not> has_store then Inl (ErrText ''gateway store is required'')
      else Inr (config
        \<lparr>gc_secret_lookup := (case lookup of Some f \<Rightarrow> f | None \<Rightarrow> default_secret_lookup secrets_lookup allowed_refs),
         gc_max_request_bytes := (if gc_max_request_bytes config \<le> 0 then 1048576 else gc_max_request_bytes config),
         gc_max_response_bytes := (if gc_max_response_bytes config \<le> 0 then 4194304 else gc_max_response_bytes config),
         gc_retry_base_delay := (if gc_retry_base_delay config \<le> 0 then 50 * millisecond else gc_retry_base_delay config),
         gc_max_retry_delay := (if gc_max_retry_delay config \<le> 0 then 5 * nanosecond_per_second
           else gc_max_retry_delay config)\<rparr>))"

section \<open>Effects\<close>

definition next_tick :: "('s world, nat) state" where
  "next_tick = do {
     w \<leftarrow> State_Monad.get;
     State_Monad.set (w\<lparr>w_tick := w_tick w + 1\<rparr>);
     State_Monad.return (w_tick w)
   }"

definition ask :: "(nat \<Rightarrow> 'a) \<Rightarrow> ('s world, 'a) state" where
  "ask f = do { n \<leftarrow> next_tick; State_Monad.return (f n) }"

definition on_store :: "('s, 'a) state \<Rightarrow> ('s world, 'a) state" where
  "on_store m = do {
     w \<leftarrow> State_Monad.get;
     case run_state m (w_store w) of
       (a, s) \<Rightarrow> do {
         State_Monad.set (w\<lparr>w_store := s\<rparr>);
         State_Monad.return a
       }
   }"

definition respond :: "(response_writer \<Rightarrow> response_writer) \<Rightarrow> ('s world, unit) state" where
  "respond f = State_Monad.update (\<lambda>w. w\<lparr>w_writer := f (w_writer w)\<rparr>)"

definition call_upstream :: "upstream_call \<Rightarrow> (nat \<Rightarrow> upstream_call \<Rightarrow> 'a) \<Rightarrow> ('s world, 'a) state" where
  "call_upstream call f = do {
     _ \<leftarrow> State_Monad.update (\<lambda>w. w\<lparr>w_calls := w_calls w @ [call]\<rparr>);
     ask (\<lambda>n. f n call)
   }"

definition now_at :: "gateway_env \<Rightarrow> ('s world, time) state" where
  "now_at env = ask (ge_clock env)"

section \<open>Completing an attempt\<close>

definition complete_attempt ::
  "gateway_env \<Rightarrow> 's store_ops \<Rightarrow> string \<Rightarrow> time \<Rightarrow> string \<Rightarrow> string \<Rightarrow> string \<Rightarrow> int \<Rightarrow> token_usage \<Rightarrow> string \<Rightarrow>
   ('s world, err option) state" where
  "complete_attempt env ops attempt_id started status class provider_id provider_status usage finality = do {
     completed_at \<leftarrow> now_at env;
     ended \<leftarrow> now_at env;
     on_store (st_complete_provider_attempt ops
       \<lparr>af_id = attempt_id, af_completed_at = completed_at, af_status = status,
        af_provider_http_status = provider_status, af_error_class = class,
        af_duration = elapsed started ended, af_provider_request_id = provider_id,
        af_usage = usage, af_usage_finality = finality\<rparr>)
   }"

text \<open>
  \<open>if finish(...) != nil { return ledgerFailure() }; return result\<close>, which ends every branch.
\<close>

definition finish_with :: "('s world, err option) state \<Rightarrow> attempt_result \<Rightarrow> ('s world, attempt_result) state" where
  "finish_with completion result = do {
     e \<leftarrow> completion;
     State_Monad.return (if e \<noteq> None then ledger_failure else result)
   }"

text \<open>The common start of every attempt: an identifier and a ledger row, or no attempt at all.\<close>

definition begin_attempt ::
  "gateway_env \<Rightarrow> 's store_ops \<Rightarrow> string \<Rightarrow> route \<Rightarrow> int \<Rightarrow>
   (string \<Rightarrow> time \<Rightarrow> ('s world, attempt_result) state) \<Rightarrow> ('s world, attempt_result) state" where
  "begin_attempt env ops request_id rt number continue = do {
     aid \<leftarrow> ask (\<lambda>n. ge_new_id env n ''att'');
     case aid of
       Inl _ \<Rightarrow> State_Monad.return (failed_attempt False ''ledger_error'' 500 ''request attempt could not be initialised'')
     | Inr attempt_id \<Rightarrow> do {
         started \<leftarrow> now_at env;
         e \<leftarrow> on_store (st_create_provider_attempt ops
           \<lparr>as_id = attempt_id, as_inference_request_id = request_id, as_target_id = t_id (r_target rt),
            as_attempt_number = number, as_started_at = started\<rparr>);
         if e \<noteq> None
         then State_Monad.return (failed_attempt False ''ledger_error'' 503 ''request attempt could not be recorded'')
         else continue attempt_id started
       }
   }"

section \<open>The Bifrost attempt\<close>

definition chat_call :: "gateway_config \<Rightarrow> string \<Rightarrow> route \<Rightarrow> string \<Rightarrow> string \<Rightarrow> upstream_call" where
  "chat_call cfg request_id rt secret body =
     \<lparr>uc_url = t_base_url (r_target rt), uc_model = t_provider_model (r_target rt),
      uc_timeout = t_timeout (r_target rt), uc_allow_private = gc_allow_insecure_targets cfg,
      uc_secret = secret, uc_request_id = request_id, uc_accept = ''application/json'', uc_body = body\<rparr>"

definition bifrost_failure ::
  "gateway_env \<Rightarrow> (string \<Rightarrow> string \<Rightarrow> string \<Rightarrow> int \<Rightarrow> token_usage \<Rightarrow> string \<Rightarrow> ('s world, err option) state) \<Rightarrow>
   provider_error \<Rightarrow> ('s world, attempt_result) state" where
  "bifrost_failure env finish e =
     (case platform_usage (pe_billed_usage e) ''partial'' of
        (usage, finality) \<Rightarrow> do {
          let provider_id = safe_provider_id (pe_provider_request_id e);
          cancelled \<leftarrow> ask (ge_cancelled env);
          if cancelled
          then finish_with (finish ''cancelled'' ''client_cancelled'' provider_id (pe_status_code e) usage finality)
                 (client_cancelled\<lparr>ar_provider_id := provider_id\<rparr>)
          else do {
            deadline \<leftarrow> ask (ge_deadline env);
            if deadline
            then finish_with (finish ''failed'' ''upstream_timeout'' provider_id (pe_status_code e) usage finality)
                   ((failed_attempt True ''upstream_timeout'' 504 ''upstream inference timed out'')
                     \<lparr>ar_provider_id := provider_id\<rparr>)
            else do {
              let terminal = (classify_bifrost_error (Some e))\<lparr>ar_provider_id := provider_id\<rparr>;
              terminal \<leftarrow>
                (if pe_retry_after e \<noteq> [] then do {
                   now \<leftarrow> now_at env;
                   case parse_retry_after (ge_parse_time env) (pe_retry_after e) now of
                     (delay, is_set, header) \<Rightarrow> State_Monad.return (terminal
                       \<lparr>ar_retry_after := delay, ar_retry_after_set := is_set, ar_retry_after_header := header\<rparr>)
                 }
                 else State_Monad.return terminal);
              finish_with (finish ''failed'' (ar_class terminal) provider_id (pe_status_code e) usage finality) terminal
            }
          }
        })"

definition bifrost_reply ::
  "gateway_config \<Rightarrow> (string \<Rightarrow> string \<Rightarrow> string \<Rightarrow> int \<Rightarrow> token_usage \<Rightarrow> string \<Rightarrow> ('s world, err option) state) \<Rightarrow>
   engine_result option \<Rightarrow> ('s world, attempt_result) state" where
  "bifrost_reply cfg finish result =
     (case result of
        None \<Rightarrow>
          finish_with (finish ''failed'' ''invalid_upstream_response'' [] 200 zero_usage ''unknown'')
            (failed_attempt False ''invalid_upstream_response'' 502 ''upstream inference returned an invalid response'')
      | Some r \<Rightarrow>
          if int (length (er_body r)) > gc_max_response_bytes cfg
          then finish_with (finish ''failed'' ''upstream_response_too_large'' [] 200 zero_usage ''unknown'')
                 (failed_attempt False ''upstream_response_too_large'' 502
                   ''upstream inference response exceeded the configured limit'')
          else (case platform_usage (er_usage r) ''final'' of
                  (usage, finality) \<Rightarrow>
                    (let provider_id = safe_provider_id (er_provider_request_id r)
                     in finish_with (finish ''succeeded'' [] provider_id 200 usage finality)
                          (zero_result
                            \<lparr>ar_success := True, ar_body := er_body r, ar_model := safe_model (er_model r),
                             ar_provider_id := provider_id, ar_usage := usage, ar_finality := finality\<rparr>))))"

definition perform_bifrost_attempt ::
  "gateway_env \<Rightarrow> gateway_config \<Rightarrow> 's store_ops \<Rightarrow> string \<Rightarrow> route \<Rightarrow> string \<Rightarrow> string \<Rightarrow> int \<Rightarrow>
   ('s world, attempt_result) state" where
  "perform_bifrost_attempt env cfg ops request_id rt secret body number =
     begin_attempt env ops request_id rt number (\<lambda>attempt_id started. do {
       let finish = complete_attempt env ops attempt_id started;
       reply \<leftarrow> call_upstream (chat_call cfg request_id rt secret body) (ge_chat env);
       case reply of
         (result, Some e) \<Rightarrow> bifrost_failure env finish e
       | (result, None) \<Rightarrow> bifrost_reply cfg finish result
     })"

section \<open>The plain HTTP attempt\<close>

text \<open>
  \<open>io.ReadAll\<close> of a body limited to \<open>limit + 1\<close> bytes: the bytes, and whether the read failed before
  the limit was reached.
\<close>

definition read_limited :: "int \<Rightarrow> http_reply \<Rightarrow> string \<times> bool" where
  "read_limited limit reply =
     (let bytes = take (nat (limit + 1)) (hp_body reply)
      in (bytes, int (length (hp_body reply)) < limit + 1 \<and> hp_end reply \<noteq> BodyEOF))"

definition http_call :: "string \<Rightarrow> string \<Rightarrow> string \<Rightarrow> route \<Rightarrow> string \<Rightarrow> string \<Rightarrow> upstream_call" where
  "http_call endpoint accept request_id rt secret body =
     \<lparr>uc_url = endpoint, uc_model = t_provider_model (r_target rt), uc_timeout = t_timeout (r_target rt),
      uc_allow_private = False, uc_secret = secret, uc_request_id = request_id, uc_accept = accept, uc_body = body\<rparr>"

type_synonym 's finisher = "string \<Rightarrow> string \<Rightarrow> string \<Rightarrow> int \<Rightarrow> ('s world, err option) state"

definition configuration_failure :: attempt_result where
  "configuration_failure = failed_attempt False ''target_configuration'' 502 ''configured inference target is invalid''"

text \<open>The three-way end of a transport error: cancelled by the client, past the deadline, or neither.\<close>

definition transport_error ::
  "gateway_env \<Rightarrow> 's finisher \<Rightarrow> string \<Rightarrow> int \<Rightarrow> string \<times> attempt_result \<Rightarrow> ('s world, attempt_result) state" where
  "transport_error env finish provider_id status neither = do {
     cancelled \<leftarrow> ask (ge_cancelled env);
     if cancelled
     then finish_with (finish ''cancelled'' ''client_cancelled'' provider_id status)
            (client_cancelled\<lparr>ar_provider_id := provider_id\<rparr>)
     else do {
       deadline \<leftarrow> ask (ge_deadline env);
       if deadline
       then finish_with (finish ''failed'' ''upstream_timeout'' provider_id status)
              ((failed_attempt True ''upstream_timeout'' 504 ''upstream inference timed out'')
                \<lparr>ar_provider_id := provider_id\<rparr>)
       else finish_with (finish ''failed'' (fst neither) provider_id status)
              ((snd neither)\<lparr>ar_provider_id := provider_id\<rparr>)
     }
   }"

definition connection_failed :: "string \<times> attempt_result" where
  "connection_failed =
     (''upstream_transport'', failed_attempt True ''upstream_transport'' 502 ''upstream inference connection failed'')"

text \<open>A reply that is not 200: classified by its status, with the provider's \<open>Retry-After\<close> for 429 and 503.\<close>

definition refused_reply ::
  "gateway_env \<Rightarrow> 's finisher \<Rightarrow> string \<Rightarrow> http_reply \<Rightarrow> ('s world, attempt_result) state" where
  "refused_reply env finish provider_id reply = do {
     let result = (classify_provider_status (hp_status reply))\<lparr>ar_provider_id := provider_id\<rparr>;
     result \<leftarrow>
       (if hp_status reply = 429 \<or> hp_status reply = 503 then do {
          now \<leftarrow> now_at env;
          case parse_retry_after (ge_parse_time env) (header_get (hp_header reply) ''Retry-After'') now of
            (delay, is_set, header) \<Rightarrow> State_Monad.return (result
              \<lparr>ar_retry_after := delay, ar_retry_after_set := is_set, ar_retry_after_header := header\<rparr>)
        }
        else State_Monad.return result);
     finish_with (finish ''failed'' (ar_class result) provider_id (hp_status reply)) result
   }"

definition too_large :: "string \<Rightarrow> attempt_result" where
  "too_large provider_id =
     (failed_attempt False ''upstream_response_too_large'' 502
       ''upstream inference response exceeded the configured limit'')\<lparr>ar_provider_id := provider_id\<rparr>"

definition http_reply_result ::
  "gateway_env \<Rightarrow> gateway_config \<Rightarrow> 's finisher \<Rightarrow> http_reply \<Rightarrow> ('s world, attempt_result) state" where
  "http_reply_result env cfg finish reply =
     (let provider_id = safe_provider_id (header_get (hp_header reply) ''X-Generation-Id'')
      in case read_limited (gc_max_response_bytes cfg) reply of
           (body, failed) \<Rightarrow>
             if failed then
               transport_error env finish provider_id (hp_status reply)
                 (''invalid_upstream_response'', failed_attempt False ''invalid_upstream_response'' 502
                   ''upstream inference returned an incomplete response'')
             else if int (length body) > gc_max_response_bytes cfg then
               finish_with (finish ''failed'' ''upstream_response_too_large'' provider_id (hp_status reply))
                 (too_large provider_id)
             else if hp_status reply \<noteq> 200 then refused_reply env finish provider_id reply
             else (case parse_provider_response body of
                     None \<Rightarrow>
                       finish_with (finish ''failed'' ''invalid_upstream_response'' provider_id (hp_status reply))
                         ((failed_attempt False ''invalid_upstream_response'' 502
                            ''upstream inference returned an invalid response'')\<lparr>ar_provider_id := provider_id\<rparr>)
                   | Some meta \<Rightarrow>
                       (let provider_id = (if provider_id = [] then pm_provider_id meta else provider_id)
                        in finish_with (finish ''succeeded'' [] provider_id (hp_status reply))
                             (zero_result
                               \<lparr>ar_success := True, ar_body := body, ar_model := pm_model meta,
                                ar_provider_id := provider_id, ar_usage := pm_usage meta,
                                ar_finality := pm_finality meta\<rparr>))))"

definition perform_http_attempt ::
  "gateway_env \<Rightarrow> gateway_config \<Rightarrow> 's store_ops \<Rightarrow> string \<Rightarrow> route \<Rightarrow> string \<Rightarrow> string \<Rightarrow> int \<Rightarrow>
   ('s world, attempt_result) state" where
  "perform_http_attempt env cfg ops request_id rt secret body number =
     begin_attempt env ops request_id rt number (\<lambda>attempt_id started.
       (let finish = (\<lambda>status class provider_id provider_status.
              complete_attempt env ops attempt_id started status class provider_id provider_status zero_usage [])
        in case target_endpoint (ge_url env) (t_base_url (r_target rt)) (gc_allow_insecure_targets cfg) of
             None \<Rightarrow> finish_with (finish ''failed'' ''target_configuration'' [] 0) configuration_failure
           | Some endpoint \<Rightarrow>
               if url_parse (ge_url env) endpoint = None
               then finish_with (finish ''failed'' ''target_configuration'' [] 0) configuration_failure
               else do {
                 reply \<leftarrow> call_upstream (http_call endpoint ''application/json'' request_id rt secret body) (ge_do env);
                 case reply of
                   None \<Rightarrow> transport_error env finish [] 0 connection_failed
                 | Some r \<Rightarrow> http_reply_result env cfg finish r
               }))"

definition perform_attempt ::
  "gateway_env \<Rightarrow> gateway_config \<Rightarrow> 's store_ops \<Rightarrow> string \<Rightarrow> route \<Rightarrow> string \<Rightarrow> string \<Rightarrow> int \<Rightarrow>
   ('s world, attempt_result) state" where
  "perform_attempt env cfg ops request_id rt secret body number =
     (if \<not> gc_legacy_http cfg
      then perform_bifrost_attempt env cfg ops request_id rt secret body number
      else perform_http_attempt env cfg ops request_id rt secret body number)"

end
