(* ===== verification/Gateway_Stream.thy ===== *)
theory Gateway_Stream
  imports Gateway_Attempt
begin

text \<open>
  \<open>internal/gateway/stream.go\<close>: the server-sent-event frames of a provider's streaming reply, their
  validation, and one streaming attempt that forwards them downstream. The client-facing encoder of a
  protocol is the interface \<open>protocolStreamEncoder\<close>; \<open>None\<close> is the nil encoder of Chat Completions,
  which forwards the provider's bytes unchanged.
\<close>

section \<open>Frames\<close>

record sse_frame =
  sf_raw :: string
  sf_data :: string
  sf_has_data :: bool

datatype read_error = ReadEOF | ReadUnexpectedEOF | ReadFailed | UnsupportedField

text \<open>\<open>reader.ReadString\<close>: the text up to and including the next line feed, if there is one.\<close>

fun read_line :: "string \<Rightarrow> (string \<times> string) option" where
  "read_line [] = None"
| "read_line (c # s) =
     (if c = CHR 0x0A then Some ([c], s)
      else (case read_line s of None \<Rightarrow> None | Some (line, rest) \<Rightarrow> Some (c # line, rest)))"

lemma read_line_Some: "read_line s = Some (line, rest) \<Longrightarrow> s = line @ rest \<and> line \<noteq> [] \<and> last line = CHR 0x0A"
  by (induction s arbitrary: line) (auto split: if_splits option.splits)

definition trim_suffix :: "char \<Rightarrow> string \<Rightarrow> string" where
  "trim_suffix c s = (if s \<noteq> [] \<and> last s = c then butlast s else s)"

fun join_lines :: "string list \<Rightarrow> string" where
  "join_lines [] = []"
| "join_lines [l] = l"
| "join_lines (l # ls) = l @ [CHR 0x0A] @ join_lines ls"

definition data_part :: "string \<Rightarrow> string" where
  "data_part value = (let part = drop 5 value in if has_prefix '' '' part then drop 1 part else part)"

text \<open>
  \<open>read_sse_frame\<close>: \<open>fin\<close> is the error the reader reports at the end of the text; the result is the
  frame, the error (\<open>None\<close> for nil) and the unread text. \<open>raw\<close> and \<open>data\<close> are what the loop has
  collected.
\<close>

function read_sse_frame :: "read_error \<Rightarrow> string \<Rightarrow> string \<Rightarrow> string list \<Rightarrow> sse_frame \<times> read_error option \<times> string" where
  "read_sse_frame fin s raw data =
     (case read_line s of
        None \<Rightarrow> (\<lparr>sf_raw = raw @ s, sf_data = [], sf_has_data = False\<rparr>, Some fin, [])
      | Some (line, rest) \<Rightarrow>
          (let raw = raw @ line; value = trim_suffix CHR 0x0D (trim_suffix CHR 0x0A line)
           in if value = [] then (\<lparr>sf_raw = raw, sf_data = join_lines data, sf_has_data = data \<noteq> []\<rparr>, None, rest)
              else if has_prefix '':'' value then read_sse_frame fin rest raw data
              else if has_prefix ''data:'' value then read_sse_frame fin rest raw (data @ [data_part value])
              else (\<lparr>sf_raw = raw, sf_data = [], sf_has_data = False\<rparr>, Some UnsupportedField, rest)))"
  by pat_completeness auto
termination
  by (relation "measure (\<lambda>(fin, s, raw, data). length s)") (auto dest!: read_line_Some)

declare read_sse_frame.simps [simp del]

lemma read_sse_frame_raw:
  "read_sse_frame fin s raw data = (f, e, rest) \<Longrightarrow> raw @ s = sf_raw f @ rest \<and> (e = None \<longrightarrow> length rest < length s)"
proof (induction fin s raw data arbitrary: f rule: read_sse_frame.induct)
  case (1 fin s raw data)
  show ?case
  proof (cases "read_line s")
    case None
    with "1.prems" show ?thesis by (subst (asm) read_sse_frame.simps) auto
  next
    case (Some lr)
    obtain line rest' where lr: "lr = (line, rest')" by (cases lr)
    with Some have l: "s = line @ rest'" "line \<noteq> []" using read_line_Some by auto
    let ?v = "trim_suffix CHR 0x0D (trim_suffix CHR 0x0A line)"
    consider "?v = []" | "?v \<noteq> []" "has_prefix '':'' ?v" | "?v \<noteq> []" "\<not> has_prefix '':'' ?v" "has_prefix ''data:'' ?v"
      | "?v \<noteq> []" "\<not> has_prefix '':'' ?v" "\<not> has_prefix ''data:'' ?v" by blast
    then show ?thesis
    proof cases
      case 2
      with "1.prems" Some lr have "read_sse_frame fin rest' (raw @ line) data = (f, e, rest)"
        by (subst (asm) read_sse_frame.simps) (simp add: Let_def)
      from "1.IH"(1) [OF Some lr [symmetric] refl refl 2 this] l show ?thesis by auto
    next
      case 3
      with "1.prems" Some lr have "read_sse_frame fin rest' (raw @ line) (data @ [data_part ?v]) = (f, e, rest)"
        by (subst (asm) read_sse_frame.simps) (simp add: Let_def)
      from "1.IH"(2) [OF Some lr [symmetric] refl refl 3 this] l show ?thesis by auto
    qed (use "1.prems" Some lr l in \<open>subst (asm) read_sse_frame.simps, auto simp: Let_def\<close>)+
  qed
qed

text \<open>The frames the attempt's loop reads from a whole text, up to and including the one with an error.\<close>

function read_frames :: "read_error \<Rightarrow> string \<Rightarrow> (sse_frame \<times> read_error option) list" where
  "read_frames fin s =
     (case read_sse_frame fin s [] [] of
        (f, Some e, rest) \<Rightarrow> [(f, Some e)]
      | (f, None, rest) \<Rightarrow> (f, None) # read_frames fin rest)"
  by pat_completeness auto
termination
  by (relation "measure (\<lambda>(fin, s). length s)") (auto dest!: read_sse_frame_raw [OF sym])

declare read_frames.simps [simp del]

section \<open>Stream state\<close>

record stream_state =
  ss_model :: string
  ss_provider_id :: string
  ss_usage :: token_usage
  ss_finality :: string
  ss_saw_choice :: bool
  ss_saw_finish :: bool

record stream_chunk =
  sc_id :: string
  sc_model :: string
  sc_choices :: "json option"
  sc_usage :: "provider_usage option"
  sc_error :: "json option"

record stream_choice =
  so_index :: int
  so_delta :: "json option"
  so_finish_reason :: "json option"

record stream_delta =
  sd_role :: string
  sd_content :: "json option"
  sd_tool_calls :: "json option"

record tool_call_delta =
  cd_index :: int
  cd_id :: string
  cd_type :: string
  cd_function :: "tool_function option"

definition stream_chunk_fields :: "stream_chunk field list" where
  "stream_chunk_fields =
     [field_of ''id'' decode_string sc_id sc_id_update,
      field_of ''model'' decode_string sc_model sc_model_update,
      field_of ''choices'' decode_raw sc_choices sc_choices_update,
      field_of ''usage'' decode_provider_usage sc_usage sc_usage_update,
      field_of ''error'' decode_raw sc_error sc_error_update]"

definition stream_choice_fields :: "stream_choice field list" where
  "stream_choice_fields =
     [field_of ''index'' decode_int so_index so_index_update,
      field_of ''delta'' decode_raw so_delta so_delta_update,
      field_of ''finish_reason'' decode_raw so_finish_reason so_finish_reason_update]"

definition stream_delta_fields :: "stream_delta field list" where
  "stream_delta_fields =
     [field_of ''role'' decode_string sd_role sd_role_update,
      field_of ''content'' decode_raw sd_content sd_content_update,
      field_of ''tool_calls'' decode_raw sd_tool_calls sd_tool_calls_update]"

definition decode_tool_function_ptr :: "json \<Rightarrow> tool_function option \<Rightarrow> decode_error + tool_function option" where
  "decode_tool_function_ptr v old =
     (case v of
        JNull \<Rightarrow> Inr None
      | _ \<Rightarrow>
          (case decode_struct False tool_function_fields v
                  (case old of None \<Rightarrow> \<lparr>tf_name = [], tf_arguments = []\<rparr> | Some f \<Rightarrow> f) of
             Inl e \<Rightarrow> Inl e
           | Inr f \<Rightarrow> Inr (Some f)))"

definition tool_call_delta_fields :: "tool_call_delta field list" where
  "tool_call_delta_fields =
     [field_of ''index'' decode_int cd_index cd_index_update,
      field_of ''id'' decode_string cd_id cd_id_update,
      field_of ''type'' decode_string cd_type cd_type_update,
      field_of ''function'' decode_tool_function_ptr cd_function cd_function_update]"

text \<open>\<open>len(raw) != 0 && !bytes.Equal(bytes.TrimSpace(raw), []byte("null"))\<close>\<close>

definition present :: "json option \<Rightarrow> bool" where
  "present raw \<longleftrightarrow> raw \<noteq> None \<and> raw \<noteq> Some JNull"

definition valid_tool_call_delta :: "tool_call_delta \<Rightarrow> bool" where
  "valid_tool_call_delta call \<longleftrightarrow>
     \<not> (cd_index call < 0 \<or> (cd_id call \<noteq> [] \<and> \<not> valid_tool_call_id (cd_id call)) \<or>
        (cd_type call \<noteq> [] \<and> cd_type call \<noteq> ''function'')) \<and>
     (case cd_function call of
        None \<Rightarrow> True
      | Some f \<Rightarrow> tf_name f = [] \<or> valid_tool_name (tf_name f))"

text \<open>\<open>True\<close> is the nil error.\<close>

definition is_text :: "json option \<Rightarrow> bool" where
  "is_text raw = (case raw of Some (JString _) \<Rightarrow> True | _ \<Rightarrow> False)"

definition validate_stream_delta :: "json \<Rightarrow> bool" where
  "validate_stream_delta raw =
     (case decode_struct False stream_delta_fields raw \<lparr>sd_role = [], sd_content = None, sd_tool_calls = None\<rparr> of
        Inl _ \<Rightarrow> False
      | Inr delta \<Rightarrow>
          if sd_role delta \<noteq> [] \<and> sd_role delta \<noteq> ''assistant'' then False
          else if present (sd_content delta) \<and> \<not> is_text (sd_content delta) then False
          else if \<not> present (sd_tool_calls delta) then True
          else (case decode_slice (decode_struct False tool_call_delta_fields)
                       \<lparr>cd_index = 0, cd_id = [], cd_type = [], cd_function = None\<rparr> (the (sd_tool_calls delta)) [] of
                  Inl _ \<Rightarrow> False
                | Inr calls \<Rightarrow>
                    calls \<noteq> [] \<and> int (length calls) \<le> max_tool_calls \<and> list_all valid_tool_call_delta calls))"

definition valid_finish_reason :: "json \<Rightarrow> bool" where
  "valid_finish_reason raw \<longleftrightarrow> raw \<in> {JString ''stop'', JString ''length'', JString ''tool_calls''}"

fun consume_choices :: "stream_choice list \<Rightarrow> stream_state \<Rightarrow> stream_state \<times> bool" where
  "consume_choices [] state = (state, True)"
| "consume_choices (choice # choices) state =
     (if present (so_delta choice) \<and> \<not> validate_stream_delta (the (so_delta choice)) then (state, False)
      else if present (so_finish_reason choice) then
        (if \<not> valid_finish_reason (the (so_finish_reason choice)) then (state, False)
         else consume_choices choices (state\<lparr>ss_saw_finish := True\<rparr>))
      else consume_choices choices state)"

definition consume_usage :: "provider_usage option \<Rightarrow> stream_state \<Rightarrow> stream_state \<times> bool" where
  "consume_usage usage state =
     (case usage of
        None \<Rightarrow> (state, True)
      | Some u \<Rightarrow>
          if \<not> ss_saw_choice state then (state, False)
          else (case parse_provider_usage (Some u) of
                  None \<Rightarrow> (state, False)
                | Some (tokens, finality) \<Rightarrow> (state\<lparr>ss_usage := tokens, ss_finality := finality\<rparr>, True)))"

definition consume_chunk :: "stream_chunk \<Rightarrow> stream_state \<Rightarrow> stream_state \<times> bool" where
  "consume_chunk chunk state =
     (if present (sc_error chunk) then (state, False)
      else
        let state = (if safe_provider_id (sc_id chunk) \<noteq> []
                     then state\<lparr>ss_provider_id := safe_provider_id (sc_id chunk)\<rparr> else state);
            state = (if safe_model (sc_model chunk) \<noteq> []
                     then state\<lparr>ss_model := safe_model (sc_model chunk)\<rparr> else state)
        in case consume_usage (sc_usage chunk) state of
             (state, False) \<Rightarrow> (state, False)
           | (state, True) \<Rightarrow>
               (case sc_choices chunk of
                  None \<Rightarrow> (state, sc_usage chunk \<noteq> None)
                | Some raw \<Rightarrow>
                    (case decode_slice (decode_struct False stream_choice_fields)
                            \<lparr>so_index = 0, so_delta = None, so_finish_reason = None\<rparr> raw [] of
                       Inl _ \<Rightarrow> (state, False)
                     | Inr choices \<Rightarrow>
                         if int (length choices) > max_messages then (state, False)
                         else if choices = [] then (state, sc_usage chunk \<noteq> None)
                         else consume_choices choices (state\<lparr>ss_saw_choice := True\<rparr>))))"

text \<open>The state after a data frame, and whether it was accepted.\<close>

definition consume :: "string \<Rightarrow> stream_state \<Rightarrow> stream_state \<times> bool" where
  "consume data state =
     (case json_decode data of
        None \<Rightarrow> (state, False)
      | Some v \<Rightarrow>
          (case decode_struct False stream_chunk_fields v
                  \<lparr>sc_id = [], sc_model = [], sc_choices = None, sc_usage = None, sc_error = None\<rparr> of
             Inl _ \<Rightarrow> (state, False)
           | Inr chunk \<Rightarrow> consume_chunk chunk state))"

section \<open>Writing downstream\<close>

text \<open>
  The first attempted write commits the response, before it is known to succeed. Of a write that
  fails only the implicit header is recorded. \<open>True\<close> is the nil error.
\<close>

definition sink_write :: "gateway_env \<Rightarrow> string \<Rightarrow> ('s world, bool) state" where
  "sink_write env body =
     (if body = [] then State_Monad.return True
      else do {
        State_Monad.update (\<lambda>w.
          if w_committed w then w
          else w\<lparr>w_committed := True, w_writer :=
            set_header ''X-Accel-Buffering'' ''no''
              (set_header ''Cache-Control'' ''no-store''
                (set_header ''Content-Type'' ''text/event-stream; charset=utf-8'' (w_writer w)))\<rparr>);
        fails \<leftarrow> ask (ge_write_fails env);
        if fails then do { respond (write_header 200); State_Monad.return False }
        else do { respond (write_payload (Bytes body)); State_Monad.return True }
      })"

section \<open>One streaming attempt\<close>

record 'e stream_encoder =
  se_encode :: "'e \<Rightarrow> string \<Rightarrow> (string \<times> 'e) option"
  se_finish :: "'e \<Rightarrow> stream_state \<Rightarrow> string option"

definition invalid_stream :: "string \<Rightarrow> string \<Rightarrow> attempt_result" where
  "invalid_stream provider_id msg =
     (failed_attempt False ''invalid_upstream_response'' 502 msg)\<lparr>ar_provider_id := provider_id\<rparr>"

definition stream_read_failure ::
  "gateway_env \<Rightarrow> 's finisher \<Rightarrow> stream_state \<Rightarrow> int \<Rightarrow> read_error \<Rightarrow> ('s world, attempt_result) state" where
  "stream_read_failure env finish state status e = do {
     let provider_id = ss_provider_id state;
     cancelled \<leftarrow> ask (ge_cancelled env);
     if cancelled
     then finish_with (finish ''cancelled'' ''client_cancelled'' provider_id status)
            (client_cancelled\<lparr>ar_provider_id := provider_id\<rparr>)
     else do {
       deadline \<leftarrow> ask (ge_deadline env);
       w \<leftarrow> State_Monad.get;
       if deadline
       then finish_with (finish ''failed'' ''upstream_timeout'' provider_id status)
              ((failed_attempt (\<not> w_committed w) ''upstream_timeout'' 504 ''upstream inference timed out'')
                \<lparr>ar_provider_id := provider_id\<rparr>)
       else if e \<noteq> ReadEOF \<and> e \<noteq> ReadUnexpectedEOF
       then finish_with (finish ''failed'' ''invalid_upstream_response'' provider_id status)
              (invalid_stream provider_id ''upstream inference returned an invalid streaming response'')
       else finish_with (finish ''failed'' ''upstream_transport'' provider_id status)
              ((failed_attempt (\<not> w_committed w) ''upstream_transport'' 502
                 ''upstream inference stream ended before completion'')\<lparr>ar_provider_id := provider_id\<rparr>)
     }
   }"

definition stream_write_failure :: "'s finisher \<Rightarrow> stream_state \<Rightarrow> int \<Rightarrow> ('s world, attempt_result) state" where
  "stream_write_failure finish state status =
     finish_with (finish ''cancelled'' ''client_cancelled'' (ss_provider_id state) status)
       (client_cancelled\<lparr>ar_provider_id := ss_provider_id state\<rparr>)"

definition stream_invalid :: "'s finisher \<Rightarrow> stream_state \<Rightarrow> int \<Rightarrow> string \<Rightarrow> ('s world, attempt_result) state" where
  "stream_invalid finish state status msg =
     finish_with (finish ''failed'' ''invalid_upstream_response'' (ss_provider_id state) status)
       (invalid_stream (ss_provider_id state) msg)"

text \<open>The terminal frame \<open>[DONE]\<close>.\<close>

definition stream_done ::
  "gateway_env \<Rightarrow> 's finisher \<Rightarrow> 'e stream_encoder option \<Rightarrow> 'e \<Rightarrow> int \<Rightarrow> stream_state \<Rightarrow> string \<Rightarrow> string \<Rightarrow>
   ('s world, attempt_result) state" where
  "stream_done env finish encoder enc status state held raw =
     (if \<not> ss_saw_choice state \<or> \<not> ss_saw_finish state
      then stream_invalid finish state status ''upstream inference stream ended without a terminal choice''
      else (case (case encoder of None \<Rightarrow> Some raw | Some ops \<Rightarrow> se_finish ops enc state) of
              None \<Rightarrow> stream_invalid finish state status
                ''upstream inference stream could not be represented in the requested API''
            | Some translated \<Rightarrow> do {
                ok \<leftarrow> sink_write env (held @ translated);
                if \<not> ok then stream_write_failure finish state status
                else finish_with (finish ''succeeded'' [] (ss_provider_id state) status)
                       (zero_result
                         \<lparr>ar_success := True, ar_model := ss_model state, ar_provider_id := ss_provider_id state,
                          ar_usage := ss_usage state, ar_finality := ss_finality state\<rparr>)
              }))"

text \<open>
  The frame loop; the encoder's state comes back with the result because a retry continues with the
  same encoder. The list of frames ends with the one whose read failed, so the loop returns before it
  is empty.
\<close>

primrec stream_frames ::
  "gateway_env \<Rightarrow> gateway_config \<Rightarrow> 's finisher \<Rightarrow> 'e stream_encoder option \<Rightarrow> int \<Rightarrow>
   (sse_frame \<times> read_error option) list \<Rightarrow> stream_state \<Rightarrow> string \<Rightarrow> int \<Rightarrow> 'e \<Rightarrow>
   ('s world, attempt_result \<times> 'e) state" where
  "stream_frames env cfg finish encoder status [] state held read_bytes enc = State_Monad.return (zero_result, enc)"
| "stream_frames env cfg finish encoder status (fe # fs) state held read_bytes enc =
     (let f = fst fe; read_bytes = read_bytes + int (length (sf_raw f));
          stop = (\<lambda>m enc. do { r \<leftarrow> m; State_Monad.return (r, enc) })
      in if read_bytes > gc_max_response_bytes cfg
         then stop (finish_with (finish ''failed'' ''upstream_response_too_large'' (ss_provider_id state) status)
                (too_large (ss_provider_id state))) enc
         else (case snd fe of
                 Some e \<Rightarrow> stop (stream_read_failure env finish state status e) enc
               | None \<Rightarrow>
                   if \<not> sf_has_data f
                   then stream_frames env cfg finish encoder status fs state
                          (case encoder of None \<Rightarrow> held @ sf_raw f | Some _ \<Rightarrow> held) read_bytes enc
                   else if sf_data f = ''[DONE]''
                   then stop (stream_done env finish encoder enc status state held (sf_raw f)) enc
                   else (case consume (sf_data f) state of
                           (state, ok) \<Rightarrow>
                             if \<not> ok
                             then stop (stream_invalid finish state status
                                    ''upstream inference returned an invalid streaming response'') enc
                             else (case (case encoder of
                                           None \<Rightarrow> Some (sf_raw f, enc)
                                         | Some ops \<Rightarrow> se_encode ops enc (sf_data f)) of
                                     None \<Rightarrow> stop (stream_invalid finish state status
                                       ''upstream inference stream could not be represented in the requested API'') enc
                                   | Some (translated, enc) \<Rightarrow> do {
                                       ok \<leftarrow> sink_write env (held @ translated);
                                       if \<not> ok then stop (stream_write_failure finish state status) enc
                                       else stream_frames env cfg finish encoder status fs state [] read_bytes enc
                                     }))))"

text \<open>The text the frame reader sees: the body behind a limit of \<open>maxResponseBytes+1\<close> bytes.\<close>

definition limited_text :: "int \<Rightarrow> http_reply \<Rightarrow> string" where
  "limited_text limit reply = take (nat (limit + 1)) (hp_body reply)"

definition limited_end :: "int \<Rightarrow> http_reply \<Rightarrow> read_error" where
  "limited_end limit reply =
     (if int (length (hp_body reply)) \<ge> limit + 1 then ReadEOF
      else case hp_end reply of BodyEOF \<Rightarrow> ReadEOF | BodyUnexpectedEOF \<Rightarrow> ReadUnexpectedEOF | BodyFailed \<Rightarrow> ReadFailed)"

definition stream_reply ::
  "gateway_env \<Rightarrow> gateway_config \<Rightarrow> 's finisher \<Rightarrow> 'e stream_encoder option \<Rightarrow> http_reply \<Rightarrow> 'e \<Rightarrow>
   ('s world, attempt_result \<times> 'e) state" where
  "stream_reply env cfg finish encoder reply enc =
     (let provider_id = safe_provider_id (header_get (hp_header reply) ''X-Generation-Id'');
          stop = (\<lambda>m. do { r \<leftarrow> m; State_Monad.return (r, enc) })
      in if hp_status reply \<noteq> 200 then
           (case read_limited (gc_max_response_bytes cfg) reply of
              (body, failed) \<Rightarrow>
                stop (if failed then transport_error env finish provider_id (hp_status reply) connection_failed
                      else if int (length body) > gc_max_response_bytes cfg
                      then finish_with (finish ''failed'' ''upstream_response_too_large'' provider_id (hp_status reply))
                             (too_large provider_id)
                      else refused_reply env finish provider_id reply))
         else if ge_media_type env (header_get (hp_header reply) ''Content-Type'') \<noteq> Some ''text/event-stream'' then
           stop (finish_with (finish ''failed'' ''invalid_upstream_response'' provider_id (hp_status reply))
                  (invalid_stream provider_id ''upstream inference returned an invalid streaming response''))
         else
           stream_frames env cfg finish encoder (hp_status reply)
             (read_frames (limited_end (gc_max_response_bytes cfg) reply) (limited_text (gc_max_response_bytes cfg) reply))
             \<lparr>ss_model = [], ss_provider_id = provider_id, ss_usage = zero_usage, ss_finality = ''unknown'',
              ss_saw_choice = False, ss_saw_finish = False\<rparr> [] 0 enc)"

definition begin_stream_attempt ::
  "gateway_env \<Rightarrow> 's store_ops \<Rightarrow> string \<Rightarrow> route \<Rightarrow> int \<Rightarrow> 'e \<Rightarrow>
   (string \<Rightarrow> time \<Rightarrow> ('s world, attempt_result \<times> 'e) state) \<Rightarrow> ('s world, attempt_result \<times> 'e) state" where
  "begin_stream_attempt env ops request_id rt number enc continue = do {
     aid \<leftarrow> ask (\<lambda>n. ge_new_id env n ''att'');
     case aid of
       Inl _ \<Rightarrow> State_Monad.return
         (failed_attempt False ''ledger_error'' 500 ''request attempt could not be initialised'', enc)
     | Inr attempt_id \<Rightarrow> do {
         started \<leftarrow> now_at env;
         e \<leftarrow> on_store (st_create_provider_attempt ops
           \<lparr>as_id = attempt_id, as_inference_request_id = request_id, as_target_id = t_id (r_target rt),
            as_attempt_number = number, as_started_at = started\<rparr>);
         if e \<noteq> None
         then State_Monad.return
           (failed_attempt False ''ledger_error'' 503 ''request attempt could not be recorded'', enc)
         else continue attempt_id started
       }
   }"

definition perform_streaming_attempt ::
  "gateway_env \<Rightarrow> gateway_config \<Rightarrow> 's store_ops \<Rightarrow> string \<Rightarrow> route \<Rightarrow> string \<Rightarrow> string \<Rightarrow> int \<Rightarrow>
   'e stream_encoder option \<Rightarrow> 'e \<Rightarrow> ('s world, attempt_result \<times> 'e) state" where
  "perform_streaming_attempt env cfg ops request_id rt secret body number encoder enc =
     begin_stream_attempt env ops request_id rt number enc (\<lambda>attempt_id started.
       (let finish = (\<lambda>status class provider_id provider_status.
              complete_attempt env ops attempt_id started status class provider_id provider_status zero_usage []);
            stop = (\<lambda>m. do { r \<leftarrow> m; State_Monad.return (r, enc) })
        in case target_endpoint (ge_url env) (t_base_url (r_target rt)) (gc_allow_insecure_targets cfg) of
             None \<Rightarrow> stop (finish_with (finish ''failed'' ''target_configuration'' [] 0) configuration_failure)
           | Some endpoint \<Rightarrow>
               if url_parse (ge_url env) endpoint = None
               then stop (finish_with (finish ''failed'' ''target_configuration'' [] 0) configuration_failure)
               else do {
                 reply \<leftarrow> call_upstream (http_call endpoint ''text/event-stream'' request_id rt secret body) (ge_do env);
                 case reply of
                   None \<Rightarrow> stop (transport_error env finish [] 0 connection_failed)
                 | Some r \<Rightarrow> stream_reply env cfg finish encoder r enc
               }))"

end
