(* ===== verification/Gateway_Encoders.thy ===== *)
theory Gateway_Encoders
  imports Gateway_Responses Gateway_Stream
begin

text \<open>
  \<open>internal/gateway/protocol_stream.go\<close>: the encoders that turn a provider's chat completion stream into
  a Responses or an Anthropic event stream. An encoder's methods change its state and return the bytes
  of the events they emit; here they return the events, and \<open>render_events\<close> is the bytes. The payloads
  consist of strings, integers and objects, which \<open>json.Marshal\<close> never refuses.
\<close>

section \<open>Events\<close>

type_synonym sse_event = "string \<times> json"

definition newline :: char where
  "newline = CHR 0x0A"

definition render_event :: "sse_event \<Rightarrow> string" where
  "render_event e = ''event: '' @ fst e @ [newline] @ ''data: '' @ json_print (snd e) @ [newline, newline]"

definition render_events :: "sse_event list \<Rightarrow> string" where
  "render_events es = concat (map render_event es)"

section \<open>Reading a chunk\<close>

record translated_delta =
  vd_role :: string
  vd_content :: "string option"
  vd_tool_calls :: "tool_call_delta list"

definition zero_call_delta :: tool_call_delta where
  "zero_call_delta = \<lparr>cd_index = 0, cd_id = [], cd_type = [], cd_function = None\<rparr>"

definition translated_delta_fields :: "translated_delta field list" where
  "translated_delta_fields =
     [field_of ''role'' decode_string vd_role vd_role_update,
      field_of ''content'' decode_string_ptr vd_content vd_content_update,
      field_of ''tool_calls'' (decode_slice (decode_struct False tool_call_delta_fields) zero_call_delta)
        vd_tool_calls vd_tool_calls_update]"

definition zero_stream_chunk :: stream_chunk where
  "zero_stream_chunk = \<lparr>sc_id = [], sc_model = [], sc_choices = None, sc_usage = None, sc_error = None\<rparr>"

definition zero_stream_choice :: stream_choice where
  "zero_stream_choice = \<lparr>so_index = 0, so_delta = None, so_finish_reason = None\<rparr>"

definition zero_translated_delta :: translated_delta where
  "zero_translated_delta = \<lparr>vd_role = [], vd_content = None, vd_tool_calls = []\<rparr>"

text \<open>\<open>None\<close> is an error. \<open>spell\<close> is the text of a raw message as it was received.\<close>

definition decode_translated_stream_chunk ::
  "(json \<Rightarrow> string) \<Rightarrow> string \<Rightarrow> (stream_chunk \<times> stream_choice \<times> translated_delta) option" where
  "decode_translated_stream_chunk spell data =
     (case decode_one_json stream_chunk_fields zero_stream_chunk data of
        Inl _ \<Rightarrow> None
      | Inr chunk \<Rightarrow>
          if sc_choices chunk = None \<or> map_option spell (sc_choices chunk) = Some ''[]'' then
            (if sc_usage chunk \<noteq> None then Some (chunk, zero_stream_choice, zero_translated_delta) else None)
          else (case decode_slice (decode_struct False stream_choice_fields) zero_stream_choice (the (sc_choices chunk)) [] of
                  Inl _ \<Rightarrow> None
                | Inr choices \<Rightarrow>
                    if length choices \<noteq> 1 \<or> so_index (hd choices) \<noteq> 0 then None
                    else if present (so_delta (hd choices)) then
                      (case decode_struct False translated_delta_fields (the (so_delta (hd choices))) zero_translated_delta of
                         Inl _ \<Rightarrow> None
                       | Inr delta \<Rightarrow> Some (chunk, hd choices, delta))
                    else Some (chunk, hd choices, zero_translated_delta)))"

text \<open>The finish reason after a choice: unchanged without one, \<open>None\<close> when it is not a string.\<close>

definition next_finish_reason :: "stream_choice \<Rightarrow> string \<Rightarrow> string option" where
  "next_finish_reason choice reason =
     (if \<not> present (so_finish_reason choice) then Some reason
      else case the (so_finish_reason choice) of JString r \<Rightarrow> Some r | _ \<Rightarrow> None)"

record translated_tool =
  vt_index :: int
  vt_output_index :: int
  vt_item_id :: string
  vt_call_id :: string
  vt_name :: string
  vt_namespace :: string
  vt_arguments :: string
  vt_block_index :: int

section \<open>The Responses encoder\<close>

record responses_encoder =
  re_request_id :: string
  re_public_model :: string
  re_created_at :: int
  re_response_id :: string
  re_sequence :: int
  re_started :: bool
  re_text_started :: bool
  re_text_output_index :: int
  re_text_item_id :: string
  re_text :: string
  re_tools :: "(int, translated_tool) go_map"
  re_aliases :: "(string, responses_tool_identity) go_map"
  re_next_output_index :: int
  re_finish_reason :: string

definition new_responses_encoder ::
  "string \<Rightarrow> string \<Rightarrow> int \<Rightarrow> (string, responses_tool_identity) go_map \<Rightarrow> responses_encoder" where
  "new_responses_encoder request_id public_model now aliases =
     \<lparr>re_request_id = request_id, re_public_model = public_model, re_created_at = now, re_response_id = [],
      re_sequence = 0, re_started = False, re_text_started = False, re_text_output_index = 0,
      re_text_item_id = [], re_text = [], re_tools = [], re_aliases = aliases, re_next_output_index = 0,
      re_finish_reason = []\<rparr>"

type_synonym responses_output = "sse_event list \<times> responses_encoder"

definition responses_emit :: "string \<Rightarrow> (string \<times> json) list \<Rightarrow> responses_output \<Rightarrow> responses_output" where
  "responses_emit kind payload oe =
     (let e = (snd oe)\<lparr>re_sequence := re_sequence (snd oe) + 1\<rparr>
      in (fst oe @ [(kind, json_map (payload @
            [(''type'', JString kind), (''sequence_number'', json_int (re_sequence e))]))], e))"

definition encoder_response :: "responses_encoder \<Rightarrow> string \<Rightarrow> json \<Rightarrow> json list \<Rightarrow> json \<Rightarrow> json" where
  "encoder_response e status incomplete output usage =
     response_object (re_response_id e) (re_created_at e) status incomplete (re_public_model e) output usage"

definition responses_start :: "stream_chunk \<Rightarrow> responses_output \<Rightarrow> responses_output" where
  "responses_start chunk oe =
     (if re_started (snd oe) then oe
      else
        let id = safe_provider_id (sc_id chunk);
            e = (snd oe)\<lparr>re_started := True, re_response_id := (if id = [] then re_request_id (snd oe) else id)\<rparr>;
            base = encoder_response e ''in_progress'' JNull [] JNull
        in responses_emit ''response.in_progress'' [(''response'', base)]
             (responses_emit ''response.created'' [(''response'', base)] (fst oe, e)))"

definition text_part_of :: "responses_encoder \<Rightarrow> (string \<times> json) list" where
  "text_part_of e =
     [(''item_id'', JString (re_text_item_id e)), (''output_index'', json_int (re_text_output_index e)),
      (''content_index'', json_int 0)]"

definition responses_open_text :: "responses_output \<Rightarrow> responses_output" where
  "responses_open_text oe =
     (if re_text_started (snd oe) then oe
      else
        let e = (snd oe)\<lparr>re_text_started := True, re_text_output_index := re_next_output_index (snd oe),
                         re_next_output_index := re_next_output_index (snd oe) + 1,
                         re_text_item_id := ''msg_'' @ re_request_id (snd oe)\<rparr>
        in responses_emit ''response.content_part.added'' (text_part_of e @ [(''part'', output_text_part [])])
             (responses_emit ''response.output_item.added''
               [(''output_index'', json_int (re_text_output_index e)),
                (''item'', message_item (re_text_item_id e) ''in_progress'' [])]
               (fst oe, e)))"

definition responses_text :: "string option \<Rightarrow> responses_output \<Rightarrow> responses_output" where
  "responses_text content oe =
     (if content = None \<or> content = Some [] then oe
      else
        let oe = responses_open_text oe;
            e = (snd oe)\<lparr>re_text := re_text (snd oe) @ the content\<rparr>
        in responses_emit ''response.output_text.delta'' (text_part_of e @ [(''delta'', JString (the content))]) (fst oe, e))"

definition tool_namespace :: "translated_tool \<Rightarrow> string option" where
  "tool_namespace t = (if vt_namespace t = [] then None else Some (vt_namespace t))"

definition responses_tool_item :: "translated_tool \<Rightarrow> string \<Rightarrow> string \<Rightarrow> json" where
  "responses_tool_item t arguments status =
     function_call_item (vt_item_id t) (vt_call_id t) (vt_name t) (tool_namespace t) arguments status"

definition put_tool :: "translated_tool \<Rightarrow> responses_encoder \<Rightarrow> responses_encoder" where
  "put_tool t e = e\<lparr>re_tools := AList.update (vt_index t) t (re_tools e)\<rparr>"

text \<open>The entry of a call's tool: opened by the first delta, checked against by the later ones.\<close>

definition responses_open_tool :: "tool_call_delta \<Rightarrow> responses_output \<Rightarrow> (translated_tool \<times> responses_output) option" where
  "responses_open_tool call oe =
     (case map_of (re_tools (snd oe)) (cd_index call) of
        None \<Rightarrow>
          (case cd_function call of
             None \<Rightarrow> None
           | Some f \<Rightarrow>
               if \<not> valid_tool_call_id (cd_id call) \<or> \<not> valid_tool_name (tf_name f) then None
               else
                 let e = snd oe; public = responses_function_call (re_aliases e) (tf_name f);
                     t = \<lparr>vt_index = cd_index call, vt_output_index = re_next_output_index e,
                          vt_item_id = function_call_id (re_request_id e) (cd_index call), vt_call_id = cd_id call,
                          vt_name = fst public,
                          vt_namespace = (case snd public of None \<Rightarrow> [] | Some ns \<Rightarrow> ns),
                          vt_arguments = [], vt_block_index = 0\<rparr>;
                     e = put_tool t (e\<lparr>re_next_output_index := re_next_output_index e + 1\<rparr>)
                 in Some (t, responses_emit ''response.output_item.added''
                      [(''output_index'', json_int (vt_output_index t)),
                       (''item'', responses_tool_item t [] ''in_progress'')] (fst oe, e)))
      | Some t \<Rightarrow>
          if cd_id call \<noteq> [] \<and> cd_id call \<noteq> vt_call_id t then None
          else (case cd_function call of
                  Some f \<Rightarrow>
                    if tf_name f \<noteq> [] \<and> fst (responses_function_call (re_aliases (snd oe)) (tf_name f)) \<noteq> vt_name t
                    then None else Some (t, oe)
                | None \<Rightarrow> Some (t, oe)))"

definition call_arguments :: "tool_call_delta \<Rightarrow> string" where
  "call_arguments call = (case cd_function call of None \<Rightarrow> [] | Some f \<Rightarrow> tf_arguments f)"

definition responses_call :: "tool_call_delta \<Rightarrow> responses_output \<Rightarrow> responses_output option" where
  "responses_call call oe =
     (case responses_open_tool call oe of
        None \<Rightarrow> None
      | Some (t, oe) \<Rightarrow>
          if call_arguments call = [] then Some oe
          else
            let t = t\<lparr>vt_arguments := vt_arguments t @ call_arguments call\<rparr>
            in Some (responses_emit ''response.function_call_arguments.delta''
                 [(''item_id'', JString (vt_item_id t)), (''output_index'', json_int (vt_output_index t)),
                  (''delta'', JString (call_arguments call))] (fst oe, put_tool t (snd oe))))"

fun responses_calls :: "tool_call_delta list \<Rightarrow> responses_output \<Rightarrow> responses_output option" where
  "responses_calls [] oe = Some oe"
| "responses_calls (call # calls) oe =
     (case responses_call call oe of None \<Rightarrow> None | Some oe \<Rightarrow> responses_calls calls oe)"

definition responses_encode ::
  "(json \<Rightarrow> string) \<Rightarrow> responses_encoder \<Rightarrow> string \<Rightarrow> responses_output option" where
  "responses_encode spell e data =
     (case decode_translated_stream_chunk spell data of
        None \<Rightarrow> None
      | Some (chunk, choice, delta) \<Rightarrow>
          (case responses_start chunk ([], e) of
             (out, e) \<Rightarrow>
               (case next_finish_reason choice (re_finish_reason e) of
                  None \<Rightarrow> None
                | Some reason \<Rightarrow>
                    responses_calls (vd_tool_calls delta)
                      (responses_text (vd_content delta) (out, e\<lparr>re_finish_reason := reason\<rparr>)))))"

text \<open>The closing events of the text and of the tools, and the items of the final response.\<close>

definition responses_close_text :: "responses_output \<Rightarrow> responses_output \<times> (int \<times> json) list" where
  "responses_close_text oe =
     (let e = snd oe
      in if \<not> re_text_started e then (oe, [])
         else
           let part = output_text_part (re_text e);
               item = message_item (re_text_item_id e) ''completed'' [part]
           in (responses_emit ''response.output_item.done''
                 [(''output_index'', json_int (re_text_output_index e)), (''item'', item)]
                 (responses_emit ''response.content_part.done'' (text_part_of e @ [(''part'', part)])
                   (responses_emit ''response.output_text.done'' (text_part_of e @ [(''text'', JString (re_text e))]) oe)),
               [(re_text_output_index e, item)]))"

fun responses_close_tools ::
  "translated_tool list \<Rightarrow> responses_output \<Rightarrow> (int \<times> json) list \<Rightarrow> (responses_output \<times> (int \<times> json) list) option" where
  "responses_close_tools [] oe items = Some (oe, items)"
| "responses_close_tools (t # ts) oe items =
     (if \<not> valid_json_object_string (vt_arguments t) then None
      else
        let item = responses_tool_item t (vt_arguments t) ''completed''
        in responses_close_tools ts
             (responses_emit ''response.output_item.done''
               [(''output_index'', json_int (vt_output_index t)), (''item'', item)]
               (responses_emit ''response.function_call_arguments.done''
                 [(''item_id'', JString (vt_item_id t)), (''output_index'', json_int (vt_output_index t)),
                  (''arguments'', JString (vt_arguments t))] oe))
             (items @ [(vt_output_index t, item)]))"

text \<open>The tools by ascending index.\<close>

definition tools_in_order :: "(int, translated_tool) go_map \<Rightarrow> translated_tool list" where
  "tools_in_order tools = map snd (sort_key fst tools)"

definition responses_finish_status :: "string \<Rightarrow> (string \<times> json) option" where
  "responses_finish_status reason =
     (if reason = ''length'' then Some (''incomplete'', incomplete_reason)
      else if reason \<noteq> ''stop'' \<and> reason \<noteq> ''tool_calls'' then None
      else Some (''completed'', JNull))"

definition responses_finish :: "responses_encoder \<Rightarrow> stream_state \<Rightarrow> sse_event list option" where
  "responses_finish e meta =
     (if \<not> re_started e then None
      else (case responses_close_text ([], e) of
              (oe, items) \<Rightarrow>
                (case responses_close_tools (tools_in_order (re_tools e)) oe items of
                   None \<Rightarrow> None
                 | Some (oe, items) \<Rightarrow>
                     if items = [] then None
                     else (case responses_finish_status (re_finish_reason e) of
                             None \<Rightarrow> None
                           | Some (status, incomplete) \<Rightarrow>
                               Some (fst (responses_emit (''response.'' @ status)
                                 [(''response'', encoder_response (snd oe) status incomplete
                                     (map snd (sort_key fst items)) (usage_from_platform (ss_usage meta)))] oe))))))"

section \<open>The Anthropic encoder\<close>

record anthropic_encoder =
  ae_request_id :: string
  ae_public_model :: string
  ae_message_id :: string
  ae_started :: bool
  ae_text_started :: bool
  ae_text_block :: int
  ae_text :: string
  ae_tools :: "(int, translated_tool) go_map"
  ae_next_block :: int
  ae_open_block :: int
  ae_finish_reason :: string

definition new_anthropic_encoder :: "string \<Rightarrow> string \<Rightarrow> anthropic_encoder" where
  "new_anthropic_encoder request_id public_model =
     \<lparr>ae_request_id = request_id, ae_public_model = public_model, ae_message_id = [], ae_started = False,
      ae_text_started = False, ae_text_block = 0, ae_text = [], ae_tools = [], ae_next_block = 0,
      ae_open_block = -1, ae_finish_reason = []\<rparr>"

type_synonym anthropic_output = "sse_event list \<times> anthropic_encoder"

definition anthropic_emit :: "string \<Rightarrow> (string \<times> json) list \<Rightarrow> anthropic_output \<Rightarrow> anthropic_output" where
  "anthropic_emit kind payload oe = (fst oe @ [(kind, json_map ((''type'', JString kind) # payload))], snd oe)"

definition anthropic_start :: "stream_chunk \<Rightarrow> anthropic_output \<Rightarrow> anthropic_output" where
  "anthropic_start chunk oe =
     (if ae_started (snd oe) then oe
      else
        let id = safe_provider_id (sc_id chunk);
            e = (snd oe)\<lparr>ae_started := True, ae_message_id := (if id = [] then ae_request_id (snd oe) else id)\<rparr>
        in anthropic_emit ''message_start''
             [(''message'', json_map
                [(''id'', JString (ae_message_id e)), (''type'', JString ''message''), (''role'', JString ''assistant''),
                 (''model'', JString (ae_public_model e)), (''content'', JArray []), (''stop_reason'', JNull),
                 (''stop_sequence'', JNull), (''usage'', anthropic_usage None)])]
             (fst oe, e))"

definition anthropic_close_open :: "anthropic_output \<Rightarrow> anthropic_output" where
  "anthropic_close_open oe =
     (if ae_open_block (snd oe) < 0 then oe
      else anthropic_emit ''content_block_stop'' [(''index'', json_int (ae_open_block (snd oe)))]
             (fst oe, (snd oe)\<lparr>ae_open_block := -1\<rparr>))"

definition anthropic_open_block :: "int \<Rightarrow> json \<Rightarrow> anthropic_output \<Rightarrow> anthropic_output" where
  "anthropic_open_block index block oe =
     anthropic_emit ''content_block_start'' [(''index'', json_int index), (''content_block'', block)] oe"

definition anthropic_delta :: "int \<Rightarrow> json \<Rightarrow> anthropic_output \<Rightarrow> anthropic_output" where
  "anthropic_delta index delta oe =
     anthropic_emit ''content_block_delta'' [(''index'', json_int index), (''delta'', delta)] oe"

definition anthropic_open_text :: "anthropic_output \<Rightarrow> anthropic_output" where
  "anthropic_open_text oe =
     (if ae_text_started (snd oe) then oe
      else
        let oe = anthropic_close_open oe; e = snd oe;
            e = e\<lparr>ae_text_started := True, ae_text_block := ae_next_block e, ae_next_block := ae_next_block e + 1,
                  ae_open_block := ae_next_block e\<rparr>
        in anthropic_open_block (ae_text_block e)
             (json_map [(''type'', JString ''text''), (''text'', JString [])]) (fst oe, e))"

definition anthropic_text :: "string option \<Rightarrow> anthropic_output \<Rightarrow> anthropic_output" where
  "anthropic_text content oe =
     (if content = None \<or> content = Some [] then oe
      else
        let oe = anthropic_open_text oe;
            e = (snd oe)\<lparr>ae_text := ae_text (snd oe) @ the content\<rparr>
        in anthropic_delta (ae_text_block e)
             (json_map [(''type'', JString ''text_delta''), (''text'', JString (the content))]) (fst oe, e))"

definition anthropic_open_tool :: "tool_call_delta \<Rightarrow> anthropic_output \<Rightarrow> (translated_tool \<times> anthropic_output) option" where
  "anthropic_open_tool call oe =
     (case map_of (ae_tools (snd oe)) (cd_index call) of
        Some t \<Rightarrow> Some (t, oe)
      | None \<Rightarrow>
          (case cd_function call of
             None \<Rightarrow> None
           | Some f \<Rightarrow>
               if \<not> valid_tool_call_id (cd_id call) \<or> \<not> valid_tool_name (tf_name f) then None
               else
                 let oe = anthropic_close_open oe; e = snd oe;
                     t = \<lparr>vt_index = cd_index call, vt_output_index = 0, vt_item_id = [], vt_call_id = cd_id call,
                          vt_name = tf_name f, vt_namespace = [], vt_arguments = [], vt_block_index = ae_next_block e\<rparr>;
                     e = e\<lparr>ae_next_block := ae_next_block e + 1, ae_open_block := vt_block_index t,
                           ae_tools := AList.update (vt_index t) t (ae_tools e)\<rparr>
                 in Some (t, anthropic_open_block (vt_block_index t)
                      (json_map [(''type'', JString ''tool_use''), (''id'', JString (vt_call_id t)),
                        (''name'', JString (vt_name t)), (''input'', JObject [])]) (fst oe, e))))"

definition anthropic_call :: "tool_call_delta \<Rightarrow> anthropic_output \<Rightarrow> anthropic_output option" where
  "anthropic_call call oe =
     (case anthropic_open_tool call oe of
        None \<Rightarrow> None
      | Some (t, oe) \<Rightarrow>
          if call_arguments call = [] then Some oe
          else
            let t = t\<lparr>vt_arguments := vt_arguments t @ call_arguments call\<rparr>; e = snd oe
            in Some (anthropic_delta (vt_block_index t)
                 (json_map [(''type'', JString ''input_json_delta''), (''partial_json'', JString (call_arguments call))])
                 (fst oe, e\<lparr>ae_tools := AList.update (vt_index t) t (ae_tools e)\<rparr>)))"

fun anthropic_calls :: "tool_call_delta list \<Rightarrow> anthropic_output \<Rightarrow> anthropic_output option" where
  "anthropic_calls [] oe = Some oe"
| "anthropic_calls (call # calls) oe =
     (case anthropic_call call oe of None \<Rightarrow> None | Some oe \<Rightarrow> anthropic_calls calls oe)"

definition anthropic_encode ::
  "(json \<Rightarrow> string) \<Rightarrow> anthropic_encoder \<Rightarrow> string \<Rightarrow> anthropic_output option" where
  "anthropic_encode spell e data =
     (case decode_translated_stream_chunk spell data of
        None \<Rightarrow> None
      | Some (chunk, choice, delta) \<Rightarrow>
          (case anthropic_start chunk ([], e) of
             (out, e) \<Rightarrow>
               (case next_finish_reason choice (ae_finish_reason e) of
                  None \<Rightarrow> None
                | Some reason \<Rightarrow>
                    anthropic_calls (vd_tool_calls delta)
                      (anthropic_text (vd_content delta) (out, e\<lparr>ae_finish_reason := reason\<rparr>)))))"

definition anthropic_stream_stop_reason :: "string \<Rightarrow> string option" where
  "anthropic_stream_stop_reason reason =
     (if reason = ''stop'' then Some ''end_turn''
      else if reason = ''length'' then Some ''max_tokens''
      else if reason = ''tool_calls'' then Some ''tool_use''
      else None)"

definition anthropic_finish :: "anthropic_encoder \<Rightarrow> stream_state \<Rightarrow> sse_event list option" where
  "anthropic_finish e meta =
     (if \<not> ae_started e then None
      else if list_ex (\<lambda>(i, t). \<not> valid_json_object_string (vt_arguments t)) (ae_tools e) then None
      else (case anthropic_stream_stop_reason (ae_finish_reason e) of
              None \<Rightarrow> None
            | Some stop_reason \<Rightarrow>
                Some (fst (anthropic_emit ''message_stop'' []
                  (anthropic_emit ''message_delta''
                    [(''delta'', json_map [(''stop_reason'', JString stop_reason), (''stop_sequence'', JNull)]),
                     (''usage'', json_map [(''output_tokens'', json_int (count_or (u_output_tokens (ss_usage meta)) 0))])]
                    (anthropic_close_open ([], e)))))))"

section \<open>The gateway's encoder\<close>

datatype protocol_encoder = ResponsesEncoder responses_encoder | AnthropicEncoder anthropic_encoder

definition protocol_encode :: "(json \<Rightarrow> string) \<Rightarrow> protocol_encoder \<Rightarrow> string \<Rightarrow> (string \<times> protocol_encoder) option" where
  "protocol_encode spell enc data =
     (case enc of
        ResponsesEncoder e \<Rightarrow>
          map_option (\<lambda>(out, e). (render_events out, ResponsesEncoder e)) (responses_encode spell e data)
      | AnthropicEncoder e \<Rightarrow>
          map_option (\<lambda>(out, e). (render_events out, AnthropicEncoder e)) (anthropic_encode spell e data))"

definition protocol_finish :: "protocol_encoder \<Rightarrow> stream_state \<Rightarrow> string option" where
  "protocol_finish enc meta =
     (case enc of
        ResponsesEncoder e \<Rightarrow> map_option render_events (responses_finish e meta)
      | AnthropicEncoder e \<Rightarrow> map_option render_events (anthropic_finish e meta))"

text \<open>\<open>None\<close> is the nil encoder of the chat protocol.\<close>

definition new_protocol_stream_encoder ::
  "wire_protocol \<Rightarrow> string \<Rightarrow> string \<Rightarrow> int \<Rightarrow> (string, responses_tool_identity) go_map \<Rightarrow> protocol_encoder option" where
  "new_protocol_stream_encoder protocol request_id public_model now aliases =
     (case protocol of
        ProtocolResponses \<Rightarrow> Some (ResponsesEncoder (new_responses_encoder request_id public_model now aliases))
      | ProtocolAnthropic \<Rightarrow> Some (AnthropicEncoder (new_anthropic_encoder request_id public_model))
      | ProtocolChat \<Rightarrow> None)"

end
