(* ===== verification/Gateway_Serve.thy ===== *)
theory Gateway_Serve
  imports Gateway_Encoders
begin

text \<open>
  The gateway's handler: \<open>ServeHTTP\<close> of \<open>internal/gateway/gateway.go\<close>, \<open>serveStreaming\<close> of
  \<open>stream.go\<close> and the dispatch on the dialect of \<open>protocol.go\<close>, over the world of \<open>Gateway_Attempt\<close>.
  \<open>lib\<close> holds the library functions the adapters use: \<open>strconv.Quote\<close>, the text of a raw message, the
  printing of a \<open>float64\<close>, and Bifrost's Responses schema.
\<close>

record 'm protocol_lib =
  pl_quote :: "string \<Rightarrow> string"
  pl_spell :: "json \<Rightarrow> string"
  pl_float_text :: "string \<Rightarrow> string option"
  pl_bifrost :: "'m bifrost"

section \<open>Reading a request\<close>

definition plain_error :: "int \<Rightarrow> string \<Rightarrow> string \<Rightarrow> request_error" where
  "plain_error status code msg = \<lparr>re_status = status, re_code = code, re_message = msg\<rparr>"

text \<open>\<open>http.MaxBytesReader\<close> and \<open>io.ReadAll\<close>: the body, or the text of the error.\<close>

definition read_body :: "int \<Rightarrow> http_request \<Rightarrow> string + string" where
  "read_body limit r =
     (if int (length (hr_body r)) > limit then Inl ''http: request body too large''
      else case hr_body_error r of None \<Rightarrow> Inr (hr_body r) | Some msg \<Rightarrow> Inl msg)"

definition decode_chat_body :: "gateway_env \<Rightarrow> string \<Rightarrow> request_error + chat_request" where
  "decode_chat_body env data =
     (case decode_chat_request (ge_parse_float env) data of
        Inr request \<Rightarrow> Inr request
      | Inl (UnknownField k) \<Rightarrow> Inl (bad_request ''unsupported_request_field''
          ''request contains a field outside the supported chat completion subset'')
      | Inl Mismatch \<Rightarrow> Inl (bad_request ''invalid_json''
          ''request body is not a valid supported chat completion''))"

definition decode_protocol_body ::
  "gateway_env \<Rightarrow> 'm protocol_lib \<Rightarrow> wire_protocol \<Rightarrow> string \<Rightarrow> request_error + chat_request" where
  "decode_protocol_body env lib protocol data =
     (case protocol of
        ProtocolChat \<Rightarrow> decode_chat_body env data
      | ProtocolResponses \<Rightarrow>
          decode_responses_request (pl_bifrost lib) (ge_parse_float env) (pl_quote lib) (ge_sha env) data
      | ProtocolAnthropic \<Rightarrow>
          decode_anthropic_request (ge_parse_float env) (pl_quote lib) (pl_spell lib) data)"

definition decode_protocol_request ::
  "gateway_env \<Rightarrow> gateway_config \<Rightarrow> 'm protocol_lib \<Rightarrow> wire_protocol \<Rightarrow> http_request \<Rightarrow> request_error + chat_request" where
  "decode_protocol_request env cfg lib protocol r =
     (if ge_media_type env (header_get (hr_header r) ''Content-Type'') \<noteq> Some ''application/json''
      then Inl (plain_error 415 ''unsupported_content_type'' ''Content-Type must be application/json'')
      else (case read_body (gc_max_request_bytes cfg) r of
              Inl msg \<Rightarrow>
                Inl (if contains_str ''request body too large'' msg
                     then plain_error 413 ''request_too_large'' ''request body exceeds the configured limit''
                     else bad_request ''invalid_json'' ''request body could not be read'')
            | Inr data \<Rightarrow>
                if trim_space data = []
                then Inl (bad_request ''invalid_json'' ''request body must contain exactly one JSON object'')
                else (case decode_protocol_body env lib protocol data of
                        Inl e \<Rightarrow> Inl e
                      | Inr request \<Rightarrow>
                          (case validate_request request of Some e \<Rightarrow> Inl e | None \<Rightarrow> Inr request))))"

section \<open>Encoding a response\<close>

text \<open>\<open>Time.Unix\<close>: whole seconds, rounded down.\<close>

definition unix_seconds :: "time \<Rightarrow> int" where
  "unix_seconds t = t div nanosecond_per_second"

definition encode_protocol_response ::
  "'m protocol_lib \<Rightarrow> wire_protocol \<Rightarrow> string \<Rightarrow> string \<Rightarrow> string \<Rightarrow> time \<Rightarrow>
   (string, responses_tool_identity) go_map \<Rightarrow> string option" where
  "encode_protocol_response lib protocol body request_id public_model now aliases =
     (case protocol of
        ProtocolChat \<Rightarrow> Some body
      | ProtocolResponses \<Rightarrow>
          map_option json_print (encode_responses_response body request_id public_model (unix_seconds now) aliases)
      | ProtocolAnthropic \<Rightarrow>
          map_option json_print (encode_anthropic_response (pl_float_text lib) body request_id public_model))"

section \<open>Completing the request\<close>

text \<open>\<open>True\<close> when the ledger recorded the result.\<close>

definition complete_request ::
  "gateway_env \<Rightarrow> 's store_ops \<Rightarrow> string \<Rightarrow> time \<Rightarrow> string \<Rightarrow> int \<Rightarrow> string \<Rightarrow> string \<Rightarrow> string \<Rightarrow> string \<Rightarrow> token_usage \<Rightarrow>
   ('s world, bool) state" where
  "complete_request env ops request_id started status http_status class model provider_id finality usage = do {
     completed_at \<leftarrow> now_at env;
     ended \<leftarrow> now_at env;
     e \<leftarrow> on_store (st_complete_inference_request ops
       \<lparr>rf_id = request_id, rf_completed_at = completed_at, rf_status = status, rf_http_status = http_status,
        rf_error_class = class, rf_executed_model = model, rf_provider_request_id = provider_id,
        rf_duration = elapsed started ended, rf_usage = usage, rf_usage_finality = finality\<rparr>);
     State_Monad.return (e = None)
   }"

type_synonym 's request_finisher =
  "string \<Rightarrow> int \<Rightarrow> string \<Rightarrow> string \<Rightarrow> string \<Rightarrow> string \<Rightarrow> token_usage \<Rightarrow> ('s world, bool) state"

definition ledger_unavailable :: "wire_protocol \<Rightarrow> string \<Rightarrow> string \<Rightarrow> response_writer \<Rightarrow> response_writer" where
  "ledger_unavailable protocol msg request_id =
     write_protocol_error protocol 503 ''ledger_unavailable'' ''api_error'' msg request_id"

definition unrecorded :: "wire_protocol \<Rightarrow> string \<Rightarrow> response_writer \<Rightarrow> response_writer" where
  "unrecorded protocol request_id = ledger_unavailable protocol ''request result could not be recorded'' request_id"

text \<open>A result without usage is recorded before it is answered; otherwise the ledger is unavailable.\<close>

definition finish_then ::
  "'s request_finisher \<Rightarrow> wire_protocol \<Rightarrow> string \<Rightarrow> string \<Rightarrow> int \<Rightarrow> string \<Rightarrow> string \<Rightarrow> ('s world, unit) state \<Rightarrow>
   ('s world, unit) state" where
  "finish_then finish protocol request_id status http_status class provider_id continue = do {
     ok \<leftarrow> finish status http_status class [] provider_id ''unknown'' zero_usage;
     if \<not> ok then respond (unrecorded protocol request_id) else continue
   }"

definition note_health ::
  "gateway_env \<Rightarrow> 's store_ops \<Rightarrow> string \<Rightarrow> string \<Rightarrow> bool \<Rightarrow> ('s world, unit) state" where
  "note_health env ops target_id status successful = do {
     now \<leftarrow> now_at env;
     _ \<leftarrow> on_store (st_update_target_health ops target_id status now successful);
     State_Monad.return ()
   }"

definition note_failure :: "gateway_env \<Rightarrow> 's store_ops \<Rightarrow> string \<Rightarrow> string \<Rightarrow> ('s world, unit) state" where
  "note_failure env ops target_id class =
     (if failure_health_status class \<noteq> [] then note_health env ops target_id (failure_health_status class) False
      else State_Monad.return ())"

definition terminal_status :: "attempt_result \<Rightarrow> string" where
  "terminal_status terminal = (if ar_class terminal = ''client_cancelled'' then ''cancelled'' else ''failed'')"

definition with_defaults :: "attempt_result \<Rightarrow> attempt_result" where
  "with_defaults terminal = terminal
     \<lparr>ar_client_status := (if ar_client_status terminal = 0 then 502 else ar_client_status terminal),
      ar_message := (if ar_message terminal = [] then ''upstream inference failed'' else ar_message terminal)\<rparr>"

definition write_terminal :: "wire_protocol \<Rightarrow> string \<Rightarrow> attempt_result \<Rightarrow> response_writer \<Rightarrow> response_writer" where
  "write_terminal protocol request_id terminal w =
     write_protocol_error protocol (ar_client_status terminal) (ar_class terminal) ''upstream_error''
       (ar_message terminal) request_id
       (if ar_retry_after_header terminal = [] then w
        else set_header ''Retry-After'' (ar_retry_after_header terminal) w)"

text \<open>\<open>wait\<close>: \<open>True\<close> when the request was cancelled meanwhile.\<close>

definition wait_for :: "gateway_env \<Rightarrow> duration \<Rightarrow> ('s world, bool) state" where
  "wait_for env delay =
     (if delay \<le> 0 then State_Monad.return False else ask (\<lambda>n. ge_interrupted env n delay))"

section \<open>The buffered response\<close>

text \<open>
  The attempt loop with \<open>n\<close> attempts left before the limit, the next one being \<open>number\<close>. Attempts are
  numbered from 1, so \<open>n + number = MaxAttempts + 1\<close> throughout.
\<close>

primrec attempt_loop ::
  "gateway_env \<Rightarrow> gateway_config \<Rightarrow> 's store_ops \<Rightarrow> string \<Rightarrow> route \<Rightarrow> string \<Rightarrow> string \<Rightarrow> nat \<Rightarrow> int \<Rightarrow> attempt_result \<Rightarrow>
   ('s world, attempt_result) state" where
  "attempt_loop env cfg ops request_id rt secret body 0 number terminal = State_Monad.return terminal"
| "attempt_loop env cfg ops request_id rt secret body (Suc n) number terminal = do {
     terminal \<leftarrow> perform_attempt env cfg ops request_id rt secret body number;
     if ar_success terminal \<or> \<not> ar_retryable terminal \<or> number = t_max_attempts (r_target rt)
     then State_Monad.return terminal
     else do {
       cancelled \<leftarrow> wait_for env (retry_delay (gc_retry_base_delay cfg) (gc_max_retry_delay cfg) terminal number);
       if cancelled then State_Monad.return client_cancelled
       else attempt_loop env cfg ops request_id rt secret body n (number + 1) terminal
     }
   }"

definition write_success :: "string \<Rightarrow> response_writer \<Rightarrow> response_writer" where
  "write_success body w =
     write_payload (Bytes body)
       (write_header 200
         (set_header ''Cache-Control'' ''no-store''
           (set_header ''Content-Type'' ''application/json; charset=utf-8'' w)))"

definition serve_failure ::
  "gateway_env \<Rightarrow> 's store_ops \<Rightarrow> wire_protocol \<Rightarrow> string \<Rightarrow> route \<Rightarrow> 's request_finisher \<Rightarrow> attempt_result \<Rightarrow>
   ('s world, unit) state" where
  "serve_failure env ops protocol request_id rt finish terminal =
     (let terminal = with_defaults terminal
      in finish_then finish protocol request_id (terminal_status terminal) (ar_client_status terminal)
           (ar_class terminal) (ar_provider_id terminal) (do {
             note_failure env ops (t_id (r_target rt)) (ar_class terminal);
             respond (write_terminal protocol request_id terminal)
           }))"

definition serve_buffered ::
  "gateway_env \<Rightarrow> gateway_config \<Rightarrow> 'm protocol_lib \<Rightarrow> 's store_ops \<Rightarrow> wire_protocol \<Rightarrow> string \<Rightarrow> string \<Rightarrow> route \<Rightarrow>
   string \<Rightarrow> string \<Rightarrow> (string, responses_tool_identity) go_map \<Rightarrow> 's request_finisher \<Rightarrow> ('s world, unit) state" where
  "serve_buffered env cfg lib ops protocol request_id public_model rt secret body aliases finish = do {
     terminal \<leftarrow> attempt_loop env cfg ops request_id rt secret body (nat (t_max_attempts (r_target rt))) 1 zero_result;
     if ar_success terminal then do {
       now \<leftarrow> now_at env;
       case encode_protocol_response lib protocol (ar_body terminal) request_id public_model now aliases of
         None \<Rightarrow>
           finish_then finish protocol request_id ''failed'' 502 ''invalid_upstream_response'' (ar_provider_id terminal)
             (respond (write_protocol_error protocol 502 ''invalid_upstream_response'' ''upstream_error''
               ''upstream inference could not be represented in the requested API'' request_id))
       | Some response_body \<Rightarrow> do {
           ok \<leftarrow> finish ''succeeded'' 200 [] (ar_model terminal) (ar_provider_id terminal) (ar_finality terminal)
             (ar_usage terminal);
           if \<not> ok then respond (unrecorded protocol request_id)
           else do {
             note_health env ops (t_id (r_target rt)) ''operational'' True;
             respond (write_success response_body)
           }
         }
     }
     else serve_failure env ops protocol request_id rt finish terminal
   }"

section \<open>The streamed response\<close>

definition optional_encoder_ops :: "(json \<Rightarrow> string) \<Rightarrow> protocol_encoder option stream_encoder" where
  "optional_encoder_ops spell =
     \<lparr>se_encode = (\<lambda>enc data. case enc of None \<Rightarrow> None
        | Some e \<Rightarrow> map_option (\<lambda>(out, e). (out, Some e)) (protocol_encode spell e data)),
      se_finish = (\<lambda>enc meta. case enc of None \<Rightarrow> None | Some e \<Rightarrow> protocol_finish e meta)\<rparr>"

text \<open>The same loop over streaming attempts, which stops once a downstream write was attempted.\<close>

primrec stream_loop ::
  "gateway_env \<Rightarrow> gateway_config \<Rightarrow> 's store_ops \<Rightarrow> string \<Rightarrow> route \<Rightarrow> string \<Rightarrow> string \<Rightarrow> 'e stream_encoder option \<Rightarrow>
   nat \<Rightarrow> int \<Rightarrow> attempt_result \<Rightarrow> 'e \<Rightarrow> ('s world, attempt_result) state" where
  "stream_loop env cfg ops request_id rt secret body encoder 0 number terminal enc = State_Monad.return terminal"
| "stream_loop env cfg ops request_id rt secret body encoder (Suc n) number terminal enc = do {
     (terminal, enc) \<leftarrow> perform_streaming_attempt env cfg ops request_id rt secret body number encoder enc;
     w \<leftarrow> State_Monad.get;
     if ar_success terminal \<or> w_committed w \<or> \<not> ar_retryable terminal \<or> number = t_max_attempts (r_target rt)
     then State_Monad.return terminal
     else do {
       cancelled \<leftarrow> wait_for env (retry_delay (gc_retry_base_delay cfg) (gc_max_retry_delay cfg) terminal number);
       if cancelled then State_Monad.return client_cancelled
       else stream_loop env cfg ops request_id rt secret body encoder n (number + 1) terminal enc
     }
   }"

text \<open>An error response of a stream: only while nothing was sent.\<close>

definition respond_uncommitted :: "(response_writer \<Rightarrow> response_writer) \<Rightarrow> ('s world, unit) state" where
  "respond_uncommitted f = State_Monad.update (\<lambda>w. if w_committed w then w else w\<lparr>w_writer := f (w_writer w)\<rparr>)"

definition stream_result ::
  "gateway_env \<Rightarrow> 's store_ops \<Rightarrow> wire_protocol \<Rightarrow> string \<Rightarrow> route \<Rightarrow> 's request_finisher \<Rightarrow> attempt_result \<Rightarrow>
   ('s world, unit) state" where
  "stream_result env ops protocol request_id rt finish terminal =
     (if ar_success terminal then do {
        ok \<leftarrow> finish ''succeeded'' 200 [] (ar_model terminal) (ar_provider_id terminal) (ar_finality terminal)
          (ar_usage terminal);
        if \<not> ok then respond_uncommitted (unrecorded protocol request_id)
        else note_health env ops (t_id (r_target rt)) ''operational'' True
      }
      else let terminal = with_defaults terminal in do {
        ok \<leftarrow> finish (terminal_status terminal) (ar_client_status terminal) (ar_class terminal) []
          (ar_provider_id terminal) ''unknown'' zero_usage;
        if \<not> ok then respond_uncommitted (unrecorded protocol request_id)
        else do {
          note_failure env ops (t_id (r_target rt)) (ar_class terminal);
          respond_uncommitted (write_terminal protocol request_id terminal)
        }
      })"

definition serve_streaming ::
  "gateway_env \<Rightarrow> gateway_config \<Rightarrow> 'm protocol_lib \<Rightarrow> 's store_ops \<Rightarrow> wire_protocol \<Rightarrow> string \<Rightarrow> string \<Rightarrow> route \<Rightarrow>
   string \<Rightarrow> string \<Rightarrow> (string, responses_tool_identity) go_map \<Rightarrow> 's request_finisher \<Rightarrow> ('s world, unit) state" where
  "serve_streaming env cfg lib ops protocol request_id public_model rt secret body aliases finish =
     (if \<not> ge_flusher env then
        finish_then finish protocol request_id ''failed'' 500 ''streaming_unavailable'' []
          (respond (write_protocol_error protocol 500 ''streaming_unavailable'' ''api_error''
            ''response streaming is unavailable'' request_id))
      else do {
        now \<leftarrow> now_at env;
        let encoder = new_protocol_stream_encoder protocol request_id public_model (unix_seconds now) aliases;
        terminal \<leftarrow> stream_loop env cfg ops request_id rt secret body
          (case encoder of None \<Rightarrow> None | Some _ \<Rightarrow> Some (optional_encoder_ops (pl_spell lib)))
          (nat (t_max_attempts (r_target rt))) 1 zero_result encoder;
        stream_result env ops protocol request_id rt finish terminal
      })"

section \<open>The handler\<close>

text \<open>A failure of the configured target: recorded, the target marked degraded, and answered.\<close>

definition target_failure ::
  "gateway_env \<Rightarrow> 's store_ops \<Rightarrow> wire_protocol \<Rightarrow> string \<Rightarrow> route \<Rightarrow> 's request_finisher \<Rightarrow> int \<Rightarrow> string \<Rightarrow> string \<Rightarrow>
   ('s world, unit) state" where
  "target_failure env ops protocol request_id rt finish status class msg =
     finish_then finish protocol request_id ''failed'' status class [] (do {
       note_health env ops (t_id (r_target rt)) ''degraded'' False;
       respond (write_protocol_error protocol status class ''api_error'' msg request_id)
     })"

definition execute_route ::
  "gateway_env \<Rightarrow> gateway_config \<Rightarrow> 'm protocol_lib \<Rightarrow> 's store_ops \<Rightarrow> wire_protocol \<Rightarrow> string \<Rightarrow> chat_request \<Rightarrow> route \<Rightarrow>
   's request_finisher \<Rightarrow> ('s world, unit) state" where
  "execute_route env cfg lib ops protocol request_id request rt finish =
     (if target_endpoint (ge_url env) (t_base_url (r_target rt)) (gc_allow_insecure_targets cfg) = None then
        target_failure env ops protocol request_id rt finish 502 ''target_configuration''
          ''configured inference target is invalid''
      else (case gc_secret_lookup cfg (t_secret_ref (r_target rt)) of
              None \<Rightarrow> target_failure env ops protocol request_id rt finish 503 ''target_unavailable''
                ''configured inference target is unavailable''
            | Some secret \<Rightarrow>
                if secret = [] then target_failure env ops protocol request_id rt finish 503 ''target_unavailable''
                  ''configured inference target is unavailable''
                else (case ge_marshal env (request\<lparr>cr_model := t_provider_model (r_target rt)\<rparr>) of
                        None \<Rightarrow>
                          finish_then finish protocol request_id ''failed'' 500 ''internal_error'' []
                            (respond (write_protocol_error protocol 500 ''internal_error'' ''api_error''
                              ''request could not be prepared'' request_id))
                      | Some body \<Rightarrow>
                          (if streaming request then serve_streaming else serve_buffered)
                            env cfg lib ops protocol request_id (cr_model request) rt secret body
                            (cr_responses_tool_aliases request) finish)))"

definition serve_authorised ::
  "gateway_env \<Rightarrow> gateway_config \<Rightarrow> 'm protocol_lib \<Rightarrow> 's store_ops \<Rightarrow> wire_protocol \<Rightarrow> string \<Rightarrow> principal \<Rightarrow> chat_request \<Rightarrow>
   's request_finisher \<Rightarrow> ('s world, unit) state" where
  "serve_authorised env cfg lib ops protocol request_id pr request finish =
     (if \<not> has_scope pr scope_inference_write then
        finish_then finish protocol request_id ''blocked'' 403 ''insufficient_scope'' []
          (respond (write_protocol_error protocol 403 ''insufficient_scope'' ''permission_error''
            ''API key is not permitted to run inference'' request_id))
      else do {
        resolved \<leftarrow> on_store (st_resolve_route ops pr (cr_model request));
        case resolved of
          Inl e \<Rightarrow>
            (case route_error e of
               (status, code, msg) \<Rightarrow>
                 finish_then finish protocol request_id ''blocked'' status code []
                   (respond (write_protocol_error protocol status code ''invalid_request_error'' msg request_id)))
        | Inr rt \<Rightarrow> do {
            bound \<leftarrow> on_store (st_set_inference_request_route ops request_id (r_id rt));
            if bound \<noteq> None then
              finish_then finish protocol request_id ''failed'' 500 ''ledger_error'' []
                (respond (write_protocol_error protocol 500 ''ledger_error'' ''api_error''
                  ''request could not be recorded'' request_id))
            else execute_route env cfg lib ops protocol request_id request rt finish
          }
      })"

definition serve_request ::
  "gateway_env \<Rightarrow> gateway_config \<Rightarrow> 'm protocol_lib \<Rightarrow> 's store_ops \<Rightarrow> wire_protocol \<Rightarrow> string \<Rightarrow> principal \<Rightarrow> chat_request \<Rightarrow>
   ('s world, unit) state" where
  "serve_request env cfg lib ops protocol request_id pr request = do {
     started \<leftarrow> now_at env;
     created \<leftarrow> on_store (st_create_inference_request ops
       \<lparr>rs_id = request_id, rs_principal = pr, rs_model_alias = cr_model request, rs_started_at = started\<rparr>);
     if created \<noteq> None
     then respond (ledger_unavailable protocol ''request ledger is temporarily unavailable'' request_id)
     else serve_authorised env cfg lib ops protocol request_id pr request
            (complete_request env ops request_id started)
   }"

text \<open>\<open>http.NotFound\<close>\<close>

definition not_found :: "response_writer \<Rightarrow> response_writer" where
  "not_found w =
     write_payload (Bytes (''404 page not found'' @ [newline]))
       (write_header 404
         (set_header ''X-Content-Type-Options'' ''nosniff''
           (set_header ''Content-Type'' ''text/plain; charset=utf-8'' w)))"

definition identify_response :: "string \<Rightarrow> response_writer \<Rightarrow> response_writer" where
  "identify_response request_id w =
     set_header ''X-Request-Id'' request_id (set_header ''X-Alzette-Request-Id'' request_id w)"

definition vary_api_key :: "wire_protocol \<Rightarrow> response_writer \<Rightarrow> response_writer" where
  "vary_api_key protocol w =
     (if protocol = ProtocolAnthropic then w\<lparr>rw_header := header_add ''Vary'' ''X-Api-Key'' (rw_header w)\<rparr> else w)"

definition serve_identified ::
  "gateway_env \<Rightarrow> gateway_config \<Rightarrow> 'm protocol_lib \<Rightarrow> 's store_ops \<Rightarrow> wire_protocol \<Rightarrow> string \<Rightarrow> http_request \<Rightarrow>
   ('s world, unit) state" where
  "serve_identified env cfg lib ops protocol request_id r =
     (if hr_method r \<noteq> ''POST'' then
        respond (\<lambda>w. write_protocol_error protocol 405 ''method_not_allowed'' ''invalid_request_error''
          ''method not allowed'' request_id (set_header ''Allow'' ''POST'' w))
      else if hr_raw_query r \<noteq> [] then
        respond (write_protocol_error protocol 400 ''unsupported_query_parameter'' ''invalid_request_error''
          ''query parameters are not supported by this endpoint'' request_id)
      else do {
        respond (vary_api_key protocol);
        auth \<leftarrow> on_store (authenticate_protocol (ge_sha env) ops protocol (hr_header r));
        case auth of
          Inl e \<Rightarrow>
            if e = ErrUnauthenticated
            then respond (\<lambda>w. write_protocol_error protocol 401 ''invalid_api_key'' ''authentication_error''
              ''authentication failed'' request_id
              (set_header ''Www-Authenticate'' (''Bearer realm='' @ [CHR 0x22] @ ''alzette'' @ [CHR 0x22]) w))
            else respond (write_protocol_error protocol 503 ''authentication_unavailable'' ''api_error''
              ''authentication is temporarily unavailable'' request_id)
        | Inr pr \<Rightarrow>
            (case decode_protocol_request env cfg lib protocol r of
               Inl e \<Rightarrow> respond (write_protocol_error protocol (re_status e) (re_code e) ''invalid_request_error''
                 (re_message e) request_id)
             | Inr request \<Rightarrow> serve_request env cfg lib ops protocol request_id pr request)
      })"

definition serve_http ::
  "gateway_env \<Rightarrow> gateway_config \<Rightarrow> 'm protocol_lib \<Rightarrow> 's store_ops \<Rightarrow> http_request \<Rightarrow> ('s world, unit) state" where
  "serve_http env cfg lib ops r =
     (case protocol_for_path (hr_path r) of
        None \<Rightarrow> respond not_found
      | Some protocol \<Rightarrow> do {
          rid \<leftarrow> ask (\<lambda>n. ge_new_id env n ''req'');
          case rid of
            Inl _ \<Rightarrow> respond (write_protocol_error protocol 500 ''internal_error'' ''api_error''
              ''request could not be initialised'' [])
          | Inr request_id \<Rightarrow> do {
              respond (identify_response request_id);
              serve_identified env cfg lib ops protocol request_id r
            }
        })"

end
