(* ===== verification/Memory_Properties.thy ===== *)
theory Memory_Properties
  imports Memory_Invariants
begin

text \<open>
  What the in-memory store promises its callers: provisioning is repeatable, a rotated or revoked key
  stops authenticating and nothing else changes, ledger rows only grow, attempts are numbered without
  gaps, reads are tenant scoped and a resolved route can be bound. The sample store is the result of
  provisioning an empty store; the witnesses run the operations on it.
\<close>

section \<open>Provisioning again\<close>

text \<open>
  What each upsert leaves behind: one table and the entropy change, the row it returns is the one a
  later lookup by the same natural key finds, and it agrees with the specification; the second lemma
  of each pair says that such a row is a fixed point of the upsert.
\<close>

lemma upsert_organisation_done:
  assumes run: "run_state (upsert_organisation spec) s = (Inr x, t)" and wf: "store_wf s"
  shows "t = s\<lparr>ms_organisations := ms_organisations t, ms_entropy := ms_entropy t\<rparr> \<and>
    find_organisation (ms_organisations t) (ps_organisation_slug spec) = Some x \<and>
    map_of (ms_organisations t) (org_id x) = Some x \<and>
    org_name x = ps_organisation_name spec"
proof (cases "find_organisation (ms_organisations s) (ps_organisation_slug spec)")
  case None
  with run show ?thesis
    by (auto simp: upsert_organisation_def Let_def find_defs find_value_update_same go_map_simps
        elim!: new_id_runE split: prod.splits sum.splits)
next
  case (Some y)
  from keyed_find_valueD [OF Some [unfolded find_defs] wf_tables(1) [OF wf]] Some run wf_tables(1) [OF wf]
  show ?thesis
    by (auto simp: upsert_organisation_def Let_def find_defs go_map_simps intro!: find_value_update_found split: if_splits)
qed

lemma upsert_organisation_again:
  assumes "find_organisation (ms_organisations s) (ps_organisation_slug spec) = Some x" "map_of (ms_organisations s) (org_id x) = Some x" "org_name x = ps_organisation_name spec"
  shows "run_state (upsert_organisation spec) s = (Inr x, s)"
  using assms by (simp add: upsert_organisation_def Let_def update_same)

lemma upsert_project_done:
  assumes run: "run_state (upsert_project spec oid) s = (Inr x, t)" and wf: "store_wf s"
  shows "t = s\<lparr>ms_projects := ms_projects t, ms_entropy := ms_entropy t\<rparr> \<and>
    find_project (ms_projects t) oid (ps_project_slug spec) = Some x \<and>
    map_of (ms_projects t) (prj_id x) = Some x \<and>
    prj_name x = ps_project_name spec"
proof (cases "find_project (ms_projects s) oid (ps_project_slug spec)")
  case None
  with run show ?thesis
    by (auto simp: upsert_project_def Let_def find_defs find_value_update_same go_map_simps
        elim!: new_id_runE split: prod.splits sum.splits)
next
  case (Some y)
  from keyed_find_valueD [OF Some [unfolded find_defs] wf_tables(2) [OF wf]] Some run wf_tables(2) [OF wf]
  show ?thesis
    by (auto simp: upsert_project_def Let_def find_defs go_map_simps intro!: find_value_update_found split: if_splits)
qed

lemma upsert_project_again:
  assumes "find_project (ms_projects s) oid (ps_project_slug spec) = Some x" "map_of (ms_projects s) (prj_id x) = Some x" "prj_name x = ps_project_name spec"
  shows "run_state (upsert_project spec oid) s = (Inr x, s)"
  using assms by (simp add: upsert_project_def Let_def update_same)

lemma upsert_environment_done:
  assumes run: "run_state (upsert_environment spec oid pid) s = (Inr x, t)" and wf: "store_wf s"
  shows "t = s\<lparr>ms_environments := ms_environments t, ms_entropy := ms_entropy t\<rparr> \<and>
    find_environment (ms_environments t) oid pid (ps_environment_slug spec) = Some x \<and>
    map_of (ms_environments t) (env_id x) = Some x \<and>
    env_name x = ps_environment_name spec"
proof (cases "find_environment (ms_environments s) oid pid (ps_environment_slug spec)")
  case None
  with run show ?thesis
    by (auto simp: upsert_environment_def Let_def find_defs find_value_update_same go_map_simps
        elim!: new_id_runE split: prod.splits sum.splits)
next
  case (Some y)
  from keyed_find_valueD [OF Some [unfolded find_defs] wf_tables(3) [OF wf]] Some run wf_tables(3) [OF wf]
  show ?thesis
    by (auto simp: upsert_environment_def Let_def find_defs go_map_simps intro!: find_value_update_found split: if_splits)
qed

lemma upsert_environment_again:
  assumes "find_environment (ms_environments s) oid pid (ps_environment_slug spec) = Some x" "map_of (ms_environments s) (env_id x) = Some x" "env_name x = ps_environment_name spec"
  shows "run_state (upsert_environment spec oid pid) s = (Inr x, s)"
  using assms by (simp add: upsert_environment_def Let_def update_same)

lemma upsert_model_done:
  assumes run: "run_state (upsert_model spec) s = (Inr x, t)" and wf: "store_wf s"
  shows "t = s\<lparr>ms_models := ms_models t, ms_entropy := ms_entropy t\<rparr> \<and>
    find_model (ms_models t) (ps_model_alias spec) = Some x \<and>
    map_of (ms_models t) (mdl_id x) = Some x \<and>
    mdl_version x = ps_model_version spec \<and> mdl_enabled x"
proof (cases "find_model (ms_models s) (ps_model_alias spec)")
  case None
  with run show ?thesis
    by (auto simp: upsert_model_def Let_def find_defs find_value_update_same go_map_simps
        elim!: new_id_runE split: prod.splits sum.splits)
next
  case (Some y)
  from keyed_find_valueD [OF Some [unfolded find_defs] wf_tables(4) [OF wf]] Some run wf_tables(4) [OF wf]
  show ?thesis
    by (auto simp: upsert_model_def Let_def find_defs go_map_simps intro!: find_value_update_found split: if_splits)
qed

lemma upsert_model_again:
  assumes "find_model (ms_models s) (ps_model_alias spec) = Some x" "map_of (ms_models s) (mdl_id x) = Some x" "mdl_version x = ps_model_version spec \<and> mdl_enabled x"
  shows "run_state (upsert_model spec) s = (Inr x, s)"
  using assms by (simp add: upsert_model_def Let_def update_same)

lemma upsert_service_account_done:
  assumes run: "run_state (upsert_service_account spec oid pid eid) s = (Inr x, t)" and wf: "store_wf s"
  shows "t = s\<lparr>ms_service_accounts := ms_service_accounts t, ms_entropy := ms_entropy t\<rparr> \<and>
    find_service_account (ms_service_accounts t) oid pid eid (ps_service_account spec) = Some x \<and>
    map_of (ms_service_accounts t) (sa_id x) = Some x"
proof (cases "find_service_account (ms_service_accounts s) oid pid eid (ps_service_account spec)")
  case None
  with run show ?thesis
    by (auto simp: upsert_service_account_def Let_def find_defs find_value_update_same go_map_simps
        elim!: new_id_runE split: prod.splits sum.splits)
next
  case (Some y)
  from keyed_find_valueD [OF Some [unfolded find_defs] wf_tables(6) [OF wf]] Some run wf_tables(6) [OF wf]
  show ?thesis
    by (auto simp: upsert_service_account_def Let_def find_defs go_map_simps intro!: find_value_update_found split: if_splits)
qed

lemma upsert_service_account_again:
  assumes "find_service_account (ms_service_accounts s) oid pid eid (ps_service_account spec) = Some x" "map_of (ms_service_accounts s) (sa_id x) = Some x"
  shows "run_state (upsert_service_account spec oid pid eid) s = (Inr x, s)"
  using assms by (simp add: upsert_service_account_def Let_def update_same)

lemma configure_target_twice [simp]:
  "configure_target (configure_target y spec oid) spec oid = configure_target y spec oid"
  by (cases y) (simp add: configure_target_def)

lemma configure_target_agrees [simp]:
  "\<not> target_conflicts (configure_target y spec oid) spec oid" "t_name (configure_target y spec oid) = ps_target_name spec"
  by (simp_all add: configure_target_def target_conflicts_def)

lemma upsert_target_done:
  assumes run: "run_state (upsert_target spec oid) s = (Inr x, t)" and wf: "store_wf s"
  shows "t = s\<lparr>ms_targets := ms_targets t, ms_entropy := ms_entropy t\<rparr> \<and>
    find_target (ms_targets t) (ps_target_name spec) = Some x \<and> map_of (ms_targets t) (t_id x) = Some x \<and>
    configure_target x spec oid = x \<and> \<not> target_conflicts x spec oid"
proof (cases "find_target (ms_targets s) (ps_target_name spec)")
  case None
  with run show ?thesis
    by (auto simp: upsert_target_def Let_def find_defs find_value_update_same go_map_simps
        elim!: new_id_runE split: prod.splits sum.splits)
next
  case (Some y)
  from keyed_find_valueD [OF Some [unfolded find_defs] wf_tables(5) [OF wf]] Some run wf_tables(5) [OF wf]
  show ?thesis
    by (auto simp: upsert_target_def Let_def find_defs go_map_simps
        intro!: find_value_update_found split: if_splits)
qed

lemma upsert_target_again:
  assumes "find_target (ms_targets s) (ps_target_name spec) = Some x" "map_of (ms_targets s) (t_id x) = Some x"
    "configure_target x spec oid = x \<and> \<not> target_conflicts x spec oid"
  shows "run_state (upsert_target spec oid) s = (Inr x, s)"
  using assms by (simp add: upsert_target_def Let_def update_same)

lemma agreeing_target_owner:
  "\<not> target_conflicts x spec oid \<Longrightarrow> t_capacity_mode x = ''dedicated'' \<Longrightarrow> t_owner_organisation_id x = oid"
  by (simp add: target_conflicts_def target_owner_def)

definition touch_route :: "time \<Rightarrow> stored_route \<Rightarrow> mem_store \<Rightarrow> mem_store" where
  "touch_route now rt s = s\<lparr>ms_routes := AList.update (sr_id rt) (rt\<lparr>sr_updated_at := now\<rparr>) (ms_routes s)\<rparr>"

lemma upsert_route_done:
  assumes run: "run_state (upsert_route now oid pid eid mid target) s = (Inr x, t)" and wf: "store_wf s"
  shows "t = s\<lparr>ms_routes := ms_routes t, ms_entropy := ms_entropy t\<rparr> \<and>
    find_route (ms_routes t) oid pid eid mid = Some x \<and> map_of (ms_routes t) (sr_id x) = Some x \<and>
    sr_target_id x = t_id target \<and> sr_enabled x \<and>
    \<not> (t_capacity_mode target = ''dedicated'' \<and> t_owner_organisation_id target \<noteq> oid)"
proof (cases "find_route (ms_routes s) oid pid eid mid")
  case None
  with run show ?thesis
    by (auto simp: upsert_route_def Let_def find_defs find_value_update_same go_map_simps
        elim!: new_id_runE split: prod.splits sum.splits if_splits)
next
  case (Some y)
  from keyed_find_valueD [OF Some [unfolded find_defs] wf_tables(8) [OF wf]] Some run wf_tables(8) [OF wf]
  show ?thesis
    by (auto simp: upsert_route_def Let_def find_defs go_map_simps
        intro!: find_value_update_found split: if_splits)
qed

lemma upsert_route_again:
  assumes "find_route (ms_routes s) oid pid eid mid = Some x" "map_of (ms_routes s) (sr_id x) = Some x"
    "sr_target_id x = t_id target \<and> sr_enabled x \<and>
     \<not> (t_capacity_mode target = ''dedicated'' \<and> t_owner_organisation_id target \<noteq> oid)"
  shows "run_state (upsert_route now oid pid eid mid target) s = (Inr (x\<lparr>sr_updated_at := now\<rparr>), touch_route now x s)"
proof -
  have "x\<lparr>sr_target_id := t_id target, sr_enabled := True, sr_updated_at := now\<rparr> = x\<lparr>sr_updated_at := now\<rparr>"
    using assms(3) by (cases x) auto
  then show ?thesis using assms by (simp only: upsert_route_def Let_def touch_route_def run_state_bind
    run_state_get run_state_or_return prod.case option.case run_state_return sum.case if_False run_state_update simp_thms if_cancel split: if_splits) simp
qed

lemma issue_key_done:
  assumes "run_state (issue_key sha account scopes) s = (Inr g, t)"
  shows "\<exists>i. t = s\<lparr>ms_keys := AList.update (key_digest g)
      \<lparr>ak_id = i, ak_service_account_id = account, ak_prefix = key_prefix g, ak_digest = key_digest g,
       ak_scopes = scopes, ak_revoked_at = None\<rparr> (ms_keys s), ms_entropy := ms_entropy t\<rparr>"
  using assms unfolding issue_key_def
  by (auto elim!: new_id_runE generate_key_runE intro!: exI mem_store.equality split: prod.splits sum.splits)

lemma provision_key_done:
  assumes run: "run_state (provision_key sha spec r0) s = (Inr r, t)"
    and r0: "pr_scopes r0 = ps_scopes spec" "pr_api_key r0 = []" "\<not> pr_key_created r0"
  shows "t = s\<lparr>ms_keys := ms_keys t, ms_entropy := ms_entropy t\<rparr> \<and>
    (\<exists>k. active_key_for_account t (pr_service_account_id r0) = Some k \<and>
      r\<lparr>pr_api_key := [], pr_key_created := False\<rparr> = r0\<lparr>pr_key_prefix := ak_prefix k, pr_scopes := ak_scopes k\<rparr>)"
proof (cases "active_key_for_account s (pr_service_account_id r0)")
  case (Some k)
  with run r0 show ?thesis by (cases r0) (auto simp: provision_key_def)
next
  case None
  with run obtain g where g: "run_state (issue_key sha (pr_service_account_id r0) (ps_scopes spec)) s = (Inr g, t)"
    and r: "r = r0\<lparr>pr_key_prefix := key_prefix g, pr_api_key := key_token g, pr_key_created := True\<rparr>"
    by (auto simp: provision_key_def split: prod.splits sum.splits)
  from issue_key_done [OF g] obtain i where t: "t = s\<lparr>ms_keys := AList.update (key_digest g)
      \<lparr>ak_id = i, ak_service_account_id = pr_service_account_id r0, ak_prefix = key_prefix g, ak_digest = key_digest g,
       ak_scopes = ps_scopes spec, ak_revoked_at = None\<rparr> (ms_keys s), ms_entropy := ms_entropy t\<rparr>" (is "t = s\<lparr>ms_keys := AList.update _ ?k _, ms_entropy := _\<rparr>") by blast
  have k: "ms_keys t = AList.update (key_digest g) ?k (ms_keys s)" by (subst t) simp
  from None have "active_key_for_account t (pr_service_account_id r0) = Some ?k"
    by (simp add: active_key_for_account_def k find_value_update_same)
  moreover have "t = s\<lparr>ms_keys := ms_keys t, ms_entropy := ms_entropy t\<rparr>" by (subst t, subst k) simp
  ultimately show ?thesis using r r0 by (cases r0) auto
qed

lemma provision_key_again:
  "active_key_for_account s (pr_service_account_id r0) = Some k \<Longrightarrow>
   run_state (provision_key sha spec r0) s = (Inr (r0\<lparr>pr_key_prefix := ak_prefix k, pr_scopes := ak_scopes k\<rparr>), s)"
  by (simp add: provision_key_def)


text \<open>
  C11: provisioning is repeatable: after a successful provisioning run from any reachable store, the
  same specification submitted again returns the same organisation, project, environment, route,
  target, service account, key prefix and scopes, issues no second key, and changes nothing in the
  store except the update time of the route.
\<close>

theorem provision_again:
  assumes reach: "mem_reachable lib sha s" and run: "run_state (provision lib sha now input) s = (Inr r, t)"
  shows "\<exists>rt. map_of (ms_routes t) (pr_route_id r) = Some rt \<and>
    run_state (provision lib sha now' input) t =
      (Inr (r\<lparr>pr_api_key := [], pr_key_created := False\<rparr>), touch_route now' rt t)"
proof -
  from run obtain spec where spec: "validate lib input True = Inr spec"
    by (auto simp: provision_def split: sum.splits)
  from run spec obtain org s1 prj s2 env s3 mdl s4 tgt s5 rt s6 sa s7 where
    r1: "run_state (upsert_organisation spec) s = (Inr org, s1)"
    and r2: "run_state (upsert_project spec (org_id org)) s1 = (Inr prj, s2)"
    and r3: "run_state (upsert_environment spec (org_id org) (prj_id prj)) s2 = (Inr env, s3)"
    and r4: "run_state (upsert_model spec) s3 = (Inr mdl, s4)"
    and r5: "run_state (upsert_target spec (org_id org)) s4 = (Inr tgt, s5)"
    and r6: "run_state (upsert_route now (org_id org) (prj_id prj) (env_id env) (mdl_id mdl) tgt) s5 = (Inr rt, s6)"
    and r7: "run_state (upsert_service_account spec (org_id org) (prj_id prj) (env_id env)) s6 = (Inr sa, s7)"
    and r8: "run_state (provision_key sha spec
              \<lparr>pr_organisation_id = org_id org, pr_project_id = prj_id prj, pr_environment_id = env_id env,
               pr_route_id = sr_id rt, pr_target_id = t_id tgt, pr_service_account_id = sa_id sa,
               pr_key_prefix = [], pr_api_key = [], pr_key_created = False, pr_scopes = ps_scopes spec,
               pr_service_plan_code = []\<rparr>) s7 = (Inr r, t)" (is "run_state (provision_key sha spec ?r0) s7 = _")
    by (simp add: provision_def split: prod.splits sum.splits)
  have w0: "store_wf s" using reach by (rule reachable_wf)
  note w1 = keeps_wf [OF keeps_upsert_organisation r1 w0]
  note w2 = keeps_wf [OF keeps_upsert_project r2 w1]
  note w3 = keeps_wf [OF keeps_upsert_environment r3 w2]
  note w4 = keeps_wf [OF keeps_upsert_model r4 w3]
  note w5 = keeps_wf [OF keeps_upsert_target r5 w4]
  note w6 = keeps_wf [OF keeps_upsert_route r6 w5]
  note d1 = upsert_organisation_done [OF r1 w0]
  note d2 = upsert_project_done [OF r2 w1]
  note d3 = upsert_environment_done [OF r3 w2]
  note d4 = upsert_model_done [OF r4 w3]
  note d5 = upsert_target_done [OF r5 w4]
  note d6 = upsert_route_done [OF r6 w5]
  note d7 = upsert_service_account_done [OF r7 w6]
  from provision_key_done [OF r8] obtain k where
    d8: "t = s7\<lparr>ms_keys := ms_keys t, ms_entropy := ms_entropy t\<rparr>"
    and k: "active_key_for_account t (sa_id sa) = Some k"
    and r: "r\<lparr>pr_api_key := [], pr_key_created := False\<rparr> = ?r0\<lparr>pr_key_prefix := ak_prefix k, pr_scopes := ak_scopes k\<rparr>"
    by auto
  note frames = d8 d7 [THEN conjunct1] d6 [THEN conjunct1] d5 [THEN conjunct1] d4 [THEN conjunct1]
    d3 [THEN conjunct1] d2 [THEN conjunct1]
  have tables: "ms_organisations t = ms_organisations s1" "ms_projects t = ms_projects s2"
    "ms_environments t = ms_environments s3" "ms_models t = ms_models s4" "ms_targets t = ms_targets s5"
    "ms_routes t = ms_routes s6" "ms_service_accounts t = ms_service_accounts s7"
    by (use frames in \<open>auto dest!: arg_cong [of _ _ ms_organisations]\<close>,
        use frames in \<open>auto dest!: arg_cong [of _ _ ms_projects]\<close>,
        use frames in \<open>auto dest!: arg_cong [of _ _ ms_environments]\<close>,
        use frames in \<open>auto dest!: arg_cong [of _ _ ms_models]\<close>,
        use frames in \<open>auto dest!: arg_cong [of _ _ ms_targets]\<close>,
        use frames in \<open>auto dest!: arg_cong [of _ _ ms_routes]\<close>,
        use frames in \<open>auto dest!: arg_cong [of _ _ ms_service_accounts]\<close>)
  have touch: "ms_service_accounts (touch_route now' rt t) = ms_service_accounts t"
    "active_key_for_account (touch_route now' rt t) a = active_key_for_account t a" for a
    by (simp_all add: touch_route_def active_key_for_account_def)
  have "run_state (provision lib sha now' input) t =
      run_state (provision_key sha spec ?r0) (touch_route now' rt t)"
    using d1 d2 d3 d4 d5 d6 d7
    by (simp add: provision_def spec tables touch upsert_organisation_again upsert_project_again
        upsert_environment_again upsert_model_again upsert_target_again upsert_route_again
        upsert_service_account_again)
  moreover have "pr_route_id r = sr_id rt"
    using arg_cong [OF r, of pr_route_id] by simp
  ultimately show ?thesis
    using d6 r by (simp add: provision_key_again touch k tables)
qed

section \<open>Credentials\<close>

lemma authenticate_revoked:
  "map_of (ms_keys s) d = Some k \<Longrightarrow> ak_revoked_at k \<noteq> None \<Longrightarrow> authenticate s d = Inl ErrUnauthenticated"
  by (auto simp: authenticate_def)

definition replaced_keys :: "time \<Rightarrow> api_key \<Rightarrow> (string, api_key) go_map \<Rightarrow> (string, api_key) go_map" where
  "replaced_keys now k keys = AList.update (ak_digest k) k
     (map_values (\<lambda>key. if ak_service_account_id key = ak_service_account_id k \<and> ak_revoked_at key = None
        then key\<lparr>ak_revoked_at := Some now\<rparr> else key) keys)"

lemma authenticate_cong:
  assumes "map_of (ms_keys t) d = map_of (ms_keys s) d" "ms_organisations t = ms_organisations s"
    "ms_projects t = ms_projects s" "ms_environments t = ms_environments s"
    "ms_service_accounts t = ms_service_accounts s"
  shows "authenticate t d = authenticate s d"
  unfolding authenticate_def assms ..

lemma rotate_key_done:
  assumes run: "run_state (rotate_key lib sha now input) s = (Inr kr, t)" and wf: "store_wf s"
  obtains spec org prj env acct k token where
    "validate_rotate lib input = Inr spec"
    "map_of (ms_organisations s) (org_id org) = Some org" "org_slug org = rk_organisation_slug spec"
    "map_of (ms_projects s) (prj_id prj) = Some prj" "prj_slug prj = rk_project_slug spec"
    "map_of (ms_environments s) (env_id env) = Some env" "env_slug env = rk_environment_slug spec"
    "map_of (ms_service_accounts s) (sa_id acct) = Some acct"
    "sa_organisation_id acct = org_id org" "sa_project_id acct = prj_id prj" "sa_environment_id acct = env_id env"
    "sa_name acct = rk_service_account spec"
    "kr = \<lparr>kr_key_prefix = ak_prefix k, kr_api_key = token, kr_scopes = ak_scopes k\<rparr>"
    "ak_digest k = sha token" "ak_scopes k = rk_scopes spec" "ak_revoked_at k = None"
    "ak_service_account_id k = sa_id acct"
    "t = s\<lparr>ms_keys := replaced_keys now k (ms_keys s), ms_entropy := ms_entropy t\<rparr>"
proof -
  from run obtain spec org prj env acct g where
    spec: "validate_rotate lib input = Inr spec"
    and f: "find_organisation (ms_organisations s) (rk_organisation_slug spec) = Some org"
      "find_project (ms_projects s) (org_id org) (rk_project_slug spec) = Some prj"
      "find_environment (ms_environments s) (org_id org) (prj_id prj) (rk_environment_slug spec) = Some env"
      "find_service_account (ms_service_accounts s) (org_id org) (prj_id prj) (env_id env)
         (rk_service_account spec) = Some acct"
    and g: "run_state (issue_key sha (sa_id acct) (rk_scopes spec))
        (snd (run_state (revoke_account_keys now (sa_id acct)) s)) = (Inr g, t)"
    and kr: "kr = \<lparr>kr_key_prefix = key_prefix g, kr_api_key = key_token g, kr_scopes = rk_scopes spec\<rparr>"
    by (auto simp: rotate_key_def split: sum.splits option.splits prod.splits)
  have dig: "key_digest g = sha (key_token g)"
    using g by (auto simp: issue_key_def generate_key_def generate_def
        split: prod.splits sum.splits option.splits dest!: generate_from_InrD)
  from issue_key_done [OF g] obtain i where t: "t = s\<lparr>ms_keys := replaced_keys now
      \<lparr>ak_id = i, ak_service_account_id = sa_id acct, ak_prefix = key_prefix g, ak_digest = key_digest g,
       ak_scopes = rk_scopes spec, ak_revoked_at = None\<rparr> (ms_keys s), ms_entropy := ms_entropy t\<rparr>"
    by (auto simp: revoke_account_keys_def replaced_keys_def)
  note found = keyed_find_valueD [OF f(1) [unfolded find_defs] wf_tables(1) [OF wf]]
    keyed_find_valueD [OF f(2) [unfolded find_defs] wf_tables(2) [OF wf]]
    keyed_find_valueD [OF f(3) [unfolded find_defs] wf_tables(3) [OF wf]]
    keyed_find_valueD [OF f(4) [unfolded find_defs] wf_tables(6) [OF wf]]
  show ?thesis
    by (rule that [OF spec _ _ _ _ _ _ _ _ _ _ _ _ _ _ _ _ t]) (use found kr dig in simp_all)
qed

lemma map_of_replaced_keys:
  "map_of (replaced_keys now k keys) d =
     (if d = ak_digest k then Some k else map_option
       (\<lambda>key. if ak_service_account_id key = ak_service_account_id k \<and> ak_revoked_at key = None
              then key\<lparr>ak_revoked_at := Some now\<rparr> else key) (map_of keys d))"
  by (simp add: replaced_keys_def go_map_simps)

lemma authenticate_replaced:
  assumes t: "ms_keys t = replaced_keys now k (ms_keys s)" "ms_organisations t = ms_organisations s"
    "ms_projects t = ms_projects s" "ms_environments t = ms_environments s"
    "ms_service_accounts t = ms_service_accounts s"
    and wf: "store_wf s" and d: "d \<noteq> ak_digest k"
  shows "authenticate t d = (case authenticate s d of
     Inl e \<Rightarrow> Inl e
   | Inr old \<Rightarrow> if p_service_account_id old = ak_service_account_id k then Inl ErrUnauthenticated else Inr old)"
proof (cases "map_of (ms_keys s) d")
  case None
  with t d show ?thesis by (simp add: authenticate_def map_of_replaced_keys)
next
  case (Some key)
  have id: "sa_id a = i" if "map_of (ms_service_accounts s) i = Some a" for a i
    using keyed_lookup [OF wf_tables(6) [OF wf] that] .
  from Some t d show ?thesis
    by (auto simp: authenticate_def map_of_replaced_keys dest: id split: option.splits)
qed

text \<open>
  C4: after a successful rotation the returned token, and no older token of that account,
  authenticates: it carries the requested scopes (sorted, without duplicates) and the requested
  tenant and account names, every other digest that authenticated as the same account is refused, and
  every other digest is answered as before.
\<close>

theorem rotation_replaces_keys:
  assumes "mem_reachable lib sha s" and "run_state (rotate_key lib sha now input) s = (Inr kr, t)"
  shows "\<exists>pr. authenticate t (sha (kr_api_key kr)) = Inr pr \<and>
    p_key_prefix pr = kr_key_prefix kr \<and>
    p_scopes pr = sorted_list_of_set (set (rk_scopes input)) \<and>
    p_organisation_slug pr = rk_organisation_slug input \<and> p_project_slug pr = rk_project_slug input \<and>
    p_environment_slug pr = rk_environment_slug input \<and>
    p_service_account pr = trim_space (rk_service_account input) \<and>
    (\<forall>d. d \<noteq> sha (kr_api_key kr) \<longrightarrow>
      (case authenticate s d of
         Inl e \<Rightarrow> authenticate t d = Inl e
       | Inr old \<Rightarrow> authenticate t d =
           (if p_service_account_id old = p_service_account_id pr then Inl ErrUnauthenticated else Inr old)))"
proof -
  have wf: "store_wf s" using assms(1) by (rule reachable_wf)
  from rotate_key_done [OF assms(2) wf] obtain spec org prj env acct k token where
    spec: "validate_rotate lib input = Inr spec"
    and org: "map_of (ms_organisations s) (org_id org) = Some org" "org_slug org = rk_organisation_slug spec"
    and prj: "map_of (ms_projects s) (prj_id prj) = Some prj" "prj_slug prj = rk_project_slug spec"
    and env: "map_of (ms_environments s) (env_id env) = Some env" "env_slug env = rk_environment_slug spec"
    and acct: "map_of (ms_service_accounts s) (sa_id acct) = Some acct"
      "sa_organisation_id acct = org_id org" "sa_project_id acct = prj_id prj" "sa_environment_id acct = env_id env"
      "sa_name acct = rk_service_account spec"
    and kr: "kr = \<lparr>kr_key_prefix = ak_prefix k, kr_api_key = token, kr_scopes = ak_scopes k\<rparr>"
    and k: "ak_digest k = sha token" "ak_scopes k = rk_scopes spec" "ak_revoked_at k = None"
      "ak_service_account_id k = sa_id acct"
    and t: "t = s\<lparr>ms_keys := replaced_keys now k (ms_keys s), ms_entropy := ms_entropy t\<rparr>"
    by blast
  have tabs: "ms_keys t = replaced_keys now k (ms_keys s)" "ms_organisations t = ms_organisations s"
    "ms_projects t = ms_projects s" "ms_environments t = ms_environments s"
    "ms_service_accounts t = ms_service_accounts s"
    by (subst t, simp)+
  have "map_of (ms_keys t) (sha token) = Some k" by (simp add: tabs map_of_replaced_keys k)
  then have "\<exists>pr. authenticate t (sha token) = Inr pr \<and> p_service_account_id pr = sa_id acct \<and>
      p_key_prefix pr = ak_prefix k \<and> p_scopes pr = ak_scopes k \<and> p_organisation_slug pr = org_slug org \<and>
      p_project_slug pr = prj_slug prj \<and> p_environment_slug pr = env_slug env \<and> p_service_account pr = sa_name acct"
    using org prj env acct k by (simp add: authenticate_def tabs)
  then show ?thesis
    using authenticate_replaced [OF tabs wf] org prj env acct k kr validate_rotate_fields [OF spec]
    by (auto split: sum.splits)
qed

section \<open>Revocation, the ledger and tenant scope\<close>

text \<open>
  C13: revoking a key by its prefix, when at most one key has that prefix: an unknown prefix is
  \<open>ErrNotFound\<close> and changes nothing; otherwise exactly that key stops authenticating, all others are
  answered as before, and revoking it again succeeds and changes nothing, so the first revocation time
  stays.
\<close>

theorem revocation_refuses_prefix:
  assumes "mem_reachable lib sha s"
    and uniq: "\<forall>d d' k k'. map_of (ms_keys s) d = Some k \<and> map_of (ms_keys s) d' = Some k' \<and>
      ak_prefix k = prefix \<and> ak_prefix k' = prefix \<longrightarrow> d = d'"
    and run: "run_state (revoke_key now prefix) s = (e, t)"
  shows "(case e of
      Some err \<Rightarrow> err = ErrNotFound \<and> t = s \<and> (\<forall>d k. map_of (ms_keys s) d = Some k \<longrightarrow> ak_prefix k \<noteq> prefix)
    | None \<Rightarrow> (\<exists>d k. map_of (ms_keys s) d = Some k \<and> ak_prefix k = prefix \<and>
        authenticate t d = Inl ErrUnauthenticated \<and> (\<forall>d'. d' \<noteq> d \<longrightarrow> authenticate t d' = authenticate s d')) \<and>
        run_state (revoke_key later prefix) t = (None, t))"
proof -
  have kd: "keyed ak_digest (ms_keys s)" using reachable_wf [OF assms(1)] by (rule wf_tables)
  show ?thesis
  proof (cases "find (\<lambda>e. ak_prefix (snd e) = prefix) (ms_keys s)")
    case None
    then have "\<forall>d k. map_of (ms_keys s) d = Some k \<longrightarrow> ak_prefix k \<noteq> prefix"
      by (force simp: find_None_iff dest: map_of_SomeD)
    with None run show ?thesis by (auto simp: revoke_key_def)
  next
    case (Some e0)
    obtain d k where e0: "e0 = (d, k)" by (cases e0)
    from keyed_find [OF kd Some [unfolded e0]] have k: "map_of (ms_keys s) d = Some k" "ak_prefix k = prefix" by auto
    let ?k' = "if ak_revoked_at k = None then k\<lparr>ak_revoked_at := Some now\<rparr> else k"
    have t: "t = s\<lparr>ms_keys := AList.update d ?k' (ms_keys s)\<rparr>" and e: "e = None"
      using run Some e0 k by (auto simp: revoke_key_def update_same split: if_splits)
    have only: "k2 = ?k' \<and> d2 = d" if "map_of (ms_keys t) d2 = Some k2" "ak_prefix k2 = prefix" for d2 k2
      using that uniq [rule_format, of d k d2 k2] k by (cases "ak_revoked_at k") (simp_all add: t go_map_simps split: if_splits)
    have kt: "keyed ak_digest (ms_keys t)" using keeps_wf [OF keeps_revoke_key run reachable_wf [OF assms(1)]] by (rule wf_tables)
    have "find (\<lambda>e. ak_prefix (snd e) = prefix) (ms_keys t) = Some (d, ?k')"
    proof (cases "find (\<lambda>e. ak_prefix (snd e) = prefix) (ms_keys t)")
      case None
      moreover have "(d, ?k') \<in> set (ms_keys t)" by (rule map_of_SomeD) (simp add: t go_map_simps)
      ultimately show ?thesis using k(2) by (force simp: find_None_iff)
    next
      case (Some e1)
      then show ?thesis using keyed_find [OF kt, of _ "fst e1" "snd e1"] only by (cases e1) fastforce
    qed
    then have "run_state (revoke_key later prefix) t = (None, t)"
      by (auto simp: revoke_key_def)
    moreover have "authenticate t d = Inl ErrUnauthenticated"
      by (rule authenticate_revoked [of _ _ ?k']) (auto simp: t go_map_simps)
    moreover have "\<forall>d'. d' \<noteq> d \<longrightarrow> authenticate t d' = authenticate s d'"
      by (intro allI impI authenticate_cong) (simp_all add: t go_map_simps)
    ultimately show ?thesis using k e by auto
  qed
qed

text \<open>
  C3: the ledger is append-only: along every execution from a reachable store, a request its
  tenant could read stays readable, keeps its identity, tenant, credential, alias and start time, keeps
  a route binding once it has one, never loses attempts, and once it has left \<open>in_progress\<close> is never
  changed again; the same for attempts.
\<close>

theorem ledger_rows_grow:
  assumes "mem_reachable lib sha s" and "(mem_step lib sha)\<^sup>*\<^sup>* s t"
  shows "(case get_inference_request s pr rid of
      Inl e \<Rightarrow> e = ErrNotFound
    | Inr r \<Rightarrow> \<exists>r'. get_inference_request t pr rid = Inr r' \<and> request_grows r r') \<and>
    (\<forall>i a. map_of (ms_attempts s) i = Some a \<longrightarrow>
      (\<exists>a'. map_of (ms_attempts t) i = Some a' \<and> attempt_grows a a'))"
proof -
  have g: "ledger_grows s t"
    using mem_steps_advance [OF assms(2)] reachable_wf [OF assms(1)] by (simp add: advances_def)
  then have "\<exists>r'. get_inference_request t pr rid = Inr r' \<and> request_grows r r'"
    if "get_inference_request s pr rid = Inr r" for r
    using that unfolding ledger_grows_def get_inference_request_def
    by (fastforce simp: request_grows_def request_tenant_def split: option.splits if_splits)
  moreover have "e = ErrNotFound" if "get_inference_request s pr rid = Inl e" for e
    using that by (auto simp: get_inference_request_def split: option.splits if_splits)
  ultimately show ?thesis using g by (auto simp: ledger_grows_def split: sum.splits)
qed

text \<open>
  C6: in every reachable store the attempts of a request are numbered 1, 2, ..., up to the
  request's attempt counter, and every one of them went to the target the request was bound to.
\<close>

theorem attempts_are_numbered:
  assumes "mem_reachable lib sha s"
  shows "case map_of (ms_requests s) rid of
      None \<Rightarrow> attempts_for_request s rid = []
    | Some r \<Rightarrow> map pa_attempt_number (attempts_for_request s rid) = [1..ir_attempt_count r] \<and>
        (\<forall>a \<in> set (attempts_for_request s rid). pa_target_id a = ir_bound_target_id r)"
proof -
  have "map pa_attempt_number (sort_key pa_attempt_number as) = [1..n]"
    if "mset (map pa_attempt_number as) = mset [1..n]" for as n
  proof -
    have "map pa_attempt_number (sort_key pa_attempt_number as) = sort (map pa_attempt_number as)"
      by (metis mset_map mset_sort properties_for_sort sorted_sort_key)
    also have "\<dots> = sort [1..n]" using that by (metis properties_for_sort mset_sort sorted_sort)
    also have "\<dots> = [1..n]" by (simp add: sorted_sort_id)
    finally show ?thesis .
  qed
  with reachable_numbered [OF assms, of rid] show ?thesis
    by (auto simp: numbered_def attempts_for_request_def list_all_iff split: option.splits)
qed

text \<open>
  C14: a usage listing returns only requests of the caller's organisation, project and environment
  that match the filter, each as the single-request read returns it, newest first and within the limit;
  a matching request that is not returned means the page says it is truncated, and is no newer than any
  that is.
\<close>

theorem listing_is_tenant_scoped:
  fixes pr :: principal and flt :: usage_filter
  assumes "mem_reachable lib sha s"
  defines "page \<equiv> list_inference_requests s pr flt"
  shows "(\<forall>r \<in> set (rp_requests page). in_filter pr flt r \<and> get_inference_request s pr (ir_id r) = Inr r) \<and>
    sorted_wrt (\<lambda>r r'. ir_started_at r' \<le> ir_started_at r) (rp_requests page) \<and>
    (0 < uf_limit flt \<longrightarrow> int (length (rp_requests page)) \<le> uf_limit flt) \<and>
    (\<forall>rid r. get_inference_request s pr rid = Inr r \<and> in_filter pr flt r \<and> r \<notin> set (rp_requests page) \<longrightarrow>
      rp_truncated page \<and> (\<forall>r' \<in> set (rp_requests page). ir_started_at r \<le> ir_started_at r'))"
proof -
  define items where "items = sort_key (\<lambda>r. - ir_started_at r) (filter (in_filter pr flt) (map snd (ms_requests s)))"
  have kd: "keyed ir_id (ms_requests s)" using reachable_wf [OF assms(1)] by (rule wf_tables)
  have so: "sorted_wrt (\<lambda>r r'. ir_started_at r' \<le> ir_started_at r) items"
    using sorted_sort_key [of "\<lambda>r. - ir_started_at r"] by (simp add: items_def sorted_map)
  have mem: "r \<in> set items \<longleftrightarrow> in_filter pr flt r \<and> (\<exists>k. (k, r) \<in> set (ms_requests s))" for r
    by (force simp: items_def)
  have get: "get_inference_request s pr (ir_id r) = Inr r" if "r \<in> set items" for r
    using that keyed_member [OF kd] by (auto simp: mem get_inference_request_def in_filter_def request_tenant_def tenant_of_def)
  have all: "r \<in> set items" if "get_inference_request s pr rid = Inr r" "in_filter pr flt r" for rid r
    using that by (auto simp: mem get_inference_request_def split: option.splits if_splits dest: map_of_SomeD)
  show ?thesis
  proof (cases "uf_limit flt > 0 \<and> int (length items) > uf_limit flt")
    case False
    then have "page = \<lparr>rp_requests = items, rp_truncated = False\<rparr>"
      by (auto simp: page_def list_inference_requests_def items_def Let_def)
    with so mem get all False show ?thesis by auto
  next
    case True
    let ?n = "nat (uf_limit flt)"
    from True have p: "page = \<lparr>rp_requests = take ?n items, rp_truncated = True\<rparr>"
      by (simp add: page_def list_inference_requests_def items_def Let_def)
    have cut: "sorted_wrt (\<lambda>r r'. ir_started_at r' \<le> ir_started_at r) (take ?n items)"
      "r \<in> set (drop ?n items) \<Longrightarrow> r' \<in> set (take ?n items) \<Longrightarrow> ir_started_at r \<le> ir_started_at r'" for r r'
      using so by (metis append_take_drop_id sorted_wrt_append)+
    have "r \<in> set (drop ?n items)" if "r \<in> set items" "r \<notin> set (take ?n items)" for r
      using that by (metis Un_iff append_take_drop_id set_append)
    with cut mem get all True show ?thesis by (auto simp: p dest: in_set_takeD)
  qed
qed

text \<open>
  C5: a route the store resolves for a principal is the principal's own tenant's, enabled, for the
  requested alias, and never another organisation's dedicated target; and the three ledger writes the
  gateway makes next (create the request, bind it to that route, create attempt 1 on that route's
  target) all succeed when the identifiers are fresh.
\<close>

theorem resolved_route_binds:
  assumes reach: "mem_reachable lib sha s" and res: "resolve_route s pr alias = Inr rt"
    and fresh: "map_of (ms_requests s) rid = None" "map_of (ms_attempts s) aid = None"
  shows "route_tenant rt = tenant_of pr \<and> r_model_alias rt = alias \<and> r_model_enabled rt \<and> r_enabled rt \<and>
    t_enabled (r_target rt) \<and>
    (t_capacity_mode (r_target rt) = ''dedicated'' \<longrightarrow> t_owner_organisation_id (r_target rt) = p_organisation_id pr) \<and>
    fst (run_state (do {
       e1 \<leftarrow> create_inference_request \<lparr>rs_id = rid, rs_principal = pr, rs_model_alias = alias, rs_started_at = t0\<rparr>;
       e2 \<leftarrow> set_inference_request_route rid (r_id rt);
       e3 \<leftarrow> create_provider_attempt \<lparr>as_id = aid, as_inference_request_id = rid, as_target_id = t_id (r_target rt),
               as_attempt_number = 1, as_started_at = t1\<rparr>;
       State_Monad.return [e1, e2, e3] }) s) = [None, None, None]"
proof -
  from res obtain mdl sr target where
    m: "find_model (ms_models s) alias = Some mdl" "mdl_enabled mdl"
    and r: "find_route (ms_routes s) (p_organisation_id pr) (p_project_id pr) (p_environment_id pr) (mdl_id mdl) = Some sr"
      "sr_enabled sr"
    and t: "map_of (ms_targets s) (sr_target_id sr) = Some target" "t_enabled target"
      "t_capacity_mode target = ''dedicated'' \<longrightarrow> t_owner_organisation_id target = p_organisation_id pr"
    and rt: "rt = materialise_route sr mdl target"
    by (auto simp: resolve_route_def split: option.splits if_splits)
  have wf: "store_wf s" using reach by (rule reachable_wf)
  note m' = keyed_find_valueD [OF m(1) [unfolded find_defs] wf_tables(4) [OF wf]]
  note r' = keyed_find_valueD [OF r(1) [unfolded find_defs] wf_tables(8) [OF wf]]
  have ne: "sr_id sr \<noteq> []" "t_id target = sr_target_id sr" "sr_target_id sr \<noteq> []"
    using wf_route_key [OF wf conjunct2 [OF r']] wf_target_key [OF wf t(1)] by auto
  show ?thesis
    using m r t m' r' ne fresh
    by (simp add: rt materialise_route_def route_tenant_def tenant_of_def create_inference_request_def
        set_inference_request_route_def create_provider_attempt_def put_request_def new_request_def go_map_simps)
qed

section \<open>A sample execution\<close>

text \<open>
  An empty store with enough entropy, provisioned once: identifiers are spelled by the byte they
  repeat, the digest function is the identity.
\<close>

definition sample_entropy :: "string option list" where
  "sample_entropy = map (\<lambda>(n, c). Some (replicate n c))
     [(16, CHR 0x01), (16, CHR 0x02), (16, CHR 0x03), (16, CHR 0x04), (16, CHR 0x05), (16, CHR 0x06),
      (16, CHR 0x07), (8, CHR 0x11), (24, CHR 0x12), (16, CHR 0x08), (8, CHR 0x21), (24, CHR 0x22),
      (16, CHR 0x09)]"

definition sample_id :: "string \<Rightarrow> char \<Rightarrow> string" where
  "sample_id pre c = pre @ ''_'' @ hex_encode (replicate 16 c)"

definition sample_prefix :: "char \<Rightarrow> string" where
  "sample_prefix c = token_marker @ hex_encode (replicate 8 c)"

definition sample_token :: "char \<Rightarrow> char \<Rightarrow> string" where
  "sample_token c d = token_marker @ hex_encode (replicate 8 c) @ ''.'' @ b64_encode (replicate 24 d)"

definition sample_scopes :: "string list" where
  "sample_scopes = [''inference:write'', ''usage:read'']"

definition sample_valid :: provision_spec where
  "sample_valid = (rotation_template sample_rotation)
     \<lparr>ps_service_account := ''app'', ps_target_base_url := ''https://host/v1'', ps_probe_interval := 5 * minute,
      ps_scopes := sample_scopes\<rparr>"

definition sample_target :: target where
  "sample_target = zero_target
     \<lparr>t_id := sample_id ''tgt'' CHR 0x05, t_name := ''validation'', t_execution_class := ''external_pilot'',
      t_capacity_mode := ''shared'', t_base_url := ''https://host/v1'', t_provider_model := ''validation'',
      t_secret_ref := ''VALIDATION_SECRET'', t_timeout := nanosecond_per_second, t_max_attempts := 1,
      t_enabled := True, t_health_status := ''unknown''\<rparr>"

definition sample_store :: mem_store where
  "sample_store =
     (let oid = sample_id ''org'' CHR 0x01; pid = sample_id ''prj'' CHR 0x02; eid = sample_id ''env'' CHR 0x03;
          mid = sample_id ''mdl'' CHR 0x04; rid = sample_id ''rte'' CHR 0x06; aid = sample_id ''sa'' CHR 0x07
      in (new_store (drop 10 sample_entropy))
       \<lparr>ms_organisations := [(oid, \<lparr>org_id = oid, org_slug = ''tenant'', org_name = ''validation''\<rparr>)],
        ms_projects := [(pid, \<lparr>prj_id = pid, prj_organisation_id = oid, prj_slug = ''app'', prj_name = ''validation''\<rparr>)],
        ms_environments := [(eid, \<lparr>env_id = eid, env_organisation_id = oid, env_project_id = pid,
          env_slug = ''production'', env_name = ''validation''\<rparr>)],
        ms_models := [(mid, \<lparr>mdl_id = mid, mdl_alias = ''validation'', mdl_version = ''validation'', mdl_enabled = True\<rparr>)],
        ms_targets := [(t_id sample_target, sample_target)],
        ms_routes := [(rid, \<lparr>sr_id = rid, sr_organisation_id = oid, sr_project_id = pid, sr_environment_id = eid,
          sr_model_id = mid, sr_target_id = t_id sample_target, sr_binding_generation = 1, sr_enabled = True,
          sr_created_at = 1000, sr_updated_at = 1000\<rparr>)],
        ms_service_accounts := [(aid, \<lparr>sa_id = aid, sa_organisation_id = oid, sa_project_id = pid,
          sa_environment_id = eid, sa_name = ''app''\<rparr>)],
        ms_keys := [(sample_token CHR 0x11 CHR 0x12, \<lparr>ak_id = sample_id ''key'' CHR 0x08, ak_service_account_id = aid,
          ak_prefix = sample_prefix CHR 0x11, ak_digest = sample_token CHR 0x11 CHR 0x12, ak_scopes = sample_scopes,
          ak_revoked_at = None\<rparr>)]\<rparr>)"

definition sample_result :: provision_result where
  "sample_result =
     \<lparr>pr_organisation_id = sample_id ''org'' CHR 0x01, pr_project_id = sample_id ''prj'' CHR 0x02,
      pr_environment_id = sample_id ''env'' CHR 0x03, pr_route_id = sample_id ''rte'' CHR 0x06,
      pr_target_id = sample_id ''tgt'' CHR 0x05, pr_service_account_id = sample_id ''sa'' CHR 0x07,
      pr_key_prefix = sample_prefix CHR 0x11, pr_api_key = sample_token CHR 0x11 CHR 0x12, pr_key_created = True,
      pr_scopes = sample_scopes, pr_service_plan_code = []\<rparr>"

lemma sample_valid: "validate plain_url_lib sample_spec True = Inr sample_valid"
proof -
  have "case validate plain_url_lib sample_spec True of Inl e \<Rightarrow> False | Inr v \<Rightarrow> v = sample_valid"
    by code_simp
  then show ?thesis by (simp split: sum.splits)
qed

lemma new_id_draw:
  "ms_entropy s = Some (replicate 16 c) # rest \<Longrightarrow>
   run_state (new_id pre) s = (Inr (sample_id pre c), s\<lparr>ms_entropy := rest\<rparr>)"
  by (simp add: new_id_def read_full_def ids_from_def sample_id_def)

lemma generate_key_draw:
  "ms_entropy s = Some (replicate 8 c) # Some (replicate 24 d) # rest \<Longrightarrow>
   run_state (generate_key sha) s = (Inr \<lparr>key_token = sample_token c d,
      key_prefix = sample_prefix c, key_digest = sha (sample_token c d)\<rparr>, s\<lparr>ms_entropy := rest\<rparr>)"
  by (simp add: generate_key_def read_full_def generate_def generate_from_def Let_def sample_token_def sample_prefix_def)

lemma sample_provision:
  "run_state (provision plain_url_lib id 1000 sample_spec) (new_store sample_entropy) = (Inr sample_result, sample_store)"
  by (simp add: provision_def sample_valid upsert_organisation_def upsert_project_def upsert_environment_def
      upsert_model_def upsert_target_def upsert_route_def upsert_service_account_def provision_key_def issue_key_def
      find_defs Let_def new_store_def new_id_draw generate_key_draw sample_entropy_def configure_target_def
      target_owner_def sample_valid_def rotation_template_def zero_target_def sample_rotation_def
      sample_result_def sample_store_def sample_target_def)

lemma sample_reachable: "mem_reachable plain_url_lib id sample_store"
  unfolding mem_reachable_def using step_provision [OF sample_provision] by blast

lemma reachable_step: "mem_reachable lib sha s \<Longrightarrow> mem_step lib sha s t \<Longrightarrow> mem_reachable lib sha t"
  unfolding mem_reachable_def by (meson rtranclp.rtrancl_into_rtrancl)

lemmas sample_defs = sample_store_def sample_target_def sample_entropy_def new_store_def zero_target_def Let_def
  
theorem provision_again_witness:
  "\<exists>rt. run_state (provision plain_url_lib id 2000 sample_spec) sample_store =
     (Inr (sample_result\<lparr>pr_api_key := [], pr_key_created := False\<rparr>), touch_route 2000 rt sample_store)"
  using provision_again [OF _ sample_provision, of 2000] by (auto simp: mem_reachable_def)

lemma sample_rotation_valid:
  "validate_rotate plain_url_lib sample_rotation =
     Inr (sample_rotation\<lparr>rk_service_account := ''app'', rk_scopes := sample_scopes\<rparr>)"
proof -
  have "case validate_rotate plain_url_lib sample_rotation of Inl e \<Rightarrow> False
    | Inr v \<Rightarrow> v = sample_rotation\<lparr>rk_service_account := ''app'', rk_scopes := sample_scopes\<rparr>"
    by code_simp
  then show ?thesis by (simp split: sum.splits)
qed

lemma sample_rotation_fields:
  "rk_organisation_slug sample_rotation = ''tenant''" "rk_project_slug sample_rotation = ''app''"
  "rk_environment_slug sample_rotation = ''production''"
  by (simp_all add: sample_rotation_def)

lemma sample_rotate:
  "fst (run_state (rotate_key plain_url_lib id 2000 sample_rotation) sample_store) =
     Inr \<lparr>kr_key_prefix = sample_prefix CHR 0x21, kr_api_key = sample_token CHR 0x21 CHR 0x22, kr_scopes = sample_scopes\<rparr>"
  by (simp add: rotate_key_def sample_rotation_valid sample_rotation_fields find_defs revoke_account_keys_def issue_key_def
      new_id_draw generate_key_draw sample_defs)

lemma sample_tokens_differ: "sample_token CHR 0x21 CHR 0x22 \<noteq> sample_token CHR 0x11 CHR 0x12"
  by (simp add: sample_token_def append_eq_append_conv hex_encode_inject)

definition sample_principal :: principal where
  "sample_principal = zero_principal
     \<lparr>p_organisation_id := sample_id ''org'' CHR 0x01, p_organisation_name := ''validation'',
      p_organisation_slug := ''tenant'', p_project_id := sample_id ''prj'' CHR 0x02,
      p_project_name := ''validation'', p_project_slug := ''app'',
      p_environment_id := sample_id ''env'' CHR 0x03, p_environment_name := ''validation'',
      p_environment_slug := ''production'', p_service_account_id := sample_id ''sa'' CHR 0x07,
      p_service_account := ''app'', p_api_key_id := sample_id ''key'' CHR 0x08,
      p_key_prefix := sample_prefix CHR 0x11, p_scopes := sample_scopes\<rparr>"

lemma sample_authenticate: "authenticate sample_store (sample_token CHR 0x11 CHR 0x12) = Inr sample_principal"
  by (simp add: authenticate_def sample_defs sample_principal_def)

theorem rotation_replaces_keys_witness:
  "\<exists>t pr. run_state (rotate_key plain_url_lib id 2000 sample_rotation) sample_store =
      (Inr \<lparr>kr_key_prefix = sample_prefix CHR 0x21, kr_api_key = sample_token CHR 0x21 CHR 0x22,
           kr_scopes = sample_scopes\<rparr>, t) \<and>
    authenticate t (sample_token CHR 0x21 CHR 0x22) = Inr pr \<and> p_service_account pr = ''app'' \<and>
    (p_service_account_id pr = sample_id ''sa'' CHR 0x07 \<longrightarrow>
       authenticate t (sample_token CHR 0x11 CHR 0x12) = Inl ErrUnauthenticated)"
proof -
  obtain t where t: "run_state (rotate_key plain_url_lib id 2000 sample_rotation) sample_store =
      (Inr \<lparr>kr_key_prefix = sample_prefix CHR 0x21, kr_api_key = sample_token CHR 0x21 CHR 0x22,
           kr_scopes = sample_scopes\<rparr>, t)"
    using sample_rotate by (metis prod.collapse)
  have "trim_space (rk_service_account sample_rotation) = ''app''" by code_simp
  moreover have "p_service_account_id sample_principal = sample_id ''sa'' CHR 0x07" by (simp add: sample_principal_def)
  ultimately show ?thesis
    using rotation_replaces_keys [OF sample_reachable t] t sample_tokens_differ [symmetric] sample_authenticate
    by (fastforce dest: spec [of _ "sample_token CHR 0x11 CHR 0x12"])
qed

theorem revocation_refuses_prefix_witness:
  "\<exists>t d. run_state (revoke_key 3000 (sample_prefix CHR 0x11)) sample_store = (None, t) \<and>
    authenticate t d = Inl ErrUnauthenticated \<and> authenticate sample_store d = Inr sample_principal"
proof -
  have only: "map_of (ms_keys sample_store) d = Some k \<Longrightarrow> d = sample_token CHR 0x11 CHR 0x12" for d k
    by (simp add: sample_defs split: if_splits)
  have "fst (run_state (revoke_key 3000 (sample_prefix CHR 0x11)) sample_store) = None"
    by (simp add: revoke_key_def sample_defs)
  then obtain t where t: "run_state (revoke_key 3000 (sample_prefix CHR 0x11)) sample_store = (None, t)"
    by (metis prod.collapse)
  have uniq: "\<forall>d d' k k'. map_of (ms_keys sample_store) d = Some k \<and> map_of (ms_keys sample_store) d' = Some k' \<and>
      ak_prefix k = sample_prefix CHR 0x11 \<and> ak_prefix k' = sample_prefix CHR 0x11 \<longrightarrow> d = d'"
    using only by blast
  from revocation_refuses_prefix [OF sample_reachable uniq t, of 4000]
  have "\<exists>d k. map_of (ms_keys sample_store) d = Some k \<and> authenticate t d = Inl ErrUnauthenticated"
    by auto
  with only t sample_authenticate show ?thesis by blast
qed

definition sample_start :: request_start where
  "sample_start = \<lparr>rs_id = ''req_1'', rs_principal = sample_principal, rs_model_alias = ''validation'', rs_started_at = 5000\<rparr>"

definition sample_request :: inference_request where
  "sample_request = (new_request sample_start)
     \<lparr>ir_route_id := sample_id ''rte'' CHR 0x06, ir_bound_target_id := sample_id ''tgt'' CHR 0x05,
      ir_bound_model_id := sample_id ''mdl'' CHR 0x04, ir_route_binding_generation := 1, ir_attempt_count := 1\<rparr>"

definition sample_attempt :: attempt_start where
  "sample_attempt = \<lparr>as_id = ''att_1'', as_inference_request_id = ''req_1'',
     as_target_id = sample_id ''tgt'' CHR 0x05, as_attempt_number = 1, as_started_at = 5001\<rparr>"

definition sample_ledger :: mem_store where
  "sample_ledger = sample_store\<lparr>ms_requests := [(''req_1'', sample_request)],
     ms_attempts := [(''att_1'', new_attempt sample_attempt)]\<rparr>"

lemma sample_binding:
  "run_state (create_inference_request sample_start) sample_store = (None, put_request (new_request sample_start) sample_store)"
  "run_state (set_inference_request_route ''req_1'' (sample_id ''rte'' CHR 0x06))
     (put_request (new_request sample_start) sample_store) =
   (None, put_request (sample_request\<lparr>ir_attempt_count := 0\<rparr>) sample_store)"
  "run_state (create_provider_attempt sample_attempt) (put_request (sample_request\<lparr>ir_attempt_count := 0\<rparr>) sample_store) =
   (None, sample_ledger)"
  by (simp_all add: create_inference_request_def set_inference_request_route_def create_provider_attempt_def
      put_request_def sample_defs sample_start_def sample_request_def sample_attempt_def sample_ledger_def new_request_def
      sample_principal_def zero_principal_def sample_id_def)

lemma sample_ledger_reachable: "mem_reachable plain_url_lib id sample_ledger"
  using sample_reachable step_create_request [OF sample_binding(1)] step_set_route [OF sample_binding(2)]
    step_create_attempt [OF sample_binding(3)] reachable_step by metis

theorem attempts_are_numbered_witness:
  "map pa_attempt_number (attempts_for_request sample_ledger ''req_1'') = [1] \<and>
   map pa_target_id (attempts_for_request sample_ledger ''req_1'') = [sample_id ''tgt'' CHR 0x05]"
proof -
  let ?as = "attempts_for_request sample_ledger ''req_1''"
  have n: "map pa_attempt_number ?as = [1]" and to: "\<forall>a \<in> set ?as. pa_target_id a = sample_id ''tgt'' CHR 0x05"
    using attempts_are_numbered [OF sample_ledger_reachable, of "''req_1''"]
    by (simp_all add: sample_ledger_def sample_request_def)
  then obtain a where "?as = [a]" by (cases ?as) auto
  with n to show ?thesis by simp
qed

theorem ledger_rows_grow_witness:
  "\<exists>t r'. mem_step plain_url_lib id sample_ledger t \<and>
     get_inference_request t sample_principal ''req_1'' = Inr r' \<and> request_grows sample_request r'"
proof -
  obtain e t where t: "run_state (revoke_key 3000 (sample_prefix CHR 0x11)) sample_ledger = (e, t)" by fastforce
  then have st: "mem_step plain_url_lib id sample_ledger t" by (rule step_revoke)
  have "get_inference_request sample_ledger sample_principal ''req_1'' = Inr sample_request"
    by (simp add: get_inference_request_def sample_ledger_def sample_request_def new_request_def sample_start_def)
  with ledger_rows_grow [OF sample_ledger_reachable r_into_rtranclp [of "mem_step plain_url_lib id", OF st],
      of sample_principal "''req_1''"] st
  show ?thesis by auto
qed

definition sample_filter :: usage_filter where
  "sample_filter = \<lparr>uf_from = zero_time, uf_to = 6000, uf_model_alias = [], uf_limit = 5\<rparr>"

theorem listing_is_tenant_scoped_witness:
  "rp_requests (list_inference_requests sample_ledger sample_principal sample_filter) = [sample_request] \<and>
   in_filter sample_principal sample_filter sample_request"
proof -
  have r: "rp_requests (list_inference_requests sample_ledger sample_principal sample_filter) = [sample_request]"
    by (simp add: list_inference_requests_def sample_ledger_def in_filter_def sample_request_def new_request_def
        sample_start_def request_tenant_def tenant_of_def sample_filter_def zero_time_def)
  then show ?thesis
    using listing_is_tenant_scoped [OF sample_ledger_reachable, of sample_principal sample_filter] by simp
qed

definition sample_route :: route where
  "sample_route =
     \<lparr>r_id = sample_id ''rte'' CHR 0x06, r_organisation_id = sample_id ''org'' CHR 0x01,
      r_project_id = sample_id ''prj'' CHR 0x02, r_environment_id = sample_id ''env'' CHR 0x03,
      r_model_id = sample_id ''mdl'' CHR 0x04, r_model_alias = ''validation'', r_model_version = ''validation'',
      r_model_enabled = True, r_binding_generation = 1, r_enabled = True, r_target = sample_target,
      r_created_at = 1000, r_updated_at = 1000\<rparr>"

theorem resolved_route_binds_witness:
  "resolve_route sample_store sample_principal ''validation'' = Inr sample_route \<and>
   fst (run_state (do {
       e1 \<leftarrow> create_inference_request sample_start;
       e2 \<leftarrow> set_inference_request_route ''req_1'' (r_id sample_route);
       e3 \<leftarrow> create_provider_attempt sample_attempt;
       State_Monad.return [e1, e2, e3] }) sample_store) = [None, None, None]"
proof -
  have res: "resolve_route sample_store sample_principal ''validation'' = Inr sample_route"
    by (simp add: resolve_route_def find_defs sample_store_def new_store_def Let_def sample_principal_def
        materialise_route_def sample_route_def) (simp add: sample_target_def)
  have "map_of (ms_requests sample_store) ''req_1'' = None" "map_of (ms_attempts sample_store) ''att_1'' = None"
    by (simp_all add: sample_defs)
  from resolved_route_binds [OF sample_reachable res this, of 5000 5001] res show ?thesis
    by (simp add: sample_start_def sample_attempt_def sample_route_def sample_target_def)
qed

end
