(* ===== verification/Gateway_Accounting.thy ===== *)
theory Gateway_Accounting
  imports Gateway_Serve Memory_Properties
begin

text \<open>
  What the handler does to the ledger, the provider and the response: every request is answered once,
  the ledger's row of the request says what was answered, and the provider is called at most once per
  recorded attempt. The lemmas are about any store that satisfies \<open>request_ledger\<close>; the properties
  state them for the in-memory store.
\<close>

section \<open>Relations an attempt keeps\<close>

text \<open>
  A relation between worlds that is kept by the tick, by completing an attempt and, for streams, by the
  sink is kept by everything an attempt does after its call.
\<close>

lemma preserves_call:
  "(\<And>w. R w (w\<lparr>w_tick := w_tick w + 1\<rparr>)) \<Longrightarrow> preserves R (ask f)"
  by (simp add: preserves_def ask_def next_tick_def)

locale attempt_relation = step_preorder R for R :: "'s world \<Rightarrow> 's world \<Rightarrow> bool" +
  fixes ops :: "'s store_ops"
  assumes tick: "R w (w\<lparr>w_tick := w_tick w + 1\<rparr>)"
    and completes: "preserves R (on_store (st_complete_provider_attempt ops af))"
begin

lemma pres_ask: "preserves R (ask f)"
  by (rule preserves_call) (rule tick)

lemma pres_now: "preserves R (now_at env)"
  by (simp add: now_at_def pres_ask)

lemma pres_complete: "preserves R (complete_attempt env ops aid started status class pid pstatus usage finality)"
  unfolding complete_attempt_def by (intro pres_bind pres_now completes)

lemma pres_finish_with: "preserves R m \<Longrightarrow> preserves R (finish_with m result)"
  unfolding finish_with_def by (intro pres_bind pres_return)

lemma pres_let: "(\<And>x. preserves R (f x)) \<Longrightarrow> preserves R (Let a f)"
  by (simp add: Let_def)

lemma pres_prod: "(\<And>a b. preserves R (f a b)) \<Longrightarrow> preserves R (case x of (a, b) \<Rightarrow> f a b)"
  by (cases x) simp

lemmas attempt_rules = pres_rules pres_let pres_prod pres_ask pres_now pres_complete pres_finish_with

lemma pres_transport_error:
  "(\<And>st cl pid ps. preserves R (finish st cl pid ps)) \<Longrightarrow> preserves R (transport_error env finish pid st neither)"
  unfolding transport_error_def by (intro attempt_rules)

lemma pres_refused:
  "(\<And>st cl pid ps. preserves R (finish st cl pid ps)) \<Longrightarrow> preserves R (refused_reply env finish pid reply)"
  unfolding refused_reply_def by (intro attempt_rules)

lemma pres_http_reply:
  "(\<And>st cl pid ps. preserves R (finish st cl pid ps)) \<Longrightarrow> preserves R (http_reply_result env cfg finish reply)"
  unfolding http_reply_result_def by (intro attempt_rules pres_transport_error pres_refused)

lemma pres_bifrost_failure:
  "(\<And>st cl pid ps us fin. preserves R (finish st cl pid ps us fin)) \<Longrightarrow> preserves R (bifrost_failure env finish e)"
  unfolding bifrost_failure_def by (intro attempt_rules)

lemma pres_bifrost_reply:
  "(\<And>st cl pid ps us fin. preserves R (finish st cl pid ps us fin)) \<Longrightarrow> preserves R (bifrost_reply cfg finish r)"
  unfolding bifrost_reply_def by (intro attempt_rules)

lemma pres_wait: "preserves R (wait_for env delay)"
  unfolding wait_for_def by (intro attempt_rules)

end

locale stream_relation = attempt_relation +
  assumes sink: "preserves R (sink_write env body)"
begin

lemma pres_read_failure:
  "(\<And>st cl pid ps. preserves R (finish st cl pid ps)) \<Longrightarrow> preserves R (stream_read_failure env finish state status e)"
  unfolding stream_read_failure_def by (intro attempt_rules)

lemma pres_stream_invalid:
  "(\<And>st cl pid ps. preserves R (finish st cl pid ps)) \<Longrightarrow> preserves R (stream_invalid finish state status msg)"
  unfolding stream_invalid_def by (intro attempt_rules)

lemma pres_write_failure:
  "(\<And>st cl pid ps. preserves R (finish st cl pid ps)) \<Longrightarrow> preserves R (stream_write_failure finish state status)"
  unfolding stream_write_failure_def by (intro attempt_rules)

lemma pres_stream_done:
  "(\<And>st cl pid ps. preserves R (finish st cl pid ps)) \<Longrightarrow>
   preserves R (stream_done env finish encoder enc status state held raw)"
  unfolding stream_done_def by (intro attempt_rules pres_stream_invalid pres_write_failure sink)

lemma pres_stream_frames:
  assumes "\<And>st cl pid ps. preserves R (finish st cl pid ps)"
  shows "preserves R (stream_frames env cfg finish encoder status fs state held n enc)"
proof (induction fs arbitrary: state held n enc)
  case (Cons f fs)
  show ?case
    unfolding stream_frames.simps Let_def
    by (intro attempt_rules pres_stream_invalid pres_write_failure pres_read_failure pres_stream_done sink assms Cons.IH)
qed (simp add: pres_return)

lemma pres_stream_reply:
  "(\<And>st cl pid ps. preserves R (finish st cl pid ps)) \<Longrightarrow> preserves R (stream_reply env cfg finish encoder reply enc)"
  unfolding stream_reply_def Let_def
  by (intro attempt_rules pres_transport_error pres_refused pres_stream_frames)

end

section \<open>The store, the calls and the response\<close>

definition quiet :: "('s \<Rightarrow> string \<rightharpoonup> inference_request) \<Rightarrow> ('s \<Rightarrow> bool) \<Rightarrow> 's world \<Rightarrow> 's world \<Rightarrow> bool" where
  "quiet row good w w' \<longleftrightarrow>
     (good (w_store w) \<longrightarrow> good (w_store w') \<and> row (w_store w') = row (w_store w) \<and> w_calls w' = w_calls w)"

definition unanswered :: "'s world \<Rightarrow> 's world \<Rightarrow> bool" where
  "unanswered w w' \<longleftrightarrow> w_writer w' = w_writer w \<and> w_committed w' = w_committed w"

text \<open>Committed exactly when a status line was sent, and then with status 200.\<close>

definition writer_ok :: "'s world \<Rightarrow> bool" where
  "writer_ok w \<longleftrightarrow>
     (if w_committed w then response_status (w_writer w) = Some 200 else rw_sent (w_writer w) = None)"

definition streams :: "'s world \<Rightarrow> 's world \<Rightarrow> bool" where
  "streams w w' \<longleftrightarrow>
     (writer_ok w \<longrightarrow> writer_ok w' \<and> (w_committed w \<longrightarrow> w_committed w') \<and>
        (\<not> w_committed w' \<longrightarrow> w_writer w' = w_writer w))"

lemma run_on_store:
  "run_state (on_store m) w = (case run_state m (w_store w) of (a, s) \<Rightarrow> (a, w\<lparr>w_store := s\<rparr>))"
  by (simp add: on_store_def split: prod.splits)

lemma run_ask [simp]: "run_state (ask f) w = (f (w_tick w), w\<lparr>w_tick := w_tick w + 1\<rparr>)"
  by (simp add: ask_def next_tick_def)

lemma run_call [simp]:
  "run_state (call_upstream call f) w =
     (f (w_tick w) call, w\<lparr>w_calls := w_calls w @ [call], w_tick := w_tick w + 1\<rparr>)"
  by (simp add: call_upstream_def)

lemma run_respond [simp]: "run_state (respond f) w = ((), w\<lparr>w_writer := f (w_writer w)\<rparr>)"
  by (simp add: respond_def)

lemma on_store_preserves: "(\<And>w a s. run_state m (w_store w) = (a, s) \<Longrightarrow> R w (w\<lparr>w_store := s\<rparr>)) \<Longrightarrow> preserves R (on_store m)"
  by (rule preservesI) (auto simp: run_on_store split: prod.splits)

interpretation unanswered: attempt_relation unanswered ops for ops
  by unfold_locales (auto simp: unanswered_def intro!: on_store_preserves)

lemma sink_streams: "preserves streams (sink_write env body)"
proof (rule preservesI)
  fix w :: "'s world" and a w' assume run: "run_state (sink_write env body) w = (a, w')"
  show "streams w w'"
    using run
    by (auto simp: sink_write_def streams_def writer_ok_def write_header_def write_payload_def set_header_def
        response_status_def Let_def split: if_splits option.splits)
qed

interpretation streams: stream_relation streams ops for ops
proof
  show "preserves streams (sink_write env body :: ('a world, bool) state)" for env body by (rule sink_streams)
qed (auto simp: streams_def writer_ok_def intro!: on_store_preserves)

lemma sink_quiet: "preserves (quiet row good) (sink_write env body)"
  by (rule preservesI) (auto simp: sink_write_def quiet_def split: if_splits)

sublocale request_ledger < quiet: stream_relation "quiet row good" ops
proof
  show "preserves (quiet row good) (on_store (st_complete_provider_attempt ops af))" for af
    using finish_attempt_rows by (intro on_store_preserves) (auto simp: quiet_def)
  show "preserves (quiet row good) (sink_write env body)" for env body by (rule sink_quiet)
qed (auto simp: quiet_def)

section \<open>Attempts\<close>

text \<open>
  \<open>attempted P k w w'\<close>: between the two worlds at most \<open>k\<close> attempts were recorded in the row of request
  \<open>rid\<close>, and nothing else changed in any row; the calls made in between satisfy \<open>P\<close> and are no more than
  the attempts.
\<close>

definition count_attempts :: "nat \<Rightarrow> inference_request \<Rightarrow> inference_request" where
  "count_attempts n q = q\<lparr>ir_attempt_count := ir_attempt_count q + int n\<rparr>"

definition with_attempts ::
  "string \<Rightarrow> nat \<Rightarrow> (string \<rightharpoonup> inference_request) \<Rightarrow> (string \<rightharpoonup> inference_request)" where
  "with_attempts rid n r = r(rid := map_option (count_attempts n) (r rid))"

lemma with_attempts_0 [simp]: "with_attempts rid 0 r = r"
  by (cases "r rid") (auto simp: with_attempts_def count_attempts_def fun_eq_iff)

lemma with_attempts_add [simp]: "with_attempts rid m (with_attempts rid n r) = with_attempts rid (n + m) r"
  by (cases "r rid") (auto simp: with_attempts_def fun_eq_iff count_attempts_def)

definition attempted ::
  "('s \<Rightarrow> string \<rightharpoonup> inference_request) \<Rightarrow> ('s \<Rightarrow> bool) \<Rightarrow> string \<Rightarrow> (upstream_call \<Rightarrow> bool) \<Rightarrow> nat \<Rightarrow>
   's world \<Rightarrow> 's world \<Rightarrow> bool" where
  "attempted row good rid P k w w' \<longleftrightarrow>
     (good (w_store w) \<longrightarrow> good (w_store w') \<and>
        (\<exists>n cs. n \<le> k \<and> row (w_store w') = with_attempts rid n (row (w_store w)) \<and>
           w_calls w' = w_calls w @ cs \<and> list_all P cs \<and> length cs \<le> n))"

lemma attempted_refl: "attempted row good rid P k w w"
  unfolding attempted_def by (auto intro!: exI [of _ 0] exI [of _ "[]"])

lemma attempted_trans:
  assumes "attempted row good rid P k w w1" "attempted row good rid P l w1 w2"
  shows "attempted row good rid P (k + l) w w2"
  unfolding attempted_def
proof (intro impI)
  assume g: "good (w_store w)"
  from assms(1) g obtain n cs where 1: "good (w_store w1)" "n \<le> k" "row (w_store w1) = with_attempts rid n (row (w_store w))"
      "w_calls w1 = w_calls w @ cs" "list_all P cs" "length cs \<le> n"
    by (auto simp: attempted_def)
  from assms(2) 1(1) obtain m ds where 2: "good (w_store w2)" "m \<le> l" "row (w_store w2) = with_attempts rid m (row (w_store w1))"
      "w_calls w2 = w_calls w1 @ ds" "list_all P ds" "length ds \<le> m"
    by (auto simp: attempted_def)
  show "good (w_store w2) \<and> (\<exists>n cs. n \<le> k + l \<and> row (w_store w2) = with_attempts rid n (row (w_store w)) \<and>
      w_calls w2 = w_calls w @ cs \<and> list_all P cs \<and> length cs \<le> n)"
    using 1 2 by (intro conjI exI [of _ "n + m"] exI [of _ "cs @ ds"]) auto
qed

lemma quiet_attempted: "quiet row good w w' \<Longrightarrow> attempted row good rid P k w w'"
  unfolding quiet_def attempted_def by (auto intro!: exI [of _ 0] exI [of _ "[]"])

lemma attempted_quiet: "attempted row good rid P k w w1 \<Longrightarrow> quiet row good w1 w2 \<Longrightarrow> attempted row good rid P k w w2"
  using attempted_trans [OF _ quiet_attempted [where k = 0]] by fastforce

lemma quiet_then_attempted: "quiet row good w w1 \<Longrightarrow> attempted row good rid P k w1 w2 \<Longrightarrow> attempted row good rid P k w w2"
  using attempted_trans [OF quiet_attempted [where k = 0]] by fastforce

text \<open>What runs after the row of an attempt was created: at most one call.\<close>

definition calls_once ::
  "('s \<Rightarrow> string \<rightharpoonup> inference_request) \<Rightarrow> ('s \<Rightarrow> bool) \<Rightarrow> (upstream_call \<Rightarrow> bool) \<Rightarrow> 's world \<Rightarrow> 's world \<Rightarrow> bool" where
  "calls_once row good P w w' \<longleftrightarrow>
     (good (w_store w) \<longrightarrow> good (w_store w') \<and> row (w_store w') = row (w_store w) \<and>
        (\<exists>cs. w_calls w' = w_calls w @ cs \<and> list_all P cs \<and> length cs \<le> 1))"

lemma quiet_calls_once: "quiet row good w w' \<Longrightarrow> calls_once row good P w w'"
  by (auto simp: quiet_def calls_once_def intro: exI [of _ "[]"])

lemma preserves_quiet_once: "preserves (quiet row good) m \<Longrightarrow> preserves (calls_once row good P) m"
  by (rule preservesI) (metis preservesD quiet_calls_once)

lemma preserves_call_once:
  assumes "P call" and rest: "\<And>a. preserves (quiet row good) (k a)"
  shows "preserves (calls_once row good P) (State_Monad.bind (call_upstream call f) k)"
proof (rule preservesI)
  fix w a w' assume run: "run_state (State_Monad.bind (call_upstream call f) k) w = (a, w')"
  let ?w1 = "w\<lparr>w_calls := w_calls w @ [call], w_tick := w_tick w + 1\<rparr>"
  from run have "run_state (k (f (w_tick w) call)) ?w1 = (a, w')" by simp
  then have "quiet row good ?w1 w'" by (rule preservesD [OF rest])
  then have "good (w_store w) \<Longrightarrow> good (w_store w') \<and> row (w_store w') = row (w_store w) \<and> w_calls w' = w_calls w @ [call]"
    by (simp add: quiet_def)
  then show "calls_once row good P w w'"
    unfolding calls_once_def using assms(1) by (intro impI conjI exI [of _ "[call]"]) simp_all
qed

definition attempt_call :: "gateway_config \<Rightarrow> string \<Rightarrow> route \<Rightarrow> string \<Rightarrow> string \<Rightarrow> upstream_call \<Rightarrow> bool" where
  "attempt_call cfg request_id rt secret body c \<longleftrightarrow>
     uc_request_id c = request_id \<and> uc_secret c = secret \<and> uc_body c = body \<and>
     uc_model c = t_provider_model (r_target rt) \<and> uc_timeout c = t_timeout (r_target rt)"

lemma attempt_call_intros [simp]:
  "attempt_call cfg rid rt secret body (chat_call cfg rid rt secret body)"
  "attempt_call cfg rid rt secret body (http_call endpoint accept rid rt secret body)"
  by (simp_all add: attempt_call_def chat_call_def http_call_def)

context request_ledger
begin

text \<open>Attempts of both kinds begin alike; a result of a failed start says so.\<close>

lemma begin_attempt_attempted:
  assumes cont: "\<And>aid st. preserves (calls_once row good P) (k aid st)"
  shows "preserves (attempted row good rid P 1)
    (State_Monad.bind (ask (\<lambda>n. ge_new_id env n ''att'')) (\<lambda>aid. case aid of
       Inl _ \<Rightarrow> State_Monad.return x
     | Inr attempt_id \<Rightarrow> State_Monad.bind (now_at env) (\<lambda>started.
         State_Monad.bind (on_store (st_create_provider_attempt ops
           \<lparr>as_id = attempt_id, as_inference_request_id = rid, as_target_id = tid,
            as_attempt_number = number, as_started_at = started\<rparr>))
         (\<lambda>e. if e \<noteq> None then State_Monad.return y else k attempt_id started))))"
    (is "preserves _ ?m")
proof (rule preservesI)
  fix w a w' assume run: "run_state ?m w = (a, w')"
  show "attempted row good rid P 1 w w'"
  proof (cases "ge_new_id env (w_tick w) ''att''")
    case (Inl e)
    with run have "w' = w\<lparr>w_tick := w_tick w + 1\<rparr>" by simp
    then show ?thesis using quiet_attempted [OF quiet.tick] by simp
  next
    case (Inr aid)
    let ?start = "\<lparr>as_id = aid, as_inference_request_id = rid, as_target_id = tid, as_attempt_number = number,
        as_started_at = ge_clock env (w_tick w + 1)\<rparr>"
    obtain e s where cr: "run_state (st_create_provider_attempt ops ?start) (w_store w) = (e, s)" by force
    let ?w1 = "w\<lparr>w_tick := w_tick w + 1 + 1, w_store := s\<rparr>"
    show ?thesis
      unfolding attempted_def
    proof (intro impI)
      assume g: "good (w_store w)"
      note rows = attempt_rows [OF g cr]
      then have g1: "good s" by simp
      show "good (w_store w') \<and> (\<exists>n cs. n \<le> 1 \<and> row (w_store w') = with_attempts rid n (row (w_store w)) \<and>
          w_calls w' = w_calls w @ cs \<and> list_all P cs \<and> length cs \<le> n)"
      proof (cases e)
        case None
        with run Inr cr have "run_state (k aid (ge_clock env (w_tick w + 1))) ?w1 = (a, w')"
          by (simp add: now_at_def run_on_store)
        then have "calls_once row good P ?w1 w'" by (rule preservesD [OF cont])
        with g1 have "good (w_store w')" "row (w_store w') = row s"
            "\<exists>cs. w_calls w' = w_calls w @ cs \<and> list_all P cs \<and> length cs \<le> 1"
          by (auto simp: calls_once_def)
        moreover have "row s = with_attempts rid 1 (row (w_store w))"
          using rows None by (auto simp: with_attempts_def count_attempts_def)
        ultimately show ?thesis by (intro conjI exI [of _ 1]) auto
      next
        case (Some _)
        with run Inr cr have "w' = ?w1" by (simp add: now_at_def run_on_store)
        with Some rows g1 show ?thesis by (auto intro!: exI [of _ 0] exI [of _ "[]"])
      qed
    qed
  qed
qed

lemma preserves_if: "preserves R m \<Longrightarrow> preserves R n \<Longrightarrow> preserves R (if b then m else n)"
  by simp

lemma perform_bifrost_once:
  "preserves (attempted row good rid (attempt_call cfg rid rt secret body) 1)
     (perform_bifrost_attempt env cfg ops rid rt secret body number)"
  unfolding perform_bifrost_attempt_def begin_attempt_def Let_def
  by (intro begin_attempt_attempted preserves_call_once attempt_call_intros quiet.pres_prod quiet.pres_option
      quiet.pres_bifrost_failure quiet.pres_bifrost_reply quiet.pres_complete)

lemma perform_http_once:
  "preserves (attempted row good rid (attempt_call cfg rid rt secret body) 1)
     (perform_http_attempt env cfg ops rid rt secret body number)"
  unfolding perform_http_attempt_def begin_attempt_def Let_def
proof (intro begin_attempt_attempted)
  fix aid st
  let ?finish = "\<lambda>status class provider_id provider_status.
      complete_attempt env ops aid st status class provider_id provider_status zero_usage []"
  show "preserves (calls_once row good (attempt_call cfg rid rt secret body))
     (case target_endpoint (ge_url env) (t_base_url (r_target rt)) (gc_allow_insecure_targets cfg) of
        None \<Rightarrow> finish_with (?finish ''failed'' ''target_configuration'' [] 0) configuration_failure
      | Some endpoint \<Rightarrow>
          if url_parse (ge_url env) endpoint = None
          then finish_with (?finish ''failed'' ''target_configuration'' [] 0) configuration_failure
          else State_Monad.bind
            (call_upstream (http_call endpoint ''application/json'' rid rt secret body) (ge_do env))
            (\<lambda>reply. case reply of
               None \<Rightarrow> transport_error env ?finish [] 0 connection_failed
             | Some r \<Rightarrow> http_reply_result env cfg ?finish r))"
    by (cases "target_endpoint (ge_url env) (t_base_url (r_target rt)) (gc_allow_insecure_targets cfg)")
      (simp_all add: preserves_call_once attempt_call_intros quiet.pres_option preserves_quiet_once
        quiet.pres_transport_error quiet.pres_http_reply quiet.pres_finish_with quiet.pres_complete)
qed

lemma perform_attempt_once:
  "preserves (attempted row good rid (attempt_call cfg rid rt secret body) 1)
     (perform_attempt env cfg ops rid rt secret body number)"
  unfolding perform_attempt_def by (intro preserves_if perform_bifrost_once perform_http_once)

lemma perform_streaming_once:
  "preserves (attempted row good rid (attempt_call cfg rid rt secret body) 1)
     (perform_streaming_attempt env cfg ops rid rt secret body number encoder enc)"
  unfolding perform_streaming_attempt_def begin_stream_attempt_def Let_def
proof (intro begin_attempt_attempted)
  fix aid st
  let ?finish = "\<lambda>status class provider_id provider_status.
      complete_attempt env ops aid st status class provider_id provider_status zero_usage []"
  let ?stop = "\<lambda>m. State_Monad.bind m (\<lambda>r. State_Monad.return (r, enc))"
  show "preserves (calls_once row good (attempt_call cfg rid rt secret body))
     (case target_endpoint (ge_url env) (t_base_url (r_target rt)) (gc_allow_insecure_targets cfg) of
        None \<Rightarrow> ?stop (finish_with (?finish ''failed'' ''target_configuration'' [] 0) configuration_failure)
      | Some endpoint \<Rightarrow>
          if url_parse (ge_url env) endpoint = None
          then ?stop (finish_with (?finish ''failed'' ''target_configuration'' [] 0) configuration_failure)
          else State_Monad.bind
            (call_upstream (http_call endpoint ''text/event-stream'' rid rt secret body) (ge_do env))
            (\<lambda>reply. case reply of
               None \<Rightarrow> ?stop (transport_error env ?finish [] 0 connection_failed)
             | Some r \<Rightarrow> stream_reply env cfg ?finish encoder r enc))"
    by (cases "target_endpoint (ge_url env) (t_base_url (r_target rt)) (gc_allow_insecure_targets cfg)")
      (simp_all add: preserves_call_once attempt_call_intros quiet.pres_option preserves_quiet_once quiet.pres_bind
        quiet.pres_return quiet.pres_transport_error quiet.pres_stream_reply quiet.pres_finish_with quiet.pres_complete)
qed

text \<open>The loops: at most as many attempts as were left.\<close>

lemma attempt_loop_attempted:
  "preserves (attempted row good rid (attempt_call cfg rid rt secret body) n)
     (attempt_loop env cfg ops rid rt secret body n number terminal)"
proof (induction n arbitrary: number terminal)
  case 0
  show ?case by (simp add: preserves_def attempted_refl)
next
  case (Suc n)
  show ?case
  proof (rule preservesI)
    fix w a w'
    assume run: "run_state (attempt_loop env cfg ops rid rt secret body (Suc n) number terminal) w = (a, w')"
    obtain t w1 where p: "run_state (perform_attempt env cfg ops rid rt secret body number) w = (t, w1)" by force
    have one: "attempted row good rid (attempt_call cfg rid rt secret body) 1 w w1"
      by (rule preservesD [OF perform_attempt_once p])
    let ?delay = "retry_delay (gc_retry_base_delay cfg) (gc_max_retry_delay cfg) t number"
    obtain c w2 where wt: "run_state (wait_for env ?delay) w1 = (c, w2)" by force
    have q: "quiet row good w1 w2" by (rule preservesD [OF quiet.pres_wait wt])
    have "attempted row good rid (attempt_call cfg rid rt secret body) n w1 w'"
    proof (cases "ar_success t \<or> \<not> ar_retryable t \<or> number = t_max_attempts (r_target rt)")
      case True
      with run p have "w' = w1" by auto
      then show ?thesis by (simp add: attempted_refl)
    next
      case False
      show ?thesis
      proof (cases c)
        case True
        with False run p wt have "w' = w2" by auto
        then show ?thesis using q quiet_attempted by blast
      next
        case cf: False
        with False run p wt have "run_state (attempt_loop env cfg ops rid rt secret body n (number + 1) t) w2 = (a, w')"
          by auto
        then have "attempted row good rid (attempt_call cfg rid rt secret body) n w2 w'" by (rule preservesD [OF Suc.IH])
        with q show ?thesis by (rule quiet_then_attempted)
      qed
    qed
    from attempted_trans [OF one this] show "attempted row good rid (attempt_call cfg rid rt secret body) (Suc n) w w'" by simp
  qed
qed

lemma stream_loop_attempted:
  "preserves (attempted row good rid (attempt_call cfg rid rt secret body) n)
     (stream_loop env cfg ops rid rt secret body encoder n number terminal enc)"
proof (induction n arbitrary: number terminal enc)
  case 0
  show ?case by (simp add: preserves_def attempted_refl)
next
  case (Suc n)
  show ?case
  proof (rule preservesI)
    fix w a w'
    assume run: "run_state (stream_loop env cfg ops rid rt secret body encoder (Suc n) number terminal enc) w = (a, w')"
    obtain te w1 where p0: "run_state (perform_streaming_attempt env cfg ops rid rt secret body number encoder enc) w = (te, w1)"
      by (meson surj_pair)
    obtain t enc1 where "te = (t, enc1)" by (meson surj_pair)
    with p0 have p: "run_state (perform_streaming_attempt env cfg ops rid rt secret body number encoder enc) w = ((t, enc1), w1)"
      by simp
    have one: "attempted row good rid (attempt_call cfg rid rt secret body) 1 w w1"
      by (rule preservesD [OF perform_streaming_once p])
    let ?delay = "retry_delay (gc_retry_base_delay cfg) (gc_max_retry_delay cfg) t number"
    obtain c w2 where wt: "run_state (wait_for env ?delay) w1 = (c, w2)" by force
    have q: "quiet row good w1 w2" by (rule preservesD [OF quiet.pres_wait wt])
    have "attempted row good rid (attempt_call cfg rid rt secret body) n w1 w'"
    proof (cases "ar_success t \<or> w_committed w1 \<or> \<not> ar_retryable t \<or> number = t_max_attempts (r_target rt)")
      case True
      with run p have "w' = w1" by auto
      then show ?thesis by (simp add: attempted_refl)
    next
      case False
      show ?thesis
      proof (cases c)
        case True
        with False run p wt have "w' = w2" by auto
        then show ?thesis using q quiet_attempted by blast
      next
        case cf: False
        with False run p wt have "run_state (stream_loop env cfg ops rid rt secret body encoder n (number + 1) t enc1) w2 = (a, w')"
          by auto
        then have "attempted row good rid (attempt_call cfg rid rt secret body) n w2 w'" by (rule preservesD [OF Suc.IH])
        with q show ?thesis by (rule quiet_then_attempted)
      qed
    qed
    from attempted_trans [OF one this] show "attempted row good rid (attempt_call cfg rid rt secret body) (Suc n) w w'" by simp
  qed
qed

end

section \<open>The response during the attempts\<close>

lemma on_store_unanswered: "preserves unanswered (on_store m)"
  by (rule on_store_preserves) (simp add: unanswered_def)

lemma call_unanswered: "preserves unanswered (call_upstream call f)"
  by (simp add: preserves_def unanswered_def)

lemma perform_attempt_unanswered: "preserves unanswered (perform_attempt env cfg ops rid rt secret body number)"
  unfolding perform_attempt_def perform_bifrost_attempt_def perform_http_attempt_def begin_attempt_def Let_def
  by (intro unanswered.attempt_rules on_store_unanswered call_unanswered unanswered.pres_bifrost_failure
      unanswered.pres_bifrost_reply unanswered.pres_transport_error unanswered.pres_http_reply)

lemma attempt_loop_unanswered: "preserves unanswered (attempt_loop env cfg ops rid rt secret body n number terminal)"
  by (induction n arbitrary: number terminal)
    (simp_all add: unanswered.pres_return unanswered.pres_bind unanswered.pres_if perform_attempt_unanswered
      unanswered.pres_wait)

lemma on_store_streams: "preserves streams (on_store m)"
  by (rule on_store_preserves) (simp add: streams_def writer_ok_def)

lemma call_streams: "preserves streams (call_upstream call f)"
  by (simp add: preserves_def streams_def writer_ok_def)

lemma perform_streaming_streams:
  "preserves streams (perform_streaming_attempt env cfg ops rid rt secret body number encoder enc)"
  unfolding perform_streaming_attempt_def begin_stream_attempt_def Let_def
  by (intro streams.attempt_rules on_store_streams call_streams streams.pres_transport_error streams.pres_stream_reply)

lemma stream_loop_streams:
  "preserves streams (stream_loop env cfg ops rid rt secret body encoder n number terminal enc)"
  by (induction n arbitrary: number terminal enc)
    (simp_all add: streams.pres_return streams.pres_bind streams.pres_if streams.pres_prod streams.pres_get
      perform_streaming_streams streams.pres_wait)

section \<open>A successful stream was answered\<close>

definition commits :: "'e stream_encoder option \<Rightarrow> bool" where
  "commits encoder \<longleftrightarrow>
     (case encoder of None \<Rightarrow> True | Some ops \<Rightarrow> (\<forall>e m out. se_finish ops e m = Some out \<longrightarrow> out \<noteq> []))"

definition success_commits :: "attempt_result \<Rightarrow> 's world \<Rightarrow> bool" where
  "success_commits r w \<longleftrightarrow> (ar_success r \<longrightarrow> w_committed w)"

lemma not_success [simp]:
  "\<not> ar_success (failed_attempt b c s m)" "\<not> ar_success ledger_failure" "\<not> ar_success client_cancelled"
  "\<not> ar_success configuration_failure" "\<not> ar_success (too_large pid)" "\<not> ar_success (invalid_stream pid msg)"
  "\<not> ar_success zero_result" "\<not> ar_success (classify_provider_status st)"
  by (simp_all add: failed_attempt_def ledger_failure_def client_cancelled_def configuration_failure_def too_large_def
      invalid_stream_def zero_result_def classify_provider_status_def)

lemma finish_with_result:
  "run_state (finish_with m result) w = (r, w') \<Longrightarrow> r = ledger_failure \<or> r = result"
  by (auto simp: finish_with_def split: prod.splits if_splits)

lemma finish_with_fails: "run_state (finish_with m result) w = (r, w') \<Longrightarrow> \<not> ar_success result \<Longrightarrow> \<not> ar_success r"
  using finish_with_result by fastforce

lemma transport_error_fails:
  "run_state (transport_error env finish pid st neither) w = (r, w') \<Longrightarrow> \<not> ar_success (snd neither) \<Longrightarrow> \<not> ar_success r"
  by (auto simp: transport_error_def Let_def split: prod.splits if_splits dest!: finish_with_fails)

lemma refused_fails: "run_state (refused_reply env finish pid reply) w = (r, w') \<Longrightarrow> \<not> ar_success r"
  by (auto simp: refused_reply_def Let_def split: prod.splits if_splits dest!: finish_with_fails)

lemma stream_failures:
  "run_state (stream_read_failure env finish state status e) w = (r, w') \<Longrightarrow> \<not> ar_success r"
  "run_state (stream_invalid finish state status msg) w = (r, w') \<Longrightarrow> \<not> ar_success r"
  "run_state (stream_write_failure finish state status) w = (r, w') \<Longrightarrow> \<not> ar_success r"
  by (auto simp: stream_read_failure_def stream_invalid_def stream_write_failure_def Let_def
      split: prod.splits if_splits dest!: finish_with_fails)

lemma sink_commits: "run_state (sink_write env body) w = (ok, w') \<Longrightarrow> body \<noteq> [] \<Longrightarrow> w_committed w'"
  by (auto simp: sink_write_def split: if_splits)

lemma stream_done_commits:
  assumes run: "run_state (stream_done env finish encoder enc status state held raw) w = (r, w')"
    and fin: "\<And>st cl pid ps. preserves unanswered (finish st cl pid ps)"
    and "raw \<noteq> []" "commits encoder"
  shows "success_commits r w'"
proof (cases "(\<not> ss_saw_choice state \<or> \<not> ss_saw_finish state) \<or>
    (case encoder of None \<Rightarrow> Some raw | Some ops \<Rightarrow> se_finish ops enc state) = None")
  case True
  with run show ?thesis
    by (auto simp: stream_done_def success_commits_def split: if_splits dest!: stream_failures)
next
  case nofail: False
  then obtain out where out: "(case encoder of None \<Rightarrow> Some raw | Some ops \<Rightarrow> se_finish ops enc state) = Some out" by auto
  then have ne: "out \<noteq> []" using assms(3,4) by (auto simp: commits_def split: option.splits)
  obtain ok w1 where sw: "run_state (sink_write env (held @ out)) w = (ok, w1)" by (meson surj_pair)
  then have c: "w_committed w1" by (rule sink_commits) (simp add: ne)
  show ?thesis
  proof (cases ok)
    case False
    with run sw out nofail show ?thesis
      by (auto simp: stream_done_def success_commits_def dest!: stream_failures)
  next
    case True
    let ?res = "zero_result\<lparr>ar_success := True, ar_model := ss_model state, ar_provider_id := ss_provider_id state,
        ar_usage := ss_usage state, ar_finality := ss_finality state\<rparr>"
    from True run sw out nofail have "run_state (finish_with (finish ''succeeded'' [] (ss_provider_id state) status) ?res) w1 = (r, w')"
      by (simp add: stream_done_def)
    then have "unanswered w1 w'" by (rule preservesD [OF unanswered.pres_finish_with, OF fin])
    with c show ?thesis by (simp add: success_commits_def unanswered_def)
  qed
qed

lemma read_frame_nonempty: "read_sse_frame fin s [] [] = (f, None, rest) \<Longrightarrow> sf_raw f \<noteq> []"
  using read_sse_frame_raw [of fin s "[]" "[]" f None rest] by auto

lemma read_frames_raw: "(f, None) \<in> set (read_frames fin s) \<Longrightarrow> sf_raw f \<noteq> []"
proof (induction fin s rule: read_frames.induct)
  case (1 fin s)
  obtain f0 e0 rest where r: "read_sse_frame fin s [] [] = (f0, e0, rest)" by (rule prod_cases3)
  show ?case
  proof (cases e0)
    case None
    with r have "sf_raw f0 \<noteq> []" using read_frame_nonempty by blast
    with 1 None r show ?thesis by (subst (asm) (2) read_frames.simps) auto
  next
    case (Some e)
    with "1.prems" r show ?thesis by (subst (asm) read_frames.simps) simp
  qed
qed

lemma success_commits_fails: "\<not> ar_success r \<Longrightarrow> success_commits r w"
  by (simp add: success_commits_def)

lemma stream_frames_commits:
  assumes fin: "\<And>st cl pid ps. preserves unanswered (finish st cl pid ps)" and enc: "commits encoder"
  shows "run_state (stream_frames env cfg finish encoder status fs state held n e) w = ((r, e'), w') \<Longrightarrow>
    \<forall>(f, err) \<in> set fs. err = None \<longrightarrow> sf_raw f \<noteq> [] \<Longrightarrow> success_commits r w'"
proof (induction fs arbitrary: state held n e w)
  case Nil
  then show ?case by (simp add: success_commits_def)
next
  case (Cons fe fs)
  obtain f err where fe: "fe = (f, err)" by force
  have raw: "err = None \<longrightarrow> sf_raw f \<noteq> []" and rest: "\<forall>(f, err) \<in> set fs. err = None \<longrightarrow> sf_raw f \<noteq> []"
    using Cons.prems(2) fe by auto
  let ?n = "n + int (length (sf_raw f))"
  show ?case
  proof (cases "?n > gc_max_response_bytes cfg \<or> err \<noteq> None")
    case True
    with Cons.prems(1) show ?thesis
      by (cases err)
        (auto simp: fe Let_def success_commits_fails split: if_splits prod.splits
          dest!: finish_with_fails stream_failures)
  next
    case False
    then have none: "err = None" "\<not> ?n > gc_max_response_bytes cfg" by auto
    consider (plain) "\<not> sf_has_data f" | (final) "sf_has_data f" "sf_data f = ''[DONE]''"
      | (data) "sf_has_data f" "sf_data f \<noteq> ''[DONE]''" by blast
    then show ?thesis
    proof cases
      case plain
      with Cons.prems(1) none have "run_state (stream_frames env cfg finish encoder status fs state
          (case encoder of None \<Rightarrow> held @ sf_raw f | Some _ \<Rightarrow> held) ?n e) w = ((r, e'), w')"
        by (simp add: fe Let_def)
      from Cons.IH [OF this rest] show ?thesis .
    next
      case final
      with Cons.prems(1) none have "run_state (stream_done env finish encoder e status state held (sf_raw f)) w = (r, w')"
        by (simp add: fe Let_def split: prod.splits)
      from stream_done_commits [OF this fin] raw none enc show ?thesis by simp
    next
      case data
      obtain st ok where c: "consume (sf_data f) state = (st, ok)" by force
      show ?thesis
      proof (cases "ok \<and> (case encoder of None \<Rightarrow> Some (sf_raw f, e) | Some ops \<Rightarrow> se_encode ops e (sf_data f)) \<noteq> None")
        case False
        then consider "\<not> ok"
          | "ok" "(case encoder of None \<Rightarrow> Some (sf_raw f, e) | Some ops \<Rightarrow> se_encode ops e (sf_data f)) = None"
          by blast
        then show ?thesis using Cons.prems(1) none data c
          by cases (auto simp: fe Let_def success_commits_fails split: prod.splits dest!: stream_failures)
      next
        case True
        then obtain out e1 where t: "(case encoder of None \<Rightarrow> Some (sf_raw f, e) | Some ops \<Rightarrow> se_encode ops e (sf_data f)) = Some (out, e1)"
          by auto
        obtain wr w1 where sw: "run_state (sink_write env (held @ out)) w = (wr, w1)" by (meson surj_pair)
        show ?thesis
        proof (cases wr)
          case False
          with Cons.prems(1) none data c True t sw
          have "run_state (stream_write_failure finish st status) w1 = (r, w')"
            by (auto simp: fe Let_def split: prod.splits)
          then show ?thesis using stream_failures(3) success_commits_fails by blast
        next
          case wrote: True
          with Cons.prems(1) none data c True t sw
          have "run_state (stream_frames env cfg finish encoder status fs st [] ?n e1) w1 = ((r, e'), w')"
            by (simp add: fe Let_def)
          from Cons.IH [OF this rest] show ?thesis .
        qed
      qed
    qed
  qed
qed

lemma stream_reply_commits:
  assumes run: "run_state (stream_reply env cfg finish encoder reply e) w = ((r, e'), w')"
    and fin: "\<And>st cl pid ps. preserves unanswered (finish st cl pid ps)" and enc: "commits encoder"
  shows "success_commits r w'"
proof (cases "hp_status reply \<noteq> 200 \<or>
    ge_media_type env (header_get (hp_header reply) ''Content-Type'') \<noteq> Some ''text/event-stream''")
  case True
  have "\<not> ar_success (snd connection_failed)" by (simp add: connection_failed_def)
  with True run show ?thesis
    by (auto simp: stream_reply_def Let_def success_commits_fails
        split: if_splits prod.splits dest!: finish_with_fails transport_error_fails refused_fails)
next
  case False
  with run have "run_state (stream_frames env cfg finish encoder (hp_status reply)
      (read_frames (limited_end (gc_max_response_bytes cfg) reply) (limited_text (gc_max_response_bytes cfg) reply))
      \<lparr>ss_model = [], ss_provider_id = safe_provider_id (header_get (hp_header reply) ''X-Generation-Id''),
       ss_usage = zero_usage, ss_finality = ''unknown'', ss_saw_choice = False, ss_saw_finish = False\<rparr> [] 0 e) w = ((r, e'), w')"
    by (simp add: stream_reply_def Let_def)
  from stream_frames_commits [OF fin enc this] read_frames_raw show ?thesis by fast
qed

lemma perform_streaming_commits:
  assumes "run_state (perform_streaming_attempt env cfg ops rid rt secret body number encoder e) w = ((r, e'), w')"
    and enc: "commits encoder"
  shows "success_commits r w'"
proof -
  let ?finish = "\<lambda>aid st status class provider_id provider_status.
      complete_attempt env ops aid st status class provider_id provider_status zero_usage []"
  have fin: "preserves unanswered (?finish aid st status cl pid ps)" for aid st status cl pid ps
    by (rule unanswered.pres_complete)
  have conn: "\<not> ar_success (snd connection_failed)" by (simp add: connection_failed_def)
  show ?thesis
    using assms(1) conn stream_reply_commits [OF _ fin enc]
    unfolding perform_streaming_attempt_def begin_stream_attempt_def Let_def
    by (auto simp: success_commits_fails now_at_def split: sum.splits prod.splits if_splits option.splits
        dest!: finish_with_fails transport_error_fails)
qed

lemma stream_loop_commits:
  assumes enc: "commits encoder"
  shows "run_state (stream_loop env cfg ops rid rt secret body encoder n number terminal e) w = (r, w') \<Longrightarrow>
    success_commits terminal w \<Longrightarrow> success_commits r w'"
proof (induction n arbitrary: number terminal e w)
  case (Suc n)
  obtain te w1 where p0: "run_state (perform_streaming_attempt env cfg ops rid rt secret body number encoder e) w = (te, w1)"
    by (meson surj_pair)
  obtain t e1 where "te = (t, e1)" by (meson surj_pair)
  with p0 have p: "run_state (perform_streaming_attempt env cfg ops rid rt secret body number encoder e) w = ((t, e1), w1)"
    by simp
  have c: "success_commits t w1" by (rule perform_streaming_commits [OF p enc])
  show ?case
  proof (cases "ar_success t \<or> w_committed w1 \<or> \<not> ar_retryable t \<or> number = t_max_attempts (r_target rt)")
    case True
    with Suc.prems(1) p have "r = t" "w' = w1" by auto
    with c show ?thesis by simp
  next
    case False
    obtain cn w2 where wt: "run_state (wait_for env (retry_delay (gc_retry_base_delay cfg) (gc_max_retry_delay cfg) t number)) w1 = (cn, w2)"
      by (meson surj_pair)
    have "success_commits t w2" using False by (simp add: success_commits_fails)
    with Suc.IH Suc.prems(1) False p wt show ?thesis
      by (cases cn) (auto simp: success_commits_fails)
  qed
qed simp

lemma protocol_finish_nonempty: "protocol_finish e m = Some out \<Longrightarrow> out \<noteq> []"
  by (auto simp: protocol_finish_def responses_finish_def anthropic_finish_def render_events_def render_event_def
      responses_emit_def anthropic_emit_def Let_def split: protocol_encoder.splits if_splits option.splits prod.splits)

lemma optional_encoder_commits: "commits (case x of None \<Rightarrow> None | Some _ \<Rightarrow> Some (optional_encoder_ops spell))"
  by (auto simp: commits_def optional_encoder_ops_def dest: protocol_finish_nonempty split: option.splits)

section \<open>The handler\<close>

text \<open>
  \<open>settled\<close>: the request was answered. Unless the answer is a stream that was committed, the row says
  what was answered, or, when the ledger could not be written, is still in progress under a 503. The
  row's counter grew by the attempts made, at most \<open>k\<close>, and there were no more calls than attempts.
\<close>

definition answers_row :: "inference_request \<Rightarrow> int \<Rightarrow> bool" where
  "answers_row q status \<longleftrightarrow> (if ir_status q = ''in_progress'' then status = 503 else ir_http_status q = status)"

definition settled ::
  "('s \<Rightarrow> string \<rightharpoonup> inference_request) \<Rightarrow> ('s \<Rightarrow> bool) \<Rightarrow> string \<Rightarrow> (upstream_call \<Rightarrow> bool) \<Rightarrow> nat \<Rightarrow>
   's world \<Rightarrow> 's world \<Rightarrow> bool" where
  "settled row good rid P k w w' \<longleftrightarrow>
     good (w_store w') \<and> (\<forall>i. i \<noteq> rid \<longrightarrow> row (w_store w') i = row (w_store w) i) \<and>
     (\<exists>q q' status n cs. row (w_store w) rid = Some q \<and> row (w_store w') rid = Some q' \<and>
        response_status (w_writer w') = Some status \<and>
        (if w_committed w' then status = 200 else answers_row q' status) \<and>
        n \<le> k \<and> ir_attempt_count q' = ir_attempt_count q + int n \<and>
        w_calls w' = w_calls w @ cs \<and> list_all P cs \<and> length cs \<le> n)"

definition unsent :: "'s world \<Rightarrow> bool" where
  "unsent w \<longleftrightarrow> rw_sent (w_writer w) = None \<and> \<not> w_committed w"

lemma write_protocol_error_status [simp]:
  "rw_sent w = None \<Longrightarrow> response_status (write_protocol_error p st c t m i w) = Some st"
  by (simp add: write_protocol_error_def write_error_def)

lemma write_terminal_status [simp]:
  "rw_sent w = None \<Longrightarrow> response_status (write_terminal p i t w) = Some (ar_client_status t)"
  by (simp add: write_terminal_def)

lemma unrecorded_status [simp]: "rw_sent w = None \<Longrightarrow> response_status (unrecorded p i w) = Some 503"
  by (simp add: unrecorded_def ledger_unavailable_def)

lemma write_success_status [simp]: "rw_sent w = None \<Longrightarrow> response_status (write_success b w) = Some 200"
  by (simp add: write_success_def write_payload_def write_header_def response_status_def Let_def)

context request_ledger
begin

lemma complete_request_row:
  assumes run: "run_state (complete_request env ops rid started st hs cl md pid fin us) w = (ok, w')" and g: "good (w_store w)"
  shows "good (w_store w') \<and> w_writer w' = w_writer w \<and> w_committed w' = w_committed w \<and> w_calls w' = w_calls w \<and>
    (if ok then \<exists>q f. row (w_store w) rid = Some q \<and> ir_status q = ''in_progress'' \<and> rf_status f = st \<and> rf_http_status f = hs \<and>
       row (w_store w') = (row (w_store w))(rid \<mapsto> finish_request f q)
     else row (w_store w') = row (w_store w))"
proof -
  let ?f = "\<lparr>rf_id = rid, rf_completed_at = ge_clock env (w_tick w), rf_status = st, rf_http_status = hs,
      rf_error_class = cl, rf_executed_model = md, rf_provider_request_id = pid,
      rf_duration = elapsed started (ge_clock env (w_tick w + 1)), rf_usage = us, rf_usage_finality = fin\<rparr>"
  obtain e s where c: "run_state (st_complete_inference_request ops ?f) (w_store w) = (e, s)" by (meson surj_pair)
  with run have w': "w' = w\<lparr>w_tick := w_tick w + 1 + 1, w_store := s\<rparr>" and ok: "ok = (e = None)"
    by (auto simp: complete_request_def now_at_def run_on_store)
  note rows = complete_rows [OF g c]
  show ?thesis
  proof (cases e)
    case None
    with rows obtain q q' where g': "good s" and "row (w_store w) rid = Some q" "ir_status q = ''in_progress''"
        and q': "finished_row ?f q q'" "row s = (row (w_store w))(rid \<mapsto> q')" by auto
    then show ?thesis
      using None unfolding finished_row_def
      by (simp add: w' ok) (intro exI [of _ "?f\<lparr>rf_duration := ir_duration q'\<rparr>"], simp)
  qed (use rows in \<open>simp add: w' ok\<close>)
qed

lemma note_health_rows:
  assumes "run_state (note_health env ops tid st sc) w = (a, w')" and g: "good (w_store w)"
  shows "good (w_store w') \<and> row (w_store w') = row (w_store w) \<and> w_writer w' = w_writer w \<and>
    w_committed w' = w_committed w \<and> w_calls w' = w_calls w"
proof -
  obtain e s where u: "run_state (st_update_target_health ops tid st (ge_clock env (w_tick w)) sc) (w_store w) = (e, s)"
    by (meson surj_pair)
  with assms have "w' = w\<lparr>w_tick := w_tick w + 1, w_store := s\<rparr>" by (auto simp: note_health_def now_at_def run_on_store)
  with health_rows [OF g u] show ?thesis by simp
qed

lemma note_failure_rows:
  assumes "run_state (note_failure env ops tid cl) w = (a, w')" and "good (w_store w)"
  shows "good (w_store w') \<and> row (w_store w') = row (w_store w) \<and> w_writer w' = w_writer w \<and>
    w_committed w' = w_committed w \<and> w_calls w' = w_calls w"
  using assms by (auto simp: note_failure_def dest: note_health_rows split: if_splits)

text \<open>What ends a request without a committed stream: the result recorded, then answered as recorded.\<close>

definition answers :: "int \<Rightarrow> ('s world, unit) state \<Rightarrow> bool" where
  "answers hs k \<longleftrightarrow>
     (\<forall>w a w'. run_state k w = (a, w') \<longrightarrow> good (w_store w) \<longrightarrow> unsent w \<longrightarrow>
        good (w_store w') \<and> row (w_store w') = row (w_store w) \<and> w_calls w' = w_calls w \<and>
        \<not> w_committed w' \<and> response_status (w_writer w') = Some hs)"

lemma answers_respond: "(\<And>w. rw_sent w = None \<Longrightarrow> response_status (f w) = Some hs) \<Longrightarrow> answers hs (respond f)"
  by (auto simp: answers_def unsent_def)

lemma answers_health: "answers hs k \<Longrightarrow> answers hs (State_Monad.bind (note_health env ops tid st sc) (\<lambda>_. k))"
  unfolding answers_def unsent_def by (auto split: prod.splits dest!: note_health_rows)

lemma settled_finished:
  assumes run: "run_state (complete_request env ops rid started st hs cl md pid fin us) w = (ok, w1)"
    and g: "good (w_store w)" and q: "row (w_store w) rid = Some q" "ir_status q = ''in_progress''"
    and st: "st \<noteq> ''in_progress''" and un: "unsent w"
    and yes: "ok \<Longrightarrow> good (w_store w') \<and> row (w_store w') = row (w_store w1) \<and> w_calls w' = w_calls w1 \<and>
      \<not> w_committed w' \<and> response_status (w_writer w') = Some hs"
    and no: "\<not> ok \<Longrightarrow> w' = w1\<lparr>w_writer := unrecorded p rid (w_writer w1)\<rparr>"
  shows "settled row good rid P k w w'"
proof -
  note c = complete_request_row [OF run g]
  show ?thesis
  proof (cases ok)
    case True
    with c q obtain f where f: "rf_status f = st" "rf_http_status f = hs"
        "row (w_store w1) = (row (w_store w))(rid \<mapsto> finish_request f q)" by auto
    have "answers_row (finish_request f q) hs" "ir_attempt_count (finish_request f q) = ir_attempt_count q"
      using f st by (simp_all add: answers_row_def finish_request_def)
    with True yes f(3) q c show ?thesis
      unfolding settled_def by (intro conjI exI [of _ q] exI [of _ "finish_request f q"] exI [of _ hs] exI [of _ 0] exI [of _ "[]"]) auto
  next
    case False
    have "response_status (w_writer w') = Some 503" "w_committed w' = False"
      using no [OF False] c un by (simp_all add: unsent_def)
    with no [OF False] False q c show ?thesis
      unfolding settled_def by (intro conjI exI [of _ q] exI [of _ 503] exI [of _ 0] exI [of _ "[]"]) (auto simp: answers_row_def)
  qed
qed

lemma finish_then_settled:
  assumes run: "run_state (finish_then (complete_request env ops rid started) p rid st hs cl pid k) w = (a, w')"
    and g: "good (w_store w)" and q: "row (w_store w) rid = Some q" "ir_status q = ''in_progress''"
    and st: "st \<noteq> ''in_progress''" and un: "unsent w" and k: "answers hs k"
  shows "settled row good rid P n w w'"
proof -
  obtain ok w1 where c: "run_state (complete_request env ops rid started st hs cl [] pid ''unknown'' zero_usage) w = (ok, w1)"
    by (meson surj_pair)
  note r = complete_request_row [OF c g]
  show ?thesis
  proof (rule settled_finished [OF c g q st un])
    assume ok
    with run c have "run_state k w1 = (a, w')" by (simp add: finish_then_def)
    with k r un show "good (w_store w') \<and> row (w_store w') = row (w_store w1) \<and> w_calls w' = w_calls w1 \<and>
        \<not> w_committed w' \<and> response_status (w_writer w') = Some hs"
      by (auto simp: answers_def unsent_def)
  next
    assume "\<not> ok"
    with run c show "w' = w1\<lparr>w_writer := unrecorded p rid (w_writer w1)\<rparr>" by (simp add: finish_then_def)
  qed
qed

lemma settled_after_attempts:
  assumes at: "attempted row good rid P k w w1" and g: "good (w_store w)" and s: "settled row good rid P 0 w1 w'"
  shows "settled row good rid P k w w'"
proof -
  from at g obtain n cs where n: "n \<le> k" "row (w_store w1) = with_attempts rid n (row (w_store w))"
      "w_calls w1 = w_calls w @ cs" "list_all P cs" "length cs \<le> n"
    by (auto simp: attempted_def)
  from s obtain q q' status where s': "row (w_store w1) rid = Some q" "row (w_store w') rid = Some q'"
      "response_status (w_writer w') = Some status" "if w_committed w' then status = 200 else answers_row q' status"
      "ir_attempt_count q' = ir_attempt_count q" "w_calls w' = w_calls w1" "good (w_store w')"
      "\<forall>i. i \<noteq> rid \<longrightarrow> row (w_store w') i = row (w_store w1) i"
    by (auto simp: settled_def)
  from s'(1) n(2) obtain q0 where q0: "row (w_store w) rid = Some q0" "q = count_attempts n q0"
    by (auto simp: with_attempts_def)
  show ?thesis
    unfolding settled_def using s' n q0
    by (intro conjI exI [of _ q0] exI [of _ q'] exI [of _ status] exI [of _ n] exI [of _ cs])
      (auto simp: with_attempts_def count_attempts_def)
qed

lemma terminal_status_closed: "terminal_status t \<noteq> ''in_progress''"
  by (simp add: terminal_status_def)

lemma serve_failure_settled:
  assumes "run_state (serve_failure env ops p rid rt (complete_request env ops rid started) t) w = (a, w')"
    and "good (w_store w)" "row (w_store w) rid = Some q" "ir_status q = ''in_progress''" "unsent w"
  shows "settled row good rid P n w w'"
proof (rule finish_then_settled [OF assms(1) [unfolded serve_failure_def Let_def] assms(2,3,4) terminal_status_closed assms(5)])
  let ?t = "with_defaults t"
  show "answers (ar_client_status ?t) (State_Monad.bind (note_failure env ops (t_id (r_target rt)) (ar_class ?t))
      (\<lambda>_. respond (write_terminal p rid ?t)))"
    unfolding answers_def unsent_def by (auto split: prod.splits dest!: note_failure_rows)
qed

definition open_row :: "string \<Rightarrow> 's world \<Rightarrow> bool" where
  "open_row rid w \<longleftrightarrow> good (w_store w) \<and> (\<exists>q. row (w_store w) rid = Some q \<and> ir_status q = ''in_progress'')"

lemma attempted_open: "attempted row good rid P k w w1 \<Longrightarrow> open_row rid w \<Longrightarrow> open_row rid w1"
  by (auto simp: attempted_def open_row_def with_attempts_def count_attempts_def)

lemma settled_tick:
  assumes "settled row good rid P n (w\<lparr>w_tick := t\<rparr>) w'"
  shows "settled row good rid P n w w'"
  using assms by (simp add: settled_def)

lemma finish_then_open:
  "run_state (finish_then (complete_request env ops rid started) p rid st hs cl pid k) w = (a, w') \<Longrightarrow>
   open_row rid w \<Longrightarrow> unsent w \<Longrightarrow> st \<noteq> ''in_progress'' \<Longrightarrow> answers hs k \<Longrightarrow> settled row good rid P n w w'"
  unfolding open_row_def using finish_then_settled by blast

lemma serve_buffered_settled:
  assumes run: "run_state (serve_buffered env cfg lib ops p rid pm rt secret body aliases
      (complete_request env ops rid started)) w = (a, w')"
    and op: "open_row rid w" and un: "unsent w"
  shows "settled row good rid (attempt_call cfg rid rt secret body) (nat (t_max_attempts (r_target rt))) w w'"
proof -
  let ?loop = "attempt_loop env cfg ops rid rt secret body (nat (t_max_attempts (r_target rt))) 1 zero_result"
  obtain t w1 where l: "run_state ?loop w = (t, w1)" by (meson surj_pair)
  have at: "attempted row good rid (attempt_call cfg rid rt secret body) (nat (t_max_attempts (r_target rt))) w w1"
    by (rule preservesD [OF attempt_loop_attempted l])
  have "unanswered w w1" by (rule preservesD [OF attempt_loop_unanswered l])
  with un have un1: "unsent w1" by (simp add: unanswered_def unsent_def)
  have op1: "open_row rid w1" using at op by (rule attempted_open)
  have "settled row good rid (attempt_call cfg rid rt secret body) 0 w1 w'"
  proof (cases "ar_success t")
    case False
    with run l have "run_state (serve_failure env ops p rid rt (complete_request env ops rid started) t) w1 = (a, w')"
      by (simp add: serve_buffered_def)
    with op1 un1 show ?thesis unfolding open_row_def using serve_failure_settled by blast
  next
    case True
    let ?w2 = "w1\<lparr>w_tick := w_tick w1 + 1\<rparr>"
    have op2: "open_row rid ?w2" and un2: "unsent ?w2" using op1 un1 by (simp_all add: open_row_def unsent_def)
    have "settled row good rid (attempt_call cfg rid rt secret body) 0 ?w2 w'"
    proof (cases "encode_protocol_response lib p (ar_body t) rid pm (ge_clock env (w_tick w1)) aliases")
      case None
      with run l True have "run_state (finish_then (complete_request env ops rid started) p rid ''failed'' 502
          ''invalid_upstream_response'' (ar_provider_id t)
          (respond (write_protocol_error p 502 ''invalid_upstream_response'' ''upstream_error''
               ''upstream inference could not be represented in the requested API'' rid))) ?w2 = (a, w')"
        by (simp add: serve_buffered_def now_at_def)
      then show ?thesis
        by (rule finish_then_open [OF _ op2 un2]) (simp_all add: answers_respond)
    next
      case (Some out)
      obtain ok w3 where c: "run_state (complete_request env ops rid started ''succeeded'' 200 [] (ar_model t)
          (ar_provider_id t) (ar_finality t) (ar_usage t)) ?w2 = (ok, w3)" by (meson surj_pair)
      from op2 obtain q where q: "good (w_store ?w2)" "row (w_store ?w2) rid = Some q" "ir_status q = ''in_progress''"
        unfolding open_row_def by blast
      note r = complete_request_row [OF c q(1)]
      show ?thesis
      proof (rule settled_finished [OF c q _ un2])
        assume ok
        obtain u w4 where h: "run_state (note_health env ops (t_id (r_target rt)) ''operational'' True) w3 = (u, w4)"
          by (meson surj_pair)
        with run l True Some c \<open>ok\<close> have "w' = w4\<lparr>w_writer := write_success out (w_writer w4)\<rparr>"
          by (simp add: serve_buffered_def now_at_def)
        with note_health_rows [OF h] r un2 show "good (w_store w') \<and> row (w_store w') = row (w_store w3) \<and>
            w_calls w' = w_calls w3 \<and> \<not> w_committed w' \<and> response_status (w_writer w') = Some 200"
          by (simp add: unsent_def)
      next
        assume "\<not> ok"
        with run l True Some c show "w' = w3\<lparr>w_writer := unrecorded p rid (w_writer w3)\<rparr>"
          by (simp add: serve_buffered_def now_at_def)
      qed simp
    qed
    then show ?thesis by (rule settled_tick)
  qed
  with at op show ?thesis unfolding open_row_def using settled_after_attempts by blast
qed

lemma stream_result_settled:
  assumes run: "run_state (stream_result env ops p rid rt (complete_request env ops rid started) t) w = (a, w')"
    and op: "open_row rid w" and wr: "writer_ok w" and sc: "success_commits t w"
  shows "settled row good rid P 0 w w'"
proof (cases "w_committed w")
  case False
  then have un: "unsent w" and "\<not> ar_success t" using wr sc by (auto simp: writer_ok_def unsent_def success_commits_def)
  let ?t = "with_defaults t"
  obtain q where q: "good (w_store w)" "row (w_store w) rid = Some q" "ir_status q = ''in_progress''"
    using op unfolding open_row_def by blast
  obtain ok w1 where c: "run_state (complete_request env ops rid started (terminal_status ?t) (ar_client_status ?t)
      (ar_class ?t) [] (ar_provider_id ?t) ''unknown'' zero_usage) w = (ok, w1)" by (meson surj_pair)
  note r = complete_request_row [OF c q(1)]
  show ?thesis
  proof (rule settled_finished [OF c q terminal_status_closed un])
    assume ok
    obtain u w2 where h: "run_state (note_failure env ops (t_id (r_target rt)) (ar_class ?t)) w1 = (u, w2)"
      by (meson surj_pair)
    note h' = note_failure_rows [OF h]
    have cm: "\<not> w_committed w2" using h' r False by simp
    with run c h \<open>ok\<close> \<open>\<not> ar_success t\<close> have "w' = w2\<lparr>w_writer := write_terminal p rid ?t (w_writer w2)\<rparr>"
      by (simp add: stream_result_def respond_uncommitted_def Let_def)
    with h' r un show "good (w_store w') \<and> row (w_store w') = row (w_store w1) \<and> w_calls w' = w_calls w1 \<and>
        \<not> w_committed w' \<and> response_status (w_writer w') = Some (ar_client_status ?t)"
      by (simp add: unsent_def)
  next
    assume "\<not> ok"
    with run c r \<open>\<not> ar_success t\<close> False show "w' = w1\<lparr>w_writer := unrecorded p rid (w_writer w1)\<rparr>"
      by (simp add: stream_result_def respond_uncommitted_def Let_def)
  qed
next
  case True
  then have st: "response_status (w_writer w) = Some 200" using wr by (simp add: writer_ok_def)
  obtain q where q: "good (w_store w)" "row (w_store w) rid = Some q" using op unfolding open_row_def by blast
  have "good (w_store w') \<and> w_writer w' = w_writer w \<and> w_committed w' \<and> w_calls w' = w_calls w \<and>
      (row (w_store w') = row (w_store w) \<or> (\<exists>f. row (w_store w') = (row (w_store w))(rid \<mapsto> finish_request f q)))"
    using run True q
    by (auto simp: stream_result_def respond_uncommitted_def Let_def split: if_splits prod.splits
        dest!: complete_request_row note_health_rows note_failure_rows)
  then show ?thesis
    unfolding settled_def using st q
    by (auto simp: finish_request_def intro!: exI [of _ 0])
qed

lemma serve_streaming_settled:
  assumes run: "run_state (serve_streaming env cfg lib ops p rid pm rt secret body aliases
      (complete_request env ops rid started)) w = (a, w')"
    and op: "open_row rid w" and un: "unsent w"
  shows "settled row good rid (attempt_call cfg rid rt secret body) (nat (t_max_attempts (r_target rt))) w w'"
proof (cases "ge_flusher env")
  case False
  with run have "run_state (finish_then (complete_request env ops rid started) p rid ''failed'' 500
      ''streaming_unavailable'' [] (respond (write_protocol_error p 500 ''streaming_unavailable'' ''api_error''
            ''response streaming is unavailable'' rid))) w = (a, w')"
    by (simp add: serve_streaming_def)
  then show ?thesis by (rule finish_then_open [OF _ op un]) (simp_all add: answers_respond)
next
  case True
  let ?w1 = "w\<lparr>w_tick := w_tick w + 1\<rparr>"
  let ?enc = "new_protocol_stream_encoder p rid pm (unix_seconds (ge_clock env (w_tick w))) aliases"
  let ?ops = "case ?enc of None \<Rightarrow> None | Some _ \<Rightarrow> Some (optional_encoder_ops (pl_spell lib))"
  let ?loop = "stream_loop env cfg ops rid rt secret body ?ops (nat (t_max_attempts (r_target rt))) 1 zero_result ?enc"
  obtain t w2 where l: "run_state ?loop ?w1 = (t, w2)" by (meson surj_pair)
  have op1: "open_row rid ?w1" and wr1: "writer_ok ?w1" using op un by (simp_all add: open_row_def writer_ok_def unsent_def)
  have at: "attempted row good rid (attempt_call cfg rid rt secret body) (nat (t_max_attempts (r_target rt))) ?w1 w2"
    by (rule preservesD [OF stream_loop_attempted l])
  have "streams ?w1 w2" by (rule preservesD [OF stream_loop_streams l])
  with wr1 have wr2: "writer_ok w2" by (simp add: streams_def)
  have sc: "success_commits t w2"
    by (rule stream_loop_commits [OF optional_encoder_commits l]) (simp add: success_commits_def)
  from run True l have "run_state (stream_result env ops p rid rt (complete_request env ops rid started) t) w2 = (a, w')"
    by (simp add: serve_streaming_def now_at_def Let_def)
  then have "settled row good rid (attempt_call cfg rid rt secret body) 0 w2 w'"
    by (rule stream_result_settled [OF _ attempted_open [OF at op1] wr2 sc])
  with at op1 have "settled row good rid (attempt_call cfg rid rt secret body) (nat (t_max_attempts (r_target rt))) ?w1 w'"
    unfolding open_row_def using settled_after_attempts by blast
  then show ?thesis by (rule settled_tick)
qed

text \<open>
  The calls a request makes: to the target of its route, with that target's secret, for the body
  marshalled from the request with the provider's model in place of the alias.
\<close>

lemma settled_no_calls: "settled row good rid P 0 w w' \<Longrightarrow> settled row good rid Q n w w'"
  unfolding settled_def by (elim conjE exE, intro conjI) (auto intro!: exI)

lemma target_failure_settled:
  assumes "run_state (target_failure env ops p rid rt (complete_request env ops rid started) st cl msg) w = (a, w')"
    and "open_row rid w" "unsent w"
  shows "settled row good rid P n w w'"
  using assms(1) unfolding target_failure_def
  by (rule finish_then_open [OF _ assms(2,3)]) (simp_all add: answers_health answers_respond)

end

text \<open>What \<open>execute_route\<close> needs before it calls the provider at all, and the call it then makes.\<close>

definition routed_call :: "gateway_env \<Rightarrow> gateway_config \<Rightarrow> string \<Rightarrow> chat_request \<Rightarrow> route \<Rightarrow> upstream_call \<Rightarrow> bool" where
  "routed_call env cfg rid request rt c \<longleftrightarrow>
     target_endpoint (ge_url env) (t_base_url (r_target rt)) (gc_allow_insecure_targets cfg) \<noteq> None \<and>
     (\<exists>secret body. secret \<noteq> [] \<and> gc_secret_lookup cfg (t_secret_ref (r_target rt)) = Some secret \<and>
        ge_marshal env (request\<lparr>cr_model := t_provider_model (r_target rt)\<rparr>) = Some body \<and>
        attempt_call cfg rid rt secret body c)"

context request_ledger
begin

lemma settled_mono: "settled row good rid P n w w' \<Longrightarrow> (\<And>c. P c \<Longrightarrow> Q c) \<Longrightarrow> settled row good rid Q n w w'"
  unfolding settled_def by (metis (mono_tags, lifting) list_all_iff)

lemma execute_route_settled:
  assumes run: "run_state (execute_route env cfg lib ops p rid request rt (complete_request env ops rid started)) w = (a, w')"
    and op: "open_row rid w" and un: "unsent w"
  shows "settled row good rid (routed_call env cfg rid request rt) (nat (t_max_attempts (r_target rt))) w w'"
proof (cases "target_endpoint (ge_url env) (t_base_url (r_target rt)) (gc_allow_insecure_targets cfg) = None \<or>
    gc_secret_lookup cfg (t_secret_ref (r_target rt)) \<in> {None, Some []}")
  case True
  with run show ?thesis
    by (auto simp: execute_route_def split: if_splits intro: target_failure_settled [OF _ op un])
next
  case False
  then obtain secret where s: "gc_secret_lookup cfg (t_secret_ref (r_target rt)) = Some secret" "secret \<noteq> []"
      "target_endpoint (ge_url env) (t_base_url (r_target rt)) (gc_allow_insecure_targets cfg) \<noteq> None" by auto
  show ?thesis
  proof (cases "ge_marshal env (request\<lparr>cr_model := t_provider_model (r_target rt)\<rparr>)")
    case None
    with run s have "run_state (finish_then (complete_request env ops rid started) p rid ''failed'' 500 ''internal_error'' []
        (respond (write_protocol_error p 500 ''internal_error'' ''api_error'' ''request could not be prepared'' rid))) w = (a, w')"
      by (simp add: execute_route_def)
    then show ?thesis by (rule finish_then_open [OF _ op un]) (simp_all add: answers_respond)
  next
    case (Some body)
    have P: "attempt_call cfg rid rt secret body c \<Longrightarrow> routed_call env cfg rid request rt c" for c
      using s Some by (auto simp: routed_call_def)
    from run s Some have "run_state ((if streaming request then serve_streaming else serve_buffered)
        env cfg lib ops p rid (cr_model request) rt secret body (cr_responses_tool_aliases request)
        (complete_request env ops rid started)) w = (a, w')"
      by (simp add: execute_route_def)
    then have "settled row good rid (attempt_call cfg rid rt secret body) (nat (t_max_attempts (r_target rt))) w w'"
      using op un by (auto split: if_splits intro: serve_streaming_settled serve_buffered_settled)
    then show ?thesis using P by (rule settled_mono)
  qed
qed

end

text \<open>
  \<open>handled\<close>: what became of a request whose row was created in the store \<open>s\<close>. Without attempts the
  provider was not called; with attempts the principal had the scope, its route was resolved, and
  every call was the route's.
\<close>

definition handled ::
  "('s \<Rightarrow> string \<rightharpoonup> inference_request) \<Rightarrow> 's store_ops \<Rightarrow> gateway_env \<Rightarrow> gateway_config \<Rightarrow> string \<Rightarrow> principal \<Rightarrow>
   chat_request \<Rightarrow> 's \<Rightarrow> 's world \<Rightarrow> 's world \<Rightarrow> bool" where
  "handled row ops env cfg rid pr request s w w' \<longleftrightarrow>
     (\<exists>q status n cs. row (w_store w') = (row (w_store w))(rid \<mapsto> q) \<and> response_status (w_writer w') = Some status \<and>
        (if w_committed w' then status = 200 else answers_row q status) \<and>
        ir_attempt_count q = int n \<and> w_calls w' = w_calls w @ cs \<and> length cs \<le> n \<and>
        (n = 0 \<or> (\<exists>rt s'. has_scope pr scope_inference_write \<and>
           run_state (st_resolve_route ops pr (cr_model request)) s = (Inr rt, s') \<and>
           int n \<le> t_max_attempts (r_target rt) \<and> list_all (routed_call env cfg rid request rt) cs)))"

context request_ledger
begin

lemma settled_handled:
  assumes s: "settled row good rid P 0 w1 w'"
    and row: "row (w_store w1) = (row (w_store w))(rid \<mapsto> q)" "ir_attempt_count q = 0" and calls: "w_calls w1 = w_calls w"
  shows "handled row ops env cfg rid pr request s0 w w'"
proof -
  from s row obtain q' status where "row (w_store w') rid = Some q'" "response_status (w_writer w') = Some status"
      "if w_committed w' then status = 200 else answers_row q' status" "ir_attempt_count q' = 0"
      "w_calls w' = w_calls w1" "\<forall>i. i \<noteq> rid \<longrightarrow> row (w_store w') i = row (w_store w1) i"
    by (auto simp: settled_def)
  then show ?thesis
    unfolding handled_def using row calls
    by (intro exI [of _ q'] exI [of _ status] exI [of _ 0] exI [of _ "[]"]) (auto simp: fun_eq_iff)
qed

lemma routed_handled:
  assumes s: "settled row good rid (routed_call env cfg rid request rt) (nat (t_max_attempts (r_target rt))) w1 w'"
    and row: "row (w_store w1) = (row (w_store w))(rid \<mapsto> q)" "ir_attempt_count q = 0" and calls: "w_calls w1 = w_calls w"
    and scope: "has_scope pr scope_inference_write"
    and res: "run_state (st_resolve_route ops pr (cr_model request)) s0 = (Inr rt, s')"
  shows "handled row ops env cfg rid pr request s0 w w'"
proof -
  from s row obtain q' status n cs where 1: "row (w_store w') rid = Some q'" "response_status (w_writer w') = Some status"
      "if w_committed w' then status = 200 else answers_row q' status" "ir_attempt_count q' = int n"
      "n \<le> nat (t_max_attempts (r_target rt))" "length cs \<le> n" "list_all (routed_call env cfg rid request rt) cs"
      "w_calls w' = w_calls w1 @ cs" "\<forall>i. i \<noteq> rid \<longrightarrow> row (w_store w') i = row (w_store w1) i"
    by (auto simp: settled_def)
  have "n = 0 \<or> int n \<le> t_max_attempts (r_target rt)" using 1(5) by linarith
  with 1 show ?thesis
    unfolding handled_def using row calls scope res
    by (intro exI [of _ q'] exI [of _ status] exI [of _ n] exI [of _ cs]) (auto simp: fun_eq_iff)
qed

lemma settled_good: "settled row good rid P n w w' \<Longrightarrow> good (w_store w')"
  by (simp add: settled_def)

lemma serve_authorised_handled:
  assumes run: "run_state (serve_authorised env cfg lib ops p rid pr request (complete_request env ops rid started)) w1 = (a, w')"
    and g: "good (w_store w1)" and un: "unsent w1"
    and row: "row (w_store w1) = (row (w_store w))(rid \<mapsto> q)" "ir_attempt_count q = 0" "ir_status q = ''in_progress''"
    and calls: "w_calls w1 = w_calls w"
  shows "good (w_store w') \<and> handled row ops env cfg rid pr request (w_store w1) w w'"
proof -
  have op: "open_row rid w1" using g row by (simp add: open_row_def)
  note early = finish_then_open [where P = "\<lambda>_. True" and n = 0]
  note plain = conjI [OF settled_good settled_handled [OF _ row(1,2) calls]]
  show ?thesis
  proof (cases "has_scope pr scope_inference_write")
    case False
    with run have "run_state (finish_then (complete_request env ops rid started) p rid ''blocked'' 403 ''insufficient_scope'' []
          (respond (write_protocol_error p 403 ''insufficient_scope'' ''permission_error''
            ''API key is not permitted to run inference'' rid))) w1 = (a, w')"
      by (simp add: serve_authorised_def)
    then have "settled row good rid (\<lambda>_. True) 0 w1 w'" by (rule early [OF _ op un]) (simp_all add: answers_respond)
    then show ?thesis using plain by blast
  next
    case scope: True
    obtain r s2 where res: "run_state (st_resolve_route ops pr (cr_model request)) (w_store w1) = (r, s2)" by (meson surj_pair)
    from resolve_rows [OF g res] have g2: "good s2" and r2: "row s2 = row (w_store w1)" by auto
    let ?w2 = "w1\<lparr>w_store := s2\<rparr>"
    have op2: "open_row rid ?w2" and un2: "unsent ?w2" using g2 r2 op un by (simp_all add: open_row_def unsent_def)
    have row2: "row (w_store ?w2) = (row (w_store w))(rid \<mapsto> q)" and calls2: "w_calls ?w2 = w_calls w"
      using r2 row calls by simp_all
    note plain2 = conjI [OF settled_good settled_handled [OF _ row2 row(2) calls2]]
    show ?thesis
    proof (cases r)
      case (Inl e)
      obtain st code msg where re: "route_error e = (st, code, msg)" by (rule prod_cases3)
      with run scope res Inl have "run_state (finish_then (complete_request env ops rid started) p rid ''blocked'' st code []
          (respond (write_protocol_error p st code ''invalid_request_error'' msg rid))) ?w2 = (a, w')"
        by (simp add: serve_authorised_def run_on_store)
      then have "settled row good rid (\<lambda>_. True) 0 ?w2 w'" by (rule early [OF _ op2 un2]) (simp_all add: answers_respond)
      then show ?thesis using plain2 by blast
    next
      case (Inr rt)
      obtain e s3 where b: "run_state (st_set_inference_request_route ops rid (r_id rt)) s2 = (e, s3)" by (meson surj_pair)
      note bind = bind_rows [OF g2 b]
      let ?w3 = "?w2\<lparr>w_store := s3\<rparr>"
      have un3: "unsent ?w3" and calls3: "w_calls ?w3 = w_calls w" and g3: "good (w_store ?w3)"
        using un2 calls bind by (simp_all add: unsent_def)
      show ?thesis
      proof (cases e)
        case (Some err)
        with bind r2 row have row3: "row (w_store ?w3) = (row (w_store w))(rid \<mapsto> q)" by simp
        then have op3: "open_row rid ?w3" using g3 row(3) by (simp add: open_row_def)
        from run scope res Inr b Some have "run_state (finish_then (complete_request env ops rid started) p rid ''failed'' 500
            ''ledger_error'' [] (respond (write_protocol_error p 500 ''ledger_error'' ''api_error''
                  ''request could not be recorded'' rid))) ?w3 = (a, w')"
          by (simp add: serve_authorised_def run_on_store)
        then have "settled row good rid (\<lambda>_. True) 0 ?w3 w'" by (rule early [OF _ op3 un3]) (simp_all add: answers_respond)
        then show ?thesis using conjI [OF settled_good settled_handled [OF _ row3 row(2) calls3]] by blast
      next
        case None
        with bind obtain q0 q' where q': "row s2 rid = Some q0" "bind_request (r_id rt) q0 q'" "row s3 = (row s2)(rid \<mapsto> q')"
          by auto
        then have "q0 = q" using r2 row by simp
        with q' have cnt: "ir_attempt_count q' = 0" "ir_status q' = ''in_progress''"
          using row by (auto simp: bind_request_def)
        have row3: "row (w_store ?w3) = (row (w_store w))(rid \<mapsto> q')" using q' r2 row by simp
        then have op3: "open_row rid ?w3" using g3 cnt by (simp add: open_row_def)
        from run scope res Inr b None have ex: "run_state (execute_route env cfg lib ops p rid request rt
            (complete_request env ops rid started)) ?w3 = (a, w')"
          by (simp add: serve_authorised_def run_on_store)
        note st = execute_route_settled [OF ex op3 un3]
        from res Inr have "run_state (st_resolve_route ops pr (cr_model request)) (w_store w1) = (Inr rt, s2)" by simp
        from routed_handled [OF st row3 cnt(1) calls3 scope this] settled_good [OF st] show ?thesis by simp
      qed
    qed
  qed
qed

end

end
