(* ===== verification/Gateway_Properties.thy ===== *)
theory Gateway_Properties
  imports Gateway_Accounting
begin

text \<open>
  The gateway's promises about a whole request: what \<open>ServeHTTP\<close> leaves in the ledger, what it sends
  to the provider and what it answers, first for any store with the laws of \<open>request_ledger\<close> and then,
  as properties, for the in-memory store.
\<close>

section \<open>Refused requests\<close>

lemma bad_request_status [simp]:
  "re_status (bad_request c m) = 400" "re_status (invalid_tools m) = 400" "re_status invalid_tool_choice = 400"
  "re_status (plain_error st c m) = st"
  by (simp_all add: bad_request_def invalid_tools_def invalid_tool_choice_def plain_error_def)

lemma validate_calls_error: "validate_calls cs out seen = Inl e \<Longrightarrow> re_status e = 400"
  by (induction cs out seen rule: validate_calls.induct) (auto split: if_splits)

lemma validate_message_error: "validate_message m out seen = Inl e \<Longrightarrow> re_status e = 400"
  by (auto simp: validate_message_def Let_def split: if_splits option.splits dest!: validate_calls_error)

lemma validate_messages_from_error: "validate_messages_from ms out seen = Some e \<Longrightarrow> re_status e = 400"
  by (induction ms out seen rule: validate_messages_from.induct)
    (auto simp: invalid_messages_def split: if_splits sum.splits dest!: validate_message_error)

lemma validate_tools_from_error: "validate_tools_from ts names = Inl e \<Longrightarrow> re_status e = 400"
  by (induction ts names rule: validate_tools_from.induct) (auto simp: Let_def split: if_splits)

lemma validate_stop_error: "validate_stop raw = Some e \<Longrightarrow> re_status e = 400"
  by (auto simp: validate_stop_def Let_def split: option.splits json.splits sum.splits if_splits)

lemma validate_tool_choice_error: "validate_tool_choice raw names = Some e \<Longrightarrow> re_status e = 400"
  by (auto simp: validate_tool_choice_def split: option.splits json.splits sum.splits if_splits)

lemma validate_request_error: "validate_request r = Some e \<Longrightarrow> re_status e = 400"
  unfolding validate_request_def validate_messages_def validate_tools_def
  by (auto split: if_splits option.splits sum.splits dest!: validate_messages_from_error validate_tools_from_error
      validate_stop_error validate_tool_choice_error)

lemma decode_anthropic_error: "decode_anthropic_request pf quote spell data = Inl e \<Longrightarrow> re_status e = 400"
  by (auto simp: decode_anthropic_request_def split: sum.splits decode_error.splits dest!: anthropic_to_chat_error)

lemma decode_body_error: "decode_protocol_body env lib p data = Inl e \<Longrightarrow> re_status e = 400"
  by (cases p) (auto simp: decode_protocol_body_def decode_chat_body_def split: sum.splits decode_error.splits
      dest!: decode_anthropic_error decode_responses_error)

lemma decode_protocol_request_status:
  "decode_protocol_request env cfg lib p r = Inl e \<Longrightarrow> re_status e \<in> {400, 413, 415}"
  by (auto simp: decode_protocol_request_def split: if_splits sum.splits option.splits
      dest!: decode_body_error validate_request_error)

section \<open>Requests that reach the ledger and requests that do not\<close>

definition turned_away :: "('s \<Rightarrow> string \<rightharpoonup> inference_request) \<Rightarrow> 's world \<Rightarrow> 's world \<Rightarrow> bool" where
  "turned_away row w w' \<longleftrightarrow>
     row (w_store w') = row (w_store w) \<and> w_calls w' = w_calls w \<and> \<not> w_committed w' \<and>
     (case response_status (w_writer w') of Some status \<Rightarrow> status \<ge> 400 | None \<Rightarrow> False)"

text \<open>
  \<open>accepted\<close>: the request was authenticated as \<open>pr\<close> and decoded, and its ledger row \<open>rid\<close>, new, was
  created in the store \<open>s\<close>.
\<close>

definition accepted ::
  "gateway_env \<Rightarrow> gateway_config \<Rightarrow> 'm protocol_lib \<Rightarrow> 's store_ops \<Rightarrow> http_request \<Rightarrow> 's world \<Rightarrow>
   string \<Rightarrow> principal \<Rightarrow> chat_request \<Rightarrow> 's \<Rightarrow> bool" where
  "accepted env cfg lib ops r w rid pr request s \<longleftrightarrow>
     (\<exists>protocol s1 started.
        hr_method r = ''POST'' \<and> hr_raw_query r = [] \<and> protocol_for_path (hr_path r) = Some protocol \<and>
        ge_new_id env (w_tick w) ''req'' = Inr rid \<and>
        run_state (authenticate_protocol (ge_sha env) ops protocol (hr_header r)) (w_store w) = (Inr pr, s1) \<and>
        decode_protocol_request env cfg lib protocol r = Inr request \<and>
        run_state (st_create_inference_request ops
          \<lparr>rs_id = rid, rs_principal = pr, rs_model_alias = cr_model request, rs_started_at = started\<rparr>) s1 = (None, s))"

lemma respond_turned_away:
  assumes "run_state (respond f) w1 = (a, w')" and "response_status (f (w_writer w1)) = Some st" "st \<ge> 400"
    and "row (w_store w1) = row (w_store w)" "w_calls w1 = w_calls w" "\<not> w_committed w1"
  shows "turned_away row w w'"
  using assms by (auto simp: turned_away_def)

lemma writer_sent [simp]:
  "rw_sent (vary_api_key p w) = rw_sent w" "rw_sent (identify_response i w) = rw_sent w"
  by (simp_all add: vary_api_key_def identify_response_def)

lemma not_found_status [simp]: "rw_sent w = None \<Longrightarrow> response_status (not_found w) = Some 404"
  by (simp add: not_found_def write_payload_def write_header_def response_status_def)

context request_ledger
begin

lemma serve_request_handled:
  assumes run: "run_state (serve_request env cfg lib ops p rid pr request) w1 = (a, w')"
    and g: "good (w_store w1)" and un: "unsent w1"
    and same: "row (w_store w1) = row (w_store w)" "w_calls w1 = w_calls w"
  shows "good (w_store w') \<and>
    (turned_away row w w' \<or>
     (\<exists>s started. row (w_store w) rid = None \<and>
        run_state (st_create_inference_request ops
          \<lparr>rs_id = rid, rs_principal = pr, rs_model_alias = cr_model request, rs_started_at = started\<rparr>)
          (w_store w1) = (None, s) \<and>
        handled row ops env cfg rid pr request s w w'))"
proof -
  let ?started = "ge_clock env (w_tick w1)"
  let ?start = "\<lparr>rs_id = rid, rs_principal = pr, rs_model_alias = cr_model request, rs_started_at = ?started\<rparr>"
  obtain e s where c: "run_state (st_create_inference_request ops ?start) (w_store w1) = (e, s)" by (meson surj_pair)
  note rows = create_rows [OF g c]
  let ?w2 = "w1\<lparr>w_tick := w_tick w1 + 1, w_store := s\<rparr>"
  show ?thesis
  proof (cases e)
    case (Some err)
    with run c have "w' = ?w2\<lparr>w_writer := ledger_unavailable p ''request ledger is temporarily unavailable'' rid (w_writer w1)\<rparr>"
      by (simp add: serve_request_def now_at_def run_on_store)
    then show ?thesis
      using rows Some same un by (simp add: turned_away_def ledger_unavailable_def unsent_def)
  next
    case None
    with rows obtain q where g2: "good (w_store ?w2)" and r0: "row (w_store w) rid = None" and q: "fresh_row ?start q"
        and r2: "row (w_store ?w2) = (row (w_store w))(rid \<mapsto> q)"
      using same by auto
    from q have q0: "ir_status q = ''in_progress''" "ir_attempt_count q = 0" unfolding fresh_row_def
      by (auto simp: new_request_def dest: arg_cong [where f = ir_status] arg_cong [where f = ir_attempt_count])
    from run c None have "run_state (serve_authorised env cfg lib ops p rid pr request (complete_request env ops rid ?started)) ?w2
        = (a, w')"
      by (simp add: serve_request_def now_at_def run_on_store)
    then have "good (w_store w') \<and> handled row ops env cfg rid pr request (w_store ?w2) w w'"
      by (rule serve_authorised_handled [OF _ g2 _ r2]) (use un same q0 in \<open>simp_all add: unsent_def\<close>)
    with r0 c None show ?thesis by auto
  qed
qed

lemma serve_http_accounted:
  assumes run: "run_state (serve_http env cfg lib ops r) w = (a, w')"
    and g: "good (w_store w)" and un: "unsent w"
  shows "good (w_store w') \<and>
    (turned_away row w w' \<or>
     (\<exists>rid pr request s. row (w_store w) rid = None \<and> accepted env cfg lib ops r w rid pr request s \<and>
        handled row ops env cfg rid pr request s w w'))"
proof (cases "protocol_for_path (hr_path r)")
  case None
  with run have "w' = w\<lparr>w_writer := not_found (w_writer w)\<rparr>" by (simp add: serve_http_def)
  then show ?thesis using g un by (simp add: turned_away_def unsent_def)
next
  case (Some p)
  show ?thesis
  proof (cases "ge_new_id env (w_tick w) ''req''")
    case (Inl e)
    with run Some have "w' = w\<lparr>w_tick := w_tick w + 1, w_writer := write_protocol_error p 500 ''internal_error'' ''api_error''
        ''request could not be initialised'' [] (w_writer w)\<rparr>"
      by (simp add: serve_http_def)
    then show ?thesis using g un by (simp add: turned_away_def unsent_def)
  next
    case (Inr rid)
    let ?w1 = "w\<lparr>w_tick := w_tick w + 1, w_writer := identify_response rid (w_writer w)\<rparr>"
    from run Some Inr have run1: "run_state (serve_identified env cfg lib ops p rid r) ?w1 = (a, w')"
      by (simp add: serve_http_def)
    show ?thesis
    proof (cases "hr_method r = ''POST'' \<and> hr_raw_query r = []")
      case False
      with run1 g un have "good (w_store w') \<and> turned_away row w w'"
        by (cases "hr_method r = ''POST''")
          (auto simp: serve_identified_def turned_away_def unsent_def)
      then show ?thesis by blast
    next
      case post: True
      obtain auth s1 where au: "run_state (authenticate_protocol (ge_sha env) ops p (hr_header r)) (w_store w) = (auth, s1)"
        by (meson surj_pair)
      from authenticate_protocol_rows [OF g au] have g1: "good s1" and r1: "row s1 = row (w_store w)" by auto
      let ?w2 = "?w1\<lparr>w_writer := vary_api_key p (identify_response rid (w_writer w)), w_store := s1\<rparr>"
      show ?thesis
      proof (cases auth)
        case (Inl e)
        with run1 post au g1 r1 un show ?thesis
          by (auto simp: serve_identified_def run_on_store turned_away_def unsent_def split: if_splits)
      next
        case pr: (Inr pr)
        show ?thesis
        proof (cases "decode_protocol_request env cfg lib p r")
          case (Inl e)
          with run1 post au pr have "w' = ?w2\<lparr>w_writer := write_protocol_error p (re_status e) (re_code e)
              ''invalid_request_error'' (re_message e) rid (w_writer ?w2)\<rparr>"
            by (simp add: serve_identified_def run_on_store)
          then show ?thesis
            using g1 r1 un decode_protocol_request_status [OF Inl] by (auto simp: turned_away_def unsent_def)
        next
          case rq: (Inr request)
          with run1 post au pr have "run_state (serve_request env cfg lib ops p rid pr request) ?w2 = (a, w')"
            by (simp add: serve_identified_def run_on_store)
          from serve_request_handled [where w = w, OF this] g1 r1 un
          show ?thesis
            using Some Inr post au pr rq unfolding accepted_def by (fastforce simp: unsent_def)
        qed
      qed
    qed
  qed
qed

text \<open>What a reader of the ledger and of the connection sees of a request.\<close>

lemma answered_as_recorded:
  assumes "run_state (serve_http env cfg lib ops r) w = (a, w')" and "good (w_store w)" and "unsent w"
  shows "good (w_store w') \<and>
    ((row (w_store w') = row (w_store w) \<and> w_calls w' = w_calls w \<and>
        (\<exists>status. response_status (w_writer w') = Some status \<and> status \<ge> 400)) \<or>
     (\<exists>rid q status calls. row (w_store w) rid = None \<and> row (w_store w') = (row (w_store w))(rid \<mapsto> q) \<and>
        w_calls w' = w_calls w @ calls \<and> int (length calls) \<le> ir_attempt_count q \<and>
        response_status (w_writer w') = Some status \<and>
        status = (if w_committed w' then 200 else if ir_status q = ''in_progress'' then 503 else ir_http_status q)))"
proof -
  note accounted = serve_http_accounted [OF assms]
  have "turned_away row w w' \<Longrightarrow> row (w_store w') = row (w_store w) \<and> w_calls w' = w_calls w \<and>
        (\<exists>status. response_status (w_writer w') = Some status \<and> status \<ge> 400)"
    by (auto simp: turned_away_def split: option.splits)
  moreover have "\<exists>q status calls. row (w_store w') = (row (w_store w))(rid \<mapsto> q) \<and>
        w_calls w' = w_calls w @ calls \<and> int (length calls) \<le> ir_attempt_count q \<and>
        response_status (w_writer w') = Some status \<and>
        status = (if w_committed w' then 200 else if ir_status q = ''in_progress'' then 503 else ir_http_status q)"
    if "handled row ops env cfg rid pr request s w w'" for rid pr request s
    using that by (fastforce simp: handled_def answers_row_def split: if_splits)
  ultimately show ?thesis using accounted by blast
qed

end

section \<open>The in-memory store\<close>

lemma memory_api_authenticate: "\<exists>r. run_state (api_authenticate sha memory_ops h) s = (r, s)"
  by (cases "bearer_token h") (simp_all add: api_authenticate_def memory_ops_def)

lemma memory_authenticate_store:
  assumes "run_state (authenticate_protocol sha memory_ops p h) s = (r, t)"
  shows "t = s"
proof -
  have "\<exists>r. run_state (authenticate_protocol sha memory_ops p h) s = (r, s)"
    by (simp add: authenticate_protocol_def Let_def memory_api_authenticate)
  with assms show ?thesis by auto
qed

lemma resolve_route_requests [simp]: "resolve_route (s\<lparr>ms_requests := rq\<rparr>) = resolve_route s"
proof (intro ext)
  have "ms_models (s\<lparr>ms_requests := rq\<rparr>) = ms_models s" "ms_routes (s\<lparr>ms_requests := rq\<rparr>) = ms_routes s"
      "ms_targets (s\<lparr>ms_requests := rq\<rparr>) = ms_targets s" by simp_all
  then show "resolve_route (s\<lparr>ms_requests := rq\<rparr>) pr nm = resolve_route s pr nm" for pr nm
    unfolding resolve_route_def by (simp only:)
qed

lemma memory_create_resolves:
  "run_state (create_inference_request rstart) s = (None, t) \<Longrightarrow> resolve_route t = resolve_route s"
  by (auto simp: create_inference_request_def put_request_def split: option.splits)

lemma memory_create_op: "st_create_inference_request memory_ops = create_inference_request"
  by (simp add: memory_ops_def)

lemma memory_resolve_op: "run_state (st_resolve_route memory_ops pr nm) s = (resolve_route s pr nm, s)"
  by (simp add: memory_ops_def)

section \<open>A request for an unknown model\<close>

text \<open>
  A Responses request with the key of \<open>sample_store\<close> for a model that store does not have; the codec's
  functions answer with fixed values.
\<close>

definition sample_reply :: engine_result where
  "sample_reply = \<lparr>er_body = ''{}'', er_model = ''m'', er_provider_request_id = ''p-1'', er_usage = None\<rparr>"

definition sample_env :: gateway_env where
  "sample_env =
     \<lparr>ge_new_id = (\<lambda>n pre. Inr (pre @ ''_'' @ replicate n CHR ''1'')), ge_clock = int, ge_cancelled = (\<lambda>_. False),
      ge_deadline = (\<lambda>_. False), ge_interrupted = (\<lambda>_ _. False), ge_write_fails = (\<lambda>_. False), ge_flusher = True,
      ge_chat = (\<lambda>_ _. (Some sample_reply, None)), ge_do = (\<lambda>_ _. None),
      ge_marshal = (\<lambda>r. Some (cr_model r)), ge_media_type = Some, ge_parse_time = (\<lambda>_. None),
      ge_parse_float = (\<lambda>_. None), ge_url = plain_url_lib, ge_sha = id\<rparr>"

definition sample_config :: gateway_config where
  "sample_config = \<lparr>gc_secret_lookup = (\<lambda>_. Some ''secret''), gc_max_request_bytes = 1000, gc_max_response_bytes = 1000,
     gc_retry_base_delay = 1, gc_max_retry_delay = 1, gc_allow_insecure_targets = False, gc_legacy_http = False\<rparr>"

definition sample_body :: json where
  "sample_body = JObject [(''messages'', JArray [JObject [(''content'', JString ''hi''), (''role'', JString ''user'')]])]"

definition sample_wire :: responses_wire where
  "sample_wire = \<lparr>rw_model = ''other'', rw_stream = None, rw_previous_response_id = None, rw_store = None, rw_background = None,
     rw_conversation = None, rw_text_format = None, rw_truncation = None, rw_context_management = []\<rparr>"

definition sample_lib :: "unit protocol_lib" where
  "sample_lib = \<lparr>pl_quote = id, pl_spell = (\<lambda>_. []), pl_float_text = Some,
     pl_bifrost = \<lparr>bf_decode = (\<lambda>_. Some sample_wire), bf_normalise = (\<lambda>_. Some ([], [])), bf_decode_tools = (\<lambda>_. None),
       bf_to_chat = (\<lambda>_ _. Some (Some sample_body))\<rparr>\<rparr>"

definition sample_text :: string where
  "sample_text = map (\<lambda>c. if c = CHR ''-'' then CHR 0x22 else c) ''{-input-:[]}''"

definition sample_http :: http_request where
  "sample_http = \<lparr>hr_method = ''POST'', hr_path = ''/v1/responses'', hr_raw_query = [],
     hr_header = [(''Authorization'', [''Bearer '' @ sample_token CHR 0x11 CHR 0x12]), (''Content-Type'', [''application/json''])],
     hr_body = sample_text, hr_body_error = None\<rparr>"

definition sample_world :: "mem_store world" where
  "sample_world = \<lparr>w_store = sample_store, w_tick = 0, w_writer = \<lparr>rw_header = [], rw_sent = None, rw_body = []\<rparr>, w_committed = False, w_calls = []\<rparr>"

definition sample_chat_request :: chat_request where
  "sample_chat_request = zero_request\<lparr>cr_model := ''other'',
     cr_messages := [zero_message\<lparr>m_role := ''user'', m_content := Some (JString ''hi'')\<rparr>]\<rparr>"

lemma sample_text_decode: "json_decode sample_text = Some (JObject [(''input'', JArray [])])" by code_simp
lemma sample_chat_valid: "validate_request sample_chat_request = None" by code_simp
lemma sample_token_valid: "validate_format (sample_token CHR 0x11 CHR 0x12)"
  using validate_format_with_token [of "replicate 8 CHR 0x11" "replicate 24 CHR 0x12" token_marker]
  by (simp add: validate_format_def sample_token_def)

lemma hex_encode_replicate: "hex_encode (replicate n c) = concat (replicate n (hex_encode [c]))"
  by (induction n) simp_all

lemma sextets_replicate: "b64_sextets (concat (replicate n [a, b, c])) = concat (replicate n (b64_sextets [a, b, c]))"
  by (induction n) (simp_all add: Let_def del: append_assoc)

lemma sample_token_text: "sample_token CHR 0x11 CHR 0x12 = ''alz_k_1111111111111111.EhISEhISEhISEhISEhISEhISEhISEhIS''"
proof -
  have c: "(of_char CHR 0x11 :: nat) = 17" "(of_char CHR 0x12 :: nat) = 18" by simp_all
  have "hex_encode [CHR 0x11] = ''11''" by (simp add: c hex_digit_def)
  then have "hex_encode (replicate 8 CHR 0x11) = concat (replicate 8 ''11'')" by (simp only: hex_encode_replicate)
  moreover have "map b64_digit (b64_sextets [CHR 0x12, CHR 0x12, CHR 0x12]) = ''EhIS''"
    by (simp add: c b64_digit_def b64_alphabet_def)
  then have "b64_encode (concat (replicate 8 [CHR 0x12, CHR 0x12, CHR 0x12])) = concat (replicate 8 ''EhIS'')"
    unfolding b64_encode_def sextets_replicate map_concat map_replicate by (simp only:)
  moreover have "concat (replicate 8 [CHR 0x12, CHR 0x12, CHR 0x12]) = replicate 24 CHR 0x12" by code_simp
  ultimately have "sample_token CHR 0x11 CHR 0x12 = token_marker @ concat (replicate 8 ''11'') @ ''.'' @ concat (replicate 8 ''EhIS'')"
    by (simp only: sample_token_def)
  also have "\<dots> = ''alz_k_1111111111111111.EhISEhISEhISEhISEhISEhISEhISEhIS''" by code_simp
  finally show ?thesis .
qed

lemma sample_body_decode:
  "decode_struct False (chat_request_fields False (\<lambda>_. None)) sample_body zero_request =
   Inr (sample_chat_request\<lparr>cr_model := []\<rparr>)"
  by (simp add: decode_struct_def chat_request_fields_def find_field_def field_of_def decode_string_def sample_body_def
      decode_slice_def message_fields_def decode_raw_def sample_chat_request_def zero_request_def zero_message_def)

lemma sample_decode:
  "decode_protocol_request sample_env sample_config sample_lib ProtocolResponses sample_http = Inr sample_chat_request"
proof -
  have "trim_space sample_text \<noteq> []" "trim_space [] = []" by code_simp+
  moreover have "length sample_text = 12" by (simp add: sample_text_def)
  moreover have "sample_chat_request\<lparr>cr_model := ''other'', cr_stream := None, cr_tools := [], cr_responses_tool_aliases := []\<rparr>
      = sample_chat_request" by (simp add: sample_chat_request_def zero_request_def)
  ultimately show ?thesis
  by (simp add: decode_protocol_request_def sample_env_def sample_config_def sample_lib_def sample_http_def read_body_def
      decode_protocol_body_def decode_responses_request_def sample_text_decode sample_wire_def validate_responses_policy_def
      responses_tools_to_chat_def sample_body_decode sample_chat_valid header_get_def header_values_def member_def has_non_null_def)
qed

lemma sample_bearer: "bearer_token (hr_header sample_http) = Some (sample_token CHR 0x11 CHR 0x12)"
proof -
  have "\<not> contains_str '','' ''Bearer alz_k_1111111111111111.EhISEhISEhISEhISEhISEhISEhISEhIS''" 
     "trim_space ''alz_k_1111111111111111.EhISEhISEhISEhISEhISEhISEhISEhIS'' = ''alz_k_1111111111111111.EhISEhISEhISEhISEhISEhISEhISEhIS''" 
    by code_simp+
  then show ?thesis by (simp add: bearer_token_def sample_http_def sample_token_text header_get_def header_values_def)
qed

lemma sample_protocol_auth:
  "run_state (authenticate_protocol id memory_ops ProtocolResponses (hr_header sample_http)) sample_store =
     (Inr sample_principal, sample_store)"
proof -
  let ?t = "sample_token CHR 0x11 CHR 0x12"
  have "has_prefix ''alz_k_'' ?t" by (simp add: sample_token_text)
  then show ?thesis
    by (simp add: authenticate_protocol_def api_authenticate_def sample_bearer sample_token_valid memory_ops_def
      sample_authenticate map_auth_error_def)
qed

lemma sample_fields:
  "ge_new_id sample_env n pre = Inr (pre @ ''_'' @ replicate n CHR ''1'')"
  "ge_clock sample_env n = int n" "ge_sha sample_env = id" "ge_cancelled sample_env n = False"
  "ge_chat sample_env n c = (Some sample_reply, None)" "ge_url sample_env = plain_url_lib"
  "ge_marshal sample_env q = Some (cr_model q)"
  "gc_secret_lookup sample_config nm = Some ''secret''" "gc_allow_insecure_targets sample_config = False"
  "gc_legacy_http sample_config = False" "gc_max_response_bytes sample_config = 1000"
  "hr_method sample_http = ''POST''" "hr_path sample_http = ''/v1/responses''" "hr_raw_query sample_http = []"
  "w_store sample_world = sample_store" "w_tick sample_world = 0" "w_writer sample_world = \<lparr>rw_header = [], rw_sent = None, rw_body = []\<rparr>"
  "w_committed sample_world = False" "w_calls sample_world = []"
  "cr_model sample_chat_request = ''other''" "cr_stream sample_chat_request = None"
  by (simp_all add: sample_env_def sample_config_def sample_http_def sample_world_def sample_chat_request_def zero_request_def)

lemma sample_identified:
  "run_state (serve_http sample_env sample_config sample_lib memory_ops sample_http) sample_world =
   run_state (serve_request sample_env sample_config sample_lib memory_ops ProtocolResponses ''req_'' sample_principal sample_chat_request)
     (sample_world\<lparr>w_tick := 1, w_writer := identify_response ''req_'' (w_writer sample_world)\<rparr>)"
  by (simp add: serve_http_def serve_identified_def protocol_for_path_def sample_fields vary_api_key_def run_on_store
    sample_protocol_auth sample_decode sample_world_def)

lemma sample_scope: "has_scope sample_principal scope_inference_write" by (simp add: has_scope_def sample_principal_def sample_scopes_def scope_inference_write_def)

lemma memory_fields:
  "st_authenticate memory_ops d = State (\<lambda>s. (authenticate s d, s))" "st_authenticate_human memory_ops = None"
  "st_resolve_route memory_ops pr nm = State (\<lambda>s. (resolve_route s pr nm, s))"
  "st_create_inference_request memory_ops = create_inference_request"
  "st_set_inference_request_route memory_ops = set_inference_request_route"
  "st_complete_inference_request memory_ops = complete_inference_request"
  "st_create_provider_attempt memory_ops = create_provider_attempt"
  "st_complete_provider_attempt memory_ops = complete_provider_attempt"
  "st_update_target_health memory_ops = update_target_health"
  by (simp_all add: memory_ops_def)

lemma sample_requests: "ms_requests sample_store = []"
  by (simp add: sample_store_def new_store_def Let_def)

lemma sample_resolve: "resolve_route sample_store sample_principal ''other'' = Inl ErrNotFound"
  by (simp add: resolve_route_def find_defs sample_store_def new_store_def Let_def)


definition sample_after :: "mem_store world" where
  "sample_after = snd (run_state (serve_http sample_env sample_config sample_lib memory_ops sample_http) sample_world)"

lemma sample_run:
  "run_state (serve_http sample_env sample_config sample_lib memory_ops sample_http) sample_world = ((), sample_after)"
  by (simp add: sample_after_def prod_eq_iff)

lemma sample_refused:
  "response_status (w_writer sample_after) = Some 404" "memory_row (w_store sample_after) ''req_'' \<noteq> None"
  "\<not> w_committed sample_after" "w_calls sample_after = []"
  by (simp_all only: sample_after_def sample_identified memory_row_def)
   (simp_all add: serve_request_def now_at_def run_on_store sample_fields memory_fields create_inference_request_def
    sample_requests put_request_def serve_authorised_def sample_scope sample_resolve route_error_def finish_then_def
    complete_request_def complete_inference_request_def new_request_def finish_request_def identify_response_def
    set_header_def write_protocol_error_def write_error_def write_json_def write_payload_def write_header_def
    response_status_def)

lemma sample_world_ok: "store_wf (w_store sample_world)" "unsent sample_world" "memory_row (w_store sample_world) = Map.empty"
  using reachable_wf [OF sample_reachable]
  by (simp_all add: sample_fields unsent_def memory_row_def sample_requests)

section \<open>Properties\<close>

text \<open>
  C1: every request is answered, and what the ledger says of it is what was answered. Whatever the
  request, the provider and the clock do, \<open>ServeHTTP\<close> over the in-memory store ends with a status sent:
  either the request is turned away with a client or server error, no row is written and the provider
  is not called; or exactly one row, under an identifier not used before, is added, the provider was
  called at most as often as the row counts attempts, and the status sent is the row's HTTP status -
  200 once a stream was committed, and 503 when the row could not be completed.
\<close>

theorem requests_are_answered_as_recorded:
  assumes "run_state (serve_http env cfg lib memory_ops r) w = (a, w')"
    and "store_wf (w_store w)" and "unsent w"
  shows "store_wf (w_store w') \<and>
    ((memory_row (w_store w') = memory_row (w_store w) \<and> w_calls w' = w_calls w \<and>
        (\<exists>status. response_status (w_writer w') = Some status \<and> status \<ge> 400)) \<or>
     (\<exists>rid q status calls. memory_row (w_store w) rid = None \<and>
        memory_row (w_store w') = (memory_row (w_store w))(rid \<mapsto> q) \<and>
        w_calls w' = w_calls w @ calls \<and> int (length calls) \<le> ir_attempt_count q \<and>
        response_status (w_writer w') = Some status \<and>
        status = (if w_committed w' then 200 else if ir_status q = ''in_progress'' then 503 else ir_http_status q)))"
  by (rule mem.answered_as_recorded [OF assms])

theorem requests_are_answered_as_recorded_witness:
  "\<exists>q. memory_row (w_store sample_after) ''req_'' = Some q \<and> (ir_status q = ''in_progress'' \<or> ir_http_status q = 404)"
proof -
  obtain rid q where new: "memory_row (w_store sample_after) = (memory_row (w_store sample_world))(rid \<mapsto> q)"
    and st: "404 = (if w_committed sample_after then 200 else if ir_status q = ''in_progress'' then 503 else ir_http_status q)"
    using requests_are_answered_as_recorded [OF sample_run sample_world_ok(1,2)] sample_refused
    by (auto simp: sample_world_ok(3))
  have "rid = ''req_''" using new sample_refused(2) by (auto simp: sample_world_ok(3) split: if_splits)
  with new st sample_refused(3) show ?thesis by (auto split: if_splits)
qed

text \<open>
  C2: the provider is called for authenticated, permitted and routed requests only. Whenever \<open>ServeHTTP\<close>
  calls the provider, the request carried a key the store accepts, the key's principal has the scope
  \<open>inference:write\<close>, the decoded model is an alias the store resolves to a route of that principal, and
  there are no more calls than the target's attempts; each call carries the target's own secret and
  model and the request with that model in place of the alias.
\<close>

theorem provider_is_called_for_routed_requests:
  assumes "run_state (serve_http env cfg lib memory_ops r) w = (a, w')"
    and "store_wf (w_store w)" and "unsent w"
  shows "w_calls w' = w_calls w \<or>
    (\<exists>protocol rid pr request rt calls.
       protocol_for_path (hr_path r) = Some protocol \<and>
       run_state (authenticate_protocol (ge_sha env) memory_ops protocol (hr_header r)) (w_store w) = (Inr pr, w_store w) \<and>
       decode_protocol_request env cfg lib protocol r = Inr request \<and>
       has_scope pr scope_inference_write \<and> resolve_route (w_store w) pr (cr_model request) = Inr rt \<and>
       w_calls w' = w_calls w @ calls \<and> int (length calls) \<le> t_max_attempts (r_target rt) \<and>
       list_all (routed_call env cfg rid request rt) calls)"
proof -
  have "turned_away memory_row w w' \<or>
     (\<exists>rid pr request s. memory_row (w_store w) rid = None \<and> accepted env cfg lib memory_ops r w rid pr request s \<and>
        handled memory_row memory_ops env cfg rid pr request s w w')"
    using mem.serve_http_accounted [OF assms] by simp
  then show ?thesis
  proof (elim disjE exE conjE)
    fix rid pr request s assume ac: "accepted env cfg lib memory_ops r w rid pr request s"
      and ha: "handled memory_row memory_ops env cfg rid pr request s w w'"
    from ac obtain p s1 started where p: "protocol_for_path (hr_path r) = Some p"
        "run_state (authenticate_protocol (ge_sha env) memory_ops p (hr_header r)) (w_store w) = (Inr pr, s1)"
        "decode_protocol_request env cfg lib p r = Inr request"
        "run_state (create_inference_request
          \<lparr>rs_id = rid, rs_principal = pr, rs_model_alias = cr_model request, rs_started_at = started\<rparr>) s1 = (None, s)"
      unfolding accepted_def memory_create_op by blast
    from memory_authenticate_store [OF p(2)] have s1: "s1 = w_store w" .
    from ha obtain n cs where h: "w_calls w' = w_calls w @ cs" "length cs \<le> n"
        "n = 0 \<or> (\<exists>rt s'. has_scope pr scope_inference_write \<and>
           run_state (st_resolve_route memory_ops pr (cr_model request)) s = (Inr rt, s') \<and>
           int n \<le> t_max_attempts (r_target rt) \<and> list_all (routed_call env cfg rid request rt) cs)"
      unfolding handled_def by blast
    show ?thesis
    proof (cases "n = 0")
      case True
      with h show ?thesis by simp
    next
      case False
      with h(3) obtain rt where rt: "has_scope pr scope_inference_write" "resolve_route s pr (cr_model request) = Inr rt"
          "int n \<le> t_max_attempts (r_target rt)" "list_all (routed_call env cfg rid request rt) cs"
        by (auto simp: memory_resolve_op)
      with p h(1,2) s1 memory_create_resolves [OF p(4)] show ?thesis
        by (intro disjI2 exI [of _ p] exI [of _ rid] exI [of _ pr] exI [of _ request] exI [of _ rt] exI [of _ cs]) simp
    qed
  qed (simp add: turned_away_def)
qed

theorem provider_is_called_for_routed_requests_witness:
  "w_calls sample_after = [] \<and> response_status (w_writer sample_after) = Some 404"
  using provider_is_called_for_routed_requests [OF sample_run sample_world_ok(1,2)] sample_refused by simp

end
