(* ===== verification/Go_Float.thy ===== *)
theory Go_Float
  imports Go_Prelude "HOL-Library.Log_Nat"
begin

text \<open>
  \<open>float64\<close> over the rationals: a finite value is the rational it stands for, and an operation rounds
  its exact result to 53 significant bits, to nearest and ties to even. Overflow and subnormal numbers are
  left out: the values the program computes are quotients of counts, and multiples of them.
\<close>

definition round_half_even :: "rat \<Rightarrow> int" where
  "round_half_even x =
     (let n = \<lfloor>x\<rfloor>; d = x - of_int n
      in if d < 1 / 2 \<or> d = 1 / 2 \<and> even n then n else n + 1)"

text \<open>The greatest power of two that is not above a positive number.\<close>

definition binade :: "rat \<Rightarrow> rat" where
  "binade x =
     (case quotient_of x of
        (a, b) \<Rightarrow> (let p = 2 ^ nat (bitlen a) / 2 ^ nat (bitlen b) in if p \<le> x then p else p / 2))"

definition float64 :: "rat \<Rightarrow> rat" where
  "float64 x =
     (if x = 0 then 0
      else let ulp = binade \<bar>x\<bar> / 2 ^ 52; m = of_int (round_half_even (\<bar>x\<bar> / ulp)) * ulp
           in if x < 0 then - m else m)"

definition float_of_int :: "int \<Rightarrow> rat" where
  "float_of_int n = float64 (of_int n)"

definition float_div :: "rat \<Rightarrow> rat \<Rightarrow> rat" where
  "float_div x y = float64 (x / y)"

definition float_mult :: "rat \<Rightarrow> rat \<Rightarrow> rat" where
  "float_mult x y = float64 (x * y)"

section \<open>The rounding error\<close>

lemma round_half_even_error: "\<bar>of_int (round_half_even x) - x\<bar> \<le> 1 / 2"
proof -
  have "of_int \<lfloor>x\<rfloor> \<le> x" and "x < of_int \<lfloor>x\<rfloor> + 1" by linarith+
  then show ?thesis unfolding round_half_even_def Let_def of_int_add of_int_1 if_distrib [of of_int] abs_le_iff
    by (cases "x - of_int \<lfloor>x\<rfloor> < 1 / 2 \<or> x - of_int \<lfloor>x\<rfloor> = 1 / 2 \<and> even \<lfloor>x\<rfloor>") (simp_all only: if_True if_False; linarith)+
qed

lemma binade_bounds:
  assumes "0 < x"
  shows "0 < binade x" and "binade x \<le> x" and "x < 2 * binade x"
proof -
  obtain a b where q: "quotient_of x = (a, b)" by (cases "quotient_of x")
  then have x: "x = of_int a / of_int b" and b: "0 < b" by (simp_all add: quotient_of_div quotient_of_denom_pos)
  with assms have a: "0 < a" by (simp add: zero_less_divide_iff)
  let ?A = "2 ^ nat (bitlen a)" and ?B = "2 ^ nat (bitlen b)"
  have half: "2 ^ nat (bitlen n - 1) * 2 = (2 ^ nat (bitlen n) :: int)" if "0 < n" for n
  proof -
    have "bitlen n > 0" using that bitlen_eq_zero_iff [of n] bitlen_nonneg [of n] by linarith
    then have "nat (bitlen n) = Suc (nat (bitlen n - 1))" by linarith
    then show ?thesis by simp
  qed
  have A: "?A \<le> 2 * a" "a < ?A" and B: "?B \<le> 2 * b" "b < ?B"
    using bitlen_bounds [OF a] bitlen_bounds [OF b] half [OF a] half [OF b] by linarith+
  have ra: "(?A :: rat) \<le> 2 * of_int a" "of_int a < (?A :: rat)" "(?B :: rat) \<le> 2 * of_int b" "of_int b < (?B :: rat)"
    using A B by (metis of_int_le_iff of_int_less_iff of_int_mult of_int_numeral of_int_power)+
  let ?p = "(?A :: rat) / ?B"
  have p: "0 < ?p" by simp
  have "of_int a * (?B :: rat) < 2 * ?A * of_int b"
  proof -
    have "of_int a * (?B :: rat) < ?A * ?B" using ra(2) by simp
    also have "\<dots> \<le> ?A * (2 * of_int b)" using ra(3) by simp
    finally show ?thesis by simp
  qed
  then have up: "x < 2 * ?p" using b by (simp add: x field_simps)
  have "?A * of_int b < 2 * of_int a * (?B :: rat)"
  proof -
    have "?A * of_int b < ?A * (?B :: rat)" using ra(4) by simp
    also have "\<dots> \<le> 2 * of_int a * ?B" using ra(1) by simp
    finally show ?thesis .
  qed
  then have low: "?p / 2 \<le> x" using b by (simp add: x field_simps)
  have bin: "binade x = (if ?p \<le> x then ?p else ?p / 2)" by (simp add: binade_def q Let_def)
  show "0 < binade x" "binade x \<le> x" "x < 2 * binade x" using p up low by (auto simp: bin)
qed

lemma float64_error:
  assumes "0 \<le> x"
  shows "\<bar>float64 x - x\<bar> \<le> x / 2 ^ 53"
proof (cases "x = 0")
  case False
  with assms have x: "0 < x" by simp
  let ?u = "binade x / 2 ^ 52"
  have u: "0 < ?u" using binade_bounds(1) [OF x] by simp
  have "float64 x - x = (of_int (round_half_even (x / ?u)) - x / ?u) * ?u"
    using x u by (simp add: float64_def Let_def left_diff_distrib)
  then have "\<bar>float64 x - x\<bar> = \<bar>of_int (round_half_even (x / ?u)) - x / ?u\<bar> * ?u"
    using u by (simp only: abs_mult abs_of_pos)
  also have "\<dots> \<le> 1 / 2 * ?u" using round_half_even_error u by (intro mult_right_mono) simp_all
  also have "\<dots> \<le> x / 2 ^ 53" using binade_bounds(2) [OF x] by simp
  finally show ?thesis .
qed (simp add: float64_def)

lemma float64_between:
  assumes "0 \<le> x"
  shows "x * (1 - 1 / 2 ^ 53) \<le> float64 x" and "float64 x \<le> x * (1 + 1 / 2 ^ 53)" and "0 \<le> float64 x"
proof -
  have "float64 x - x \<le> x / 2 ^ 53" "x - float64 x \<le> x / 2 ^ 53"
    using float64_error [OF assms] by linarith+
  then show "x * (1 - 1 / 2 ^ 53) \<le> float64 x" "float64 x \<le> x * (1 + 1 / 2 ^ 53)" by (simp_all add: algebra_simps)
  have "0 \<le> x * (1 - 1 / 2 ^ 53)" using assms by (intro mult_nonneg_nonneg) simp_all
  with \<open>x * (1 - 1 / 2 ^ 53) \<le> float64 x\<close> show "0 \<le> float64 x" by linarith
qed

lemma float_third: "float_div (float_of_int 1) (float_of_int 3) \<noteq> 1 / 3"
  by code_simp

end
