(* ===== verification/Control_Usage.thy ===== *)
theory Control_Usage
  imports Memory_Ledger Go_Float Complex_Main "HOL-Library.Product_Lexorder"
begin

text \<open>
  The figures the control API derives from the ledger (\<open>internal/control/control.go\<close>,
  \<open>client_dashboard.go\<close>): totals, token metrics, latency percentiles, rates, the trend, the model
  breakdown and the health of a route as the caller's own requests show it. Counts are exact; sums of
  tokens wrap as \<open>int64\<close> does; rates and shares are computed in \<open>float64\<close>, each operation rounded.
\<close>

section \<open>Token metrics\<close>

record token_metric =
  tm_value :: "int option"
  tm_known_requests :: int
  tm_eligible_requests :: int
  tm_finality :: string

record metric_builder =
  mb_value :: int
  mb_known :: int

definition zero_metric :: metric_builder where
  "zero_metric = \<lparr>mb_value = 0, mb_known = 0\<rparr>"

definition metric_add :: "int option \<Rightarrow> metric_builder \<Rightarrow> metric_builder" where
  "metric_add v m =
     (case v of None \<Rightarrow> m
      | Some n \<Rightarrow> \<lparr>mb_value = wrap64 (mb_value m + n), mb_known = mb_known m + 1\<rparr>)"

definition metric_result :: "metric_builder \<Rightarrow> int \<Rightarrow> token_metric" where
  "metric_result m eligible =
     \<lparr>tm_value = (if mb_known m > 0 then Some (mb_value m) else None),
      tm_known_requests = mb_known m, tm_eligible_requests = eligible,
      tm_finality = (if eligible > 0 \<and> mb_known m = eligible then ''final''
        else if mb_known m > 0 then ''partial'' else ''unknown'')\<rparr>"

section \<open>Latencies\<close>

text \<open>\<open>Duration.Milliseconds\<close> truncates towards zero.\<close>

definition milliseconds :: "duration \<Rightarrow> int" where
  "milliseconds d = sgn d * (\<bar>d\<bar> div 1000000)"

text \<open>
  \<open>math.Ceil(float64(n) * p) - 1\<close>. The two constants the code passes are 0.50 and 0.95: the product
  with 0.50 is exact, and that with 0.95 rounds to the exact one wherever it is a whole number, so
  that the ceiling is the one of the rational product.
\<close>

definition percentile :: "int list \<Rightarrow> rat \<Rightarrow> int option" where
  "percentile values p =
     (if values = [] then None
      else let index = \<lceil>of_nat (length values) * p\<rceil> - 1
           in Some (values ! nat (if index < 0 then 0 else index)))"

section \<open>The summary\<close>

record usage_summary =
  us_logical_requests :: int
  us_successful_requests :: int
  us_failed_requests :: int
  us_blocked_requests :: int
  us_cancelled_requests :: int
  us_error_rate :: rat
  us_p50_latency_ms :: "int option"
  us_p95_latency_ms :: "int option"
  us_peak_concurrency :: "int option"
  us_throughput_rps :: "rat option"
  us_input_tokens :: token_metric
  us_output_tokens :: token_metric
  us_cached_tokens :: token_metric
  us_reasoning_tokens :: token_metric

record summary_state =
  sm_successful :: int
  sm_failed :: int
  sm_blocked :: int
  sm_cancelled :: int
  sm_eligible :: int
  sm_latencies :: "int list"
  sm_input :: metric_builder
  sm_output :: metric_builder
  sm_cached :: metric_builder
  sm_reasoning :: metric_builder

definition summary_start :: summary_state where
  "summary_start =
     \<lparr>sm_successful = 0, sm_failed = 0, sm_blocked = 0, sm_cancelled = 0, sm_eligible = 0, sm_latencies = [],
      sm_input = zero_metric, sm_output = zero_metric, sm_cached = zero_metric, sm_reasoning = zero_metric\<rparr>"

definition count_status :: "string \<Rightarrow> summary_state \<Rightarrow> summary_state" where
  "count_status status m =
     (if status = ''succeeded'' then m\<lparr>sm_successful := sm_successful m + 1, sm_eligible := sm_eligible m + 1\<rparr>
      else if status = ''failed'' then m\<lparr>sm_failed := sm_failed m + 1\<rparr>
      else if status = ''blocked'' then m\<lparr>sm_blocked := sm_blocked m + 1\<rparr>
      else if status = ''cancelled'' then m\<lparr>sm_cancelled := sm_cancelled m + 1\<rparr>
      else m)"

definition summary_step :: "inference_request \<Rightarrow> summary_state \<Rightarrow> summary_state" where
  "summary_step q m =
     (let m = count_status (ir_status q) m;
          m = (if ir_completed_at q \<noteq> None then m\<lparr>sm_latencies := sm_latencies m @ [milliseconds (ir_duration q)]\<rparr> else m);
          u = ir_usage q
      in if ir_status q \<noteq> ''succeeded'' then m
         else m\<lparr>sm_input := metric_add (u_input_tokens u) (sm_input m),
                sm_output := metric_add (u_output_tokens u) (sm_output m),
                sm_cached := metric_add (u_cached_tokens u) (sm_cached m),
                sm_reasoning := metric_add (u_reasoning_tokens u) (sm_reasoning m)\<rparr>)"

definition summarise :: "inference_request list \<Rightarrow> usage_summary" where
  "summarise requests =
     (let m = fold summary_step requests summary_start;
          logical = int (length requests);
          latencies = sort (sm_latencies m)
      in \<lparr>us_logical_requests = logical, us_successful_requests = sm_successful m,
          us_failed_requests = sm_failed m, us_blocked_requests = sm_blocked m,
          us_cancelled_requests = sm_cancelled m,
          us_error_rate = (if logical > 0 then float_div (float_of_int (sm_failed m + sm_cancelled m)) (float_of_int logical) else 0),
          us_p50_latency_ms = percentile latencies (1 / 2),
          us_p95_latency_ms = percentile latencies (95 / 100),
          us_peak_concurrency = None, us_throughput_rps = None,
          us_input_tokens = metric_result (sm_input m) (sm_eligible m),
          us_output_tokens = metric_result (sm_output m) (sm_eligible m),
          us_cached_tokens = metric_result (sm_cached m) (sm_eligible m),
          us_reasoning_tokens = metric_result (sm_reasoning m) (sm_eligible m)\<rparr>)"

section \<open>The client's figures\<close>

record client_tokens =
  ct_input :: "int option"
  ct_output :: "int option"
  ct_cached :: "int option"
  ct_reasoning :: "int option"
  ct_total :: "int option"

record client_usage_view =
  cu_logical_requests :: int
  cu_successful_requests :: int
  cu_success_rate :: "rat option"
  cu_error_rate :: "rat option"
  cu_blocked_requests :: int
  cu_tokens :: client_tokens
  cu_p50_latency_ms :: "int option"
  cu_p95_latency_ms :: "int option"

definition complete_token_metric :: "token_metric \<Rightarrow> int option" where
  "complete_token_metric m =
     (if tm_eligible_requests m = 0 \<or> tm_known_requests m \<noteq> tm_eligible_requests m then None else tm_value m)"

definition add_known :: "int option \<Rightarrow> int option \<Rightarrow> int option" where
  "add_known l r = (case (l, r) of (Some a, Some b) \<Rightarrow> Some (wrap64 (a + b)) | _ \<Rightarrow> None)"

definition percentage :: "int \<Rightarrow> int \<Rightarrow> rat option" where
  "percentage v n = (if n = 0 then None else Some (float_mult (float_div (float_of_int v) (float_of_int n)) 100))"

definition client_usage :: "inference_request list \<Rightarrow> client_usage_view" where
  "client_usage requests =
     (let summary = summarise requests;
          input = complete_token_metric (us_input_tokens summary);
          output = complete_token_metric (us_output_tokens summary)
      in \<lparr>cu_logical_requests = us_logical_requests summary,
          cu_successful_requests = us_successful_requests summary,
          cu_success_rate = percentage (us_successful_requests summary) (us_logical_requests summary),
          cu_error_rate = percentage (us_failed_requests summary + us_cancelled_requests summary)
            (us_logical_requests summary),
          cu_blocked_requests = us_blocked_requests summary,
          cu_tokens = \<lparr>ct_input = input, ct_output = output,
            ct_cached = complete_token_metric (us_cached_tokens summary),
            ct_reasoning = complete_token_metric (us_reasoning_tokens summary),
            ct_total = add_known input output\<rparr>,
          cu_p50_latency_ms = us_p50_latency_ms summary,
          cu_p95_latency_ms = us_p95_latency_ms summary\<rparr>)"

section \<open>Trend and breakdowns\<close>

text \<open>\<open>Time.Truncate\<close>: down to a multiple of the interval since the zero instant.\<close>

definition truncate_time :: "duration \<Rightarrow> time \<Rightarrow> time" where
  "truncate_time d t = t - (t - zero_time) mod d"

text \<open>A map of lists, grouped by a key and read in the key's order.\<close>

fun add_to_group :: "'k \<Rightarrow> 'v \<Rightarrow> ('k, 'v list) go_map \<Rightarrow> ('k, 'v list) go_map" where
  "add_to_group k v [] = [(k, [v])]"
| "add_to_group k v ((k', vs) # m) = (if k' = k then (k', vs @ [v]) # m else (k', vs) # add_to_group k v m)"

definition group_by :: "('v \<Rightarrow> 'k) \<Rightarrow> 'v list \<Rightarrow> ('k, 'v list) go_map" where
  "group_by f vs = fold (\<lambda>v. add_to_group (f v) v) vs []"

definition groups_in_order :: "('v \<Rightarrow> 'k::linorder) \<Rightarrow> 'v list \<Rightarrow> ('k \<times> 'v list) list" where
  "groups_in_order f vs = sort_key fst (group_by f vs)"

record trend_point =
  tp_label :: string
  tp_requests :: int
  tp_tokens :: "int option"
  tp_success_rate :: "rat option"
  tp_p95_latency_ms :: "int option"

definition trend_interval :: "usage_filter \<Rightarrow> duration" where
  "trend_interval flt = (if time_sub (uf_to flt) (uf_from flt) \<le> 48 * hour then hour else 24 * hour)"

definition trend_layout :: "usage_filter \<Rightarrow> string" where
  "trend_layout flt =
     (if time_sub (uf_to flt) (uf_from flt) \<le> 48 * hour then ''02 Jan 15:00'' else ''02 Jan'')"

definition trend_point_of :: "(string \<Rightarrow> time \<Rightarrow> string) \<Rightarrow> string \<Rightarrow> time \<times> inference_request list \<Rightarrow> trend_point" where
  "trend_point_of format_time layout g =
     (let usage = client_usage (snd g)
      in \<lparr>tp_label = format_time layout (fst g), tp_requests = cu_logical_requests usage,
          tp_tokens = ct_total (cu_tokens usage), tp_success_rate = cu_success_rate usage,
          tp_p95_latency_ms = cu_p95_latency_ms usage\<rparr>)"

definition client_trend ::
  "(string \<Rightarrow> time \<Rightarrow> string) \<Rightarrow> inference_request list \<Rightarrow> usage_filter \<Rightarrow> trend_point list" where
  "client_trend format_time requests flt =
     map (trend_point_of format_time (trend_layout flt))
       (groups_in_order (\<lambda>q. truncate_time (trend_interval flt) (ir_started_at q)) requests)"

record project_breakdown =
  pb_name :: string
  pb_requests :: int
  pb_tokens :: "int option"
  pb_share :: "rat option"

definition client_project_breakdown :: "inference_request list \<Rightarrow> principal \<Rightarrow> project_breakdown list" where
  "client_project_breakdown requests pr =
     (if requests = [] then []
      else [\<lparr>pb_name = p_project_name pr @ '' / '' @ p_environment_name pr, pb_requests = int (length requests),
             pb_tokens = ct_total (cu_tokens (client_usage requests)), pb_share = Some 100\<rparr>])"

record model_breakdown =
  mo_alias :: string
  mo_executed_model :: "string option"
  mo_requests :: int
  mo_tokens :: "int option"
  mo_share :: rat

definition model_breakdown_of :: "nat \<Rightarrow> (string \<times> string) \<times> inference_request list \<Rightarrow> model_breakdown" where
  "model_breakdown_of n g =
     \<lparr>mo_alias = fst (fst g), mo_executed_model = (if snd (fst g) = [] then None else Some (snd (fst g))),
      mo_requests = int (length (snd g)), mo_tokens = ct_total (cu_tokens (client_usage (snd g))),
      mo_share = float_mult (float_div (float_of_int (int (length (snd g)))) (float_of_int (int n))) 100\<rparr>"

definition client_model_breakdown :: "inference_request list \<Rightarrow> model_breakdown list" where
  "client_model_breakdown requests =
     map (model_breakdown_of (length requests))
       (groups_in_order (\<lambda>q. (ir_model_alias q, ir_executed_model q)) requests)"

section \<open>The health of a route, as the caller's requests show it\<close>

record route_observation =
  ro_status :: string
  ro_latest_at :: "time option"
  ro_last_success_at :: "time option"

definition unknown_observation :: route_observation where
  "unknown_observation = \<lparr>ro_status = ''unknown'', ro_latest_at = None, ro_last_success_at = None\<rparr>"

definition target_failure_classes :: "string list" where
  "target_failure_classes =
     [''target_configuration'', ''upstream_rate_limited'', ''upstream_timeout'', ''upstream_transport'',
      ''upstream_unavailable'', ''upstream_error'', ''invalid_upstream_response'', ''upstream_response_too_large'']"

definition is_target_failure_observation :: "string \<Rightarrow> bool" where
  "is_target_failure_observation c \<longleftrightarrow> c \<in> set target_failure_classes"

definition later_than :: "time \<Rightarrow> time option \<Rightarrow> bool" where
  "later_than t latest = (case latest of None \<Rightarrow> True | Some l \<Rightarrow> l < t)"

definition bound_to :: "route \<Rightarrow> inference_request \<Rightarrow> bool" where
  "bound_to rt q \<longleftrightarrow>
     ir_route_id q = r_id rt \<and> ir_bound_target_id q = t_id (r_target rt) \<and> ir_bound_model_id q = r_model_id rt \<and>
     ir_route_binding_generation q = r_binding_generation rt"

definition observed_status :: "inference_request \<Rightarrow> string" where
  "observed_status q =
     (if ir_status q = ''succeeded'' then ''operational''
      else if ir_status q = ''failed'' \<and> is_target_failure_observation (ir_error_class q) then ''degraded''
      else [])"

definition observe_request :: "route \<Rightarrow> inference_request \<Rightarrow> route_observation \<Rightarrow> route_observation" where
  "observe_request rt q o1 =
     (case ir_completed_at q of
        None \<Rightarrow> o1
      | Some t \<Rightarrow>
          if \<not> bound_to rt q then o1
          else
            let o2 = (if later_than t (ro_latest_at o1) \<and> observed_status q \<noteq> []
                      then o1\<lparr>ro_latest_at := Some t, ro_status := observed_status q\<rparr> else o1)
            in if ir_status q = ''succeeded'' \<and> later_than t (ro_last_success_at o2)
               then o2\<lparr>ro_last_success_at := Some t\<rparr> else o2)"

definition scoped_route_observation :: "route \<Rightarrow> inference_request list \<Rightarrow> route_observation" where
  "scoped_route_observation rt requests =
     (if r_id rt = [] \<or> t_id (r_target rt) = [] \<or> r_model_id rt = [] \<or> r_binding_generation rt \<le> 0
      then unknown_observation
      else fold (observe_request rt) requests unknown_observation)"

definition route_state :: "route \<Rightarrow> route_observation \<Rightarrow> string" where
  "route_state rt observation =
     (if \<not> r_model_enabled rt \<or> \<not> r_enabled rt \<or> \<not> t_enabled (r_target rt) \<or>
         t_health_status (r_target rt) = ''unavailable''
      then ''unavailable'' else ro_status observation)"

definition route_freshness :: "time option \<Rightarrow> time \<Rightarrow> string" where
  "route_freshness observed now =
     (case observed of
        None \<Rightarrow> ''unknown''
      | Some t \<Rightarrow> if time_sub now t > 2 * minute then ''stale'' else ''fresh'')"

end
