(* ===== verification/Control_Views.thy ===== *)
theory Control_Views
  imports Control_Usage Http_Api Go_Marshal
begin

text \<open>
  What the control API answers with (\<open>internal/control/control.go\<close>, \<open>client_dashboard.go\<close>): the
  response structs, how each is filled from a principal, a ledger row or a route, and how
  \<open>encoding/json\<close> prints it (the field tags, \<open>omitempty\<close> included). \<open>control_lib\<close> holds the library
  functions used: SHA-256, \<open>BasicAuth\<close>, \<open>url.ParseQuery\<close> as the list of names and values in the order
  the range loop meets them, \<open>time.Parse\<close> with RFC3339, \<open>Time.Format\<close>, \<open>strings.ToUpper\<close>, and the text
  \<open>encoding/json\<close> gives to a time and to a \<open>float64\<close>. \<open>cl_clock\<close> and \<open>cl_new_id\<close> are the configured
  functions; \<open>cl_clock n\<close> is the \<open>n\<close>-th reading of the clock while one request is served.
\<close>

record control_lib =
  cl_sha :: "string \<Rightarrow> string"
  cl_basic :: "string \<Rightarrow> (string \<times> string) option"
  cl_parse_query :: "string \<Rightarrow> (string \<times> string list) list"
  cl_parse_time :: "string \<Rightarrow> time option"
  cl_format_time :: "string \<Rightarrow> time \<Rightarrow> string"
  cl_to_upper :: "string \<Rightarrow> string"
  cl_json_time :: "time \<Rightarrow> string"
  cl_json_float :: "rat \<Rightarrow> string"
  cl_clock :: "nat \<Rightarrow> time"
  cl_new_id :: "string \<Rightarrow> err + string"

section \<open>Printing\<close>

definition json_option :: "('a \<Rightarrow> json) \<Rightarrow> 'a option \<Rightarrow> json" where
  "json_option f v = (case v of None \<Rightarrow> JNull | Some x \<Rightarrow> f x)"

definition json_time :: "control_lib \<Rightarrow> time \<Rightarrow> json" where
  "json_time lib t = JString (cl_json_time lib t)"

definition json_float :: "control_lib \<Rightarrow> rat \<Rightarrow> json" where
  "json_float lib x = JNumber (cl_json_float lib x)"

text \<open>A string or an integer with \<open>omitempty\<close>.\<close>

definition unless_empty :: "string \<Rightarrow> string \<Rightarrow> (string \<times> json) list" where
  "unless_empty k v = (if v = [] then [] else [(k, JString v)])"

definition unless_zero :: "string \<Rightarrow> int \<Rightarrow> (string \<times> json) list" where
  "unless_zero k v = (if v = 0 then [] else [(k, json_int v)])"

definition json_usage :: "token_usage \<Rightarrow> json" where
  "json_usage u =
     JObject ([(''input_tokens'', json_option json_int (u_input_tokens u)),
       (''output_tokens'', json_option json_int (u_output_tokens u)),
       (''total_tokens'', json_option json_int (u_total_tokens u)),
       (''cached_tokens'', json_option json_int (u_cached_tokens u)),
       (''cached_write_tokens'', json_option json_int (u_cached_write_tokens u)),
       (''cached_write_tokens_5m'', json_option json_int (u_cached_write_tokens_5m u)),
       (''cached_write_tokens_1h'', json_option json_int (u_cached_write_tokens_1h u)),
       (''reasoning_tokens'', json_option json_int (u_reasoning_tokens u)),
       (''text_input_tokens'', json_option json_int (u_text_input_tokens u)),
       (''audio_input_tokens'', json_option json_int (u_audio_input_tokens u)),
       (''image_input_tokens'', json_option json_int (u_image_input_tokens u))] @
       unless_empty ''normalization'' (u_normalization u))"

definition json_metric :: "token_metric \<Rightarrow> json" where
  "json_metric m =
     JObject [(''value'', json_option json_int (tm_value m)), (''known_requests'', json_int (tm_known_requests m)),
       (''eligible_requests'', json_int (tm_eligible_requests m)), (''finality'', JString (tm_finality m))]"

section \<open>The usage and dashboard responses\<close>

record scope_view =
  sv_organisation_id :: string
  sv_organisation_name :: string
  sv_project_id :: string
  sv_project_name :: string
  sv_environment_id :: string
  sv_environment_name :: string

definition json_scope_view :: "scope_view \<Rightarrow> json" where
  "json_scope_view v =
     JObject [(''organisation_id'', JString (sv_organisation_id v)),
        (''organisation_name'', JString (sv_organisation_name v)),
        (''project_id'', JString (sv_project_id v)),
        (''project_name'', JString (sv_project_name v)),
        (''environment_id'', JString (sv_environment_id v)),
        (''environment_name'', JString (sv_environment_name v))]"

record period_view =
  pv_from :: time
  pv_to :: time
  pv_timezone :: string

definition json_period_view :: "control_lib \<Rightarrow> period_view \<Rightarrow> json" where
  "json_period_view lib v =
     JObject [(''from'', json_time lib (pv_from v)),
        (''to'', json_time lib (pv_to v)),
        (''timezone'', JString (pv_timezone v))]"

definition json_usage_summary :: "control_lib \<Rightarrow> usage_summary \<Rightarrow> json" where
  "json_usage_summary lib v =
     JObject [(''logical_requests'', json_int (us_logical_requests v)),
        (''successful_requests'', json_int (us_successful_requests v)),
        (''failed_requests'', json_int (us_failed_requests v)),
        (''blocked_requests'', json_int (us_blocked_requests v)),
        (''cancelled_requests'', json_int (us_cancelled_requests v)),
        (''error_rate'', json_float lib (us_error_rate v)),
        (''p50_latency_ms'', json_option json_int (us_p50_latency_ms v)),
        (''p95_latency_ms'', json_option json_int (us_p95_latency_ms v)),
        (''peak_concurrency'', json_option json_int (us_peak_concurrency v)),
        (''throughput_rps'', json_option (json_float lib) (us_throughput_rps v)),
        (''input_tokens'', json_metric (us_input_tokens v)),
        (''output_tokens'', json_metric (us_output_tokens v)),
        (''cached_tokens'', json_metric (us_cached_tokens v)),
        (''reasoning_tokens'', json_metric (us_reasoning_tokens v))]"

record request_view =
  rv_request_id :: string
  rv_timestamp :: time
  rv_completed_at :: "time option"
  rv_project :: string
  rv_environment :: string
  rv_model_alias :: string
  rv_executed_model :: string
  rv_key_prefix :: string
  rv_status :: string
  rv_http_status :: int
  rv_error_class :: string
  rv_latency_ms :: int
  rv_usage :: token_usage
  rv_usage_finality :: string

definition json_request_view :: "control_lib \<Rightarrow> request_view \<Rightarrow> json" where
  "json_request_view lib v =
     JObject ([(''request_id'', JString (rv_request_id v)),
        (''timestamp'', json_time lib (rv_timestamp v)),
        (''completed_at'', json_option (json_time lib) (rv_completed_at v)),
        (''project'', JString (rv_project v)),
        (''environment'', JString (rv_environment v)),
        (''model_alias'', JString (rv_model_alias v))] @
        unless_empty ''executed_model'' (rv_executed_model v) @
        [(''key_prefix'', JString (rv_key_prefix v)),
        (''status'', JString (rv_status v))] @
        unless_zero ''http_status'' (rv_http_status v) @
        unless_empty ''error_class'' (rv_error_class v) @
        [(''latency_ms'', json_int (rv_latency_ms v)),
        (''usage'', json_usage (rv_usage v)),
        (''usage_finality'', JString (rv_usage_finality v))])"

record usage_response =
  ur_scope :: scope_view
  ur_period :: period_view
  ur_summary :: usage_summary
  ur_recent_requests :: "request_view list"
  ur_source :: string
  ur_as_of :: time
  ur_ledger_finality :: string

definition json_usage_response :: "control_lib \<Rightarrow> usage_response \<Rightarrow> json" where
  "json_usage_response lib v =
     JObject [(''scope'', json_scope_view (ur_scope v)),
        (''period'', json_period_view lib (ur_period v)),
        (''summary'', json_usage_summary lib (ur_summary v)),
        (''recent_requests'', JArray (map (json_request_view lib) (ur_recent_requests v))),
        (''source'', JString (ur_source v)),
        (''as_of'', json_time lib (ur_as_of v)),
        (''ledger_finality'', JString (ur_ledger_finality v))]"

record route_view =
  rtv_model_alias :: string
  rtv_model_version :: string
  rtv_configured_model :: string
  rtv_status :: string
  rtv_execution_class :: string
  rtv_execution_label :: string
  rtv_service_mode :: string
  rtv_endpoint :: string
  rtv_last_health_check_at :: "time option"
  rtv_last_success_at :: "time option"
  rtv_freshness :: string
  rtv_source :: string

definition json_route_view :: "control_lib \<Rightarrow> route_view \<Rightarrow> json" where
  "json_route_view lib v =
     JObject [(''model_alias'', JString (rtv_model_alias v)),
        (''model_version'', JString (rtv_model_version v)),
        (''configured_model'', JString (rtv_configured_model v)),
        (''status'', JString (rtv_status v)),
        (''execution_class'', JString (rtv_execution_class v)),
        (''execution_label'', JString (rtv_execution_label v)),
        (''service_mode'', JString (rtv_service_mode v)),
        (''endpoint'', JString (rtv_endpoint v)),
        (''last_health_check_at'', json_option (json_time lib) (rtv_last_health_check_at v)),
        (''last_success_at'', json_option (json_time lib) (rtv_last_success_at v)),
        (''freshness'', JString (rtv_freshness v)),
        (''source'', JString (rtv_source v))]"

record dashboard_response =
  dr_scope :: scope_view
  dr_routes :: "route_view list"
  dr_usage :: usage_response
  dr_as_of :: time
  dr_source :: string

definition json_dashboard_response :: "control_lib \<Rightarrow> dashboard_response \<Rightarrow> json" where
  "json_dashboard_response lib v =
     JObject [(''scope'', json_scope_view (dr_scope v)),
        (''routes'', JArray (map (json_route_view lib) (dr_routes v))),
        (''usage'', json_usage_response lib (dr_usage v)),
        (''as_of'', json_time lib (dr_as_of v)),
        (''source'', JString (dr_source v))]"

section \<open>The client dashboard response\<close>

record client_account =
  ca_name :: string
  ca_initials :: string

definition json_client_account :: "client_account \<Rightarrow> json" where
  "json_client_account v =
     JObject [(''name'', JString (ca_name v)),
        (''initials'', JString (ca_initials v))]"

record client_period =
  cp_label :: string
  cp_timezone :: string
  cp_options :: "string list"

definition json_client_period :: "client_period \<Rightarrow> json" where
  "json_client_period v =
     JObject [(''label'', JString (cp_label v)),
        (''timezone'', JString (cp_timezone v)),
        (''options'', JArray (map JString (cp_options v)))]"

record client_source =
  cs_kind :: string
  cs_label :: string
  cs_detail :: string
  cs_as_of :: time
  cs_freshness :: string
  cs_finality :: string

definition json_client_source :: "control_lib \<Rightarrow> client_source \<Rightarrow> json" where
  "json_client_source lib v =
     JObject [(''kind'', JString (cs_kind v)),
        (''label'', JString (cs_label v)),
        (''detail'', JString (cs_detail v)),
        (''as_of'', json_time lib (cs_as_of v)),
        (''freshness'', JString (cs_freshness v)),
        (''finality'', JString (cs_finality v))]"

record client_attention =
  cat_severity :: string
  cat_title :: string
  cat_detail :: string

definition json_client_attention :: "client_attention \<Rightarrow> json" where
  "json_client_attention v =
     JObject [(''severity'', JString (cat_severity v)),
        (''title'', JString (cat_title v)),
        (''detail'', JString (cat_detail v))]"

record client_route =
  cr_state :: string
  cr_status_detail :: string
  cr_endpoint_path :: string
  cr_model_alias :: "string option"
  cr_execution_class :: "string option"
  cr_capacity_mode :: "string option"
  cr_last_success_at :: "time option"
  cr_last_health_check_at :: "time option"
  cr_attention :: client_attention

definition json_client_route :: "control_lib \<Rightarrow> client_route \<Rightarrow> json" where
  "json_client_route lib v =
     JObject [(''state'', JString (cr_state v)),
        (''status_detail'', JString (cr_status_detail v)),
        (''endpoint_path'', JString (cr_endpoint_path v)),
        (''model_alias'', json_option JString (cr_model_alias v)),
        (''execution_class'', json_option JString (cr_execution_class v)),
        (''capacity_mode'', json_option JString (cr_capacity_mode v)),
        (''last_success_at'', json_option (json_time lib) (cr_last_success_at v)),
        (''last_health_check_at'', json_option (json_time lib) (cr_last_health_check_at v)),
        (''attention'', json_client_attention (cr_attention v))]"

definition json_client_tokens :: "client_tokens \<Rightarrow> json" where
  "json_client_tokens v =
     JObject [(''input'', json_option json_int (ct_input v)),
        (''output'', json_option json_int (ct_output v)),
        (''cached'', json_option json_int (ct_cached v)),
        (''reasoning'', json_option json_int (ct_reasoning v)),
        (''total'', json_option json_int (ct_total v))]"

definition json_client_usage_view :: "control_lib \<Rightarrow> client_usage_view \<Rightarrow> json" where
  "json_client_usage_view lib v =
     JObject [(''logical_requests'', json_int (cu_logical_requests v)),
        (''successful_requests'', json_int (cu_successful_requests v)),
        (''success_rate'', json_option (json_float lib) (cu_success_rate v)),
        (''error_rate'', json_option (json_float lib) (cu_error_rate v)),
        (''blocked_requests'', json_int (cu_blocked_requests v)),
        (''tokens'', json_client_tokens (cu_tokens v)),
        (''p50_latency_ms'', json_option json_int (cu_p50_latency_ms v)),
        (''p95_latency_ms'', json_option json_int (cu_p95_latency_ms v)),
        (''allowance'', JNull)]"

definition json_trend_point :: "control_lib \<Rightarrow> trend_point \<Rightarrow> json" where
  "json_trend_point lib v =
     JObject [(''label'', JString (tp_label v)),
        (''requests'', json_int (tp_requests v)),
        (''tokens'', json_option json_int (tp_tokens v)),
        (''success_rate'', json_option (json_float lib) (tp_success_rate v)),
        (''p95_latency_ms'', json_option json_int (tp_p95_latency_ms v))]"

definition json_project_breakdown :: "control_lib \<Rightarrow> project_breakdown \<Rightarrow> json" where
  "json_project_breakdown lib v =
     JObject [(''name'', JString (pb_name v)),
        (''requests'', json_int (pb_requests v)),
        (''tokens'', json_option json_int (pb_tokens v)),
        (''share'', json_option (json_float lib) (pb_share v))]"

definition json_model_breakdown :: "control_lib \<Rightarrow> model_breakdown \<Rightarrow> json" where
  "json_model_breakdown lib v =
     JObject [(''alias'', JString (mo_alias v)),
        (''executed_model'', json_option JString (mo_executed_model v)),
        (''requests'', json_int (mo_requests v)),
        (''tokens'', json_option json_int (mo_tokens v)),
        (''share'', json_float lib (mo_share v))]"

record client_request =
  cq_request_id :: string
  cq_occurred_at :: time
  cq_project :: string
  cq_model_alias :: string
  cq_executed_model :: "string option"
  cq_status :: string
  cq_error_class :: "string option"
  cq_latency_ms :: "int option"
  cq_tokens :: "int option"

definition json_client_request :: "control_lib \<Rightarrow> client_request \<Rightarrow> json" where
  "json_client_request lib v =
     JObject [(''request_id'', JString (cq_request_id v)),
        (''occurred_at'', json_time lib (cq_occurred_at v)),
        (''project'', JString (cq_project v)),
        (''model_alias'', JString (cq_model_alias v)),
        (''executed_model'', json_option JString (cq_executed_model v)),
        (''status'', JString (cq_status v)),
        (''error_class'', json_option JString (cq_error_class v)),
        (''latency_ms'', json_option json_int (cq_latency_ms v)),
        (''tokens'', json_option json_int (cq_tokens v))]"

record client_export =
  ce_available :: bool
  ce_formats :: "string list"
  ce_scope :: string
  ce_units :: "string list"

definition json_client_export :: "client_export \<Rightarrow> json" where
  "json_client_export v =
     JObject [(''available'', JBool (ce_available v)),
        (''formats'', JArray (map JString (ce_formats v))),
        (''scope'', JString (ce_scope v)),
        (''units'', JArray (map JString (ce_units v)))]"

text \<open>\<open>ClientTrend\<close> is a unit and the points, \<open>ClientBreakdowns\<close> the two lists.\<close>

record client_dashboard_response =
  cd_schema :: string
  cd_account :: client_account
  cd_period :: client_period
  cd_source :: client_source
  cd_route :: client_route
  cd_usage :: client_usage_view
  cd_trend :: "trend_point list"
  cd_projects :: "project_breakdown list"
  cd_models :: "model_breakdown list"
  cd_recent_requests :: "client_request list"
  cd_export :: client_export

definition json_client_dashboard_response :: "control_lib \<Rightarrow> client_dashboard_response \<Rightarrow> json" where
  "json_client_dashboard_response lib v =
     JObject [(''schema'', JString (cd_schema v)),
        (''account'', json_client_account (cd_account v)),
        (''period'', json_client_period (cd_period v)),
        (''source'', json_client_source lib (cd_source v)),
        (''route'', json_client_route lib (cd_route v)),
        (''usage'', json_client_usage_view lib (cd_usage v)),
        (''trend'', JObject [(''unit'', JString ''requests''),
          (''points'', JArray (map (json_trend_point lib) (cd_trend v)))]),
        (''breakdowns'', JObject [(''projects'', JArray (map (json_project_breakdown lib) (cd_projects v))),
          (''models'', JArray (map (json_model_breakdown lib) (cd_models v)))]),
        (''recent_requests'', JArray (map (json_client_request lib) (cd_recent_requests v))),
        (''export'', json_client_export (cd_export v))]"

section \<open>Filling them\<close>

definition scope_view_of :: "principal \<Rightarrow> scope_view" where
  "scope_view_of p =
     \<lparr>sv_organisation_id = p_organisation_id p, sv_organisation_name = p_organisation_name p,
      sv_project_id = p_project_id p, sv_project_name = p_project_name p,
      sv_environment_id = p_environment_id p, sv_environment_name = p_environment_name p\<rparr>"

definition request_view_of :: "principal \<Rightarrow> inference_request \<Rightarrow> request_view" where
  "request_view_of p record =
     \<lparr>rv_request_id = ir_id record, rv_timestamp = ir_started_at record, rv_completed_at = ir_completed_at record,
      rv_project = p_project_name p, rv_environment = p_environment_name p,
      rv_model_alias = ir_model_alias record, rv_executed_model = ir_executed_model record,
      rv_key_prefix = ir_key_prefix record, rv_status = ir_status record, rv_http_status = ir_http_status record,
      rv_error_class = ir_error_class record, rv_latency_ms = milliseconds (ir_duration record),
      rv_usage = ir_usage record, rv_usage_finality = ir_usage_finality record\<rparr>"

definition route_view_of :: "inference_request list \<Rightarrow> time \<Rightarrow> route \<Rightarrow> route_view" where
  "route_view_of requests now rt =
     (let observation = scoped_route_observation rt requests;
          freshness = route_freshness (ro_latest_at observation) now;
          dedicated = (t_capacity_mode (r_target rt) = ''dedicated'')
      in \<lparr>rtv_model_alias = r_model_alias rt, rtv_model_version = r_model_version rt,
          rtv_configured_model = t_provider_model (r_target rt),
          rtv_status = (if \<not> r_model_enabled rt \<or> \<not> r_enabled rt \<or> \<not> t_enabled (r_target rt)
            then ''unavailable'' else ro_status observation),
          rtv_execution_class = t_execution_class (r_target rt),
          rtv_execution_label = (if t_execution_class (r_target rt) = ''private_compatible''
            then ''Private compatible target (operator evidence pending)'' else ''External pilot via OpenRouter''),
          rtv_service_mode = (if dedicated \<and> t_capacity_evidence_ref (r_target rt) \<noteq> [] then ''Dedicated''
            else if dedicated then ''Unknown'' else ''Shared pilot''),
          rtv_endpoint = ''/v1/chat/completions'',
          rtv_last_health_check_at = ro_latest_at observation, rtv_last_success_at = ro_last_success_at observation,
          rtv_freshness = (if freshness = ''fresh'' then ''live'' else freshness),
          rtv_source = ''target_registry_policy_and_authenticated_request_ledger''\<rparr>)"

definition nonempty :: "string \<Rightarrow> string option" where
  "nonempty s = (if s = [] then None else Some s)"

definition client_request_of :: "principal \<Rightarrow> inference_request \<Rightarrow> client_request" where
  "client_request_of p record =
     \<lparr>cq_request_id = ir_id record, cq_occurred_at = ir_started_at record, cq_project = p_project_name p,
      cq_model_alias = ir_model_alias record, cq_executed_model = nonempty (ir_executed_model record),
      cq_status = ir_status record, cq_error_class = nonempty (ir_error_class record),
      cq_latency_ms = (if ir_completed_at record \<noteq> None then Some (milliseconds (ir_duration record)) else None),
      cq_tokens = add_known (u_input_tokens (ir_usage record)) (u_output_tokens (ir_usage record))\<rparr>"

definition client_recent_requests :: "inference_request list \<Rightarrow> principal \<Rightarrow> int \<Rightarrow> client_request list" where
  "client_recent_requests requests p limit = map (client_request_of p) (take (nat limit) requests)"

section \<open>Initials\<close>

text \<open>\<open>strings.Fields\<close>: the maximal runs of text without white space.\<close>

definition space_ahead :: "string \<Rightarrow> bool" where
  "space_ahead s \<longleftrightarrow> list_ex (\<lambda>r. has_prefix r s) space_runes"

fun word_ahead :: "string \<Rightarrow> string" where
  "word_ahead [] = []"
| "word_ahead (c # s) = (if space_ahead (c # s) then [] else c # word_ahead s)"

lemma length_word_ahead: "length (word_ahead s) \<le> length s"
  by (induction s) auto

lemma no_space_ahead: "strip_runes space_runes s = c # t \<Longrightarrow> \<not> space_ahead (c # t)"
proof
  assume e: "strip_runes space_runes s = c # t" and "space_ahead (c # t)"
  then obtain r where r: "r \<in> set space_runes" "has_prefix r (c # t)" by (auto simp: space_ahead_def list_ex_iff)
  have "[] \<notin> set space_runes" by (simp add: space_runes_def)
  with r(1) have "r \<noteq> []" by metis
  with r show False using strip_runes_fixed [of space_runes s] by (auto simp: e find_None_iff)
qed

lemma drop_word_shorter:
  assumes "strip_runes space_runes s \<noteq> []"
  shows "length (drop (length (word_ahead (strip_runes space_runes s))) (strip_runes space_runes s)) < length s"
proof -
  obtain c t where e: "strip_runes space_runes s = c # t" using assms by (cases "strip_runes space_runes s") auto
  obtain p where "s = p @ strip_runes space_runes s" using strip_runes_suffix by blast
  then have "length (c # t) \<le> length s" unfolding e by (metis le_add2 length_append)
  with no_space_ahead [OF e] show ?thesis by (simp add: e)
qed

function go_fields :: "string \<Rightarrow> string list" where
  "go_fields s =
     (let t = strip_runes space_runes s; w = word_ahead t
      in if t = [] then [] else w # go_fields (drop (length w) t))"
  by pat_completeness auto
termination
  by (relation "measure length") (use drop_word_shorter in \<open>auto simp: Let_def\<close>)

declare go_fields.simps [simp del]

text \<open>\<open>string([]rune(word)[0:1])\<close>: the first rune, the replacement character where there is none.\<close>

definition first_rune :: "string \<Rightarrow> string" where
  "first_rune w = (if utf8_len w = 0 then rune_error else take (utf8_len w) w)"

definition account_initials :: "control_lib \<Rightarrow> string \<Rightarrow> string" where
  "account_initials lib name =
     (let initials = map first_rune (take 2 (go_fields name))
      in if initials = [] then [CHR 0xE2, CHR 0x80, CHR 0x94] else cl_to_upper lib (concat initials))"

end
