(* ===== verification/Control_Plane.thy ===== *)
theory Control_Plane
  imports Control_Views
begin

text \<open>
  The control API's handler (\<open>ServeHTTP\<close> of \<open>internal/control/control.go\<close>, \<open>clientDashboard\<close> of
  \<open>client_dashboard.go\<close>), over the store interface. A handler takes the response so far and returns the
  response; the store may change state on a read.
\<close>

section \<open>The query\<close>

record query_error =
  qe_status :: int
  qe_code :: string
  qe_message :: string

definition bad_query :: "string \<Rightarrow> string \<Rightarrow> query_error" where
  "bad_query code msg = \<lparr>qe_status = 400, qe_code = code, qe_message = msg\<rparr>"

definition maximum_usage_window :: duration where
  "maximum_usage_window = 31 * 24 * hour"

definition maximum_ledger_rows :: int where
  "maximum_ledger_rows = 10000"

definition usage_parameters :: "string list" where
  "usage_parameters = [''from'', ''to'', ''model'', ''limit'']"

fun check_parameters :: "(string \<times> string list) list \<Rightarrow> query_error option" where
  "check_parameters [] = None"
| "check_parameters ((name, values) # rest) =
     (if name \<notin> set usage_parameters
      then Some (bad_query ''unknown_query_parameter'' (''unsupported query parameter: '' @ name))
      else if length values \<noteq> 1
      then Some (bad_query ''invalid_query_parameter'' ''query parameters may appear only once'')
      else check_parameters rest)"

text \<open>\<open>url.Values.Get\<close>.\<close>

definition query_get :: "(string \<times> string list) list \<Rightarrow> string \<Rightarrow> string" where
  "query_get q name = (case map_of q name of Some (v # _) \<Rightarrow> v | _ \<Rightarrow> [])"

definition query_time :: "control_lib \<Rightarrow> (string \<times> string list) list \<Rightarrow> string \<Rightarrow> time \<Rightarrow> query_error + time" where
  "query_time lib q name preset =
     (if query_get q name = [] then Inr preset
      else (case cl_parse_time lib (query_get q name) of
              None \<Rightarrow> Inl (bad_query ''invalid_period'' (name @ '' must be an RFC3339 timestamp''))
            | Some t \<Rightarrow> Inr t))"

definition query_limit :: "(string \<times> string list) list \<Rightarrow> int option" where
  "query_limit q =
     (if query_get q ''limit'' = [] then Some 50
      else (case go_atoi (query_get q ''limit'') of
              None \<Rightarrow> None
            | Some n \<Rightarrow> if n < 1 \<or> n > 100 then None else Some n))"

definition period_filter ::
  "(string \<times> string list) list \<Rightarrow> time \<Rightarrow> time \<Rightarrow> query_error + usage_filter \<times> int" where
  "period_filter q from to =
     (if \<not> from < to \<or> time_sub to from > maximum_usage_window
      then Inl (bad_query ''invalid_period'' ''usage period must be positive and no longer than 31 days'')
      else if length (query_get q ''model'') > 128 then Inl (bad_query ''invalid_model'' ''model filter is invalid'')
      else (case query_limit q of
              None \<Rightarrow> Inl (bad_query ''invalid_limit'' ''limit must be between 1 and 100'')
            | Some limit \<Rightarrow>
                Inr (\<lparr>uf_from = from, uf_to = to, uf_model_alias = query_get q ''model'', uf_limit = 0\<rparr>, limit)))"

definition parse_usage_query :: "control_lib \<Rightarrow> string \<Rightarrow> query_error + usage_filter \<times> int" where
  "parse_usage_query lib raw =
     (let q = cl_parse_query lib raw; now = cl_clock lib 0
      in case check_parameters q of
           Some e \<Rightarrow> Inl e
         | None \<Rightarrow>
             (case query_time lib q ''from'' (now - 24 * hour) of
                Inl e \<Rightarrow> Inl e
              | Inr from \<Rightarrow>
                  (case query_time lib q ''to'' now of
                     Inl e \<Rightarrow> Inl e
                   | Inr to \<Rightarrow> period_filter q from to)))"

definition query_refused :: "query_error \<Rightarrow> string \<Rightarrow> response_writer \<Rightarrow> response_writer" where
  "query_refused e = write_error (qe_status e) (qe_code e) ''invalid_request_error'' (qe_message e)"

section \<open>Usage and the operator dashboard\<close>

definition unavailable :: "string \<Rightarrow> string \<Rightarrow> string \<Rightarrow> response_writer \<Rightarrow> response_writer" where
  "unavailable code msg = write_error 503 code ''api_error'' msg"

definition ledger_finality :: "inference_request list \<Rightarrow> string" where
  "ledger_finality requests =
     (if list_ex (\<lambda>record. ir_status record = ''in_progress'') requests then ''partial'' else ''final'')"

definition usage_response_of ::
  "control_lib \<Rightarrow> principal \<Rightarrow> usage_filter \<Rightarrow> int \<Rightarrow> inference_request list \<Rightarrow> usage_response" where
  "usage_response_of lib pr flt recent_limit requests =
     \<lparr>ur_scope = scope_view_of pr,
      ur_period = \<lparr>pv_from = uf_from flt, pv_to = uf_to flt, pv_timezone = ''UTC''\<rparr>,
      ur_summary = summarise requests,
      ur_recent_requests = map (request_view_of pr) (take (nat recent_limit) requests),
      ur_source = ''inference_requests'', ur_as_of = cl_clock lib 1,
      ur_ledger_finality = ledger_finality requests\<rparr>"

definition build_usage ::
  "control_lib \<Rightarrow> 's store_ops \<Rightarrow> string \<Rightarrow> principal \<Rightarrow> usage_filter \<Rightarrow> int \<Rightarrow> response_writer \<Rightarrow>
   ('s, response_writer + usage_response \<times> inference_request list) state" where
  "build_usage lib ops request_id pr flt recent_limit w =
     do {
       page \<leftarrow> st_list_inference_requests ops pr (flt\<lparr>uf_limit := maximum_ledger_rows\<rparr>);
       State_Monad.return
         (case page of
            Inl _ \<Rightarrow> Inl (unavailable ''usage_unavailable'' ''usage ledger is temporarily unavailable'' request_id w)
          | Inr page \<Rightarrow>
              if rp_truncated page
              then Inl (write_error 422 ''usage_range_too_large'' ''invalid_request_error''
                ''usage range contains too many requests; select a narrower period'' request_id w)
              else Inr (usage_response_of lib pr flt recent_limit (rp_requests page), rp_requests page))
     }"

definition serve_usage ::
  "control_lib \<Rightarrow> 's store_ops \<Rightarrow> string \<Rightarrow> http_request \<Rightarrow> principal \<Rightarrow> response_writer \<Rightarrow> ('s, response_writer) state" where
  "serve_usage lib ops request_id r pr w =
     (case parse_usage_query lib (hr_raw_query r) of
        Inl e \<Rightarrow> State_Monad.return (query_refused e request_id w)
      | Inr (flt, recent_limit) \<Rightarrow> do {
          usage \<leftarrow> build_usage lib ops request_id pr flt recent_limit w;
          State_Monad.return
            (case usage of
               Inl w \<Rightarrow> w
             | Inr (usage, _) \<Rightarrow> write_json 200 (json_usage_response lib usage) w)
        })"

definition dashboard_of ::
  "control_lib \<Rightarrow> principal \<Rightarrow> usage_response \<Rightarrow> inference_request list \<Rightarrow> route list \<Rightarrow> dashboard_response" where
  "dashboard_of lib pr usage requests routes =
     \<lparr>dr_scope = scope_view_of pr, dr_routes = map (route_view_of requests (cl_clock lib 2)) routes, dr_usage = usage,
      dr_as_of = cl_clock lib 2, dr_source = ''target_registry_and_inference_request_ledger''\<rparr>"

definition serve_dashboard ::
  "control_lib \<Rightarrow> 's store_ops \<Rightarrow> string \<Rightarrow> http_request \<Rightarrow> principal \<Rightarrow> response_writer \<Rightarrow> ('s, response_writer) state" where
  "serve_dashboard lib ops request_id r pr w =
     (if \<not> has_scope pr scope_routes_read
      then State_Monad.return (write_error 403 ''insufficient_scope'' ''permission_error''
        ''API key is not permitted to read routes'' request_id w)
      else
        (case parse_usage_query lib (hr_raw_query r) of
           Inl e \<Rightarrow> State_Monad.return (query_refused e request_id w)
         | Inr (flt, recent_limit) \<Rightarrow> do {
             usage \<leftarrow> build_usage lib ops request_id pr flt recent_limit w;
             case usage of
               Inl w \<Rightarrow> State_Monad.return w
             | Inr (usage, requests) \<Rightarrow> do {
                 routes \<leftarrow> st_list_routes ops pr;
                 State_Monad.return
                   (case routes of
                      Inl _ \<Rightarrow> unavailable ''routes_unavailable'' ''route status is temporarily unavailable'' request_id w
                    | Inr routes \<Rightarrow>
                        write_json 200 (json_dashboard_response lib (dashboard_of lib pr usage requests routes)) w)
               }
           }))"

section \<open>One request\<close>

definition requests_path :: string where
  "requests_path = ''/api/v1/requests/''"

definition serve_request_detail ::
  "control_lib \<Rightarrow> 's store_ops \<Rightarrow> string \<Rightarrow> http_request \<Rightarrow> principal \<Rightarrow> response_writer \<Rightarrow> ('s, response_writer) state" where
  "serve_request_detail lib ops request_id r pr w =
     (let rid = drop (length requests_path) (hr_path r);
          missing = write_error 404 ''not_found'' ''invalid_request_error'' ''request not found'' request_id w
      in if hr_raw_query r \<noteq> [] then
           State_Monad.return (write_error 400 ''unknown_query_parameter'' ''invalid_request_error''
             ''request detail does not accept query parameters'' request_id w)
         else if rid = [] \<or> contains_str ''/'' rid then State_Monad.return missing
         else do {
           record \<leftarrow> st_get_inference_request ops pr rid;
           State_Monad.return
             (case record of
                Inl e \<Rightarrow>
                  if e = ErrNotFound then missing
                  else unavailable ''usage_unavailable'' ''request metadata is temporarily unavailable'' request_id w
              | Inr record \<Rightarrow> write_json 200 (json_request_view lib (request_view_of pr record)) w)
         })"

section \<open>Texts of the client dashboard\<close>

definition msg_scope :: string where
  "msg_scope =
     ''Usage is scoped to the authenticated project/environment ''"

definition msg_final :: string where
  "msg_final =
     '' and comes from the final direct logical request ledger. Route status and observation time '' @
     ''come from target-registry policy and the latest inference observation attributed to the '' @
     ''current route binding in this authenticated scope, not an active health probe.''"

definition msg_partial :: string where
  "msg_partial =
     ''. Partial snapshot: ''"

definition msg_reconcile :: string where
  "msg_reconcile =
     ''. Totals reconcile to the logical request rows represented here; unknown token totals '' @
     ''remain unavailable. Route status and observation time come from target-registry policy and '' @
     ''the latest inference observation attributed to the current route binding in this '' @
     ''authenticated scope, not an active health probe.''"

definition msg_truncated :: string where
  "msg_truncated =
     ''the selected range exceeded the 10,000-row read limit and only the newest returned rows are '' @
     ''represented''"

definition msg_future :: string where
  "msg_future =
     ''the selected range extends beyond the snapshot time''"

definition msg_in_progress :: string where
  "msg_in_progress =
     ''one or more logical requests are still in progress''"

definition msg_incomplete :: string where
  "msg_incomplete =
     ''one or more successful requests have incomplete token usage''"

definition msg_no_route :: string where
  "msg_no_route =
     ''No configured route matches this authenticated project and environment.''"

definition msg_no_alias_route :: string where
  "msg_no_alias_route =
     ''No configured route matches the selected model alias in this authenticated project and '' @
     ''environment.''"

definition msg_many_routes :: string where
  "msg_many_routes =
     ''Multiple routes are configured for this authenticated project and environment; no route '' @
     ''health has been selected.''"

definition msg_unsupported :: string where
  "msg_unsupported =
     ''The configured route is outside the supported external shared-pilot portal boundary; '' @
     ''target-registry policy and scoped inference observations are not represented as route '' @
     ''health here.''"

definition msg_operational :: string where
  "msg_operational =
     ''The latest inference observation attributed to the current route binding in this '' @
     ''authenticated project/environment recorded this external pilot route as operational; this '' @
     ''is not an active health probe.''"

definition msg_degraded :: string where
  "msg_degraded =
     ''The latest target/upstream failure observation attributed to the current route binding in '' @
     ''this authenticated project/environment marks the external pilot route degraded; '' @
     ''request-specific rejections and client or ledger failures are not treated as route health '' @
     ''evidence. This is not an active health probe.''"

definition msg_unavailable :: string where
  "msg_unavailable =
     ''Target-registry policy marks the configured external pilot route unavailable; this is not '' @
     ''an active health probe or a tenant activity timestamp.''"

definition msg_unknown :: string where
  "msg_unknown =
     ''No completed inference observation attributed to the current route binding in this '' @
     ''authenticated project/environment is available for the configured external pilot route; '' @
     ''this is not an active health probe.''"

definition attention_not_configured :: client_attention where
  "attention_not_configured =
     \<lparr>cat_severity = ''warning'', cat_title = ''Route not configured'',
      cat_detail = ''Ask the Alzette operator to configure an authorised model route before calling '' @
        ''inference.''\<rparr>"

definition attention_select :: client_attention where
  "attention_select =
     \<lparr>cat_severity = ''info'', cat_title = ''Select a model alias'',
      cat_detail = ''Use the model query parameter to view exactly one configured route.''\<rparr>"

definition attention_unsupported :: client_attention where
  "attention_unsupported =
     \<lparr>cat_severity = ''warning'', cat_title = ''Route boundary unsupported'',
      cat_detail = ''Use an operator-reviewed surface for this route configuration.''\<rparr>"

definition attention_operational :: client_attention where
  "attention_operational =
     \<lparr>cat_severity = ''good'', cat_title = ''Latest scoped observation is operational'',
      cat_detail = ''This status is scoped route evidence only; it is not a capacity or '' @
        ''execution-locality guarantee.''\<rparr>"

definition attention_degraded :: client_attention where
  "attention_degraded =
     \<lparr>cat_severity = ''warning'', cat_title = ''Latest scoped inference did not succeed'',
      cat_detail = ''Review the scoped observation time before making a call decision.''\<rparr>"

definition attention_unavailable :: client_attention where
  "attention_unavailable =
     \<lparr>cat_severity = ''warning'', cat_title = ''Registry policy blocks the route'',
      cat_detail = ''Do not assume another model or route will be selected automatically.''\<rparr>"

definition attention_unknown :: client_attention where
  "attention_unknown =
     \<lparr>cat_severity = ''info'', cat_title = ''Scoped route observation unknown'',
      cat_detail = ''A different tenant's activity on a shared target is not used as evidence for '' @
        ''this scope.''\<rparr>"

definition attention_stale :: client_attention where
  "attention_stale =
     \<lparr>cat_severity = ''warning'', cat_title = ''Route observation is stale'',
      cat_detail = ''The last route observation is older than two minutes; verify it before making a '' @
        ''call decision.''\<rparr>"

section \<open>The client dashboard\<close>

definition client_partial_reasons :: "request_page \<Rightarrow> usage_filter \<Rightarrow> time \<Rightarrow> string list" where
  "client_partial_reasons page flt as_of =
     (if rp_truncated page then [msg_truncated] else []) @
     (if as_of < uf_to flt then [msg_future] else []) @
     (if list_ex (\<lambda>record. ir_status record = ''in_progress'') (rp_requests page) then [msg_in_progress] else []) @
     (if list_ex (\<lambda>record. ir_status record = ''succeeded'' \<and> ir_usage_finality record \<noteq> ''final'') (rp_requests page)
      then [msg_incomplete] else [])"

definition base_route :: client_route where
  "base_route =
     \<lparr>cr_state = ''unknown'', cr_status_detail = [], cr_endpoint_path = ''POST /v1/chat/completions'',
      cr_model_alias = None, cr_execution_class = None, cr_capacity_mode = None, cr_last_success_at = None,
      cr_last_health_check_at = None, cr_attention = \<lparr>cat_severity = [], cat_title = [], cat_detail = []\<rparr>\<rparr>"

text \<open>The texts of a route inside the supported boundary, by its state.\<close>

definition state_detail :: "string \<Rightarrow> string" where
  "state_detail state =
     (if state = ''operational'' then msg_operational
      else if state = ''degraded'' then msg_degraded
      else if state = ''unavailable'' then msg_unavailable
      else msg_unknown)"

definition state_attention :: "string \<Rightarrow> client_attention" where
  "state_attention state =
     (if state = ''operational'' then attention_operational
      else if state = ''degraded'' then attention_degraded
      else if state = ''unavailable'' then attention_unavailable
      else attention_unknown)"

definition selected_route :: "route \<Rightarrow> inference_request list \<Rightarrow> time \<Rightarrow> client_route \<times> string" where
  "selected_route rt requests now =
     (let observation = scoped_route_observation rt requests;
          freshness = route_freshness (ro_latest_at observation) now;
          base = base_route\<lparr>cr_model_alias := Some (r_model_alias rt),
            cr_last_success_at := ro_last_success_at observation,
            cr_last_health_check_at := ro_latest_at observation\<rparr>;
          state = route_state rt observation
      in if t_execution_class (r_target rt) \<noteq> ''external_pilot'' \<or> t_capacity_mode (r_target rt) \<noteq> ''shared''
         then (base\<lparr>cr_status_detail := msg_unsupported, cr_attention := attention_unsupported\<rparr>, freshness)
         else (base\<lparr>cr_execution_class := Some ''external_pilot'', cr_capacity_mode := Some ''shared'',
                 cr_state := state, cr_status_detail := state_detail state,
                 cr_attention := (if freshness = ''stale'' then attention_stale else state_attention state)\<rparr>,
               freshness))"

definition client_route_of ::
  "route list \<Rightarrow> string \<Rightarrow> inference_request list \<Rightarrow> time \<Rightarrow> client_route \<times> string" where
  "client_route_of routes model_alias requests now =
     (case filter (\<lambda>rt. model_alias = [] \<or> r_model_alias rt = model_alias) routes of
        [] \<Rightarrow> (base_route\<lparr>cr_status_detail := (if model_alias = [] then msg_no_route else msg_no_alias_route),
                cr_attention := attention_not_configured\<rparr>, ''unknown'')
      | [selected] \<Rightarrow> selected_route selected requests now
      | _ \<Rightarrow> (base_route\<lparr>cr_status_detail := msg_many_routes, cr_attention := attention_select\<rparr>, ''unknown''))"

definition client_detail :: "principal \<Rightarrow> string list \<Rightarrow> string" where
  "client_detail pr reasons =
     (let scope_name = p_project_name pr @ '' / '' @ p_environment_name pr
      in if reasons = [] then msg_scope @ scope_name @ msg_final
         else msg_scope @ scope_name @ msg_partial @ join_with ''; '' reasons @ msg_reconcile)"

definition en_dash :: string where
  "en_dash = [CHR 0xE2, CHR 0x80, CHR 0x93]"

definition client_period_of :: "control_lib \<Rightarrow> usage_filter \<Rightarrow> client_period" where
  "client_period_of lib flt =
     \<lparr>cp_label = cl_format_time lib ''02 Jan 2006 15:04'' (uf_from flt) @ '' '' @ en_dash @ '' '' @
        cl_format_time lib ''02 Jan 2006 15:04 UTC'' (uf_to flt),
      cp_timezone = ''UTC'', cp_options = []\<rparr>"

definition client_export_of :: "string list \<Rightarrow> inference_request list \<Rightarrow> int \<Rightarrow> client_export" where
  "client_export_of reasons requests recent_limit =
     (let available = (reasons = [] \<and> int (length requests) \<le> recent_limit)
      in \<lparr>ce_available = available, ce_formats = (if available then [''csv'', ''json''] else []),
          ce_scope = ''authenticated_project_environment'',
          ce_units = [''logical_requests'', ''input_tokens'', ''output_tokens'', ''cached_tokens'', ''reasoning_tokens'']\<rparr>)"

definition client_dashboard_of ::
  "control_lib \<Rightarrow> principal \<Rightarrow> usage_filter \<Rightarrow> int \<Rightarrow> request_page \<Rightarrow> route list \<Rightarrow> client_dashboard_response" where
  "client_dashboard_of lib pr flt recent_limit page routes =
     (let as_of = cl_clock lib 1;
          requests = rp_requests page;
          route = client_route_of routes (uf_model_alias flt) requests as_of;
          reasons = client_partial_reasons page flt as_of
      in \<lparr>cd_schema = ''alzette.client_dashboard.v1'',
          cd_account = \<lparr>ca_name = p_organisation_name pr, ca_initials = account_initials lib (p_organisation_name pr)\<rparr>,
          cd_period = client_period_of lib flt,
          cd_source = \<lparr>cs_kind = ''tenant_usage'', cs_label = ''Tenant usage snapshot'',
            cs_detail = client_detail pr reasons, cs_as_of = as_of, cs_freshness = snd route,
            cs_finality = (if reasons = [] then ''final'' else ''partial'')\<rparr>,
          cd_route = fst route, cd_usage = client_usage requests,
          cd_trend = client_trend (cl_format_time lib) requests flt,
          cd_projects = client_project_breakdown requests pr, cd_models = client_model_breakdown requests,
          cd_recent_requests = client_recent_requests requests pr recent_limit,
          cd_export = client_export_of reasons requests recent_limit\<rparr>)"

definition portal_realm :: string where
  "portal_realm = ''Alzette client portal''"

definition quoted :: "string \<Rightarrow> string" where
  "quoted s = CHR 0x22 # s @ [CHR 0x22]"

definition read_client_dashboard ::
  "control_lib \<Rightarrow> 's store_ops \<Rightarrow> string \<Rightarrow> principal \<Rightarrow> usage_filter \<Rightarrow> int \<Rightarrow> response_writer \<Rightarrow>
   ('s, response_writer) state" where
  "read_client_dashboard lib ops request_id pr flt recent_limit w =
     do {
       page \<leftarrow> st_list_inference_requests ops pr (flt\<lparr>uf_limit := maximum_ledger_rows\<rparr>);
       case page of
         Inl _ \<Rightarrow> State_Monad.return
           (unavailable ''usage_unavailable'' ''usage ledger is temporarily unavailable'' request_id w)
       | Inr page \<Rightarrow> do {
           routes \<leftarrow> st_list_routes ops pr;
           State_Monad.return
             (case routes of
                Inl _ \<Rightarrow> unavailable ''routes_unavailable'' ''route status is temporarily unavailable'' request_id w
              | Inr routes \<Rightarrow> write_json 200
                  (json_client_dashboard_response lib (client_dashboard_of lib pr flt recent_limit page routes)) w)
         }
     }"

definition serve_client_dashboard ::
  "control_lib \<Rightarrow> 's store_ops \<Rightarrow> string \<Rightarrow> http_request \<Rightarrow> response_writer \<Rightarrow> ('s, response_writer) state" where
  "serve_client_dashboard lib ops request_id r w =
     do {
       auth \<leftarrow> api_authenticate_basic (cl_sha lib) (cl_basic lib) ops (hr_header r);
       case auth of
         Inl e \<Rightarrow> State_Monad.return
           (if e = ErrUnauthenticated
            then write_error 401 ''invalid_api_key'' ''authentication_error'' ''authentication failed'' request_id
              (set_header ''Www-Authenticate'' (''Basic realm='' @ quoted portal_realm @ '', charset='' @ quoted ''UTF-8'') w)
            else unavailable ''authentication_unavailable'' ''authentication is temporarily unavailable'' request_id w)
       | Inr pr \<Rightarrow>
           if \<not> has_scope pr scope_usage_read \<or> \<not> has_scope pr scope_routes_read
           then State_Monad.return (write_error 403 ''insufficient_scope'' ''permission_error''
             ''API key is not permitted to read the client dashboard'' request_id w)
           else
             (case parse_usage_query lib (hr_raw_query r) of
                Inl e \<Rightarrow> State_Monad.return (query_refused e request_id w)
              | Inr (flt, recent_limit) \<Rightarrow> read_client_dashboard lib ops request_id pr flt recent_limit w)
     }"

section \<open>The handler\<close>

definition serve_authenticated ::
  "control_lib \<Rightarrow> 's store_ops \<Rightarrow> string \<Rightarrow> http_request \<Rightarrow> principal \<Rightarrow> response_writer \<Rightarrow> ('s, response_writer) state" where
  "serve_authenticated lib ops request_id r pr w =
     (if \<not> has_scope pr scope_usage_read
      then State_Monad.return (write_error 403 ''insufficient_scope'' ''permission_error''
        ''API key is not permitted to read usage'' request_id w)
      else if hr_path r = ''/api/v1/dashboard'' then serve_dashboard lib ops request_id r pr w
      else if hr_path r = ''/api/v1/usage'' then serve_usage lib ops request_id r pr w
      else if has_prefix requests_path (hr_path r) then serve_request_detail lib ops request_id r pr w
      else State_Monad.return (write_error 404 ''not_found'' ''invalid_request_error'' ''resource not found'' request_id w))"

definition serve_bearer ::
  "control_lib \<Rightarrow> 's store_ops \<Rightarrow> string \<Rightarrow> http_request \<Rightarrow> response_writer \<Rightarrow> ('s, response_writer) state" where
  "serve_bearer lib ops request_id r w =
     do {
       auth \<leftarrow> api_authenticate (cl_sha lib) ops (hr_header r);
       case auth of
         Inl e \<Rightarrow> State_Monad.return
           (if e = ErrUnauthenticated
            then write_error 401 ''invalid_api_key'' ''authentication_error'' ''authentication failed'' request_id
              (set_header ''Www-Authenticate'' (''Bearer realm='' @ quoted ''alzette'') w)
            else unavailable ''authentication_unavailable'' ''authentication is temporarily unavailable'' request_id w)
       | Inr pr \<Rightarrow> serve_authenticated lib ops request_id r pr w
     }"

definition control_identified :: "string \<Rightarrow> response_writer \<Rightarrow> response_writer" where
  "control_identified request_id w =
     set_header ''X-Request-Id'' request_id (set_header ''X-Alzette-Request-Id'' request_id w)"

definition control_serve ::
  "control_lib \<Rightarrow> 's store_ops \<Rightarrow> http_request \<Rightarrow> response_writer \<Rightarrow> ('s, response_writer) state" where
  "control_serve lib ops r w =
     (case cl_new_id lib ''ctl'' of
        Inl _ \<Rightarrow> State_Monad.return (write_error 500 ''internal_error'' ''api_error'' ''request could not be initialised'' [] w)
      | Inr request_id \<Rightarrow>
          let w = control_identified request_id w
          in if hr_method r \<noteq> ''GET'' then State_Monad.return (method_not_allowed ''GET'' request_id w)
             else if hr_path r = ''/api/dashboard'' then serve_client_dashboard lib ops request_id r w
             else serve_bearer lib ops request_id r w)"

end
