(* ===== verification/Control_Figures.thy ===== *)
theory Control_Figures
  imports Control_Usage "HOL-Library.Multiset"
begin

text \<open>
  What the control API's figures say: the summary is the one a reader would compute from the rows, in
  whatever order the store returns them; percentiles are order statistics; the trend and the breakdown
  partition the rows; a route's observation is its latest evidence.
\<close>

section \<open>The summary against its definition\<close>

lemma wrap64_add_left: "wrap64 (wrap64 a + b) = wrap64 (a + b)"
  by (simp add: wrap64_def)

definition succeeded :: "inference_request \<Rightarrow> bool" where
  "succeeded q \<longleftrightarrow> ir_status q = ''succeeded''"

definition count_of :: "string \<Rightarrow> inference_request list \<Rightarrow> int" where
  "count_of status rs = int (length (filter (\<lambda>q. ir_status q = status) rs))"

definition reported :: "(token_usage \<Rightarrow> int option) \<Rightarrow> inference_request list \<Rightarrow> int list" where
  "reported f rs = List.map_filter (\<lambda>q. f (ir_usage q)) (filter succeeded rs)"

definition metric_of :: "(token_usage \<Rightarrow> int option) \<Rightarrow> inference_request list \<Rightarrow> token_metric" where
  "metric_of f rs =
     (let vs = reported f rs; eligible = count_of ''succeeded'' rs
      in \<lparr>tm_value = (if vs = [] then None else Some (wrap64 (sum_list vs))),
          tm_known_requests = int (length vs), tm_eligible_requests = eligible,
          tm_finality = (if eligible > 0 \<and> int (length vs) = eligible then ''final''
            else if vs \<noteq> [] then ''partial'' else ''unknown'')\<rparr>)"

definition latencies_of :: "inference_request list \<Rightarrow> int list" where
  "latencies_of rs = map (\<lambda>q. milliseconds (ir_duration q)) (filter (\<lambda>q. ir_completed_at q \<noteq> None) rs)"

definition summary_of :: "inference_request list \<Rightarrow> usage_summary" where
  "summary_of rs =
     (let bad = count_of ''failed'' rs + count_of ''cancelled'' rs; latencies = sort (latencies_of rs)
      in \<lparr>us_logical_requests = int (length rs), us_successful_requests = count_of ''succeeded'' rs,
          us_failed_requests = count_of ''failed'' rs, us_blocked_requests = count_of ''blocked'' rs,
          us_cancelled_requests = count_of ''cancelled'' rs,
          us_error_rate = (if rs = [] then 0 else float_div (float_of_int bad) (float_of_int (int (length rs)))),
          us_p50_latency_ms = percentile latencies (1 / 2), us_p95_latency_ms = percentile latencies (95 / 100),
          us_peak_concurrency = None, us_throughput_rps = None,
          us_input_tokens = metric_of u_input_tokens rs, us_output_tokens = metric_of u_output_tokens rs,
          us_cached_tokens = metric_of u_cached_tokens rs, us_reasoning_tokens = metric_of u_reasoning_tokens rs\<rparr>)"

text \<open>The loop invariant of \<open>summarise\<close>, for the rows read so far.\<close>

definition metric_state :: "(token_usage \<Rightarrow> int option) \<Rightarrow> inference_request list \<Rightarrow> metric_builder" where
  "metric_state f rs = \<lparr>mb_value = wrap64 (sum_list (reported f rs)), mb_known = int (length (reported f rs))\<rparr>"

definition state_of :: "inference_request list \<Rightarrow> summary_state" where
  "state_of rs =
     \<lparr>sm_successful = count_of ''succeeded'' rs, sm_failed = count_of ''failed'' rs,
      sm_blocked = count_of ''blocked'' rs, sm_cancelled = count_of ''cancelled'' rs,
      sm_eligible = count_of ''succeeded'' rs, sm_latencies = latencies_of rs,
      sm_input = metric_state u_input_tokens rs, sm_output = metric_state u_output_tokens rs,
      sm_cached = metric_state u_cached_tokens rs, sm_reasoning = metric_state u_reasoning_tokens rs\<rparr>"

lemma count_of_snoc: "count_of s (rs @ [q]) = count_of s rs + (if ir_status q = s then 1 else 0)"
  by (simp add: count_of_def)

lemma metric_state_snoc:
  "metric_state f (rs @ [q]) =
   (if succeeded q then metric_add (f (ir_usage q)) (metric_state f rs) else metric_state f rs)"
  by (simp add: metric_state_def reported_def metric_add_def map_filter_def wrap64_add_left split: option.splits)

lemma latencies_of_snoc:
  "latencies_of (rs @ [q]) =
   latencies_of rs @ (if ir_completed_at q \<noteq> None then [milliseconds (ir_duration q)] else [])"
  by (simp add: latencies_of_def)

lemma summary_step_state: "summary_step q (state_of rs) = state_of (rs @ [q])"
proof -
  note defs = summary_step_def count_status_def state_of_def Let_def count_of_snoc latencies_of_snoc
    metric_state_snoc succeeded_def
  consider "ir_status q = ''succeeded''" | "ir_status q = ''failed''" | "ir_status q = ''blocked''"
    | "ir_status q = ''cancelled''"
    | "ir_status q \<noteq> ''succeeded''" "ir_status q \<noteq> ''failed''" "ir_status q \<noteq> ''blocked''" "ir_status q \<noteq> ''cancelled''"
    by blast
  then show ?thesis by cases (simp_all only: defs, simp_all)
qed

lemma fold_summary_step: "fold summary_step qs (state_of rs) = state_of (rs @ qs)"
  by (induction qs arbitrary: rs) (simp_all add: summary_step_state)

lemma metric_result_state:
  "metric_result (metric_state f rs) (count_of ''succeeded'' rs) = metric_of f rs"
  by (auto simp: metric_result_def metric_state_def metric_of_def Let_def)

text \<open>
  C24: the usage summary is the one its readers expect. Whatever rows the ledger returns, \<open>summarise\<close>
  counts them by status, takes percentiles of the completed rows' latencies, and for each kind of token
  adds what the succeeded rows report, modulo 64 bits, with the number of reports, of succeeded rows,
  and \<open>final\<close> exactly when every succeeded row, of at least one, reports it.
\<close>

theorem summary_is_exact: "summarise rs = summary_of rs"
proof -
  have "summary_start = state_of []"
    by (simp add: summary_start_def state_of_def zero_metric_def count_of_def latencies_of_def metric_state_def
        reported_def map_filter_def wrap64_id min_int64_def max_int64_def)
  then have "fold summary_step rs summary_start = state_of rs" using fold_summary_step [of rs "[]"] by simp
  then show ?thesis
    unfolding summarise_def Let_def
    by (simp add: state_of_def summary_of_def Let_def metric_result_state)
qed

section \<open>Percentiles\<close>

lemma ceiling_bounds:
  fixes p :: rat
  assumes "0 < p" "p \<le> 1" "0 < n"
  shows "1 \<le> \<lceil>of_nat n * p\<rceil>" "\<lceil>of_nat n * p\<rceil> \<le> int n"
proof -
  have "0 < of_nat n * p" using assms by simp
  then show "1 \<le> \<lceil>of_nat n * p\<rceil>" by linarith
  have "of_nat n * p \<le> of_nat n * 1" using assms by (intro mult_left_mono) simp_all
  then show "\<lceil>of_nat n * p\<rceil> \<le> int n" by linarith
qed

text \<open>
  C25: a percentile is a latency that occurred, with at least the fraction \<open>p\<close> of the latencies at or
  below it, and fewer than that fraction strictly below it.
\<close>

theorem percentile_is_order_statistic:
  fixes p :: rat
  assumes "0 < p" and "p \<le> 1" and "values \<noteq> []"
  shows "case percentile (sort values) p of
      None \<Rightarrow> False
    | Some v \<Rightarrow> v \<in> set values \<and>
        of_nat (length values) * p \<le> of_nat (length (filter (\<lambda>x. x \<le> v) values)) \<and>
        of_nat (length (filter (\<lambda>x. x < v) values)) < of_nat (length values) * p"
proof -
  let ?s = "sort values" and ?n = "length values"
  define k where "k = nat (\<lceil>of_nat ?n * p\<rceil> - 1)"
  have n: "0 < ?n" using assms(3) by simp
  note b = ceiling_bounds [OF assms(1,2) n]
  have k: "k < ?n" and ck: "int (Suc k) = \<lceil>of_nat ?n * p\<rceil>" using b unfolding k_def by linarith+
  have "?s \<noteq> []" using assms(3) by (metis length_0_conv length_sort)
  then have pv: "percentile ?s p = Some (?s ! k)"
    using b by (simp add: percentile_def Let_def k_def)
  have sorted: "sorted ?s" by simp
  have count: "length (filter P values) = card {i. i < ?n \<and> P (?s ! i)}" for P
  proof -
    have "length (filter P values) = length (filter P ?s)" by (metis filter_sort length_sort)
    then show ?thesis by (simp add: length_filter_conv_card)
  qed
  have "{..k} \<subseteq> {i. i < ?n \<and> ?s ! i \<le> ?s ! k}"
    using k sorted_nth_mono [OF sorted] by auto
  then have "card {..k} \<le> card {i. i < ?n \<and> ?s ! i \<le> ?s ! k}" by (intro card_mono) simp_all
  then have le: "Suc k \<le> length (filter (\<lambda>x. x \<le> ?s ! k) values)" by (simp add: count)
  have "{i. i < ?n \<and> ?s ! i < ?s ! k} \<subseteq> {..<k}"
    using k sorted_nth_mono [OF sorted] by (fastforce simp: not_le)
  then have "card {i. i < ?n \<and> ?s ! i < ?s ! k} \<le> card {..<k}" by (intro card_mono) simp_all
  then have lt: "length (filter (\<lambda>x. x < ?s ! k) values) \<le> k" by (simp add: count)
  have up: "of_nat ?n * p \<le> of_nat (Suc k)"
  proof -
    have "of_nat ?n * p \<le> of_int (int (Suc k))" unfolding ck by (rule le_of_int_ceiling)
    then show ?thesis by simp
  qed
  have low: "of_nat k < of_nat ?n * p"
  proof -
    have "of_int (int (Suc k) - 1) < of_nat ?n * p" unfolding ck by linarith
    then show ?thesis by simp
  qed
  have mem: "?s ! k \<in> set values" using k by (metis length_sort nth_mem set_sort)
  have "of_nat ?n * p \<le> (of_nat (length (filter (\<lambda>x. x \<le> ?s ! k) values)) :: rat)"
    using up le by (meson of_nat_mono order_trans)
  moreover have "(of_nat (length (filter (\<lambda>x. x < ?s ! k) values)) :: rat) < of_nat ?n * p"
    using low lt by (meson of_nat_mono order_le_less_trans)
  ultimately show ?thesis using pv mem by simp
qed

theorem percentile_is_order_statistic_witness:
  "percentile (sort [40, 10, 30, 20]) (1 / 2) = Some 20 \<and>
   of_nat (length (filter (\<lambda>x. x < 20) [40, 10, 30, 20 :: int])) < (of_nat (length [40, 10, 30, 20 :: int]) * (1 / 2) :: rat)"
proof -
  have p: "percentile (sort [40, 10, 30, 20]) (1 / 2) = Some 20"
    by (simp add: percentile_def Let_def)
  with percentile_is_order_statistic [of "1 / 2" "[40, 10, 30, 20]"] show ?thesis by simp
qed

section \<open>Groups\<close>

lemma group_by_Nil [simp]: "group_by f [] = []"
  by (simp add: group_by_def)










lemma set_groups_in_order [simp]: "set (groups_in_order f vs) = set (group_by f vs)"
  by (simp add: groups_in_order_def)








lemma logical_requests: "cu_logical_requests (client_usage rs) = int (length rs)"
  by (simp add: client_usage_def summarise_def Let_def)








end
