(* ===== verification/Control_Properties.thy ===== *)
theory Control_Properties
  imports Control_Plane Control_Figures Gateway_Properties
begin

text \<open>
  What the control API promises: a caller sees exactly its own tenant's rows of a bounded window, a
  snapshot called final is complete, and the health of a route is the latest evidence in the caller's
  own requests.
\<close>

section \<open>Route evidence\<close>

definition route_known :: "route \<Rightarrow> bool" where
  "route_known rt \<longleftrightarrow> r_id rt \<noteq> [] \<and> t_id (r_target rt) \<noteq> [] \<and> r_model_id rt \<noteq> [] \<and> 0 < r_binding_generation rt"

text \<open>A completed request of the route's current binding that says something about the target.\<close>

definition evidence :: "route \<Rightarrow> inference_request \<Rightarrow> bool" where
  "evidence rt q \<longleftrightarrow> route_known rt \<and> bound_to rt q \<and> ir_completed_at q \<noteq> None \<and> observed_status q \<noteq> []"

definition success :: "route \<Rightarrow> inference_request \<Rightarrow> bool" where
  "success rt q \<longleftrightarrow> evidence rt q \<and> ir_status q = ''succeeded''"

text \<open>\<open>q\<close> is the latest of \<open>rs\<close>.\<close>

definition latest_of :: "inference_request list \<Rightarrow> inference_request \<Rightarrow> bool" where
  "latest_of rs q \<longleftrightarrow> q \<in> set rs \<and> list_all (\<lambda>r. the (ir_completed_at r) \<le> the (ir_completed_at q)) rs"

lemma latest_of_snoc:
  "latest_of rs q \<Longrightarrow> the (ir_completed_at r) \<le> the (ir_completed_at q) \<Longrightarrow> latest_of (rs @ [r]) q"
  "latest_of rs q \<Longrightarrow> the (ir_completed_at q) \<le> the (ir_completed_at r) \<Longrightarrow> latest_of (rs @ [r]) r"
  "latest_of [r] r"
  by (fastforce simp: latest_of_def list_all_iff)+

definition latest_evidence :: "inference_request list \<Rightarrow> time option \<Rightarrow> (inference_request \<Rightarrow> bool) \<Rightarrow> bool" where
  "latest_evidence rs t P \<longleftrightarrow>
     (case t of
        None \<Rightarrow> rs = []
      | Some _ \<Rightarrow> (\<exists>q. latest_of rs q \<and> ir_completed_at q = t \<and> P q))"

lemma latest_evidence_snoc:
  assumes "latest_evidence rs t P" and r: "ir_completed_at r = Some u"
  shows "\<not> later_than u t \<Longrightarrow> latest_evidence (rs @ [r]) t P"
    and "later_than u t \<Longrightarrow> Q r \<Longrightarrow> latest_evidence (rs @ [r]) (Some u) Q"
proof -
  show "latest_evidence (rs @ [r]) t P" if n: "\<not> later_than u t"
  proof -
    from n obtain v where t: "t = Some v" "u \<le> v" by (auto simp: later_than_def split: option.splits)
    with assms(1) obtain q where q: "latest_of rs q" "ir_completed_at q = Some v" "P q"
      by (auto simp: latest_evidence_def)
    from q t r have "latest_of (rs @ [r]) q" by (intro latest_of_snoc(1)) simp_all
    with q t show ?thesis by (auto simp: latest_evidence_def)
  qed
  show "latest_evidence (rs @ [r]) (Some u) Q" if "later_than u t" "Q r"
  proof (cases t)
    case None
    with assms(1) have "rs = []" by (simp add: latest_evidence_def)
    with that r latest_of_snoc(3) [of r] show ?thesis by (auto simp: latest_evidence_def)
  next
    case (Some v)
    with assms(1) obtain q where q: "latest_of rs q" "ir_completed_at q = Some v" by (auto simp: latest_evidence_def)
    from that(1) Some have "v < u" by (simp add: later_than_def)
    with q r have "latest_of (rs @ [r]) r" by (intro latest_of_snoc(2) [OF q(1)]) simp
    with that r show ?thesis by (auto simp: latest_evidence_def)
  qed
qed

lemma success_status: "ir_status q = ''succeeded'' \<Longrightarrow> observed_status q = ''operational''"
  by (simp add: observed_status_def)

lemma observe_requests:
  assumes "route_known rt"
  defines "ob \<equiv> \<lambda>rs. fold (observe_request rt) rs unknown_observation"
  shows "latest_evidence (filter (evidence rt) rs) (ro_latest_at (ob rs)) (\<lambda>q. ro_status (ob rs) = observed_status q) \<and>
    latest_evidence (filter (success rt) rs) (ro_last_success_at (ob rs)) (\<lambda>q. True) \<and>
    (ro_latest_at (ob rs) = None \<longrightarrow> ro_status (ob rs) = ''unknown'')"
proof (induction rs rule: rev_induct)
  case Nil
  then show ?case by (simp add: ob_def unknown_observation_def latest_evidence_def)
next
  case (snoc r rs)
  have o: "ob (rs @ [r]) = observe_request rt r (ob rs)" by (simp add: ob_def)
  show ?case
  proof (cases "bound_to rt r \<and> ir_completed_at r \<noteq> None")
    case False
    then have "ob (rs @ [r]) = ob rs" by (auto simp: o observe_request_def split: option.splits)
    with False snoc show ?thesis by (auto simp: evidence_def success_def)
  next
    case True
    then obtain u where u: "ir_completed_at r = Some u" and b: "bound_to rt r" by blast
    have e: "evidence rt r \<longleftrightarrow> observed_status r \<noteq> []" "success rt r \<longleftrightarrow> ir_status r = ''succeeded''"
      using b u assms(1) success_status [of r] by (auto simp: evidence_def success_def)
    let ?o2 = "if later_than u (ro_latest_at (ob rs)) \<and> observed_status r \<noteq> []
      then (ob rs)\<lparr>ro_latest_at := Some u, ro_status := observed_status r\<rparr> else ob rs"
    have o2: "ob (rs @ [r]) = (if ir_status r = ''succeeded'' \<and> later_than u (ro_last_success_at (ob rs))
        then ?o2\<lparr>ro_last_success_at := Some u\<rparr> else ?o2)"
      by (simp add: o observe_request_def u b Let_def)
    show ?thesis
    proof (intro conjI)
      show "latest_evidence (filter (evidence rt) (rs @ [r])) (ro_latest_at (ob (rs @ [r])))
          (\<lambda>q. ro_status (ob (rs @ [r])) = observed_status q)"
        using snoc latest_evidence_snoc(1) [OF _ u, of "filter (evidence rt) rs" "ro_latest_at (ob rs)"
            "\<lambda>q. ro_status (ob rs) = observed_status q"]
          latest_evidence_snoc(2) [OF _ u, of "filter (evidence rt) rs" "ro_latest_at (ob rs)"
            "\<lambda>q. ro_status (ob rs) = observed_status q" "\<lambda>q. observed_status r = observed_status q"]
        by (auto simp: o2 e)
      show "latest_evidence (filter (success rt) (rs @ [r])) (ro_last_success_at (ob (rs @ [r]))) (\<lambda>q. True)"
        using snoc latest_evidence_snoc(1) [OF _ u, of "filter (success rt) rs" "ro_last_success_at (ob rs)" "\<lambda>q. True"]
          latest_evidence_snoc(2) [OF _ u, of "filter (success rt) rs" "ro_last_success_at (ob rs)"
            "\<lambda>q. True" "\<lambda>q. True"]
        by (auto simp: o2 e)
      show "ro_latest_at (ob (rs @ [r])) = None \<longrightarrow> ro_status (ob (rs @ [r])) = ''unknown''"
        using snoc by (auto simp: o2)
    qed
  qed
qed

lemma evidence_status:
  assumes "latest_of (filter (evidence rt) rs) q"
  shows "observed_status q = ''operational'' \<or> observed_status q = ''degraded''"
proof -
  from assms have "observed_status q \<noteq> []" by (simp add: latest_of_def evidence_def)
  then show ?thesis unfolding observed_status_def by presburger
qed

text \<open>
  C23: the health the API shows for a route is the latest evidence among the caller's completed
  requests of the route's current binding, a request being evidence when it succeeded or failed for a
  reason that lies with the target: the status and the observation time are those of a piece of
  evidence that no other is later than, the success time is that of a latest success, and without
  evidence (or for a route whose binding is incomplete) the status is \<open>unknown\<close>.
\<close>

theorem route_status_is_latest_evidence:
  "latest_evidence (filter (evidence rt) rs) (ro_latest_at (scoped_route_observation rt rs))
     (\<lambda>q. ro_status (scoped_route_observation rt rs) = observed_status q) \<and>
   latest_evidence (filter (success rt) rs) (ro_last_success_at (scoped_route_observation rt rs)) (\<lambda>q. True) \<and>
   (if ro_latest_at (scoped_route_observation rt rs) = None then ro_status (scoped_route_observation rt rs) = ''unknown''
    else ro_status (scoped_route_observation rt rs) = ''operational'' \<or>
         ro_status (scoped_route_observation rt rs) = ''degraded'')"
proof (cases "route_known rt")
  case True
  then have o: "scoped_route_observation rt rs = fold (observe_request rt) rs unknown_observation"
    by (auto simp: scoped_route_observation_def route_known_def)
  have "observed_status q = ''operational'' \<or> observed_status q = ''degraded''" if "latest_of (filter (evidence rt) rs) q" for q
    using that by (auto simp: latest_of_def evidence_def observed_status_def split: if_splits)
  then have "ro_status (scoped_route_observation rt rs) = ''operational'' \<or> ro_status (scoped_route_observation rt rs) = ''degraded''"
    if "ro_latest_at (scoped_route_observation rt rs) \<noteq> None"
  proof -
    from that obtain t where "ro_latest_at (scoped_route_observation rt rs) = Some t" by blast
    then obtain q where q: "latest_of (filter (evidence rt) rs) q"
      and "ro_status (scoped_route_observation rt rs) = observed_status q"
      using observe_requests [OF True, of rs] unfolding o latest_evidence_def by auto
    with evidence_status [OF q] show ?thesis by simp
  qed
  then show ?thesis
    using observe_requests [OF True, of rs] unfolding o by (simp add: if_split)
next
  case False
  then have "scoped_route_observation rt rs = unknown_observation" "filter (evidence rt) rs = []" "filter (success rt) rs = []"
    by (auto simp: scoped_route_observation_def route_known_def evidence_def success_def)
  then show ?thesis by (simp add: unknown_observation_def latest_evidence_def)
qed

section \<open>What a caller sees of the ledger\<close>

lemma in_filter_limit [simp]: "in_filter pr (flt\<lparr>uf_limit := n\<rparr>) = in_filter pr flt"
  by (simp add: in_filter_def fun_eq_iff)

lemma query_bounds:
  assumes "parse_usage_query lib raw = Inr (flt, limit)"
  shows "uf_from flt < uf_to flt" "uf_to flt - uf_from flt \<le> 31 * 24 * hour" "1 \<le> limit" "limit \<le> 100"
    "length (uf_model_alias flt) \<le> 128" "uf_limit flt = 0"
  using assms
  by (auto simp: parse_usage_query_def period_filter_def query_limit_def Let_def time_sub_def maximum_usage_window_def
      hour_def max_int64_def min_int64_def split: option.splits sum.splits if_splits)

text \<open>Everything the ledger has for a tenant and a window.\<close>

definition rows_of_window :: "(string \<rightharpoonup> inference_request) \<Rightarrow> principal \<Rightarrow> usage_filter \<Rightarrow> inference_request list \<Rightarrow> bool" where
  "rows_of_window ledger pr flt rs \<longleftrightarrow>
     set rs = {q. \<exists>rid. ledger rid = Some q \<and> in_filter pr flt q} \<and> distinct (map ir_id rs)"

lemma identified_sent [simp]: "rw_sent (control_identified i w) = rw_sent w"
  by (simp add: control_identified_def)

lemma helper_statuses [simp]:
  "rw_sent w = None \<Longrightarrow> response_status (unavailable c m i w) = Some 503"
  "rw_sent w = None \<Longrightarrow> response_status (query_refused e i w) = Some (qe_status e)"
  "rw_sent w = None \<Longrightarrow> response_status (method_not_allowed a i w) = Some 405"
  by (simp_all add: unavailable_def query_refused_def method_not_allowed_def)

lemma query_error_status: "parse_usage_query lib raw = Inl e \<Longrightarrow> qe_status e = 400"
proof -
  have c: "check_parameters q = Some e \<Longrightarrow> qe_status e = 400" for q
    by (induction q rule: check_parameters.induct) (auto simp: bad_query_def split: if_splits)
  show "parse_usage_query lib raw = Inl e \<Longrightarrow> qe_status e = 400"
    by (auto simp: parse_usage_query_def period_filter_def query_time_def bad_query_def Let_def
        split: option.splits sum.splits if_splits dest: c)
qed

context request_reader
begin

lemma list_window:
  assumes "good s" "run_state (st_list_inference_requests ops pr (flt\<lparr>uf_limit := maximum_ledger_rows\<rparr>)) s = (pg, t)"
  shows "good t" "row t = row s"
    and "pg = Inr page \<Longrightarrow> \<not> rp_truncated page \<Longrightarrow>
      rows_of_window (row s) pr flt (rp_requests page) \<and> length (rp_requests page) \<le> 10000"
proof -
  note l = list_rows [OF assms]
  from l show "good t" "row t = row s" by simp_all
  show "rows_of_window (row s) pr flt (rp_requests page) \<and> length (rp_requests page) \<le> 10000"
    if "pg = Inr page" "\<not> rp_truncated page"
    using l that by (auto simp: rows_of_window_def maximum_ledger_rows_def)
qed

lemma api_authenticate_basic_rows:
  "good s \<Longrightarrow> run_state (api_authenticate_basic sha basic ops h) s = (r, t) \<Longrightarrow> good t \<and> row t = row s"
  unfolding api_authenticate_basic_def
  by (auto split: option.splits if_splits prod.splits dest: authenticate_rows)

lemma build_usage_rows:
  assumes "good s" "run_state (build_usage lib ops rid pr flt limit w) s = (u, t)" "rw_sent w = None"
  shows "good t" "row t = row s"
    and "u = Inr (usage, rs) \<Longrightarrow> usage = usage_response_of lib pr flt limit rs \<and>
      rows_of_window (row s) pr flt rs \<and> length rs \<le> 10000"
    and "u = Inl w' \<Longrightarrow> response_status w' \<noteq> Some 200"
proof -
  obtain pg t' where pg: "run_state (st_list_inference_requests ops pr (flt\<lparr>uf_limit := maximum_ledger_rows\<rparr>)) s = (pg, t')"
    by (meson surj_pair)
  note l = list_window [OF assms(1) pg]
  have e: "t = t'" using assms(2) pg by (auto simp: build_usage_def)
  from l e show "good t" "row t = row s" by simp_all
  show "usage = usage_response_of lib pr flt limit rs \<and> rows_of_window (row s) pr flt rs \<and> length rs \<le> 10000"
    if "u = Inr (usage, rs)"
    using assms(2) pg that l(3) by (auto simp: build_usage_def split: sum.splits if_splits)
  show "response_status w' \<noteq> Some 200" if "u = Inl w'"
    using assms(2,3) pg that by (auto simp: build_usage_def split: sum.splits if_splits)
qed

lemma serve_usage_rows:
  assumes "good s" "rw_sent w = None" "run_state (serve_usage lib ops rid r pr w) s = (w', t)"
  shows "good t" "row t = row s"
    and "response_status w' = Some 200 \<Longrightarrow> \<exists>flt limit rs. parse_usage_query lib (hr_raw_query r) = Inr (flt, limit) \<and>
      rows_of_window (row s) pr flt rs \<and> length rs \<le> 10000 \<and>
      w' = write_json 200 (json_usage_response lib (usage_response_of lib pr flt limit rs)) w"
proof -
  have "good t \<and> row t = row s \<and> (response_status w' = Some 200 \<longrightarrow>
      (\<exists>flt limit rs. parse_usage_query lib (hr_raw_query r) = Inr (flt, limit) \<and>
      rows_of_window (row s) pr flt rs \<and> length rs \<le> 10000 \<and>
      w' = write_json 200 (json_usage_response lib (usage_response_of lib pr flt limit rs)) w))"
  proof (cases "parse_usage_query lib (hr_raw_query r)")
    case (Inl e)
    with assms query_error_status [OF Inl] show ?thesis by (auto simp: serve_usage_def)
  next
    case (Inr p)
    then obtain flt limit where q: "parse_usage_query lib (hr_raw_query r) = Inr (flt, limit)" by (cases p) auto
    obtain u t' where u: "run_state (build_usage lib ops rid pr flt limit w) s = (u, t')" by (meson surj_pair)
    note b = build_usage_rows [OF assms(1) u assms(2)]
    from assms(3) u q have t: "t = t'" "w' = (case u of Inl w \<Rightarrow> w
        | Inr (usage, _) \<Rightarrow> write_json 200 (json_usage_response lib usage) w)"
      by (auto simp: serve_usage_def)
    from b t q show ?thesis by (cases u) (fastforce split: prod.splits)+
  qed
  then show "good t" "row t = row s" "response_status w' = Some 200 \<Longrightarrow>
      \<exists>flt limit rs. parse_usage_query lib (hr_raw_query r) = Inr (flt, limit) \<and>
      rows_of_window (row s) pr flt rs \<and> length rs \<le> 10000 \<and>
      w' = write_json 200 (json_usage_response lib (usage_response_of lib pr flt limit rs)) w"
    by blast+
qed

end

text \<open>A computation that leaves the ledger alone.\<close>

definition ledger_kept :: "('s \<Rightarrow> bool) \<Rightarrow> ('s \<Rightarrow> 'r) \<Rightarrow> ('s, 'a) state \<Rightarrow> bool" where
  "ledger_kept good row m \<longleftrightarrow> (\<forall>s x t. good s \<longrightarrow> run_state m s = (x, t) \<longrightarrow> good t \<and> row t = row s)"

lemma kept_return: "ledger_kept good row (State_Monad.return x)"
  by (simp add: ledger_kept_def)

lemma kept_bind:
  assumes "ledger_kept good row m" and "\<And>x. ledger_kept good row (f x)"
  shows "ledger_kept good row (m \<bind> f)"
  unfolding ledger_kept_def
proof (intro allI impI)
  fix s x t
  assume g: "good s" and run: "run_state (m \<bind> f) s = (x, t)"
  obtain y u where m: "run_state m s = (y, u)" by (meson surj_pair)
  with run have "run_state (f y) u = (x, t)" by simp
  with assms g m show "good t \<and> row t = row s" unfolding ledger_kept_def by metis
qed

lemma kept_cases:
  "(\<And>x. ledger_kept good row (f x)) \<Longrightarrow> (\<And>y. ledger_kept good row (g y)) \<Longrightarrow>
    ledger_kept good row (case v of Inl x \<Rightarrow> f x | Inr y \<Rightarrow> g y)"
  "(\<And>x y. ledger_kept good row (h x y)) \<Longrightarrow> ledger_kept good row (case p of (x, y) \<Rightarrow> h x y)"
  "ledger_kept good row m \<Longrightarrow> ledger_kept good row n \<Longrightarrow> ledger_kept good row (if b then m else n)"
  by (simp_all split: sum.splits prod.splits)

lemmas kept_intros = kept_return kept_bind kept_cases

context request_reader
begin

lemma kept_list: "ledger_kept good row (st_list_inference_requests ops pr flt)"
  unfolding ledger_kept_def using list_rows by metis

lemma kept_get: "ledger_kept good row (st_get_inference_request ops pr rid)"
  unfolding ledger_kept_def using get_rows by metis

lemma kept_routes: "ledger_kept good row (st_list_routes ops pr)"
  unfolding ledger_kept_def using routes_rows by metis

lemma kept_auth:
  "ledger_kept good row (api_authenticate sha ops h)"
  "ledger_kept good row (api_authenticate_basic sha basic ops h)"
  unfolding ledger_kept_def using api_authenticate_rows api_authenticate_basic_rows by metis+

lemmas kept_reads = kept_list kept_get kept_routes kept_auth

lemma kept_pages:
  "ledger_kept good row (serve_usage lib ops rid r pr w)"
  "ledger_kept good row (serve_dashboard lib ops rid r pr w)"
  "ledger_kept good row (serve_request_detail lib ops rid r pr w)"
  "ledger_kept good row (serve_client_dashboard lib ops rid r w)"
  unfolding serve_usage_def serve_dashboard_def serve_request_detail_def serve_client_dashboard_def
    build_usage_def read_client_dashboard_def Let_def
  by (intro kept_intros kept_reads)+

lemma control_kept: "ledger_kept good row (control_serve lib ops r w)"
  unfolding control_serve_def serve_bearer_def serve_authenticated_def Let_def
  by (intro kept_intros kept_reads kept_pages)

text \<open>The single-request read: the caller's own row, or the same \<open>not found\<close> for every other.\<close>

lemma request_detail_answer:
  assumes "good s" "rw_sent w = None" "run_state (serve_request_detail lib ops rid r pr w) s = (w', t)"
    and "response_status w' = Some 200"
  shows "\<exists>q. row s (drop (length requests_path) (hr_path r)) = Some q \<and> request_tenant q = tenant_of pr \<and>
    w' = write_json 200 (json_request_view lib (request_view_of pr q)) w"
proof -
  obtain q t' where q: "run_state (st_get_inference_request ops pr (drop (length requests_path) (hr_path r))) s = (q, t')"
    by (meson surj_pair)
  from get_rows [OF assms(1) q] q assms(2-) show ?thesis
    by (auto simp: serve_request_detail_def Let_def split: sum.splits if_splits)
qed

lemma client_dashboard_answer:
  assumes "good s" "rw_sent w = None" "run_state (read_client_dashboard lib ops rid pr flt limit w) s = (w', t)"
    and "response_status w' = Some 200"
  shows "\<exists>page routes. (\<not> rp_truncated page \<longrightarrow> rows_of_window (row s) pr flt (rp_requests page)) \<and>
    list_all (\<lambda>q. row s (ir_id q) = Some q \<and> in_filter pr flt q) (rp_requests page) \<and>
    list_all (\<lambda>rt. route_tenant rt = tenant_of pr) routes \<and>
    w' = write_json 200 (json_client_dashboard_response lib (client_dashboard_of lib pr flt limit page routes)) w"
proof -
  obtain pg s1 where pg: "run_state (st_list_inference_requests ops pr (flt\<lparr>uf_limit := maximum_ledger_rows\<rparr>)) s = (pg, s1)"
    by (meson surj_pair)
  note l = list_window [OF assms(1) pg] list_rows [OF assms(1) pg]
  show ?thesis
  proof (cases pg)
    case (Inl e)
    with assms(2-) pg show ?thesis by (auto simp: read_client_dashboard_def)
  next
    case (Inr page)
    obtain rts s2 where rts: "run_state (st_list_routes ops pr) s1 = (rts, s2)" by (meson surj_pair)
    note r = routes_rows [OF l(1) rts]
    show ?thesis
    proof (cases rts)
      case (Inl e)
      with assms(2-) pg Inr rts show ?thesis by (auto simp: read_client_dashboard_def)
    next
      case (Inr routes)
      with assms(2-) pg \<open>pg = Inr page\<close> rts
      have "w' = write_json 200 (json_client_dashboard_response lib (client_dashboard_of lib pr flt limit page routes)) w"
        by (auto simp: read_client_dashboard_def)
      with l r Inr \<open>pg = Inr page\<close> show ?thesis
        by (intro exI [of _ page] exI [of _ routes]) (auto simp: list_all_iff)
    qed
  qed
qed

end

section \<open>Properties over the in-memory store\<close>

definition bearer_of :: "control_lib \<Rightarrow> mem_store \<Rightarrow> http_request \<Rightarrow> principal \<Rightarrow> bool" where
  "bearer_of lib s r pr \<longleftrightarrow>
     (\<exists>token. bearer_token (hr_header r) = Some token \<and> validate_format token \<and> authenticate s (cl_sha lib token) = Inr pr)"

lemma mem_authenticate_bearer:
  "run_state (api_authenticate (cl_sha lib) memory_ops (hr_header r)) s = (Inr pr, t) \<Longrightarrow> bearer_of lib s r pr \<and> t = s"
  by (auto simp: api_authenticate_def bearer_of_def memory_ops_def map_auth_error_def split: option.splits if_splits sum.splits)

lemma bearer_authenticates:
  assumes "bearer_of lib s r pr"
  shows "run_state (api_authenticate (cl_sha lib) memory_ops (hr_header r)) s = (Inr pr, s)"
proof -
  from assms obtain token where t: "bearer_token (hr_header r) = Some token" "validate_format token"
    "authenticate s (cl_sha lib token) = Inr pr" by (auto simp: bearer_of_def)
  from t(2) have "has_prefix ''alz_k_'' token"
    using validate_format_with_marker by (simp add: validate_format_def token_marker_def)
  with t show ?thesis by (simp add: api_authenticate_def memory_ops_def map_auth_error_def)
qed

text \<open>A request past the front door: the identifier was generated, the method and the path were accepted.\<close>

lemma control_bearer:
  assumes run: "run_state (control_serve lib ops r w) s = (w', t)" and "rw_sent w = None"
    and "hr_path r \<noteq> ''/api/dashboard''" and ok: "response_status w' = Some 200"
  shows "\<exists>rid. cl_new_id lib ''ctl'' = Inr rid \<and> run_state (serve_bearer lib ops rid r (control_identified rid w)) s = (w', t)"
  using assms by (auto simp: control_serve_def Let_def split: sum.splits if_splits)

lemma serve_bearer_memory:
  assumes "run_state (serve_bearer lib memory_ops rid r w) s = (w', t)" and "rw_sent w = None"
    and ok: "response_status w' = Some 200"
  shows "\<exists>pr. bearer_of lib s r pr \<and> run_state (serve_authenticated lib memory_ops rid r pr w) s = (w', t)"
proof -
  obtain a u where a: "run_state (api_authenticate (cl_sha lib) memory_ops (hr_header r)) s = (a, u)" by (meson surj_pair)
  show ?thesis
  proof (cases a)
    case (Inl e)
    with a assms show ?thesis by (auto simp: serve_bearer_def split: if_splits)
  next
    case (Inr pr)
    with a assms(1) mem_authenticate_bearer [of lib r s pr u] show ?thesis by (auto simp: serve_bearer_def)
  qed
qed

text \<open>
  C20: a usage report that the API answers with over the in-memory store is the report of an
  authenticated caller with the scope \<open>usage:read\<close>, for a window of more than nothing and at most 31 days, and it is
  computed from exactly the rows the ledger has for the caller's organisation, project and environment
  in that window, at most 10,000 of them; the ledger is not changed.
\<close>

theorem usage_reports_own_window:
  assumes "store_wf s" and "rw_sent w = None" and "hr_path r = ''/api/v1/usage''"
    and "run_state (control_serve lib memory_ops r w) s = (w', t)" and "response_status w' = Some 200"
  shows "memory_row t = memory_row s \<and>
    (\<exists>pr flt limit rs rid. bearer_of lib s r pr \<and> has_scope pr scope_usage_read \<and>
       parse_usage_query lib (hr_raw_query r) = Inr (flt, limit) \<and>
       uf_from flt < uf_to flt \<and> uf_to flt - uf_from flt \<le> 31 * 24 * hour \<and> 1 \<le> limit \<and> limit \<le> 100 \<and>
       rows_of_window (memory_row s) pr flt rs \<and> length rs \<le> 10000 \<and>
       w' = write_json 200 (json_usage_response lib (usage_response_of lib pr flt limit rs)) (control_identified rid w))"
proof -
  from control_bearer [OF assms(4,2) _ assms(5)] assms(3) obtain rid
    where "run_state (serve_bearer lib memory_ops rid r (control_identified rid w)) s = (w', t)" by auto
  from serve_bearer_memory [OF this _ assms(5)] assms(2) obtain pr where pr: "bearer_of lib s r pr"
    "run_state (serve_authenticated lib memory_ops rid r pr (control_identified rid w)) s = (w', t)" by auto
  have sc: "has_scope pr scope_usage_read"
    using pr(2) assms(2,5) by (auto simp: serve_authenticated_def split: if_splits)
  with pr(2) assms(3) have run: "run_state (serve_usage lib memory_ops rid r pr (control_identified rid w)) s = (w', t)"
    by (simp add: serve_authenticated_def)
  from assms(2) have unsent: "rw_sent (control_identified rid w) = None" by simp
  note u = mem_reads.serve_usage_rows [OF assms(1) unsent run]
  from u(3) [OF assms(5)] obtain flt limit rs where q: "parse_usage_query lib (hr_raw_query r) = Inr (flt, limit)"
    "rows_of_window (memory_row s) pr flt rs" "length rs \<le> 10000"
    "w' = write_json 200 (json_usage_response lib (usage_response_of lib pr flt limit rs)) (control_identified rid w)" by blast
  with query_bounds [OF q(1)] pr(1) sc u(2) show ?thesis by blast
qed

text \<open>
  C21: to an authenticated caller with the scope \<open>usage:read\<close>, the single-request read answers with the
  request when it belongs to the caller's organisation, project and environment, and with one and the
  same \<open>not found\<close> when it belongs to another tenant or does not exist.
\<close>

theorem request_detail_hides_other_tenants:
  assumes "cl_new_id lib ''ctl'' = Inr rid" and "hr_method r = ''GET''" and "hr_raw_query r = []"
    and "bearer_of lib s r pr" and "has_scope pr scope_usage_read"
    and "hr_path r = requests_path @ i" and "i \<noteq> []" and "\<not> contains_str ''/'' i"
  shows "run_state (control_serve lib memory_ops r w) s =
    ((case memory_row s i of
        Some q \<Rightarrow>
          if request_tenant q = tenant_of pr
          then write_json 200 (json_request_view lib (request_view_of pr q)) (control_identified rid w)
          else write_error 404 ''not_found'' ''invalid_request_error'' ''request not found'' rid (control_identified rid w)
      | None \<Rightarrow> write_error 404 ''not_found'' ''invalid_request_error'' ''request not found'' rid (control_identified rid w)), s)"
proof -
  have p: "hr_path r \<noteq> ''/api/dashboard''" "hr_path r \<noteq> ''/api/v1/dashboard''" "hr_path r \<noteq> ''/api/v1/usage''"
    "has_prefix requests_path (hr_path r)" "drop (length requests_path) (hr_path r) = i"
    by (auto simp: assms(6) requests_path_def has_prefix_def)
  have g: "get_inference_request s pr i = (case memory_row s i of
      Some q \<Rightarrow> if request_tenant q = tenant_of pr then Inr q else Inl ErrNotFound | None \<Rightarrow> Inl ErrNotFound)"
    by (auto simp: get_inference_request_def memory_row_def request_tenant_def tenant_of_def split: option.splits)
  have "run_state (serve_request_detail lib memory_ops rid r pr (control_identified rid w)) s =
    ((case get_inference_request s pr i of
        Inr q \<Rightarrow> write_json 200 (json_request_view lib (request_view_of pr q)) (control_identified rid w)
      | Inl e \<Rightarrow> if e = ErrNotFound
          then write_error 404 ''not_found'' ''invalid_request_error'' ''request not found'' rid (control_identified rid w)
          else unavailable ''usage_unavailable'' ''request metadata is temporarily unavailable'' rid (control_identified rid w)), s)"
    by (simp add: serve_request_detail_def p(5) assms(3,7,8) Let_def memory_ops_def)
  then have "run_state (serve_request_detail lib memory_ops rid r pr (control_identified rid w)) s =
    ((case memory_row s i of
        Some q \<Rightarrow>
          if request_tenant q = tenant_of pr
          then write_json 200 (json_request_view lib (request_view_of pr q)) (control_identified rid w)
          else write_error 404 ''not_found'' ''invalid_request_error'' ''request not found'' rid (control_identified rid w)
      | None \<Rightarrow> write_error 404 ''not_found'' ''invalid_request_error'' ''request not found'' rid (control_identified rid w)), s)"
    by (auto simp: g split: option.splits)
  then show ?thesis
    by (simp add: control_serve_def assms(1,2,5) p Let_def serve_bearer_def bearer_authenticates [OF assms(4)] serve_authenticated_def)
qed

definition all_settled :: "inference_request list \<Rightarrow> bool" where
  "all_settled rs \<longleftrightarrow>
     list_all (\<lambda>q. ir_status q \<noteq> ''in_progress'') rs \<and>
     list_all (\<lambda>q. ir_usage_finality q = ''final'') (filter (\<lambda>q. ir_status q = ''succeeded'') rs)"

lemma memory_reads_run [simp]:
  "run_state (st_list_inference_requests memory_ops pr flt) s = (Inr (list_inference_requests s pr flt), s)"
  "run_state (st_list_routes memory_ops pr) s = (Inr (list_routes s pr), s)"
  "run_state (st_authenticate memory_ops d) s = (authenticate s d, s)"
  by (simp_all add: memory_ops_def)

definition basic_of :: "control_lib \<Rightarrow> mem_store \<Rightarrow> http_request \<Rightarrow> principal \<Rightarrow> bool" where
  "basic_of lib s r pr \<longleftrightarrow>
     length (header_values (hr_header r) ''Authorization'') = 1 \<and>
     (\<exists>user token. cl_basic lib (header_get (hr_header r) ''Authorization'') = Some (user, token) \<and> trim_space token = token \<and>
        validate_format token \<and> authenticate s (cl_sha lib token) = Inr pr)"

lemma mem_authenticate_basic:
  "run_state (api_authenticate_basic (cl_sha lib) (cl_basic lib) memory_ops (hr_header r)) s = (Inr pr, t) \<Longrightarrow>
     basic_of lib s r pr \<and> t = s"
  by (auto simp: api_authenticate_basic_def basic_of_def memory_ops_def map_auth_error_def split: option.splits if_splits sum.splits)

lemma truncated_page:
  assumes "store_wf s" and "rp_truncated (list_inference_requests s pr flt)"
  shows "\<not> rows_of_window (memory_row s) pr flt (rp_requests (list_inference_requests s pr flt))"
proof
  let ?all = "filter (in_filter pr flt) (map snd (ms_requests s))"
  let ?page = "rp_requests (list_inference_requests s pr flt)"
  assume rows: "rows_of_window (memory_row s) pr flt ?page"
  have k: "keyed ir_id (ms_requests s)" using assms(1) by (rule wf_tables)
  have "map ir_id (map snd (ms_requests s)) = map fst (ms_requests s)"
    using k unfolding keyed_def map_map comp_def by (intro map_cong refl) auto
  then have "distinct (map ir_id (map snd (ms_requests s)))" using k by (simp add: keyed_def del: map_map)
  then have "distinct (map snd (ms_requests s))" unfolding distinct_map [of ir_id "map snd (ms_requests s)"] by (rule conjunct1)
  then have d: "distinct ?all" by (rule distinct_filter)
  have mem: "map_of (ms_requests s) rid = Some q \<longleftrightarrow> (rid, q) \<in> set (ms_requests s)" for rid q
    using k by (simp add: keyed_def)
  have "set ?all = {q. \<exists>rid. memory_row s rid = Some q \<and> in_filter pr flt q}" unfolding memory_row_def mem by force
  then have "set ?page = set ?all" using rows unfolding rows_of_window_def by blast
  moreover have "distinct ?page" using rows unfolding rows_of_window_def distinct_map by blast
  ultimately have "length ?page = length ?all" using d by (metis distinct_card)
  with assms(2) show False by (auto simp: list_inference_requests_def Let_def split: if_splits)
qed

lemma snapshot_finality:
  "cs_finality (cd_source (client_dashboard_of lib pr flt limit page routes)) = ''final'' \<longleftrightarrow>
     \<not> rp_truncated page \<and> uf_to flt \<le> cl_clock lib 1 \<and> all_settled (rp_requests page)"
  by (auto simp: client_dashboard_of_def client_partial_reasons_def all_settled_def list_ex_iff list_all_iff Let_def not_le)

lemma snapshot_export:
  "ce_available (cd_export (client_dashboard_of lib pr flt limit page routes)) \<longleftrightarrow>
     cs_finality (cd_source (client_dashboard_of lib pr flt limit page routes)) = ''final'' \<and> int (length (rp_requests page)) \<le> limit"
  by (simp add: client_dashboard_of_def client_export_of_def Let_def)

lemma client_dashboard_200:
  assumes "run_state (serve_client_dashboard lib ops rid r w) s = (w', t)" and "rw_sent w = None"
    and "response_status w' = Some 200"
  shows "\<exists>pr flt limit u. run_state (api_authenticate_basic (cl_sha lib) (cl_basic lib) ops (hr_header r)) s = (Inr pr, u) \<and>
    has_scope pr scope_usage_read \<and> has_scope pr scope_routes_read \<and>
    parse_usage_query lib (hr_raw_query r) = Inr (flt, limit) \<and>
    run_state (read_client_dashboard lib ops rid pr flt limit w) u = (w', t)"
proof -
  obtain a u where a: "run_state (api_authenticate_basic (cl_sha lib) (cl_basic lib) ops (hr_header r)) s = (a, u)"
    by (meson surj_pair)
  show ?thesis
  proof (cases a)
    case (Inl e)
    with a assms show ?thesis by (auto simp: serve_client_dashboard_def split: if_splits)
  next
    case (Inr pr)
    show ?thesis
    proof (cases "has_scope pr scope_usage_read \<and> has_scope pr scope_routes_read")
      case False
      with a Inr assms show ?thesis by (auto simp: serve_client_dashboard_def)
    next
      case True
      with a Inr assms query_error_status [of lib "hr_raw_query r"] show ?thesis
        by (cases "parse_usage_query lib (hr_raw_query r)") (auto simp: serve_client_dashboard_def split: prod.splits)
    qed
  qed
qed

text \<open>
  C22: over the in-memory store the client dashboard answers a caller whose HTTP Basic password is a key
  with both read scopes, and it is computed from that caller's own rows in the window the query asks for,
  and from that caller's own routes. It calls itself final exactly when nothing is missing: the rows are all the
  ledger has for the caller in the window, the window has ended, no request is in progress and every
  success has final usage. An export is offered exactly for a final snapshot that lists all of its
  requests. Nothing in the ledger changes.
\<close>

theorem final_snapshot_is_complete:
  assumes "store_wf s" and "rw_sent w = None" and "hr_path r = ''/api/dashboard''"
    and run: "run_state (control_serve lib memory_ops r w) s = (w', t)" and ok: "response_status w' = Some 200"
  shows "memory_row t = memory_row s \<and>
    (\<exists>pr flt limit page routes rid. basic_of lib s r pr \<and> has_scope pr scope_usage_read \<and> has_scope pr scope_routes_read \<and>
       parse_usage_query lib (hr_raw_query r) = Inr (flt, limit) \<and>
       list_all (\<lambda>q. memory_row s (ir_id q) = Some q \<and> in_filter pr flt q) (rp_requests page) \<and>
       list_all (\<lambda>rt. route_tenant rt = tenant_of pr) routes \<and>
       (let d = client_dashboard_of lib pr flt limit page routes; rows = rp_requests page
        in w' = write_json 200 (json_client_dashboard_response lib d) (control_identified rid w) \<and>
           cd_usage d = client_usage rows \<and>
           (cs_finality (cd_source d) = ''final'' \<longleftrightarrow>
              rows_of_window (memory_row s) pr flt rows \<and> uf_to flt \<le> cl_clock lib 1 \<and> all_settled rows) \<and>
           (ce_available (cd_export d) \<longleftrightarrow>
              cs_finality (cd_source d) = ''final'' \<and> cd_recent_requests d = map (client_request_of pr) rows)))"
proof -
  from run ok assms(2,3) obtain rid where serve: "run_state (serve_client_dashboard lib memory_ops rid r (control_identified rid w)) s = (w', t)"
    by (auto simp: control_serve_def Let_def split: sum.splits if_splits)
  have unsent: "rw_sent (control_identified rid w) = None" using assms(2) by simp
  from client_dashboard_200 [OF serve unsent ok] obtain pr flt limit u
    where auth: "run_state (api_authenticate_basic (cl_sha lib) (cl_basic lib) memory_ops (hr_header r)) s = (Inr pr, u)"
      and sc: "has_scope pr scope_usage_read" "has_scope pr scope_routes_read"
      and q: "parse_usage_query lib (hr_raw_query r) = Inr (flt, limit)"
      and read: "run_state (read_client_dashboard lib memory_ops rid pr flt limit (control_identified rid w)) u = (w', t)" by blast
  from mem_authenticate_basic [OF auth] have pr: "basic_of lib s r pr" and u: "u = s" by simp_all
  let ?flt = "flt\<lparr>uf_limit := maximum_ledger_rows\<rparr>"
  define page where "page = list_inference_requests s pr ?flt"
  define routes where "routes = list_routes s pr"
  let ?d = "client_dashboard_of lib pr flt limit page routes"
  have lists: "run_state (st_list_inference_requests memory_ops pr ?flt) s = (Inr page, s)"
    "run_state (st_list_routes memory_ops pr) s = (Inr routes, s)"
    by (simp_all add: page_def routes_def)
  have w': "w' = write_json 200 (json_client_dashboard_response lib ?d) (control_identified rid w)" and t: "t = s"
    using read lists unfolding u read_client_dashboard_def page_def routes_def by auto
  note l = mem_reads.list_window [OF assms(1) lists(1)] mem_reads.list_rows [OF assms(1) lists(1)]
  note rt = mem_reads.routes_rows [OF assms(1) lists(2)]
  have window: "rows_of_window (memory_row s) pr flt rs \<longleftrightarrow> rows_of_window (memory_row s) pr ?flt rs" for rs
    by (simp add: rows_of_window_def in_filter_def)
  have whole: "\<not> rp_truncated page \<longleftrightarrow> rows_of_window (memory_row s) pr flt (rp_requests page)"
    using l(3) truncated_page [OF assms(1), of pr ?flt] by (auto simp: window page_def)
  have own: "list_all (\<lambda>q. memory_row s (ir_id q) = Some q \<and> in_filter pr flt q) (rp_requests page)"
    using l(4-) by (auto simp: list_all_iff)
  have routes: "list_all (\<lambda>rt. route_tenant rt = tenant_of pr) routes" using rt by (auto simp: list_all_iff)
  have recent: "int (length (rp_requests page)) \<le> limit \<longleftrightarrow> cd_recent_requests ?d = map (client_request_of pr) (rp_requests page)"
    if "0 \<le> limit"
  proof
    assume "cd_recent_requests ?d = map (client_request_of pr) (rp_requests page)"
    then have "length (take (nat limit) (rp_requests page)) = length (rp_requests page)"
      by (metis (no_types, lifting) client_dashboard_of_def client_recent_requests_def client_dashboard_response.select_convs length_map)
    with that show "int (length (rp_requests page)) \<le> limit" by auto
  qed (simp add: client_dashboard_of_def client_recent_requests_def Let_def)
  have lim: "0 \<le> limit" using query_bounds [OF q] by simp
  show ?thesis
    unfolding t using pr sc q own routes w' snapshot_finality [of lib pr flt limit page routes] snapshot_export [of lib pr flt limit page routes]
      recent [OF lim] whole
    by (intro conjI refl exI [of _ pr] exI [of _ flt] exI [of _ limit] exI [of _ page] exI [of _ routes] exI [of _ rid])
      (simp_all add: Let_def client_dashboard_of_def)
qed

section \<open>A sample run\<close>

definition sample_control :: control_lib where
  "sample_control =
     \<lparr>cl_sha = id, cl_basic = (\<lambda>_. Some ([], sample_token CHR 0x11 CHR 0x12)), cl_parse_query = (\<lambda>_. []),
      cl_parse_time = (\<lambda>_. None), cl_format_time = (\<lambda>_ _. []), cl_to_upper = id, cl_json_time = (\<lambda>_. []),
      cl_json_float = (\<lambda>_. ''0''), cl_clock = (\<lambda>_. 24 * hour), cl_new_id = (\<lambda>pre. Inr pre)\<rparr>"

definition sample_get :: "string \<Rightarrow> http_request" where
  "sample_get path = sample_http\<lparr>hr_method := ''GET'', hr_path := path\<rparr>"

definition fresh_writer :: response_writer where
  "fresh_writer = \<lparr>rw_header = [], rw_sent = None, rw_body = []\<rparr>"

definition sample_reader :: principal where
  "sample_reader = sample_principal\<lparr>p_scopes := [scope_usage_read, scope_routes_read]\<rparr>"

text \<open>The sample ledger, with the key's scopes replaced.\<close>

definition reader_ledger :: mem_store where
  "reader_ledger = sample_ledger\<lparr>ms_keys := map (\<lambda>(k, v). (k, v\<lparr>ak_scopes := [scope_usage_read, scope_routes_read]\<rparr>)) (ms_keys sample_ledger)\<rparr>"

lemma reader_ledger_wf: "store_wf reader_ledger"
proof -
  have "store_wf sample_ledger" using sample_ledger_reachable by (rule reachable_wf)
  then show ?thesis
    by (auto simp: store_wf_def reader_ledger_def keyed_def comp_def case_prod_beta)
qed

lemma reader_authenticate: "authenticate reader_ledger (sample_token CHR 0x11 CHR 0x12) = Inr sample_reader"
  by (simp add: authenticate_def sample_defs sample_principal_def sample_reader_def reader_ledger_def sample_ledger_def)

lemma reader_bearer: "bearer_of sample_control reader_ledger (sample_get path) sample_reader"
  using reader_authenticate sample_bearer sample_token_valid
  by (auto simp: bearer_of_def sample_control_def sample_get_def)

lemma reader_scopes: "has_scope sample_reader scope_usage_read" "has_scope sample_reader scope_routes_read"
  by (simp_all add: sample_reader_def has_scope_def)

definition sample_window :: usage_filter where
  "sample_window = \<lparr>uf_from = 0, uf_to = 24 * hour, uf_model_alias = [], uf_limit = 0\<rparr>"

lemma sample_query: "parse_usage_query sample_control [] = Inr (sample_window, 50)"
  by (simp add: parse_usage_query_def sample_control_def query_time_def query_get_def period_filter_def query_limit_def
      sample_window_def hour_def time_sub_def maximum_usage_window_def max_int64_def min_int64_def)

lemma sample_page: "list_inference_requests reader_ledger sample_reader (sample_window\<lparr>uf_limit := maximum_ledger_rows\<rparr>) =
    \<lparr>rp_requests = [sample_request], rp_truncated = False\<rparr>"
  by (simp add: list_inference_requests_def reader_ledger_def sample_ledger_def in_filter_def sample_request_def
      new_request_def sample_start_def request_tenant_def tenant_of_def sample_window_def sample_reader_def zero_time_def
      hour_def maximum_ledger_rows_def)

lemma sample_control_fields [simp]:
  "cl_new_id sample_control pre = Inr pre" "cl_sha sample_control = id"
  "cl_basic sample_control v = Some ([], sample_token CHR 0x11 CHR 0x12)"
  by (simp_all add: sample_control_def)

lemma sample_get_fields [simp]:
  "hr_method (sample_get path) = ''GET''" "hr_path (sample_get path) = path" "hr_raw_query (sample_get path) = []"
  by (simp_all add: sample_get_def sample_http_def)

lemma fresh_unsent [simp]: "rw_sent fresh_writer = None"
  by (simp add: fresh_writer_def)

theorem usage_reports_own_window_witness:
  "\<exists>w' t pr flt limit rs.
     run_state (control_serve sample_control memory_ops (sample_get ''/api/v1/usage'') fresh_writer) reader_ledger = (w', t) \<and>
     response_status w' = Some 200 \<and> parse_usage_query sample_control [] = Inr (flt, limit) \<and>
     rows_of_window (memory_row reader_ledger) pr flt rs \<and> length rs \<le> 10000"
proof -
  obtain w' t where run:
    "run_state (control_serve sample_control memory_ops (sample_get ''/api/v1/usage'') fresh_writer) reader_ledger = (w', t)"
    by (meson surj_pair)
  have "response_status w' = Some 200"
    using run bearer_authenticates [OF reader_bearer, of "''/api/v1/usage''"] reader_scopes
    by (auto simp: control_serve_def Let_def serve_bearer_def serve_authenticated_def serve_usage_def build_usage_def
        sample_query sample_page)
  from usage_reports_own_window [OF reader_ledger_wf fresh_unsent _ run this] run this show ?thesis
    by (auto simp: sample_query)
qed

theorem request_detail_hides_other_tenants_witness:
  "run_state (control_serve sample_control memory_ops (sample_get ''/api/v1/requests/req_1'') fresh_writer) reader_ledger =
     (write_json 200 (json_request_view sample_control (request_view_of sample_reader sample_request))
        (control_identified ''ctl'' fresh_writer), reader_ledger) \<and>
   run_state (control_serve sample_control memory_ops (sample_get ''/api/v1/requests/req_2'') fresh_writer) reader_ledger =
     (write_error 404 ''not_found'' ''invalid_request_error'' ''request not found'' ''ctl''
        (control_identified ''ctl'' fresh_writer), reader_ledger)"
proof -
  have r: "memory_row reader_ledger ''req_1'' = Some sample_request" "memory_row reader_ledger ''req_2'' = None"
    "request_tenant sample_request = tenant_of sample_reader"
    by (simp_all add: memory_row_def reader_ledger_def sample_ledger_def sample_request_def sample_reader_def new_request_def
        sample_start_def request_tenant_def tenant_of_def)
  have i: "\<not> contains_str ''/'' ''req_1''" "\<not> contains_str ''/'' ''req_2''" by code_simp+
  show ?thesis
    using request_detail_hides_other_tenants [OF _ _ _ reader_bearer reader_scopes(1), of "''ctl''" "''/api/v1/requests/req_1''" "''req_1''" fresh_writer]
      request_detail_hides_other_tenants [OF _ _ _ reader_bearer reader_scopes(1), of "''ctl''" "''/api/v1/requests/req_2''" "''req_2''" fresh_writer]
      r i by (simp add: requests_path_def)
qed

lemma sample_basic_run:
  "\<exists>w' t. run_state (control_serve sample_control memory_ops (sample_get ''/api/dashboard'') fresh_writer) reader_ledger = (w', t) \<and>
     response_status w' = Some 200"
proof -
  have h: "header_values (hr_header (sample_get ''/api/dashboard'')) ''Authorization'' = [''Bearer '' @ sample_token CHR 0x11 CHR 0x12]"
    by (simp add: sample_get_def sample_http_def header_values_def)
  have "trim_space (sample_token CHR 0x11 CHR 0x12) = sample_token CHR 0x11 CHR 0x12"
    unfolding sample_token_text by code_simp
  with h have "run_state (api_authenticate_basic id (cl_basic sample_control) memory_ops (hr_header (sample_get ''/api/dashboard''))) reader_ledger =
      (Inr sample_reader, reader_ledger)"
    by (simp add: api_authenticate_basic_def sample_token_valid reader_authenticate map_auth_error_def)
  then show ?thesis
    by (simp add: control_serve_def Let_def serve_client_dashboard_def reader_scopes sample_query read_client_dashboard_def)
qed

theorem final_snapshot_is_complete_witness:
  "\<exists>w' t pr flt limit (page :: request_page).
     run_state (control_serve sample_control memory_ops (sample_get ''/api/dashboard'') fresh_writer) reader_ledger = (w', t) \<and>
     response_status w' = Some 200 \<and> basic_of sample_control reader_ledger (sample_get ''/api/dashboard'') pr \<and>
     parse_usage_query sample_control [] = Inr (flt, limit) \<and>
     list_all (\<lambda>q. memory_row reader_ledger (ir_id q) = Some q \<and> in_filter pr flt q) (rp_requests page)"
proof -
  obtain w' t where run: "run_state (control_serve sample_control memory_ops (sample_get ''/api/dashboard'') fresh_writer) reader_ledger = (w', t)"
    and ok: "response_status w' = Some 200" using sample_basic_run by blast
  note snapshot = final_snapshot_is_complete [OF reader_ledger_wf fresh_unsent sample_get_fields(2) run ok]
  then obtain pr flt limit and page :: request_page where "basic_of sample_control reader_ledger (sample_get ''/api/dashboard'') pr"
    "parse_usage_query sample_control [] = Inr (flt, limit)"
    "list_all (\<lambda>q. memory_row reader_ledger (ir_id q) = Some q \<and> in_filter pr flt q) (rp_requests page)"
    unfolding sample_get_fields(3) by blast
  with run ok show ?thesis by blast
qed

end
