(* ===== verification/Worker.thy ===== *)
theory Worker
  imports Gateway_Attempt Control_Usage Go_Marshal
begin

text \<open>
  The background worker (\<open>internal/worker/worker.go\<close>) and the secret lookup it uses
  (\<open>internal/secrets/secrets.go\<close>): rollups of the usage ledger, and one readiness probe of every target
  that is due. The world holds the store and the sequence of effects; clock, identifiers and the HTTP
  client's answers are functions of the round and of the position of the target in the round.
\<close>

section \<open>Secrets\<close>

text \<open>
  \<open>os.LookupEnv\<close> and reading a file are parameters; a file is the bytes it holds, or nothing when it
  cannot be opened or read.
\<close>

definition maximum_secret_bytes :: nat where
  "maximum_secret_bytes = 65536"

definition valid_secret :: "string \<Rightarrow> string option" where
  "valid_secret v = (if v = [] \<or> contains_any v [CHR 0x0D, CHR 0x0A] then None else Some v)"

definition secret_lookup :: "(string \<Rightarrow> string option) \<Rightarrow> (string \<Rightarrow> string option) \<Rightarrow> string \<Rightarrow> string option" where
  "secret_lookup env_var read_file reference =
     (case env_var (reference @ ''_FILE'') of
        Some path \<Rightarrow>
          if path = [] then None
          else (case read_file path of
                  None \<Rightarrow> None
                | Some contents \<Rightarrow>
                    if length contents > maximum_secret_bytes then None
                    else valid_secret (trim_right [CHR 0x0D, CHR 0x0A] contents))
      | None \<Rightarrow> Option.bind (env_var reference) valid_secret)"

section \<open>Data\<close>

record probe_target =
  pt_id :: string
  pt_base_url :: string
  pt_secret_ref :: string
  pt_provider_model :: string
  pt_timeout :: duration
  pt_probe_interval :: duration

record probe_observation =
  po_id :: string
  po_target_id :: string
  po_observed_at :: time
  po_fresh_until :: time
  po_status :: string
  po_credential_available :: bool
  po_http_status :: int
  po_error_class :: string
  po_latency :: duration

record 's rollup_ops =
  ro_refresh :: "time \<Rightarrow> time \<Rightarrow> time \<Rightarrow> ('s, err option) state"
  ro_list_targets :: "time \<Rightarrow> ('s, err + probe_target list) state"
  ro_record :: "probe_observation \<Rightarrow> ('s, err option) state"

record worker_config =
  wc_rollup_interval :: duration
  wc_rollup_lookback :: duration
  wc_probes_enabled :: bool
  wc_allow_insecure_targets :: bool
  wc_allowed_secret_refs :: "string \<Rightarrow> bool"

text \<open>\<open>New\<close>: defaults for zero values, then the bounds.\<close>

definition second :: duration where
  "second = 1000000000"

definition new_worker :: "worker_config \<Rightarrow> err + worker_config" where
  "new_worker c =
     (let interval = (if wc_rollup_interval c = 0 then minute else wc_rollup_interval c);
          lookback = (if wc_rollup_lookback c = 0 then 48 * hour else wc_rollup_lookback c)
      in if interval < 10 * second \<or> lookback < hour \<or> lookback > 31 * 24 * hour
         then Inl (ErrText ''worker intervals are outside supported bounds'')
         else Inr (c\<lparr>wc_rollup_interval := interval, wc_rollup_lookback := lookback\<rparr>))"

record probe_call =
  pc_url :: string
  pc_secret :: string
  pc_timeout :: duration
  pc_body :: json

datatype probe_outcome = Probe_Timeout | Probe_Transport | Probe_Reply http_reply

record worker_env =
  we_clock :: "nat \<Rightarrow> time"
  we_new_id :: "nat \<Rightarrow> nat \<Rightarrow> string \<Rightarrow> err + string"
  we_do :: "nat \<Rightarrow> nat \<Rightarrow> probe_call \<Rightarrow> probe_outcome \<times> duration"
  we_secret :: "string \<Rightarrow> string option"
  we_url :: url_lib

datatype effect =
    Refreshed time time
  | Listed
  | Called probe_call
  | Recorded probe_observation

record 's worker_world =
  ww_store :: 's
  ww_effects :: "effect list"

definition emit :: "effect \<Rightarrow> ('s worker_world, unit) state" where
  "emit e = State (\<lambda>w. ((), w\<lparr>ww_effects := ww_effects w @ [e]\<rparr>))"

definition in_store :: "('s, 'a) state \<Rightarrow> ('s worker_world, 'a) state" where
  "in_store m = State (\<lambda>w. case run_state m (ww_store w) of (a, s) \<Rightarrow> (a, w\<lparr>ww_store := s\<rparr>))"

definition record_observation :: "'s rollup_ops \<Rightarrow> probe_observation \<Rightarrow> ('s worker_world, err option) state" where
  "record_observation ops ob = do { emit (Recorded ob); in_store (ro_record ops ob) }"

section \<open>One probe\<close>

definition compatible_endpoint :: "url_lib \<Rightarrow> string \<Rightarrow> bool \<Rightarrow> string option" where
  "compatible_endpoint lib base allow_insecure =
     (case url_parse lib base of
        None \<Rightarrow> None
      | Some u \<Rightarrow>
          if url_host u = [] \<or> url_user u \<or> url_raw_query u \<noteq> [] \<or> url_fragment u \<noteq> [] then None
          else if url_scheme u \<noteq> ''https'' \<and> \<not> (allow_insecure \<and> url_scheme u = ''http'') then None
          else Some (url_string lib (u\<lparr>url_path := trim_right ''/'' (url_path u) @ ''/chat/completions''\<rparr>)))"

definition probe_prompt :: string where
  "probe_prompt = ''Reply with the single word OK.''"

definition maximum_probe_body :: int where
  "maximum_probe_body = 65536"

definition probe_payload :: "string \<Rightarrow> json" where
  "probe_payload model =
     json_map [(''model'', JString model), (''stream'', JBool False), (''max_tokens'', json_int 1),
       (''messages'', JArray [json_map [(''role'', JString ''user''), (''content'', JString probe_prompt)]])]"

definition probe_timeout :: "probe_target \<Rightarrow> duration" where
  "probe_timeout t = (if pt_timeout t \<le> 0 \<or> pt_timeout t > 15 * second then 15 * second else pt_timeout t)"

definition probe_call_of :: "string \<Rightarrow> string \<Rightarrow> probe_target \<Rightarrow> probe_call" where
  "probe_call_of endpoint secret t =
     \<lparr>pc_url = endpoint, pc_secret = secret, pc_timeout = probe_timeout t, pc_body = probe_payload (pt_provider_model t)\<rparr>"

text \<open>The part of a chat completion the probe looks at.\<close>

record probe_message =
  pm_role :: string
  pm_content :: string

record probe_completion =
  pb_id :: string
  pb_model :: string
  pb_choices :: "probe_message list"

definition zero_probe_message :: probe_message where
  "zero_probe_message = \<lparr>pm_role = [], pm_content = []\<rparr>"

definition zero_completion :: probe_completion where
  "zero_completion = \<lparr>pb_id = [], pb_model = [], pb_choices = []\<rparr>"

definition probe_message_fields :: "probe_message field list" where
  "probe_message_fields =
     [field_of ''role'' decode_string pm_role pm_role_update,
      field_of ''content'' decode_string pm_content pm_content_update]"

text \<open>A choice has the one field \<open>message\<close>.\<close>

definition probe_choice_fields :: "probe_message field list" where
  "probe_choice_fields =
     [(''message'', \<lambda>v m. decode_struct False probe_message_fields v m)]"

definition probe_completion_fields :: "probe_completion field list" where
  "probe_completion_fields =
     [field_of ''id'' decode_string pb_id pb_id_update,
      field_of ''model'' decode_string pb_model pb_model_update,
      field_of ''choices'' (decode_slice (decode_struct False probe_choice_fields) zero_probe_message)
        pb_choices pb_choices_update]"

definition compatible_body :: "string \<Rightarrow> string \<Rightarrow> bool" where
  "compatible_body provider_model body =
     (case json_decode body of
        None \<Rightarrow> False
      | Some v \<Rightarrow>
          (case decode_struct False probe_completion_fields v zero_completion of
             Inl _ \<Rightarrow> False
           | Inr c \<Rightarrow>
               pb_id c \<noteq> [] \<and> trim_space (pb_model c) = trim_space provider_model \<and>
               (case pb_choices c of [] \<Rightarrow> False | m # _ \<Rightarrow> pm_role m = ''assistant'')))"

text \<open>Status and error class of a finished call, and the HTTP status that is recorded.\<close>

definition classify_probe :: "string \<Rightarrow> probe_outcome \<Rightarrow> string \<times> string \<times> int" where
  "classify_probe provider_model out =
     (case out of
        Probe_Timeout \<Rightarrow> (''unavailable'', ''probe_timeout'', 0)
      | Probe_Transport \<Rightarrow> (''unavailable'', ''probe_transport'', 0)
      | Probe_Reply reply \<Rightarrow>
          (let status = hp_status reply; (body, failed) = read_limited maximum_probe_body reply
           in if failed \<or> int (length body) > maximum_probe_body then (''degraded'', ''invalid_probe_response'', status)
              else if status < 200 \<or> status \<ge> 300
              then (if status \<ge> 500 then (''unavailable'', ''probe_unavailable'', status)
                    else (''degraded'', ''probe_rejected'', status))
              else if \<not> compatible_body provider_model body then (''degraded'', ''invalid_probe_response'', status)
              else (''operational'', [], status)))"

definition started_observation :: "string \<Rightarrow> probe_target \<Rightarrow> time \<Rightarrow> probe_observation" where
  "started_observation oid t observed_at =
     \<lparr>po_id = oid, po_target_id = pt_id t, po_observed_at = observed_at, po_fresh_until = observed_at + pt_probe_interval t,
      po_status = ''unknown'', po_credential_available = False, po_http_status = 0, po_error_class = [], po_latency = 0\<rparr>"

definition finished_observation :: "probe_target \<Rightarrow> probe_outcome \<times> duration \<Rightarrow> probe_observation \<Rightarrow> probe_observation" where
  "finished_observation t out ob =
     (case classify_probe (pt_provider_model t) (fst out) of
        (status, error_class, http_status) \<Rightarrow>
          ob\<lparr>po_status := status, po_credential_available := True, po_http_status := http_status,
             po_error_class := error_class, po_latency := snd out\<rparr>)"

definition probe ::
  "worker_env \<Rightarrow> worker_config \<Rightarrow> 's rollup_ops \<Rightarrow> nat \<Rightarrow> nat \<Rightarrow> probe_target \<Rightarrow> time \<Rightarrow> ('s worker_world, err option) state" where
  "probe env cfg ops rnd k t observed_at =
     (case we_new_id env rnd k ''obs'' of
        Inl e \<Rightarrow> State_Monad.return (Some e)
      | Inr oid \<Rightarrow>
          let ob = started_observation oid t observed_at
          in case (if wc_allowed_secret_refs cfg (pt_secret_ref t) then we_secret env (pt_secret_ref t) else None) of
               None \<Rightarrow> record_observation ops (ob\<lparr>po_error_class := ''credential_unavailable''\<rparr>)
             | Some secret \<Rightarrow>
                 if secret = [] then record_observation ops (ob\<lparr>po_error_class := ''credential_unavailable''\<rparr>)
                 else
                   (case compatible_endpoint (we_url env) (pt_base_url t) (wc_allow_insecure_targets cfg) of
                      None \<Rightarrow> record_observation ops
                        (ob\<lparr>po_status := ''degraded'', po_credential_available := True,
                            po_error_class := ''invalid_probe_response''\<rparr>)
                    | Some endpoint \<Rightarrow>
                        if url_parse (we_url env) endpoint = None
                        then State_Monad.return (Some (ErrText ''parse error''))
                        else do {
                          emit (Called (probe_call_of endpoint secret t));
                          record_observation ops
                            (finished_observation t (we_do env rnd k (probe_call_of endpoint secret t)) ob)
                        }))"

section \<open>One round, and the loop\<close>

fun probe_all ::
  "worker_env \<Rightarrow> worker_config \<Rightarrow> 's rollup_ops \<Rightarrow> nat \<Rightarrow> nat \<Rightarrow> probe_target list \<Rightarrow> time \<Rightarrow> ('s worker_world, err option) state" where
  "probe_all env cfg ops rnd k [] now = State_Monad.return None"
| "probe_all env cfg ops rnd k (t # ts) now = do {
     e \<leftarrow> probe env cfg ops rnd k t now;
     case e of
       Some e \<Rightarrow> State_Monad.return (Some e)
     | None \<Rightarrow> probe_all env cfg ops rnd (Suc k) ts now
   }"

definition rollup_from :: "worker_config \<Rightarrow> time \<Rightarrow> time" where
  "rollup_from cfg now = truncate_time hour (now - wc_rollup_lookback cfg)"

definition run_once :: "worker_env \<Rightarrow> worker_config \<Rightarrow> 's rollup_ops \<Rightarrow> nat \<Rightarrow> ('s worker_world, err option) state" where
  "run_once env cfg ops rnd =
     (let now = we_clock env rnd
      in do {
        emit (Refreshed (rollup_from cfg now) now);
        e \<leftarrow> in_store (ro_refresh ops (rollup_from cfg now) now now);
        case e of
          Some e \<Rightarrow> State_Monad.return (Some e)
        | None \<Rightarrow>
            if \<not> wc_probes_enabled cfg then State_Monad.return None
            else do {
              emit Listed;
              targets \<leftarrow> in_store (ro_list_targets ops now);
              case targets of
                Inl e \<Rightarrow> State_Monad.return (Some e)
              | Inr targets \<Rightarrow> probe_all env cfg ops rnd 0 targets now
            }
      })"

text \<open>
  What the loop's \<open>select\<close> sees next: the ticker, or the end of the context. \<open>None\<close> is a loop that is
  still waiting after all the events, \<open>Some r\<close> one that has returned \<open>r\<close>.
\<close>

datatype worker_event = Tick | Stop

fun run_loop ::
  "worker_env \<Rightarrow> worker_config \<Rightarrow> 's rollup_ops \<Rightarrow> nat \<Rightarrow> worker_event list \<Rightarrow> ('s worker_world, err option option) state" where
  "run_loop env cfg ops rnd [] = State_Monad.return None"
| "run_loop env cfg ops rnd (Stop # events) = State_Monad.return (Some None)"
| "run_loop env cfg ops rnd (Tick # events) = do {
     e \<leftarrow> run_once env cfg ops rnd;
     if e \<noteq> None \<and> e \<noteq> Some ErrConflict then State_Monad.return (Some e)
     else run_loop env cfg ops (Suc rnd) events
   }"

definition run_worker ::
  "worker_env \<Rightarrow> worker_config \<Rightarrow> 's rollup_ops \<Rightarrow> worker_event list \<Rightarrow> ('s worker_world, err option option) state" where
  "run_worker env cfg ops events = do {
     e \<leftarrow> run_once env cfg ops 0;
     case e of
       Some e \<Rightarrow> State_Monad.return (Some (Some e))
     | None \<Rightarrow> run_loop env cfg ops 1 events
   }"

section \<open>What a round does\<close>

lemma run_emit [simp]: "run_state (emit e) w = ((), w\<lparr>ww_effects := ww_effects w @ [e]\<rparr>)"
  by (simp add: emit_def)

lemma in_store_effects: "run_state (in_store m) w = (a, w') \<Longrightarrow> ww_effects w' = ww_effects w"
  by (auto simp: in_store_def split: prod.splits)

lemma record_effects:
  "run_state (record_observation ops ob) w = (e, w') \<Longrightarrow> ww_effects w' = ww_effects w @ [Recorded ob]"
  by (auto simp: record_observation_def dest: in_store_effects)

text \<open>The credential a target may be probed with.\<close>

definition probe_secret :: "worker_env \<Rightarrow> worker_config \<Rightarrow> probe_target \<Rightarrow> string option" where
  "probe_secret env cfg t =
     (if wc_allowed_secret_refs cfg (pt_secret_ref t) \<and> we_secret env (pt_secret_ref t) \<noteq> Some []
      then we_secret env (pt_secret_ref t) else None)"

text \<open>
  The effects of one finished probe. Without a permitted credential, or with a base URL that is not a
  plain (secure) one, there is no call and the record says why; otherwise there is exactly one call, to that
  target with that credential, and the record is the classification of its answer.
\<close>

definition probe_effects :: "worker_env \<Rightarrow> worker_config \<Rightarrow> nat \<Rightarrow> time \<Rightarrow> nat \<Rightarrow> probe_target \<Rightarrow> effect list \<Rightarrow> bool" where
  "probe_effects env cfg rnd now k t es \<longleftrightarrow>
     (\<exists>oid. let ob = started_observation oid t now in we_new_id env rnd k ''obs'' = Inr oid \<and>
        (case (probe_secret env cfg t, compatible_endpoint (we_url env) (pt_base_url t) (wc_allow_insecure_targets cfg)) of
           (None, _) \<Rightarrow> es = [Recorded (ob\<lparr>po_error_class := ''credential_unavailable''\<rparr>)]
         | (Some _, None) \<Rightarrow> es = [Recorded (ob\<lparr>po_status := ''degraded'', po_credential_available := True,
             po_error_class := ''invalid_probe_response''\<rparr>)]
         | (Some secret, Some endpoint) \<Rightarrow>
             (let c = probe_call_of endpoint secret t
              in es = [Called c, Recorded (finished_observation t (we_do env rnd k c) ob)])))"

lemma probe_effects_of_run:
  assumes "run_state (probe env cfg ops rnd k t now) w = (None, w')"
  shows "\<exists>es. ww_effects w' = ww_effects w @ es \<and> probe_effects env cfg rnd now k t es"
proof -
  from assms obtain oid where oid: "we_new_id env rnd k ''obs'' = Inr oid"
    by (auto simp: probe_def split: sum.splits)
  show ?thesis
  proof (cases "probe_secret env cfg t")
    case None
    with assms oid show ?thesis
      by (auto simp: probe_def probe_effects_def probe_secret_def Let_def dest: record_effects split: option.splits if_splits)
  next
    case (Some secret)
    then have s: "wc_allowed_secret_refs cfg (pt_secret_ref t)" "we_secret env (pt_secret_ref t) = Some secret" "secret \<noteq> []"
      by (auto simp: probe_secret_def split: if_splits)
    show ?thesis
    proof (cases "compatible_endpoint (we_url env) (pt_base_url t) (wc_allow_insecure_targets cfg)")
      case None
      with assms oid s Some show ?thesis
        by (auto simp: probe_def probe_effects_def Let_def dest: record_effects)
    next
      case (Some endpoint)
      with assms oid s have "run_state (record_observation ops (finished_observation t
          (we_do env rnd k (probe_call_of endpoint secret t)) (started_observation oid t now)))
          (w\<lparr>ww_effects := ww_effects w @ [Called (probe_call_of endpoint secret t)]\<rparr>) = (None, w')"
        by (auto simp: probe_def Let_def split: if_splits)
      from record_effects [OF this] oid Some \<open>probe_secret env cfg t = Some secret\<close> show ?thesis
        by (auto simp: probe_effects_def Let_def)
    qed
  qed
qed

lemma probe_all_effects:
  assumes "run_state (probe_all env cfg ops rnd k ts now) w = (None, w')"
  shows "\<exists>ess. length ess = length ts \<and> ww_effects w' = ww_effects w @ concat ess \<and>
    list_all (\<lambda>(j, t, es). probe_effects env cfg rnd now j t es) (zip [k..<k + length ts] (zip ts ess))"
  using assms
proof (induction ts arbitrary: k w)
  case Nil
  then show ?case by simp
next
  case (Cons t ts)
  then obtain w1 where 1: "run_state (probe env cfg ops rnd k t now) w = (None, w1)"
    and 2: "run_state (probe_all env cfg ops rnd (Suc k) ts now) w1 = (None, w')"
    by (auto split: prod.splits option.splits)
  from probe_effects_of_run [OF 1] obtain es where es: "ww_effects w1 = ww_effects w @ es" "probe_effects env cfg rnd now k t es"
    by blast
  from Cons.IH [OF 2] obtain ess where ess: "length ess = length ts" "ww_effects w' = ww_effects w1 @ concat ess"
    "list_all (\<lambda>(j, t, es). probe_effects env cfg rnd now j t es) (zip [Suc k..<Suc k + length ts] (zip ts ess))" by blast
  have "[k..<k + length (t # ts)] = k # [Suc k..<Suc k + length ts]" by (subst upt_conv_Cons) simp_all
  with es ess show ?case by (intro exI [of _ "es # ess"]) simp
qed

lemma rollup_from_bounds:
  "rollup_from cfg now \<le> now - wc_rollup_lookback cfg" "now - wc_rollup_lookback cfg < rollup_from cfg now + hour"
  using pos_mod_bound [of hour "now - wc_rollup_lookback cfg - zero_time"]
    pos_mod_sign [of hour "now - wc_rollup_lookback cfg - zero_time"]
  by (simp_all add: rollup_from_def truncate_time_def hour_def)

text \<open>
  C32: a round that returns no error has refreshed the rollups once, for the configured look-back rounded down to the
  hour, and, with probes on, has taken every target the store listed, in order: each got exactly one
  observation, at most one provider call, and that call only with the permitted credential of the target
  itself.
\<close>

theorem round_probes_every_target:
  assumes "run_state (run_once env cfg ops rnd) w = (None, w')" and "wc_probes_enabled cfg"
  shows "\<exists>from targets ess s s'. ww_effects w' = ww_effects w @ Refreshed from (we_clock env rnd) # Listed # concat ess \<and>
    from \<le> we_clock env rnd - wc_rollup_lookback cfg \<and> we_clock env rnd - wc_rollup_lookback cfg < from + hour \<and>
    run_state (ro_list_targets ops (we_clock env rnd)) s = (Inr targets, s') \<and> length ess = length targets \<and>
    list_all (\<lambda>(k, t, es). probe_effects env cfg rnd (we_clock env rnd) k t es) (zip [0..<length targets] (zip targets ess))"
proof -
  let ?now = "we_clock env rnd"
  let ?from = "rollup_from cfg ?now"
  let ?w0 = "w\<lparr>ww_effects := ww_effects w @ [Refreshed ?from ?now]\<rparr>"
  obtain e w1 where r: "run_state (in_store (ro_refresh ops ?from ?now ?now)) ?w0 = (e, w1)" by (meson surj_pair)
  with assms have e: "e = None" by (auto simp: run_once_def Let_def split: option.splits)
  let ?w1 = "w1\<lparr>ww_effects := ww_effects w1 @ [Listed]\<rparr>"
  obtain ts w2 where l: "run_state (in_store (ro_list_targets ops ?now)) ?w1 = (ts, w2)" by (meson surj_pair)
  with assms r e obtain targets where t: "ts = Inr targets"
    and p: "run_state (probe_all env cfg ops rnd 0 targets ?now) w2 = (None, w')"
    by (auto simp: run_once_def Let_def split: sum.splits)
  from l t obtain s s' where s: "run_state (ro_list_targets ops ?now) s = (Inr targets, s')"
    by (auto simp: in_store_def split: prod.splits)
  have "ww_effects w2 = ww_effects w @ [Refreshed ?from ?now, Listed]"
    using in_store_effects [OF r] in_store_effects [OF l] by simp
  with probe_all_effects [OF p] s rollup_from_bounds [where cfg = cfg and now = ?now] show ?thesis
    by (intro exI [of _ ?from] exI [of _ targets]) (auto simp: exI)
qed

definition sample_probe_target :: probe_target where
  "sample_probe_target =
     \<lparr>pt_id = ''tgt'', pt_base_url = ''https://host/v1'', pt_secret_ref = ''KEY'', pt_provider_model = ''m'',
      pt_timeout = second, pt_probe_interval = minute\<rparr>"

definition sample_rollups :: "unit rollup_ops" where
  "sample_rollups =
     \<lparr>ro_refresh = (\<lambda>_ _ _. State_Monad.return None),
      ro_list_targets = (\<lambda>_. State_Monad.return (Inr [sample_probe_target])),
      ro_record = (\<lambda>_. State_Monad.return None)\<rparr>"

definition sample_worker_config :: worker_config where
  "sample_worker_config =
     \<lparr>wc_rollup_interval = minute, wc_rollup_lookback = hour, wc_probes_enabled = True,
      wc_allow_insecure_targets = False, wc_allowed_secret_refs = (\<lambda>r. r = ''KEY'')\<rparr>"

definition sample_worker_env :: worker_env where
  "sample_worker_env =
     \<lparr>we_clock = (\<lambda>_. 0), we_new_id = (\<lambda>_ _ pre. Inr pre), we_do = (\<lambda>_ _ _. (Probe_Transport, 5)),
      we_secret = (\<lambda>_. Some ''secret''), we_url = plain_url_lib\<rparr>"

definition sample_worker_world :: "unit worker_world" where
  "sample_worker_world = \<lparr>ww_store = (), ww_effects = []\<rparr>"

lemma sample_endpoint: "\<exists>e. compatible_endpoint plain_url_lib ''https://host/v1'' False = Some e \<and> url_parse plain_url_lib e \<noteq> None"
  by (simp add: compatible_endpoint_def plain_url_lib_def has_prefix_def)

theorem round_probes_every_target_witness:
  "\<exists>w'. run_state (run_once sample_worker_env sample_worker_config sample_rollups 0) sample_worker_world = (None, w') \<and>
     (\<exists>from (targets :: probe_target list) ess. ww_effects w' = Refreshed from 0 # Listed # concat ess \<and> length ess = length targets)"
proof -
  obtain e where e: "compatible_endpoint plain_url_lib ''https://host/v1'' False = Some e" "url_parse plain_url_lib e \<noteq> None"
    using sample_endpoint by blast
  obtain r w' where run: "run_state (run_once sample_worker_env sample_worker_config sample_rollups 0) sample_worker_world = (r, w')"
    by (meson surj_pair)
  with e have "r = None"
    by (auto simp: run_once_def Let_def in_store_def sample_rollups_def probe_def sample_worker_env_def sample_worker_config_def
        sample_probe_target_def record_observation_def)
  with run have run': "run_state (run_once sample_worker_env sample_worker_config sample_rollups 0) sample_worker_world = (None, w')"
    by simp
  have f: "wc_probes_enabled sample_worker_config" "we_clock sample_worker_env 0 = 0" "ww_effects sample_worker_world = []"
    by (simp_all add: sample_worker_config_def sample_worker_env_def sample_worker_world_def)
  from round_probes_every_target [OF run' f(1)] obtain since ess and targets :: "probe_target list"
    where "ww_effects w' = Refreshed since 0 # Listed # concat ess" and "length ess = length targets"
    unfolding f append_Nil by blast
  with run' show ?thesis by (intro exI [of _ w'] conjI exI [of _ since] exI [of _ targets] exI [of _ ess])
qed

section \<open>The loop ends when it is told to\<close>

fun is_refresh :: "effect \<Rightarrow> bool" where
  "is_refresh (Refreshed a b) = True"
| "is_refresh _ = False"

definition rounds :: "'s worker_world \<Rightarrow> nat" where
  "rounds w = length (filter is_refresh (ww_effects w))"

lemma rounds_in_store: "run_state (in_store m) w = (a, w') \<Longrightarrow> rounds w' = rounds w"
  by (simp add: rounds_def in_store_effects)

lemma rounds_probe: "run_state (probe env cfg ops rnd k t now) w = (e, w') \<Longrightarrow> rounds w' = rounds w"
  by (auto simp: probe_def Let_def rounds_def dest!: record_effects split: sum.splits option.splits if_splits)

lemma rounds_probe_all: "run_state (probe_all env cfg ops rnd k ts now) w = (e, w') \<Longrightarrow> rounds w' = rounds w"
proof (induction ts arbitrary: k w)
  case (Cons t ts)
  then show ?case by (auto split: prod.splits option.splits dest: rounds_probe)
qed simp

lemma rounds_run_once:
  assumes "run_state (run_once env cfg ops rnd) w = (e, w')"
  shows "rounds w' = Suc (rounds w)"
proof -
  have emits: "rounds (w\<lparr>ww_effects := ww_effects w @ [Refreshed a b]\<rparr>) = Suc (rounds w)"
    "rounds (w\<lparr>ww_effects := ww_effects w @ [Listed]\<rparr>) = rounds w" for w :: "'a worker_world" and a b
    by (simp_all add: rounds_def)
  let ?now = "we_clock env rnd"
  let ?w0 = "w\<lparr>ww_effects := ww_effects w @ [Refreshed (rollup_from cfg ?now) ?now]\<rparr>"
  obtain e1 w1 where r: "run_state (in_store (ro_refresh ops (rollup_from cfg ?now) ?now ?now)) ?w0 = (e1, w1)" by (meson surj_pair)
  then have 1: "rounds w1 = Suc (rounds w)" by (auto simp: emits dest: rounds_in_store)
  show ?thesis
  proof (cases "e1 = None \<and> wc_probes_enabled cfg")
    case False
    with assms r 1 show ?thesis by (auto simp: run_once_def Let_def split: option.splits)
  next
    case True
    obtain ts w2 where l: "run_state (in_store (ro_list_targets ops ?now)) (w1\<lparr>ww_effects := ww_effects w1 @ [Listed]\<rparr>) = (ts, w2)"
      by (meson surj_pair)
    then have 2: "rounds w2 = Suc (rounds w)" using 1 by (auto simp: emits dest: rounds_in_store)
    show ?thesis
    proof (cases ts)
      case (Inl x)
      with assms r l True 2 show ?thesis by (simp add: run_once_def Let_def)
    next
      case (Inr targets)
      with assms r l True have "run_state (probe_all env cfg ops rnd 0 targets ?now) w2 = (e, w')"
        by (simp add: run_once_def Let_def)
      from rounds_probe_all [OF this] 2 show ?thesis by simp
    qed
  qed
qed

text \<open>The state after the first \<open>n\<close> rounds, each run from where the one before ended, and the result of a round.\<close>

primrec after_rounds :: "worker_env \<Rightarrow> worker_config \<Rightarrow> 's rollup_ops \<Rightarrow> nat \<Rightarrow> 's worker_world \<Rightarrow> 's worker_world" where
  "after_rounds env cfg ops 0 w = w"
| "after_rounds env cfg ops (Suc n) w = snd (run_state (run_once env cfg ops n) (after_rounds env cfg ops n w))"

definition round_error :: "worker_env \<Rightarrow> worker_config \<Rightarrow> 's rollup_ops \<Rightarrow> 's worker_world \<Rightarrow> nat \<Rightarrow> err option" where
  "round_error env cfg ops w n = fst (run_state (run_once env cfg ops n) (after_rounds env cfg ops n w))"

text \<open>An error that ends the worker: any in the first round, and any but a lost race for the rollup in a later one.\<close>

definition fatal_round :: "worker_env \<Rightarrow> worker_config \<Rightarrow> 's rollup_ops \<Rightarrow> 's worker_world \<Rightarrow> nat \<Rightarrow> bool" where
  "fatal_round env cfg ops w n \<longleftrightarrow>
     (case round_error env cfg ops w n of None \<Rightarrow> False | Some e \<Rightarrow> n = 0 \<or> e \<noteq> ErrConflict)"

lemma rounds_after: "rounds (after_rounds env cfg ops n w) = rounds w + n"
  by (induction n) (simp_all add: rounds_run_once [OF surjective_pairing])

lemma run_loop_tick:
  assumes "0 < n"
  shows "run_state (run_loop env cfg ops n (Tick # events)) (after_rounds env cfg ops n w) =
    (if fatal_round env cfg ops w n then (Some (round_error env cfg ops w n), after_rounds env cfg ops (Suc n) w)
     else run_state (run_loop env cfg ops (Suc n) events) (after_rounds env cfg ops (Suc n) w))"
  using assms by (auto simp: fatal_round_def round_error_def split: prod.splits option.splits)

lemma run_loop_rounds:
  "0 < n \<Longrightarrow> run_state (run_loop env cfg ops n (replicate k Tick @ Stop # post)) (after_rounds env cfg ops n w) =
     (case find (fatal_round env cfg ops w) [n..<n + k] of
        None \<Rightarrow> (Some None, after_rounds env cfg ops (n + k) w)
      | Some j \<Rightarrow> (Some (round_error env cfg ops w j), after_rounds env cfg ops (Suc j) w))"
proof (induction k arbitrary: n)
  case (Suc k)
  have r: "[n..<Suc (n + k)] = n # [Suc n..<Suc (n + k)]" by (simp add: upt_conv_Cons)
  show ?case
    using Suc.IH [of "Suc n"] run_loop_tick [OF Suc.prems, of env cfg ops "replicate k Tick @ Stop # post" w]
    unfolding replicate_Suc append_Cons add_Suc add_Suc_right r by (simp del: run_loop.simps after_rounds.simps upt_Suc)
qed simp

text \<open>
  C33: once its context ends the worker has returned, and it returns early exactly when it has to. After
  \<open>n\<close> ticks and the end of the context it has run the rounds 0 to \<open>n\<close> one after another, and returns no
  error, when none of them was fatal; otherwise it has run the rounds up to the first fatal one, each
  once, and returns that one's error. Any error is fatal in the first round, and any but a lost race for
  the rollup (\<open>ErrConflict\<close>) in a later one.
\<close>

theorem worker_returns:
  "run_state (run_worker env cfg ops (replicate n Tick @ Stop # post)) w =
     (case find (fatal_round env cfg ops w) [0..<Suc n] of
        None \<Rightarrow> (Some None, after_rounds env cfg ops (Suc n) w)
      | Some k \<Rightarrow> (Some (round_error env cfg ops w k), after_rounds env cfg ops (Suc k) w)) \<and>
   rounds (after_rounds env cfg ops n w) = rounds w + n"
proof
  have r: "[0..<Suc n] = 0 # [Suc 0..<Suc n]" by (simp add: upt_conv_Cons)
  show "run_state (run_worker env cfg ops (replicate n Tick @ Stop # post)) w =
     (case find (fatal_round env cfg ops w) [0..<Suc n] of
        None \<Rightarrow> (Some None, after_rounds env cfg ops (Suc n) w)
      | Some k \<Rightarrow> (Some (round_error env cfg ops w k), after_rounds env cfg ops (Suc k) w))"
  proof (cases "round_error env cfg ops w 0")
    case None
    then have f: "\<not> fatal_round env cfg ops w 0" by (simp add: fatal_round_def)
    from None have "run_state (run_worker env cfg ops (replicate n Tick @ Stop # post)) w =
        run_state (run_loop env cfg ops 1 (replicate n Tick @ Stop # post)) (after_rounds env cfg ops 1 w)"
      by (auto simp: run_worker_def round_error_def split: prod.splits)
    then show ?thesis
      using run_loop_rounds [of 1 env cfg ops n post w] f unfolding r One_nat_def add_Suc add_0 by simp
  next
    case (Some e)
    then have f: "fatal_round env cfg ops w 0" by (simp add: fatal_round_def)
    from Some have "run_state (run_worker env cfg ops (replicate n Tick @ Stop # post)) w =
        (Some (Some e), after_rounds env cfg ops (Suc 0) w)"
      by (auto simp: run_worker_def round_error_def split: prod.splits)
    with f Some show ?thesis unfolding r by simp
  qed
qed (rule rounds_after)

end
