(* ===== verification/Billing.thy ===== *)
theory Billing
  imports Http_Api Provisioning
begin

text \<open>
  Hosted payments: the service of \<open>internal/billing/billing.go\<close> over a billing store and a payment
  provider, both tables of operations on one world; the two providers the file itself declares; and the
  portal session of \<open>internal/platform/portal.go\<close> that every portal operation is given.
\<close>

section \<open>Portal sessions\<close>

definition role_org_admin :: string where "role_org_admin = ''org_admin''"
definition role_project_admin :: string where "role_project_admin = ''project_admin''"
definition role_developer :: string where "role_developer = ''developer''"
definition role_viewer :: string where "role_viewer = ''viewer''"

record portal_user =
  pu_id :: string
  pu_username :: string
  pu_display_name :: string

record portal_membership =
  pmb_id :: string
  pmb_organisation_id :: string
  pmb_organisation_name :: string
  pmb_organisation_slug :: string
  pmb_project_id :: string
  pmb_project_name :: string
  pmb_project_slug :: string
  pmb_environment_id :: string
  pmb_environment_name :: string
  pmb_environment_slug :: string
  pmb_role :: string

definition membership_principal :: "portal_membership \<Rightarrow> principal" where
  "membership_principal m = zero_principal
     \<lparr>p_organisation_id := pmb_organisation_id m, p_organisation_name := pmb_organisation_name m,
      p_organisation_slug := pmb_organisation_slug m, p_project_id := pmb_project_id m,
      p_project_name := pmb_project_name m, p_project_slug := pmb_project_slug m,
      p_environment_id := pmb_environment_id m, p_environment_name := pmb_environment_name m,
      p_environment_slug := pmb_environment_slug m\<rparr>"

record portal_session =
  se_id :: string
  se_user :: portal_user
  se_current :: portal_membership
  se_memberships :: "portal_membership list"
  se_authenticated_at :: time
  se_expires_at :: time

section \<open>Data\<close>

definition err_not_configured :: err where
  "err_not_configured = ErrNamed ''billing.ErrNotConfigured''"

definition err_invalid_event :: err where
  "err_invalid_event = ErrNamed ''billing.ErrInvalidEvent''"

definition err_recent_authentication :: err where
  "err_recent_authentication = ErrNamed ''billing.ErrRecentAuthenticationRequired''"

record billing_capability =
  ca_configured :: bool
  ca_provider :: string
  ca_mode :: string
  ca_detail :: string

record billing_invoice_view =
  iv_reference :: string
  iv_status :: string
  iv_amount_due :: int
  iv_amount_paid :: int
  iv_currency :: string
  iv_due_at :: "time option"
  iv_paid_at :: "time option"
  iv_issued_at :: time

record billing_summary =
  bs_schema :: string
  bs_configured :: bool
  bs_provider :: string
  bs_state :: string
  bs_detail :: string
  bs_account_name :: string
  bs_commercial_state :: string
  bs_tax_status :: string
  bs_checkout_state :: string
  bs_confirmed_at :: "time option"
  bs_can_manage :: bool
  bs_invoices :: "billing_invoice_view list"

record customer_input =
  cui_organisation_id :: string
  cui_legal_name :: string
  cui_idempotency_key :: string

record customer_result =
  cur_customer_ref :: string
  cur_request_id :: string

record checkout_input =
  chi_requirement_id :: string
  chi_endpoint_id :: string
  chi_customer_ref :: string
  chi_price_ref :: string
  chi_mode :: string
  chi_quantity :: int
  chi_success_url :: string
  chi_cancel_url :: string
  chi_idempotency_key :: string

record hosted_result =
  ho_session_ref :: string
  ho_url :: string
  ho_expires_at :: time
  ho_request_id :: string

record portal_input =
  poi_customer_ref :: string
  poi_return_url :: string
  poi_idempotency_key :: string

record 's payment_provider =
  pv_capability :: billing_capability
  pv_ensure_customer :: "customer_input \<Rightarrow> ('s, err + customer_result) state"
  pv_create_checkout :: "checkout_input \<Rightarrow> ('s, err + hosted_result) state"
  pv_create_portal :: "portal_input \<Rightarrow> ('s, err + hosted_result) state"

record checkout_plan =
  cp_organisation_id :: string
  cp_organisation_name :: string
  cp_endpoint_id :: string
  cp_requirement_id :: string
  cp_provider :: string
  cp_customer_ref :: string
  cp_price_ref :: string
  cp_mode :: string
  cp_operation_id :: string
  cp_operation_key :: string

record checkout_response =
  co_schema :: string
  co_requirement_id :: string
  co_state :: string
  co_hosted_url :: string
  co_expires_at :: "time option"
  co_payment_confirmed :: bool
  co_runtime_ready :: bool

record portal_plan =
  pp_organisation_id :: string
  pp_customer_ref :: string
  pp_operation_key :: string

record portal_response =
  pr_schema :: string
  pr_hosted_url :: string
  pr_expires_at :: "time option"

text \<open>
  The store; a digest is the SHA-256 of a key. \<open>bst_summary\<close> is \<open>None\<close> for a store without the
  optional method \<open>GetBillingSummary\<close>.
\<close>

record 's billing_store =
  bst_prepare_checkout ::
    "portal_session \<Rightarrow> string \<Rightarrow> string \<Rightarrow> time \<Rightarrow> ('s, err + checkout_plan \<times> checkout_response option) state"
  bst_set_customer :: "portal_session \<Rightarrow> string \<Rightarrow> string \<Rightarrow> time \<Rightarrow> ('s, err option) state"
  bst_complete_checkout :: "portal_session \<Rightarrow> checkout_plan \<Rightarrow> hosted_result \<Rightarrow> time \<Rightarrow> ('s, err option) state"
  bst_prepare_portal :: "portal_session \<Rightarrow> string \<Rightarrow> time \<Rightarrow> ('s, err + portal_plan) state"
  bst_summary :: "(portal_session \<Rightarrow> ('s, err + billing_summary) state) option"

text \<open>\<open>bc_clock n\<close> is the \<open>n\<close>-th reading of the clock within one operation.\<close>

record billing_config =
  bc_clock :: "nat \<Rightarrow> time"
  bc_success_url :: string
  bc_cancel_url :: string
  bc_return_url :: string
  bc_url :: url_lib
  bc_sha :: "string \<Rightarrow> string"

section \<open>Construction\<close>

definition absolute_https_url :: "url_lib \<Rightarrow> string \<Rightarrow> bool" where
  "absolute_https_url lib v =
     (case url_parse lib v of
        None \<Rightarrow> False
      | Some u \<Rightarrow> url_scheme u = ''https'' \<and> url_host u \<noteq> [] \<and> \<not> url_user u \<and> url_fragment u = [])"

definition billing_urls :: "billing_config \<Rightarrow> (string, string) go_map" where
  "billing_urls c = [(''success URL'', bc_success_url c), (''cancel URL'', bc_cancel_url c), (''return URL'', bc_return_url c)]"

text \<open>The first bad URL in the order of the range loop over the map, which is here the order of the list.\<close>

definition new_billing :: "billing_capability \<Rightarrow> billing_config \<Rightarrow> err + billing_config" where
  "new_billing cap c =
     (if \<not> ca_configured cap then Inr c
      else (case find (\<lambda>(name, v). \<not> absolute_https_url (bc_url c) v) (billing_urls c) of
              None \<Rightarrow> Inr c
            | Some (name, _) \<Rightarrow> Inl (ErrText (''billing '' @ name @ '' must be an absolute HTTPS URL''))))"

section \<open>Checks\<close>

definition recent :: "portal_session \<Rightarrow> time \<Rightarrow> bool" where
  "recent session now \<longleftrightarrow>
     se_authenticated_at session \<noteq> zero_time \<and> \<not> now < se_authenticated_at session \<and>
     time_sub now (se_authenticated_at session) \<le> 15 * minute"

definition control_bytes :: string where
  "control_bytes = [CHR 0x0D, CHR 0x0A, CHR 0x00]"

definition valid_operation_key :: "string \<Rightarrow> bool" where
  "valid_operation_key v \<longleftrightarrow> \<not> (length v < 8 \<or> length v > 128 \<or> trim_space v \<noteq> v \<or> contains_any v control_bytes)"

definition operation_digest :: "(string \<Rightarrow> string) \<Rightarrow> string \<Rightarrow> err + string" where
  "operation_digest sha v = (if \<not> valid_operation_key v then Inl ErrInvalid else Inr (sha v))"

definition valid_hosted_result :: "url_lib \<Rightarrow> hosted_result \<Rightarrow> bool" where
  "valid_hosted_result lib h =
     (case url_parse lib (ho_url h) of
        None \<Rightarrow> False
      | Some u \<Rightarrow> url_scheme u = ''https'' \<and> url_host u \<noteq> [] \<and> \<not> url_user u \<and> ho_session_ref h \<noteq> [] \<and>
          ho_expires_at h \<noteq> zero_time)"

definition validate_hosted_result :: "url_lib \<Rightarrow> hosted_result \<Rightarrow> err option" where
  "validate_hosted_result lib h = (if valid_hosted_result lib h then None else Some ErrUnavailable)"

definition map_provider_error :: "err \<Rightarrow> err" where
  "map_provider_error e = (if e = err_not_configured then err_not_configured else ErrUnavailable)"

section \<open>The service\<close>

text \<open>What every operation that moves money checks, in the code's order: role, recency, provider, key.\<close>

definition admitted :: "billing_config \<Rightarrow> 's payment_provider \<Rightarrow> portal_session \<Rightarrow> string \<Rightarrow> err + string" where
  "admitted c pv session key =
     (if pmb_role (se_current session) \<noteq> role_org_admin then Inl ErrForbidden
      else if \<not> recent session (bc_clock c 0) then Inl err_recent_authentication
      else if \<not> ca_configured (pv_capability pv) then Inl err_not_configured
      else operation_digest (bc_sha c) key)"

definition ensure_customer ::
  "'s billing_store \<Rightarrow> 's payment_provider \<Rightarrow> portal_session \<Rightarrow> time \<Rightarrow> checkout_plan \<Rightarrow> ('s, err + checkout_plan) state" where
  "ensure_customer st pv session now plan =
     (if cp_customer_ref plan \<noteq> [] then State_Monad.return (Inr plan)
      else do {
        customer \<leftarrow> pv_ensure_customer pv
          \<lparr>cui_organisation_id = cp_organisation_id plan, cui_legal_name = cp_organisation_name plan,
           cui_idempotency_key = ''alzette-customer-'' @ cp_organisation_id plan\<rparr>;
        case customer of
          Inl e \<Rightarrow> State_Monad.return (Inl (map_provider_error e))
        | Inr customer \<Rightarrow> do {
            e \<leftarrow> bst_set_customer st session (cur_customer_ref customer) ''stripe'' now;
            State_Monad.return
              (case e of
                 Some e \<Rightarrow> Inl e
               | None \<Rightarrow> Inr (plan\<lparr>cp_customer_ref := cur_customer_ref customer\<rparr>))
          }
      })"

definition checkout_input_of :: "billing_config \<Rightarrow> checkout_plan \<Rightarrow> checkout_input" where
  "checkout_input_of c plan =
     \<lparr>chi_requirement_id = cp_requirement_id plan, chi_endpoint_id = cp_endpoint_id plan,
      chi_customer_ref = cp_customer_ref plan, chi_price_ref = cp_price_ref plan, chi_mode = cp_mode plan,
      chi_quantity = 1, chi_success_url = bc_success_url c, chi_cancel_url = bc_cancel_url c,
      chi_idempotency_key = cp_operation_key plan\<rparr>"

definition checkout_response_of :: "string \<Rightarrow> hosted_result \<Rightarrow> checkout_response" where
  "checkout_response_of requirement_id hosted =
     \<lparr>co_schema = ''alzette.portal.checkout.v1'', co_requirement_id = requirement_id, co_state = ''action_required'',
      co_hosted_url = ho_url hosted, co_expires_at = Some (ho_expires_at hosted), co_payment_confirmed = False,
      co_runtime_ready = False\<rparr>"

definition open_checkout ::
  "billing_config \<Rightarrow> 's billing_store \<Rightarrow> 's payment_provider \<Rightarrow> portal_session \<Rightarrow> string \<Rightarrow> time \<Rightarrow> checkout_plan \<Rightarrow>
   ('s, err + checkout_response) state" where
  "open_checkout c st pv session requirement_id now plan =
     or_return (ensure_customer st pv session now plan) (\<lambda>plan. do {
       hosted \<leftarrow> pv_create_checkout pv (checkout_input_of c plan);
       case hosted of
         Inl e \<Rightarrow> State_Monad.return (Inl (map_provider_error e))
       | Inr hosted \<Rightarrow>
           (case validate_hosted_result (bc_url c) hosted of
              Some e \<Rightarrow> State_Monad.return (Inl e)
            | None \<Rightarrow> do {
                e \<leftarrow> bst_complete_checkout st session plan hosted now;
                State_Monad.return
                  (case e of Some e \<Rightarrow> Inl e | None \<Rightarrow> Inr (checkout_response_of requirement_id hosted))
              })
     })"

definition create_checkout ::
  "billing_config \<Rightarrow> 's billing_store \<Rightarrow> 's payment_provider \<Rightarrow> portal_session \<Rightarrow> string \<Rightarrow> string \<Rightarrow>
   ('s, err + checkout_response) state" where
  "create_checkout c st pv session requirement_id key =
     (case admitted c pv session key of
        Inl e \<Rightarrow> State_Monad.return (Inl e)
      | Inr digest \<Rightarrow>
          or_return (bst_prepare_checkout st session requirement_id digest (bc_clock c 1)) (\<lambda>(plan, existing).
            case existing of
              Some response \<Rightarrow> State_Monad.return (Inr response)
            | None \<Rightarrow> open_checkout c st pv session requirement_id (bc_clock c 1) plan))"

definition create_portal ::
  "billing_config \<Rightarrow> 's billing_store \<Rightarrow> 's payment_provider \<Rightarrow> portal_session \<Rightarrow> string \<Rightarrow> ('s, err + portal_response) state" where
  "create_portal c st pv session key =
     (case admitted c pv session key of
        Inl e \<Rightarrow> State_Monad.return (Inl e)
      | Inr digest \<Rightarrow>
          or_return (bst_prepare_portal st session digest (bc_clock c 1)) (\<lambda>plan. do {
            hosted \<leftarrow> pv_create_portal pv
              \<lparr>poi_customer_ref = pp_customer_ref plan, poi_return_url = bc_return_url c,
               poi_idempotency_key = pp_operation_key plan\<rparr>;
            State_Monad.return
              (case hosted of
                 Inl e \<Rightarrow> Inl (map_provider_error e)
               | Inr hosted \<Rightarrow>
                   (case validate_hosted_result (bc_url c) hosted of
                      Some e \<Rightarrow> Inl e
                    | None \<Rightarrow> Inr \<lparr>pr_schema = ''alzette.portal.billing_session.v1'', pr_hosted_url = ho_url hosted,
                        pr_expires_at = Some (ho_expires_at hosted)\<rparr>))
          }))"

definition decorate_summary :: "billing_capability \<Rightarrow> portal_session \<Rightarrow> billing_summary \<Rightarrow> billing_summary" where
  "decorate_summary cap session r =
     (let r = r\<lparr>bs_schema := ''alzette.portal.billing.v1'', bs_configured := ca_configured cap, bs_provider := ca_provider cap,
            bs_can_manage := pmb_role (se_current session) = role_org_admin \<and> ca_configured cap \<and> bs_state r \<noteq> []\<rparr>
      in if \<not> ca_configured cap then
           r\<lparr>bs_state := ''not_configured'',
             bs_detail := ''Hosted billing is not configured for this deployment. No payment action is available.'',
             bs_can_manage := False\<rparr>
         else if bs_state r = [] then
           r\<lparr>bs_state := ''not_started'',
             bs_detail := ''Billing is available, but this organisation has not started a hosted billing relationship.''\<rparr>
         else r)"

definition billing_summary_of ::
  "'s billing_store \<Rightarrow> 's payment_provider \<Rightarrow> portal_session \<Rightarrow> ('s, err + billing_summary) state" where
  "billing_summary_of st pv session =
     (case bst_summary st of
        None \<Rightarrow> State_Monad.return (Inl ErrUnavailable)
      | Some get_summary \<Rightarrow>
          or_return (get_summary session)
            (\<lambda>r. State_Monad.return (Inr (decorate_summary (pv_capability pv) session r))))"

section \<open>The providers of the file\<close>

definition unavailable_provider :: "'s payment_provider" where
  "unavailable_provider =
     \<lparr>pv_capability = \<lparr>ca_configured = False, ca_provider = [], ca_mode = ''hosted_checkout'',
        ca_detail = ''Hosted billing is not configured.''\<rparr>,
      pv_ensure_customer = (\<lambda>_. State_Monad.return (Inl err_not_configured)),
      pv_create_checkout = (\<lambda>_. State_Monad.return (Inl err_not_configured)),
      pv_create_portal = (\<lambda>_. State_Monad.return (Inl err_not_configured))\<rparr>"

text \<open>The mutex makes every method of the fake provider one step; \<open>fk_now\<close> is the clock it reads.\<close>

record fake_provider =
  fk_customers :: int
  fk_checkouts :: int
  fk_portals :: int
  fk_now :: time
  fk_failure :: "err option"

definition hex_prefix :: "(string \<Rightarrow> string) \<Rightarrow> nat \<Rightarrow> string \<Rightarrow> string" where
  "hex_prefix sha n v = hex_encode (take n (sha v))"

definition fake_ensure_customer :: "(string \<Rightarrow> string) \<Rightarrow> customer_input \<Rightarrow> (fake_provider, err + customer_result) state" where
  "fake_ensure_customer sha i = State (\<lambda>f.
     case fk_failure f of
       Some e \<Rightarrow> (Inl e, f)
     | None \<Rightarrow> (Inr \<lparr>cur_customer_ref = ''cus_test_'' @ hex_prefix sha 6 (cui_organisation_id i),
                   cur_request_id = ''req_fake_customer''\<rparr>, f\<lparr>fk_customers := fk_customers f + 1\<rparr>))"

definition fake_hosted :: "string \<Rightarrow> string \<Rightarrow> string \<Rightarrow> time \<Rightarrow> hosted_result" where
  "fake_hosted ref base request_id now =
     \<lparr>ho_session_ref = ref, ho_url = base @ ref, ho_expires_at = now + 30 * minute, ho_request_id = request_id\<rparr>"

definition fake_create_checkout :: "(string \<Rightarrow> string) \<Rightarrow> checkout_input \<Rightarrow> (fake_provider, err + hosted_result) state" where
  "fake_create_checkout sha i = State (\<lambda>f.
     case fk_failure f of
       Some e \<Rightarrow> (Inl e, f)
     | None \<Rightarrow> (Inr (fake_hosted (''cs_test_'' @ hex_prefix sha 8 (chi_idempotency_key i))
                   ''https://checkout.example.invalid/session/'' ''req_fake_checkout'' (fk_now f)),
                f\<lparr>fk_checkouts := fk_checkouts f + 1\<rparr>))"

definition fake_create_portal :: "(string \<Rightarrow> string) \<Rightarrow> portal_input \<Rightarrow> (fake_provider, err + hosted_result) state" where
  "fake_create_portal sha i = State (\<lambda>f.
     case fk_failure f of
       Some e \<Rightarrow> (Inl e, f)
     | None \<Rightarrow> (Inr (fake_hosted (''bps_test_'' @ hex_prefix sha 8 (poi_idempotency_key i))
                   ''https://billing.example.invalid/session/'' ''req_fake_portal'' (fk_now f)),
                f\<lparr>fk_portals := fk_portals f + 1\<rparr>))"

definition fake_payment_provider :: "(string \<Rightarrow> string) \<Rightarrow> fake_provider payment_provider" where
  "fake_payment_provider sha =
     \<lparr>pv_capability = \<lparr>ca_configured = True, ca_provider = ''fake'', ca_mode = ''hosted_checkout'',
        ca_detail = ''Deterministic test billing adapter.''\<rparr>,
      pv_ensure_customer = fake_ensure_customer sha, pv_create_checkout = fake_create_checkout sha,
      pv_create_portal = fake_create_portal sha\<rparr>"

section \<open>The contract of a provider\<close>

text \<open>
  A provider that is not configured refuses everything and does nothing; the customers one returns have a
  reference.
\<close>

locale hosted_payments =
  fixes pv :: "'s payment_provider"
  assumes unconfigured: "\<not> ca_configured (pv_capability pv) \<Longrightarrow>
      run_state (pv_ensure_customer pv ci) s = (Inl err_not_configured, s) \<and>
      run_state (pv_create_checkout pv hi) s = (Inl err_not_configured, s) \<and>
      run_state (pv_create_portal pv pi) s = (Inl err_not_configured, s)"
    and customer_ref: "run_state (pv_ensure_customer pv ci) s = (Inr customer, t) \<Longrightarrow> cur_customer_ref customer \<noteq> []"
begin

lemma ensured_customer:
  "run_state (ensure_customer st pv session now plan) s = (Inr plan', t) \<Longrightarrow>
    cp_customer_ref plan' \<noteq> [] \<and> plan' = plan\<lparr>cp_customer_ref := cp_customer_ref plan'\<rparr>"
  by (auto simp: ensure_customer_def split: if_splits sum.splits option.splits prod.splits dest: customer_ref)

end

interpretation no_payments: hosted_payments unavailable_provider
  by unfold_locales (auto simp: unavailable_provider_def)

interpretation fake_payments: hosted_payments "fake_payment_provider sha"
  by unfold_locales
    (auto simp: fake_payment_provider_def fake_ensure_customer_def split: option.splits)

end
