(* ===== verification/Billing_Stripe.thy ===== *)
theory Billing_Stripe
  imports Billing
begin

text \<open>
  The Stripe adapter of \<open>internal/billing/stripe/stripe.go\<close>: the payment provider and the verifier of
  webhook events. The Stripe SDK is a table of parameters: the three calls, each answering with an error
  or with an object or nothing, and \<open>ConstructEvent\<close>, which checks the signature.
\<close>

section \<open>The SDK\<close>

record customer_params =
  sp_name :: string
  sp_metadata :: "(string \<times> string) list"
  sp_idempotency_key :: string

record session_params =
  sx_customer :: string
  sx_reference :: string
  sx_success_url :: string
  sx_cancel_url :: string
  sx_mode :: string
  sx_price :: string
  sx_quantity :: int
  sx_metadata :: "(string \<times> string) list"
  sx_subscription_metadata :: "(string \<times> string) list"
  sx_payment_metadata :: "(string \<times> string) list"
  sx_idempotency_key :: string

record stripe_object =
  so_id :: string
  so_url :: string
  so_expires_at :: int
  so_request_id :: "string option"

record stripe_event =
  sv_id :: string
  sv_type :: string
  sv_created :: int
  sv_livemode :: bool
  sv_data :: "string option"

record 's stripe_sdk =
  sd_customer :: "customer_params \<Rightarrow> ('s, err + stripe_object option) state"
  sd_session :: "session_params \<Rightarrow> ('s, err + stripe_object option) state"
  sd_portal :: "string \<Rightarrow> string \<Rightarrow> string \<Rightarrow> ('s, err + stripe_object option) state"
  sd_construct :: "string \<Rightarrow> string \<Rightarrow> string \<Rightarrow> duration \<Rightarrow> stripe_event option"
  sd_url :: url_lib
  sd_hostname :: "url \<Rightarrow> string"
  sd_lower :: "string \<Rightarrow> string"
  sd_upper :: "string \<Rightarrow> string"
  sd_now :: time

section \<open>The provider\<close>

definition blank_secret :: "string \<Rightarrow> bool" where
  "blank_secret v \<longleftrightarrow> trim_space v = [] \<or> contains_any v control_bytes"

definition new_stripe_provider :: "string \<Rightarrow> err + unit" where
  "new_stripe_provider api_key = (if blank_secret api_key then Inl err_not_configured else Inr ())"

definition stripe_capability :: billing_capability where
  "stripe_capability =
     \<lparr>ca_configured = True, ca_provider = ''stripe'', ca_mode = ''hosted_checkout'',
      ca_detail = ''Stripe-hosted Checkout is configured.''\<rparr>"

definition stripe_request_id :: "stripe_object \<Rightarrow> string" where
  "stripe_request_id r = (case so_request_id r of None \<Rightarrow> [] | Some i \<Rightarrow> i)"

definition stripe_hosted_url :: "'s stripe_sdk \<Rightarrow> string \<Rightarrow> bool" where
  "stripe_hosted_url sdk v =
     (case url_parse (sd_url sdk) v of
        None \<Rightarrow> False
      | Some u \<Rightarrow>
          if url_scheme u \<noteq> ''https'' \<or> url_user u then False
          else let host = sd_lower sdk (sd_hostname sdk u)
               in host = ''stripe.com'' \<or> has_suffix ''.stripe.com'' host)"

definition stripe_ensure_customer :: "'s stripe_sdk \<Rightarrow> customer_input \<Rightarrow> ('s, err + customer_result) state" where
  "stripe_ensure_customer sdk i = do {
     r \<leftarrow> sd_customer sdk \<lparr>sp_name = cui_legal_name i,
       sp_metadata = [(''alzette_organisation_id'', cui_organisation_id i)], sp_idempotency_key = cui_idempotency_key i\<rparr>;
     State_Monad.return
       (case r of
          Inl _ \<Rightarrow> Inl (ErrText ''stripe customer request failed'')
        | Inr None \<Rightarrow> Inl (ErrText ''stripe customer response was invalid'')
        | Inr (Some o1) \<Rightarrow>
            if \<not> has_prefix ''cus_'' (so_id o1) then Inl (ErrText ''stripe customer response was invalid'')
            else Inr \<lparr>cur_customer_ref = so_id o1, cur_request_id = stripe_request_id o1\<rparr>)
   }"

definition checkout_metadata :: "checkout_input \<Rightarrow> (string \<times> string) list" where
  "checkout_metadata i =
     [(''alzette_payment_requirement_id'', chi_requirement_id i), (''alzette_endpoint_id'', chi_endpoint_id i)]"

definition session_params_of :: "checkout_input \<Rightarrow> session_params" where
  "session_params_of i =
     (let payment = (chi_mode i = ''payment'')
      in \<lparr>sx_customer = chi_customer_ref i, sx_reference = chi_requirement_id i, sx_success_url = chi_success_url i,
          sx_cancel_url = chi_cancel_url i, sx_mode = (if payment then ''payment'' else ''subscription''),
          sx_price = chi_price_ref i, sx_quantity = chi_quantity i, sx_metadata = checkout_metadata i,
          sx_subscription_metadata = (if payment then [] else checkout_metadata i),
          sx_payment_metadata = (if payment then checkout_metadata i else []),
          sx_idempotency_key = chi_idempotency_key i\<rparr>)"

text \<open>\<open>time.Unix\<close> of a number of seconds.\<close>

definition unix_time :: "int \<Rightarrow> time" where
  "unix_time n = n * 1000000000"

definition stripe_create_checkout :: "'s stripe_sdk \<Rightarrow> checkout_input \<Rightarrow> ('s, err + hosted_result) state" where
  "stripe_create_checkout sdk i = do {
     r \<leftarrow> sd_session sdk (session_params_of i);
     State_Monad.return
       (case r of
          Inl _ \<Rightarrow> Inl (ErrText ''stripe checkout request failed'')
        | Inr None \<Rightarrow> Inl (ErrText ''stripe checkout response was invalid'')
        | Inr (Some o1) \<Rightarrow>
            if \<not> has_prefix ''cs_'' (so_id o1) \<or> \<not> stripe_hosted_url sdk (so_url o1) \<or> so_expires_at o1 \<le> 0
            then Inl (ErrText ''stripe checkout response was invalid'')
            else Inr \<lparr>ho_session_ref = so_id o1, ho_url = so_url o1, ho_expires_at = unix_time (so_expires_at o1),
                      ho_request_id = stripe_request_id o1\<rparr>)
   }"

definition stripe_create_portal :: "'s stripe_sdk \<Rightarrow> portal_input \<Rightarrow> ('s, err + hosted_result) state" where
  "stripe_create_portal sdk i = do {
     r \<leftarrow> sd_portal sdk (poi_customer_ref i) (poi_return_url i) (poi_idempotency_key i);
     State_Monad.return
       (case r of
          Inl _ \<Rightarrow> Inl (ErrText ''stripe billing portal request failed'')
        | Inr None \<Rightarrow> Inl (ErrText ''stripe billing portal response was invalid'')
        | Inr (Some o1) \<Rightarrow>
            if \<not> stripe_hosted_url sdk (so_url o1) then Inl (ErrText ''stripe billing portal response was invalid'')
            else Inr \<lparr>ho_session_ref = so_id o1, ho_url = so_url o1, ho_expires_at = sd_now sdk + 5 * minute,
                      ho_request_id = stripe_request_id o1\<rparr>)
   }"

definition stripe_provider :: "'s stripe_sdk \<Rightarrow> 's payment_provider" where
  "stripe_provider sdk =
     \<lparr>pv_capability = stripe_capability, pv_ensure_customer = stripe_ensure_customer sdk,
      pv_create_checkout = stripe_create_checkout sdk, pv_create_portal = stripe_create_portal sdk\<rparr>"

interpretation stripe_payments: hosted_payments "stripe_provider sdk"
  by unfold_locales
    (auto simp: stripe_provider_def stripe_capability_def stripe_ensure_customer_def has_prefix_def
      split: prod.splits sum.splits option.splits if_splits)

section \<open>Verified events\<close>

text \<open>An empty string is an absent reference.\<close>

record billing_event =
  be_provider :: string
  be_id :: string
  be_type :: string
  be_object_ref :: string
  be_requirement_id :: string
  be_customer_ref :: string
  be_subscription_ref :: string
  be_invoice_ref :: string
  be_object_status :: string
  be_payment_status :: string
  be_amount :: "int option"
  be_currency :: string
  be_period_start :: "time option"
  be_period_end :: "time option"
  be_cancel_at_period_end :: "bool option"
  be_created_at :: time
  be_payload_digest :: string
  be_verified_at :: time

record verifier_config =
  vc_secret :: string
  vc_tolerance :: duration
  vc_allow_live :: bool

definition new_verifier :: "verifier_config \<Rightarrow> err + verifier_config" where
  "new_verifier c =
     (if blank_secret (vc_secret c) then Inl err_not_configured
      else let tolerance = (if vc_tolerance c = 0 then 5 * minute else vc_tolerance c)
           in if tolerance < minute \<or> tolerance > 15 * minute
              then Inl (ErrText ''Stripe webhook tolerance is outside supported bounds'')
              else Inr (c\<lparr>vc_tolerance := tolerance\<rparr>))"

definition verifier_configured :: "verifier_config option \<Rightarrow> bool" where
  "verifier_configured v = (case v of None \<Rightarrow> False | Some c \<Rightarrow> vc_secret c \<noteq> [])"

definition supported_events :: "string list" where
  "supported_events =
     [''checkout.session.completed'', ''checkout.session.expired'',
      ''invoice.finalized'', ''invoice.paid'', ''invoice.payment_failed'',
      ''customer.subscription.created'', ''customer.subscription.updated'', ''customer.subscription.deleted'',
      ''charge.refunded'', ''charge.dispute.created'', ''charge.dispute.closed'']"

definition supported_event :: "string \<Rightarrow> bool" where
  "supported_event v \<longleftrightarrow> v \<in> set supported_events"

definition reference_ok :: "string \<Rightarrow> string \<Rightarrow> bool" where
  "reference_ok prefix v \<longleftrightarrow> v = [] \<or> has_prefix prefix v"

definition validate_event_references :: "billing_event \<Rightarrow> err option" where
  "validate_event_references e =
     (if \<not> has_prefix ''evt_'' (be_id e) \<or> be_object_ref e = [] then Some err_invalid_event
      else if \<not> reference_ok ''cus_'' (be_customer_ref e) then Some err_invalid_event
      else if \<not> reference_ok ''sub_'' (be_subscription_ref e) then Some err_invalid_event
      else if \<not> reference_ok ''in_'' (be_invoice_ref e) then Some err_invalid_event
      else if \<not> reference_ok ''pay_'' (be_requirement_id e) then Some err_invalid_event
      else None)"

record event_object =
  eo_id :: string
  eo_status :: string
  eo_payment_status :: string
  eo_currency :: string
  eo_customer :: string
  eo_subscription :: string
  eo_invoice :: string
  eo_metadata :: "(string, string) go_map"
  eo_amount_total :: "int option"
  eo_amount_due :: "int option"
  eo_amount_paid :: "int option"
  eo_period_start :: int
  eo_period_end :: int
  eo_cancel_at_period_end :: "bool option"

definition zero_event_object :: event_object where
  "zero_event_object =
     \<lparr>eo_id = [], eo_status = [], eo_payment_status = [], eo_currency = [], eo_customer = [], eo_subscription = [],
      eo_invoice = [], eo_metadata = [], eo_amount_total = None, eo_amount_due = None, eo_amount_paid = None,
      eo_period_start = 0, eo_period_end = 0, eo_cancel_at_period_end = None\<rparr>"

text \<open>\<open>expandableRef.UnmarshalJSON\<close>: nothing, an identifier, or the identifier of an expanded object.\<close>

definition decode_expandable :: "json \<Rightarrow> string \<Rightarrow> decode_error + string" where
  "decode_expandable v old =
     (case v of
        JNull \<Rightarrow> Inr []
      | JString s \<Rightarrow> Inr s
      | _ \<Rightarrow> decode_struct False [(''id'', decode_string)] v [])"

fun decode_string_entries :: "(string \<times> json) list \<Rightarrow> (string, string) go_map \<Rightarrow> decode_error + (string, string) go_map" where
  "decode_string_entries [] m = Inr m"
| "decode_string_entries ((k, v) # es) m =
     (case decode_string v [] of
        Inl e \<Rightarrow> Inl e
      | Inr s \<Rightarrow> decode_string_entries es (AList.update k s m))"

definition decode_string_map :: "json \<Rightarrow> (string, string) go_map \<Rightarrow> decode_error + (string, string) go_map" where
  "decode_string_map v old =
     (case v of
        JNull \<Rightarrow> Inr []
      | JObject es \<Rightarrow> decode_string_entries es old
      | _ \<Rightarrow> Inl Mismatch)"

definition event_object_fields :: "event_object field list" where
  "event_object_fields =
     [field_of ''id'' decode_string eo_id eo_id_update,
      field_of ''status'' decode_string eo_status eo_status_update,
      field_of ''payment_status'' decode_string eo_payment_status eo_payment_status_update,
      field_of ''currency'' decode_string eo_currency eo_currency_update,
      field_of ''customer'' decode_expandable eo_customer eo_customer_update,
      field_of ''subscription'' decode_expandable eo_subscription eo_subscription_update,
      field_of ''invoice'' decode_expandable eo_invoice eo_invoice_update,
      field_of ''metadata'' decode_string_map eo_metadata eo_metadata_update,
      field_of ''amount_total'' decode_int_ptr eo_amount_total eo_amount_total_update,
      field_of ''amount_due'' decode_int_ptr eo_amount_due eo_amount_due_update,
      field_of ''amount_paid'' decode_int_ptr eo_amount_paid eo_amount_paid_update,
      field_of ''current_period_start'' decode_int eo_period_start eo_period_start_update,
      field_of ''current_period_end'' decode_int eo_period_end eo_period_end_update,
      field_of ''cancel_at_period_end'' decode_bool_ptr eo_cancel_at_period_end eo_cancel_at_period_end_update]"

text \<open>\<open>json.NewDecoder(...).Decode\<close> reads one value and leaves what follows it.\<close>

definition decode_event_object :: "string \<Rightarrow> event_object option" where
  "decode_event_object raw =
     (case json_value 0 raw of
        None \<Rightarrow> None
      | Some (v, _) \<Rightarrow>
          (case decode_struct False event_object_fields v zero_event_object of
             Inl _ \<Rightarrow> None
           | Inr ob \<Rightarrow> if eo_id ob = [] then None else Some ob))"

definition event_amount :: "string \<Rightarrow> event_object \<Rightarrow> int option" where
  "event_amount event_type ob =
     (if eo_amount_paid ob \<noteq> None \<and> event_type = ''invoice.paid'' then eo_amount_paid ob
      else if eo_amount_due ob \<noteq> None \<and> has_prefix ''invoice.'' event_type then eo_amount_due ob
      else eo_amount_total ob)"

definition billing_event_of :: "'s stripe_sdk \<Rightarrow> stripe_event \<Rightarrow> event_object \<Rightarrow> billing_event" where
  "billing_event_of sdk ev ob =
     (let period = (eo_period_start ob > 0 \<and> eo_period_end ob > eo_period_start ob)
      in \<lparr>be_provider = ''stripe'', be_id = sv_id ev, be_type = sv_type ev, be_object_ref = eo_id ob,
          be_requirement_id = (case map_of (eo_metadata ob) ''alzette_payment_requirement_id'' of None \<Rightarrow> [] | Some v \<Rightarrow> v),
          be_customer_ref = eo_customer ob,
          be_subscription_ref = (if has_prefix ''sub_'' (eo_id ob) then eo_id ob else eo_subscription ob),
          be_invoice_ref = (if has_prefix ''in_'' (eo_id ob) then eo_id ob else eo_invoice ob),
          be_object_status = eo_status ob, be_payment_status = eo_payment_status ob,
          be_amount = event_amount (sv_type ev) ob, be_currency = sd_upper sdk (eo_currency ob),
          be_period_start = (if period then Some (unix_time (eo_period_start ob)) else None),
          be_period_end = (if period then Some (unix_time (eo_period_end ob)) else None),
          be_cancel_at_period_end = eo_cancel_at_period_end ob, be_created_at = unix_time (sv_created ev),
          be_payload_digest = [], be_verified_at = zero_time\<rparr>)"

definition stripe_verify ::
  "'s stripe_sdk \<Rightarrow> verifier_config option \<Rightarrow> string \<Rightarrow> string \<Rightarrow> time \<Rightarrow> err + billing_event" where
  "stripe_verify sdk v payload signature now =
     (case v of
        None \<Rightarrow> Inl err_not_configured
      | Some c \<Rightarrow>
          if \<not> verifier_configured v then Inl err_not_configured
          else (case sd_construct sdk payload signature (vc_secret c) (vc_tolerance c) of
                  None \<Rightarrow> Inl err_invalid_event
                | Some ev \<Rightarrow>
                    (case sv_data ev of
                       None \<Rightarrow> Inl err_invalid_event
                     | Some raw \<Rightarrow>
                         if raw = [] \<or> sv_id ev = [] \<or> sv_created ev \<le> 0 then Inl err_invalid_event
                         else if sv_livemode ev \<and> \<not> vc_allow_live c then Inl err_invalid_event
                         else if \<not> supported_event (sv_type ev) then Inl err_invalid_event
                         else (case decode_event_object raw of
                                 None \<Rightarrow> Inl err_invalid_event
                               | Some ob \<Rightarrow>
                                   (case validate_event_references (billing_event_of sdk ev ob) of
                                      Some e \<Rightarrow> Inl e
                                    | None \<Rightarrow> Inr (billing_event_of sdk ev ob))))))"

text \<open>\<open>DisabledVerifier\<close>, and the interface both verifiers implement.\<close>

record verifier =
  vf_configured :: bool
  vf_verify :: "string \<Rightarrow> string \<Rightarrow> time \<Rightarrow> err + billing_event"

definition disabled_verifier :: verifier where
  "disabled_verifier = \<lparr>vf_configured = False, vf_verify = (\<lambda>_ _ _. Inl err_not_configured)\<rparr>"

definition stripe_verifier :: "'s stripe_sdk \<Rightarrow> verifier_config option \<Rightarrow> verifier" where
  "stripe_verifier sdk v = \<lparr>vf_configured = verifier_configured v, vf_verify = stripe_verify sdk v\<rparr>"

section \<open>What a verified event is\<close>

text \<open>
  The facts a verifier promises of an event it returns: one of the supported types, and references each of
  the kind its prefix says.
\<close>

definition well_formed_event :: "billing_event \<Rightarrow> bool" where
  "well_formed_event e \<longleftrightarrow>
     be_provider e = ''stripe'' \<and> has_prefix ''evt_'' (be_id e) \<and> be_object_ref e \<noteq> [] \<and> supported_event (be_type e) \<and>
     reference_ok ''cus_'' (be_customer_ref e) \<and> reference_ok ''sub_'' (be_subscription_ref e) \<and>
     reference_ok ''in_'' (be_invoice_ref e) \<and> reference_ok ''pay_'' (be_requirement_id e) \<and>
     zero_time < be_created_at e \<and>
     (case (be_period_start e, be_period_end e) of
        (None, None) \<Rightarrow> True | (Some a, Some b) \<Rightarrow> a < b | _ \<Rightarrow> False)"

lemma stripe_verify_well_formed:
  assumes "stripe_verify sdk v payload signature now = Inr e"
  shows "well_formed_event e"
proof -
  from assms obtain ev ob where ev: "\<not> sv_created ev \<le> 0" "supported_event (sv_type ev)"
    and r: "validate_event_references (billing_event_of sdk ev ob) = None" and e: "e = billing_event_of sdk ev ob"
    by (simp add: stripe_verify_def split: option.splits if_splits) blast+
  have p: "be_provider e = ''stripe''" "be_type e = sv_type ev" "be_created_at e = unix_time (sv_created ev)"
    "case (be_period_start e, be_period_end e) of (None, None) \<Rightarrow> True | (Some a, Some b) \<Rightarrow> a < b | _ \<Rightarrow> False"
    by (simp_all add: e billing_event_of_def Let_def unix_time_def)
  from r p ev show ?thesis
    by (auto simp: well_formed_event_def validate_event_references_def unix_time_def zero_time_def e [symmetric] split: if_splits)
qed

locale event_verifier =
  fixes vf :: verifier
  assumes verified: "vf_verify vf payload signature now = Inr e \<Longrightarrow> vf_configured vf \<and> well_formed_event e"

interpretation disabled: event_verifier disabled_verifier
  by unfold_locales (simp_all add: disabled_verifier_def)

interpretation stripe_events: event_verifier "stripe_verifier sdk v"
proof unfold_locales
  fix payload signature now e
  assume "vf_verify (stripe_verifier sdk v) payload signature now = Inr e"
  then have s: "stripe_verify sdk v payload signature now = Inr e" by (simp add: stripe_verifier_def)
  then have "verifier_configured v" by (auto simp: stripe_verify_def split: option.splits if_splits)
  with stripe_verify_well_formed [OF s] show "vf_configured (stripe_verifier sdk v) \<and> well_formed_event e"
    by (simp add: stripe_verifier_def)
qed

end
