(* ===== verification/Billing_Webhook.thy ===== *)
theory Billing_Webhook
  imports Billing_Stripe
begin

text \<open>
  The webhook handler of \<open>internal/billing/webhook.go\<close>, over a verifier and the two operations of a
  webhook store. \<open>mime.ParseMediaType\<close> and SHA-256 are parameters; \<open>wk_now\<close> is the one reading of the clock.
\<close>

section \<open>Construction\<close>

definition default_maximum_webhook_body :: int where
  "default_maximum_webhook_body = 256 * 1024"

record webhook_config =
  wk_maximum_body :: int
  wk_now :: time
  wk_new_id :: "err + string"
  wk_media_type :: "string \<Rightarrow> string option"
  wk_sha :: "string \<Rightarrow> string"

definition new_webhook :: "webhook_config \<Rightarrow> err + webhook_config" where
  "new_webhook c =
     (let limit = (if wk_maximum_body c = 0 then default_maximum_webhook_body else wk_maximum_body c)
      in if limit < 1024 \<or> limit > 1024 * 1024
         then Inl (ErrText ''billing webhook body limit is outside supported bounds'')
         else Inr (c\<lparr>wk_maximum_body := limit\<rparr>))"

section \<open>The handler\<close>

text \<open>Receiving answers whether the event is a duplicate and whether it has been processed.\<close>

record 's webhook_store =
  wo_receive :: "billing_event \<Rightarrow> ('s, err + bool \<times> bool) state"
  wo_apply :: "string \<Rightarrow> string \<Rightarrow> time \<Rightarrow> ('s, err option) state"

definition invalid_signature :: "string \<Rightarrow> response_writer \<Rightarrow> response_writer" where
  "invalid_signature request_id w =
     write_error 400 ''invalid_signature'' ''authentication_error'' ''webhook signature verification failed'' request_id w"

definition webhook_signature :: "http_request \<Rightarrow> string option" where
  "webhook_signature r =
     (case header_values (hr_header r) ''Stripe-Signature'' of
        [s] \<Rightarrow> if trim_space s = [] \<or> contains_any s [CHR 0x0D, CHR 0x0A] then None else Some s
      | _ \<Rightarrow> None)"

text \<open>\<open>io.ReadAll\<close> over \<open>http.MaxBytesReader\<close>; an empty body is refused with an unreadable one.\<close>

definition webhook_body :: "webhook_config \<Rightarrow> http_request \<Rightarrow> string option" where
  "webhook_body c r =
     (if hr_body_error r \<noteq> None \<or> int (length (hr_body r)) > wk_maximum_body c \<or> hr_body r = [] then None
      else Some (hr_body r))"

definition record_event ::
  "webhook_config \<Rightarrow> 's webhook_store \<Rightarrow> string \<Rightarrow> response_writer \<Rightarrow> billing_event \<Rightarrow> ('s, response_writer) state" where
  "record_event c st request_id w e = do {
     r \<leftarrow> wo_receive st e;
     case r of
       Inl err \<Rightarrow> State_Monad.return
         (if err = ErrInvalid
          then write_error 400 ''invalid_webhook'' ''invalid_request_error'' ''webhook event is invalid'' request_id w
          else write_error 503 ''webhook_ledger_unavailable'' ''api_error'' ''webhook receipt could not be recorded'' request_id w)
     | Inr (duplicate, processed) \<Rightarrow> do {
         err \<leftarrow> (if processed then State_Monad.return None else wo_apply st (be_provider e) (be_id e) (wk_now c));
         State_Monad.return
           (case err of
              Some _ \<Rightarrow> write_error 503 ''billing_reconciliation_pending'' ''api_error''
                ''billing event is retained for reconciliation'' request_id w
            | None \<Rightarrow> write_json 200 (JObject [(''duplicate'', JBool duplicate), (''received'', JBool True)]) w)
       }
   }"

definition serve_webhook ::
  "webhook_config \<Rightarrow> verifier \<Rightarrow> 's webhook_store \<Rightarrow> http_request \<Rightarrow> response_writer \<Rightarrow> ('s, response_writer) state" where
  "serve_webhook c vf st r w =
     (case wk_new_id c of
        Inl _ \<Rightarrow> State_Monad.return
          (write_error 500 ''internal_error'' ''api_error'' ''webhook request could not be initialised'' [] w)
      | Inr request_id \<Rightarrow>
          let w = set_header ''X-Request-Id'' request_id (set_header ''X-Alzette-Request-Id'' request_id w)
          in if hr_path r \<noteq> ''/webhooks/stripe'' then State_Monad.return
               (write_error 404 ''not_found'' ''invalid_request_error'' ''resource not found'' request_id w)
             else if hr_method r \<noteq> ''POST'' then State_Monad.return (method_not_allowed ''POST'' request_id w)
             else if \<not> vf_configured vf then State_Monad.return
               (write_error 503 ''payment_not_configured'' ''api_error'' ''billing webhook verification is not configured'' request_id w)
             else if wk_media_type c (header_get (hr_header r) ''Content-Type'') \<noteq> Some ''application/json'' then State_Monad.return
               (write_error 415 ''unsupported_media_type'' ''invalid_request_error'' ''Content-Type must be application/json'' request_id w)
             else (case webhook_signature r of
                     None \<Rightarrow> State_Monad.return (invalid_signature request_id w)
                   | Some signature \<Rightarrow>
                       (case webhook_body c r of
                          None \<Rightarrow> State_Monad.return
                            (write_error 413 ''invalid_webhook'' ''invalid_request_error'' ''webhook body is invalid'' request_id w)
                        | Some payload \<Rightarrow>
                            (case vf_verify vf payload signature (wk_now c) of
                               Inl _ \<Rightarrow> State_Monad.return (invalid_signature request_id w)
                             | Inr e \<Rightarrow> record_event c st request_id w
                                 (e\<lparr>be_payload_digest := wk_sha c payload, be_verified_at := wk_now c\<rparr>)))))"

section \<open>What the handler lets through\<close>

text \<open>The event a request carries: of its one signature and its bounded body, as the verifier reads it.\<close>

definition verified_event :: "webhook_config \<Rightarrow> verifier \<Rightarrow> http_request \<Rightarrow> billing_event option" where
  "verified_event c vf r =
     (case (webhook_signature r, webhook_body c r) of
        (Some signature, Some payload) \<Rightarrow>
          (case vf_verify vf payload signature (wk_now c) of
             Inl _ \<Rightarrow> None
           | Inr e \<Rightarrow> Some (e\<lparr>be_payload_digest := wk_sha c payload, be_verified_at := wk_now c\<rparr>))
      | _ \<Rightarrow> None)"

text \<open>Either the handler answers with an error and does nothing, or it hands a verified event to the store.\<close>

lemma serve_webhook_cases:
  assumes "rw_sent w = None"
  shows "(\<exists>w' st0. serve_webhook c vf st r w = State_Monad.return w' \<and> response_status w' = Some st0 \<and> 400 \<le> st0) \<or>
    (\<exists>e request_id w'. verified_event c vf r = Some e \<and> vf_configured vf \<and> hr_method r = ''POST'' \<and> rw_sent w' = None \<and>
       serve_webhook c vf st r w = record_event c st request_id w' e)"
proof (cases "wk_new_id c")
  case (Inl e)
  then show ?thesis using assms
    by (intro disjI1 exI [of _ "write_error 500 ''internal_error'' ''api_error'' ''webhook request could not be initialised'' [] w"] exI [of _ 500])
      (simp add: serve_webhook_def)
next
  case (Inr i)
  let ?w = "set_header ''X-Request-Id'' i (set_header ''X-Alzette-Request-Id'' i w)"
  have sent: "rw_sent ?w = None" using assms by simp
  have refused: ?thesis if "serve_webhook c vf st r w = State_Monad.return (write_error st0 code ty msg i v)" "rw_sent v = None" "400 \<le> st0"
    for st0 code ty msg v
    using that write_error_status [OF that(2)] by blast
  note unfold = serve_webhook_def Inr Let_def sum.case
  consider "hr_path r \<noteq> ''/webhooks/stripe''" | "hr_path r = ''/webhooks/stripe''" "hr_method r \<noteq> ''POST''"
    | "hr_path r = ''/webhooks/stripe''" "hr_method r = ''POST''" "\<not> vf_configured vf"
    | "hr_path r = ''/webhooks/stripe''" "hr_method r = ''POST''" "vf_configured vf"
      "wk_media_type c (header_get (hr_header r) ''Content-Type'') \<noteq> Some ''application/json''"
    | (body) "hr_path r = ''/webhooks/stripe''" "hr_method r = ''POST''" "vf_configured vf"
      "wk_media_type c (header_get (hr_header r) ''Content-Type'') = Some ''application/json''"
    by blast
  then show ?thesis
  proof cases
    case 1
    then show ?thesis using refused sent by (simp only: unfold if_True simp_thms)
  next
    case 2
    have "rw_sent (set_header ''Allow'' ''POST'' ?w) = None" using assms by simp
    with 2 show ?thesis using refused by (simp only: unfold method_not_allowed_def if_True if_False simp_thms)
  next
    case 3
    then show ?thesis using refused sent by (simp only: unfold if_True if_False simp_thms)
  next
    case 4
    then show ?thesis using refused sent by (simp only: unfold if_True if_False simp_thms)
  next
    case body
    then have s: "serve_webhook c vf st r w =
        (case webhook_signature r of
           None \<Rightarrow> State_Monad.return (invalid_signature i ?w)
         | Some signature \<Rightarrow>
             (case webhook_body c r of
                None \<Rightarrow> State_Monad.return
                  (write_error 413 ''invalid_webhook'' ''invalid_request_error'' ''webhook body is invalid'' i ?w)
              | Some payload \<Rightarrow>
                  (case vf_verify vf payload signature (wk_now c) of
                     Inl _ \<Rightarrow> State_Monad.return (invalid_signature i ?w)
                   | Inr e \<Rightarrow> record_event c st i ?w
                       (e\<lparr>be_payload_digest := wk_sha c payload, be_verified_at := wk_now c\<rparr>))))"
      by (simp only: unfold if_True if_False simp_thms)
    show ?thesis
    proof (cases "verified_event c vf r")
      case None
      then show ?thesis
      proof (cases "webhook_signature r")
        case None
        then show ?thesis using refused [OF _ sent] s by (simp add: invalid_signature_def)
      next
        case (Some sg)
        with None show ?thesis using refused [OF _ sent] s
          by (cases "webhook_body c r") (auto simp: invalid_signature_def verified_event_def split: sum.splits)
      qed
    next
      case (Some e)
      then obtain sg payload e0 where "webhook_signature r = Some sg" "webhook_body c r = Some payload"
        "vf_verify vf payload sg (wk_now c) = Inr e0" "e = e0\<lparr>be_payload_digest := wk_sha c payload, be_verified_at := wk_now c\<rparr>"
        by (auto simp: verified_event_def split: option.splits sum.splits)
      then have "serve_webhook c vf st r w = record_event c st i ?w e" by (simp add: s)
      with Some body sent show ?thesis by blast
    qed
  qed
qed

lemma record_event_ok:
  assumes "run_state (record_event c st request_id w e) s = (w', t)" and "rw_sent w = None" and "response_status w' = Some 200"
  shows "\<exists>duplicate processed u. run_state (wo_receive st e) s = (Inr (duplicate, processed), u) \<and>
    (if processed then t = u else run_state (wo_apply st (be_provider e) (be_id e) (wk_now c)) u = (None, t))"
  using assms
  by (auto simp: record_event_def split: sum.splits prod.splits option.splits if_splits)

end
