(* ===== verification/Sql_Transactions.thy ===== *)
theory Sql_Transactions
  imports Platform
begin

text \<open>
  How the PostgreSQL stores are modelled: a database is a record of tables, a table a map from its
  primary key to a row; a statement is a function of the tables, which the database may refuse for any
  reason - a lost connection, a serialisation failure, a constraint - and a transaction that ends with an
  error leaves the tables as they were.
\<close>

section \<open>Rows\<close>

definition amend :: "'k \<Rightarrow> ('v \<Rightarrow> 'v) \<Rightarrow> ('k, 'v) go_map \<Rightarrow> ('k, 'v) go_map" where
  "amend k f m = map (\<lambda>(k', v). (k', if k' = k then f v else v)) m"

lemma map_of_amend [go_map_simps]: "map_of (amend k f m) k' = (if k' = k then map_option f (map_of m k) else map_of m k')"
  by (induction m) (auto simp: amend_def)

lemma keys_amend [simp]: "map fst (amend k f m) = map fst m"
  by (induction m) (auto simp: amend_def)

section \<open>Statements and transactions\<close>

text \<open>
  \<open>ve_ids\<close> is \<open>ids.New\<close>, whose randomness the model leaves open; \<open>ve_sql_now\<close> is the database's clock.
\<close>

record 'db sql_env =
  ve_refuses :: "string \<Rightarrow> 'db \<Rightarrow> err option"
  ve_ids :: "string \<Rightarrow> 'db \<Rightarrow> err + string"
  ve_sql_now :: time

definition query :: "'db sql_env \<Rightarrow> string \<Rightarrow> ('db \<Rightarrow> 'a) \<Rightarrow> ('db, err + 'a) state" where
  "query env statement f = State (\<lambda>db.
     case ve_refuses env statement db of Some e \<Rightarrow> (Inl e, db) | None \<Rightarrow> (Inr (f db), db))"

definition exec :: "'db sql_env \<Rightarrow> string \<Rightarrow> ('db \<Rightarrow> err + 'db) \<Rightarrow> ('db, err + unit) state" where
  "exec env statement f = State (\<lambda>db.
     case ve_refuses env statement db of
       Some e \<Rightarrow> (Inl e, db)
     | None \<Rightarrow> (case f db of Inl e \<Rightarrow> (Inl e, db) | Inr db' \<Rightarrow> (Inr (), db')))"

text \<open>
  A statement whose error the code drops: PostgreSQL has aborted the transaction, so the next
  statement or the commit fails.
\<close>

definition err_aborted :: err where
  "err_aborted = ErrText ''current transaction is aborted, commands ignored until end of transaction block''"

definition exec_ignored :: "'db sql_env \<Rightarrow> string \<Rightarrow> ('db \<Rightarrow> 'db) \<Rightarrow> ('db, err + unit) state" where
  "exec_ignored env statement f = State (\<lambda>db.
     case ve_refuses env statement db of Some _ \<Rightarrow> (Inl err_aborted, db) | None \<Rightarrow> (Inr (), f db))"

definition fresh_id :: "'db sql_env \<Rightarrow> string \<Rightarrow> ('db, err + string) state" where
  "fresh_id env prefix = State (\<lambda>db. (ve_ids env prefix db, db))"

abbreviation ok :: "'a \<Rightarrow> ('s, err + 'a) state" where
  "ok a \<equiv> State_Monad.return (Inr a)"

abbreviation fails :: "err \<Rightarrow> ('s, err + 'a) state" where
  "fails e \<equiv> State_Monad.return (Inl e)"

definition commit :: "'db sql_env \<Rightarrow> 'a \<Rightarrow> ('db, err + 'a) state" where
  "commit env a = or_return (exec env ''COMMIT'' Inr) (\<lambda>_. ok a)"

definition transaction :: "'db sql_env \<Rightarrow> ('db, err + 'a) state \<Rightarrow> ('db, err + 'a) state" where
  "transaction env m = State (\<lambda>db.
     case run_state (or_return (exec env ''BEGIN'' Inr) (\<lambda>_. m)) db of
       (Inl e, _) \<Rightarrow> (Inl e, db)
     | (Inr a, db') \<Rightarrow> (Inr a, db'))"

definition as_error :: "('db, err + unit) state \<Rightarrow> ('db, err option) state" where
  "as_error m = do { r \<leftarrow> m; State_Monad.return (case r of Inl e \<Rightarrow> Some e | Inr _ \<Rightarrow> None) }"

definition unique_violation :: err where
  "unique_violation = ErrText ''duplicate key value violates unique constraint''"

definition check_violation :: err where
  "check_violation = ErrText ''violates check constraint''"

definition foreign_key_violation :: err where
  "foreign_key_violation = ErrText ''violates foreign key constraint''"

definition err_no_rows :: err where
  "err_no_rows = ErrText ''sql: no rows in result set''"

text \<open>An \<open>UPDATE\<close> that a constraint or trigger refuses, that finds no row, or that changes one.\<close>

definition update_one :: "'db sql_env \<Rightarrow> string \<Rightarrow> ('db \<Rightarrow> err + 'db option) \<Rightarrow> ('db, err + unit) state" where
  "update_one env statement f = State (\<lambda>db.
     case ve_refuses env statement db of
       Some e \<Rightarrow> (Inl e, db)
     | None \<Rightarrow>
         (case f db of
            Inl e \<Rightarrow> (Inl e, db)
          | Inr None \<Rightarrow> (Inl ErrNotFound, db)
          | Inr (Some db') \<Rightarrow> (Inr (), db')))"

definition returning :: "'db sql_env \<Rightarrow> string \<Rightarrow> ('db \<Rightarrow> 'a \<times> 'db) \<Rightarrow> ('db, err + 'a) state" where
  "returning env statement f = State (\<lambda>db.
     case ve_refuses env statement db of Some e \<Rightarrow> (Inl e, db) | None \<Rightarrow> (case f db of (a, db') \<Rightarrow> (Inr a, db')))"

text \<open>\<open>QueryRow\<close> whose lack of a row is \<open>ErrNotFound\<close>.\<close>

definition query_one :: "'db sql_env \<Rightarrow> string \<Rightarrow> ('db \<Rightarrow> 'a option) \<Rightarrow> ('db, err + 'a) state" where
  "query_one env statement f =
     or_return (query env statement f) (\<lambda>found. State_Monad.return (case found of None \<Rightarrow> Inl ErrNotFound | Some a \<Rightarrow> Inr a))"

text \<open>A column that may be NULL, as a string, and a join over one: NULL equals nothing.\<close>

definition nullable :: "string \<Rightarrow> string option" where
  "nullable s = (if s = [] then None else Some s)"

definition refers_to :: "string \<Rightarrow> string \<Rightarrow> bool" where
  "refers_to column i \<longleftrightarrow> column \<noteq> [] \<and> column = i"

text \<open>\<open>database/sql\<close> refuses to scan NULL into a string.\<close>

definition err_scan_null :: err where
  "err_scan_null = ErrText ''sql: Scan error: converting NULL to string is unsupported''"

section \<open>Successful runs\<close>

named_theorems ran \<open>when an operation on a database succeeds, and how it ends\<close>

lemma ran_query [ran]: "run_state (query env st f) db = (Inr a, db') \<longleftrightarrow> ve_refuses env st db = None \<and> a = f db \<and> db' = db"
  by (auto simp: query_def split: option.splits)

lemma ran_exec [ran]: "run_state (exec env st f) db = (Inr u, db') \<longleftrightarrow> ve_refuses env st db = None \<and> f db = Inr db'"
  by (auto simp: exec_def split: option.splits sum.splits)

lemma ran_returning [ran]:
  "run_state (returning env st f) db = (Inr a, db') \<longleftrightarrow> ve_refuses env st db = None \<and> f db = (a, db')"
  by (auto simp: returning_def split: option.splits prod.splits)

lemma ran_exec_ignored [ran]:
  "run_state (exec_ignored env st f) db = (Inr u, db') \<longleftrightarrow> ve_refuses env st db = None \<and> db' = f db"
  by (auto simp: exec_ignored_def split: option.splits)

lemma ran_fresh_id [ran]: "run_state (fresh_id env p) db = (Inr i, db') \<longleftrightarrow> ve_ids env p db = Inr i \<and> db' = db"
  by (auto simp: fresh_id_def)

lemma ran_or_return [ran]:
  "run_state (or_return m k) s = (Inr a, t) \<longleftrightarrow> (\<exists>b u. run_state m s = (Inr b, u) \<and> run_state (k b) u = (Inr a, t))"
  by (auto split: prod.splits sum.splits)

lemma ran_query_one [ran]:
  "run_state (query_one env st f) db = (Inr a, db') \<longleftrightarrow> ve_refuses env st db = None \<and> f db = Some a \<and> db' = db"
  by (auto simp: query_one_def ran simp del: run_state_or_return split: option.splits)

lemma ran_commit [ran]:
  "run_state (commit env a) db = (Inr b, db') \<longleftrightarrow> ve_refuses env ''COMMIT'' db = None \<and> b = a \<and> db' = db"
  by (auto simp: commit_def ran simp del: run_state_or_return)

lemma ran_transaction [ran]:
  "run_state (transaction env m) db = (Inr a, db') \<longleftrightarrow> ve_refuses env ''BEGIN'' db = None \<and> run_state m db = (Inr a, db')"
proof -
  have "run_state (transaction env m) db = (Inr a, db') \<longleftrightarrow>
      run_state (or_return (exec env ''BEGIN'' Inr) (\<lambda>_. m)) db = (Inr a, db')"
    unfolding transaction_def by (auto simp del: run_state_or_return split: prod.splits sum.splits)
  then show ?thesis by (auto simp: ran simp del: run_state_or_return)
qed

lemma ran_as_error: "run_state (as_error m) db = (None, db') \<longleftrightarrow> run_state m db = (Inr (), db')"
  by (auto simp: as_error_def split: prod.splits sum.splits)

text \<open>A transaction that ends with an error leaves the tables as they were.\<close>

lemma transaction_error: "run_state (transaction env m) db = (Inl e, db') \<Longrightarrow> db' = db"
  unfolding transaction_def by (auto simp del: run_state_or_return split: prod.splits sum.splits)

lemma transaction_result:
  assumes "run_state (transaction env m) db = (r, db')"
  shows "db' = db \<or> (\<exists>a. run_state m db = (Inr a, db'))"
proof (cases r)
  case (Inl e)
  with assms have "db' = db" by (simp add: transaction_error)
  then show ?thesis ..
next
  case (Inr a)
  with assms show ?thesis by (auto simp: ran_transaction)
qed

lemma as_error_result: "run_state (as_error m) db = (r, db') \<Longrightarrow> \<exists>r'. run_state m db = (r', db')"
  by (auto simp: as_error_def split: prod.splits)

end
