(* ===== verification/Endpoints.thy ===== *)
theory Endpoints
  imports Billing Sql_Transactions
begin

text \<open>
  Customer endpoints: the data and the service of \<open>internal/endpoints/endpoints.go\<close> over a table of store
  operations. \<open>strings.ToLower\<close> and SHA-256 are parameters; the instant a method reads from the clock is
  its argument \<open>now\<close>.
\<close>

section \<open>Data\<close>

record workload =
  wl_use_case :: string
  wl_context_tokens :: "int option"
  wl_concurrency :: "int option"
  wl_requests_per_minute :: "int option"
  wl_latency_priority :: "string option"
  wl_monthly_requests :: "int option"
  wl_user_count :: "int option"

record configuration =
  ecf_id :: string
  ecf_model_slug :: string
  ecf_model_name :: string
  ecf_release_version :: string
  ecf_offer_code :: string
  ecf_offer_kind :: string
  ecf_profile_code :: string
  ecf_alias :: string
  ecf_capacity_units :: int
  ecf_workload :: workload
  ecf_status :: string
  ecf_request_id :: "string option"
  ecf_created_at :: time
  ecf_submitted_at :: "time option"

record rail =
  rl_state :: string
  rl_detail :: string

record payment_requirement =
  prq_id :: string
  prq_purpose :: string
  prq_state :: string
  prq_amount :: int
  prq_currency :: string
  prq_billing_period :: string
  prq_tax_treatment :: string
  prq_collection_mode :: string
  prq_price_finality :: string
  prq_paid_at :: "time option"

record allowance =
  alw_request_limit :: "int option"
  alw_requests_used :: int
  alw_token_limit :: "int option"
  alw_period :: string
  alw_period_start :: "time option"
  alw_period_end :: "time option"
  alw_hard_limit :: bool

text \<open>The instant of the last update, which only the pages show, is left out of an endpoint.\<close>

record endpoint =
  ep_id :: string
  ep_configuration_id :: string
  ep_request_id :: "string option"
  ep_alias :: string
  ep_model_slug :: string
  ep_model_name :: string
  ep_model_version :: string
  ep_profile_code :: string
  ep_service_mode :: string
  ep_execution_class :: string
  ep_execution_evidenced :: bool
  ep_capacity_units :: int
  ep_allowance :: "allowance option"
  ep_configuration :: rail
  ep_commercial :: rail
  ep_payment :: rail
  ep_runtime :: rail
  ep_requirement :: "payment_requirement option"
  ep_route_bound :: bool
  ep_callable :: bool
  ep_created_at :: time

record deployment_request =
  drv_id :: string
  drv_configuration_id :: string
  drv_endpoint_id :: string
  drv_kind :: string
  drv_status :: string
  drv_profile_code :: string
  drv_model_slug :: string
  drv_model_name :: string
  drv_model_version :: string
  drv_alias :: string
  drv_current_units :: "int option"
  drv_requested_units :: int
  drv_workload :: workload
  drv_quote_id :: "string option"
  drv_requirement_id :: "string option"
  drv_submitted_at :: "time option"
  drv_approved_at :: "time option"
  drv_completed_at :: "time option"

text \<open>The request of a quote is never set by the store and the capacity snapshot is a JSON object.\<close>

record quote =
  qv_id :: string
  qv_request_id :: string
  qv_version :: int
  qv_kind :: string
  qv_profile_code :: string
  qv_capacity_units :: int
  qv_service_mode :: string
  qv_execution_class :: string
  qv_accelerator_class :: "string option"
  qv_accelerator_count :: "int option"
  qv_capacity :: json
  qv_currency :: string
  qv_billing_period :: string
  qv_recurring_unit :: int
  qv_recurring_total :: int
  qv_setup_total :: int
  qv_tax_treatment :: string
  qv_price_finality :: string
  qv_status :: string
  qv_collection_mode :: string
  qv_due_days :: "int option"
  qv_source :: string
  qv_offered_at :: time
  qv_expires_at :: time
  qv_accepted_at :: "time option"

record create_input =
  ci_model_slug :: string
  ci_service_mode :: string
  ci_offer_code :: string
  ci_profile_code :: string
  ci_alias :: string
  ci_capacity_units :: int
  ci_workload :: workload

record patch_input =
  pin_capacity_units :: "int option"
  pin_workload :: "workload option"

record accept_result =
  arl_quote :: quote
  arl_endpoint :: endpoint
  arl_requirement :: "payment_requirement option"

record quote_spec =
  qs_request_id :: string
  qs_currency :: string
  qs_billing_period :: string
  qs_recurring_unit :: int
  qs_setup_total :: int
  qs_tax_treatment :: string
  qs_price_finality :: string
  qs_collection_mode :: string
  qs_due_days :: "int option"
  qs_expires_at :: time
  qs_source_label :: string
  qs_evidence_ref :: string

record transition_spec =
  ts_request_id :: string
  ts_state :: string
  ts_evidence_ref :: string
  ts_target_name :: string

section \<open>Checks\<close>

definition err_recent_endpoint_authentication :: err where
  "err_recent_endpoint_authentication = ErrNamed ''endpoints.ErrRecentAuthenticationRequired''"

definition can_configure :: "portal_membership \<Rightarrow> bool" where
  "can_configure m \<longleftrightarrow> pmb_role m = role_org_admin \<or> pmb_role m = role_project_admin"

definition idempotency_digest :: "(string \<Rightarrow> string) \<Rightarrow> string \<Rightarrow> err + string" where
  "idempotency_digest sha v =
     (if length v < 8 \<or> length v > 128 \<or> trim_space v \<noteq> v \<or> contains_any v control_bytes then Inl ErrInvalid else Inr (sha v))"

definition valid_resource_id :: "string \<Rightarrow> bool" where
  "valid_resource_id v \<longleftrightarrow> length v \<ge> 8 \<and> length v \<le> 192 \<and> \<not> contains_any v [CHR ''/'', CHR 0x5C, CHR 0x00, CHR 0x0D, CHR 0x0A]"

definition optional_within :: "int \<Rightarrow> int option \<Rightarrow> bool" where
  "optional_within limit v \<longleftrightarrow> (case v of None \<Rightarrow> True | Some n \<Rightarrow> 1 \<le> n \<and> n \<le> limit)"

definition valid_workload :: "workload \<Rightarrow> bool" where
  "valid_workload w \<longleftrightarrow>
     length (wl_use_case w) \<le> 2000 \<and> optional_within 10000000 (wl_context_tokens w) \<and>
     optional_within 10000 (wl_concurrency w) \<and> optional_within 10000000 (wl_requests_per_minute w) \<and>
     optional_within 1000000000000 (wl_monthly_requests w) \<and> optional_within 10000 (wl_user_count w) \<and>
     (case wl_latency_priority w of None \<Rightarrow> True | Some p \<Rightarrow> p \<in> {''balanced'', ''latency'', ''throughput''})"

definition normalise_workload :: "(string \<Rightarrow> string) \<Rightarrow> workload \<Rightarrow> workload" where
  "normalise_workload lower w =
     w\<lparr>wl_use_case := trim_space (wl_use_case w),
       wl_latency_priority :=
         (case wl_latency_priority w of
            None \<Rightarrow> None
          | Some p \<Rightarrow> (let latency = lower (trim_space p) in if latency = [] then None else Some latency))\<rparr>"

definition recently_authenticated :: "portal_session \<Rightarrow> time \<Rightarrow> bool" where
  "recently_authenticated session now \<longleftrightarrow>
     \<not> (se_authenticated_at session = zero_time \<or> time_sub now (se_authenticated_at session) > 15 * minute)"

section \<open>The store's operations\<close>

record 's endpoint_store =
  es_list :: "portal_session \<Rightarrow> ('s, err + endpoint list) state"
  es_get :: "portal_session \<Rightarrow> string \<Rightarrow> ('s, err + endpoint) state"
  es_create :: "portal_session \<Rightarrow> create_input \<Rightarrow> string \<Rightarrow> ('s, err + configuration) state"
  es_update :: "portal_session \<Rightarrow> string \<Rightarrow> patch_input \<Rightarrow> ('s, err + configuration) state"
  es_submit :: "portal_session \<Rightarrow> string \<Rightarrow> string \<Rightarrow> time \<Rightarrow> ('s, err + endpoint) state"
  es_request :: "portal_session \<Rightarrow> string \<Rightarrow> ('s, err + deployment_request) state"
  es_quote :: "portal_session \<Rightarrow> string \<Rightarrow> ('s, err + quote) state"
  es_accept :: "portal_session \<Rightarrow> string \<Rightarrow> string \<Rightarrow> time \<Rightarrow> ('s, err + accept_result) state"
  es_capacity :: "portal_session \<Rightarrow> string \<Rightarrow> int \<Rightarrow> workload \<Rightarrow> string \<Rightarrow> time \<Rightarrow> ('s, err + deployment_request) state"
  es_configuration :: "(portal_session \<Rightarrow> string \<Rightarrow> ('s, err + configuration) state) option"

section \<open>The service\<close>

definition list_endpoints :: "'s endpoint_store \<Rightarrow> portal_session \<Rightarrow> ('s, err + endpoint list) state" where
  "list_endpoints es session = es_list es session"

definition get_endpoint :: "'s endpoint_store \<Rightarrow> portal_session \<Rightarrow> string \<Rightarrow> ('s, err + endpoint) state" where
  "get_endpoint es session i = (if \<not> valid_resource_id i then fails ErrNotFound else es_get es session i)"

definition get_configuration :: "'s endpoint_store \<Rightarrow> portal_session \<Rightarrow> string \<Rightarrow> ('s, err + configuration) state" where
  "get_configuration es session i =
     (if \<not> valid_resource_id i then fails ErrNotFound
      else case es_configuration es of None \<Rightarrow> fails ErrUnavailable | Some read \<Rightarrow> read session i)"

definition tidy_create_input :: "(string \<Rightarrow> string) \<Rightarrow> create_input \<Rightarrow> create_input" where
  "tidy_create_input lower input =
     input\<lparr>ci_model_slug := trim_space (lower (ci_model_slug input)), ci_service_mode := trim_space (lower (ci_service_mode input)),
       ci_offer_code := trim_space (lower (ci_offer_code input)), ci_profile_code := trim_space (lower (ci_profile_code input)),
       ci_alias := trim_space (ci_alias input), ci_workload := normalise_workload lower (ci_workload input)\<rparr>"

definition valid_units :: "int \<Rightarrow> bool" where
  "valid_units n \<longleftrightarrow> \<not> (n < 1 \<or> n > 128)"

definition valid_create_input :: "create_input \<Rightarrow> bool" where
  "valid_create_input input \<longleftrightarrow>
     slug_pattern (ci_model_slug input) \<and> valid_workload (ci_workload input) \<and>
     (if ci_service_mode input \<noteq> [] then
        ci_service_mode input \<in> {''shared'', ''dedicated''} \<and> ci_offer_code input = [] \<and> ci_profile_code input = [] \<and>
        ci_alias input = [] \<and> ci_capacity_units input = 0 \<and> wl_user_count (ci_workload input) \<noteq> None
      else slug_pattern (ci_offer_code input) \<and> slug_pattern (ci_profile_code input) \<and> alias_pattern (ci_alias input) \<and>
        valid_units (ci_capacity_units input))"

definition create_endpoint ::
  "'s endpoint_store \<Rightarrow> (string \<Rightarrow> string) \<Rightarrow> (string \<Rightarrow> string) \<Rightarrow> portal_session \<Rightarrow> create_input \<Rightarrow> string \<Rightarrow>
   ('s, err + configuration) state" where
  "create_endpoint es lower sha session input key =
     (if \<not> can_configure (se_current session) then fails ErrForbidden
      else let input = tidy_create_input lower input
           in if \<not> valid_create_input input then fails ErrInvalid
              else (case idempotency_digest sha key of
                      Inl e \<Rightarrow> fails e
                    | Inr digest \<Rightarrow> es_create es session input digest))"

definition valid_patch :: "patch_input \<Rightarrow> bool" where
  "valid_patch input \<longleftrightarrow>
     \<not> (pin_capacity_units input = None \<and> pin_workload input = None) \<and>
     (case pin_capacity_units input of None \<Rightarrow> True | Some n \<Rightarrow> valid_units n) \<and>
     (case pin_workload input of None \<Rightarrow> True | Some w \<Rightarrow> valid_workload w)"

definition update_endpoint ::
  "'s endpoint_store \<Rightarrow> (string \<Rightarrow> string) \<Rightarrow> (string \<Rightarrow> string) \<Rightarrow> portal_session \<Rightarrow> string \<Rightarrow> patch_input \<Rightarrow> string \<Rightarrow>
   ('s, err + configuration) state" where
  "update_endpoint es lower sha session i input key =
     (if \<not> can_configure (se_current session) \<or> \<not> valid_resource_id i then fails ErrForbidden
      else case idempotency_digest sha key of
             Inl e \<Rightarrow> fails e
           | Inr _ \<Rightarrow>
               let input = input\<lparr>pin_workload := map_option (normalise_workload lower) (pin_workload input)\<rparr>
               in if \<not> valid_patch input then fails ErrInvalid else es_update es session i input)"

definition submit_endpoint ::
  "'s endpoint_store \<Rightarrow> (string \<Rightarrow> string) \<Rightarrow> time \<Rightarrow> portal_session \<Rightarrow> string \<Rightarrow> string \<Rightarrow> ('s, err + endpoint) state" where
  "submit_endpoint es sha now session i key =
     (if \<not> can_configure (se_current session) \<or> \<not> valid_resource_id i then fails ErrForbidden
      else case idempotency_digest sha key of
             Inl e \<Rightarrow> fails e
           | Inr digest \<Rightarrow> es_submit es session i digest now)"

definition read_request :: "'s endpoint_store \<Rightarrow> portal_session \<Rightarrow> string \<Rightarrow> ('s, err + deployment_request) state" where
  "read_request es session i = (if \<not> valid_resource_id i then fails ErrNotFound else es_request es session i)"

definition read_quote :: "'s endpoint_store \<Rightarrow> portal_session \<Rightarrow> string \<Rightarrow> ('s, err + quote) state" where
  "read_quote es session i = (if \<not> valid_resource_id i then fails ErrNotFound else es_quote es session i)"

definition accept_quote ::
  "'s endpoint_store \<Rightarrow> (string \<Rightarrow> string) \<Rightarrow> time \<Rightarrow> portal_session \<Rightarrow> string \<Rightarrow> string \<Rightarrow> ('s, err + accept_result) state" where
  "accept_quote es sha now session i key =
     (if pmb_role (se_current session) \<noteq> role_org_admin then fails ErrForbidden
      else if \<not> recently_authenticated session now then fails err_recent_endpoint_authentication
      else case idempotency_digest sha key of
             Inl e \<Rightarrow> fails e
           | Inr digest \<Rightarrow> es_accept es session i digest now)"

definition change_capacity ::
  "'s endpoint_store \<Rightarrow> (string \<Rightarrow> string) \<Rightarrow> (string \<Rightarrow> string) \<Rightarrow> time \<Rightarrow> portal_session \<Rightarrow> string \<Rightarrow> int \<Rightarrow> workload \<Rightarrow> string \<Rightarrow>
   ('s, err + deployment_request) state" where
  "change_capacity es lower sha now session i units w key =
     (if pmb_role (se_current session) \<noteq> role_org_admin then fails ErrForbidden
      else let w = normalise_workload lower w
           in if wl_user_count w \<noteq> None \<or> \<not> valid_resource_id i \<or> \<not> valid_units units \<or> \<not> valid_workload w
              then fails ErrInvalid
              else (case idempotency_digest sha key of
                      Inl e \<Rightarrow> fails e
                    | Inr digest \<Rightarrow> es_capacity es session i units w digest now))"

end
