(* ===== verification/Billing_Store.thy ===== *)
theory Billing_Store
  imports Billing_Webhook Endpoints
begin

text \<open>
  The billing tables of \<open>internal/store/postgres/billing.go\<close>, with the activation of a shared endpoint
  of \<open>internal/store/postgres/endpoints.go\<close>. A table is a map from its primary key to a row with the
  columns the code reads; an empty string is NULL where the column is nullable. Every statement is a
  function of the tables; a statement may also be refused, for whatever reason, by the parameter
  \<open>ve_refuses\<close>, and a transaction that ends with an error leaves the tables as they were. The trigger on
  the receipts and the unique indexes that the code relies on are those of
  \<open>migrations/0009_endpoint_billing_control_plane.up.sql\<close>.
\<close>

section \<open>Tables\<close>

type_synonym event_mark = "(time \<times> string) option"

record requirement_row =
  rq_organisation_id :: string
  rq_project_id :: string
  rq_environment_id :: string
  rq_endpoint_id :: string
  rq_amount :: int
  rq_currency :: string
  rq_collection_mode :: string
  rq_state :: string
  rq_paid_at :: "time option"
  rq_paid_amount :: "int option"
  rq_paid_currency :: string
  rq_failure :: string
  rq_latest_event :: event_mark
  rq_request_id :: string
  rq_quote_id :: string
  rq_purpose :: string
  rq_billing_period :: string
  rq_tax_treatment :: string
  rq_price_finality :: string
  rq_source_label :: string
  rq_evidence_ref :: string
  rq_created_at :: time

record endpoint_row =
  er_organisation_id :: string
  er_project_id :: string
  er_environment_id :: string
  er_configuration_id :: string
  er_offer_id :: string
  er_service_mode :: string
  er_commercial_state :: string
  er_runtime_state :: string
  er_route_id :: string
  er_allowance_period :: string
  er_period_start :: "time option"
  er_period_end :: "time option"
  er_latest_payment :: event_mark
  er_profile_id :: string
  er_model_id :: string
  er_deployment_id :: string
  er_alias :: string
  er_capacity_units :: int
  er_request_allowance :: "int option"
  er_token_allowance :: "int option"
  er_requests_used :: int
  er_created_at :: time

record configuration_row =
  cf_organisation_id :: string
  cf_project_id :: string
  cf_environment_id :: string
  cf_offer_id :: string
  cf_profile_id :: string
  cf_model_id :: string
  cf_alias :: string
  cf_capacity_units :: int
  cf_workload :: workload
  cf_status :: string
  cf_requested_by :: string
  cf_key_hash :: string
  cf_request_id :: string
  cf_submitted_at :: "time option"
  cf_created_at :: time

record account_row =
  ac_organisation_id :: string
  ac_provider :: string
  ac_customer_ref :: string
  ac_state :: string
  ac_legal_name :: string
  ac_tax_status :: string

record checkout_row =
  ck_organisation_id :: string
  ck_requirement_id :: string
  ck_provider :: string
  ck_session_ref :: string
  ck_key_hash :: string
  ck_state :: string
  ck_expires_at :: "time option"
  ck_completed_at :: "time option"
  ck_updated_at :: time

record subscription_row =
  sbr_id :: string
  sbr_organisation_id :: string
  sbr_endpoint_id :: string
  sbr_requirement_id :: string
  sbr_customer_ref :: string
  sbr_status :: string
  sbr_period_start :: "time option"
  sbr_period_end :: "time option"
  sbr_cancel_at_period_end :: bool
  sbr_amount :: int
  sbr_currency :: string
  sbr_latest_at :: time
  sbr_latest_id :: string

record invoice_row =
  nv_id :: string
  nv_organisation_id :: string
  nv_endpoint_id :: string
  nv_requirement_id :: string
  nv_subscription_ref :: string
  nv_safe_number :: string
  nv_status :: string
  nv_amount_due :: int
  nv_amount_paid :: int
  nv_currency :: string
  nv_due_at :: "time option"
  nv_paid_at :: "time option"
  nv_latest_at :: time
  nv_latest_id :: string
  nv_created_at :: time

text \<open>The facts of a receipt are the event that was received.\<close>

record receipt_row =
  rc_event :: billing_event
  rc_state :: string
  rc_attempts :: int
  rc_failure :: string
  rc_processed_at :: "time option"

text \<open>\<open>resolvedOffer\<close>: an offer joined with its profile, model and price.\<close>

record resolved_offer =
  ofr_id :: string
  ofr_code :: string
  ofr_kind :: string
  ofr_profile_id :: string
  ofr_model_id :: string
  ofr_model_alias :: string
  ofr_model_slug :: string
  ofr_model_name :: string
  ofr_release_version :: string
  ofr_profile_code :: string
  ofr_profile_service_mode :: string
  ofr_execution_class :: string
  ofr_source_label :: string
  ofr_evidence_ref :: string
  ofr_min_units :: int
  ofr_max_units :: int
  ofr_target_id :: "string option"
  ofr_request_allowance :: "int option"
  ofr_token_allowance :: "int option"
  ofr_allowance_period :: "string option"
  ofr_price_id :: "string option"
  ofr_currency :: "string option"
  ofr_billing_period :: "string option"
  ofr_price_finality :: "string option"
  ofr_recurring_amount :: "int option"
  ofr_setup_amount :: "int option"

record target_row =
  tg_enabled :: bool
  tg_capacity_mode :: string
  tg_owner :: "string option"
  tg_name :: string
  tg_execution_class :: string

record route_row =
  rr_organisation_id :: string
  rr_project_id :: string
  rr_environment_id :: string
  rr_model_id :: string
  rr_target_id :: string
  rr_enabled :: bool

record plan_row =
  pn_organisation_id :: string
  pn_code :: string
  pn_name :: string
  pn_request_allowance :: "int option"
  pn_request_unit :: string
  pn_request_period :: string
  pn_token_allowance :: "int option"
  pn_token_unit :: string
  pn_token_period :: string
  pn_source_label :: string
  pn_capacity_mode :: string
  pn_resource_class :: string
  pn_accelerator_count :: "int option"
  pn_finality :: string

record tenant_plan_row =
  tn_organisation_id :: string
  tn_project_id :: string
  tn_environment_id :: string
  tn_route_id :: string
  tn_plan_id :: string
  tn_status :: string
  tn_effective_at :: time
  tn_source_label :: string
  tn_finality :: string

record audit_row =
  au_actor_id :: string
  au_organisation_id :: string
  au_project_id :: string
  au_action :: string
  au_result :: string
  au_metadata :: "(string \<times> string) list"

text \<open>
  Subscriptions, invoices and receipts are keyed by provider and the provider's reference; a price
  mapping, by its offer, is a price reference and whether it is active.
\<close>

record billing_db =
  db_organisations :: "(string, string) go_map"
  db_requirements :: "(string, requirement_row) go_map"
  db_endpoints :: "(string, endpoint_row) go_map"
  db_configurations :: "(string, configuration_row) go_map"
  db_offers :: "(string, resolved_offer) go_map"
  db_prices :: "(string, string \<times> bool) go_map"
  db_targets :: "(string, target_row) go_map"
  db_routes :: "(string, route_row) go_map"
  db_plans :: "(string, plan_row) go_map"
  db_tenant_plans :: "tenant_plan_row list"
  db_accounts :: "(string, account_row) go_map"
  db_checkouts :: "(string, checkout_row) go_map"
  db_subscriptions :: "(string \<times> string, subscription_row) go_map"
  db_invoices :: "(string \<times> string, invoice_row) go_map"
  db_receipts :: "(string \<times> string, receipt_row) go_map"
  db_audit :: "audit_row list"

type_synonym billing_env = "billing_db sql_env"

definition insert_audit ::
  "billing_env \<Rightarrow> string \<Rightarrow> string \<Rightarrow> string \<Rightarrow> string \<Rightarrow> string \<Rightarrow> (string \<times> string) list \<Rightarrow> (billing_db, err + unit) state" where
  "insert_audit env actor organisation project action result metadata =
     or_return (fresh_id env ''aud'') (\<lambda>_. or_return (fresh_id env ''act'') (\<lambda>_.
       exec env ''insert audit'' (\<lambda>db. Inr (db\<lparr>db_audit := db_audit db @
         [\<lparr>au_actor_id = actor, au_organisation_id = organisation, au_project_id = project, au_action = action,
           au_result = result, au_metadata = metadata\<rparr>]\<rparr>))))"

section \<open>Checkout\<close>

abbreviation in_current :: "portal_session \<Rightarrow> string \<Rightarrow> string \<Rightarrow> string \<Rightarrow> bool" where
  "in_current session org project environment \<equiv>
     org = pmb_organisation_id (se_current session) \<and> project = pmb_project_id (se_current session) \<and>
     environment = pmb_environment_id (se_current session)"

definition active_account :: "string \<Rightarrow> billing_db \<Rightarrow> account_row option" where
  "active_account org db =
     find_value (\<lambda>a. ac_organisation_id a = org \<and> ac_provider a = ''stripe'' \<and> ac_state a = ''active'') (db_accounts db)"

definition active_price :: "string \<Rightarrow> billing_db \<Rightarrow> string" where
  "active_price offer db = (case map_of (db_prices db) offer of Some (ref, True) \<Rightarrow> ref | _ \<Rightarrow> [])"

text \<open>The requirement, in the session's scope, with its endpoint and the columns joined to it.\<close>

definition checkout_facts :: "portal_session \<Rightarrow> string \<Rightarrow> billing_db \<Rightarrow> (checkout_plan \<times> string \<times> string) option" where
  "checkout_facts session requirement_id db =
     (case map_of (db_requirements db) requirement_id of
        None \<Rightarrow> None
      | Some pr \<Rightarrow>
          if \<not> in_current session (rq_organisation_id pr) (rq_project_id pr) (rq_environment_id pr) then None
          else (case map_of (db_endpoints db) (rq_endpoint_id pr) of
                  None \<Rightarrow> None
                | Some ce \<Rightarrow>
                    if er_organisation_id ce \<noteq> rq_organisation_id pr \<or> er_project_id ce \<noteq> rq_project_id pr \<or>
                       er_environment_id ce \<noteq> rq_environment_id pr then None
                    else (case map_of (db_organisations db) (rq_organisation_id pr) of
                            None \<Rightarrow> None
                          | Some name \<Rightarrow> Some
                              (\<lparr>cp_organisation_id = rq_organisation_id pr, cp_organisation_name = name,
                                cp_endpoint_id = rq_endpoint_id pr, cp_requirement_id = requirement_id, cp_provider = [],
                                cp_customer_ref = (case active_account (rq_organisation_id pr) db of
                                    None \<Rightarrow> [] | Some a \<Rightarrow> ac_customer_ref a),
                                cp_price_ref = active_price (er_offer_id ce) db, cp_mode = [], cp_operation_id = [],
                                cp_operation_key = []\<rparr>, rq_state pr, rq_collection_mode pr))))"

definition paid_response :: "string \<Rightarrow> checkout_response" where
  "paid_response requirement_id =
     \<lparr>co_schema = ''alzette.portal.checkout.v1'', co_requirement_id = requirement_id, co_state = ''paid'',
      co_hosted_url = [], co_expires_at = None, co_payment_confirmed = True, co_runtime_ready = False\<rparr>"

definition open_states :: "string list" where
  "open_states = [''creating'', ''open'']"

definition insert_checkout :: "string \<Rightarrow> checkout_row \<Rightarrow> billing_db \<Rightarrow> err + billing_db" where
  "insert_checkout i row db =
     (if map_of (db_checkouts db) i \<noteq> None \<or>
         find_value (\<lambda>r. ck_requirement_id r = ck_requirement_id row \<and> ck_state r \<in> set open_states) (db_checkouts db) \<noteq> None
      then Inl unique_violation
      else Inr (db\<lparr>db_checkouts := AList.update i row (db_checkouts db)\<rparr>))"

definition with_operation :: "string \<Rightarrow> checkout_plan \<Rightarrow> checkout_plan" where
  "with_operation i plan = plan\<lparr>cp_operation_id := i, cp_operation_key := ''alzette-checkout-'' @ i\<rparr>"

definition prepare_checkout ::
  "billing_env \<Rightarrow> portal_session \<Rightarrow> string \<Rightarrow> string \<Rightarrow> time \<Rightarrow>
   (billing_db, err + checkout_plan \<times> checkout_response option) state" where
  "prepare_checkout env session requirement_id digest now = transaction env
     (or_return (query env ''select requirement'' (checkout_facts session requirement_id)) (\<lambda>found.
       case found of
         None \<Rightarrow> fails ErrNotFound
       | Some (plan, state, collection) \<Rightarrow>
           if state = ''paid'' then ok (plan, Some (paid_response requirement_id))
           else if state \<notin> {''action_required'', ''pending'', ''failed''} then fails ErrConflict
           else if collection \<notin> {''checkout_subscription'', ''checkout_payment''} then fails ErrConflict
           else if cp_price_ref plan = [] then fails err_not_configured
           else
             let plan = plan\<lparr>cp_provider := ''stripe'',
                   cp_mode := (if collection = ''checkout_payment'' then ''payment'' else ''subscription'')\<rparr>
             in or_return (query env ''select operation'' (\<lambda>db. find (\<lambda>(_, r). ck_key_hash r = digest) (db_checkouts db))) (\<lambda>existing.
               case existing of
                 Some (i, r) \<Rightarrow>
                   if ck_requirement_id r \<noteq> requirement_id then fails ErrConflict
                   else ok (with_operation i plan, None)
               | None \<Rightarrow>
                   or_return (fresh_id env ''bcs'') (\<lambda>i.
                   or_return (exec env ''insert checkout'' (insert_checkout i
                     \<lparr>ck_organisation_id = cp_organisation_id plan, ck_requirement_id = requirement_id, ck_provider = ''stripe'',
                      ck_session_ref = [], ck_key_hash = digest, ck_state = ''creating'', ck_expires_at = None,
                      ck_completed_at = None, ck_updated_at = ve_sql_now env\<rparr>)) (\<lambda>_.
                   or_return (insert_audit env (pu_id (se_user session)) (pmb_organisation_id (se_current session))
                     (pmb_project_id (se_current session)) ''billing.checkout_requested'' ''succeeded''
                     [(''payment_requirement_id'', requirement_id), (''endpoint_id'', cp_endpoint_id plan), (''mode'', cp_mode plan)]) (\<lambda>_.
                   commit env (with_operation i plan, None)))))))"

text \<open>
  \<open>INSERT ... ON CONFLICT(organisation_id) DO UPDATE ... WHERE\<close>: no row is affected when the
  organisation does not exist or already has another customer, which the code reports as a conflict.
\<close>

definition link_customer :: "string \<Rightarrow> string \<Rightarrow> string \<Rightarrow> string \<Rightarrow> billing_db \<Rightarrow> err + billing_db" where
  "link_customer i provider customer_ref org db =
     (case map_of (db_organisations db) org of
        None \<Rightarrow> Inl ErrConflict
      | Some name \<Rightarrow>
          (case find_value (\<lambda>a. ac_organisation_id a = org) (db_accounts db) of
             Some a \<Rightarrow> if ac_provider a = provider \<and> ac_customer_ref a = customer_ref then Inr db else Inl ErrConflict
           | None \<Rightarrow>
               if map_of (db_accounts db) i \<noteq> None \<or>
                  find_value (\<lambda>a. ac_provider a = provider \<and> ac_customer_ref a = customer_ref) (db_accounts db) \<noteq> None
               then Inl unique_violation
               else Inr (db\<lparr>db_accounts := AList.update i
                 \<lparr>ac_organisation_id = org, ac_provider = provider, ac_customer_ref = customer_ref, ac_state = ''active'',
                  ac_legal_name = name, ac_tax_status = ''not_collected''\<rparr> (db_accounts db)\<rparr>)))"

definition set_billing_customer ::
  "billing_env \<Rightarrow> portal_session \<Rightarrow> string \<Rightarrow> string \<Rightarrow> time \<Rightarrow> (billing_db, err option) state" where
  "set_billing_customer env session customer_ref provider now =
     (if provider \<noteq> ''stripe'' then State_Monad.return (Some ErrInvalid)
      else as_error (transaction env
        (or_return (fresh_id env ''bac'') (\<lambda>i.
         or_return (exec env ''link customer'' (link_customer i provider customer_ref (pmb_organisation_id (se_current session)))) (\<lambda>_.
         or_return (insert_audit env (pu_id (se_user session)) (pmb_organisation_id (se_current session))
           (pmb_project_id (se_current session)) ''billing.customer_linked'' ''succeeded'' [(''provider'', provider)]) (\<lambda>_.
         commit env ()))))))"

definition completable :: "portal_session \<Rightarrow> checkout_plan \<Rightarrow> hosted_result \<Rightarrow> checkout_row \<Rightarrow> bool" where
  "completable session plan hosted r \<longleftrightarrow>
     ck_organisation_id r = pmb_organisation_id (se_current session) \<and> ck_requirement_id r = cp_requirement_id plan \<and>
     ck_state r \<in> set open_states \<and> (ck_session_ref r = [] \<or> ck_session_ref r = ho_session_ref hosted)"

definition complete_row :: "billing_env \<Rightarrow> portal_session \<Rightarrow> checkout_plan \<Rightarrow> hosted_result \<Rightarrow> billing_db \<Rightarrow> err + billing_db" where
  "complete_row env session plan hosted db =
     (case map_of (db_checkouts db) (cp_operation_id plan) of
        None \<Rightarrow> Inl ErrNotFound
      | Some r \<Rightarrow>
          if \<not> completable session plan hosted r then Inl ErrNotFound
          else if find (\<lambda>(i, r'). i \<noteq> cp_operation_id plan \<and> ck_provider r' = ck_provider r \<and>
                 ck_session_ref r' = ho_session_ref hosted) (db_checkouts db) \<noteq> None
          then Inl unique_violation
          else Inr (db\<lparr>db_checkouts := AList.update (cp_operation_id plan)
            (r\<lparr>ck_session_ref := ho_session_ref hosted, ck_state := ''open'', ck_expires_at := Some (ho_expires_at hosted),
               ck_updated_at := ve_sql_now env\<rparr>) (db_checkouts db)\<rparr>))"

definition complete_checkout ::
  "billing_env \<Rightarrow> portal_session \<Rightarrow> checkout_plan \<Rightarrow> hosted_result \<Rightarrow> time \<Rightarrow> (billing_db, err option) state" where
  "complete_checkout env session plan hosted now = as_error (transaction env
     (or_return (exec env ''complete checkout'' (complete_row env session plan hosted)) (\<lambda>_. commit env ())))"

definition prepare_billing_portal ::
  "billing_env \<Rightarrow> portal_session \<Rightarrow> string \<Rightarrow> time \<Rightarrow> (billing_db, err + portal_plan) state" where
  "prepare_billing_portal env session digest now =
     or_return (query env ''select account'' (active_account (pmb_organisation_id (se_current session)))) (\<lambda>found.
       State_Monad.return
         (case found of
            None \<Rightarrow> Inl ErrNotFound
          | Some a \<Rightarrow> Inr \<lparr>pp_organisation_id = ac_organisation_id a, pp_customer_ref = ac_customer_ref a,
              pp_operation_key = ''alzette-portal-'' @ hex_encode (take 12 digest)\<rparr>))"

end
