(* ===== verification/Billing_Events.thy ===== *)
theory Billing_Events
  imports Billing_Store
begin

unbundle bit_operations_syntax

text \<open>
  Receipts of verified events and their application to requirements, endpoints, subscriptions and
  invoices: the second half of \<open>internal/store/postgres/billing.go\<close>.
\<close>

section \<open>Receiving\<close>

abbreviation event_key :: "billing_event \<Rightarrow> string \<times> string" where
  "event_key e \<equiv> (be_provider e, be_id e)"

definition equal_bytes :: "string \<Rightarrow> string \<Rightarrow> bool" where
  "equal_bytes left right \<longleftrightarrow>
     length left = length right \<and>
     fold (\<lambda>(a, b) different. different OR (of_char a XOR of_char b)) (zip left right) (0 :: 8 word) = 0"

definition fresh_receipt :: "billing_event \<Rightarrow> receipt_row" where
  "fresh_receipt e = \<lparr>rc_event = e, rc_state = ''received'', rc_attempts = 0, rc_failure = [], rc_processed_at = None\<rparr>"

text \<open>\<open>INSERT ... ON CONFLICT DO NOTHING\<close>: whether a row was inserted.\<close>

definition insert_receipt :: "billing_env \<Rightarrow> billing_event \<Rightarrow> (billing_db, err + bool) state" where
  "insert_receipt env e = State (\<lambda>db.
     case ve_refuses env ''insert receipt'' db of
       Some er \<Rightarrow> (Inl er, db)
     | None \<Rightarrow>
         if map_of (db_receipts db) (event_key e) \<noteq> None then (Inr False, db)
         else (Inr True, db\<lparr>db_receipts := AList.update (event_key e) (fresh_receipt e) (db_receipts db)\<rparr>))"

definition receivable :: "billing_event \<Rightarrow> bool" where
  "receivable e \<longleftrightarrow>
     \<not> (be_provider e \<noteq> ''stripe'' \<or> be_id e = [] \<or> be_type e = [] \<or> be_object_ref e = [] \<or>
        be_created_at e = zero_time \<or> be_verified_at e = zero_time)"

definition receive_billing_event :: "billing_env \<Rightarrow> billing_event \<Rightarrow> (billing_db, err + bool \<times> bool) state" where
  "receive_billing_event env e =
     (if \<not> receivable e then fails ErrInvalid
      else or_return (insert_receipt env e) (\<lambda>inserted.
        if inserted then ok (False, False)
        else or_return (query env ''select receipt'' (\<lambda>db. map_of (db_receipts db) (event_key e))) (\<lambda>found.
          case found of
            None \<Rightarrow> fails err_no_rows
          | Some rc \<Rightarrow>
              if be_type (rc_event rc) \<noteq> be_type e \<or> be_object_ref (rc_event rc) \<noteq> be_object_ref e \<or>
                 \<not> equal_bytes (be_payload_digest (rc_event rc)) (be_payload_digest e)
              then fails ErrInvalid
              else ok (True, rc_state rc = ''processed''))))"

section \<open>The receipt of an event\<close>

definition err_immutable_receipt :: err where
  "err_immutable_receipt = ErrText ''verified billing webhook receipt facts are immutable''"

text \<open>The trigger \<open>protect_billing_webhook_receipt_0009\<close>.\<close>

definition protect_receipt :: "receipt_row \<Rightarrow> receipt_row \<Rightarrow> err + receipt_row" where
  "protect_receipt old new = (if rc_event new \<noteq> rc_event old then Inl err_immutable_receipt else Inr new)"

definition update_receipt ::
  "billing_env \<Rightarrow> string \<Rightarrow> string \<times> string \<Rightarrow> (receipt_row \<Rightarrow> receipt_row) \<Rightarrow> (billing_db, err + unit) state" where
  "update_receipt env statement k f = exec env statement (\<lambda>db.
     case map_of (db_receipts db) k of
       None \<Rightarrow> Inr db
     | Some rc \<Rightarrow>
         (case protect_receipt rc (f rc) of
            Inl e \<Rightarrow> Inl e
          | Inr rc' \<Rightarrow> Inr (db\<lparr>db_receipts := amend k (\<lambda>_. rc') (db_receipts db)\<rparr>)))"

definition defer_receipt :: "receipt_row \<Rightarrow> receipt_row" where
  "defer_receipt rc = rc\<lparr>rc_state := ''deferred'', rc_attempts := rc_attempts rc + 1, rc_failure := ''unmatched_reference''\<rparr>"

definition reject_receipt :: "string \<Rightarrow> receipt_row \<Rightarrow> receipt_row" where
  "reject_receipt failure rc = rc\<lparr>rc_state := ''rejected'', rc_attempts := rc_attempts rc + 1, rc_failure := failure\<rparr>"

definition finish_receipt :: "string \<Rightarrow> string \<Rightarrow> time \<Rightarrow> receipt_row \<Rightarrow> receipt_row" where
  "finish_receipt payment_id safe_class now rc =
     rc\<lparr>rc_event := (rc_event rc)\<lparr>be_requirement_id :=
            (if be_requirement_id (rc_event rc) = [] then payment_id else be_requirement_id (rc_event rc))\<rparr>,
        rc_state := ''processed'', rc_attempts := rc_attempts rc + 1, rc_failure := safe_class, rc_processed_at := Some now\<rparr>"

definition reject_billing_event :: "billing_env \<Rightarrow> billing_event \<Rightarrow> string \<Rightarrow> (billing_db, err + unit) state" where
  "reject_billing_event env e failure =
     or_return (update_receipt env ''reject receipt'' (event_key e) (reject_receipt failure)) (\<lambda>_. commit env ())"

definition finish_billing_receipt :: "billing_env \<Rightarrow> billing_event \<Rightarrow> string \<Rightarrow> time \<Rightarrow> (billing_db, err + unit) state" where
  "finish_billing_receipt env e safe_class now =
     or_return (update_receipt env ''finish receipt'' (event_key e) (finish_receipt (be_requirement_id e) safe_class now))
       (\<lambda>_. commit env ())"

section \<open>The requirement of an event\<close>

definition session_requirement :: "billing_event \<Rightarrow> billing_db \<Rightarrow> string option" where
  "session_requirement e db = map_option ck_requirement_id
     (find_value (\<lambda>r. ck_provider r = be_provider e \<and> ck_session_ref r = be_object_ref e) (db_checkouts db))"

definition subscription_requirement :: "billing_event \<Rightarrow> billing_db \<Rightarrow> string option" where
  "subscription_requirement e db =
     map_option sbr_requirement_id (map_of (db_subscriptions db) (be_provider e, be_subscription_ref e))"

definition invoice_requirement :: "billing_event \<Rightarrow> billing_db \<Rightarrow> string option" where
  "invoice_requirement e db = map_option nv_requirement_id (map_of (db_invoices db) (be_provider e, be_invoice_ref e))"

definition candidates :: "billing_event \<Rightarrow> (string \<times> string \<times> (billing_db \<Rightarrow> string option)) list" where
  "candidates e =
     [(''select session'', be_object_ref e, session_requirement e),
      (''select subscription'', be_subscription_ref e, subscription_requirement e),
      (''select invoice'', be_invoice_ref e, invoice_requirement e)]"

fun resolve_candidates ::
  "billing_env \<Rightarrow> (string \<times> string \<times> (billing_db \<Rightarrow> string option)) list \<Rightarrow> (billing_db, err + string) state" where
  "resolve_candidates env [] = ok []"
| "resolve_candidates env ((statement, v, lookup) # cs) =
     (if v = [] then resolve_candidates env cs
      else or_return (query env statement lookup) (\<lambda>found.
        case found of Some i \<Rightarrow> ok i | None \<Rightarrow> resolve_candidates env cs))"

definition resolve_billing_payment_reference :: "billing_env \<Rightarrow> billing_event \<Rightarrow> (billing_db, err + string) state" where
  "resolve_billing_payment_reference env e = resolve_candidates env (candidates e)"

section \<open>Activation of a shared endpoint\<close>

text \<open>\<open>strings.ReplaceAll\<close> of one byte by another.\<close>

definition endpoint_plan_code :: "string \<Rightarrow> string" where
  "endpoint_plan_code endpoint_id = ''ep-'' @ take 58 (map (\<lambda>c. if c = CHR ''_'' then CHR ''-'' else c) endpoint_id)"

definition shared_target :: "string \<Rightarrow> billing_db \<Rightarrow> bool option" where
  "shared_target i db =
     (case map_of (db_targets db) i of
        None \<Rightarrow> None
      | Some tg \<Rightarrow> if tg_capacity_mode tg = ''shared'' \<and> tg_owner tg = None then Some (tg_enabled tg) else None)"

definition scope_route :: "tenant \<Rightarrow> string \<Rightarrow> billing_db \<Rightarrow> (string \<times> route_row) option" where
  "scope_route scope model db = find (\<lambda>(_, r). rr_organisation_id r = fst scope \<and> rr_project_id r = fst (snd scope) \<and>
     rr_environment_id r = snd (snd scope) \<and> rr_model_id r = model) (db_routes db)"

definition route_plan :: "tenant \<Rightarrow> string \<Rightarrow> billing_db \<Rightarrow> bool" where
  "route_plan scope route db \<longleftrightarrow>
     list_ex (\<lambda>tn. tn_organisation_id tn = fst scope \<and> tn_project_id tn = fst (snd scope) \<and>
        tn_environment_id tn = snd (snd scope) \<and> tn_route_id tn = route \<and> tn_status tn = ''active'' \<and>
        map_option pn_organisation_id (map_of (db_plans db) (tn_plan_id tn)) = Some (fst scope))
       (db_tenant_plans db)"

definition ensure_route :: "billing_env \<Rightarrow> tenant \<Rightarrow> string \<Rightarrow> string \<Rightarrow> (billing_db, err + string) state" where
  "ensure_route env scope model target =
     or_return (query env ''select route'' (scope_route scope model)) (\<lambda>found.
       case found of
         Some (i, r) \<Rightarrow> if rr_target_id r \<noteq> target then fails ErrConflict else ok i
       | None \<Rightarrow>
           or_return (fresh_id env ''rte'') (\<lambda>i.
           or_return (exec env ''insert route'' (\<lambda>db. Inr (db\<lparr>db_routes := AList.update i
             \<lparr>rr_organisation_id = fst scope, rr_project_id = fst (snd scope),
              rr_environment_id = snd (snd scope), rr_model_id = model, rr_target_id = target, rr_enabled = True\<rparr> (db_routes db)\<rparr>))) (\<lambda>_.
           ok i)))"

definition plan_period :: "resolved_offer \<Rightarrow> string" where
  "plan_period offer = (if ofr_allowance_period offer = Some ''month'' then ''month'' else ''contract_term'')"

definition shared_plan :: "tenant \<Rightarrow> string \<Rightarrow> resolved_offer \<Rightarrow> plan_row" where
  "shared_plan scope endpoint_id offer =
     \<lparr>pn_organisation_id = fst scope, pn_code = endpoint_plan_code endpoint_id,
      pn_name = ofr_model_alias offer @ '' endpoint offer'', pn_request_allowance = ofr_request_allowance offer,
      pn_request_unit = (if ofr_request_allowance offer = None then [] else ''logical_requests''),
      pn_request_period = (if ofr_request_allowance offer = None then [] else plan_period offer),
      pn_token_allowance = ofr_token_allowance offer,
      pn_token_unit = (if ofr_token_allowance offer = None then [] else ''provider_reported_tokens''),
      pn_token_period = (if ofr_token_allowance offer = None then [] else plan_period offer),
      pn_source_label = ofr_source_label offer,
      pn_capacity_mode = ''shared'', pn_resource_class = [], pn_accelerator_count = None, pn_finality = ''declared''\<rparr>"

definition ensure_plan ::
  "billing_env \<Rightarrow> tenant \<Rightarrow> string \<Rightarrow> resolved_offer \<Rightarrow> string \<Rightarrow> time \<Rightarrow> (billing_db, err + unit) state" where
  "ensure_plan env scope endpoint_id offer route now =
     or_return (query env ''select plan'' (route_plan scope route)) (\<lambda>planned.
       if planned then ok ()
       else
         or_return (fresh_id env ''pln'') (\<lambda>i.
         or_return (exec env ''insert plan'' (\<lambda>db. Inr (db\<lparr>db_plans := AList.update i (shared_plan scope endpoint_id offer) (db_plans db)\<rparr>))) (\<lambda>_.
         exec env ''bind plan'' (\<lambda>db. Inr (db\<lparr>db_tenant_plans := db_tenant_plans db @
           [\<lparr>tn_organisation_id = fst scope, tn_project_id = fst (snd scope), tn_environment_id = snd (snd scope),
             tn_route_id = route, tn_plan_id = i, tn_status = ''active'', tn_effective_at = now,
             tn_source_label = ofr_source_label offer, tn_finality = ''declared''\<rparr>]\<rparr>)))))"

definition requirement_scope :: "requirement_row \<Rightarrow> tenant" where
  "requirement_scope rq = (rq_organisation_id rq, rq_project_id rq, rq_environment_id rq)"

definition activated_endpoint :: "string \<Rightarrow> endpoint_row \<Rightarrow> endpoint_row" where
  "activated_endpoint route e = e\<lparr>er_route_id := route, er_runtime_state := ''route_bound''\<rparr>"

definition activate_shared_endpoint ::
  "billing_env \<Rightarrow> tenant \<Rightarrow> string \<Rightarrow> resolved_offer \<Rightarrow> time \<Rightarrow> (billing_db, err + unit) state" where
  "activate_shared_endpoint env scope endpoint_id offer now =
     (case ofr_target_id offer of
        None \<Rightarrow> fails ErrUnavailable
      | Some target \<Rightarrow> do {
          enabled \<leftarrow> query env ''select target'' (shared_target target);
          if enabled \<noteq> Inr (Some True) then fails ErrUnavailable
          else
            or_return (ensure_route env scope (ofr_model_id offer) target) (\<lambda>route.
            or_return (ensure_plan env scope endpoint_id offer route now) (\<lambda>_.
            or_return (exec env ''bind route'' (\<lambda>db.
              Inr (db\<lparr>db_endpoints := amend endpoint_id (activated_endpoint route) (db_endpoints db)\<rparr>))) (\<lambda>_.
            exec env ''activate configuration'' (\<lambda>db.
              case map_of (db_endpoints db) endpoint_id of
                None \<Rightarrow> Inr db
              | Some e \<Rightarrow> Inr (db\<lparr>db_configurations := amend (er_configuration_id e) (cf_status_update (\<lambda>_. ''activated'')) (db_configurations db)\<rparr>)))))
        })"

definition resolve_offer_by_endpoint :: "billing_env \<Rightarrow> string \<Rightarrow> (billing_db, err + resolved_offer) state" where
  "resolve_offer_by_endpoint env endpoint_id =
     or_return (query env ''select offer'' (\<lambda>db.
       case map_of (db_endpoints db) endpoint_id of None \<Rightarrow> None | Some e \<Rightarrow> map_of (db_offers db) (er_offer_id e))) (\<lambda>found.
       State_Monad.return (case found of None \<Rightarrow> Inl err_no_rows | Some o1 \<Rightarrow> Inr o1))"

section \<open>Effects of an event\<close>

definition mark_of :: "billing_event \<Rightarrow> event_mark" where
  "mark_of e = Some (be_created_at e, be_id e)"

definition set_requirement :: "string \<Rightarrow> (requirement_row \<Rightarrow> requirement_row) \<Rightarrow> billing_db \<Rightarrow> billing_db" where
  "set_requirement i f db = db\<lparr>db_requirements := amend i f (db_requirements db)\<rparr>"

definition set_endpoint :: "string \<Rightarrow> (endpoint_row \<Rightarrow> endpoint_row) \<Rightarrow> billing_db \<Rightarrow> billing_db" where
  "set_endpoint i f db = db\<lparr>db_endpoints := amend i f (db_endpoints db)\<rparr>"

definition requirement_to :: "string \<Rightarrow> billing_event \<Rightarrow> requirement_row \<Rightarrow> requirement_row" where
  "requirement_to state e r = r\<lparr>rq_state := state, rq_latest_event := mark_of e\<rparr>"

definition endpoint_to :: "string \<Rightarrow> billing_event \<Rightarrow> endpoint_row \<Rightarrow> endpoint_row" where
  "endpoint_to state e r = r\<lparr>er_commercial_state := state, er_latest_payment := mark_of e\<rparr>"

definition paid_requirement :: "billing_event \<Rightarrow> int \<Rightarrow> string \<Rightarrow> requirement_row \<Rightarrow> requirement_row" where
  "paid_requirement e amount currency r =
     (requirement_to ''paid'' e r)
       \<lparr>rq_paid_at := (case rq_paid_at r of None \<Rightarrow> Some (be_created_at e) | Some p \<Rightarrow> Some p),
        rq_paid_amount := Some amount, rq_paid_currency := currency, rq_failure := []\<rparr>"

definition coalesce :: "'a option \<Rightarrow> 'a option \<Rightarrow> 'a option" where
  "coalesce a b = (case a of None \<Rightarrow> b | Some _ \<Rightarrow> a)"

definition paid_endpoint :: "billing_event \<Rightarrow> endpoint_row \<Rightarrow> endpoint_row" where
  "paid_endpoint e r =
     (let monthly = (er_allowance_period r = ''month'')
      in (endpoint_to ''paid'' e r)
        \<lparr>er_period_start := (if monthly then coalesce (be_period_start e) (er_period_start r) else er_period_start r),
         er_period_end := (if monthly then coalesce (be_period_end e) (er_period_end r) else er_period_end r)\<rparr>)"

definition session_to ::
  "(checkout_row \<Rightarrow> checkout_row) \<Rightarrow> billing_event \<Rightarrow> billing_db \<Rightarrow> billing_db" where
  "session_to f e db = db\<lparr>db_checkouts := map_values (\<lambda>r.
     if ck_provider r = be_provider e \<and> ck_session_ref r = be_object_ref e then f r else r) (db_checkouts db)\<rparr>"

definition completed_session :: "billing_env \<Rightarrow> time \<Rightarrow> checkout_row \<Rightarrow> checkout_row" where
  "completed_session env now r =
     r\<lparr>ck_state := ''complete'', ck_completed_at := coalesce (ck_completed_at r) (Some now), ck_updated_at := ve_sql_now env\<rparr>"

definition expired_session :: "billing_env \<Rightarrow> checkout_row \<Rightarrow> checkout_row" where
  "expired_session env r =
     (if ck_state r = ''complete'' then r else r\<lparr>ck_state := ''expired'', ck_updated_at := ve_sql_now env\<rparr>)"

text \<open>\<open>ON CONFLICT DO UPDATE\<close>, only for a row of the same requirement that is not newer.\<close>

definition upsert_invoice_row :: "string \<times> string \<Rightarrow> invoice_row \<Rightarrow> billing_db \<Rightarrow> billing_db" where
  "upsert_invoice_row k row db =
     (case map_of (db_invoices db) k of
        None \<Rightarrow> db\<lparr>db_invoices := AList.update k row (db_invoices db)\<rparr>
      | Some old \<Rightarrow>
          if nv_organisation_id old = nv_organisation_id row \<and> nv_requirement_id old = nv_requirement_id row \<and>
             nv_latest_at old \<le> nv_latest_at row
          then db\<lparr>db_invoices := AList.update k
            (old\<lparr>nv_status := nv_status row, nv_amount_due := nv_amount_due row, nv_amount_paid := nv_amount_paid row,
                nv_currency := nv_currency row, nv_paid_at := coalesce (nv_paid_at old) (nv_paid_at row),
                nv_latest_at := nv_latest_at row, nv_latest_id := nv_latest_id row\<rparr>) (db_invoices db)\<rparr>
          else db)"

definition upsert_billing_invoice ::
  "billing_env \<Rightarrow> billing_event \<Rightarrow> requirement_row \<Rightarrow> string \<Rightarrow> time \<Rightarrow> (billing_db, err + unit) state" where
  "upsert_billing_invoice env e rq status now =
     (if be_invoice_ref e = [] then ok ()
      else or_return (fresh_id env ''inv'') (\<lambda>i.
        exec env ''upsert invoice'' (\<lambda>db. Inr (upsert_invoice_row (be_provider e, be_invoice_ref e)
          \<lparr>nv_id = i, nv_organisation_id = rq_organisation_id rq, nv_endpoint_id = rq_endpoint_id rq,
           nv_requirement_id = be_requirement_id e, nv_subscription_ref = be_subscription_ref e, nv_safe_number = [],
           nv_status = status, nv_amount_due = rq_amount rq, nv_amount_paid = (if status = ''paid'' then rq_amount rq else 0),
           nv_currency = rq_currency rq, nv_due_at = None, nv_paid_at = (if status = ''paid'' then Some now else None),
           nv_latest_at = be_created_at e, nv_latest_id = be_id e, nv_created_at = ve_sql_now env\<rparr> db))))"

definition subscription_statuses :: "string list" where
  "subscription_statuses = [''incomplete'', ''trialing'', ''active'', ''past_due'', ''unpaid'', ''paused'', ''cancelled'']"

definition subscription_status :: "billing_event \<Rightarrow> string" where
  "subscription_status e =
     (let status = (if be_type e = ''customer.subscription.deleted'' then ''cancelled'' else be_object_status e)
      in if status \<in> set subscription_statuses then status else ''incomplete'')"

definition upsert_subscription_row :: "string \<times> string \<Rightarrow> subscription_row \<Rightarrow> billing_db \<Rightarrow> billing_db" where
  "upsert_subscription_row k row db =
     (case map_of (db_subscriptions db) k of
        None \<Rightarrow> db\<lparr>db_subscriptions := AList.update k row (db_subscriptions db)\<rparr>
      | Some old \<Rightarrow>
          if sbr_organisation_id old = sbr_organisation_id row \<and> sbr_requirement_id old = sbr_requirement_id row \<and>
             sbr_latest_at old \<le> sbr_latest_at row
          then db\<lparr>db_subscriptions := AList.update k
            (old\<lparr>sbr_status := sbr_status row, sbr_period_start := sbr_period_start row, sbr_period_end := sbr_period_end row,
                sbr_cancel_at_period_end := sbr_cancel_at_period_end row, sbr_latest_at := sbr_latest_at row,
                sbr_latest_id := sbr_latest_id row\<rparr>) (db_subscriptions db)\<rparr>
          else db)"

definition upsert_billing_subscription ::
  "billing_env \<Rightarrow> billing_event \<Rightarrow> requirement_row \<Rightarrow> (billing_db, err + unit) state" where
  "upsert_billing_subscription env e rq =
     (if be_subscription_ref e = [] then ok ()
      else or_return (fresh_id env ''sub'') (\<lambda>i.
        exec env ''upsert subscription'' (\<lambda>db. Inr (upsert_subscription_row (be_provider e, be_subscription_ref e)
          \<lparr>sbr_id = i, sbr_organisation_id = rq_organisation_id rq, sbr_endpoint_id = rq_endpoint_id rq,
           sbr_requirement_id = be_requirement_id e, sbr_customer_ref = be_customer_ref e, sbr_status = subscription_status e,
           sbr_period_start = be_period_start e, sbr_period_end = be_period_end e,
           sbr_cancel_at_period_end = (be_cancel_at_period_end e = Some True), sbr_amount = rq_amount rq,
           sbr_currency = rq_currency rq, sbr_latest_at = be_created_at e, sbr_latest_id = be_id e\<rparr> db))))"

definition mark_payment_paid ::
  "billing_env \<Rightarrow> billing_event \<Rightarrow> requirement_row \<Rightarrow> time \<Rightarrow> (billing_db, err + unit) state" where
  "mark_payment_paid env e rq now =
     or_return (exec env ''requirement paid'' (\<lambda>db.
       Inr (set_requirement (be_requirement_id e) (paid_requirement e (rq_amount rq) (rq_currency rq)) db))) (\<lambda>_.
     or_return (query env ''select service mode'' (\<lambda>db. map_of (db_endpoints db) (rq_endpoint_id rq))) (\<lambda>found.
       case found of
         None \<Rightarrow> fails err_no_rows
       | Some ce \<Rightarrow>
           or_return
             (if er_service_mode ce = ''shared_subscription''
              then or_return (resolve_offer_by_endpoint env (rq_endpoint_id rq)) (\<lambda>offer.
                activate_shared_endpoint env (requirement_scope rq) (rq_endpoint_id rq) offer now)
              else ok ()) (\<lambda>_.
           exec env ''endpoint paid'' (\<lambda>db. Inr (set_endpoint (rq_endpoint_id rq) (paid_endpoint e) db)))))"

definition subscription_events :: "string list" where
  "subscription_events = [''customer.subscription.created'', ''customer.subscription.updated'', ''customer.subscription.deleted'']"

text \<open>An update of the requirement, and one of the endpoint, whose error the code drops.\<close>

definition move_requirement :: "billing_env \<Rightarrow> string \<Rightarrow> billing_event \<Rightarrow> (billing_db, err + unit) state" where
  "move_requirement env state e =
     exec_ignored env ''move requirement'' (set_requirement (be_requirement_id e) (requirement_to state e))"

definition move_endpoint :: "billing_env \<Rightarrow> string \<Rightarrow> billing_event \<Rightarrow> requirement_row \<Rightarrow> (billing_db, err + unit) state" where
  "move_endpoint env state e rq =
     exec_ignored env ''move endpoint'' (set_endpoint (rq_endpoint_id rq) (endpoint_to state e))"

definition apply_billing_event_effects ::
  "billing_env \<Rightarrow> billing_event \<Rightarrow> requirement_row \<Rightarrow> time \<Rightarrow> (billing_db, err + unit) state" where
  "apply_billing_event_effects env e rq now =
     (let unpaid = (rq_state rq \<noteq> ''paid'')
      in if be_type e = ''checkout.session.completed'' then
           or_return (exec_ignored env ''complete session'' (session_to (completed_session env now) e)) (\<lambda>_.
             if unpaid then
               or_return (exec env ''process requirement'' (\<lambda>db.
                 Inr (set_requirement (be_requirement_id e) (requirement_to ''processing'' e) db))) (\<lambda>_.
               move_endpoint env ''processing'' e rq)
             else ok ())
         else if be_type e = ''checkout.session.expired'' then
           or_return (exec_ignored env ''expire session'' (session_to (expired_session env) e)) (\<lambda>_.
             if unpaid then move_requirement env ''action_required'' e else ok ())
         else if be_type e = ''invoice.paid'' then
           or_return (upsert_billing_invoice env e rq ''paid'' now) (\<lambda>_. mark_payment_paid env e rq now)
         else if be_type e = ''invoice.finalized'' then upsert_billing_invoice env e rq ''open'' now
         else if be_type e = ''invoice.payment_failed'' then
           or_return
             (if unpaid
              then exec_ignored env ''move requirement'' (set_requirement (be_requirement_id e)
                (\<lambda>r. (requirement_to ''past_due'' e r)\<lparr>rq_failure := ''payment_failed''\<rparr>))
              else ok ()) (\<lambda>_.
             move_endpoint env ''past_due'' e rq)
         else if be_type e \<in> set subscription_events then upsert_billing_subscription env e rq
         else if be_type e = ''charge.refunded'' then
           or_return (move_requirement env ''refunded'' e) (\<lambda>_. move_endpoint env ''refunded'' e rq)
         else if be_type e = ''charge.dispute.created'' then
           or_return (move_requirement env ''disputed'' e) (\<lambda>_. move_endpoint env ''disputed'' e rq)
         else if be_type e = ''charge.dispute.closed'' then
           (if unpaid then move_requirement env ''processing'' e else ok ())
         else ok ())"

section \<open>Applying\<close>

definition customer_organisation :: "billing_event \<Rightarrow> billing_db \<Rightarrow> string option" where
  "customer_organisation e db = map_option ac_organisation_id
     (find_value (\<lambda>a. ac_provider a = be_provider e \<and> ac_customer_ref a = be_customer_ref e) (db_accounts db))"

definition out_of_order :: "billing_event \<Rightarrow> requirement_row \<Rightarrow> bool" where
  "out_of_order e rq \<longleftrightarrow> (case rq_latest_event rq of None \<Rightarrow> False | Some (latest, _) \<Rightarrow> be_created_at e < latest)"

definition commercial_mismatch :: "billing_event \<Rightarrow> requirement_row \<Rightarrow> bool" where
  "commercial_mismatch e rq \<longleftrightarrow>
     (case be_amount e of None \<Rightarrow> False | Some amount \<Rightarrow>
        be_currency e \<noteq> [] \<and> (amount \<noteq> rq_amount rq \<or> be_currency e \<noteq> rq_currency rq) \<and>
        (be_type e = ''invoice.paid'' \<or> be_type e = ''checkout.session.completed''))"

text \<open>An event whose requirement is known: everything after the resolution.\<close>

definition settle_billing_event ::
  "billing_env \<Rightarrow> billing_event \<Rightarrow> requirement_row \<Rightarrow> time \<Rightarrow> (billing_db, err + unit) state" where
  "settle_billing_event env e rq now =
     (if out_of_order e rq then finish_billing_receipt env e ''out_of_order_ignored'' now
      else if commercial_mismatch e rq then reject_billing_event env e ''commercial_mismatch''
      else or_return (apply_billing_event_effects env e rq now) (\<lambda>_. finish_billing_receipt env e [] now))"

definition apply_resolved_event :: "billing_env \<Rightarrow> billing_event \<Rightarrow> time \<Rightarrow> (billing_db, err + unit) state" where
  "apply_resolved_event env e now =
     (if be_requirement_id e = []
      then or_return (update_receipt env ''defer receipt'' (event_key e) defer_receipt) (\<lambda>_. commit env ())
      else or_return (query env ''lock requirement'' (\<lambda>db. map_of (db_requirements db) (be_requirement_id e))) (\<lambda>found.
        case found of
          None \<Rightarrow> reject_billing_event env e ''unknown_requirement''
        | Some rq \<Rightarrow>
            if be_customer_ref e = [] then settle_billing_event env e rq now
            else do {
              owner \<leftarrow> query env ''select customer'' (customer_organisation e);
              case owner of
                Inl _ \<Rightarrow> fails err_aborted
              | Inr found \<Rightarrow>
                  if found \<noteq> Some (rq_organisation_id rq) then reject_billing_event env e ''customer_mismatch''
                  else settle_billing_event env e rq now
            }))"

definition apply_billing_event_once ::
  "billing_env \<Rightarrow> string \<Rightarrow> string \<Rightarrow> time \<Rightarrow> (billing_db, err + unit) state" where
  "apply_billing_event_once env provider event_id now = transaction env
     (or_return (query env ''lock receipt'' (\<lambda>db. map_of (db_receipts db) (provider, event_id))) (\<lambda>found.
       case found of
         None \<Rightarrow> fails ErrNotFound
       | Some rc \<Rightarrow>
           if rc_state rc = ''processed'' then ok ()
           else if be_requirement_id (rc_event rc) \<noteq> [] then apply_resolved_event env (rc_event rc) now
           else or_return (resolve_billing_payment_reference env (rc_event rc)) (\<lambda>i.
             apply_resolved_event env ((rc_event rc)\<lparr>be_requirement_id := i\<rparr>) now)))"

text \<open>Rows of one time come in the order of the table.\<close>

definition deferred_events :: "string \<Rightarrow> billing_db \<Rightarrow> string list" where
  "deferred_events provider db =
     map (\<lambda>((_, i), _). i)
       (take 32 (sort_key (\<lambda>(_, rc). be_created_at (rc_event rc))
          (filter (\<lambda>((p, _), rc). p = provider \<and> rc_state rc = ''deferred'') (db_receipts db))))"

fun apply_deferred :: "billing_env \<Rightarrow> string \<Rightarrow> time \<Rightarrow> string list \<Rightarrow> (billing_db, err + unit) state" where
  "apply_deferred env provider now [] = ok ()"
| "apply_deferred env provider now (i # is) =
     or_return (apply_billing_event_once env provider i now) (\<lambda>_. apply_deferred env provider now is)"

definition apply_billing_event :: "billing_env \<Rightarrow> string \<Rightarrow> string \<Rightarrow> time \<Rightarrow> (billing_db, err option) state" where
  "apply_billing_event env provider event_id now = as_error
     (or_return (apply_billing_event_once env provider event_id now) (\<lambda>_.
      or_return (query env ''select deferred'' (deferred_events provider)) (\<lambda>is.
      apply_deferred env provider now (filter (\<lambda>i. i \<noteq> event_id) is))))"

section \<open>The summary\<close>

definition newest :: "('a \<Rightarrow> time) \<Rightarrow> 'a list \<Rightarrow> 'a list" where
  "newest t xs = sort_key (\<lambda>x. - t x) xs"

definition in_scope_endpoint :: "portal_session \<Rightarrow> billing_db \<Rightarrow> string \<Rightarrow> string \<Rightarrow> bool" where
  "in_scope_endpoint session db org endpoint_id =
     (case map_of (db_endpoints db) endpoint_id of
        None \<Rightarrow> False
      | Some ce \<Rightarrow> er_organisation_id ce = org \<and>
          in_current session (er_organisation_id ce) (er_project_id ce) (er_environment_id ce))"

definition commercial_state_of :: "portal_session \<Rightarrow> billing_db \<Rightarrow> string" where
  "commercial_state_of session db =
     (case newest sbr_latest_at (filter (\<lambda>r. in_scope_endpoint session db (sbr_organisation_id r) (sbr_endpoint_id r))
         (map snd (db_subscriptions db))) of
        [] \<Rightarrow> ''none'' | r # _ \<Rightarrow> sbr_status r)"

definition checkout_state_of :: "portal_session \<Rightarrow> billing_db \<Rightarrow> string" where
  "checkout_state_of session db =
     (case newest ck_updated_at (filter (\<lambda>r.
         (case map_of (db_requirements db) (ck_requirement_id r) of
            None \<Rightarrow> False
          | Some pr \<Rightarrow> rq_organisation_id pr = ck_organisation_id r \<and>
              in_current session (rq_organisation_id pr) (rq_project_id pr) (rq_environment_id pr)))
         (map snd (db_checkouts db))) of
        [] \<Rightarrow> ''none'' | r # _ \<Rightarrow> ck_state r)"

definition invoice_view_of :: "invoice_row \<Rightarrow> billing_invoice_view" where
  "invoice_view_of r =
     \<lparr>iv_reference = nv_safe_number r, iv_status = nv_status r, iv_amount_due = nv_amount_due r,
      iv_amount_paid = nv_amount_paid r, iv_currency = nv_currency r, iv_due_at = nv_due_at r, iv_paid_at = nv_paid_at r,
      iv_issued_at = nv_created_at r\<rparr>"

definition summary_invoices :: "portal_session \<Rightarrow> billing_db \<Rightarrow> billing_invoice_view list" where
  "summary_invoices session db =
     map invoice_view_of (take 50 (newest nv_created_at
       (filter (\<lambda>r. in_scope_endpoint session db (nv_organisation_id r) (nv_endpoint_id r)) (map snd (db_invoices db)))))"

definition later :: "time option \<Rightarrow> time option \<Rightarrow> time option" where
  "later confirmed paid =
     (case paid of
        None \<Rightarrow> confirmed
      | Some p \<Rightarrow> (case confirmed of None \<Rightarrow> Some p | Some q \<Rightarrow> if p > q then Some p else Some q))"

definition summary_detail :: string where
  "summary_detail =
     ''Billing state is scoped to this organisation and the selected project/environment. '' @
     ''Payment confirmation remains server-authoritative.''"

definition get_billing_summary :: "billing_env \<Rightarrow> portal_session \<Rightarrow> (billing_db, err + billing_summary) state" where
  "get_billing_summary env session =
     (let org = pmb_organisation_id (se_current session)
      in or_return (query env ''select organisation'' (\<lambda>db. map_of (db_organisations db) org)) (\<lambda>found.
        case found of
          None \<Rightarrow> fails ErrNotFound
        | Some name \<Rightarrow>
            or_return (query env ''select account'' (\<lambda>db.
              find_value (\<lambda>a. ac_organisation_id a = org \<and> ac_state a = ''active'') (db_accounts db))) (\<lambda>account.
            or_return (query env ''select commercial state'' (commercial_state_of session)) (\<lambda>commercial.
            or_return (query env ''select checkout state'' (checkout_state_of session)) (\<lambda>checkout.
            or_return (query env ''select invoices'' (summary_invoices session)) (\<lambda>invoices.
              let state = (case account of None \<Rightarrow> [] | Some a \<Rightarrow> ac_state a)
              in ok \<lparr>bs_schema = [], bs_configured = False, bs_provider = [], bs_state = state,
                   bs_detail = (if state = [] then [] else summary_detail), bs_account_name = name,
                   bs_commercial_state = commercial,
                   bs_tax_status = (case account of None \<Rightarrow> ''not_collected'' | Some a \<Rightarrow> ac_tax_status a),
                   bs_checkout_state = checkout, bs_confirmed_at = fold (\<lambda>i c. later c (iv_paid_at i)) invoices None,
                   bs_can_manage = False, bs_invoices = invoices\<rparr>))))))"

section \<open>The store as the service and the handler use it\<close>

definition postgres_billing :: "billing_env \<Rightarrow> billing_db billing_store" where
  "postgres_billing env =
     \<lparr>bst_prepare_checkout = prepare_checkout env, bst_set_customer = set_billing_customer env,
      bst_complete_checkout = complete_checkout env, bst_prepare_portal = prepare_billing_portal env,
      bst_summary = Some (get_billing_summary env)\<rparr>"

definition postgres_webhooks :: "billing_env \<Rightarrow> billing_db webhook_store" where
  "postgres_webhooks env = \<lparr>wo_receive = receive_billing_event env, wo_apply = apply_billing_event env\<rparr>"

end
