(* ===== verification/Billing_Safety.thy ===== *)
theory Billing_Safety
  imports Billing_Events
begin

text \<open>
  What the billing store promises along any sequence of its transactions: a requirement is paid only on
  the evidence of a processed payment, a processed receipt stays as it is, and requirements keep their
  commercial facts.
\<close>

lemma ran_update_receipt [ran]:
  "run_state (update_receipt env st k f) db = (Inr u, db') \<longleftrightarrow> ve_refuses env st db = None \<and>
     (case map_of (db_receipts db) k of
        None \<Rightarrow> db' = db
      | Some rc \<Rightarrow> rc_event (f rc) = rc_event rc \<and> db' = db\<lparr>db_receipts := amend k (\<lambda>_. f rc) (db_receipts db)\<rparr>)"
  by (auto simp: update_receipt_def ran protect_receipt_def split: option.splits)

section \<open>Effects of an event\<close>

text \<open>
  The payment state machine the effects implement: the state of the requirement after an event, from
  the state before it.
\<close>

definition payment_next :: "string \<Rightarrow> string \<Rightarrow> string" where
  "payment_next event_type state =
     (if event_type = ''invoice.paid'' then ''paid''
      else if event_type = ''charge.refunded'' then ''refunded''
      else if event_type = ''charge.dispute.created'' then ''disputed''
      else if state = ''paid'' then ''paid''
      else if event_type = ''checkout.session.completed'' \<or> event_type = ''charge.dispute.closed'' then ''processing''
      else if event_type = ''checkout.session.expired'' then ''action_required''
      else if event_type = ''invoice.payment_failed'' then ''past_due''
      else state)"

definition requirement_facts :: "requirement_row \<Rightarrow> string list \<times> int" where
  "requirement_facts r =
     ([rq_organisation_id r, rq_project_id r, rq_environment_id r, rq_endpoint_id r, rq_currency r, rq_collection_mode r,
       rq_request_id r, rq_quote_id r, rq_purpose r, rq_billing_period r, rq_tax_treatment r, rq_price_finality r,
       rq_source_label r, rq_evidence_ref r], rq_amount r)"

definition effect_of :: "billing_event \<Rightarrow> requirement_row \<Rightarrow> requirement_row \<Rightarrow> bool" where
  "effect_of e r r' \<longleftrightarrow>
     requirement_facts r' = requirement_facts r \<and> rq_state r' = payment_next (be_type e) (rq_state r) \<and>
     (rq_latest_event r' = rq_latest_event r \<or> rq_latest_event r' = mark_of e) \<and>
     (if be_type e = ''invoice.paid'' then rq_paid_amount r' = Some (rq_amount r) \<and> rq_paid_currency r' = rq_currency r
      else rq_paid_amount r' = rq_paid_amount r \<and> rq_paid_currency r' = rq_paid_currency r)"

text \<open>The tables an effect leaves alone, and the requirements but for the event's own.\<close>

definition effect_frame :: "string \<Rightarrow> billing_db \<Rightarrow> billing_db \<Rightarrow> bool" where
  "effect_frame i db db' \<longleftrightarrow>
     db_receipts db' = db_receipts db \<and> db_accounts db' = db_accounts db \<and>
     (\<forall>j. j \<noteq> i \<longrightarrow> map_of (db_requirements db') j = map_of (db_requirements db) j)"

definition same_requirements :: "billing_db \<Rightarrow> billing_db \<Rightarrow> bool" where
  "same_requirements db db' \<longleftrightarrow>
     db_receipts db' = db_receipts db \<and> db_accounts db' = db_accounts db \<and> db_requirements db' = db_requirements db"

lemma same_trans: "same_requirements a b \<Longrightarrow> same_requirements b c \<Longrightarrow> same_requirements a c"
  by (simp add: same_requirements_def)

lemma same_refl [simp]: "same_requirements a a"
  by (simp add: same_requirements_def)

lemma upsert_invoice_same:
  "run_state (upsert_billing_invoice env e rq status now) db = (Inr u, db') \<Longrightarrow> same_requirements db db'"
  by (auto simp: upsert_billing_invoice_def upsert_invoice_row_def same_requirements_def ran simp del: run_state_or_return
    split: if_splits option.splits)

lemma upsert_subscription_same:
  "run_state (upsert_billing_subscription env e rq) db = (Inr u, db') \<Longrightarrow> same_requirements db db'"
  by (auto simp: upsert_billing_subscription_def upsert_subscription_row_def same_requirements_def ran
    simp del: run_state_or_return split: if_splits option.splits)

lemma ensure_route_same:
  "run_state (ensure_route env rq model target) db = (Inr u, db') \<Longrightarrow> same_requirements db db'"
  by (auto simp: ensure_route_def same_requirements_def ran simp del: run_state_or_return split: if_splits option.splits)

lemma ensure_plan_same:
  "run_state (ensure_plan env rq i offer route now) db = (Inr u, db') \<Longrightarrow> same_requirements db db'"
  by (auto simp: ensure_plan_def same_requirements_def ran simp del: run_state_or_return split: if_splits)

lemma activate_same:
  assumes "run_state (activate_shared_endpoint env rq i offer now) db = (Inr u, db')"
  shows "same_requirements db db'"
proof -
  from assms obtain target where t: "ofr_target_id offer = Some target"
    by (auto simp: activate_shared_endpoint_def split: option.splits)
  obtain en db0 where q: "run_state (query env ''select target'' (shared_target target)) db = (en, db0)"
    by (meson surj_pair)
  have db0: "db0 = db" using q by (auto simp: query_def split: option.splits)
  from assms t q have en: "en = Inr (Some True)"
    by (auto simp: activate_shared_endpoint_def split: if_splits)
  from assms t q en db0 obtain route plan db1 db2 db3 where
    "run_state (ensure_route env rq (ofr_model_id offer) target) db = (Inr route, db1)"
    "run_state (ensure_plan env rq i offer route now) db1 = (Inr plan, db2)"
    "same_requirements db2 db3" "same_requirements db3 db'"
    by (auto simp: activate_shared_endpoint_def ran same_requirements_def simp del: run_state_or_return split: option.splits)
  then show ?thesis using ensure_route_same ensure_plan_same same_trans by metis
qed

lemma same_effect:
  "same_requirements db db' \<Longrightarrow> effect_frame i db db' \<and> map_of (db_requirements db') i = map_of (db_requirements db) i"
  by (simp add: same_requirements_def effect_frame_def)

lemma set_requirement_effect:
  "same_requirements (set_requirement i f db) db' \<Longrightarrow>
     effect_frame i db db' \<and> map_of (db_requirements db') i = map_option f (map_of (db_requirements db) i)"
  by (simp add: same_requirements_def effect_frame_def set_requirement_def go_map_simps)

lemma set_endpoint_same [simp]: "same_requirements db (set_endpoint i f db)"
  by (simp add: same_requirements_def set_endpoint_def)

lemma session_to_same [simp]: "same_requirements db (session_to f e db)"
  by (simp add: same_requirements_def session_to_def)

lemma mark_payment_paid_effect:
  assumes "run_state (mark_payment_paid env e rq now) db = (Inr u, db')"
  shows "same_requirements (set_requirement (be_requirement_id e) (paid_requirement e (rq_amount rq) (rq_currency rq)) db) db'"
proof -
  let ?d = "set_requirement (be_requirement_id e) (paid_requirement e (rq_amount rq) (rq_currency rq)) db"
  obtain ce where ce: "map_of (db_endpoints ?d) (rq_endpoint_id rq) = Some ce"
    using assms by (cases "map_of (db_endpoints ?d) (rq_endpoint_id rq)")
      (auto simp: mark_payment_paid_def ran simp del: run_state_or_return)
  let ?m = "if er_service_mode ce = ''shared_subscription''
         then or_return (resolve_offer_by_endpoint env (rq_endpoint_id rq)) (\<lambda>offer.
           activate_shared_endpoint env (requirement_scope rq) (rq_endpoint_id rq) offer now)
         else ok ()"
  from assms ce obtain db1 where
    a: "run_state ?m ?d = (Inr (), db1)" and b: "db' = set_endpoint (rq_endpoint_id rq) (paid_endpoint e) db1"
    by (simp add: mark_payment_paid_def ran del: run_state_or_return split del: if_split) metis
  have "same_requirements ?d db1"
  proof (cases "er_service_mode ce = ''shared_subscription''")
    case True
    with a obtain offer where "run_state (activate_shared_endpoint env (requirement_scope rq) (rq_endpoint_id rq) offer now) ?d = (Inr (), db1)"
      by (auto simp: ran resolve_offer_by_endpoint_def simp del: run_state_or_return split: option.splits)
    then show ?thesis by (rule activate_same)
  next
    case False
    with a show ?thesis by simp
  qed
  then show ?thesis using b same_trans set_endpoint_same by blast
qed

lemma moved_effect:
  assumes "map_of (db_requirements db) i = Some rq" and "be_requirement_id e = i"
    and "same_requirements (set_requirement i f db) db'" and "effect_of e rq (f rq)"
  shows "effect_frame i db db' \<and> (\<exists>r'. map_of (db_requirements db') i = Some r' \<and> effect_of e rq r')"
  using set_requirement_effect [OF assms(3)] assms by simp

lemma kept_effect:
  assumes "map_of (db_requirements db) i = Some rq" and "be_requirement_id e = i"
    and "same_requirements db db'" and "effect_of e rq rq"
  shows "effect_frame i db db' \<and> (\<exists>r'. map_of (db_requirements db') i = Some r' \<and> effect_of e rq r')"
  using same_effect [OF assms(3), of i] assms by simp

lemma effects_of_event:
  assumes rq: "map_of (db_requirements db) i = Some rq" and i: "be_requirement_id e = i"
    and run: "run_state (apply_billing_event_effects env e rq now) db = (Inr u, db')"
  shows "effect_frame i db db' \<and> (\<exists>r'. map_of (db_requirements db') i = Some r' \<and> effect_of e rq r')"
proof -
  note moved = moved_effect [OF rq i] and kept = kept_effect [OF rq i]
  note defs = apply_billing_event_effects_def Let_def move_requirement_def move_endpoint_def ran i
  consider (completed) "be_type e = ''checkout.session.completed''" | (expired) "be_type e = ''checkout.session.expired''"
    | (paid) "be_type e = ''invoice.paid''" | (final) "be_type e = ''invoice.finalized''"
    | (failed) "be_type e = ''invoice.payment_failed''" | (sub) "be_type e \<in> set subscription_events"
    | (refund) "be_type e = ''charge.refunded''" | (dispute) "be_type e = ''charge.dispute.created''"
    | (closed) "be_type e = ''charge.dispute.closed''"
    | (other) "be_type e \<notin> set (subscription_events @ [''checkout.session.completed'', ''checkout.session.expired'',
        ''invoice.paid'', ''invoice.finalized'', ''invoice.payment_failed'', ''charge.refunded'', ''charge.dispute.created'',
        ''charge.dispute.closed''])"
    by (auto simp: subscription_events_def)
  then show ?thesis
  proof cases
    case paid
    with run obtain v db1 where "run_state (upsert_billing_invoice env e rq ''paid'' now) db = (Inr v, db1)"
      and m: "run_state (mark_payment_paid env e rq now) db1 = (Inr u, db')"
      by (auto simp: defs simp del: run_state_or_return)
    then have s: "same_requirements db db1" by (simp add: upsert_invoice_same)
    have "same_requirements (set_requirement i (paid_requirement e (rq_amount rq) (rq_currency rq)) db) db'"
      using mark_payment_paid_effect [OF m] s i by (auto simp: same_requirements_def set_requirement_def)
    moreover have "effect_of e rq (paid_requirement e (rq_amount rq) (rq_currency rq) rq)"
      using paid by (simp add: effect_of_def paid_requirement_def requirement_to_def requirement_facts_def payment_next_def)
    ultimately show ?thesis by (rule moved)
  next
    case final
    with run have "same_requirements db db'"
      by (auto simp: defs simp del: run_state_or_return dest: upsert_invoice_same)
    moreover have "effect_of e rq rq" using final by (simp add: effect_of_def payment_next_def)
    ultimately show ?thesis by (rule kept)
  next
    case sub
    with run have "same_requirements db db'"
      by (auto simp: defs subscription_events_def simp del: run_state_or_return dest: upsert_subscription_same)
    moreover have "effect_of e rq rq" using sub by (auto simp: effect_of_def payment_next_def subscription_events_def)
    ultimately show ?thesis by (rule kept)
  next
    case other
    with run have "same_requirements db db'" by (simp add: defs)
    moreover have "effect_of e rq rq" using other by (auto simp: effect_of_def payment_next_def)
    ultimately show ?thesis by (rule kept)
  next
    case completed
    show ?thesis
    proof (cases "rq_state rq = ''paid''")
      case True
      with run completed have "same_requirements db db'" by (auto simp: defs simp del: run_state_or_return)
      moreover have "effect_of e rq rq" using completed True by (simp add: effect_of_def payment_next_def)
      ultimately show ?thesis by (rule kept)
    next
      case False
      with run completed have "same_requirements (set_requirement i (requirement_to ''processing'' e) db) db'"
        by (auto simp: defs same_requirements_def set_requirement_def session_to_def set_endpoint_def simp del: run_state_or_return)
      moreover have "effect_of e rq (requirement_to ''processing'' e rq)"
        using completed False by (simp add: effect_of_def payment_next_def requirement_to_def requirement_facts_def)
      ultimately show ?thesis by (rule moved)
    qed
  next
    case expired
    show ?thesis
    proof (cases "rq_state rq = ''paid''")
      case True
      with run expired have "same_requirements db db'" by (auto simp: defs simp del: run_state_or_return)
      moreover have "effect_of e rq rq" using expired True by (simp add: effect_of_def payment_next_def)
      ultimately show ?thesis by (rule kept)
    next
      case False
      with run expired have "same_requirements (set_requirement i (requirement_to ''action_required'' e) db) db'"
        by (auto simp: defs same_requirements_def set_requirement_def session_to_def simp del: run_state_or_return)
      moreover have "effect_of e rq (requirement_to ''action_required'' e rq)"
        using expired False by (simp add: effect_of_def payment_next_def requirement_to_def requirement_facts_def)
      ultimately show ?thesis by (rule moved)
    qed
  next
    case failed
    show ?thesis
    proof (cases "rq_state rq = ''paid''")
      case True
      with run failed have "same_requirements db db'" by (auto simp: defs simp del: run_state_or_return)
      moreover have "effect_of e rq rq" using failed True by (simp add: effect_of_def payment_next_def)
      ultimately show ?thesis by (rule kept)
    next
      case False
      with run failed have "same_requirements (set_requirement i (\<lambda>r. (requirement_to ''past_due'' e r)\<lparr>rq_failure := ''payment_failed''\<rparr>) db) db'"
        by (auto simp: defs simp del: run_state_or_return)
      moreover have "effect_of e rq ((requirement_to ''past_due'' e rq)\<lparr>rq_failure := ''payment_failed''\<rparr>)"
        using failed False by (simp add: effect_of_def payment_next_def requirement_to_def requirement_facts_def)
      ultimately show ?thesis by (rule moved)
    qed
  next
    case refund
    with run have "same_requirements (set_requirement i (requirement_to ''refunded'' e) db) db'"
      by (auto simp: defs subscription_events_def simp del: run_state_or_return)
    moreover have "effect_of e rq (requirement_to ''refunded'' e rq)"
      using refund by (simp add: effect_of_def payment_next_def requirement_to_def requirement_facts_def)
    ultimately show ?thesis by (rule moved)
  next
    case dispute
    with run have "same_requirements (set_requirement i (requirement_to ''disputed'' e) db) db'"
      by (auto simp: defs subscription_events_def simp del: run_state_or_return)
    moreover have "effect_of e rq (requirement_to ''disputed'' e rq)"
      using dispute by (simp add: effect_of_def payment_next_def requirement_to_def requirement_facts_def)
    ultimately show ?thesis by (rule moved)
  next
    case closed
    show ?thesis
    proof (cases "rq_state rq = ''paid''")
      case True
      with run closed have "same_requirements db db'" by (auto simp: defs subscription_events_def simp del: run_state_or_return)
      moreover have "effect_of e rq rq" using closed True by (simp add: effect_of_def payment_next_def)
      ultimately show ?thesis by (rule kept)
    next
      case False
      with run closed have "same_requirements (set_requirement i (requirement_to ''processing'' e) db) db'"
        by (auto simp: defs subscription_events_def simp del: run_state_or_return)
      moreover have "effect_of e rq (requirement_to ''processing'' e rq)"
        using closed False by (simp add: effect_of_def payment_next_def requirement_to_def requirement_facts_def)
      ultimately show ?thesis by (rule moved)
    qed
  qed
qed

end
