(* ===== verification/Billing_Ledger.thy ===== *)
theory Billing_Ledger
  imports Billing_Safety
begin

text \<open>
  The billing store as a transition system: every transaction of the store, and every change the rest
  of the program makes to the tables the store reads, in any order; the invariants of its reachable
  states.
\<close>

section \<open>One application of an event\<close>

lemma resolve_candidates_same: "run_state (resolve_candidates env cs) db = (Inr r, db') \<Longrightarrow> db' = db"
  by (induction env cs rule: resolve_candidates.induct)
    (auto simp: ran simp del: run_state_or_return split: if_splits option.splits)

definition with_receipt :: "string \<times> string \<Rightarrow> receipt_row \<Rightarrow> billing_db \<Rightarrow> billing_db" where
  "with_receipt k rc db = db\<lparr>db_receipts := amend k (\<lambda>_. rc) (db_receipts db)\<rparr>"

definition customer_matches :: "billing_event \<Rightarrow> requirement_row \<Rightarrow> billing_db \<Rightarrow> bool" where
  "customer_matches e rq db \<longleftrightarrow> be_customer_ref e = [] \<or> customer_organisation e db = Some (rq_organisation_id rq)"

text \<open>What a successful application can have done to the receipt \<open>rc\<close> under \<open>k\<close>.\<close>

definition set_aside :: "string \<times> string \<Rightarrow> receipt_row \<Rightarrow> billing_db \<Rightarrow> billing_db \<Rightarrow> bool" where
  "set_aside k rc db db' \<longleftrightarrow>
     (\<exists>rc'. rc_event rc' = rc_event rc \<and> rc_state rc' \<in> {''deferred'', ''rejected''} \<and> db' = with_receipt k rc' db)"

definition event_settled ::
  "billing_env \<Rightarrow> time \<Rightarrow> string \<times> string \<Rightarrow> receipt_row \<Rightarrow> billing_db \<Rightarrow> billing_db \<Rightarrow> bool" where
  "event_settled env now k rc db db' \<longleftrightarrow>
     (\<exists>rq db1 cls. be_requirement_id (rc_event rc) \<noteq> [] \<and>
        map_of (db_requirements db) (be_requirement_id (rc_event rc)) = Some rq \<and> customer_matches (rc_event rc) rq db \<and>
        (if out_of_order (rc_event rc) rq then db1 = db
         else \<not> commercial_mismatch (rc_event rc) rq \<and>
           run_state (apply_billing_event_effects env (rc_event rc) rq now) db = (Inr (), db1)) \<and>
        db' = with_receipt k (finish_receipt (be_requirement_id (rc_event rc)) cls now rc) db1)"

lemma update_receipt_run:
  "map_of (db_receipts db) k = Some rc \<Longrightarrow> run_state (update_receipt env st k f) db = (Inr u, db') \<Longrightarrow>
     rc_event (f rc) = rc_event rc \<and> db' = with_receipt k (f rc) db"
  by (simp add: ran with_receipt_def)

lemma finish_event: "rc_event (finish_receipt i cls now rc) = rc_event rc \<longleftrightarrow> be_requirement_id (rc_event rc) \<noteq> [] \<or> i = []"
  by (cases "rc_event rc") (auto simp: finish_receipt_def)

lemma effects_receipts:
  assumes "map_of (db_requirements db) (be_requirement_id e) = Some rq"
    and "run_state (apply_billing_event_effects env e rq now) db = (Inr u, db1)"
  shows "db_receipts db1 = db_receipts db"
  using effects_of_event [OF assms(1) refl assms(2)] by (simp add: effect_frame_def)

lemma reject_run:
  assumes "map_of (db_receipts db) (event_key e) = Some rc"
    and "run_state (reject_billing_event env e failure) db = (Inr u, db')"
  shows "set_aside (event_key e) rc db db'"
  using assms update_receipt_run [OF assms(1)]
  unfolding reject_billing_event_def set_aside_def
  by (auto simp: ran_or_return ran_commit reject_receipt_def with_receipt_def split: option.splits simp del: run_state_or_return
      intro!: exI [of _ "reject_receipt failure rc"])

lemma settle_run:
  assumes rc: "map_of (db_receipts db) k = Some rc" "event_key e = k"
    and e: "be_requirement_id e \<noteq> []" "rc_event rc = e \<or> be_requirement_id (rc_event rc) = []"
    and rq: "map_of (db_requirements db) (be_requirement_id e) = Some rq" and c: "customer_matches e rq db"
    and run: "run_state (settle_billing_event env e rq now) db = (Inr u, db')"
  shows "set_aside k rc db db' \<or> event_settled env now k rc db db'"
proof -
  have finished: "event_settled env now k rc db db'"
    if f: "run_state (finish_billing_receipt env e cls now) db1 = (Inr u, db')" and r: "db_receipts db1 = db_receipts db"
      and m: "if out_of_order e rq then db1 = db else \<not> commercial_mismatch e rq \<and>
        run_state (apply_billing_event_effects env e rq now) db = (Inr (), db1)" for cls db1
  proof -
    from f obtain v where "run_state (update_receipt env ''finish receipt'' (event_key e) (finish_receipt (be_requirement_id e) cls now)) db1 = (Inr v, db')"
      by (auto simp: finish_billing_receipt_def ran_or_return ran_commit simp del: run_state_or_return)
    from update_receipt_run [OF _ this, of rc] rc r
    have x: "rc_event (finish_receipt (be_requirement_id e) cls now rc) = rc_event rc"
      and y: "db' = with_receipt k (finish_receipt (be_requirement_id e) cls now rc) db1" by auto
    from x e have "rc_event rc = e" by (auto simp: finish_event)
    with y m e rq c show ?thesis unfolding event_settled_def by blast
  qed
  consider "out_of_order e rq" | "\<not> out_of_order e rq" "commercial_mismatch e rq" | "\<not> out_of_order e rq" "\<not> commercial_mismatch e rq"
    by blast
  then show ?thesis
  proof cases
    case 1
    with run show ?thesis by (intro disjI2 finished [of "''out_of_order_ignored''" db]) (simp_all add: settle_billing_event_def)
  next
    case 2
    with run rc have "set_aside (event_key e) rc db db'" by (intro reject_run) (auto simp: settle_billing_event_def)
    with rc show ?thesis by simp
  next
    case 3
    with run obtain db1 where f: "run_state (apply_billing_event_effects env e rq now) db = (Inr (), db1)"
      "run_state (finish_billing_receipt env e [] now) db1 = (Inr u, db')"
      by (auto simp: settle_billing_event_def ran_or_return simp del: run_state_or_return)
    with 3 effects_receipts [OF rq f(1)] show ?thesis by (intro disjI2 finished [of "[]" db1]) simp_all
  qed
qed

lemma apply_resolved_run:
  assumes rc: "map_of (db_receipts db) k = Some rc" "event_key e = k"
    and e: "rc_event rc = e \<or> be_requirement_id (rc_event rc) = []"
    and run: "run_state (apply_resolved_event env e now) db = (Inr u, db')"
  shows "set_aside k rc db db' \<or> event_settled env now k rc db db'"
proof (cases "be_requirement_id e = []")
  case True
  with run obtain v where "run_state (update_receipt env ''defer receipt'' (event_key e) defer_receipt) db = (Inr v, db')"
    by (auto simp: apply_resolved_event_def ran_or_return ran_commit simp del: run_state_or_return)
  from update_receipt_run [OF _ this, of rc] rc have "db' = with_receipt k (defer_receipt rc) db" by simp
  then have "set_aside k rc db db'"
    unfolding set_aside_def by (intro exI [of _ "defer_receipt rc"]) (simp add: defer_receipt_def)
  then show ?thesis ..
next
  case False
  have reject: "set_aside k rc db db'" if "run_state (reject_billing_event env e failure) db = (Inr u, db')" for failure
    using reject_run [OF _ that, of rc] rc by simp
  show ?thesis
  proof (cases "map_of (db_requirements db) (be_requirement_id e)")
    case None
    with run False show ?thesis using reject
      by (auto simp: apply_resolved_event_def ran_or_return ran_query simp del: run_state_or_return)
  next
    case (Some rq)
    show ?thesis
    proof (cases "be_customer_ref e = []")
      case True
      with run False Some have "run_state (settle_billing_event env e rq now) db = (Inr u, db')"
        by (auto simp: apply_resolved_event_def ran_or_return ran_query simp del: run_state_or_return)
      with True show ?thesis using settle_run [OF rc False e Some] by (simp add: customer_matches_def)
    next
      case named: False
      obtain q d where q: "run_state (query env ''select customer'' (customer_organisation e)) db = (q, d)" by (meson surj_pair)
      show ?thesis
      proof (cases q)
        case (Inl x)
        with run False Some named q show ?thesis
          by (auto simp: apply_resolved_event_def ran_or_return ran_query simp del: run_state_or_return)
      next
        case (Inr found)
        with q have f: "found = customer_organisation e db" "d = db" by (auto simp: ran_query)
        show ?thesis
        proof (cases "found = Some (rq_organisation_id rq)")
          case True
          with run False Some named q Inr f have "run_state (settle_billing_event env e rq now) db = (Inr u, db')"
            by (auto simp: apply_resolved_event_def ran_or_return ran_query simp del: run_state_or_return)
          with True f show ?thesis using settle_run [OF rc False e Some] by (simp add: customer_matches_def)
        next
          case other: False
          with run False Some named q Inr f have "run_state (reject_billing_event env e ''customer_mismatch'') db = (Inr u, db')"
            by (auto simp: apply_resolved_event_def ran_or_return ran_query simp del: run_state_or_return)
          then show ?thesis using reject by blast
        qed
      qed
    qed
  qed
qed

lemma apply_once_run:
  assumes keys: "\<And>k rc. map_of (db_receipts db) k = Some rc \<Longrightarrow> event_key (rc_event rc) = k"
    and run: "run_state (apply_billing_event_once env p i now) db = (Inr u, db')"
  shows "\<exists>rc. map_of (db_receipts db) (p, i) = Some rc \<and>
    (if rc_state rc = ''processed'' then db' = db
     else set_aside (p, i) rc db db' \<or> event_settled env now (p, i) rc db db')"
proof -
  from run obtain rc where rc: "map_of (db_receipts db) (p, i) = Some rc"
    by (cases "map_of (db_receipts db) (p, i)")
      (auto simp: apply_billing_event_once_def ran simp del: run_state_or_return)
  show ?thesis
  proof (cases "rc_state rc = ''processed''")
    case True
    with run rc show ?thesis
      by (auto simp: apply_billing_event_once_def ran simp del: run_state_or_return)
  next
    case False
    have "\<exists>e. run_state (apply_resolved_event env e now) db = (Inr u, db') \<and> event_key e = (p, i) \<and>
        (rc_event rc = e \<or> be_requirement_id (rc_event rc) = [])"
    proof (cases "be_requirement_id (rc_event rc) = []")
      case True
      with run rc False obtain j d where "run_state (resolve_billing_payment_reference env (rc_event rc)) db = (Inr j, d)"
        "run_state (apply_resolved_event env ((rc_event rc)\<lparr>be_requirement_id := j\<rparr>) now) d = (Inr u, db')"
        by (auto simp: apply_billing_event_once_def ran simp del: run_state_or_return)
      then show ?thesis using True keys [OF rc]
        by (intro exI [of _ "(rc_event rc)\<lparr>be_requirement_id := j\<rparr>"])
          (auto simp: resolve_billing_payment_reference_def dest: resolve_candidates_same)
    next
      case named: False
      with run rc False have "run_state (apply_resolved_event env (rc_event rc) now) db = (Inr u, db')"
        by (auto simp: apply_billing_event_once_def ran simp del: run_state_or_return)
      then show ?thesis using keys [OF rc] by blast
    qed
    with rc False show ?thesis using apply_resolved_run [OF rc] by auto
  qed
qed

section \<open>Transitions\<close>

text \<open>
  One transaction of the store; a new requirement that is not paid, as submitting a configuration and
  accepting a quote insert it; or any change of the tables that billing only reads.
\<close>

inductive billing_step :: "billing_db \<Rightarrow> billing_db \<Rightarrow> bool" where
  prepare: "run_state (prepare_checkout env session requirement_id digest now) db = (r1, db') \<Longrightarrow> billing_step db db'"
| link: "run_state (set_billing_customer env session customer_ref provider now) db = (r2, db') \<Longrightarrow> billing_step db db'"
| complete: "run_state (complete_checkout env session plan hosted now) db = (r2, db') \<Longrightarrow> billing_step db db'"
| receive: "run_state (receive_billing_event env e) db = (r3, db') \<Longrightarrow> billing_step db db'"
| settle: "run_state (apply_billing_event_once env provider event_id now) db = (r4, db') \<Longrightarrow> billing_step db db'"
| issue: "map_of (db_requirements db) i = None \<Longrightarrow> rq_state rq \<noteq> ''paid'' \<Longrightarrow>
    billing_step db (db\<lparr>db_requirements := AList.update i rq (db_requirements db)\<rparr>)"
| elsewhere: "db_requirements db' = db_requirements db \<Longrightarrow> db_accounts db' = db_accounts db \<Longrightarrow>
    db_checkouts db' = db_checkouts db \<Longrightarrow> db_subscriptions db' = db_subscriptions db \<Longrightarrow>
    db_invoices db' = db_invoices db \<Longrightarrow> db_receipts db' = db_receipts db \<Longrightarrow> billing_step db db'"

section \<open>Growth\<close>

definition not_before :: "event_mark \<Rightarrow> event_mark \<Rightarrow> bool" where
  "not_before a b \<longleftrightarrow> (case a of None \<Rightarrow> True | Some (t, _) \<Rightarrow> (case b of None \<Rightarrow> False | Some (u, _) \<Rightarrow> t \<le> u))"

definition receipts_grow :: "billing_db \<Rightarrow> billing_db \<Rightarrow> bool" where
  "receipts_grow db db' \<longleftrightarrow>
     (\<forall>k rc. map_of (db_receipts db) k = Some rc \<longrightarrow>
        (\<exists>rc'. map_of (db_receipts db') k = Some rc' \<and> rc_event rc' = rc_event rc \<and>
          (rc_state rc = ''processed'' \<longrightarrow> rc' = rc)))"

definition accounts_grow :: "billing_db \<Rightarrow> billing_db \<Rightarrow> bool" where
  "accounts_grow db db' \<longleftrightarrow>
     (\<forall>e org. customer_organisation e db = Some org \<longrightarrow> customer_organisation e db' = Some org)"

definition requirements_grow :: "billing_db \<Rightarrow> billing_db \<Rightarrow> bool" where
  "requirements_grow db db' \<longleftrightarrow>
     (\<forall>i r. map_of (db_requirements db) i = Some r \<longrightarrow>
        (\<exists>r'. map_of (db_requirements db') i = Some r' \<and> requirement_facts r' = requirement_facts r \<and>
          not_before (rq_latest_event r) (rq_latest_event r')))"

definition billing_grows :: "billing_db \<Rightarrow> billing_db \<Rightarrow> bool" where
  "billing_grows db db' \<longleftrightarrow> receipts_grow db db' \<and> accounts_grow db db' \<and> requirements_grow db db'"

lemma not_before_refl [simp]: "not_before a a"
  by (auto simp: not_before_def split: option.splits)

lemma not_before_trans: "not_before a b \<Longrightarrow> not_before b c \<Longrightarrow> not_before a c"
  by (auto simp: not_before_def split: option.splits)

lemma receipts_same: "db_receipts db' = db_receipts db \<Longrightarrow> receipts_grow db db'"
  by (simp add: receipts_grow_def)

lemma accounts_same: "db_accounts db' = db_accounts db \<Longrightarrow> accounts_grow db db'"
  by (simp add: accounts_grow_def customer_organisation_def)

lemma requirements_same: "db_requirements db' = db_requirements db \<Longrightarrow> requirements_grow db db'"
  by (simp add: requirements_grow_def)

interpretation growth: step_preorder billing_grows
proof unfold_locales
  fix s t u
  show "billing_grows s s" by (simp add: billing_grows_def receipts_same accounts_same requirements_same)
  assume st: "billing_grows s t" and tu: "billing_grows t u"
  have "receipts_grow s u"
    using st tu unfolding billing_grows_def receipts_grow_def by metis
  moreover have "accounts_grow s u"
    using st tu unfolding billing_grows_def accounts_grow_def by blast
  moreover have "requirements_grow s u"
    unfolding requirements_grow_def
  proof (intro allI impI)
    fix i r assume "map_of (db_requirements s) i = Some r"
    with st obtain r1 where r1: "map_of (db_requirements t) i = Some r1" "requirement_facts r1 = requirement_facts r"
      "not_before (rq_latest_event r) (rq_latest_event r1)" unfolding billing_grows_def requirements_grow_def by blast
    with tu obtain r2 where "map_of (db_requirements u) i = Some r2" "requirement_facts r2 = requirement_facts r1"
      "not_before (rq_latest_event r1) (rq_latest_event r2)" unfolding billing_grows_def requirements_grow_def by blast
    with r1 show "\<exists>r'. map_of (db_requirements u) i = Some r' \<and> requirement_facts r' = requirement_facts r \<and>
      not_before (rq_latest_event r) (rq_latest_event r')" using not_before_trans by metis
  qed
  ultimately show "billing_grows s u" by (simp add: billing_grows_def)
qed

section \<open>The invariant\<close>

definition evidenced :: "billing_db \<Rightarrow> string \<Rightarrow> requirement_row \<Rightarrow> bool" where
  "evidenced db i r \<longleftrightarrow>
     (\<exists>k rc. map_of (db_receipts db) k = Some rc \<and> rc_state rc = ''processed'' \<and> be_type (rc_event rc) = ''invoice.paid'' \<and>
        be_requirement_id (rc_event rc) = i \<and> customer_matches (rc_event rc) r db \<and>
        \<not> commercial_mismatch (rc_event rc) r \<and> rq_paid_amount r = Some (rq_amount r) \<and> rq_paid_currency r = rq_currency r)"

definition receipts_sound :: "billing_db \<Rightarrow> bool" where
  "receipts_sound db \<longleftrightarrow>
     (\<forall>k rc. map_of (db_receipts db) k = Some rc \<longrightarrow> event_key (rc_event rc) = k \<and> receivable (rc_event rc))"

definition payments_sound :: "billing_db \<Rightarrow> bool" where
  "payments_sound db \<longleftrightarrow>
     (\<forall>i r. map_of (db_requirements db) i = Some r \<longrightarrow> rq_state r = ''paid'' \<longrightarrow> evidenced db i r)"

definition ledger_sound :: "billing_db \<Rightarrow> bool" where
  "ledger_sound db \<longleftrightarrow> receipts_sound db \<and> payments_sound db"

lemma facts_fields:
  "requirement_facts r' = requirement_facts r \<Longrightarrow>
     rq_organisation_id r' = rq_organisation_id r \<and> rq_amount r' = rq_amount r \<and> rq_currency r' = rq_currency r"
  by (simp add: requirement_facts_def)

lemma evidenced_grows:
  assumes "evidenced db i r" and "receipts_grow db db'" and "accounts_grow db db'"
    and f: "requirement_facts r' = requirement_facts r"
    and "rq_paid_amount r' = rq_paid_amount r" "rq_paid_currency r' = rq_paid_currency r"
  shows "evidenced db' i r'"
proof -
  from assms(1) obtain k rc where rc: "map_of (db_receipts db) k = Some rc" "rc_state rc = ''processed''"
    "be_type (rc_event rc) = ''invoice.paid''" "be_requirement_id (rc_event rc) = i" "customer_matches (rc_event rc) r db"
    "\<not> commercial_mismatch (rc_event rc) r" "rq_paid_amount r = Some (rq_amount r)" "rq_paid_currency r = rq_currency r"
    unfolding evidenced_def by blast
  from rc(1,2) assms(2) have "map_of (db_receipts db') k = Some rc" unfolding receipts_grow_def by blast
  moreover have "customer_matches (rc_event rc) r' db'"
    using rc(5) assms(3) facts_fields [OF f] unfolding customer_matches_def accounts_grow_def by auto
  moreover have "\<not> commercial_mismatch (rc_event rc) r'"
    using rc(6) facts_fields [OF f] by (auto simp: commercial_mismatch_def split: option.splits)
  moreover have "rq_paid_amount r' = Some (rq_amount r')" "rq_paid_currency r' = rq_currency r'"
    using rc(7,8) assms(5,6) facts_fields [OF f] by simp_all
  ultimately show ?thesis using rc(2-4) unfolding evidenced_def by (intro exI [of _ k] exI [of _ rc]) simp
qed

lemma quiet_step:
  assumes "db_requirements db' = db_requirements db" and "db_receipts db' = db_receipts db" and "accounts_grow db db'"
    and "ledger_sound db"
  shows "billing_grows db db' \<and> ledger_sound db'"
proof -
  note grow = receipts_same [OF assms(2)] assms(3)
  have "payments_sound db'"
    unfolding payments_sound_def
  proof (intro allI impI)
    fix i r assume "map_of (db_requirements db') i = Some r" and "rq_state r = ''paid''"
    with assms(1,4) have "evidenced db i r" by (simp add: ledger_sound_def payments_sound_def)
    then show "evidenced db' i r" using grow by (rule evidenced_grows) simp_all
  qed
  with grow requirements_same [OF assms(1)] assms(2,4) show ?thesis
    by (simp add: billing_grows_def ledger_sound_def receipts_sound_def)
qed

section \<open>Every transition keeps the invariant and grows the ledger\<close>

lemma insert_audit_quiet:
  "run_state (insert_audit env actor org project action result metadata) db = (Inr u, db') \<Longrightarrow>
     db_requirements db' = db_requirements db \<and> db_receipts db' = db_receipts db \<and> db_accounts db' = db_accounts db"
  by (auto simp: insert_audit_def ran simp del: run_state_or_return)

lemma insert_checkout_quiet:
  "insert_checkout i row db = Inr db' \<Longrightarrow>
     db_requirements db' = db_requirements db \<and> db_receipts db' = db_receipts db \<and> db_accounts db' = db_accounts db"
  by (auto simp: insert_checkout_def split: if_splits)

lemma prepare_checkout_quiet:
  assumes "run_state (prepare_checkout env session i digest now) db = (r, db')"
  shows "db_requirements db' = db_requirements db \<and> db_receipts db' = db_receipts db \<and> db_accounts db' = db_accounts db"
  using transaction_result [OF assms [unfolded prepare_checkout_def]]
  by (auto simp: ran Let_def simp del: run_state_or_return dest!: insert_audit_quiet insert_checkout_quiet
    split: option.splits if_splits prod.splits)

lemma complete_checkout_quiet:
  assumes "run_state (complete_checkout env session plan hosted now) db = (r, db')"
  shows "db_requirements db' = db_requirements db \<and> db_receipts db' = db_receipts db \<and> db_accounts db' = db_accounts db"
proof -
  from as_error_result [OF assms [unfolded complete_checkout_def]] show ?thesis
    by (auto simp: ran complete_row_def simp del: run_state_or_return dest!: transaction_result split: option.splits if_splits)
qed

lemma link_customer_grows:
  assumes "link_customer i provider ref org db = Inr db'"
  shows "db_requirements db' = db_requirements db \<and> db_receipts db' = db_receipts db \<and> accounts_grow db db'"
proof -
  have keep: "customer_organisation e (db\<lparr>db_accounts := AList.update i a (db_accounts db)\<rparr>) = Some o1"
    if "map_of (db_accounts db) i = None" "customer_organisation e db = Some o1" for e o1 a
    using that by (auto simp: customer_organisation_def update_fresh find_value_append split: option.splits)
  from assms show ?thesis
    by (auto simp: link_customer_def accounts_grow_def keep split: option.splits if_splits)
qed

lemma set_customer_grows:
  assumes "run_state (set_billing_customer env session ref provider now) db = (r, db')"
  shows "db_requirements db' = db_requirements db \<and> db_receipts db' = db_receipts db \<and> accounts_grow db db'"
proof (cases "provider = ''stripe''")
  case False
  with assms show ?thesis by (simp add: set_billing_customer_def accounts_same)
next
  case True
  with assms have "run_state (set_billing_customer env session ref ''stripe'' now) db = (r, db')" by simp
  from as_error_result [OF this [unfolded set_billing_customer_def simp_thms if_False]] show ?thesis
    by (auto simp: ran accounts_same simp del: run_state_or_return
      dest!: transaction_result insert_audit_quiet link_customer_grows) (simp add: accounts_grow_def customer_organisation_def)
qed

lemma receive_grows:
  assumes sound: "ledger_sound db" and run: "run_state (receive_billing_event env e) db = (r, db')"
  shows "billing_grows db db' \<and> ledger_sound db'"
proof (cases "db' = db")
  case True
  with sound show ?thesis by (simp add: growth.rel_refl)
next
  case False
  from run have d: "receivable e \<and> map_of (db_receipts db) (event_key e) = None \<and>
      db' = db\<lparr>db_receipts := AList.update (event_key e) (fresh_receipt e) (db_receipts db)\<rparr>"
    using False
    by (auto simp: receive_billing_event_def insert_receipt_def query_def split: if_splits option.splits prod.splits sum.splits)
  then have g: "receipts_grow db db'" by (auto simp: receipts_grow_def go_map_simps)
  have "payments_sound db'"
    unfolding payments_sound_def
  proof (intro allI impI)
    fix i rq assume "map_of (db_requirements db') i = Some rq" and "rq_state rq = ''paid''"
    with sound d have "evidenced db i rq" by (auto simp: ledger_sound_def payments_sound_def)
    then show "evidenced db' i rq" using g by (rule evidenced_grows) (simp_all add: d accounts_same)
  qed
  moreover have "receipts_sound db'"
    using sound d by (auto simp: ledger_sound_def receipts_sound_def go_map_simps fresh_receipt_def)
  ultimately show ?thesis using g d
    by (simp add: billing_grows_def ledger_sound_def accounts_same requirements_same)
qed

lemma issue_grows:
  assumes sound: "ledger_sound db" and new: "map_of (db_requirements db) i = None" "rq_state rq \<noteq> ''paid''"
  shows "billing_grows db (db\<lparr>db_requirements := AList.update i rq (db_requirements db)\<rparr>) \<and>
    ledger_sound (db\<lparr>db_requirements := AList.update i rq (db_requirements db)\<rparr>)"
proof -
  let ?d = "db\<lparr>db_requirements := AList.update i rq (db_requirements db)\<rparr>"
  have "payments_sound ?d"
    unfolding payments_sound_def
  proof (intro allI impI)
    fix j r assume "map_of (db_requirements ?d) j = Some r" and p: "rq_state r = ''paid''"
    with new have "map_of (db_requirements db) j = Some r" by (auto simp: go_map_simps split: if_splits)
    with p sound have "evidenced db j r" by (auto simp: ledger_sound_def payments_sound_def)
    then show "evidenced ?d j r" by (rule evidenced_grows) (simp_all add: receipts_same accounts_same)
  qed
  moreover have "requirements_grow db ?d" using new by (auto simp: requirements_grow_def go_map_simps)
  ultimately show ?thesis using sound
    by (simp add: billing_grows_def ledger_sound_def receipts_same accounts_same receipts_sound_def)
qed

lemma with_receipt_grows:
  assumes "map_of (db_receipts db) k = Some rc" and "rc_state rc \<noteq> ''processed''" and "rc_event rc' = rc_event rc"
  shows "receipts_grow db (with_receipt k rc' db)"
  using assms by (auto simp: receipts_grow_def with_receipt_def go_map_simps)

lemma with_receipt_fields [simp]:
  "db_requirements (with_receipt k rc db) = db_requirements db" "db_accounts (with_receipt k rc db) = db_accounts db"
  by (simp_all add: with_receipt_def)

lemma set_aside_grows:
  assumes sound: "ledger_sound db" and rc: "map_of (db_receipts db) k = Some rc" "rc_state rc \<noteq> ''processed''"
    and aside: "set_aside k rc db db'"
  shows "billing_grows db db' \<and> ledger_sound db'"
proof -
  from aside obtain rc' where e: "rc_event rc' = rc_event rc" and d: "db' = with_receipt k rc' db"
    unfolding set_aside_def by blast
  have g: "receipts_grow db db'" using with_receipt_grows [OF rc e] d by simp
  have "payments_sound db'"
    unfolding payments_sound_def
  proof (intro allI impI)
    fix i rq assume "map_of (db_requirements db') i = Some rq" and "rq_state rq = ''paid''"
    with sound d have "evidenced db i rq" by (auto simp: ledger_sound_def payments_sound_def)
    then show "evidenced db' i rq" using g by (rule evidenced_grows) (simp_all add: d accounts_same)
  qed
  moreover have "receipts_sound db'"
    using sound rc e d by (auto simp: ledger_sound_def receipts_sound_def with_receipt_def go_map_simps split: if_splits)
  ultimately show ?thesis using g d
    by (simp add: billing_grows_def ledger_sound_def accounts_same requirements_same)
qed

lemma event_settled_grows:
  assumes sound: "ledger_sound db" and rc: "map_of (db_receipts db) k = Some rc" "rc_state rc \<noteq> ''processed''"
    and set: "event_settled env now k rc db db'"
  shows "billing_grows db db' \<and> ledger_sound db'"
proof -
  let ?e = "rc_event rc" and ?i = "be_requirement_id (rc_event rc)"
  from set obtain rq db1 cls where rq: "?i \<noteq> []" "map_of (db_requirements db) ?i = Some rq" "customer_matches ?e rq db"
    and b: "if out_of_order ?e rq then db1 = db
      else \<not> commercial_mismatch ?e rq \<and> run_state (apply_billing_event_effects env ?e rq now) db = (Inr (), db1)"
    and d: "db' = with_receipt k (finish_receipt ?i cls now rc) db1"
    unfolding event_settled_def by blast
  let ?rc = "finish_receipt ?i cls now rc"
  have e': "rc_event ?rc = ?e" using rq(1) by (simp add: finish_event)
  have st': "rc_state ?rc = ''processed''" by (simp add: finish_receipt_def)
  have frame: "effect_frame ?i db db1 \<and> (\<exists>r'. map_of (db_requirements db1) ?i = Some r' \<and>
      (r' = rq \<or> \<not> out_of_order ?e rq \<and> \<not> commercial_mismatch ?e rq \<and> effect_of ?e rq r'))"
  proof (cases "out_of_order ?e rq")
    case True
    with b rq show ?thesis by (simp add: effect_frame_def)
  next
    case False
    with b have m: "\<not> commercial_mismatch ?e rq" and "run_state (apply_billing_event_effects env ?e rq now) db = (Inr (), db1)" by simp_all
    from effects_of_event [OF rq(2) refl this(2)] False m show ?thesis by blast
  qed
  then obtain r' where f: "effect_frame ?i db db1" and r': "map_of (db_requirements db1) ?i = Some r'"
    and ch: "r' = rq \<or> \<not> out_of_order ?e rq \<and> \<not> commercial_mismatch ?e rq \<and> effect_of ?e rq r'" by blast
  have rec: "db_receipts db1 = db_receipts db" and acc: "db_accounts db' = db_accounts db"
    using f d by (simp_all add: effect_frame_def)
  have kr: "map_of (db_receipts db') k = Some ?rc" using rc rec by (simp add: d with_receipt_def go_map_simps)
  have g: "receipts_grow db db'"
    using with_receipt_grows [OF rc e'] rec by (simp add: d receipts_grow_def with_receipt_def)
  have facts: "requirement_facts r' = requirement_facts rq" using ch by (auto simp: effect_of_def)
  have later: "not_before (rq_latest_event rq) (rq_latest_event r')"
    using ch by (auto simp: effect_of_def mark_of_def not_before_def out_of_order_def split: option.splits)
  have other: "map_of (db_requirements db') j = map_of (db_requirements db) j" if "j \<noteq> ?i" for j
    using f that d by (simp add: effect_frame_def)
  have "requirements_grow db db'"
    unfolding requirements_grow_def
  proof (intro allI impI)
    fix j r assume j: "map_of (db_requirements db) j = Some r"
    show "\<exists>r'. map_of (db_requirements db') j = Some r' \<and> requirement_facts r' = requirement_facts r \<and>
        not_before (rq_latest_event r) (rq_latest_event r')"
      using j other [of j] rq(2) r' facts later d by (cases "j = ?i") auto
  qed
  moreover have "payments_sound db'"
    unfolding payments_sound_def
  proof (intro allI impI)
    fix j r assume j: "map_of (db_requirements db') j = Some r" and p: "rq_state r = ''paid''"
    note keep = evidenced_grows [OF _ g accounts_same [OF acc]]
    have old: "evidenced db l q" if "map_of (db_requirements db) l = Some q" "rq_state q = ''paid''" for l q
      using that sound by (simp add: ledger_sound_def payments_sound_def)
    show "evidenced db' j r"
    proof (cases "j = ?i")
      case False
      with j other p show ?thesis using keep [OF old] by simp
    next
      case True
      with j r' d have rr: "r = r'" by simp
      show ?thesis
      proof (cases "r' = rq")
        case True
        with rr p \<open>j = ?i\<close> rq(2) show ?thesis using keep [OF old] by simp
      next
        case False
        with ch have m: "\<not> commercial_mismatch ?e rq" and ef: "effect_of ?e rq r'" by auto
        show ?thesis
        proof (cases "be_type ?e = ''invoice.paid''")
          case True
          have "\<not> commercial_mismatch ?e r'" using m facts_fields [OF facts] by (auto simp: commercial_mismatch_def split: option.splits)
          moreover have "customer_matches ?e r' db'"
            using rq(3) facts_fields [OF facts] acc by (auto simp: customer_matches_def customer_organisation_def)
          ultimately show ?thesis using kr st' e' True ef facts_fields [OF facts] rr \<open>j = ?i\<close>
            unfolding evidenced_def by (intro exI [of _ k] exI [of _ ?rc]) (simp add: effect_of_def)
        next
          case other': False
          with ef rr p have "rq_state rq = ''paid''" by (auto simp: effect_of_def payment_next_def split: if_splits)
          from keep [OF old [OF rq(2) this] facts] ef other' rr \<open>j = ?i\<close> show ?thesis by (simp add: effect_of_def)
        qed
      qed
    qed
  qed
  moreover have "receipts_sound db'"
    using sound rc e' rec d by (auto simp: ledger_sound_def receipts_sound_def with_receipt_def go_map_simps split: if_splits)
  ultimately show ?thesis using g acc by (simp add: billing_grows_def ledger_sound_def accounts_same)
qed

lemma apply_once_grows:
  assumes sound: "ledger_sound db" and run: "run_state (apply_billing_event_once env p i now) db = (r, db')"
  shows "billing_grows db db' \<and> ledger_sound db'"
proof (cases r)
  case (Inl e)
  with run have "db' = db" by (simp add: apply_billing_event_once_def transaction_error)
  with sound show ?thesis by (simp add: growth.rel_refl)
next
  case (Inr u)
  have "event_key (rc_event rc) = k" if "map_of (db_receipts db) k = Some rc" for k rc
    using that sound unfolding ledger_sound_def receipts_sound_def by blast
  from apply_once_run [OF this run [unfolded Inr]] sound show ?thesis
    using set_aside_grows [OF sound] event_settled_grows [OF sound] growth.rel_refl by (metis (full_types))
qed

lemma billing_step_grows: "billing_step db db' \<Longrightarrow> ledger_sound db \<Longrightarrow> billing_grows db db' \<and> ledger_sound db'"
proof (induction rule: billing_step.induct)
  case (prepare env session i digest now db r db')
  then show ?case using prepare_checkout_quiet by (intro quiet_step) (auto intro: accounts_same)
next
  case (link env session ref provider now db r db')
  then show ?case using set_customer_grows by (intro quiet_step) auto
next
  case (complete env session plan hosted now db r db')
  then show ?case using complete_checkout_quiet by (intro quiet_step) (auto intro: accounts_same)
next
  case (receive env e db r db')
  then show ?case using receive_grows by blast
next
  case (settle env p i now db r db')
  then show ?case using apply_once_grows by blast
next
  case (issue db i rq)
  then show ?case using issue_grows by blast
next
  case (elsewhere db' db)
  then show ?case by (intro quiet_step) (auto intro: accounts_same)
qed

lemma billing_steps_grow: "billing_step\<^sup>*\<^sup>* db db' \<Longrightarrow> ledger_sound db \<Longrightarrow> billing_grows db db' \<and> ledger_sound db'"
proof (induction rule: rtranclp_induct)
  case (step y z)
  then show ?case using billing_step_grows growth.rel_trans by blast
qed (simp add: growth.rel_refl)

end
