(* ===== verification/Billing_Properties.thy ===== *)
theory Billing_Properties
  imports Billing_Ledger
begin

text \<open>
  The properties of billing: what the reachable states of the store guarantee, which events can never be
  applied, what the webhook lets through to the store, and what opening a checkout requires.
\<close>

section \<open>Starting states\<close>

definition unbilled :: "billing_db \<Rightarrow> bool" where
  "unbilled db \<longleftrightarrow> db_receipts db = [] \<and> list_all (\<lambda>(_, r). rq_state r \<noteq> ''paid'') (db_requirements db)"

lemma unbilled_sound: "unbilled db \<Longrightarrow> ledger_sound db"
  by (auto simp: unbilled_def ledger_sound_def receipts_sound_def payments_sound_def list_all_iff dest!: map_of_SomeD)

section \<open>A small deployment\<close>

definition demo_env :: billing_env where
  "demo_env = \<lparr>ve_refuses = (\<lambda>_ _. None), ve_ids = (\<lambda>p _. Inr (p @ ''_1'')), ve_sql_now = 50\<rparr>"

definition demo_requirement :: requirement_row where
  "demo_requirement =
     \<lparr>rq_organisation_id = ''org_a'', rq_project_id = ''prj_a'', rq_environment_id = ''env_a'', rq_endpoint_id = ''end_a'',
      rq_amount = 4900, rq_currency = ''EUR'', rq_collection_mode = ''checkout_subscription'', rq_state = ''action_required'',
      rq_paid_at = None, rq_paid_amount = None, rq_paid_currency = [], rq_failure = [], rq_latest_event = None,
      rq_request_id = ''drq_a'', rq_quote_id = [], rq_purpose = ''shared_activation'', rq_billing_period = ''month'',
      rq_tax_treatment = ''not_determined'', rq_price_finality = ''contractual'', rq_source_label = ''list'',
      rq_evidence_ref = ''ref'', rq_created_at = 0\<rparr>"

definition demo_endpoint :: endpoint_row where
  "demo_endpoint =
     \<lparr>er_organisation_id = ''org_a'', er_project_id = ''prj_a'', er_environment_id = ''env_a'', er_configuration_id = ''cfg_a'',
      er_offer_id = ''off_a'', er_service_mode = ''dedicated_private'', er_commercial_state = ''payment_action_required'',
      er_runtime_state = ''awaiting_payment'', er_route_id = [], er_allowance_period = [], er_period_start = None,
      er_period_end = None, er_latest_payment = None, er_profile_id = ''prf_a'', er_model_id = ''mdl_a'', er_deployment_id = [],
      er_alias = ''fast'', er_capacity_units = 1, er_request_allowance = None, er_token_allowance = None, er_requests_used = 0,
      er_created_at = 0\<rparr>"

definition demo_db :: billing_db where
  "demo_db =
     \<lparr>db_organisations = [(''org_a'', ''A'')], db_requirements = [(''pay_a'', demo_requirement)],
      db_endpoints = [(''end_a'', demo_endpoint)], db_configurations = [], db_offers = [],
      db_prices = [(''off_a'', (''price_a'', True))], db_targets = [], db_routes = [], db_plans = [], db_tenant_plans = [],
      db_accounts = [(''bac_a'', \<lparr>ac_organisation_id = ''org_a'', ac_provider = ''stripe'', ac_customer_ref = ''cus_a'',
        ac_state = ''active'', ac_legal_name = ''A'', ac_tax_status = ''not_collected''\<rparr>)],
      db_checkouts = [], db_subscriptions = [], db_invoices = [], db_receipts = [], db_audit = []\<rparr>"

definition demo_payment :: "string \<Rightarrow> billing_event" where
  "demo_payment requirement_id =
     \<lparr>be_provider = ''stripe'', be_id = ''evt_1'', be_type = ''invoice.paid'', be_object_ref = ''in_1'',
      be_requirement_id = requirement_id, be_customer_ref = ''cus_a'', be_subscription_ref = ''sub_1'', be_invoice_ref = ''in_1'',
      be_object_status = ''paid'', be_payment_status = [], be_amount = Some 4900, be_currency = ''EUR'',
      be_period_start = None, be_period_end = None, be_cancel_at_period_end = None, be_created_at = 100000000000,
      be_payload_digest = ''digest'', be_verified_at = 101000000000\<rparr>"

definition received_payment :: "string \<Rightarrow> billing_db \<Rightarrow> billing_db" where
  "received_payment requirement_id db = snd (run_state (receive_billing_event demo_env (demo_payment requirement_id)) db)"

definition paid_db :: billing_db where
  "paid_db = snd (run_state (apply_billing_event_once demo_env ''stripe'' ''evt_1'' 101000000000) (received_payment ''pay_a'' demo_db))"

lemmas demo_defs = demo_env_def demo_requirement_def demo_endpoint_def demo_db_def demo_payment_def
  received_payment_def

lemma received_payment_receipts:
  "db_receipts (received_payment i demo_db) = [((''stripe'', ''evt_1''), fresh_receipt (demo_payment i))]"
  by (simp add: demo_defs receive_billing_event_def receivable_def zero_time_def insert_receipt_def)

lemma received_payment_rest:
  "received_payment i demo_db = demo_db\<lparr>db_receipts := [((''stripe'', ''evt_1''), fresh_receipt (demo_payment i))]\<rparr>"
  by (simp add: demo_defs receive_billing_event_def receivable_def zero_time_def insert_receipt_def)

lemma paid_db_steps: "billing_step\<^sup>*\<^sup>* demo_db paid_db"
proof -
  have "billing_step demo_db (received_payment ''pay_a'' demo_db)"
    unfolding received_payment_def by (rule billing_step.receive) (rule prod.collapse [symmetric])
  moreover have "billing_step (received_payment ''pay_a'' demo_db) paid_db"
    unfolding paid_db_def by (rule billing_step.settle) (rule prod.collapse [symmetric])
  ultimately show ?thesis by auto
qed

lemma paid_db_requirement:
  "map_of (db_requirements paid_db) ''pay_a'' =
     Some (paid_requirement (demo_payment ''pay_a'') 4900 ''EUR'' demo_requirement)"
  by (simp add: paid_db_def received_payment_rest demo_db_def demo_env_def)
    (code_simp)

lemma paid_db_receipts:
  "db_receipts paid_db =
     [((''stripe'', ''evt_1''), finish_receipt ''pay_a'' [] 101000000000 (fresh_receipt (demo_payment ''pay_a'')))]"
  by (simp add: paid_db_def received_payment_rest demo_db_def demo_env_def) code_simp

section \<open>Paid on evidence\<close>

text \<open>
  C27: Whatever sequence of transactions the store runs, with whatever failures of the database, a
  requirement is in the state paid only if there is a processed receipt of an \<open>invoice.paid\<close> event that
  names the requirement, whose customer (when the event names one) is the account of the requirement's
  organisation, and whose amount and currency (when the event has both) are those of the requirement; the
  amount recorded as paid is then the requirement's amount.
\<close>

theorem requirement_paid_on_evidence:
  assumes "unbilled db0" and "billing_step\<^sup>*\<^sup>* db0 db"
    and "map_of (db_requirements db) i = Some r" and "rq_state r = ''paid''"
  shows "\<exists>k rc. map_of (db_receipts db) k = Some rc \<and> rc_state rc = ''processed'' \<and>
    be_type (rc_event rc) = ''invoice.paid'' \<and> be_requirement_id (rc_event rc) = i \<and> receivable (rc_event rc) \<and>
    (be_customer_ref (rc_event rc) = [] \<or> customer_organisation (rc_event rc) db = Some (rq_organisation_id r)) \<and>
    (be_amount (rc_event rc) = None \<or> be_currency (rc_event rc) = [] \<or>
      be_amount (rc_event rc) = Some (rq_amount r) \<and> be_currency (rc_event rc) = rq_currency r) \<and>
    rq_paid_amount r = Some (rq_amount r) \<and> rq_paid_currency r = rq_currency r"
proof -
  have sound: "ledger_sound db" using billing_steps_grow [OF assms(2) unbilled_sound [OF assms(1)]] ..
  with assms(3,4) have "evidenced db i r" by (simp add: ledger_sound_def payments_sound_def)
  then obtain k rc where rc: "map_of (db_receipts db) k = Some rc" "rc_state rc = ''processed''"
    "be_type (rc_event rc) = ''invoice.paid''" "be_requirement_id (rc_event rc) = i" "customer_matches (rc_event rc) r db"
    "\<not> commercial_mismatch (rc_event rc) r" "rq_paid_amount r = Some (rq_amount r)" "rq_paid_currency r = rq_currency r"
    unfolding evidenced_def by blast
  from sound rc(1) have "receivable (rc_event rc)" unfolding ledger_sound_def receipts_sound_def by blast
  moreover have "be_amount (rc_event rc) = None \<or> be_currency (rc_event rc) = [] \<or>
      be_amount (rc_event rc) = Some (rq_amount r) \<and> be_currency (rc_event rc) = rq_currency r"
    using rc(3,6) by (auto simp: commercial_mismatch_def split: option.splits)
  ultimately show ?thesis using rc unfolding customer_matches_def by blast
qed

lemma unbilled_demo: "unbilled demo_db"
  by (simp add: unbilled_def demo_db_def demo_requirement_def)

theorem requirement_paid_on_evidence_witness:
  "\<exists>r k rc. map_of (db_requirements paid_db) ''pay_a'' = Some r \<and> rq_state r = ''paid'' \<and>
    map_of (db_receipts paid_db) k = Some rc \<and> be_type (rc_event rc) = ''invoice.paid'' \<and>
    be_requirement_id (rc_event rc) = ''pay_a''"
proof -
  let ?r = "paid_requirement (demo_payment ''pay_a'') 4900 ''EUR'' demo_requirement"
  have p: "rq_state ?r = ''paid''" by (simp add: paid_requirement_def requirement_to_def)
  from requirement_paid_on_evidence [OF unbilled_demo paid_db_steps paid_db_requirement p] p paid_db_requirement
  show ?thesis by blast
qed

section \<open>Processed once\<close>

text \<open>
  C28: Once a receipt is processed, no later transaction changes it; delivering the event again, with any
  content, and applying it again change nothing at all.
\<close>

theorem processed_receipt_is_final:
  assumes "unbilled db0" and "billing_step\<^sup>*\<^sup>* db0 db" and "map_of (db_receipts db) k = Some rc"
    and "rc_state rc = ''processed''" and "billing_step\<^sup>*\<^sup>* db db'"
  shows "map_of (db_receipts db') k = Some rc \<and>
    snd (run_state (apply_billing_event_once env (fst k) (snd k) now) db') = db' \<and>
    (if event_key e = k then snd (run_state (receive_billing_event env e) db') = db' else True)"
proof -
  have sound: "ledger_sound db" using billing_steps_grow [OF assms(2) unbilled_sound [OF assms(1)]] ..
  with assms(3-5) have k: "map_of (db_receipts db') k = Some rc"
    using billing_steps_grow unfolding billing_grows_def receipts_grow_def by blast
  have "snd (run_state (apply_billing_event_once env (fst k) (snd k) now) db') = db'"
  proof -
    obtain r d where r: "run_state (apply_billing_event_once env (fst k) (snd k) now) db' = (r, d)" by (meson surj_pair)
    from transaction_result [OF this [unfolded apply_billing_event_once_def]] k assms(4) have "d = db'"
      by (auto simp: ran simp del: run_state_or_return)
    with r show ?thesis by simp
  qed
  moreover have "snd (run_state (receive_billing_event env e) db') = db'" if "event_key e = k"
    using k that by (auto simp: receive_billing_event_def insert_receipt_def query_def split: option.splits prod.splits sum.splits)
  ultimately show ?thesis using k by simp
qed

theorem processed_receipt_is_final_witness:
  "let k = (''stripe'', ''evt_1''); again = demo_payment ''pay_b''
   in map_of (db_receipts paid_db) k \<noteq> None \<and>
      snd (run_state (apply_billing_event_once demo_env (fst k) (snd k) 200000000000) paid_db) = paid_db \<and>
      snd (run_state (receive_billing_event demo_env again) paid_db) = paid_db"
proof -
  let ?rc = "finish_receipt ''pay_a'' [] 101000000000 (fresh_receipt (demo_payment ''pay_a''))"
  have k: "map_of (db_receipts paid_db) (''stripe'', ''evt_1'') = Some ?rc" by (simp add: paid_db_receipts)
  have p: "rc_state ?rc = ''processed''" by (simp add: finish_receipt_def)
  from processed_receipt_is_final [OF unbilled_demo paid_db_steps k p rtranclp.rtrancl_refl,
      of demo_env 200000000000 "demo_payment ''pay_b''"] k
  show ?thesis by (simp add: demo_payment_def)
qed

section \<open>Events that are never applied\<close>

text \<open>
  The requirement an event without one refers to: that of the checkout session, of the subscription or of
  the invoice it names, in this order.
\<close>

definition referenced_requirement :: "billing_event \<Rightarrow> billing_db \<Rightarrow> string" where
  "referenced_requirement e db =
     (case map (\<lambda>(_, v, lookup). lookup db) (filter (\<lambda>(_, v, lookup). v \<noteq> [] \<and> lookup db \<noteq> None) (candidates e)) of
        Some i # _ \<Rightarrow> i
      | _ \<Rightarrow> [])"

lemma resolve_candidates_result:
  "run_state (resolve_candidates env cs) db = (Inr i, db') \<Longrightarrow>
     i = (case map (\<lambda>(_, v, lookup). lookup db) (filter (\<lambda>(_, v, lookup). v \<noteq> [] \<and> lookup db \<noteq> None) cs) of
            Some i # _ \<Rightarrow> i | _ \<Rightarrow> [])"
  by (induction env cs rule: resolve_candidates.induct)
    (auto simp: ran simp del: run_state_or_return split: if_splits option.splits)

text \<open>
  C29: An event that does not name its requirement, but whose checkout session, subscription or invoice
  leads to one that it matches, is never applied: the last statement of the transaction sets the receipt's
  requirement, the trigger that protects the facts of a receipt refuses it, and everything is rolled back,
  whatever the database does. Applying the event reports an error every time.
\<close>

theorem resolved_event_never_applied:
  assumes "billing_step\<^sup>*\<^sup>* db0 db" and "unbilled db0"
    and rc: "map_of (db_receipts db) (p, i) = Some rc" "rc_state rc \<noteq> ''processed''" "be_requirement_id (rc_event rc) = []"
    and j: "referenced_requirement (rc_event rc) db = j" "j \<noteq> []" "map_of (db_requirements db) j = Some rq"
    and matches: "customer_matches (rc_event rc) rq db" "\<not> commercial_mismatch (rc_event rc) rq"
  shows "\<exists>er. run_state (apply_billing_event_once env p i now) db = (Inl er, db) \<and>
    run_state (apply_billing_event env p i now) db = (Some er, db)"
proof -
  have sound: "ledger_sound db" using billing_steps_grow [OF assms(1) unbilled_sound [OF assms(2)]] ..
  then have keys: "event_key (rc_event rc) = k" if "map_of (db_receipts db) k = Some rc" for k rc
    using that unfolding ledger_sound_def receipts_sound_def by blast
  let ?e = "(rc_event rc)\<lparr>be_requirement_id := j\<rparr>"
  have m: "out_of_order ?e rq = out_of_order (rc_event rc) rq" "\<not> commercial_mismatch ?e rq" "event_key ?e = (p, i)"
    "customer_organisation ?e db = customer_organisation (rc_event rc) db"
    using matches keys [OF rc(1)] by (auto simp: out_of_order_def commercial_mismatch_def customer_organisation_def split: option.splits)
  have stuck: "False" if "run_state (apply_billing_event_once env p i now) db = (Inr u, db')" for u db'
  proof -
    from that rc obtain j' d where res: "run_state (resolve_billing_payment_reference env (rc_event rc)) db = (Inr j', d)"
      and app: "run_state (apply_resolved_event env ((rc_event rc)\<lparr>be_requirement_id := j'\<rparr>) now) d = (Inr u, db')"
      by (auto simp: apply_billing_event_once_def ran simp del: run_state_or_return)
    from res have "j' = j" "d = db"
      using resolve_candidates_result resolve_candidates_same j(1)
      unfolding resolve_billing_payment_reference_def referenced_requirement_def by blast+
    with app have app: "run_state (apply_resolved_event env ?e now) db = (Inr u, db')" by simp
    have "run_state (settle_billing_event env ?e rq now) db = (Inr u, db')"
    proof (cases "be_customer_ref ?e = []")
      case True
      with app j show ?thesis
        by (auto simp: apply_resolved_event_def ran_or_return ran_query simp del: run_state_or_return)
    next
      case False
      obtain q d where q: "run_state (query env ''select customer'' (customer_organisation ?e)) db = (q, d)" by (meson surj_pair)
      then have q': "d = db" "q = Inr (Some (rq_organisation_id rq)) \<or> (\<exists>er. q = Inl er)"
        using matches(1) False m(4) by (auto simp: query_def customer_matches_def split: option.splits)
      with q app j False show ?thesis
        by (auto simp: apply_resolved_event_def ran_or_return ran_query simp del: run_state_or_return)
    qed
    then obtain db1 cls v where f: "run_state (update_receipt env ''finish receipt'' (p, i) (finish_receipt j cls now)) db1 = (Inr v, db')"
      and r1: "db_receipts db1 = db_receipts db"
      using m j effects_receipts [of db ?e rq env now]
      by (auto simp: settle_billing_event_def finish_billing_receipt_def ran_or_return ran_commit
        simp del: run_state_or_return split: if_splits)
    from r1 rc have "map_of (db_receipts db1) (p, i) = Some rc" by simp
    from update_receipt_run [OF this f] rc(3) j(2) show False by (simp add: finish_event)
  qed
  obtain r d where r: "run_state (apply_billing_event_once env p i now) db = (r, d)" by (meson surj_pair)
  with stuck obtain er where "r = Inl er" by (cases r) auto
  moreover from r this have "d = db" by (simp add: apply_billing_event_once_def transaction_error)
  ultimately have "run_state (apply_billing_event_once env p i now) db = (Inl er, db)" using r by simp
  then show ?thesis by (intro exI [of _ er]) (simp add: apply_billing_event_def as_error_def)
qed

definition linked_db :: billing_db where
  "linked_db = demo_db\<lparr>db_subscriptions := [((''stripe'', ''sub_1''),
     \<lparr>sbr_id = ''sub_1'', sbr_organisation_id = ''org_a'', sbr_endpoint_id = ''end_a'', sbr_requirement_id = ''pay_a'',
      sbr_customer_ref = ''cus_a'', sbr_status = ''active'', sbr_period_start = None, sbr_period_end = None,
      sbr_cancel_at_period_end = False, sbr_amount = 4900, sbr_currency = ''EUR'', sbr_latest_at = 90000000000, sbr_latest_id = ''evt_0''\<rparr>)]\<rparr>"

theorem resolved_event_never_applied_witness:
  "\<exists>er. run_state (apply_billing_event_once demo_env ''stripe'' ''evt_1'' 101000000000) (received_payment [] linked_db) =
      (Inl er, received_payment [] linked_db) \<and>
    run_state (apply_billing_event demo_env ''stripe'' ''evt_1'' 101000000000) (received_payment [] linked_db) =
      (Some er, received_payment [] linked_db)"
proof -
  let ?db = "received_payment [] linked_db" and ?rc = "fresh_receipt (demo_payment [])"
  have db: "?db = linked_db\<lparr>db_receipts := [((''stripe'', ''evt_1''), ?rc)]\<rparr>"
    by (simp add: demo_defs linked_db_def receive_billing_event_def receivable_def zero_time_def insert_receipt_def)
  have s: "billing_step\<^sup>*\<^sup>* linked_db ?db"
    unfolding received_payment_def by (rule r_into_rtranclp, rule billing_step.receive) (rule prod.collapse [symmetric])
  have u: "unbilled linked_db" using unbilled_demo by (simp add: unbilled_def linked_db_def)
  show ?thesis
  proof (rule resolved_event_never_applied [OF s u])
    show "map_of (db_receipts ?db) (''stripe'', ''evt_1'') = Some ?rc" unfolding db by simp
    show "rc_state ?rc \<noteq> ''processed''" "be_requirement_id (rc_event ?rc) = []"
      by (simp_all add: fresh_receipt_def demo_payment_def)
    show "referenced_requirement (rc_event ?rc) ?db = ''pay_a''"
      unfolding db
      by (simp add: referenced_requirement_def candidates_def session_requirement_def subscription_requirement_def
        invoice_requirement_def fresh_receipt_def demo_payment_def linked_db_def demo_db_def)
    show "''pay_a'' \<noteq> []" by simp
    show "map_of (db_requirements ?db) ''pay_a'' = Some demo_requirement" unfolding db by (simp add: linked_db_def demo_db_def)
    show "customer_matches (rc_event ?rc) demo_requirement ?db"
      unfolding db
      by (simp add: customer_matches_def customer_organisation_def fresh_receipt_def demo_payment_def linked_db_def
        demo_db_def demo_requirement_def)
    show "\<not> commercial_mismatch (rc_event ?rc) demo_requirement"
      by (simp add: commercial_mismatch_def fresh_receipt_def demo_payment_def demo_requirement_def)
  qed
qed

section \<open>The webhook\<close>

definition receipt_handled :: "receipt_row \<Rightarrow> bool" where
  "receipt_handled rc \<longleftrightarrow> rc_state rc \<in> {''processed'', ''deferred'', ''rejected''}"

definition stays_handled :: "string \<times> string \<Rightarrow> billing_db \<Rightarrow> billing_db \<Rightarrow> bool" where
  "stays_handled k db db' \<longleftrightarrow>
     (\<forall>rc. map_of (db_receipts db) k = Some rc \<longrightarrow> receipt_handled rc \<longrightarrow> (\<exists>rc'. map_of (db_receipts db') k = Some rc' \<and> receipt_handled rc'))"

lemma once_handles:
  assumes sound: "ledger_sound db" and run: "run_state (apply_billing_event_once env p i now) db = (Inr u, db')"
  shows "(\<exists>rc. map_of (db_receipts db') (p, i) = Some rc \<and> receipt_handled rc) \<and> stays_handled k db db'"
proof -
  have keys: "event_key (rc_event rc) = k" if "map_of (db_receipts db) k = Some rc" for k rc
    using that sound unfolding ledger_sound_def receipts_sound_def by blast
  from apply_once_run [OF keys run] obtain rc where rc: "map_of (db_receipts db) (p, i) = Some rc"
    and ch: "if rc_state rc = ''processed'' then db' = db else set_aside (p, i) rc db db' \<or> event_settled env now (p, i) rc db db'"
    by blast
  have upd: "\<exists>rc'. receipt_handled rc' \<and> db_receipts db' = amend (p, i) (\<lambda>_. rc') (db_receipts db)" if "rc_state rc \<noteq> ''processed''"
    using ch that
  proof (simp, elim disjE)
    assume "set_aside (p, i) rc db db'"
    then show ?thesis by (auto simp: set_aside_def with_receipt_def receipt_handled_def)
  next
    assume "event_settled env now (p, i) rc db db'"
    then obtain rq db1 cls where q: "map_of (db_requirements db) (be_requirement_id (rc_event rc)) = Some rq"
      and b: "if out_of_order (rc_event rc) rq then db1 = db
         else \<not> commercial_mismatch (rc_event rc) rq \<and>
           run_state (apply_billing_event_effects env (rc_event rc) rq now) db = (Inr (), db1)"
      and d: "db' = with_receipt (p, i) (finish_receipt (be_requirement_id (rc_event rc)) cls now rc) db1"
      unfolding event_settled_def by blast
    have "db_receipts db1 = db_receipts db" using b effects_receipts [OF q] by (auto split: if_splits)
    with d show ?thesis by (intro exI [of _ "finish_receipt (be_requirement_id (rc_event rc)) cls now rc"])
      (simp add: with_receipt_def receipt_handled_def finish_receipt_def)
  qed
  show ?thesis
  proof (cases "rc_state rc = ''processed''")
    case True
    with ch rc show ?thesis by (auto simp: receipt_handled_def stays_handled_def)
  next
    case False
    from upd [OF False] obtain rc' where "receipt_handled rc'" "db_receipts db' = amend (p, i) (\<lambda>_. rc') (db_receipts db)" by blast
    with rc show ?thesis by (auto simp: go_map_simps stays_handled_def)
  qed
qed

lemma stays_handled_trans: "stays_handled k a b \<Longrightarrow> stays_handled k b c \<Longrightarrow> stays_handled k a c"
  unfolding stays_handled_def by metis

lemma deferred_handles:
  "ledger_sound db \<Longrightarrow> run_state (apply_deferred env p now ids) db = (Inr u, db') \<Longrightarrow>
     stays_handled k db db' \<and> ledger_sound db' \<and> billing_grows db db'"
proof (induction env p now ids arbitrary: db rule: apply_deferred.induct)
  case (1 env p now)
  then show ?case by (simp add: stays_handled_def growth.rel_refl)
next
  case (2 env p now i ids)
  from 2(3) obtain v d where a: "run_state (apply_billing_event_once env p i now) db = (Inr v, d)"
    and b: "run_state (apply_deferred env p now ids) d = (Inr u, db')"
    by (auto simp: ran_or_return simp del: run_state_or_return)
  from apply_once_grows [OF 2(2) a] once_handles [OF 2(2) a] 2(1) [OF _ b] show ?case
    using stays_handled_trans growth.rel_trans by blast
qed

lemma apply_billing_event_handles:
  assumes sound: "ledger_sound db" and run: "run_state (apply_billing_event env p i now) db = (None, db')"
  shows "(\<exists>rc. map_of (db_receipts db') (p, i) = Some rc \<and> receipt_handled rc) \<and> billing_grows db db'"
proof -
  from run obtain v d ids where a: "run_state (apply_billing_event_once env p i now) db = (Inr v, d)"
    and b: "run_state (apply_deferred env p now ids) d = (Inr (), db')"
    by (auto simp: apply_billing_event_def ran_as_error ran simp del: run_state_or_return)
  from apply_once_grows [OF sound a] have g: "ledger_sound d" "billing_grows db d" by simp_all
  from once_handles [OF sound a] deferred_handles [OF g(1) b] g(2) show ?thesis
    unfolding stays_handled_def using growth.rel_trans by blast
qed

lemma of_char_word: "unat (of_char a :: 8 word) = of_char a"
proof -
  have "(of_char a :: 8 word) = of_nat (of_char a)" by (rule of_nat_of_char [symmetric])
  also have "unat \<dots> = of_char a mod 2 ^ 8" by (simp only: unat_of_nat) simp
  finally show ?thesis using of_char_lt [of a] by simp
qed

lemma of_char_word_inject: "(of_char a :: 8 word) = of_char b \<longleftrightarrow> a = b"
  using of_char_word [of a] of_char_word [of b] by (metis of_char_eq_iff)

lemma xor_zero_iff: "(x :: 8 word) XOR y = 0 \<longleftrightarrow> x = y"
  by (metis xor.assoc xor.left_neutral xor_self_eq)

lemma fold_different:
  "fold (\<lambda>(a, b) different. different OR (of_char a XOR of_char b)) zs d = (0 :: 8 word) \<longleftrightarrow>
     d = 0 \<and> (\<forall>(a, b) \<in> set zs. a = b)"
  by (induction zs arbitrary: d) (auto simp: or_eq_0_iff xor_zero_iff of_char_word_inject)

text \<open>The comparison in constant time is equality.\<close>

lemma equal_bytes_iff: "equal_bytes a b \<longleftrightarrow> a = b"
  by (auto simp: equal_bytes_def fold_different list_eq_iff_zip_eq)

lemma apply_deferred_steps: "run_state (apply_deferred env p now ids) db = (r, db') \<Longrightarrow> billing_step\<^sup>*\<^sup>* db db'"
proof (induction env p now ids arbitrary: db rule: apply_deferred.induct)
  case (2 env p now i ids)
  obtain r1 d where a: "run_state (apply_billing_event_once env p i now) db = (r1, d)" by (meson surj_pair)
  then have "billing_step db d" by (rule billing_step.settle)
  with 2 a show ?case by (cases r1) (auto intro: converse_rtranclp_into_rtranclp)
qed simp

lemma apply_billing_event_steps:
  assumes "run_state (apply_billing_event env p i now) db = (r, db')"
  shows "billing_step\<^sup>*\<^sup>* db db'"
proof -
  obtain r1 d where a: "run_state (apply_billing_event_once env p i now) db = (r1, d)" by (meson surj_pair)
  then have s: "billing_step db d" by (rule billing_step.settle)
  show ?thesis
  proof (cases r1)
    case (Inl e)
    with assms a s show ?thesis by (auto simp: apply_billing_event_def as_error_def)
  next
    case (Inr u)
    obtain q d' where q: "run_state (query env ''select deferred'' (deferred_events p)) d = (q, d')" by (meson surj_pair)
    then have d': "d' = d" by (auto simp: query_def split: option.splits)
    show ?thesis
    proof (cases q)
      case (Inl e)
      with assms a Inr q d' s show ?thesis by (auto simp: apply_billing_event_def as_error_def)
    next
      case q': (Inr ids)
      obtain r2 d2 where r2: "run_state (apply_deferred env p now (filter (\<lambda>j. j \<noteq> i) ids)) d = (r2, d2)" by (meson surj_pair)
      with assms a Inr q q' d' have "db' = d2" by (auto simp: apply_billing_event_def as_error_def)
      with s apply_deferred_steps [OF r2] show ?thesis by (simp add: converse_rtranclp_into_rtranclp)
    qed
  qed
qed

lemma received_event:
  assumes sound: "ledger_sound db" and run: "run_state (receive_billing_event env e) db = (Inr (duplicate, processed), db')"
  shows "\<exists>rc. map_of (db_receipts db') (event_key e) = Some rc \<and> be_type (rc_event rc) = be_type e \<and>
    be_object_ref (rc_event rc) = be_object_ref e \<and> be_payload_digest (rc_event rc) = be_payload_digest e \<and>
    (if processed then rc_state rc = ''processed'' else True)"
  using run
  by (auto simp: receive_billing_event_def insert_receipt_def query_def go_map_simps fresh_receipt_def equal_bytes_iff
    split: if_splits option.splits prod.splits sum.splits)

lemma stripe_verified_event:
  assumes "verified_event c (stripe_verifier sdk v) r = Some e"
  shows "well_formed_event e \<and> be_payload_digest e = wk_sha c (hr_body r)"
proof -
  from assms obtain sg e0 where "webhook_signature r = Some sg" "webhook_body c r = Some (hr_body r)"
    "vf_verify (stripe_verifier sdk v) (hr_body r) sg (wk_now c) = Inr e0"
    "e = e0\<lparr>be_payload_digest := wk_sha c (hr_body r), be_verified_at := wk_now c\<rparr>"
    by (auto simp: verified_event_def webhook_body_def split: option.splits sum.splits if_splits)
  with stripe_events.verified [OF this(3)] show ?thesis by (simp add: well_formed_event_def)
qed

lemma record_event_steps:
  assumes "run_state (record_event c (postgres_webhooks env) i w e) db = (w', db')"
  shows "billing_step\<^sup>*\<^sup>* db db'"
proof -
  obtain q d where q: "run_state (receive_billing_event env e) db = (q, d)" by (meson surj_pair)
  then have s: "billing_step db d" by (rule billing_step.receive)
  show ?thesis
  proof (cases q)
    case (Inl x)
    with assms q s show ?thesis by (auto simp: record_event_def postgres_webhooks_def)
  next
    case (Inr dp)
    obtain du pr where dp: "dp = (du, pr)" by (cases dp)
    obtain x d' where x: "run_state (apply_billing_event env (be_provider e) (be_id e) (wk_now c)) d = (x, d')" by (meson surj_pair)
    show ?thesis
    proof (cases pr)
      case True
      with assms q s Inr dp show ?thesis by (auto simp: record_event_def postgres_webhooks_def)
    next
      case False
      with assms q Inr dp x have "db' = d'" by (auto simp: record_event_def postgres_webhooks_def)
      with s apply_billing_event_steps [OF x] show ?thesis by (simp add: converse_rtranclp_into_rtranclp)
    qed
  qed
qed

text \<open>
  C30: The webhook handler over the Stripe verifier and the database: a request that the verifier does not
  accept, for its one signature header and its bounded body, is answered with an error and leaves the
  tables alone; and a request is answered with 200 only when the ledger holds a receipt of the event that
  was verified, with the type, the object and the SHA-256 of exactly the bytes received, and that receipt
  has been processed, deferred or rejected. Everything the handler does is a sequence of the store's
  transactions.
\<close>

theorem webhook_acknowledges_verified_events:
  assumes "unbilled db0" and "billing_step\<^sup>*\<^sup>* db0 db" and w: "rw_sent w = None"
    and run: "run_state (serve_webhook c (stripe_verifier sdk v) (postgres_webhooks env) r w) db = (w', db')"
  shows "billing_step\<^sup>*\<^sup>* db db' \<and>
    (if verified_event c (stripe_verifier sdk v) r = None
     then db' = db \<and> (case response_status w' of None \<Rightarrow> False | Some st \<Rightarrow> 400 \<le> st) else True) \<and>
    (if response_status w' = Some 200
     then \<exists>e rc. verified_event c (stripe_verifier sdk v) r = Some e \<and> well_formed_event e \<and>
       map_of (db_receipts db') (event_key e) = Some rc \<and> rc_state rc \<in> {''processed'', ''deferred'', ''rejected''} \<and>
       be_type (rc_event rc) = be_type e \<and> be_object_ref (rc_event rc) = be_object_ref e \<and>
       be_payload_digest (rc_event rc) = wk_sha c (hr_body r)
     else True)"
proof -
  let ?vf = "stripe_verifier sdk v" and ?st = "postgres_webhooks env"
  have sound: "ledger_sound db" using billing_steps_grow [OF assms(2) unbilled_sound [OF assms(1)]] ..
  from serve_webhook_cases [OF w, of c ?vf ?st r] show ?thesis
  proof
    assume "\<exists>w' st0. serve_webhook c ?vf ?st r w = State_Monad.return w' \<and> response_status w' = Some st0 \<and> 400 \<le> st0"
    with run show ?thesis by auto
  next
    assume "\<exists>e i w1. verified_event c ?vf r = Some e \<and> vf_configured ?vf \<and> hr_method r = ''POST'' \<and> rw_sent w1 = None \<and>
      serve_webhook c ?vf ?st r w = record_event c ?st i w1 e"
    then obtain e i w1 where e: "verified_event c ?vf r = Some e" and w1: "rw_sent w1 = None"
      and s: "serve_webhook c ?vf ?st r w = record_event c ?st i w1 e" by blast
    have rec: "run_state (record_event c ?st i w1 e) db = (w', db')" using run s by simp
    have "\<exists>rc. map_of (db_receipts db') (event_key e) = Some rc \<and> receipt_handled rc \<and>
        be_type (rc_event rc) = be_type e \<and> be_object_ref (rc_event rc) = be_object_ref e \<and>
        be_payload_digest (rc_event rc) = be_payload_digest e" if "response_status w' = Some 200"
    proof -
      from record_event_ok [OF rec w1 that] obtain du pr d where
        a: "run_state (receive_billing_event env e) db = (Inr (du, pr), d)"
        and b: "if pr then db' = d else run_state (apply_billing_event env (be_provider e) (be_id e) (wk_now c)) d = (None, db')"
        unfolding postgres_webhooks_def webhook_store.simps by blast
      from received_event [OF sound a] obtain rc where rc: "map_of (db_receipts d) (event_key e) = Some rc"
        "be_type (rc_event rc) = be_type e" "be_object_ref (rc_event rc) = be_object_ref e"
        "be_payload_digest (rc_event rc) = be_payload_digest e" "if pr then rc_state rc = ''processed'' else True" by blast
      show ?thesis
      proof (cases pr)
        case True
        with b rc show ?thesis by (auto simp: receipt_handled_def)
      next
        case False
        with b have ap: "run_state (apply_billing_event env (be_provider e) (be_id e) (wk_now c)) d = (None, db')" by simp
        have "ledger_sound d" using receive_grows [OF sound a] ..
        from apply_billing_event_handles [OF this ap] rc(1) obtain rc' where
          "map_of (db_receipts db') (event_key e) = Some rc'" "receipt_handled rc'" "rc_event rc' = rc_event rc"
          unfolding billing_grows_def receipts_grow_def by (metis option.inject)
        with rc show ?thesis by auto
      qed
    qed
    with record_event_steps [OF rec] e stripe_verified_event [OF e] show ?thesis
      by (auto simp: receipt_handled_def)
  qed
qed

definition demo_raw :: string where
  "demo_raw = map (\<lambda>c. if c = CHR ''!'' then CHR 0x22 else c)
     (''{!id!:!in_1!,!metadata!:{!alzette_payment_requirement_id!:!pay_a!},!customer!:!cus_a!,!subscription!:!sub_1!,'' @
      ''!status!:!paid!,!amount_paid!:4900,!currency!:!EUR!}'')"

definition demo_sdk :: "unit stripe_sdk" where
  "demo_sdk =
     \<lparr>sd_customer = (\<lambda>_. State_Monad.return (Inr None)), sd_session = (\<lambda>_. State_Monad.return (Inr None)),
      sd_portal = (\<lambda>_ _ _. State_Monad.return (Inr None)),
      sd_construct = (\<lambda>payload signature secret tolerance. if signature = ''t=1,v1=ok'' \<and> payload = ''body''
        then Some \<lparr>sv_id = ''evt_1'', sv_type = ''invoice.paid'', sv_created = 100, sv_livemode = False, sv_data = Some demo_raw\<rparr>
        else None),
      sd_url = \<lparr>url_parse = (\<lambda>_. None), url_escaped_path = (\<lambda>_. []), url_string = (\<lambda>_. [])\<rparr>, sd_hostname = url_host, sd_lower = (\<lambda>s. s), sd_upper = (\<lambda>s. s), sd_now = 0\<rparr>"

definition demo_verifier :: verifier where
  "demo_verifier = stripe_verifier demo_sdk (Some \<lparr>vc_secret = ''whsec'', vc_tolerance = 5 * minute, vc_allow_live = False\<rparr>)"

definition demo_webhook :: webhook_config where
  "demo_webhook =
     \<lparr>wk_maximum_body = 1024, wk_now = 101000000000, wk_new_id = Inr ''whk_1'', wk_media_type = Some, wk_sha = (\<lambda>_. ''digest'')\<rparr>"

definition demo_request :: http_request where
  "demo_request =
     \<lparr>hr_method = ''POST'', hr_path = ''/webhooks/stripe'', hr_raw_query = [],
      hr_header = [(''Content-Type'', [''application/json'']), (''Stripe-Signature'', [''t=1,v1=ok''])],
      hr_body = ''body'', hr_body_error = None\<rparr>"

definition blank_response :: response_writer where
  "blank_response = \<lparr>rw_header = [], rw_sent = None, rw_body = []\<rparr>"

lemma demo_decode:
  "decode_event_object demo_raw = Some
     \<lparr>eo_id = ''in_1'', eo_status = ''paid'', eo_payment_status = [], eo_currency = ''EUR'', eo_customer = ''cus_a'',
      eo_subscription = ''sub_1'', eo_invoice = [], eo_metadata = [(''alzette_payment_requirement_id'', ''pay_a'')],
      eo_amount_total = None, eo_amount_due = None, eo_amount_paid = Some 4900, eo_period_start = 0, eo_period_end = 0,
      eo_cancel_at_period_end = None\<rparr>"
  by code_simp

lemma demo_verified: "verified_event demo_webhook demo_verifier demo_request = Some (demo_payment ''pay_a'')"
proof -
  have "webhook_signature demo_request = Some ''t=1,v1=ok''" "webhook_body demo_webhook demo_request = Some ''body''"
    by code_simp+
  moreover have "demo_raw \<noteq> []" by code_simp
  ultimately show ?thesis
    by (simp add: verified_event_def demo_verifier_def stripe_verifier_def stripe_verify_def verifier_configured_def
      demo_sdk_def demo_decode supported_event_def supported_events_def validate_event_references_def billing_event_of_def
      reference_ok_def has_prefix_def event_amount_def demo_webhook_def demo_payment_def unix_time_def Let_def)
qed

lemma paid_db_run:
  "run_state (apply_billing_event_once demo_env ''stripe'' ''evt_1'' 101000000000) (received_payment ''pay_a'' demo_db) = (Inr (), paid_db)"
proof -
  have "fst (run_state (apply_billing_event_once demo_env ''stripe'' ''evt_1'' 101000000000) (received_payment ''pay_a'' demo_db)) = Inr ()"
    by (simp add: received_payment_rest demo_db_def demo_env_def) code_simp
  then show ?thesis unfolding paid_db_def by (metis prod.collapse)
qed

lemma demo_received:
  "run_state (receive_billing_event demo_env (demo_payment ''pay_a'')) demo_db = (Inr (False, False), received_payment ''pay_a'' demo_db)"
proof -
  have "fst (run_state (receive_billing_event demo_env (demo_payment ''pay_a'')) demo_db) = Inr (False, False)"
    by (simp add: demo_defs receive_billing_event_def receivable_def zero_time_def insert_receipt_def)
  then show ?thesis unfolding received_payment_def by (metis prod.collapse)
qed

lemma demo_applied:
  "run_state (apply_billing_event demo_env ''stripe'' ''evt_1'' 101000000000) (received_payment ''pay_a'' demo_db) = (None, paid_db)"
proof -
  have "deferred_events ''stripe'' paid_db = []"
    by (simp add: deferred_events_def paid_db_receipts finish_receipt_def)
  then have "run_state (query demo_env ''select deferred'' (deferred_events ''stripe'')) paid_db = (Inr [], paid_db)"
    by (simp add: query_def demo_env_def)
  with paid_db_run show ?thesis by (simp add: apply_billing_event_def as_error_def)
qed

theorem webhook_acknowledges_verified_events_witness:
  "case run_state (serve_webhook demo_webhook demo_verifier (postgres_webhooks demo_env) demo_request blank_response) demo_db of
     (w', db') \<Rightarrow> response_status w' = Some 200 \<and> db' = paid_db \<and>
       (\<exists>e rc. verified_event demo_webhook demo_verifier demo_request = Some e \<and>
          map_of (db_receipts db') (event_key e) = Some rc \<and> be_payload_digest (rc_event rc) = ''digest'')"
proof -
  let ?run = "run_state (serve_webhook demo_webhook demo_verifier (postgres_webhooks demo_env) demo_request blank_response) demo_db"
  let ?v = "Some \<lparr>vc_secret = ''whsec'', vc_tolerance = 5 * minute, vc_allow_live = False\<rparr>"
  have sent: "rw_sent blank_response = None" by (simp add: blank_response_def)
  from serve_webhook_cases [OF sent, of demo_webhook demo_verifier "postgres_webhooks demo_env" demo_request] obtain i w1 where
    w1: "rw_sent w1 = None" "serve_webhook demo_webhook demo_verifier (postgres_webhooks demo_env) demo_request blank_response =
      record_event demo_webhook (postgres_webhooks demo_env) i w1 (demo_payment ''pay_a'')"
  proof
    assume "\<exists>w' st0. serve_webhook demo_webhook demo_verifier (postgres_webhooks demo_env) demo_request blank_response =
      State_Monad.return w' \<and> response_status w' = Some st0 \<and> 400 \<le> st0"
    moreover have "serve_webhook demo_webhook demo_verifier (postgres_webhooks demo_env) demo_request blank_response =
      record_event demo_webhook (postgres_webhooks demo_env) ''whk_1''
        (set_header ''X-Request-Id'' ''whk_1'' (set_header ''X-Alzette-Request-Id'' ''whk_1'' blank_response)) (demo_payment ''pay_a'')"
      using demo_verified
      by (auto simp: serve_webhook_def demo_webhook_def demo_request_def verified_event_def demo_verifier_def stripe_verifier_def
        verifier_configured_def header_get_def header_values_def Let_def split: option.splits sum.splits)
    ultimately show ?thesis using that [of "set_header ''X-Request-Id'' ''whk_1'' (set_header ''X-Alzette-Request-Id'' ''whk_1'' blank_response)" "''whk_1''"] sent
      by simp
  qed (use demo_verified that in auto)
  have p: "be_provider (demo_payment ''pay_a'') = ''stripe''" "be_id (demo_payment ''pay_a'') = ''evt_1''" "wk_now demo_webhook = 101000000000"
    by (simp_all add: demo_payment_def demo_webhook_def)
  have run: "?run = (write_json 200 (JObject [(''duplicate'', JBool False), (''received'', JBool True)]) w1, paid_db)"
    unfolding w1(2) by (simp add: record_event_def postgres_webhooks_def demo_received demo_applied p)
  have r': "run_state (serve_webhook demo_webhook (stripe_verifier demo_sdk ?v) (postgres_webhooks demo_env) demo_request blank_response) demo_db =
      (write_json 200 (JObject [(''duplicate'', JBool False), (''received'', JBool True)]) w1, paid_db)"
    using run by (simp add: demo_verifier_def)
  from webhook_acknowledges_verified_events [OF unbilled_demo rtranclp.rtrancl_refl sent r'] w1(1)
  have "\<exists>e rc. verified_event demo_webhook demo_verifier demo_request = Some e \<and>
      map_of (db_receipts paid_db) (event_key e) = Some rc \<and> be_payload_digest (rc_event rc) = wk_sha demo_webhook (hr_body demo_request)"
    by (auto simp: demo_verifier_def)
  with run w1(1) show ?thesis by (simp add: demo_webhook_def)
qed

section \<open>Opening a checkout\<close>

text \<open>
  C31: A checkout is opened only for an organisation's administrator who has authenticated within the last
  fifteen minutes, at a configured provider, under a valid operation key; otherwise nothing is called and
  nothing changes. A success is either the store's own answer that the requirement is paid, or a hosted
  page with an absolute https address, and then the store has recorded it for a plan with a customer and
  the answer never says that the payment is confirmed.
\<close>

theorem checkout_is_guarded:
  assumes "hosted_payments pv" and run: "run_state (create_checkout c st pv session requirement_id key) s = (r, t)"
  shows "(if pmb_role (se_current session) = role_org_admin \<and> recent session (bc_clock c 0) \<and>
            ca_configured (pv_capability pv) \<and> valid_operation_key key
          then True else t = s \<and> r \<in> Inl ` {ErrForbidden, err_recent_authentication, err_not_configured, ErrInvalid}) \<and>
    (case r of
       Inl _ \<Rightarrow> True
     | Inr resp \<Rightarrow>
         (\<exists>plan. run_state (bst_prepare_checkout st session requirement_id (bc_sha c key) (bc_clock c 1)) s = (Inr (plan, Some resp), t)) \<or>
         (\<exists>plan hosted u. cp_customer_ref plan \<noteq> [] \<and> valid_hosted_result (bc_url c) hosted \<and>
            run_state (bst_complete_checkout st session plan hosted (bc_clock c 1)) u = (None, t) \<and>
            co_hosted_url resp = ho_url hosted \<and> \<not> co_payment_confirmed resp \<and> \<not> co_runtime_ready resp))"
proof (cases "admitted c pv session key")
  case (Inl e)
  with run have "t = s" "r = Inl e" by (auto simp: create_checkout_def)
  with Inl show ?thesis by (auto simp: admitted_def operation_digest_def split: if_splits)
next
  case (Inr digest)
  then have ok: "pmb_role (se_current session) = role_org_admin" "recent session (bc_clock c 0)" "ca_configured (pv_capability pv)"
    "valid_operation_key key" "digest = bc_sha c key"
    by (auto simp: admitted_def operation_digest_def split: if_splits)
  show ?thesis
  proof (cases r)
    case (Inl e)
    with ok show ?thesis by simp
  next
    case resp: (Inr resp)
    with run Inr obtain plan existing u where
      p: "run_state (bst_prepare_checkout st session requirement_id (bc_sha c key) (bc_clock c 1)) s = (Inr (plan, existing), u)"
      and o1: "run_state (case existing of Some response \<Rightarrow> ok response
        | None \<Rightarrow> open_checkout c st pv session requirement_id (bc_clock c 1) plan) u = (Inr resp, t)"
      using ok(5) by (auto simp: create_checkout_def ran_or_return simp del: run_state_or_return One_nat_def)
    show ?thesis
    proof (cases existing)
      case (Some response)
      with o1 p ok resp show ?thesis by auto
    next
      case None
      with o1 obtain plan' v where e: "run_state (ensure_customer st pv session (bc_clock c 1) plan) u = (Inr plan', v)"
        and k: "run_state (do {
           hosted \<leftarrow> pv_create_checkout pv (checkout_input_of c plan');
           case hosted of
             Inl e \<Rightarrow> State_Monad.return (Inl (map_provider_error e))
           | Inr hosted \<Rightarrow>
               (case validate_hosted_result (bc_url c) hosted of
                  Some e \<Rightarrow> State_Monad.return (Inl e)
                | None \<Rightarrow> do {
                    e \<leftarrow> bst_complete_checkout st session plan' hosted (bc_clock c 1);
                    State_Monad.return
                      (case e of Some e \<Rightarrow> Inl e | None \<Rightarrow> Inr (checkout_response_of requirement_id hosted))
                  })
         }) v = (Inr resp, t)"
        by (auto simp: open_checkout_def ran_or_return simp del: run_state_or_return One_nat_def)
      have "cp_customer_ref plan' \<noteq> []" using hosted_payments.ensured_customer [OF assms(1) e] ..
      moreover from k obtain hosted x where "validate_hosted_result (bc_url c) hosted = None"
        "run_state (bst_complete_checkout st session plan' hosted (bc_clock c 1)) x = (None, t)"
        "resp = checkout_response_of requirement_id hosted"
        by (auto split: prod.splits sum.splits option.splits)
      ultimately show ?thesis using ok resp
        by (auto simp: validate_hosted_result_def checkout_response_of_def split: if_splits)
    qed
  qed
qed

text \<open>The service with a store and a provider that each have their own state.\<close>

definition on_fst :: "('a, 'r) state \<Rightarrow> ('a \<times> 'b, 'r) state" where
  "on_fst m = State (\<lambda>(a, b). case run_state m a of (r, a') \<Rightarrow> (r, (a', b)))"

definition on_snd :: "('b, 'r) state \<Rightarrow> ('a \<times> 'b, 'r) state" where
  "on_snd m = State (\<lambda>(a, b). case run_state m b of (r, b') \<Rightarrow> (r, (a, b')))"

definition store_on_fst :: "'a billing_store \<Rightarrow> ('a \<times> 'b) billing_store" where
  "store_on_fst st =
     \<lparr>bst_prepare_checkout = (\<lambda>session i digest now. on_fst (bst_prepare_checkout st session i digest now)),
      bst_set_customer = (\<lambda>session ref provider now. on_fst (bst_set_customer st session ref provider now)),
      bst_complete_checkout = (\<lambda>session plan hosted now. on_fst (bst_complete_checkout st session plan hosted now)),
      bst_prepare_portal = (\<lambda>session digest now. on_fst (bst_prepare_portal st session digest now)),
      bst_summary = map_option (\<lambda>f session. on_fst (f session)) (bst_summary st)\<rparr>"

definition provider_on_snd :: "'b payment_provider \<Rightarrow> ('a \<times> 'b) payment_provider" where
  "provider_on_snd pv =
     \<lparr>pv_capability = pv_capability pv, pv_ensure_customer = (\<lambda>i. on_snd (pv_ensure_customer pv i)),
      pv_create_checkout = (\<lambda>i. on_snd (pv_create_checkout pv i)), pv_create_portal = (\<lambda>i. on_snd (pv_create_portal pv i))\<rparr>"

lemma provider_on_snd_contract:
  assumes "hosted_payments pv"
  shows "hosted_payments (provider_on_snd pv)"
proof
  fix ci hi pi s
  assume "\<not> ca_configured (pv_capability (provider_on_snd pv))"
  then have n: "\<not> ca_configured (pv_capability pv)" by (simp add: provider_on_snd_def)
  show "run_state (pv_ensure_customer (provider_on_snd pv) ci) s = (Inl err_not_configured, s) \<and>
      run_state (pv_create_checkout (provider_on_snd pv) hi) s = (Inl err_not_configured, s) \<and>
      run_state (pv_create_portal (provider_on_snd pv) pi) s = (Inl err_not_configured, s)"
    using hosted_payments.unconfigured [OF assms n, of ci "snd s" hi pi]
    by (auto simp: provider_on_snd_def on_snd_def split: prod.splits)
next
  fix ci s customer t
  assume "run_state (pv_ensure_customer (provider_on_snd pv) ci) s = (Inr customer, t)"
  then show "cur_customer_ref customer \<noteq> []"
    using hosted_payments.customer_ref [OF assms, of ci "snd s" customer]
    by (auto simp: provider_on_snd_def on_snd_def split: prod.splits)
qed

interpretation deployed_payments: hosted_payments "provider_on_snd (fake_payment_provider sha)"
  by (rule provider_on_snd_contract) (rule fake_payments.hosted_payments_axioms)

definition demo_session :: portal_session where
  "demo_session =
     \<lparr>se_id = ''pse_1'', se_user = \<lparr>pu_id = ''usr_1'', pu_username = ''a'', pu_display_name = ''A''\<rparr>,
      se_current = \<lparr>pmb_id = ''mem_1'', pmb_organisation_id = ''org_a'', pmb_organisation_name = ''A'',
        pmb_organisation_slug = ''a'', pmb_project_id = ''prj_a'', pmb_project_name = ''P'', pmb_project_slug = ''p'',
        pmb_environment_id = ''env_a'', pmb_environment_name = ''E'', pmb_environment_slug = ''e'', pmb_role = ''org_admin''\<rparr>,
      se_memberships = [], se_authenticated_at = 1000, se_expires_at = 9000\<rparr>"

definition demo_billing :: billing_config where
  "demo_billing =
     \<lparr>bc_clock = (\<lambda>n. 2000 + int n), bc_success_url = [], bc_cancel_url = [], bc_return_url = [],
      bc_url = \<lparr>url_parse = (\<lambda>_. Some \<lparr>url_scheme = ''https'', url_user = False, url_host = ''checkout.example.invalid'',
          url_path = [], url_raw_path = [], url_raw_query = [], url_fragment = [], url_rest = []\<rparr>),
        url_escaped_path = (\<lambda>_. []), url_string = (\<lambda>_. [])\<rparr>,
      bc_sha = (\<lambda>s. take 32 (s @ replicate 32 CHR ''0''))\<rparr>"

definition demo_fake :: fake_provider where
  "demo_fake = \<lparr>fk_customers = 0, fk_checkouts = 0, fk_portals = 0, fk_now = 2000, fk_failure = None\<rparr>"

definition demo_checkout :: "(billing_db \<times> fake_provider, err + checkout_response) state" where
  "demo_checkout = create_checkout demo_billing (store_on_fst (postgres_billing demo_env))
     (provider_on_snd (fake_payment_provider (bc_sha demo_billing))) demo_session ''pay_a'' ''operation-0001''"

lemma demo_checkout_result:
  "case run_state demo_checkout (demo_db, demo_fake) of
     (Inr resp, (db, fk)) \<Rightarrow> co_state resp = ''action_required'' \<and> fk_checkouts fk = 1 \<and> length (db_checkouts db) = 1
   | _ \<Rightarrow> False"
  by code_simp

theorem checkout_is_guarded_witness:
  "case run_state demo_checkout (demo_db, demo_fake) of
     (Inr resp, (db, fk)) \<Rightarrow> co_state resp = ''action_required'' \<and> \<not> co_payment_confirmed resp \<and> fk_checkouts fk = 1 \<and>
       length (db_checkouts db) = 1
   | _ \<Rightarrow> False"
proof -
  obtain resp db fk where run: "run_state demo_checkout (demo_db, demo_fake) = (Inr resp, (db, fk))"
    and r: "co_state resp = ''action_required''" "fk_checkouts fk = 1" "length (db_checkouts db) = 1"
    using demo_checkout_result by (auto split: prod.splits sum.splits)
  have paid: "co_state x = ''paid''" if
    "run_state (bst_prepare_checkout (store_on_fst (postgres_billing demo_env)) session i d n) s = (Inr (plan, Some x), t)"
    for x session i d n s plan and t :: "billing_db \<times> fake_provider"
    using that transaction_result [of demo_env _ "fst s"]
    by (auto simp: store_on_fst_def on_fst_def postgres_billing_def prepare_checkout_def ran paid_response_def Let_def
      simp del: run_state_or_return split: prod.splits option.splits if_splits)
  from checkout_is_guarded [OF deployed_payments.hosted_payments_axioms run [unfolded demo_checkout_def]]
  have "\<not> co_payment_confirmed resp"
    using paid r(1) by fastforce
  with run r show ?thesis by simp
qed

end
