(* ===== verification/Agent_Auth.thy ===== *)
theory Agent_Auth
  imports Http_Api Provisioning Go_Marshal Credentials Gateway_Serve
begin

text \<open>
  Access of people's agents: the identity provider's tokens (\<open>internal/federation/oidc.go\<close>), the service
  that exchanges one for a short-lived inference credential (\<open>internal/agentauth/agentauth.go\<close>) and its
  HTTP handler (\<open>internal/agentauth/http.go\<close>). The OIDC and OAuth libraries, SHA-256, the random source
  and the clock are parameters.
\<close>

section \<open>Federated identities\<close>

record fed_identity =
  fid_issuer :: string
  fid_subject :: string
  fid_email :: string
  fid_email_verified :: bool
  fid_display_name :: string
  fid_oauth_client_id :: string

record oidc_config =
  oc_issuer :: string
  oc_client_id :: string
  oc_client_secret :: string
  oc_redirect_url :: string
  oc_signup_url :: string
  oc_allow_insecure :: bool

definition drop_suffix :: "string \<Rightarrow> string \<Rightarrow> string" where
  "drop_suffix p s = (if has_suffix p s then take (length s - length p) s else s)"

definition trimmed_oidc :: "oidc_config \<Rightarrow> oidc_config" where
  "trimmed_oidc c = c\<lparr>oc_issuer := drop_suffix ''/'' (trim_space (oc_issuer c)), oc_client_id := trim_space (oc_client_id c),
     oc_redirect_url := trim_space (oc_redirect_url c), oc_signup_url := trim_space (oc_signup_url c)\<rparr>"

definition secure_scheme :: "bool \<Rightarrow> url \<Rightarrow> bool" where
  "secure_scheme allow_insecure u \<longleftrightarrow> url_scheme u = ''https'' \<or> (allow_insecure \<and> url_scheme u = ''http'')"

definition exact_origin :: "bool \<Rightarrow> url \<Rightarrow> bool" where
  "exact_origin allow_insecure u \<longleftrightarrow>
     url_host u \<noteq> [] \<and> url_raw_query u = [] \<and> url_fragment u = [] \<and> secure_scheme allow_insecure u"

definition same_origin :: "url \<Rightarrow> url \<Rightarrow> bool" where
  "same_origin a b \<longleftrightarrow>
     url_scheme a = url_scheme b \<and> url_host a = url_host b \<and> \<not> url_user a \<and> url_raw_query a = [] \<and> url_fragment a = []"

text \<open>The checks of \<open>New\<close> on its configuration, in their order.\<close>

definition oidc_config_error :: "url_lib \<Rightarrow> oidc_config \<Rightarrow> err option" where
  "oidc_config_error lib c =
     (case url_parse lib (oc_issuer c) of
        None \<Rightarrow> Some (ErrText ''OIDC issuer must be an exact HTTPS origin'')
      | Some issuer \<Rightarrow>
          if \<not> exact_origin (oc_allow_insecure c) issuer then Some (ErrText ''OIDC issuer must be an exact HTTPS origin'')
          else (case url_parse lib (oc_redirect_url c) of
                  None \<Rightarrow> Some (ErrText ''OIDC redirect URL must be an exact HTTPS URL'')
                | Some redirect \<Rightarrow>
                    if \<not> exact_origin (oc_allow_insecure c) redirect
                    then Some (ErrText ''OIDC redirect URL must be an exact HTTPS URL'')
                    else (case url_parse lib (oc_signup_url c) of
                            None \<Rightarrow> Some (ErrText ''OIDC signup URL must use the configured issuer origin'')
                          | Some signup \<Rightarrow>
                              if \<not> same_origin signup issuer \<or> url_path signup = []
                              then Some (ErrText ''OIDC signup URL must use the configured issuer origin'')
                              else if oc_client_id c = [] \<or> length (oc_client_id c) > 255 \<or> length (oc_client_secret c) > 4096
                              then Some (ErrText ''OIDC client configuration is incomplete'')
                              else None)))"

text \<open>
  The libraries: a verified token with the claims the code reads (\<open>None\<close> when they do not decode), and the
  answer of the introspection endpoint, a status with a body.
\<close>

record oidc_token =
  ot_subject :: string
  ot_token_type :: "string option"
  ot_nonce :: string
  ot_email :: string
  ot_email_verified :: bool
  ot_name :: string
  ot_claims_ok :: bool

record oidc_lib =
  ol_verify :: "string \<Rightarrow> oidc_token option"
  ol_introspect :: "string \<Rightarrow> (int \<times> string) option"
  ol_exchange :: "string \<Rightarrow> string \<Rightarrow> string option option"
  ol_lower :: "string \<Rightarrow> string"
  ol_issuer :: string
  ol_client_id :: string
  ol_now :: time

record introspection =
  ri_active :: bool
  ri_client_id :: string
  ri_subject :: string
  ri_token_type :: string
  ri_expires_at :: int

definition zero_introspection :: introspection where
  "zero_introspection = \<lparr>ri_active = False, ri_client_id = [], ri_subject = [], ri_token_type = [], ri_expires_at = 0\<rparr>"

definition decode_bool :: "json \<Rightarrow> bool \<Rightarrow> decode_error + bool" where
  "decode_bool v old = (case v of JNull \<Rightarrow> Inr old | JBool b \<Rightarrow> Inr b | _ \<Rightarrow> Inl Mismatch)"

definition introspection_fields :: "introspection field list" where
  "introspection_fields =
     [field_of ''active'' decode_bool ri_active ri_active_update,
      field_of ''client_id'' decode_string ri_client_id ri_client_id_update,
      field_of ''sub'' decode_string ri_subject ri_subject_update,
      field_of ''token_type'' decode_string ri_token_type ri_token_type_update,
      field_of ''exp'' decode_int ri_expires_at ri_expires_at_update]"

definition decode_introspection :: "string \<Rightarrow> introspection option" where
  "decode_introspection body =
     (case json_value 0 body of
        None \<Rightarrow> None
      | Some (v, _) \<Rightarrow>
          (case decode_struct False introspection_fields v zero_introspection of Inl _ \<Rightarrow> None | Inr r \<Rightarrow> Some r))"

text \<open>
  \<open>New\<close>: after its checks, whether the provider's keys were discovered, and the answer to the request for
  the discovery document, in which only the introspection endpoint is read.
\<close>

record oidc_client =
  ocl_config :: oidc_config
  ocl_introspection_endpoint :: string

definition decode_discovery :: "string \<Rightarrow> string option" where
  "decode_discovery body =
     (case json_value 0 body of
        None \<Rightarrow> None
      | Some (v, _) \<Rightarrow>
          (case decode_struct False [field_of ''introspection_endpoint'' decode_string id (\<lambda>f. f)] v [] of
             Inl _ \<Rightarrow> None | Inr endpoint \<Rightarrow> Some endpoint))"

definition introspection_url_ok :: "url_lib \<Rightarrow> oidc_config \<Rightarrow> string \<Rightarrow> bool" where
  "introspection_url_ok lib c endpoint =
     (case (url_parse lib endpoint, url_parse lib (oc_issuer c)) of
        (Some u, Some issuer) \<Rightarrow> same_origin u issuer
      | _ \<Rightarrow> False)"

definition new_oidc_client ::
  "url_lib \<Rightarrow> oidc_config \<Rightarrow> bool \<Rightarrow> err + int \<times> string \<Rightarrow> err + oidc_client" where
  "new_oidc_client lib config provider_found discovery =
     (let c = trimmed_oidc config
      in case oidc_config_error lib c of
           Some e \<Rightarrow> Inl e
         | None \<Rightarrow>
             if \<not> provider_found then Inl (ErrText ''discover OIDC provider'')
             else (case discovery of
                     Inl e \<Rightarrow> Inl e
                   | Inr (status, body) \<Rightarrow>
                       (case (if status = 200 then decode_discovery body else None) of
                          None \<Rightarrow> Inl (ErrText ''OIDC discovery metadata is invalid'')
                        | Some endpoint \<Rightarrow>
                            if \<not> introspection_url_ok lib c endpoint
                            then Inl (ErrText ''OIDC introspection endpoint must use the configured issuer origin'')
                            else Inr \<lparr>ocl_config = c, ocl_introspection_endpoint = endpoint\<rparr>)))"

definition active_token :: "oidc_lib \<Rightarrow> introspection \<Rightarrow> bool" where
  "active_token lib r \<longleftrightarrow>
     ri_active r \<and> ri_client_id r = ol_client_id lib \<and> equal_fold (ri_token_type r) ''Bearer'' \<and>
     ri_expires_at r > ol_now lib div 1000000000"

definition token_shape :: "string \<Rightarrow> bool" where
  "token_shape raw \<longleftrightarrow>
     trim_space raw = raw \<and> 64 \<le> length raw \<and> length raw \<le> 16384 \<and> count_list raw CHR ''.'' = 2"

definition validate_access_token :: "oidc_lib \<Rightarrow> string \<Rightarrow> err + fed_identity" where
  "validate_access_token lib raw =
     (if \<not> token_shape raw then Inl (ErrText ''OIDC access token format is invalid'')
      else (case ol_verify lib raw of
              None \<Rightarrow> Inl (ErrText ''verify OIDC access token'')
            | Some token \<Rightarrow>
                if ot_token_type token \<noteq> Some ''access-token'' then Inl (ErrText ''OIDC token is not an access token'')
                else (case ol_introspect lib raw of
                        None \<Rightarrow> Inl (ErrText ''introspect OIDC access token'')
                      | Some (status, body) \<Rightarrow>
                          (case (if status = 200 then decode_introspection body else None) of
                             None \<Rightarrow> Inl (ErrText ''OIDC access token is inactive'')
                           | Some r \<Rightarrow>
                               if \<not> active_token lib r then Inl (ErrText ''OIDC access token is inactive'')
                               else if ri_subject r \<noteq> [] \<and> ri_subject r \<noteq> ot_subject token
                               then Inl (ErrText ''OIDC access-token subject did not match introspection'')
                               else if ot_subject token = [] then Inl (ErrText ''OIDC access token has no subject'')
                               else Inr \<lparr>fid_issuer = ol_issuer lib, fid_subject = ot_subject token, fid_email = [],
                                 fid_email_verified = False, fid_display_name = [], fid_oauth_client_id = ol_client_id lib\<rparr>))))"

definition oidc_exchange :: "oidc_lib \<Rightarrow> string \<Rightarrow> string \<Rightarrow> string \<Rightarrow> err + fed_identity" where
  "oidc_exchange lib code verifier expected_nonce =
     (if trim_space code = [] \<or> verifier = [] \<or> expected_nonce = [] then Inl (ErrText ''OIDC callback is incomplete'')
      else (case ol_exchange lib code verifier of
              None \<Rightarrow> Inl (ErrText ''exchange OIDC code'')
            | Some raw \<Rightarrow>
                (case raw of
                   None \<Rightarrow> Inl (ErrText ''OIDC token response did not include an ID token'')
                 | Some raw_id \<Rightarrow>
                     if raw_id = [] then Inl (ErrText ''OIDC token response did not include an ID token'')
                     else (case ol_verify lib raw_id of
                             None \<Rightarrow> Inl (ErrText ''verify OIDC ID token'')
                           | Some token \<Rightarrow>
                               if \<not> ot_claims_ok token then Inl (ErrText ''decode OIDC identity claims'')
                               else if ot_nonce token \<noteq> expected_nonce then Inl (ErrText ''OIDC nonce did not match'')
                               else let email = ol_lower lib (trim_space (ot_email token))
                                    in if ot_subject token = [] \<or> email = [] \<or> \<not> ot_email_verified token
                                       then Inl (ErrText ''OIDC identity is missing a verified email'')
                                       else Inr \<lparr>fid_issuer = ol_issuer lib, fid_subject = ot_subject token, fid_email = email,
                                         fid_email_verified = True, fid_display_name = trim_space (ot_name token),
                                         fid_oauth_client_id = []\<rparr>))))"

section \<open>The service\<close>

definition err_idempotency_conflict :: err where
  "err_idempotency_conflict = ErrNamed ''agentauth.ErrIdempotencyConflict''"

definition err_response_unrecoverable :: err where
  "err_response_unrecoverable = ErrNamed ''agentauth.ErrResponseUnrecoverable''"

record agent_model =
  am_alias :: string
  am_display_name :: string
  am_capabilities :: "string list"
  am_context_window :: "int option"

record agent_context =
  ag_membership_id :: string
  ag_organisation :: string
  ag_project :: string
  ag_environment :: string
  ag_relationship :: string
  ag_model_aliases :: "string list"
  ag_models :: "agent_model list"

record mint_input =
  mi_client_instance_id :: string
  mi_membership_id :: string
  mi_model_aliases :: "string list"

record store_mint_input =
  sm_identity :: fed_identity
  sm_client_digest :: string
  sm_key_digest :: string
  sm_request_hash :: string
  sm_membership_id :: string
  sm_model_aliases :: "string list"
  sm_grant_id :: string
  sm_token_id :: string
  sm_mint_id :: string
  sm_credential :: key
  sm_now :: time
  sm_token_expires_at :: time
  sm_grant_expires_at :: time

record mint_result =
  mt_context :: agent_context
  mt_grant_id :: string
  mt_access_token :: string
  mt_expires_at :: time
  mt_model_aliases :: "string list"

record 's agent_ops =
  ao_contexts :: "fed_identity \<Rightarrow> ('s, err + agent_context list) state"
  ao_mint :: "store_mint_input \<Rightarrow> ('s, err + mint_result) state"
  ao_revoke :: "fed_identity \<Rightarrow> string \<Rightarrow> string \<Rightarrow> time \<Rightarrow> ('s, err option) state"

text \<open>The random bytes of one minting, its identifiers, and the clock.\<close>

record mint_env =
  me_public :: "string option"
  me_secret :: "string option"
  me_id :: "string \<Rightarrow> err + string"
  me_now :: time
  me_sha :: "string \<Rightarrow> string"

definition alias_ok :: "string \<Rightarrow> bool" where
  "alias_ok v \<longleftrightarrow> \<not> (length v < 1 \<or> length v > 128 \<or>
     contains_any v [CHR '' '', CHR 0x09, CHR 0x0D, CHR 0x0A, CHR ''/'', CHR 0x5C])"

fun normalise_loop :: "string list \<Rightarrow> string list \<Rightarrow> err + string list" where
  "normalise_loop result [] = Inr result"
| "normalise_loop result (v # vs) =
     (let v = trim_space v
      in if \<not> alias_ok v then Inl ErrInvalid
         else normalise_loop (if v \<in> set result then result else result @ [v]) vs)"

definition normalise_aliases :: "string list \<Rightarrow> err + string list" where
  "normalise_aliases vs =
     (if vs = [] \<or> length vs > 64 then Inl ErrInvalid
      else (case normalise_loop [] vs of Inl e \<Rightarrow> Inl e | Inr result \<Rightarrow> Inr (sort result)))"

definition valid_opaque :: "string \<Rightarrow> string \<Rightarrow> nat \<Rightarrow> bool" where
  "valid_opaque v marker minimum_bytes =
     (if length v \<le> length marker \<or> length v > 160 \<or> \<not> has_prefix marker v then False
      else (case b64_decode (drop (length marker) v) of None \<Rightarrow> False | Some d \<Rightarrow> minimum_bytes \<le> length d))"

definition simple_id_char :: "char \<Rightarrow> bool" where
  "simple_id_char c \<longleftrightarrow> is_lower c \<or> is_upper c \<or> is_digit c \<or> c = CHR ''_'' \<or> c = CHR ''-''"

definition valid_simple_id :: "string \<Rightarrow> bool" where
  "valid_simple_id v \<longleftrightarrow> 3 \<le> length v \<and> length v \<le> 128 \<and> list_all simple_id_char v"

definition canonical_request :: "fed_identity \<Rightarrow> string \<Rightarrow> string \<Rightarrow> string list \<Rightarrow> string" where
  "canonical_request identity client_instance_id membership_id aliases = json_print (JObject
     [(''schema'', JString ''alzette.agent-credential.v1''), (''issuer'', JString (fid_issuer identity)),
      (''subject'', JString (fid_subject identity)), (''client_id'', JString (fid_oauth_client_id identity)),
      (''client_instance_id'', JString client_instance_id), (''membership_id'', JString membership_id),
      (''model_aliases'', JArray (map JString aliases))])"

definition mint_request ::
  "mint_env \<Rightarrow> fed_identity \<Rightarrow> string \<Rightarrow> string \<Rightarrow> string list \<Rightarrow> string \<Rightarrow> key \<Rightarrow> string \<Rightarrow> string \<Rightarrow> string \<Rightarrow> store_mint_input" where
  "mint_request env identity client membership aliases key credential grant_id token_id mint_id =
     \<lparr>sm_identity = identity, sm_client_digest = me_sha env client, sm_key_digest = me_sha env key,
      sm_request_hash = me_sha env (canonical_request identity client membership aliases), sm_membership_id = membership,
      sm_model_aliases = aliases, sm_grant_id = grant_id, sm_token_id = token_id, sm_mint_id = mint_id,
      sm_credential = credential, sm_now = me_now env, sm_token_expires_at = me_now env + 10 * minute,
      sm_grant_expires_at = me_now env + 60 * minute\<rparr>"

text \<open>What the service hands to the store, or its refusal.\<close>

definition prepare_mint :: "mint_env \<Rightarrow> fed_identity \<Rightarrow> mint_input \<Rightarrow> string \<Rightarrow> err + store_mint_input" where
  "prepare_mint env identity i key =
     (let client = trim_space (mi_client_instance_id i); membership = trim_space (mi_membership_id i)
      in case normalise_aliases (mi_model_aliases i) of
           Inl _ \<Rightarrow> Inl ErrInvalid
         | Inr aliases \<Rightarrow>
             if \<not> valid_opaque client ''aci_'' 16 \<or> \<not> valid_simple_id membership \<or> \<not> valid_opaque key ''agm_'' 16
             then Inl ErrInvalid
             else (case generate_human (me_sha env) (me_public env) (me_secret env) of
                     Inl e \<Rightarrow> Inl e
                   | Inr credential \<Rightarrow>
                       (case me_id env ''agr'' of
                          Inl e \<Rightarrow> Inl e
                        | Inr grant_id \<Rightarrow>
                            (case me_id env ''aut'' of
                               Inl e \<Rightarrow> Inl e
                             | Inr token_id \<Rightarrow>
                                 (case me_id env ''agm'' of
                                    Inl e \<Rightarrow> Inl e
                                  | Inr mint_id \<Rightarrow>
                                      Inr (mint_request env identity client membership aliases key credential grant_id token_id mint_id))))))"

definition mint :: "mint_env \<Rightarrow> 's agent_ops \<Rightarrow> fed_identity \<Rightarrow> mint_input \<Rightarrow> string \<Rightarrow> ('s, err + mint_result) state" where
  "mint env ops identity i key =
     (case prepare_mint env identity i key of
        Inl e \<Rightarrow> State_Monad.return (Inl e)
      | Inr input \<Rightarrow> ao_mint ops input)"

definition revoke_grant :: "mint_env \<Rightarrow> 's agent_ops \<Rightarrow> fed_identity \<Rightarrow> string \<Rightarrow> string \<Rightarrow> ('s, err option) state" where
  "revoke_grant env ops identity membership_id client_instance_id =
     (if \<not> valid_simple_id membership_id \<or> \<not> valid_opaque client_instance_id ''aci_'' 16
      then State_Monad.return (Some ErrInvalid)
      else ao_revoke ops identity membership_id (me_sha env client_instance_id) (me_now env))"

section \<open>The handler\<close>

record agent_handler =
  ah_control_origin :: string
  ah_gateway_origin :: string
  ah_redirect_url :: string
  ah_lib :: oidc_lib
  ah_env :: mint_env
  ah_time_text :: "time \<Rightarrow> string"

definition new_agent_handler :: "oidc_lib \<Rightarrow> mint_env \<Rightarrow> (time \<Rightarrow> string) \<Rightarrow> string \<Rightarrow> string \<Rightarrow> string list \<Rightarrow> agent_handler" where
  "new_agent_handler lib env time_text control_origin gateway_origin redirect_url =
     \<lparr>ah_control_origin = trim_right ''/'' control_origin, ah_gateway_origin = trim_right ''/'' gateway_origin,
      ah_redirect_url = (case redirect_url of [] \<Rightarrow> [] | u # _ \<Rightarrow> trim_space u), ah_lib = lib, ah_env = env,
      ah_time_text = time_text\<rparr>"

definition agent_metadata :: "oidc_lib \<Rightarrow> string \<Rightarrow> string \<Rightarrow> (string \<times> json) list" where
  "agent_metadata lib control_origin gateway_origin =
     [(''schema'', JString ''alzette.agent-configuration.v1''), (''issuer'', JString (ol_issuer lib)),
      (''oauth_client_id'', JString (ol_client_id lib)), (''control_origin'', JString control_origin),
      (''gateway_base_url'', JString (trim_right ''/'' gateway_origin @ ''/v1'')),
      (''login_modes'', JArray [JString ''authorization_code_pkce_s256''])]"

definition metadata_json :: "agent_handler \<Rightarrow> json" where
  "metadata_json h = json_map
     (agent_metadata (ah_lib h) (ah_control_origin h) (ah_gateway_origin h) @
      (if ah_redirect_url h = [] then [] else [(''oauth_redirect_uri'', JString (ah_redirect_url h))]))"

text \<open>The identity of the one bearer token of a request.\<close>

definition agent_bearer :: "http_header \<Rightarrow> string option" where
  "agent_bearer h =
     (case header_values h ''Authorization'' of
        [v] \<Rightarrow>
          if \<not> has_prefix ''Bearer '' v \<or> contains_str '','' v then None
          else let raw = drop 7 v in if raw = [] \<or> trim_space raw \<noteq> raw then None else Some raw
      | _ \<Rightarrow> None)"

definition agent_identity :: "oidc_lib \<Rightarrow> http_request \<Rightarrow> err + fed_identity" where
  "agent_identity lib r =
     (case agent_bearer (hr_header r) of
        None \<Rightarrow> Inl ErrUnauthenticated
      | Some raw \<Rightarrow> validate_access_token lib raw)"

definition write_service_error :: "err \<Rightarrow> response_writer \<Rightarrow> response_writer" where
  "write_service_error e w =
     (if e = err_idempotency_conflict then
        write_error 409 ''idempotency_conflict'' ''invalid_request_error'' ''idempotency key was already used for another request'' [] w
      else if e = err_response_unrecoverable then
        write_error 409 ''credential_response_unrecoverable'' ''invalid_request_error''
          ''the prior one-time credential response cannot be recovered; retry with a new idempotency key'' [] w
      else if e = ErrInvalid then
        write_error 400 ''invalid_request'' ''invalid_request_error'' ''request is invalid'' [] w
      else if e = ErrForbidden \<or> e = ErrNotFound \<or> e = ErrUnauthenticated then
        write_error 403 ''context_unavailable'' ''permission_error'' ''requested context or model access is unavailable'' [] w
      else write_error 503 ''agent_access_unavailable'' ''api_error'' ''agent access is temporarily unavailable'' [] w)"

definition mint_input_fields :: "mint_input field list" where
  "mint_input_fields =
     [field_of ''client_instance_id'' decode_string mi_client_instance_id mi_client_instance_id_update,
      field_of ''membership_id'' decode_string mi_membership_id mi_membership_id_update,
      field_of ''model_aliases'' (decode_slice decode_string []) mi_model_aliases mi_model_aliases_update]"

definition zero_mint_input :: mint_input where
  "zero_mint_input = \<lparr>mi_client_instance_id = [], mi_membership_id = [], mi_model_aliases = []\<rparr>"

definition decode_mint_input :: "http_request \<Rightarrow> mint_input option" where
  "decode_mint_input r =
     (if hr_body_error r \<noteq> None \<or> length (hr_body r) > 32 * 1024 then None
      else (case json_decode (hr_body r) of
              None \<Rightarrow> None
            | Some v \<Rightarrow>
                (case decode_struct True mint_input_fields v zero_mint_input of Inl _ \<Rightarrow> None | Inr i \<Rightarrow> Some i)))"

definition model_json :: "agent_model \<Rightarrow> json" where
  "model_json m = JObject
     ([(''alias'', JString (am_alias m)), (''display_name'', JString (am_display_name m))] @
      (if am_capabilities m = [] then [] else [(''capabilities'', JArray (map JString (am_capabilities m)))]) @
      (case am_context_window m of None \<Rightarrow> [] | Some n \<Rightarrow> [(''context_window_tokens'', json_int n)]))"

definition context_json :: "agent_context \<Rightarrow> json" where
  "context_json c = JObject
     ([(''membership_id'', JString (ag_membership_id c)), (''organisation'', JString (ag_organisation c)),
       (''project'', JString (ag_project c)), (''environment'', JString (ag_environment c)),
       (''relationship'', JString (ag_relationship c)), (''model_aliases'', JArray (map JString (ag_model_aliases c)))] @
      (if ag_models c = [] then [] else [(''models'', JArray (map model_json (ag_models c)))]))"

text \<open>A store that finds no context answers with the nil slice.\<close>

definition contexts_json :: "agent_context list \<Rightarrow> json" where
  "contexts_json cs = json_map
     [(''schema'', JString ''alzette.agent-contexts.v1''),
      (''contexts'', if cs = [] then JNull else JArray (map context_json cs))]"

definition credential_json :: "agent_handler \<Rightarrow> mint_result \<Rightarrow> json" where
  "credential_json h r = json_map
     [(''schema'', JString ''alzette.agent-credential.v1''),
      (''credential'', json_map
         [(''access_token'', JString (mt_access_token r)), (''token_type'', JString ''Bearer''),
          (''expires_at'', JString (ah_time_text h (mt_expires_at r))), (''scope'', JArray [JString scope_inference_write])]),
      (''context'', context_json (mt_context r)), (''gateway_base_url'', JString (ah_gateway_origin h @ ''/v1'')),
      (''model_aliases'', JArray (map JString (mt_model_aliases r)))]"

definition serve_contexts :: "agent_handler \<Rightarrow> 's agent_ops \<Rightarrow> fed_identity \<Rightarrow> response_writer \<Rightarrow> ('s, response_writer) state" where
  "serve_contexts h ops identity w = do {
     r \<leftarrow> ao_contexts ops identity;
     State_Monad.return
       (case r of Inl e \<Rightarrow> write_service_error e w | Inr cs \<Rightarrow> write_json 200 (contexts_json cs) w)
   }"

definition serve_revoke ::
  "agent_handler \<Rightarrow> 's agent_ops \<Rightarrow> fed_identity \<Rightarrow> mint_input \<Rightarrow> response_writer \<Rightarrow> ('s, response_writer) state" where
  "serve_revoke h ops identity i w =
     (let refused = write_error 400 ''invalid_request'' ''invalid_request_error'' ''request is invalid'' [] w
      in if mi_model_aliases i \<noteq> [] then State_Monad.return refused
         else do {
           e \<leftarrow> revoke_grant (ah_env h) ops identity (mi_membership_id i) (mi_client_instance_id i);
           State_Monad.return (if e = None then write_header 204 w else refused)
         })"

definition serve_mint ::
  "agent_handler \<Rightarrow> 's agent_ops \<Rightarrow> http_request \<Rightarrow> fed_identity \<Rightarrow> mint_input \<Rightarrow> response_writer \<Rightarrow> ('s, response_writer) state" where
  "serve_mint h ops r identity i w =
     (if length (header_values (hr_header r) ''Idempotency-Key'') \<noteq> 1
      then State_Monad.return (write_error 400 ''invalid_idempotency_key'' ''invalid_request_error'' ''one idempotency key is required'' [] w)
      else do {
        r \<leftarrow> mint (ah_env h) ops identity i (header_get (hr_header r) ''Idempotency-Key'');
        State_Monad.return
          (case r of Inl e \<Rightarrow> write_service_error e w | Inr result \<Rightarrow> write_json 201 (credential_json h result) w)
      })"

definition serve_agent_authenticated ::
  "agent_handler \<Rightarrow> 's agent_ops \<Rightarrow> http_request \<Rightarrow> response_writer \<Rightarrow> ('s, response_writer) state" where
  "serve_agent_authenticated h ops r w =
     (case agent_identity (ah_lib h) r of
        Inl _ \<Rightarrow> State_Monad.return
          (write_error 401 ''invalid_identity_token'' ''authentication_error'' ''authentication failed'' []
            (set_header ''Www-Authenticate'' (''Bearer realm='' @ [CHR 0x22] @ ''alzette-agent'' @ [CHR 0x22]) w))
      | Inr identity \<Rightarrow>
          if hr_path r = ''/api/agent/contexts'' then serve_contexts h ops identity w
          else (case decode_mint_input r of
                  None \<Rightarrow> State_Monad.return
                    (write_error 400 ''invalid_request'' ''invalid_request_error'' ''request body is invalid'' [] w)
                | Some i \<Rightarrow>
                    if hr_path r = ''/api/agent/credentials/revoke'' then serve_revoke h ops identity i w
                    else serve_mint h ops r identity i w))"

definition serve_agent :: "agent_handler \<Rightarrow> 's agent_ops \<Rightarrow> http_request \<Rightarrow> response_writer \<Rightarrow> ('s, response_writer) state" where
  "serve_agent h ops r w0 =
     (let w = set_header ''Cache-Control'' ''no-store'' w0
      in if hr_path r = ''/.well-known/alzette-agent-configuration'' then State_Monad.return
           (if hr_method r \<noteq> ''GET'' then method_not_allowed ''GET'' [] w else write_json 200 (metadata_json h) w)
         else if hr_path r = ''/api/agent/contexts'' then
           (if hr_method r \<noteq> ''GET'' then State_Monad.return (method_not_allowed ''GET'' [] w)
            else serve_agent_authenticated h ops r w)
         else if hr_path r = ''/api/agent/credentials'' \<or> hr_path r = ''/api/agent/credentials/revoke'' then
           (if hr_method r \<noteq> ''POST'' then State_Monad.return (method_not_allowed ''POST'' [] w)
            else serve_agent_authenticated h ops r w)
         else State_Monad.return (not_found w))"

end
