(* ===== verification/Agent_Store.thy ===== *)
theory Agent_Store
  imports Agent_Auth Memory_Store Sql_Transactions
begin

text \<open>
  Agent contexts, grants and tokens in the database: \<open>internal/store/postgres/agentauth.go\<close>, with the
  trigger of \<open>migrations/0014_human_agent_access.up.sql\<close> that revokes a person's authority when the person
  is disabled. The catalogue tables appear as the one row per model that the lateral join selects.
\<close>

section \<open>Tables\<close>

record identity_row =
  fi_issuer :: string
  fi_subject :: string
  fi_user_id :: string
  fi_enabled :: bool

record person_row =
  op_organisation_id :: string
  op_user_id :: string
  op_enabled :: bool

record membership_row =
  hm_user_id :: string
  hm_organisation_id :: string
  hm_project_id :: string
  hm_environment_id :: string
  hm_enabled :: bool

record named_row =
  nr_name :: string
  nr_slug :: string

record ownership_row =
  ow_organisation_id :: string
  ow_person_id :: string
  ow_ended :: bool

text \<open>A catalogue entry's capabilities are \<open>None\<close> when the column does not hold a list of strings.\<close>

record catalogue_row =
  ctl_name :: string
  ctl_capabilities :: "string list option"
  ctl_context_window :: "int option"

record group_person_row =
  gp_organisation_id :: string
  gp_project_id :: string
  gp_environment_id :: string
  gp_group_id :: string
  gp_person_id :: string

record group_model_row =
  gm_organisation_id :: string
  gm_group_id :: string
  gm_route_id :: string

record grant_row =
  gr_user_id :: string
  gr_identity_id :: string
  gr_person_id :: string
  gr_membership_id :: string
  gr_organisation_id :: string
  gr_project_id :: string
  gr_environment_id :: string
  gr_client_id :: string
  gr_instance_digest :: string
  gr_aliases :: "string list"
  gr_authenticated_at :: time
  gr_expires_at :: time
  gr_revoked_at :: "time option"
  gr_reason :: "string option"

record token_row =
  tk_grant_id :: string
  tk_prefix :: string
  tk_hash :: string
  tk_generation :: int
  tk_issued_at :: time
  tk_expires_at :: time
  tk_last_used_at :: "time option"
  tk_revoked_at :: "time option"
  tk_replaced_by :: "string option"

record mint_row =
  mw_identity_id :: string
  mw_client_id :: string
  mw_key_digest :: string
  mw_request_hash :: string
  mw_grant_id :: string
  mw_token_id :: string
  mw_state :: string
  mw_replayed_at :: "time option"

record agent_db =
  at_identities :: "(string, identity_row) go_map"
  at_users :: "(string, bool) go_map"
  at_people :: "(string, person_row) go_map"
  at_memberships :: "(string, membership_row) go_map"
  at_organisations :: "(string, named_row) go_map"
  at_projects :: "(string, named_row) go_map"
  at_environments :: "(string, named_row) go_map"
  at_ownerships :: "ownership_row list"
  at_routes :: "(string, stored_route) go_map"
  at_models :: "(string, model) go_map"
  at_targets :: "(string, target) go_map"
  at_catalogue :: "(string, catalogue_row) go_map"
  at_groups :: "(string, string \<times> bool) go_map"
  at_group_people :: "group_person_row list"
  at_group_models :: "group_model_row list"
  at_grants :: "(string, grant_row) go_map"
  at_tokens :: "(string, token_row) go_map"
  at_mints :: "(string, mint_row) go_map"

type_synonym agent_env = "agent_db sql_env"

section \<open>Contexts\<close>

text \<open>The rows of the join on one membership, with the identifiers the code needs later.\<close>

record agent_record =
  rec_identity_id :: string
  rec_user_id :: string
  rec_person_id :: string
  rec_membership_id :: string
  rec_organisation_id :: string
  rec_project_id :: string
  rec_environment_id :: string
  rec_organisation :: string
  rec_project :: string
  rec_environment :: string
  rec_owner :: bool

definition owns :: "agent_db \<Rightarrow> string \<Rightarrow> string \<Rightarrow> bool" where
  "owns db org person \<longleftrightarrow>
     list_ex (\<lambda>o1. ow_organisation_id o1 = org \<and> ow_person_id o1 = person \<and> \<not> ow_ended o1) (at_ownerships db)"

definition enabled_identity :: "fed_identity \<Rightarrow> agent_db \<Rightarrow> (string \<times> identity_row) option" where
  "enabled_identity identity db = find (\<lambda>(_, fi). fi_issuer fi = fid_issuer identity \<and> fi_subject fi = fid_subject identity \<and>
     fi_enabled fi) (at_identities db)"

definition enabled_person :: "string \<Rightarrow> string \<Rightarrow> agent_db \<Rightarrow> (string \<times> person_row) option" where
  "enabled_person user org db = find (\<lambda>(_, op). op_user_id op = user \<and> op_organisation_id op = org \<and> op_enabled op) (at_people db)"

definition membership_record :: "fed_identity \<Rightarrow> agent_db \<Rightarrow> string \<Rightarrow> agent_record option" where
  "membership_record identity db membership_id =
     (case enabled_identity identity db of
        None \<Rightarrow> None
      | Some (fi_id, fi) \<Rightarrow>
          if map_of (at_users db) (fi_user_id fi) \<noteq> Some True then None
          else (case map_of (at_memberships db) membership_id of
                  None \<Rightarrow> None
                | Some hm \<Rightarrow>
                    if hm_user_id hm \<noteq> fi_user_id fi \<or> \<not> hm_enabled hm then None
                    else (case (enabled_person (fi_user_id fi) (hm_organisation_id hm) db,
                             map_of (at_organisations db) (hm_organisation_id hm), map_of (at_projects db) (hm_project_id hm),
                             map_of (at_environments db) (hm_environment_id hm)) of
                            (Some (person, _), Some org, Some project, Some environment) \<Rightarrow> Some
                              \<lparr>rec_identity_id = fi_id, rec_user_id = fi_user_id fi, rec_person_id = person,
                               rec_membership_id = membership_id, rec_organisation_id = hm_organisation_id hm,
                               rec_project_id = hm_project_id hm, rec_environment_id = hm_environment_id hm,
                               rec_organisation = nr_name org, rec_project = nr_name project,
                               rec_environment = nr_name environment, rec_owner = owns db (hm_organisation_id hm) person\<rparr>
                          | _ \<Rightarrow> None)))"

text \<open>A route a person may use: the enabled route of an enabled model and target, and a group for an employee.\<close>

definition group_allows :: "agent_db \<Rightarrow> string \<Rightarrow> string \<Rightarrow> string \<Rightarrow> string \<Rightarrow> string \<Rightarrow> bool" where
  "group_allows db org project environment person route \<longleftrightarrow>
     list_ex (\<lambda>gp. gp_organisation_id gp = org \<and> gp_project_id gp = project \<and> gp_environment_id gp = environment \<and>
         gp_person_id gp = person \<and> map_of (at_groups db) (gp_group_id gp) = Some (org, True) \<and>
         list_ex (\<lambda>gm. gm_organisation_id gm = org \<and> gm_group_id gm = gp_group_id gp \<and> gm_route_id gm = route) (at_group_models db))
       (at_group_people db)"

definition usable_route :: "agent_db \<Rightarrow> string \<Rightarrow> string \<Rightarrow> string \<Rightarrow> string \<Rightarrow> bool \<Rightarrow> string \<Rightarrow> stored_route \<Rightarrow> bool" where
  "usable_route db org project environment person owner route r \<longleftrightarrow>
     sr_organisation_id r = org \<and> sr_project_id r = project \<and> sr_environment_id r = environment \<and> sr_enabled r \<and>
     (case map_of (at_models db) (sr_model_id r) of None \<Rightarrow> False | Some m \<Rightarrow> mdl_enabled m) \<and>
     (case map_of (at_targets db) (sr_target_id r) of None \<Rightarrow> False | Some t \<Rightarrow> t_enabled t) \<and>
     (owner \<or> group_allows db org project environment person route)"

definition alias_of :: "agent_db \<Rightarrow> stored_route \<Rightarrow> string" where
  "alias_of db r = (case map_of (at_models db) (sr_model_id r) of None \<Rightarrow> [] | Some m \<Rightarrow> mdl_alias m)"

text \<open>\<open>SELECT DISTINCT ON (alias) ... ORDER BY alias\<close> on a sorted list.\<close>

fun distinct_on :: "('a \<Rightarrow> string) \<Rightarrow> 'a list \<Rightarrow> 'a list" where
  "distinct_on f [] = []"
| "distinct_on f [x] = [x]"
| "distinct_on f (x # y # xs) = (if f x = f y then distinct_on f (x # xs) else x # distinct_on f (y # xs))"

definition effective_routes :: "agent_db \<Rightarrow> string \<Rightarrow> string \<Rightarrow> string \<Rightarrow> string \<Rightarrow> bool \<Rightarrow> stored_route list" where
  "effective_routes db org project environment person owner =
     distinct_on (alias_of db) (sort_key (alias_of db)
       (map snd (filter (\<lambda>(i, r). usable_route db org project environment person owner i r) (at_routes db))))"

definition model_of_route :: "agent_db \<Rightarrow> stored_route \<Rightarrow> agent_model option" where
  "model_of_route db r =
     (case map_of (at_catalogue db) (sr_model_id r) of
        None \<Rightarrow> Some \<lparr>am_alias = alias_of db r, am_display_name = alias_of db r, am_capabilities = [], am_context_window = None\<rparr>
      | Some cat \<Rightarrow>
          (case ctl_capabilities cat of
             None \<Rightarrow> None
           | Some cs \<Rightarrow> Some \<lparr>am_alias = alias_of db r, am_display_name = ctl_name cat, am_capabilities = cs,
               am_context_window = ctl_context_window cat\<rparr>))"

definition err_capabilities :: err where
  "err_capabilities = ErrText ''decode effective model capabilities''"

definition effective_models :: "agent_db \<Rightarrow> string \<Rightarrow> string \<Rightarrow> string \<Rightarrow> string \<Rightarrow> bool \<Rightarrow> err + agent_model list" where
  "effective_models db org project environment person owner =
     (let ms = map (model_of_route db) (effective_routes db org project environment person owner)
      in if None \<in> set ms then Inl err_capabilities else Inr (map the ms))"

definition load_effective_models ::
  "agent_env \<Rightarrow> string \<Rightarrow> string \<Rightarrow> string \<Rightarrow> string \<Rightarrow> bool \<Rightarrow> (agent_db, err + agent_model list) state" where
  "load_effective_models env org project environment person owner =
     or_return (query env ''select effective models'' (\<lambda>db. effective_models db org project environment person owner))
       State_Monad.return"

definition aliases_for_agent_models :: "agent_model list \<Rightarrow> string list" where
  "aliases_for_agent_models ms = map am_alias ms"

definition load_effective_aliases ::
  "agent_env \<Rightarrow> string \<Rightarrow> string \<Rightarrow> string \<Rightarrow> string \<Rightarrow> bool \<Rightarrow> (agent_db, err + string list) state" where
  "load_effective_aliases env org project environment person owner =
     or_return (load_effective_models env org project environment person owner) (\<lambda>ms. ok (aliases_for_agent_models ms))"

definition context_of_record :: "agent_record \<Rightarrow> agent_model list \<Rightarrow> agent_context" where
  "context_of_record r ms =
     \<lparr>ag_membership_id = rec_membership_id r, ag_organisation = rec_organisation r, ag_project = rec_project r,
      ag_environment = rec_environment r, ag_relationship = (if rec_owner r then ''owner'' else ''employee''),
      ag_model_aliases = aliases_for_agent_models ms, ag_models = ms\<rparr>"

definition context_order :: "agent_record \<Rightarrow> string list" where
  "context_order r = [rec_organisation r, rec_project r, rec_environment r, rec_membership_id r]"

definition context_records :: "fed_identity \<Rightarrow> agent_db \<Rightarrow> agent_record list" where
  "context_records identity db =
     sort_key context_order (List.map_filter (\<lambda>(i, _). membership_record identity db i) (at_memberships db))"

fun load_contexts :: "agent_env \<Rightarrow> agent_record list \<Rightarrow> (agent_db, err + agent_context list) state" where
  "load_contexts env [] = ok []"
| "load_contexts env (r # rs) =
     or_return (load_effective_models env (rec_organisation_id r) (rec_project_id r) (rec_environment_id r) (rec_person_id r) (rec_owner r)) (\<lambda>ms.
     or_return (load_contexts env rs) (\<lambda>cs.
     ok (if ms = [] then cs else context_of_record r ms # cs)))"

definition list_agent_contexts :: "agent_env \<Rightarrow> fed_identity \<Rightarrow> (agent_db, err + agent_context list) state" where
  "list_agent_contexts env identity =
     or_return (query env ''list agent contexts'' (context_records identity)) (load_contexts env)"

definition load_agent_context ::
  "agent_env \<Rightarrow> fed_identity \<Rightarrow> string \<Rightarrow> (agent_db, err + agent_record \<times> agent_model list) state" where
  "load_agent_context env identity membership_id =
     or_return (query env ''resolve agent context'' (\<lambda>db. membership_record identity db membership_id)) (\<lambda>found.
       case found of
         None \<Rightarrow> fails ErrForbidden
       | Some r \<Rightarrow>
           or_return (load_effective_models env (rec_organisation_id r) (rec_project_id r) (rec_environment_id r) (rec_person_id r) (rec_owner r))
             (\<lambda>ms. ok (r, ms)))"

section \<open>Minting\<close>

definition alias_subset :: "string list \<Rightarrow> string list \<Rightarrow> bool" where
  "alias_subset wanted available \<longleftrightarrow> list_all (\<lambda>a. a \<in> set available) wanted \<and> wanted \<noteq> []"

definition earlier_mint :: "agent_record \<Rightarrow> store_mint_input \<Rightarrow> agent_db \<Rightarrow> mint_row option" where
  "earlier_mint r input db = find_value (\<lambda>m. mw_identity_id m = rec_identity_id r \<and>
     mw_client_id m = fid_oauth_client_id (sm_identity input) \<and> mw_key_digest m = sm_key_digest input) (at_mints db)"

definition revoked_token :: "time \<Rightarrow> token_row \<Rightarrow> token_row" where
  "revoked_token now tk = tk\<lparr>tk_revoked_at := (case tk_revoked_at tk of None \<Rightarrow> Some now | Some t \<Rightarrow> Some t)\<rparr>"

definition revoke_tokens :: "(string \<Rightarrow> token_row \<Rightarrow> bool) \<Rightarrow> time \<Rightarrow> agent_db \<Rightarrow> agent_db" where
  "revoke_tokens P now db = db\<lparr>at_tokens := map (\<lambda>(i, tk). (i, if P i tk then revoked_token now tk else tk)) (at_tokens db)\<rparr>"

definition replay_mints :: "string \<Rightarrow> time \<Rightarrow> agent_db \<Rightarrow> agent_db" where
  "replay_mints token now db = db\<lparr>at_mints := map_values (\<lambda>m. if mw_token_id m = token
     then m\<lparr>mw_state := ''response_unrecoverable'', mw_replayed_at := Some now\<rparr> else m) (at_mints db)\<rparr>"

text \<open>
  A second request under the key commits the revocation of the first one's token, and is then refused;
  the committed tables and the error are both results of the transaction.
\<close>

definition replay_mint :: "agent_env \<Rightarrow> store_mint_input \<Rightarrow> mint_row \<Rightarrow> (agent_db, err + err) state" where
  "replay_mint env input m =
     (if mw_request_hash m \<noteq> sm_request_hash input then fails err_idempotency_conflict
      else
        or_return (exec env ''revoke previous token'' (\<lambda>db. Inr (revoke_tokens (\<lambda>i _. i = mw_token_id m) (sm_now input) db))) (\<lambda>_.
        or_return (exec env ''mark mint unrecoverable'' (\<lambda>db. Inr (replay_mints (mw_token_id m) (sm_now input) db))) (\<lambda>_.
        commit env err_response_unrecoverable)))"

definition binding_grant :: "agent_record \<Rightarrow> store_mint_input \<Rightarrow> agent_db \<Rightarrow> (string \<times> grant_row) option" where
  "binding_grant r input db = find (\<lambda>(_, g). gr_identity_id g = rec_identity_id r \<and>
     gr_client_id g = fid_oauth_client_id (sm_identity input) \<and> gr_instance_digest g = sm_client_digest input \<and>
     gr_membership_id g = sm_membership_id input) (at_grants db)"

definition renewable :: "grant_row \<Rightarrow> bool" where
  "renewable g \<longleftrightarrow> gr_revoked_at g = None \<or> gr_reason g = Some ''client_logout''"

definition renewed_grant :: "store_mint_input \<Rightarrow> grant_row \<Rightarrow> grant_row" where
  "renewed_grant input g =
     g\<lparr>gr_aliases := sm_model_aliases input, gr_authenticated_at := sm_now input, gr_expires_at := sm_grant_expires_at input,
       gr_revoked_at := None, gr_reason := None\<rparr>"

definition new_grant :: "agent_record \<Rightarrow> store_mint_input \<Rightarrow> grant_row" where
  "new_grant r input =
     \<lparr>gr_user_id = rec_user_id r, gr_identity_id = rec_identity_id r, gr_person_id = rec_person_id r,
      gr_membership_id = sm_membership_id input, gr_organisation_id = rec_organisation_id r, gr_project_id = rec_project_id r,
      gr_environment_id = rec_environment_id r, gr_client_id = fid_oauth_client_id (sm_identity input),
      gr_instance_digest = sm_client_digest input, gr_aliases = sm_model_aliases input, gr_authenticated_at = sm_now input,
      gr_expires_at = sm_grant_expires_at input, gr_revoked_at = None, gr_reason = None\<rparr>"

definition ensure_grant :: "agent_env \<Rightarrow> agent_record \<Rightarrow> store_mint_input \<Rightarrow> (agent_db, err + string) state" where
  "ensure_grant env r input =
     or_return (query env ''select grant'' (binding_grant r input)) (\<lambda>found.
       case found of
         Some (i, g) \<Rightarrow>
           if \<not> renewable g then fails ErrForbidden
           else or_return (exec env ''renew grant'' (\<lambda>db. Inr (db\<lparr>at_grants := amend i (renewed_grant input) (at_grants db)\<rparr>)))
             (\<lambda>_. ok i)
       | None \<Rightarrow>
           or_return (exec env ''insert grant'' (\<lambda>db.
             if map_of (at_grants db) (sm_grant_id input) \<noteq> None then Inl unique_violation
             else Inr (db\<lparr>at_grants := AList.update (sm_grant_id input) (new_grant r input) (at_grants db)\<rparr>)))
             (\<lambda>_. ok (sm_grant_id input)))"

definition next_generation :: "string \<Rightarrow> agent_db \<Rightarrow> int" where
  "next_generation grant db = fold max (map (tk_generation \<circ> snd) (filter (\<lambda>(_, tk). tk_grant_id tk = grant) (at_tokens db))) 0 + 1"

definition minted_token :: "store_mint_input \<Rightarrow> string \<Rightarrow> int \<Rightarrow> token_row" where
  "minted_token input grant generation =
     \<lparr>tk_grant_id = grant, tk_prefix = key_prefix (sm_credential input), tk_hash = key_digest (sm_credential input),
      tk_generation = generation, tk_issued_at = sm_now input, tk_expires_at = sm_token_expires_at input,
      tk_last_used_at = None, tk_revoked_at = None, tk_replaced_by = None\<rparr>"

text \<open>The unique columns of the table: the key, the prefix, the hash, and one unrevoked token per grant.\<close>

definition insert_token :: "string \<Rightarrow> token_row \<Rightarrow> agent_db \<Rightarrow> err + agent_db" where
  "insert_token i tk db =
     (if map_of (at_tokens db) i \<noteq> None \<or>
         find_value (\<lambda>t. tk_prefix t = tk_prefix tk \<or> tk_hash t = tk_hash tk \<or>
           (tk_grant_id t = tk_grant_id tk \<and> (tk_generation t = tk_generation tk \<or> tk_revoked_at t = None))) (at_tokens db) \<noteq> None
      then Inl unique_violation
      else Inr (db\<lparr>at_tokens := AList.update i tk (at_tokens db)\<rparr>))"

definition link_replaced :: "string \<Rightarrow> string \<Rightarrow> time \<Rightarrow> agent_db \<Rightarrow> agent_db" where
  "link_replaced grant token now db = db\<lparr>at_tokens := map (\<lambda>(i, tk). (i,
     if tk_grant_id tk = grant \<and> i \<noteq> token \<and> tk_revoked_at tk = Some now \<and> tk_replaced_by tk = None
     then tk\<lparr>tk_replaced_by := Some token\<rparr> else tk)) (at_tokens db)\<rparr>"

definition insert_mint :: "agent_record \<Rightarrow> store_mint_input \<Rightarrow> string \<Rightarrow> agent_db \<Rightarrow> err + agent_db" where
  "insert_mint r input grant db =
     (if map_of (at_mints db) (sm_mint_id input) \<noteq> None \<or> earlier_mint r input db \<noteq> None then Inl unique_violation
      else Inr (db\<lparr>at_mints := AList.update (sm_mint_id input)
        \<lparr>mw_identity_id = rec_identity_id r, mw_client_id = fid_oauth_client_id (sm_identity input),
         mw_key_digest = sm_key_digest input, mw_request_hash = sm_request_hash input, mw_grant_id = grant,
         mw_token_id = sm_token_id input, mw_state = ''completed'', mw_replayed_at = None\<rparr> (at_mints db)\<rparr>))"

definition issue_token :: "agent_env \<Rightarrow> agent_record \<Rightarrow> store_mint_input \<Rightarrow> string \<Rightarrow> (agent_db, err + unit) state" where
  "issue_token env r input grant =
     or_return (query env ''select generation'' (next_generation grant)) (\<lambda>generation.
     or_return (exec env ''revoke tokens'' (\<lambda>db.
       Inr (revoke_tokens (\<lambda>_ tk. tk_grant_id tk = grant \<and> tk_revoked_at tk = None) (sm_now input) db))) (\<lambda>_.
     or_return (exec env ''insert token'' (insert_token (sm_token_id input) (minted_token input grant generation))) (\<lambda>_.
     or_return (exec env ''link replaced'' (\<lambda>db. Inr (link_replaced grant (sm_token_id input) (sm_now input) db))) (\<lambda>_.
     exec env ''insert mint'' (insert_mint r input grant)))))"

definition mint_body :: "agent_env \<Rightarrow> store_mint_input \<Rightarrow> (agent_db, err + (err + mint_result)) state" where
  "mint_body env input =
     or_return (load_agent_context env (sm_identity input) (sm_membership_id input)) (\<lambda>(r, ms).
     or_return (query env ''select mint'' (earlier_mint r input)) (\<lambda>earlier.
       case earlier of
         Some m \<Rightarrow> or_return (replay_mint env input m) (\<lambda>e. ok (Inl e))
       | None \<Rightarrow>
           if \<not> alias_subset (sm_model_aliases input) (aliases_for_agent_models ms) then fails ErrForbidden
           else
             or_return (ensure_grant env r input) (\<lambda>grant.
             or_return (issue_token env r input grant) (\<lambda>_.
             commit env (Inr
               \<lparr>mt_context = context_of_record r ms, mt_grant_id = grant, mt_access_token = key_token (sm_credential input),
                mt_expires_at = sm_token_expires_at input, mt_model_aliases = sm_model_aliases input\<rparr>)))))"

definition mint_agent_credential :: "agent_env \<Rightarrow> store_mint_input \<Rightarrow> (agent_db, err + mint_result) state" where
  "mint_agent_credential env input =
     or_return (transaction env (mint_body env input)) State_Monad.return"

section \<open>Revoking\<close>

definition live_grant :: "fed_identity \<Rightarrow> string \<Rightarrow> string \<Rightarrow> agent_db \<Rightarrow> string option" where
  "live_grant identity membership_id client_digest db = map_option fst (find (\<lambda>(_, g).
     (case map_of (at_identities db) (gr_identity_id g) of
        None \<Rightarrow> False
      | Some fi \<Rightarrow> fi_issuer fi = fid_issuer identity \<and> fi_subject fi = fid_subject identity \<and> fi_enabled fi) \<and>
     gr_client_id g = fid_oauth_client_id identity \<and> gr_membership_id g = membership_id \<and>
     gr_instance_digest g = client_digest \<and> gr_revoked_at g = None) (at_grants db))"

definition logged_out :: "time \<Rightarrow> grant_row \<Rightarrow> grant_row" where
  "logged_out now g = g\<lparr>gr_revoked_at := Some now, gr_reason := Some ''client_logout''\<rparr>"

definition revoke_agent_grant ::
  "agent_env \<Rightarrow> fed_identity \<Rightarrow> string \<Rightarrow> string \<Rightarrow> time \<Rightarrow> (agent_db, err option) state" where
  "revoke_agent_grant env identity membership_id client_digest now = as_error (transaction env
     (or_return (query env ''select live grant'' (live_grant identity membership_id client_digest)) (\<lambda>found.
       case found of
         None \<Rightarrow> fails ErrNotFound
       | Some grant \<Rightarrow>
           or_return (exec env ''log out grant'' (\<lambda>db. Inr (db\<lparr>at_grants := amend grant (logged_out now) (at_grants db)\<rparr>))) (\<lambda>_.
           or_return (exec env ''revoke grant tokens'' (\<lambda>db. Inr (revoke_tokens (\<lambda>_ tk. tk_grant_id tk = grant) now db))) (\<lambda>_.
           commit env ())))))"

section \<open>Authenticating\<close>

text \<open>The join of \<open>AuthenticateHuman\<close>: the live token of a digest with everything it depends on still enabled.\<close>

definition grant_membership :: "agent_db \<Rightarrow> grant_row \<Rightarrow> bool" where
  "grant_membership db g \<longleftrightarrow>
     (case map_of (at_identities db) (gr_identity_id g) of
        None \<Rightarrow> False | Some fi \<Rightarrow> fi_enabled fi \<and> fi_user_id fi = gr_user_id g) \<and>
     map_of (at_users db) (gr_user_id g) = Some True \<and>
     (case map_of (at_people db) (gr_person_id g) of
        None \<Rightarrow> False
      | Some op \<Rightarrow> op_organisation_id op = gr_organisation_id g \<and> op_user_id op = gr_user_id g \<and> op_enabled op) \<and>
     (case map_of (at_memberships db) (gr_membership_id g) of
        None \<Rightarrow> False
      | Some hm \<Rightarrow> hm_user_id hm = gr_user_id g \<and> hm_organisation_id hm = gr_organisation_id g \<and>
          hm_project_id hm = gr_project_id g \<and> hm_environment_id hm = gr_environment_id g \<and> hm_enabled hm)"

definition live_token :: "time \<Rightarrow> agent_db \<Rightarrow> token_row \<Rightarrow> bool" where
  "live_token now db tk \<longleftrightarrow>
     tk_revoked_at tk = None \<and> now < tk_expires_at tk \<and>
     (case map_of (at_grants db) (tk_grant_id tk) of
        None \<Rightarrow> False
      | Some g \<Rightarrow> gr_revoked_at g = None \<and> now < gr_expires_at g \<and> grant_membership db g)"

definition agent_principal :: "agent_db \<Rightarrow> string \<Rightarrow> token_row \<Rightarrow> grant_row \<Rightarrow> principal option" where
  "agent_principal db token tk g =
     (case (map_of (at_organisations db) (gr_organisation_id g), map_of (at_projects db) (gr_project_id g),
            map_of (at_environments db) (gr_environment_id g)) of
        (Some org, Some project, Some environment) \<Rightarrow> Some (zero_principal
          \<lparr>p_organisation_id := gr_organisation_id g, p_organisation_name := nr_name org, p_organisation_slug := nr_slug org,
           p_project_id := gr_project_id g, p_project_name := nr_name project, p_project_slug := nr_slug project,
           p_environment_id := gr_environment_id g, p_environment_name := nr_name environment,
           p_environment_slug := nr_slug environment, p_human_user_id := gr_user_id g,
           p_human_membership_id := gr_membership_id g, p_agent_grant_id := tk_grant_id tk, p_agent_token_id := token,
           p_key_prefix := tk_prefix tk\<rparr>)
      | _ \<Rightarrow> None)"

definition presented_token :: "time \<Rightarrow> string \<Rightarrow> agent_db \<Rightarrow> (principal \<times> grant_row \<times> bool) option" where
  "presented_token now digest db =
     (case find (\<lambda>(_, tk). tk_hash tk = digest \<and> live_token now db tk) (at_tokens db) of
        None \<Rightarrow> None
      | Some (i, tk) \<Rightarrow>
          (case map_of (at_grants db) (tk_grant_id tk) of
             None \<Rightarrow> None
           | Some g \<Rightarrow> map_option (\<lambda>p. (p, g, owns db (gr_organisation_id g) (gr_person_id g))) (agent_principal db i tk g)))"

definition agent_scoped :: "string list \<Rightarrow> principal \<Rightarrow> principal" where
  "agent_scoped aliases p =
     p\<lparr>p_allowed_model_aliases := sort aliases, p_credential_kind := ''human_agent_token'', p_scopes := [scope_inference_write]\<rparr>"

definition authenticate_human :: "agent_env \<Rightarrow> string \<Rightarrow> (agent_db, err + principal) state" where
  "authenticate_human env digest = transaction env
     (or_return (query env ''select token'' (presented_token (ve_sql_now env) digest)) (\<lambda>found.
       case found of
         None \<Rightarrow> fails ErrUnauthenticated
       | Some (p, g, owner) \<Rightarrow>
           or_return (load_effective_aliases env (p_organisation_id p) (p_project_id p) (p_environment_id p) (gr_person_id g) owner) (\<lambda>current.
             let allowed = filter (\<lambda>a. a \<in> set current) (gr_aliases g)
             in if allowed = [] then fails ErrUnauthenticated
                else
                  or_return (exec env ''touch token'' (\<lambda>db. Inr (db\<lparr>at_tokens := amend (p_agent_token_id p)
                    (\<lambda>tk. tk\<lparr>tk_last_used_at := Some (ve_sql_now env)\<rparr>) (at_tokens db)\<rparr>))) (\<lambda>_.
                  or_return (exec env ''touch grant'' Inr) (\<lambda>_.
                  commit env (agent_scoped allowed p))))))"

section \<open>Disabling\<close>

text \<open>The trigger \<open>revoke_human_agent_authority_0014\<close> on the three tables it watches.\<close>

datatype watched = Users | People | Identities

definition grant_of :: "watched \<Rightarrow> string \<Rightarrow> grant_row \<Rightarrow> bool" where
  "grant_of w i g = (case w of Users \<Rightarrow> gr_user_id g = i | People \<Rightarrow> gr_person_id g = i | Identities \<Rightarrow> gr_identity_id g = i)"

definition disabled_grant :: "time \<Rightarrow> grant_row \<Rightarrow> grant_row" where
  "disabled_grant now g =
     g\<lparr>gr_revoked_at := (case gr_revoked_at g of None \<Rightarrow> Some now | Some t \<Rightarrow> Some t),
       gr_reason := (case gr_reason g of None \<Rightarrow> Some ''identity_or_person_disabled'' | Some r \<Rightarrow> Some r)\<rparr>"

definition revoke_authority :: "time \<Rightarrow> watched \<Rightarrow> string \<Rightarrow> agent_db \<Rightarrow> agent_db" where
  "revoke_authority now w i db =
     (let db1 = db\<lparr>at_grants := map_values (\<lambda>g. if grant_of w i g then disabled_grant now g else g) (at_grants db)\<rparr>
      in revoke_tokens (\<lambda>_ tk. case map_of (at_grants db1) (tk_grant_id tk) of None \<Rightarrow> False | Some g \<Rightarrow> grant_of w i g) now db1)"

definition watched_enabled :: "agent_db \<Rightarrow> watched \<Rightarrow> string \<Rightarrow> bool" where
  "watched_enabled db w i =
     (case w of
        Users \<Rightarrow> map_of (at_users db) i = Some True
      | People \<Rightarrow> (case map_of (at_people db) i of None \<Rightarrow> False | Some p \<Rightarrow> op_enabled p)
      | Identities \<Rightarrow> (case map_of (at_identities db) i of None \<Rightarrow> False | Some fi \<Rightarrow> fi_enabled fi))"

definition clear_enabled :: "watched \<Rightarrow> string \<Rightarrow> agent_db \<Rightarrow> agent_db" where
  "clear_enabled w i db =
     (case w of
        Users \<Rightarrow> db\<lparr>at_users := amend i (\<lambda>_. False) (at_users db)\<rparr>
      | People \<Rightarrow> db\<lparr>at_people := amend i (op_enabled_update (\<lambda>_. False)) (at_people db)\<rparr>
      | Identities \<Rightarrow> db\<lparr>at_identities := amend i (fi_enabled_update (\<lambda>_. False)) (at_identities db)\<rparr>)"

text \<open>Clearing the column \<open>enabled\<close> of a row: the trigger acts when the row was enabled.\<close>

definition disable :: "time \<Rightarrow> watched \<Rightarrow> string \<Rightarrow> agent_db \<Rightarrow> agent_db" where
  "disable now w i db =
     (if watched_enabled db w i then revoke_authority now w i (clear_enabled w i db) else clear_enabled w i db)"

section \<open>The store as the service and the gateway use it\<close>

definition postgres_agents :: "agent_env \<Rightarrow> agent_db agent_ops" where
  "postgres_agents env =
     \<lparr>ao_contexts = list_agent_contexts env, ao_mint = mint_agent_credential env, ao_revoke = revoke_agent_grant env\<rparr>"

end
