(* ===== verification/Agent_Ledger.thy ===== *)
theory Agent_Ledger
  imports Agent_Store
begin

text \<open>
  The tables of grants, tokens and mintings as a transition system: every call of the service, every
  authentication, the trigger on a disabled person, and every change the rest of the program makes to
  the other tables, in any order; the invariant of its reachable states and how they grow.
\<close>

section \<open>Rows changed in place\<close>

definition map_rows :: "('k \<Rightarrow> 'v \<Rightarrow> 'v) \<Rightarrow> ('k, 'v) go_map \<Rightarrow> ('k, 'v) go_map" where
  "map_rows f m = map (\<lambda>(k, v). (k, f k v)) m"

lemma map_of_map_rows [go_map_simps]: "map_of (map_rows f m) k = map_option (f k) (map_of m k)"
  by (induction m) (auto simp: map_rows_def)

lemma set_map_rows: "set (map_rows f m) = (\<lambda>(k, v). (k, f k v)) ` set m"
  by (simp add: map_rows_def)

lemma keys_map_rows [simp]: "map fst (map_rows f m) = map fst m"
  by (auto simp: map_rows_def comp_def split_def)

lemma find_row: "find P m = Some (k, v) \<Longrightarrow> distinct (map fst m) \<Longrightarrow> map_of m k = Some v \<and> P (k, v)"
  by (auto simp: find_Some_iff in_set_conv_nth)

lemma revoke_tokens_rows:
  "revoke_tokens P now db = db\<lparr>at_tokens := map_rows (\<lambda>i tk. if P i tk then revoked_token now tk else tk) (at_tokens db)\<rparr>"
  by (simp add: revoke_tokens_def map_rows_def)

lemma link_replaced_rows:
  "link_replaced grant token now db = db\<lparr>at_tokens := map_rows (\<lambda>i tk.
     if tk_grant_id tk = grant \<and> i \<noteq> token \<and> tk_revoked_at tk = Some now \<and> tk_replaced_by tk = None
     then tk\<lparr>tk_replaced_by := Some token\<rparr> else tk) (at_tokens db)\<rparr>"
  by (simp add: link_replaced_def map_rows_def)

section \<open>The invariant\<close>

text \<open>
  A token lives ten minutes, and an unrevoked one no longer than its unrevoked grant; it is the only
  unrevoked token of the grant, and the newest.
\<close>

definition grant_sound :: "grant_row \<Rightarrow> bool" where
  "grant_sound g \<longleftrightarrow> (gr_revoked_at g = None \<longleftrightarrow> gr_reason g = None)"

definition token_sound :: "agent_db \<Rightarrow> token_row \<Rightarrow> bool" where
  "token_sound db tk =
     (case map_of (at_grants db) (tk_grant_id tk) of
        None \<Rightarrow> False
      | Some g \<Rightarrow> tk_expires_at tk = tk_issued_at tk + 10 * minute \<and>
          (tk_revoked_at tk = None \<longrightarrow> gr_revoked_at g = None \<and> tk_expires_at tk \<le> gr_expires_at g))"

definition supersedes :: "token_row \<Rightarrow> token_row \<Rightarrow> bool" where
  "supersedes tk tk' \<longleftrightarrow>
     (tk_revoked_at tk = None \<and> tk_grant_id tk' = tk_grant_id tk \<longrightarrow>
        tk_revoked_at tk' \<noteq> None \<and> tk_generation tk' < tk_generation tk)"

definition mint_sound :: "agent_db \<Rightarrow> mint_row \<Rightarrow> bool" where
  "mint_sound db m =
     (case map_of (at_tokens db) (mw_token_id m) of
        None \<Rightarrow> False
      | Some tk \<Rightarrow> tk_grant_id tk = mw_grant_id m \<and>
          (mw_state m = ''response_unrecoverable'' \<longrightarrow> tk_revoked_at tk \<noteq> None))"

definition mint_key :: "mint_row \<Rightarrow> string \<times> string \<times> string" where
  "mint_key m = (mw_identity_id m, mw_client_id m, mw_key_digest m)"

definition agents_sound :: "agent_db \<Rightarrow> bool" where
  "agents_sound db \<longleftrightarrow>
     distinct (map fst (at_grants db)) \<and> distinct (map fst (at_tokens db)) \<and> distinct (map fst (at_mints db)) \<and>
     (\<forall>(i, g) \<in> set (at_grants db). grant_sound g) \<and>
     (\<forall>(i, tk) \<in> set (at_tokens db). token_sound db tk) \<and>
     (\<forall>(i, tk) \<in> set (at_tokens db). \<forall>(j, tk') \<in> set (at_tokens db). i \<noteq> j \<longrightarrow> supersedes tk tk') \<and>
     (\<forall>(k, m) \<in> set (at_mints db). mint_sound db m) \<and>
     distinct (map (mint_key \<circ> snd) (at_mints db)) \<and> distinct (map (mw_token_id \<circ> snd) (at_mints db))"

text \<open>How the three tables grow: rows stay, a revocation stays, and what a row is about stays.\<close>

definition token_grows :: "token_row \<Rightarrow> token_row \<Rightarrow> bool" where
  "token_grows tk tk' \<longleftrightarrow>
     tk_grant_id tk' = tk_grant_id tk \<and> tk_hash tk' = tk_hash tk \<and> tk_generation tk' = tk_generation tk \<and>
     tk_issued_at tk' = tk_issued_at tk \<and> tk_expires_at tk' = tk_expires_at tk \<and>
     (tk_revoked_at tk \<noteq> None \<longrightarrow> tk_revoked_at tk' = tk_revoked_at tk)"

definition grant_binding :: "grant_row \<Rightarrow> string list" where
  "grant_binding g = [gr_user_id g, gr_identity_id g, gr_person_id g, gr_membership_id g, gr_organisation_id g,
     gr_project_id g, gr_environment_id g, gr_client_id g, gr_instance_digest g]"

definition grant_grows :: "grant_row \<Rightarrow> grant_row \<Rightarrow> bool" where
  "grant_grows g g' \<longleftrightarrow> grant_binding g' = grant_binding g \<and>
     (\<not> renewable g \<longrightarrow> gr_revoked_at g' = gr_revoked_at g \<and> gr_reason g' = gr_reason g)"

definition mint_grows :: "mint_row \<Rightarrow> mint_row \<Rightarrow> bool" where
  "mint_grows m m' \<longleftrightarrow>
     mint_key m' = mint_key m \<and> mw_request_hash m' = mw_request_hash m \<and> mw_grant_id m' = mw_grant_id m \<and>
     mw_token_id m' = mw_token_id m \<and> (mw_state m = ''response_unrecoverable'' \<longrightarrow> mw_state m' = mw_state m)"

definition rows_grow :: "('v \<Rightarrow> 'v \<Rightarrow> bool) \<Rightarrow> ('k, 'v) go_map \<Rightarrow> ('k, 'v) go_map \<Rightarrow> bool" where
  "rows_grow R m m' \<longleftrightarrow> (\<forall>k \<in> fst ` set m. case (map_of m k, map_of m' k) of (Some v, Some v') \<Rightarrow> R v v' | _ \<Rightarrow> False)"

definition agents_grow :: "agent_db \<Rightarrow> agent_db \<Rightarrow> bool" where
  "agents_grow db db' \<longleftrightarrow>
     rows_grow token_grows (at_tokens db) (at_tokens db') \<and> rows_grow grant_grows (at_grants db) (at_grants db') \<and>
     rows_grow mint_grows (at_mints db) (at_mints db')"

lemma rows_growD:
  assumes "rows_grow R m m'" and "map_of m k = Some v"
  shows "\<exists>v'. map_of m' k = Some v' \<and> R v v'"
proof -
  have "k \<in> fst ` set m" using assms(2) by (force dest: map_of_SomeD)
  with assms show ?thesis by (auto simp: rows_grow_def split: option.splits dest!: bspec)
qed

lemma rows_growI:
  assumes "\<And>k v. map_of m k = Some v \<Longrightarrow> \<exists>v'. map_of m' k = Some v' \<and> R v v'"
  shows "rows_grow R m m'"
  unfolding rows_grow_def
proof
  fix k assume "k \<in> fst ` set m"
  then obtain v where v: "map_of m k = Some v" by (metis map_of_eq_None_iff option.exhaust)
  with assms [OF v] show "case (map_of m k, map_of m' k) of (Some v, Some v') \<Rightarrow> R v v' | _ \<Rightarrow> False" by auto
qed

lemma rows_grow_refl: "(\<And>v. R v v) \<Longrightarrow> rows_grow R m m"
  by (rule rows_growI) auto

lemma rows_grow_trans:
  "rows_grow R a b \<Longrightarrow> rows_grow R b c \<Longrightarrow> (\<And>x y z. R x y \<Longrightarrow> R y z \<Longrightarrow> R x z) \<Longrightarrow> rows_grow R a c"
  by (rule rows_growI) (metis rows_growD)

lemma rows_grow_map_rows: "(\<And>k v. map_of m k = Some v \<Longrightarrow> R v (f k v)) \<Longrightarrow> rows_grow R m (map_rows f m)"
  by (rule rows_growI) (auto simp: go_map_simps)

lemma rows_grow_insert: "map_of m k = None \<Longrightarrow> (\<And>v. R v v) \<Longrightarrow> rows_grow R m (AList.update k v m)"
  by (rule rows_growI) (auto simp: go_map_simps)

lemma token_grows_refl [simp]: "token_grows tk tk"
  by (simp add: token_grows_def)

lemma grant_grows_refl [simp]: "grant_grows g g"
  by (simp add: grant_grows_def)

lemma mint_grows_refl [simp]: "mint_grows m m"
  by (simp add: mint_grows_def)

lemma token_grows_trans: "token_grows a b \<Longrightarrow> token_grows b c \<Longrightarrow> token_grows a c"
  by (auto simp: token_grows_def)

lemma grant_grows_trans: "grant_grows a b \<Longrightarrow> grant_grows b c \<Longrightarrow> grant_grows a c"
  by (auto simp: grant_grows_def renewable_def)

lemma mint_grows_trans: "mint_grows a b \<Longrightarrow> mint_grows b c \<Longrightarrow> mint_grows a c"
  by (auto simp: mint_grows_def)

definition agents_evolve :: "agent_db \<Rightarrow> agent_db \<Rightarrow> bool" where
  "agents_evolve db db' \<longleftrightarrow> (agents_sound db \<longrightarrow> agents_sound db' \<and> agents_grow db db')"

lemma agents_grow_refl [simp]: "agents_grow db db"
  by (simp add: agents_grow_def rows_grow_refl)

lemma agents_grow_trans: "agents_grow a b \<Longrightarrow> agents_grow b c \<Longrightarrow> agents_grow a c"
  unfolding agents_grow_def
  by (blast intro: rows_grow_trans token_grows_trans grant_grows_trans mint_grows_trans)

interpretation agents: step_preorder agents_evolve
  by unfold_locales (auto simp: agents_evolve_def intro: agents_grow_trans)

section \<open>Single changes\<close>

text \<open>A change of the token rows that keeps what they are about and their revocation.\<close>

lemma sound_tokens:
  assumes "agents_sound db" and g: "\<And>i tk. token_grows tk (f i tk)"
    and r: "\<And>i tk. tk_revoked_at (f i tk) = None \<Longrightarrow> tk_revoked_at tk = None"
  shows "agents_sound (db\<lparr>at_tokens := map_rows f (at_tokens db)\<rparr>)"
proof -
  have k: "tk_revoked_at tk \<noteq> None \<Longrightarrow> tk_revoked_at (f i tk) \<noteq> None" for i tk
    using g [of tk i] by (auto simp: token_grows_def)
  have same: "tk_grant_id (f i tk) = tk_grant_id tk" "tk_generation (f i tk) = tk_generation tk"
    "tk_issued_at (f i tk) = tk_issued_at tk" "tk_expires_at (f i tk) = tk_expires_at tk" for i tk
    using g [of tk i] by (auto simp: token_grows_def)
  let ?db = "db\<lparr>at_tokens := map_rows f (at_tokens db)\<rparr>"
  have t: "token_sound db tk \<Longrightarrow> token_sound ?db (f i tk)" for i tk
    using r [of i tk] by (auto simp: token_sound_def same split: option.splits)
  have s: "supersedes tk tk' \<Longrightarrow> supersedes (f i tk) (f j tk')" for i j tk tk'
    using r [of i tk] k [of tk' j] by (auto simp: supersedes_def same)
  have m: "mint_sound db x \<Longrightarrow> mint_sound ?db x" for x
    using k by (auto simp: mint_sound_def same go_map_simps split: option.splits)
  show ?thesis
    using assms(1) t s m unfolding agents_sound_def by (simp add: set_map_rows split: prod.splits) (metis (lifting) case_prod_conv)
qed

lemma token_grows_revoked: "token_grows tk (if P then revoked_token now tk else tk)"
  by (auto simp: token_grows_def revoked_token_def split: option.splits)

lemma revoked_only: "tk_revoked_at (if P then revoked_token now tk else tk) = None \<Longrightarrow> tk_revoked_at tk = None"
  by (auto simp: revoked_token_def split: if_splits option.splits)

lemma tokens_grow: "(\<And>i tk. token_grows tk (f i tk)) \<Longrightarrow> agents_grow db (db\<lparr>at_tokens := map_rows f (at_tokens db)\<rparr>)"
  by (simp add: agents_grow_def rows_grow_refl rows_grow_map_rows)

lemma revoke_tokens_evolve: "agents_evolve db (revoke_tokens P now db)"
  unfolding agents_evolve_def revoke_tokens_rows
  by (auto intro!: sound_tokens tokens_grow token_grows_revoked dest: revoked_only)

text \<open>A change of the grant rows that leaves the grants of unrevoked tokens alone.\<close>

lemma sound_grants:
  assumes "agents_sound db"
    and "\<And>i tk g. (i, tk) \<in> set (at_tokens db) \<Longrightarrow> tk_revoked_at tk = None \<Longrightarrow>
      map_of (at_grants db) (tk_grant_id tk) = Some g \<Longrightarrow> h (tk_grant_id tk) g = g"
    and gs: "\<And>k g. grant_sound g \<Longrightarrow> grant_sound (h k g)"
  shows "agents_sound (db\<lparr>at_grants := map_rows h (at_grants db)\<rparr>)"
proof -
  let ?db = "db\<lparr>at_grants := map_rows h (at_grants db)\<rparr>"
  have "token_sound ?db tk" if "(i, tk) \<in> set (at_tokens db)" "token_sound db tk" for i tk
    using that assms(2) [OF that(1)] by (auto simp: token_sound_def go_map_simps split: option.splits)
  moreover have "mint_sound ?db m = mint_sound db m" for m by (simp add: mint_sound_def)
  moreover have "\<forall>(k, g) \<in> set (at_grants ?db). grant_sound g"
    using assms(1) gs by (auto simp: agents_sound_def set_map_rows)
  ultimately show ?thesis using assms(1) unfolding agents_sound_def by auto
qed

lemma grants_grow: "(\<And>k g. map_of (at_grants db) k = Some g \<Longrightarrow> grant_grows g (h k g)) \<Longrightarrow>
    agents_grow db (db\<lparr>at_grants := map_rows h (at_grants db)\<rparr>)"
  by (simp add: agents_grow_def rows_grow_refl rows_grow_map_rows)

lemma amend_rows: "amend k f m = map_rows (\<lambda>k' v. if k' = k then f v else v) m"
  by (simp add: amend_def map_rows_def)

lemma map_values_rows: "map_values f m = map_rows (\<lambda>_. f) m"
  by (simp add: map_values_def map_rows_def)

lemma insert_grant_evolve:
  assumes "map_of (at_grants db) i = None" and "grant_sound g"
  shows "agents_evolve db (db\<lparr>at_grants := AList.update i g (at_grants db)\<rparr>)"
proof -
  let ?db = "db\<lparr>at_grants := AList.update i g (at_grants db)\<rparr>"
  have "token_sound db tk \<Longrightarrow> token_sound ?db tk" for tk
    using assms by (auto simp: token_sound_def go_map_simps split: option.splits)
  moreover have "mint_sound ?db m = mint_sound db m" for m by (simp add: mint_sound_def)
  moreover have "set (at_grants ?db) = insert (i, g) (set (at_grants db))" using assms(1) by (simp add: update_fresh)
  ultimately show ?thesis
    unfolding agents_evolve_def agents_sound_def agents_grow_def
    using assms by (auto simp: rows_grow_refl rows_grow_insert distinct_update)
qed

end
