(* ===== verification/Agent_Mint.thy ===== *)
theory Agent_Mint
  imports Agent_Ledger
begin

text \<open>
  What one minting does to the tables, and that it keeps the invariant of \<open>Agent_Ledger\<close>.
\<close>

section \<open>Rows added\<close>

lemma fold_max_upper: "(x :: int) \<in> set xs \<Longrightarrow> x \<le> fold max xs a"
proof (induction xs arbitrary: a)
  case (Cons y ys)
  have le: "b \<le> fold max zs b" for zs and b :: int
  proof (induction zs arbitrary: b)
    case (Cons z zs)
    from Cons [of "max z b"] show ?case by simp
  qed simp
  from Cons show ?case
    using order_trans [OF _ le [of "max y a" ys], of y] by auto
qed simp

lemma next_generation_newer:
  assumes "(i, tk) \<in> set (at_tokens db)" and "tk_grant_id tk = grant"
  shows "tk_generation tk < next_generation grant db"
proof -
  have "tk_generation tk \<in> set (map (tk_generation \<circ> snd) (filter (\<lambda>(_, tk). tk_grant_id tk = grant) (at_tokens db)))"
    using assms by force
  then show ?thesis using fold_max_upper unfolding next_generation_def by fastforce
qed

lemma insert_token_sound:
  assumes s: "agents_sound db" and run: "insert_token i tk db = Inr db'"
    and old: "\<forall>(j, tk') \<in> set (at_tokens db). tk_grant_id tk' = tk_grant_id tk \<longrightarrow>
      tk_revoked_at tk' \<noteq> None \<and> tk_generation tk' < tk_generation tk"
    and new: "token_sound db tk"
  shows "agents_sound db' \<and> agents_grow db db' \<and> db' = db\<lparr>at_tokens := at_tokens db @ [(i, tk)]\<rparr> \<and> map_of (at_tokens db) i = None"
proof -
  from run have f: "map_of (at_tokens db) i = None" and db': "db' = db\<lparr>at_tokens := at_tokens db @ [(i, tk)]\<rparr>"
    by (auto simp: insert_token_def update_fresh split: if_splits)
  have t: "token_sound db' x = token_sound db x" for x by (simp add: token_sound_def db')
  have m: "mint_sound db x \<Longrightarrow> mint_sound db' x" for x
    using f by (auto simp: mint_sound_def db' map_add_def split: option.splits)
  have rev: "supersedes tk' tk" if "(j, tk') \<in> set (at_tokens db)" for j tk'
    using old that by (auto simp: supersedes_def)
  have fwd: "supersedes tk tk'" if "(j, tk') \<in> set (at_tokens db)" for j tk'
    using old that by (auto simp: supersedes_def)
  have "agents_sound db'"
    using s new f m rev fwd unfolding agents_sound_def t
    by (auto simp: db' map_of_eq_None_iff)
  moreover have "agents_grow db db'"
    using f unfolding agents_grow_def db' by (auto simp: rows_grow_refl update_fresh [symmetric] rows_grow_insert)
  ultimately show ?thesis using db' f by simp
qed

lemma insert_mint_evolve:
  assumes s: "agents_sound db" and run: "insert_mint r input grant db = Inr db'"
    and tk: "map_of (at_tokens db) (sm_token_id input) = Some tk" "tk_grant_id tk = grant"
    and fresh: "\<And>k m. (k, m) \<in> set (at_mints db) \<Longrightarrow> mw_token_id m \<noteq> sm_token_id input"
  shows "agents_sound db' \<and> agents_grow db db' \<and> at_tokens db' = at_tokens db \<and> at_grants db' = at_grants db \<and>
    map_of (at_mints db') (sm_mint_id input) = Some
      \<lparr>mw_identity_id = rec_identity_id r, mw_client_id = fid_oauth_client_id (sm_identity input),
       mw_key_digest = sm_key_digest input, mw_request_hash = sm_request_hash input, mw_grant_id = grant,
       mw_token_id = sm_token_id input, mw_state = ''completed'', mw_replayed_at = None\<rparr>"
proof -
  from run obtain m where m: "mint_key m = (rec_identity_id r, fid_oauth_client_id (sm_identity input), sm_key_digest input)"
      "mw_token_id m = sm_token_id input" "mw_grant_id m = grant" "mw_state m = ''completed''"
    and m_eq: "m = \<lparr>mw_identity_id = rec_identity_id r, mw_client_id = fid_oauth_client_id (sm_identity input),
       mw_key_digest = sm_key_digest input, mw_request_hash = sm_request_hash input, mw_grant_id = grant,
       mw_token_id = sm_token_id input, mw_state = ''completed'', mw_replayed_at = None\<rparr>"
    and f: "map_of (at_mints db) (sm_mint_id input) = None" and e: "earlier_mint r input db = None"
    and db': "db' = db\<lparr>at_mints := at_mints db @ [(sm_mint_id input, m)]\<rparr>"
    by (auto simp: insert_mint_def update_fresh mint_key_def split: if_splits)
  have nk: "mint_key m \<notin> (mint_key \<circ> snd) ` set (at_mints db)"
    using e m(1) by (force simp: earlier_mint_def find_value_None_iff mint_key_def)
  have nt: "mw_token_id m \<notin> (mw_token_id \<circ> snd) ` set (at_mints db)" using fresh m(2) by force
  have t: "token_sound db' x = token_sound db x" "mint_sound db' y = mint_sound db y" for x y
    by (simp_all add: token_sound_def mint_sound_def db')
  have "mint_sound db m" using tk m by (simp add: mint_sound_def)
  with s f nk nt have "agents_sound db'" unfolding agents_sound_def t
    by (auto simp: db' map_of_eq_None_iff)
  moreover have "agents_grow db db'"
    using f unfolding agents_grow_def db' by (auto simp: rows_grow_refl update_fresh [symmetric] rows_grow_insert)
  ultimately show ?thesis using db' f m_eq by (simp add: map_add_def)
qed

section \<open>The run of a minting\<close>

definition granted :: "agent_record \<Rightarrow> store_mint_input \<Rightarrow> string \<Rightarrow> agent_db \<Rightarrow> agent_db \<Rightarrow> bool" where
  "granted r input grant db db1 \<longleftrightarrow>
     (case binding_grant r input db of
        Some (i, g) \<Rightarrow> grant = i \<and> renewable g \<and> db1 = db\<lparr>at_grants := amend i (renewed_grant input) (at_grants db)\<rparr>
      | None \<Rightarrow> grant = sm_grant_id input \<and> map_of (at_grants db) grant = None \<and>
          db1 = db\<lparr>at_grants := AList.update grant (new_grant r input) (at_grants db)\<rparr>)"

definition replayed :: "store_mint_input \<Rightarrow> mint_row \<Rightarrow> agent_db \<Rightarrow> agent_db" where
  "replayed input m db = replay_mints (mw_token_id m) (sm_now input) (revoke_tokens (\<lambda>i _. i = mw_token_id m) (sm_now input) db)"

definition issued :: "agent_record \<Rightarrow> store_mint_input \<Rightarrow> string \<Rightarrow> agent_db \<Rightarrow> agent_db \<Rightarrow> bool" where
  "issued r input grant db db' \<longleftrightarrow>
     (\<exists>db1 db2. granted r input grant db db1 \<and>
        insert_token (sm_token_id input) (minted_token input grant (next_generation grant db1))
          (revoke_tokens (\<lambda>_ tk. tk_grant_id tk = grant \<and> tk_revoked_at tk = None) (sm_now input) db1) = Inr db2 \<and>
        insert_mint r input grant (link_replaced grant (sm_token_id input) (sm_now input) db2) = Inr db')"

lemma ensure_grant_run: "run_state (ensure_grant env r input) db = (Inr grant, db1) \<Longrightarrow> granted r input grant db db1"
  by (auto simp: ensure_grant_def granted_def ran simp del: run_state_or_return split: option.splits if_splits)

lemma issue_token_run:
  assumes "granted r input grant db db1" and "run_state (issue_token env r input grant) db1 = (Inr u, db')"
  shows "issued r input grant db db'"
  using assms unfolding issued_def issue_token_def by (auto simp: ran simp del: run_state_or_return)

lemma load_context_run:
  "run_state (load_agent_context env identity membership) db = (Inr x, db') \<longleftrightarrow>
     ve_refuses env ''resolve agent context'' db = None \<and> ve_refuses env ''select effective models'' db = None \<and> db' = db \<and>
     (\<exists>r ms. x = (r, ms) \<and> membership_record identity db membership = Some r \<and>
       effective_models db (rec_organisation_id r) (rec_project_id r) (rec_environment_id r) (rec_person_id r) (rec_owner r) = Inr ms)"
  by (auto simp: load_agent_context_def load_effective_models_def ran simp del: run_state_or_return split: option.splits)

lemma mint_body_run:
  assumes "run_state (mint_body env input) db = (Inr out, db')"
  obtains r ms where "membership_record (sm_identity input) db (sm_membership_id input) = Some r"
    and "effective_models db (rec_organisation_id r) (rec_project_id r) (rec_environment_id r) (rec_person_id r) (rec_owner r) = Inr ms"
    and "case earlier_mint r input db of
           Some m \<Rightarrow> mw_request_hash m = sm_request_hash input \<and> out = Inl err_response_unrecoverable \<and> db' = replayed input m db
         | None \<Rightarrow> alias_subset (sm_model_aliases input) (aliases_for_agent_models ms) \<and>
             (\<exists>grant. issued r input grant db db' \<and> out = Inr
               \<lparr>mt_context = context_of_record r ms, mt_grant_id = grant, mt_access_token = key_token (sm_credential input),
                mt_expires_at = sm_token_expires_at input, mt_model_aliases = sm_model_aliases input\<rparr>)"
proof -
  from assms obtain r ms where r: "membership_record (sm_identity input) db (sm_membership_id input) = Some r"
    and ms: "effective_models db (rec_organisation_id r) (rec_project_id r) (rec_environment_id r) (rec_person_id r) (rec_owner r) = Inr ms"
    and rest: "run_state (or_return (query env ''select mint'' (earlier_mint r input)) (\<lambda>earlier.
       case earlier of
         Some m \<Rightarrow> or_return (replay_mint env input m) (\<lambda>e. ok (Inl e))
       | None \<Rightarrow>
           if \<not> alias_subset (sm_model_aliases input) (aliases_for_agent_models ms) then fails ErrForbidden
           else
             or_return (ensure_grant env r input) (\<lambda>grant.
             or_return (issue_token env r input grant) (\<lambda>_.
             commit env (Inr
               \<lparr>mt_context = context_of_record r ms, mt_grant_id = grant, mt_access_token = key_token (sm_credential input),
                mt_expires_at = sm_token_expires_at input, mt_model_aliases = sm_model_aliases input\<rparr>))))) db = (Inr out, db')"
    unfolding mint_body_def by (auto simp: ran_or_return load_context_run simp del: run_state_or_return)
  show thesis
  proof (rule that [OF r ms], cases "earlier_mint r input db")
    case (Some m)
    with rest show "case earlier_mint r input db of
           Some m \<Rightarrow> mw_request_hash m = sm_request_hash input \<and> out = Inl err_response_unrecoverable \<and> db' = replayed input m db
         | None \<Rightarrow> alias_subset (sm_model_aliases input) (aliases_for_agent_models ms) \<and>
             (\<exists>grant. issued r input grant db db' \<and> out = Inr
               \<lparr>mt_context = context_of_record r ms, mt_grant_id = grant, mt_access_token = key_token (sm_credential input),
                mt_expires_at = sm_token_expires_at input, mt_model_aliases = sm_model_aliases input\<rparr>)"
      by (auto simp: ran replay_mint_def replayed_def simp del: run_state_or_return split: if_splits)
  next
    case None
    with rest show "case earlier_mint r input db of
           Some m \<Rightarrow> mw_request_hash m = sm_request_hash input \<and> out = Inl err_response_unrecoverable \<and> db' = replayed input m db
         | None \<Rightarrow> alias_subset (sm_model_aliases input) (aliases_for_agent_models ms) \<and>
             (\<exists>grant. issued r input grant db db' \<and> out = Inr
               \<lparr>mt_context = context_of_record r ms, mt_grant_id = grant, mt_access_token = key_token (sm_credential input),
                mt_expires_at = sm_token_expires_at input, mt_model_aliases = sm_model_aliases input\<rparr>)"
      by (auto simp: ran_or_return ran_query ran_commit simp del: run_state_or_return split: if_splits
          dest!: ensure_grant_run intro: issue_token_run)
  qed
qed

end
