(* ===== verification/Agent_Steps.thy ===== *)
theory Agent_Steps
  imports Agent_Mint
begin

text \<open>
  The steps of the system around the agent tables and what all of them preserve; the contract between
  the service and its store, and the store's side of it.
\<close>

section \<open>Minting keeps the invariant\<close>

definition bounded_mint :: "store_mint_input \<Rightarrow> bool" where
  "bounded_mint input \<longleftrightarrow>
     sm_token_expires_at input = sm_now input + 10 * minute \<and> sm_grant_expires_at input = sm_now input + 60 * minute"

lemma revoked_all:
  assumes "(j, tk) \<in> set (at_tokens (revoke_tokens (\<lambda>_ tk. tk_grant_id tk = grant \<and> tk_revoked_at tk = None) now db))"
    and "tk_grant_id tk = grant"
  shows "tk_revoked_at tk \<noteq> None"
proof -
  from assms(1) obtain tk0 where "tk = (if tk_grant_id tk0 = grant \<and> tk_revoked_at tk0 = None then revoked_token now tk0 else tk0)"
    by (auto simp: revoke_tokens_def)
  with assms(2) show ?thesis by (cases "tk_grant_id tk0 = grant \<and> tk_revoked_at tk0 = None") (auto simp: revoked_token_def)
qed

lemma revoke_tokens_fields [simp]:
  "at_grants (revoke_tokens P now db) = at_grants db" "at_mints (revoke_tokens P now db) = at_mints db"
  "revoke_tokens P now (db\<lparr>at_grants := G\<rparr>) = (revoke_tokens P now db)\<lparr>at_grants := G\<rparr>"
  by (simp_all add: revoke_tokens_def)

lemma next_generation_revoke [simp]:
  "next_generation grant (revoke_tokens P now db) = next_generation grant db"
  "next_generation grant (db\<lparr>at_grants := G\<rparr>) = next_generation grant db"
proof -
  have "map (tk_generation \<circ> snd) (filter (\<lambda>(_, tk). tk_grant_id tk = grant) (at_tokens (revoke_tokens P now db))) =
      map (tk_generation \<circ> snd) (filter (\<lambda>(_, tk). tk_grant_id tk = grant) (at_tokens db))"
    by (simp add: revoke_tokens_def revoked_token_def filter_map comp_def split_def if_distrib cong: if_cong)
  then show "next_generation grant (revoke_tokens P now db) = next_generation grant db"
    by (simp add: next_generation_def)
qed (simp add: next_generation_def)

lemma binding_grant_row: "binding_grant r input db = Some (i, g) \<Longrightarrow> distinct (map fst (at_grants db)) \<Longrightarrow>
    map_of (at_grants db) i = Some g \<and> gr_identity_id g = rec_identity_id r \<and> gr_membership_id g = sm_membership_id input"
  by (auto simp: binding_grant_def dest!: find_row)

lemma granted_evolve:
  assumes s: "agents_sound db" and g: "granted r input grant db db1"
    and rev: "\<And>j tk. (j, tk) \<in> set (at_tokens db) \<Longrightarrow> tk_grant_id tk = grant \<Longrightarrow> tk_revoked_at tk \<noteq> None"
  shows "agents_sound db1 \<and> agents_grow db db1 \<and> (\<exists>G. db1 = db\<lparr>at_grants := G\<rparr>) \<and>
    (\<exists>g. map_of (at_grants db1) grant = Some g \<and> gr_revoked_at g = None \<and> gr_expires_at g = sm_grant_expires_at input \<and>
       gr_identity_id g = rec_identity_id r \<and> gr_membership_id g = sm_membership_id input \<and> gr_aliases g = sm_model_aliases input)"
proof (cases "binding_grant r input db")
  case None
  with g have f: "map_of (at_grants db) grant = None" and db1: "db1 = db\<lparr>at_grants := AList.update grant (new_grant r input) (at_grants db)\<rparr>"
    by (auto simp: granted_def)
  moreover have "grant_sound (new_grant r input)" by (simp add: grant_sound_def new_grant_def)
  ultimately show ?thesis
    using insert_grant_evolve [OF f, of "new_grant r input"] s by (auto simp: agents_evolve_def go_map_simps new_grant_def)
next
  case (Some p)
  then obtain i g0 where b: "binding_grant r input db = Some (i, g0)" by (cases p) auto
  with g have i: "grant = i" "renewable g0" and db1: "db1 = db\<lparr>at_grants := amend i (renewed_grant input) (at_grants db)\<rparr>"
    by (auto simp: granted_def)
  from b s have row: "map_of (at_grants db) i = Some g0" "gr_identity_id g0 = rec_identity_id r"
      "gr_membership_id g0 = sm_membership_id input"
    using binding_grant_row by (auto simp: agents_sound_def)
  have "agents_sound db1" unfolding db1 amend_rows
  proof (rule sound_grants [OF s])
    fix j tk g assume "(j, tk) \<in> set (at_tokens db)" "tk_revoked_at tk = None"
    with rev i have "tk_grant_id tk \<noteq> i" by blast
    then show "(if tk_grant_id tk = i then renewed_grant input g else g) = g" by simp
  qed (simp add: grant_sound_def renewed_grant_def)
  moreover have "agents_grow db db1" unfolding db1 amend_rows
    by (rule grants_grow) (use row i in \<open>auto simp: grant_grows_def renewed_grant_def grant_binding_def\<close>)
  ultimately show ?thesis using row i by (auto simp: db1 go_map_simps renewed_grant_def)
qed

lemma link_replaced_evolve: "agents_evolve db (link_replaced grant token now db)"
  unfolding agents_evolve_def link_replaced_rows
  by (auto intro!: sound_tokens tokens_grow simp: token_grows_def split: if_splits)

lemma link_replaced_fields [simp]:
  "at_grants (link_replaced grant token now db) = at_grants db" "at_mints (link_replaced grant token now db) = at_mints db"
  by (simp_all add: link_replaced_def)

lemma issued_sound:
  assumes s: "agents_sound db" and b: "bounded_mint input" and run: "issued r input grant db db'"
  shows "agents_sound db' \<and> agents_grow db db' \<and>
    (\<exists>m. map_of (at_mints db') (sm_mint_id input) = Some m \<and>
       mint_key m = (rec_identity_id r, fid_oauth_client_id (sm_identity input), sm_key_digest input) \<and>
       mw_request_hash m = sm_request_hash input \<and> mw_token_id m = sm_token_id input \<and> mw_grant_id m = grant)"
proof -
  let ?P = "\<lambda>_ tk. tk_grant_id tk = grant \<and> tk_revoked_at tk = None"
  let ?rv = "revoke_tokens ?P (sm_now input)"
  from run obtain db1 db2 where g: "granted r input grant db db1"
    and ins: "insert_token (sm_token_id input) (minted_token input grant (next_generation grant db1)) (?rv db1) = Inr db2"
    and mint: "insert_mint r input grant (link_replaced grant (sm_token_id input) (sm_now input) db2) = Inr db'"
    unfolding issued_def by blast
  have rs: "agents_sound (?rv db)" "agents_grow db (?rv db)"
    using revoke_tokens_evolve [of db ?P "sm_now input"] s by (simp_all add: agents_evolve_def)
  from g have g': "granted r input grant (?rv db) (?rv db1)"
    by (auto simp: granted_def binding_grant_def split: option.splits)
  have rev: "tk_revoked_at tk \<noteq> None" if "(j, tk) \<in> set (at_tokens (?rv db))" "tk_grant_id tk = grant" for j tk
    using revoked_all that by blast
  from granted_evolve [OF rs(1) g' rev]
  obtain g1 where s1: "agents_sound (?rv db1)" "agents_grow (?rv db) (?rv db1)"
    and tokens1: "at_tokens (?rv db1) = at_tokens (?rv db)"
    and g1: "map_of (at_grants (?rv db1)) grant = Some g1" "gr_revoked_at g1 = None" "gr_expires_at g1 = sm_grant_expires_at input"
    by force
  let ?tk = "minted_token input grant (next_generation grant (?rv db1))"
  have sound_tk: "token_sound (?rv db1) ?tk"
    using g1 b by (auto simp: token_sound_def minted_token_def bounded_mint_def minute_def)
  have "tk_revoked_at tk' \<noteq> None \<and> tk_generation tk' < tk_generation ?tk"
    if "(j, tk') \<in> set (at_tokens (?rv db1))" "tk_grant_id tk' = tk_grant_id ?tk" for j tk'
    using that rev [of j tk'] tokens1 next_generation_newer [of j tk' "?rv db1" grant] by (simp add: minted_token_def)
  then have old: "\<forall>(j, tk') \<in> set (at_tokens (?rv db1)). tk_grant_id tk' = tk_grant_id ?tk \<longrightarrow>
      tk_revoked_at tk' \<noteq> None \<and> tk_generation tk' < tk_generation ?tk" by blast
  from ins have ins': "insert_token (sm_token_id input) ?tk (?rv db1) = Inr db2" by simp
  note added = insert_token_sound [OF s1(1) ins' old sound_tk]
  have s2: "agents_sound db2" "agents_grow (?rv db1) db2" and fresh: "map_of (at_tokens (?rv db1)) (sm_token_id input) = None"
    and db2: "db2 = (?rv db1)\<lparr>at_tokens := at_tokens (?rv db1) @ [(sm_token_id input, ?tk)]\<rparr>"
    by (rule added [THEN conjunct1], rule added [THEN conjunct2, THEN conjunct1],
      rule added [THEN conjunct2, THEN conjunct2, THEN conjunct2], rule added [THEN conjunct2, THEN conjunct2, THEN conjunct1])
  let ?db3 = "link_replaced grant (sm_token_id input) (sm_now input) db2"
  have s3: "agents_sound ?db3" "agents_grow db2 ?db3"
    using link_replaced_evolve s2(1) by (auto simp: agents_evolve_def)
  have tk3: "map_of (at_tokens ?db3) (sm_token_id input) = Some ?tk"
    using fresh by (simp add: link_replaced_rows go_map_simps db2 map_add_def)
  have unused: "mw_token_id m \<noteq> sm_token_id input" if "(k, m) \<in> set (at_mints ?db3)" for k m
    using that s1(1) fresh by (force simp: db2 agents_sound_def mint_sound_def split: option.splits)
  from insert_mint_evolve [OF s3(1) mint tk3 _ unused]
  have sound': "agents_sound db'" and g4: "agents_grow ?db3 db'" and m: "map_of (at_mints db') (sm_mint_id input) = Some
      \<lparr>mw_identity_id = rec_identity_id r, mw_client_id = fid_oauth_client_id (sm_identity input),
       mw_key_digest = sm_key_digest input, mw_request_hash = sm_request_hash input, mw_grant_id = grant,
       mw_token_id = sm_token_id input, mw_state = ''completed'', mw_replayed_at = None\<rparr>"
    by (simp_all add: minted_token_def)
  have "agents_grow db db'"
    by (rule agents_grow_trans [OF rs(2) agents_grow_trans [OF s1(2) agents_grow_trans [OF s2(2) agents_grow_trans [OF s3(2) g4]]]])
  with sound' m show ?thesis by (simp add: mint_key_def)
qed

lemma replayed_sound:
  assumes s: "agents_sound db" and m: "earlier_mint r input db = Some m"
  shows "agents_sound (replayed input m db) \<and> agents_grow db (replayed input m db) \<and>
    (\<exists>tk. map_of (at_tokens (replayed input m db)) (mw_token_id m) = Some tk \<and> tk_revoked_at tk \<noteq> None)"
proof -
  let ?now = "sm_now input" and ?t = "mw_token_id m"
  let ?db1 = "revoke_tokens (\<lambda>i _. i = ?t) ?now db"
  have s1: "agents_sound ?db1" "agents_grow db ?db1"
    using revoke_tokens_evolve s by (auto simp: agents_evolve_def)
  from m obtain k where "(k, m) \<in> set (at_mints db)" by (auto simp: earlier_mint_def dest: find_value_SomeD)
  with s obtain tk0 where "map_of (at_tokens db) ?t = Some tk0"
    by (force simp: agents_sound_def mint_sound_def split: option.splits)
  then have tk: "map_of (at_tokens ?db1) ?t = Some (revoked_token ?now tk0)" by (simp add: revoke_tokens_rows go_map_simps)
  have r: "tk_revoked_at (revoked_token ?now tk0) \<noteq> None" by (simp add: revoked_token_def split: option.splits)
  let ?f = "\<lambda>x. if mw_token_id x = ?t then x\<lparr>mw_state := ''response_unrecoverable'', mw_replayed_at := Some ?now\<rparr> else x"
  let ?db2 = "?db1\<lparr>at_mints := map_values ?f (at_mints ?db1)\<rparr>"
  have eq: "replayed input m db = ?db2" by (simp add: replayed_def replay_mints_def)
  have "mint_sound ?db1 x \<Longrightarrow> mint_sound ?db2 (?f x)" for x
    using tk r by (auto simp: mint_sound_def split: option.splits)
  moreover have "token_sound ?db2 x = token_sound ?db1 x" for x by (simp add: token_sound_def)
  moreover have "map (mint_key \<circ> snd) (at_mints ?db2) = map (mint_key \<circ> snd) (at_mints ?db1)"
    "map (mw_token_id \<circ> snd) (at_mints ?db2) = map (mw_token_id \<circ> snd) (at_mints ?db1)"
    by (auto simp: map_values_def mint_key_def)
  ultimately have "agents_sound ?db2"
    using s1(1) unfolding agents_sound_def by (force simp: set_map_values simp del: revoke_tokens_fields)
  moreover have "agents_grow ?db1 ?db2"
    unfolding agents_grow_def map_values_rows
    by (auto simp: rows_grow_refl mint_grows_def mint_key_def intro!: rows_grow_map_rows)
  ultimately show ?thesis using tk r s1(2) agents_grow_trans unfolding eq by auto
qed

lemma mint_keeps:
  assumes b: "bounded_mint input" and run: "run_state (mint_agent_credential env input) db = (out, db')"
  shows "agents_evolve db db'"
proof (cases "\<exists>o1. run_state (mint_body env input) db = (Inr o1, db')")
  case True
  then obtain o1 where "run_state (mint_body env input) db = (Inr o1, db')" ..
  then obtain r ms where "case earlier_mint r input db of
           Some m \<Rightarrow> mw_request_hash m = sm_request_hash input \<and> o1 = Inl err_response_unrecoverable \<and> db' = replayed input m db
         | None \<Rightarrow> alias_subset (sm_model_aliases input) (aliases_for_agent_models ms) \<and>
             (\<exists>grant. issued r input grant db db' \<and> o1 = Inr
               \<lparr>mt_context = context_of_record r ms, mt_grant_id = grant, mt_access_token = key_token (sm_credential input),
                mt_expires_at = sm_token_expires_at input, mt_model_aliases = sm_model_aliases input\<rparr>)"
    by (rule mint_body_run)
  then show ?thesis
    using b issued_sound [of db input r _ db'] replayed_sound [of db r input]
    by (auto simp: agents_evolve_def split: option.splits)
next
  case False
  from run obtain x where "run_state (transaction env (mint_body env input)) db = (x, db')"
    by (auto simp: mint_agent_credential_def split: prod.splits sum.splits)
  from transaction_result [OF this] False have "db' = db" by blast
  then show ?thesis by (simp add: agents_evolve_def)
qed

section \<open>Revocation and authentication keep the invariant\<close>

text \<open>Grants changed together with the revocation of every token of a changed grant.\<close>

lemma close_grants_evolve:
  assumes grows: "\<And>k g. agents_sound db \<Longrightarrow> map_of (at_grants db) k = Some g \<Longrightarrow> grant_grows g (h k g)"
    and gs: "\<And>k g. grant_sound g \<Longrightarrow> grant_sound (h k g)"
    and P: "\<And>i tk g. map_of (at_grants db) (tk_grant_id tk) = Some g \<Longrightarrow> \<not> P i tk \<Longrightarrow> h (tk_grant_id tk) g = g"
  shows "agents_evolve db (revoke_tokens P now (db\<lparr>at_grants := map_rows h (at_grants db)\<rparr>))"
  unfolding agents_evolve_def
proof
  assume s: "agents_sound db"
  let ?db1 = "revoke_tokens P now db"
  have s1: "agents_sound ?db1" "agents_grow db ?db1" using revoke_tokens_evolve s by (auto simp: agents_evolve_def)
  have "h (tk_grant_id tk) g = g" if "(i, tk) \<in> set (at_tokens ?db1)" "tk_revoked_at tk = None"
      "map_of (at_grants ?db1) (tk_grant_id tk) = Some g" for i tk g
  proof -
    from that(1) obtain tk0 where tk: "tk = (if P i tk0 then revoked_token now tk0 else tk0)" by (auto simp: revoke_tokens_def)
    with that(2) have "\<not> P i tk0" by (auto simp: revoked_token_def split: option.splits)
    with tk that(3) P show ?thesis by auto
  qed
  then have "agents_sound (?db1\<lparr>at_grants := map_rows h (at_grants ?db1)\<rparr>)" by (intro sound_grants [OF s1(1)] gs)
  moreover have "agents_grow ?db1 (?db1\<lparr>at_grants := map_rows h (at_grants ?db1)\<rparr>)"
    by (rule grants_grow) (use grows s in simp)
  ultimately show "agents_sound (revoke_tokens P now (db\<lparr>at_grants := map_rows h (at_grants db)\<rparr>)) \<and>
      agents_grow db (revoke_tokens P now (db\<lparr>at_grants := map_rows h (at_grants db)\<rparr>))"
    using s1(2) agents_grow_trans by auto
qed

lemma revoke_keeps:
  assumes "run_state (revoke_agent_grant env identity membership digest now) db = (out, db')"
  shows "agents_evolve db db'"
proof -
  let ?m = "or_return (query env ''select live grant'' (live_grant identity membership digest)) (\<lambda>found.
       case found of
         None \<Rightarrow> fails ErrNotFound
       | Some grant \<Rightarrow>
           or_return (exec env ''log out grant'' (\<lambda>db. Inr (db\<lparr>at_grants := amend grant (logged_out now) (at_grants db)\<rparr>))) (\<lambda>_.
           or_return (exec env ''revoke grant tokens'' (\<lambda>db. Inr (revoke_tokens (\<lambda>_ tk. tk_grant_id tk = grant) now db))) (\<lambda>_.
           commit env ())))"
  from as_error_result [OF assms [unfolded revoke_agent_grant_def]]
  obtain r where "run_state (transaction env ?m) db = (r, db')" by blast
  from transaction_result [OF this] consider "db' = db" | u where "run_state ?m db = (Inr u, db')" by blast
  then show ?thesis
  proof cases
    case 1
    then show ?thesis by (simp add: agents_evolve_def)
  next
    case 2
    then obtain grant where live: "live_grant identity membership digest db = Some grant"
      and db': "db' = revoke_tokens (\<lambda>_ tk. tk_grant_id tk = grant) now (db\<lparr>at_grants := amend grant (logged_out now) (at_grants db)\<rparr>)"
      by (auto simp: ran simp del: run_state_or_return revoke_tokens_fields split: option.splits)
    show ?thesis unfolding db' amend_rows
    proof (rule close_grants_evolve)
      fix k g assume k: "map_of (at_grants db) k = Some g" and "agents_sound db"
      with live have "map_of (at_grants db) grant = Some g' \<Longrightarrow> gr_revoked_at g' = None" for g'
        by (auto simp: live_grant_def agents_sound_def dest!: find_row)
      with k show "grant_grows g (if k = grant then logged_out now g else g)"
        by (auto simp: grant_grows_def logged_out_def grant_binding_def renewable_def)
    qed (auto simp: grant_sound_def logged_out_def)
  qed
qed

lemma authority_keeps: "agents_evolve db (revoke_authority now w i db)"
proof -
  have same: "grant_of w i (disabled_grant now g) = grant_of w i g" for g
    by (simp add: grant_of_def disabled_grant_def split: watched.splits)
  have "revoke_authority now w i db =
      revoke_tokens (\<lambda>_ tk. case map_of (at_grants db) (tk_grant_id tk) of None \<Rightarrow> False | Some g \<Rightarrow> grant_of w i g) now
        (db\<lparr>at_grants := map_rows (\<lambda>_ g. if grant_of w i g then disabled_grant now g else g) (at_grants db)\<rparr>)"
    unfolding revoke_authority_def Let_def map_values_rows
    by (rule arg_cong [where f = "\<lambda>P. revoke_tokens P now _"])
      (auto simp: fun_eq_iff go_map_simps same split: option.splits)
  moreover have "agents_evolve db (revoke_tokens (\<lambda>_ tk. case map_of (at_grants db) (tk_grant_id tk) of None \<Rightarrow> False | Some g \<Rightarrow> grant_of w i g) now
        (db\<lparr>at_grants := map_rows (\<lambda>_ g. if grant_of w i g then disabled_grant now g else g) (at_grants db)\<rparr>))"
  proof (rule close_grants_evolve)
    fix k g assume "agents_sound db" "map_of (at_grants db) k = Some g"
    then have "grant_sound g" by (auto simp: agents_sound_def dest: map_of_SomeD)
    then show "grant_grows g (if grant_of w i g then disabled_grant now g else g)"
      by (auto simp: grant_grows_def disabled_grant_def grant_binding_def renewable_def grant_sound_def split: option.splits)
  qed (auto simp: grant_sound_def disabled_grant_def split: option.splits)
  ultimately show ?thesis by simp
qed

lemma other_tables:
  assumes "at_grants db' = at_grants db" "at_tokens db' = at_tokens db" "at_mints db' = at_mints db"
  shows "agents_evolve db db'"
proof -
  have "token_sound db' = token_sound db" "mint_sound db' = mint_sound db"
    by (simp_all add: fun_eq_iff token_sound_def mint_sound_def assms)
  then show ?thesis by (simp add: agents_evolve_def agents_sound_def agents_grow_def rows_grow_refl assms)
qed

lemma disable_keeps: "agents_evolve db (disable now w i db)"
proof -
  have "agents_evolve db (clear_enabled w i db)"
    by (rule other_tables) (simp_all add: clear_enabled_def split: watched.splits)
  with authority_keeps agents.rel_trans show ?thesis unfolding disable_def by (metis (full_types))
qed

lemma query_same: "run_state (query env st f) db = (r, db') \<Longrightarrow> db' = db"
  by (auto simp: query_def split: option.splits)

lemma same_or_return:
  assumes "\<And>db r db'. run_state m db = (r, db') \<Longrightarrow> db' = db" and "\<And>a db r db'. run_state (k a) db = (r, db') \<Longrightarrow> db' = db"
    and "run_state (or_return m k) db = (r, db')"
  shows "db' = db"
  using assms(3) by (auto split: prod.splits sum.splits dest: assms(1,2))

lemma load_models_same: "run_state (load_effective_models env org project environment person owner) db = (r, db') \<Longrightarrow> db' = db"
  unfolding load_effective_models_def by (erule same_or_return [rotated 2]) (auto dest: query_same)

lemma load_contexts_same: "run_state (load_contexts env rs) db = (r, db') \<Longrightarrow> db' = db"
proof (induction rs arbitrary: db r db')
  case (Cons x rs)
  show ?case
    by (rule same_or_return [OF load_models_same _ Cons.prems [unfolded load_contexts.simps]], assumption,
        erule same_or_return [OF Cons.IH, rotated 2]) (auto split: if_splits)
qed simp

lemma list_contexts_same: "run_state (list_agent_contexts env identity) db = (r, db') \<Longrightarrow> db' = db"
  unfolding list_agent_contexts_def by (erule same_or_return [rotated 2]) (auto dest: query_same load_contexts_same)

section \<open>Authentication\<close>

definition touched :: "string \<Rightarrow> time \<Rightarrow> agent_db \<Rightarrow> agent_db" where
  "touched i now db = db\<lparr>at_tokens := amend i (\<lambda>tk. tk\<lparr>tk_last_used_at := Some now\<rparr>) (at_tokens db)\<rparr>"

lemma principal_fields:
  "agent_principal db i tk g = Some pr \<Longrightarrow>
     p_organisation_id pr = gr_organisation_id g \<and> p_project_id pr = gr_project_id g \<and>
     p_environment_id pr = gr_environment_id g \<and> p_human_user_id pr = gr_user_id g \<and>
     p_agent_grant_id pr = tk_grant_id tk \<and> p_agent_token_id pr = i \<and> p_api_key_id pr = []"
  by (auto simp: agent_principal_def zero_principal_def split: option.splits)

lemma authenticate_run:
  assumes "run_state (authenticate_human env digest) db = (Inr p, db')"
  obtains i tk g pr ms where
    "find (\<lambda>(_, tk). tk_hash tk = digest \<and> live_token (ve_sql_now env) db tk) (at_tokens db) = Some (i, tk)"
    "map_of (at_grants db) (tk_grant_id tk) = Some g" "agent_principal db i tk g = Some pr"
    "effective_models db (gr_organisation_id g) (gr_project_id g) (gr_environment_id g) (gr_person_id g)
       (owns db (gr_organisation_id g) (gr_person_id g)) = Inr ms"
    "filter (\<lambda>a. a \<in> set (aliases_for_agent_models ms)) (gr_aliases g) \<noteq> []"
    "p = agent_scoped (filter (\<lambda>a. a \<in> set (aliases_for_agent_models ms)) (gr_aliases g)) pr"
    "db' = touched i (ve_sql_now env) db"
proof -
  from assms obtain pr g owner where found: "presented_token (ve_sql_now env) digest db = Some (pr, g, owner)"
    and rest: "run_state (or_return (load_effective_aliases env (p_organisation_id pr) (p_project_id pr) (p_environment_id pr) (gr_person_id g) owner) (\<lambda>current.
             let allowed = filter (\<lambda>a. a \<in> set current) (gr_aliases g)
             in if allowed = [] then fails ErrUnauthenticated
                else
                  or_return (exec env ''touch token'' (\<lambda>db. Inr (db\<lparr>at_tokens := amend (p_agent_token_id pr)
                    (\<lambda>tk. tk\<lparr>tk_last_used_at := Some (ve_sql_now env)\<rparr>) (at_tokens db)\<rparr>))) (\<lambda>_.
                  or_return (exec env ''touch grant'' Inr) (\<lambda>_.
                  commit env (agent_scoped allowed pr))))) db = (Inr p, db')"
    unfolding authenticate_human_def by (auto simp: ran_transaction ran_or_return ran_query simp del: run_state_or_return split: option.splits)
  from found obtain i tk where t: "find (\<lambda>(_, tk). tk_hash tk = digest \<and> live_token (ve_sql_now env) db tk) (at_tokens db) = Some (i, tk)"
    and g: "map_of (at_grants db) (tk_grant_id tk) = Some g" and pr: "agent_principal db i tk g = Some pr"
    and owner: "owner = owns db (gr_organisation_id g) (gr_person_id g)"
    by (auto simp: presented_token_def split: option.splits)
  let ?allowed = "\<lambda>ms. filter (\<lambda>a. a \<in> set (aliases_for_agent_models ms)) (gr_aliases g)"
  from rest principal_fields [OF pr] obtain ms where
    "effective_models db (gr_organisation_id g) (gr_project_id g) (gr_environment_id g) (gr_person_id g)
       (owns db (gr_organisation_id g) (gr_person_id g)) = Inr ms \<and> ?allowed ms \<noteq> [] \<and>
     p = agent_scoped (?allowed ms) pr \<and> db' = touched i (ve_sql_now env) db"
    by (auto simp: load_effective_aliases_def load_effective_models_def ran owner touched_def Let_def
        simp del: run_state_or_return split: if_splits)
  then show thesis by (intro that [OF t g pr]) auto
qed

lemma touched_evolve: "agents_evolve db (touched i now db)"
  unfolding agents_evolve_def touched_def amend_rows
  by (auto intro!: sound_tokens tokens_grow simp: token_grows_def split: if_splits)

lemma authenticate_keeps:
  assumes "run_state (authenticate_human env digest) db = (out, db')"
  shows "agents_evolve db db'"
proof (cases out)
  case (Inl e)
  with assms have "db' = db" unfolding authenticate_human_def by (auto dest: transaction_error)
  then show ?thesis by (simp add: agents_evolve_def)
next
  case (Inr p)
  with assms obtain i where "db' = touched i (ve_sql_now env) db" using authenticate_run by metis
  then show ?thesis by (simp add: touched_evolve)
qed

section \<open>The contract between the service and its store\<close>

text \<open>
  A relation that every call of the store keeps, when a minting asks for a token of ten minutes under a
  grant of an hour, is kept by every request of the handler.
\<close>

locale agent_provider = step_preorder keeps for keeps :: "'s \<Rightarrow> 's \<Rightarrow> bool" +
  fixes ops :: "'s agent_ops"
  assumes contexts_keep: "preserves keeps (ao_contexts ops identity)"
    and mint_keep: "bounded_mint input \<Longrightarrow> preserves keeps (ao_mint ops input)"
    and revoke_keep: "preserves keeps (ao_revoke ops identity membership digest now)"
begin

lemma mint_preserves: "preserves keeps (mint env ops identity i key)"
proof (cases "prepare_mint env identity i key")
  case (Inl e)
  then show ?thesis by (simp add: mint_def pres_return)
next
  case (Inr input)
  then have "bounded_mint input"
    by (auto simp: prepare_mint_def Let_def mint_request_def bounded_mint_def split: sum.splits if_splits)
  with Inr show ?thesis by (simp add: mint_def mint_keep)
qed

lemma revoke_preserves: "preserves keeps (revoke_grant env ops identity membership client)"
  by (simp add: revoke_grant_def revoke_keep pres_return)

lemma contexts_preserves: "preserves keeps (serve_contexts h ops identity w)"
  unfolding serve_contexts_def by (intro pres_bind pres_return contexts_keep)

lemma serve_mint_preserves: "preserves keeps (serve_mint h ops r identity i w)"
  unfolding serve_mint_def by (simp add: pres_return pres_bind mint_preserves)

lemma serve_revoke_preserves: "preserves keeps (serve_revoke h ops identity i w)"
  unfolding serve_revoke_def Let_def by (simp add: pres_return pres_bind revoke_preserves)

lemma serve_preserves: "preserves keeps (serve_agent h ops r w)"
  unfolding serve_agent_def serve_agent_authenticated_def Let_def
  by (auto simp: pres_return contexts_preserves serve_mint_preserves serve_revoke_preserves split: sum.splits option.splits)

end

interpretation agent_tables: agent_provider agents_evolve "postgres_agents env" for env
proof unfold_locales
  show "preserves agents_evolve (ao_contexts (postgres_agents env) identity)" for identity
    by (rule preservesI) (auto simp: postgres_agents_def agents_evolve_def dest: list_contexts_same)
  show "preserves agents_evolve (ao_mint (postgres_agents env) input)" if "bounded_mint input" for input
    by (rule preservesI) (simp add: postgres_agents_def mint_keeps [OF that])
  show "preserves agents_evolve (ao_revoke (postgres_agents env) identity membership digest now)" for identity membership digest now
    by (rule preservesI) (simp add: postgres_agents_def revoke_keeps)
qed

section \<open>Steps\<close>

inductive agent_step :: "agent_db \<Rightarrow> agent_db \<Rightarrow> bool" where
  served: "run_state (serve_agent h (postgres_agents env) r w) db = (w', db') \<Longrightarrow> agent_step db db'"
| minted: "run_state (mint menv (postgres_agents env) identity i key) db = (r', db') \<Longrightarrow> agent_step db db'"
| revoked: "run_state (revoke_grant menv (postgres_agents env) identity membership client) db = (e', db') \<Longrightarrow> agent_step db db'"
| authenticated: "run_state (authenticate_human env digest) db = (out, db') \<Longrightarrow> agent_step db db'"
| disabled: "agent_step db (disable now w i db)"
| elsewhere: "at_grants db' = at_grants db \<Longrightarrow> at_tokens db' = at_tokens db \<Longrightarrow> at_mints db' = at_mints db \<Longrightarrow>
    agent_step db db'"

lemma agent_step_evolve: "agent_step db db' \<Longrightarrow> agents_evolve db db'"
proof (induction rule: agent_step.induct)
  case (served h env r w db w' db')
  with agent_tables.serve_preserves show ?case by (rule preservesD)
next
  case (minted menv env identity i key db r' db')
  with agent_tables.mint_preserves show ?case by (rule preservesD)
next
  case (revoked menv env identity membership client db e' db')
  with agent_tables.revoke_preserves show ?case by (rule preservesD)
qed (auto intro: authenticate_keeps disable_keeps other_tables)

lemma agent_steps_evolve: "agent_step\<^sup>*\<^sup>* db db' \<Longrightarrow> agents_evolve db db'"
  by (induction rule: rtranclp_induct) (auto intro: agent_step_evolve agents.rel_refl agents.rel_trans)

text \<open>The system starts with no grant, token or minting.\<close>

definition no_agents :: "agent_db \<Rightarrow> bool" where
  "no_agents db \<longleftrightarrow> at_grants db = [] \<and> at_tokens db = [] \<and> at_mints db = []"

inductive agents_reachable :: "agent_db \<Rightarrow> bool" where
  started: "no_agents db \<Longrightarrow> agents_reachable db"
| stepped: "agents_reachable db \<Longrightarrow> agent_step db db' \<Longrightarrow> agents_reachable db'"

lemma no_agents_sound: "no_agents db \<Longrightarrow> agents_sound db"
  by (simp add: no_agents_def agents_sound_def)

lemma reachable_sound: "agents_reachable db \<Longrightarrow> agents_sound db"
  by (induction rule: agents_reachable.induct) (auto simp: no_agents_sound agents_evolve_def dest!: agent_step_evolve)

lemma reachable_steps: "agent_step\<^sup>*\<^sup>* db db' \<Longrightarrow> agents_reachable db \<Longrightarrow> agents_sound db' \<and> agents_grow db db'"
  using agent_steps_evolve reachable_sound by (auto simp: agents_evolve_def)

end
