(* ===== verification/Agent_Properties.thy ===== *)
theory Agent_Properties
  imports Agent_Steps
begin

text \<open>
  Properties of agent access over every reachable state of the tables: what a token authorises, that a
  grant has one live token, that an idempotency key issues one credential, and that offboarding closes
  what was open.
\<close>

section \<open>A small database\<close>

definition demo_route :: "string \<Rightarrow> string \<Rightarrow> stored_route" where
  "demo_route i model_id =
     \<lparr>sr_id = i, sr_organisation_id = ''org_1'', sr_project_id = ''prj_1'', sr_environment_id = ''env_1'', sr_model_id = model_id,
      sr_target_id = ''tgt_1'', sr_binding_generation = 1, sr_enabled = True, sr_created_at = 0, sr_updated_at = 0\<rparr>"

definition demo_model :: "string \<Rightarrow> string \<Rightarrow> model" where
  "demo_model i name = \<lparr>mdl_id = i, mdl_alias = name, mdl_version = ''1'', mdl_enabled = True\<rparr>"

definition demo_target :: target where
  "demo_target = zero_target
     \<lparr>t_id := ''tgt_1'', t_name := ''tgt'', t_capacity_mode := ''shared'', t_max_attempts := 2, t_enabled := True,
      t_health_status := ''healthy''\<rparr>"

definition agent_demo_db :: agent_db where
  "agent_demo_db =
     \<lparr>at_identities = [(''fid_1'', \<lparr>fi_issuer = ''https://id'', fi_subject = ''sub'', fi_user_id = ''usr_1'', fi_enabled = True\<rparr>)],
      at_users = [(''usr_1'', True)],
      at_people = [(''per_1'', \<lparr>op_organisation_id = ''org_1'', op_user_id = ''usr_1'', op_enabled = True\<rparr>)],
      at_memberships = [(''hm_1'', \<lparr>hm_user_id = ''usr_1'', hm_organisation_id = ''org_1'', hm_project_id = ''prj_1'',
        hm_environment_id = ''env_1'', hm_enabled = True\<rparr>)],
      at_organisations = [(''org_1'', \<lparr>nr_name = ''Org'', nr_slug = ''org''\<rparr>)],
      at_projects = [(''prj_1'', \<lparr>nr_name = ''Prj'', nr_slug = ''prj''\<rparr>)],
      at_environments = [(''env_1'', \<lparr>nr_name = ''Env'', nr_slug = ''env''\<rparr>)],
      at_ownerships = [],
      at_routes = [(''rte_1'', demo_route ''rte_1'' ''mod_1''), (''rte_2'', demo_route ''rte_2'' ''mod_2'')],
      at_models = [(''mod_1'', demo_model ''mod_1'' ''fast''), (''mod_2'', demo_model ''mod_2'' ''large'')],
      at_targets = [(''tgt_1'', demo_target)], at_catalogue = [],
      at_groups = [(''grp_1'', (''org_1'', True))],
      at_group_people = [\<lparr>gp_organisation_id = ''org_1'', gp_project_id = ''prj_1'', gp_environment_id = ''env_1'',
        gp_group_id = ''grp_1'', gp_person_id = ''per_1''\<rparr>],
      at_group_models = [\<lparr>gm_organisation_id = ''org_1'', gm_group_id = ''grp_1'', gm_route_id = ''rte_1''\<rparr>],
      at_grants = [], at_tokens = [], at_mints = []\<rparr>"

definition agent_demo_env :: agent_env where
  "agent_demo_env = \<lparr>ve_refuses = (\<lambda>_ _. None), ve_ids = (\<lambda>p _. Inr p), ve_sql_now = 100\<rparr>"

definition demo_identity :: fed_identity where
  "demo_identity = \<lparr>fid_issuer = ''https://id'', fid_subject = ''sub'', fid_email = [], fid_email_verified = False,
     fid_display_name = [], fid_oauth_client_id = ''cli''\<rparr>"

text \<open>A hash for the example: a request has one fixed digest, anything else is its own.\<close>

definition demo_sha :: "string \<Rightarrow> string" where
  "demo_sha s = (if hd s = CHR ''{'' then ''request'' else s)"

definition demo_mint_env :: "char \<Rightarrow> mint_env" where
  "demo_mint_env c = \<lparr>me_public = Some (replicate 8 c), me_secret = Some (replicate 24 c), me_id = (\<lambda>p. Inr (p @ [c])),
     me_now = 50, me_sha = demo_sha\<rparr>"

definition demo_client :: string where
  "demo_client = ''aci_EhISEhISEhISEhISEhISEhIS''"

definition demo_key :: "char \<Rightarrow> string" where
  "demo_key c = ''agm_'' @ b64_encode (replicate 16 c)"

definition demo_mint_input :: mint_input where
  "demo_mint_input = \<lparr>mi_client_instance_id = demo_client, mi_membership_id = ''hm_1'', mi_model_aliases = ['' fast'']\<rparr>"

definition demo_token :: "char \<Rightarrow> string" where
  "demo_token c = human_token_marker @ hex_encode (replicate 8 c) @ ''.'' @ b64_encode (replicate 24 c)"

definition demo_store_input :: "char \<Rightarrow> store_mint_input" where
  "demo_store_input c =
     \<lparr>sm_identity = demo_identity, sm_client_digest = demo_client, sm_key_digest = demo_key c, sm_request_hash = ''request'',
      sm_membership_id = ''hm_1'', sm_model_aliases = [''fast''], sm_grant_id = ''agr'' @ [c], sm_token_id = ''aut'' @ [c],
      sm_mint_id = ''agm'' @ [c],
      sm_credential = \<lparr>key_token = demo_token c, key_prefix = human_token_marker @ hex_encode (replicate 8 c), key_digest = demo_token c\<rparr>,
      sm_now = 50, sm_token_expires_at = 50 + 10 * minute, sm_grant_expires_at = 50 + 60 * minute\<rparr>"

lemma valid_opaque_encoded:
  "length marker = 4 \<Longrightarrow> length s = 16 \<Longrightarrow> valid_opaque (marker @ b64_encode s) marker 16"
  by (simp add: valid_opaque_def length_b64_encode b64_decode_encode has_prefix_def)

lemma demo_client_valid: "valid_opaque demo_client ''aci_'' 16" and demo_client_trimmed: "trim_space demo_client = demo_client"
proof -
  show "valid_opaque demo_client ''aci_'' 16"
    by (simp add: demo_client_def valid_opaque_def b64_decode_def b64_val_def has_prefix_def is_upper_def is_lower_def is_digit_def Let_def)
  show "trim_space demo_client = demo_client" unfolding demo_client_def by code_simp
qed

lemma hd_request: "hd (canonical_request i a b as) = CHR ''{''"
  by (simp add: canonical_request_def)

lemma demo_strings:
  "trim_space ''hm_1'' = ''hm_1''" "valid_simple_id ''hm_1''" "normalise_aliases ['' fast''] = Inr [''fast'']"
  by code_simp+

lemma demo_sha_other [simp]:
  "demo_sha demo_client = demo_client" "demo_sha (demo_key k) = demo_key k" "demo_sha (demo_token c) = demo_token c"
  "demo_sha (canonical_request i a b as) = ''request''"
  by (simp_all add: demo_sha_def demo_client_def demo_key_def demo_token_def human_token_marker_def hd_request)

lemma demo_key_valid: "valid_opaque (demo_key k) ''agm_'' 16"
  using valid_opaque_encoded [of "''agm_''" "replicate 16 k"] by (simp add: demo_key_def)

lemma demo_generated:
  "generate_human demo_sha (Some (replicate 8 c)) (Some (replicate 24 c)) =
     Inr \<lparr>key_token = demo_token c, key_prefix = human_token_marker @ hex_encode (replicate 8 c), key_digest = demo_token c\<rparr>"
  using demo_sha_other(3) [of c] unfolding demo_token_def by (simp add: generate_human_def generate_from_def Let_def del: demo_sha_other)

lemma prepare_demo:
  "prepare_mint (demo_mint_env c) demo_identity demo_mint_input (demo_key k) = Inr (demo_store_input c\<lparr>sm_key_digest := demo_key k\<rparr>)"
  by (simp add: prepare_mint_def demo_mint_env_def demo_mint_input_def demo_store_input_def mint_request_def demo_client_trimmed
      demo_strings demo_client_valid demo_key_valid demo_generated)

lemma demo_fields:
  "at_identities agent_demo_db = [(''fid_1'', \<lparr>fi_issuer = ''https://id'', fi_subject = ''sub'', fi_user_id = ''usr_1'', fi_enabled = True\<rparr>)]"
  "at_users agent_demo_db = [(''usr_1'', True)]"
  "at_people agent_demo_db = [(''per_1'', \<lparr>op_organisation_id = ''org_1'', op_user_id = ''usr_1'', op_enabled = True\<rparr>)]"
  "at_memberships agent_demo_db = [(''hm_1'', \<lparr>hm_user_id = ''usr_1'', hm_organisation_id = ''org_1'', hm_project_id = ''prj_1'',
     hm_environment_id = ''env_1'', hm_enabled = True\<rparr>)]"
  "at_organisations agent_demo_db = [(''org_1'', \<lparr>nr_name = ''Org'', nr_slug = ''org''\<rparr>)]"
  "at_projects agent_demo_db = [(''prj_1'', \<lparr>nr_name = ''Prj'', nr_slug = ''prj''\<rparr>)]"
  "at_environments agent_demo_db = [(''env_1'', \<lparr>nr_name = ''Env'', nr_slug = ''env''\<rparr>)]"
  "at_ownerships agent_demo_db = []" "at_grants agent_demo_db = []" "at_tokens agent_demo_db = []" "at_mints agent_demo_db = []"
  by (simp_all add: agent_demo_db_def)

lemma membership_demo:
  "membership_record demo_identity agent_demo_db ''hm_1'' = Some
     \<lparr>rec_identity_id = ''fid_1'', rec_user_id = ''usr_1'', rec_person_id = ''per_1'', rec_membership_id = ''hm_1'',
      rec_organisation_id = ''org_1'', rec_project_id = ''prj_1'', rec_environment_id = ''env_1'', rec_organisation = ''Org'',
      rec_project = ''Prj'', rec_environment = ''Env'', rec_owner = False\<rparr>"
  by (simp add: membership_record_def enabled_identity_def enabled_person_def owns_def demo_identity_def agent_demo_db_def)

lemma models_demo:
  "effective_models agent_demo_db ''org_1'' ''prj_1'' ''env_1'' ''per_1'' False =
     Inr [\<lparr>am_alias = ''fast'', am_display_name = ''fast'', am_capabilities = [], am_context_window = None\<rparr>]"
  by (simp add: effective_models_def effective_routes_def usable_route_def group_allows_def alias_of_def model_of_route_def
      agent_demo_db_def demo_route_def demo_model_def demo_target_def)

text \<open>The reads of the other tables do not depend on the three.\<close>

abbreviation with_agents :: "(string, grant_row) go_map \<Rightarrow> (string, token_row) go_map \<Rightarrow> (string, mint_row) go_map \<Rightarrow> agent_db \<Rightarrow> agent_db" where
  "with_agents g t m db \<equiv> db\<lparr>at_grants := g, at_tokens := t, at_mints := m\<rparr>"

lemma routes_irrelevant:
  "usable_route (with_agents g t m db) = usable_route db" "alias_of (with_agents g t m db) = alias_of db"
  "model_of_route (with_agents g t m db) = model_of_route db" "owns (with_agents g t m db) = owns db"
  by (simp_all add: fun_eq_iff usable_route_def group_allows_def alias_of_def model_of_route_def owns_def
      cong: option.case_cong prod.case_cong if_cong)

lemma tables_irrelevant [simp]:
  "membership_record i (with_agents g t m db) = membership_record i db"
  "effective_models (with_agents g t m db) = effective_models db" "owns (with_agents g t m db) = owns db"
  by (simp_all add: fun_eq_iff membership_record_def enabled_identity_def enabled_person_def effective_models_def effective_routes_def
      routes_irrelevant cong: option.case_cong prod.case_cong if_cong)

lemma demo_statements [simp]:
  "run_state (query agent_demo_env st f) db = (Inr (f db), db)"
  "run_state (exec agent_demo_env st u) db = (case u db of Inl e \<Rightarrow> (Inl e, db) | Inr db' \<Rightarrow> (Inr (), db'))"
  "run_state (commit agent_demo_env a) db = (Inr a, db)"
  "ve_sql_now agent_demo_env = 100"
  by (simp_all add: query_def exec_def commit_def agent_demo_env_def)

lemmas demo_run = transaction_def mint_agent_credential_def mint_body_def load_agent_context_def load_effective_models_def
  ensure_grant_def issue_token_def replay_mint_def

definition minted_db :: agent_db where
  "minted_db = agent_demo_db
     \<lparr>at_grants := [(''agra'', \<lparr>gr_user_id = ''usr_1'', gr_identity_id = ''fid_1'', gr_person_id = ''per_1'', gr_membership_id = ''hm_1'',
        gr_organisation_id = ''org_1'', gr_project_id = ''prj_1'', gr_environment_id = ''env_1'', gr_client_id = ''cli'',
        gr_instance_digest = demo_client, gr_aliases = [''fast''], gr_authenticated_at = 50, gr_expires_at = 50 + 60 * minute,
        gr_revoked_at = None, gr_reason = None\<rparr>)],
      at_tokens := [(''auta'', minted_token (demo_store_input CHR ''a'') ''agra'' 1)],
      at_mints := [(''agma'', \<lparr>mw_identity_id = ''fid_1'', mw_client_id = ''cli'', mw_key_digest = demo_key CHR ''a'',
        mw_request_hash = ''request'', mw_grant_id = ''agra'', mw_token_id = ''auta'', mw_state = ''completed'', mw_replayed_at = None\<rparr>)]\<rparr>"

lemma minted_db_run:
  "\<exists>r. run_state (mint (demo_mint_env CHR ''a'') (postgres_agents agent_demo_env) demo_identity demo_mint_input (demo_key CHR ''a'')) agent_demo_db =
     (Inr r, minted_db)"
  by (simp add: mint_def prepare_demo postgres_agents_def demo_run membership_demo models_demo demo_store_input_def)
    (simp add: demo_run earlier_mint_def alias_subset_def aliases_for_agent_models_def
     binding_grant_def insert_token_def insert_mint_def minted_db_def revoke_tokens_def link_replaced_def next_generation_def minted_token_def
     new_grant_def demo_store_input_def demo_identity_def agent_demo_db_def)

lemmas agent_demo_defs = agent_demo_db_def agent_demo_env_def demo_identity_def demo_mint_env_def demo_mint_input_def demo_store_input_def

lemma no_agents_demo: "no_agents agent_demo_db"
  by (simp add: no_agents_def agent_demo_db_def)

lemma minted_step: "agent_step agent_demo_db minted_db"
  using minted_db_run by (metis agent_step.minted)

lemma minted_reachable: "agents_reachable minted_db"
  by (rule agents_reachable.stepped [OF agents_reachable.started [OF no_agents_demo] minted_step])

lemma distinct_one:
  assumes "set xs = {x}" and "distinct xs"
  shows "xs = [x]"
proof (cases xs)
  case (Cons y ys)
  with assms have "y = x" and "set ys \<subseteq> {x}" and "x \<notin> set ys" by auto
  then have "ys = []" by (cases ys) auto
  with Cons \<open>y = x\<close> show ?thesis by simp
qed (use assms in simp)

lemma sort_empty [simp]: "sort xs = [] \<longleftrightarrow> xs = []" for xs :: "string list"
  by (metis set_empty set_sort)

section \<open>One live token for each grant\<close>

text \<open>
  C35: In every reachable state an unrevoked agent token is the only unrevoked token of its grant and the
  newest one, its grant is not revoked, and it expires ten minutes after it was issued, at the latest with
  the grant.
\<close>

theorem grant_has_one_live_token:
  assumes "agents_reachable db" and i: "map_of (at_tokens db) i = Some tk" and live: "tk_revoked_at tk = None"
  shows "let same = filter (\<lambda>(_, t). tk_grant_id t = tk_grant_id tk) (at_tokens db) in
    filter (\<lambda>(_, t). tk_revoked_at t = None) same = [(i, tk)] \<and>
    list_all (\<lambda>(_, t). tk_generation t \<le> tk_generation tk) same \<and>
    tk_expires_at tk = tk_issued_at tk + 10 * minute \<and>
    (case map_of (at_grants db) (tk_grant_id tk) of
       None \<Rightarrow> False | Some g \<Rightarrow> gr_revoked_at g = None \<and> tk_expires_at tk \<le> gr_expires_at g)"
proof -
  have s: "agents_sound db" using assms(1) by (rule reachable_sound)
  have m: "(i, tk) \<in> set (at_tokens db)" using i by (rule map_of_SomeD)
  have d: "distinct (map fst (at_tokens db))" using s by (simp add: agents_sound_def)
  have other: "supersedes tk t" if "(j, t) \<in> set (at_tokens db)" "j \<noteq> i" for j t
    using s m that by (fastforce simp: agents_sound_def)
  have only: "j = i \<and> t = tk" if "(j, t) \<in> set (at_tokens db)" "tk_grant_id t = tk_grant_id tk" "tk_revoked_at t = None" for j t
    using other [OF that(1)] that live m eq_key_imp_eq_value [OF d m, of t] by (auto simp: supersedes_def)
  let ?P = "\<lambda>(_, t). tk_grant_id t = tk_grant_id tk" and ?Q = "\<lambda>(_ :: string, t). tk_revoked_at t = None"
  have "set (filter ?Q (filter ?P (at_tokens db))) = {(i, tk)}" by (auto dest: only simp: m live)
  moreover have "distinct (filter ?Q (filter ?P (at_tokens db)))"
    using d by (intro distinct_filter) (simp add: distinct_map)
  ultimately have "filter ?Q (filter ?P (at_tokens db)) = [(i, tk)]"
    by (rule distinct_one)
  moreover have "list_all (\<lambda>(_, t). tk_generation t \<le> tk_generation tk) (filter ?P (at_tokens db))"
    unfolding list_all_iff
  proof clarsimp
    fix j t assume jt: "(j, t) \<in> set (at_tokens db)" "tk_grant_id t = tk_grant_id tk"
    show "tk_generation t \<le> tk_generation tk"
    proof (cases "j = i")
      case True
      with jt m eq_key_imp_eq_value [OF d m, of t] show ?thesis by simp
    next
      case False
      with other jt live show ?thesis by (force simp: supersedes_def)
    qed
  qed
  moreover have "token_sound db tk" using s m by (auto simp: agents_sound_def)
  ultimately show ?thesis using live by (auto simp: Let_def token_sound_def split: option.splits)
qed

theorem grant_has_one_live_token_witness:
  "\<exists>tk. map_of (at_tokens minted_db) ''auta'' = Some tk \<and> tk_revoked_at tk = None \<and>
     filter (\<lambda>(_, t). tk_revoked_at t = None) (filter (\<lambda>(_, t). tk_grant_id t = ''agra'') (at_tokens minted_db)) = [(''auta'', tk)]"
proof -
  obtain tk where tk: "map_of (at_tokens minted_db) ''auta'' = Some tk" "tk_revoked_at tk = None" "tk_grant_id tk = ''agra''"
    by (simp add: minted_db_def minted_token_def demo_store_input_def)
  with grant_has_one_live_token [OF minted_reachable tk(1,2)] show ?thesis by (simp add: Let_def)
qed

section \<open>What a token authorises\<close>

definition usable_alias :: "agent_db \<Rightarrow> grant_row \<Rightarrow> string \<Rightarrow> bool" where
  "usable_alias db g a \<longleftrightarrow>
     list_ex (\<lambda>(i, r). usable_route db (gr_organisation_id g) (gr_project_id g) (gr_environment_id g) (gr_person_id g)
       (owns db (gr_organisation_id g) (gr_person_id g)) i r \<and> alias_of db r = a) (at_routes db)"

lemma distinct_on_aliases: "f ` set (distinct_on f xs) = f ` set xs"
  by (induction f xs rule: distinct_on.induct) auto

lemma model_of_route_alias: "model_of_route db r = Some m \<Longrightarrow> am_alias m = alias_of db r"
  by (auto simp: model_of_route_def split: option.splits)

lemma effective_aliases:
  assumes "effective_models db org project environment person owner = Inr ms"
  shows "a \<in> set (aliases_for_agent_models ms) \<longleftrightarrow>
    list_ex (\<lambda>(i, r). usable_route db org project environment person owner i r \<and> alias_of db r = a) (at_routes db)"
proof -
  let ?rs = "effective_routes db org project environment person owner"
  from assms have some: "None \<notin> set (map (model_of_route db) ?rs)" and ms: "ms = map (the \<circ> model_of_route db) ?rs"
    by (auto simp: effective_models_def Let_def split: if_splits)
  from some have "am_alias (the (model_of_route db r)) = alias_of db r" if "r \<in> set ?rs" for r
    using that model_of_route_alias [of db r] by (cases "model_of_route db r") force+
  then have "aliases_for_agent_models ms = map (alias_of db) ?rs" by (simp add: aliases_for_agent_models_def ms)
  then have "set (aliases_for_agent_models ms) = alias_of db ` snd ` set (filter (\<lambda>(i, r). usable_route db org project environment person owner i r) (at_routes db))"
    by (simp add: effective_routes_def distinct_on_aliases)
  then show ?thesis by (force simp: list_ex_iff image_iff)
qed

text \<open>
  C36: A human agent token authenticates only while it and its grant are unrevoked and unexpired; the rows
  of the grant's identity, user, person and membership exist, are enabled, and are of the grant's user, the person and
  the membership also of its organisation and the membership of its project and environment; the principal is the grant's
  tenant and user, limited to inference and to the granted aliases that the person can use at that
  moment, of which there is at least one; and nothing but the time of last use changes.
\<close>

theorem human_token_authorises:
  assumes "agents_reachable db" and run: "run_state (authenticate_human env digest) db = (Inr p, db')"
  shows "case (map_of (at_tokens db) (p_agent_token_id p), map_of (at_grants db) (p_agent_grant_id p)) of
      (Some tk, Some g) \<Rightarrow>
        tk_hash tk = digest \<and> tk_grant_id tk = p_agent_grant_id p \<and> tk_revoked_at tk = None \<and> gr_revoked_at g = None \<and>
        ve_sql_now env < tk_expires_at tk \<and> tk_expires_at tk \<le> gr_expires_at g \<and>
        (\<exists>fi op hm. map_of (at_identities db) (gr_identity_id g) = Some fi \<and> fi_enabled fi \<and> fi_user_id fi = gr_user_id g \<and>
           map_of (at_users db) (gr_user_id g) = Some True \<and>
           map_of (at_people db) (gr_person_id g) = Some op \<and> op_enabled op \<and> op_user_id op = gr_user_id g \<and>
           op_organisation_id op = gr_organisation_id g \<and>
           map_of (at_memberships db) (gr_membership_id g) = Some hm \<and> hm_enabled hm \<and> hm_user_id hm = gr_user_id g \<and>
           (hm_organisation_id hm, hm_project_id hm, hm_environment_id hm) =
             (gr_organisation_id g, gr_project_id g, gr_environment_id g)) \<and>
        (p_organisation_id p, p_project_id p, p_environment_id p, p_human_user_id p) =
          (gr_organisation_id g, gr_project_id g, gr_environment_id g, gr_user_id g) \<and>
        p_scopes p = [scope_inference_write] \<and> p_credential_kind p = ''human_agent_token'' \<and>
        p_allowed_model_aliases p = sort (filter (usable_alias db g) (gr_aliases g)) \<and> p_allowed_model_aliases p \<noteq> [] \<and>
        db' = touched (p_agent_token_id p) (ve_sql_now env) db
    | _ \<Rightarrow> False"
proof -
  have s: "agents_sound db" using assms(1) by (rule reachable_sound)
  from run obtain i tk g pr ms where
    t: "find (\<lambda>(_, tk). tk_hash tk = digest \<and> live_token (ve_sql_now env) db tk) (at_tokens db) = Some (i, tk)" and
    g: "map_of (at_grants db) (tk_grant_id tk) = Some g" and pr: "agent_principal db i tk g = Some pr" and
    ms: "effective_models db (gr_organisation_id g) (gr_project_id g) (gr_environment_id g) (gr_person_id g)
       (owns db (gr_organisation_id g) (gr_person_id g)) = Inr ms" and
    ne: "filter (\<lambda>a. a \<in> set (aliases_for_agent_models ms)) (gr_aliases g) \<noteq> []" and
    p: "p = agent_scoped (filter (\<lambda>a. a \<in> set (aliases_for_agent_models ms)) (gr_aliases g)) pr" and
    db': "db' = touched i (ve_sql_now env) db"
    by (rule authenticate_run)
  from s t have tk: "map_of (at_tokens db) i = Some tk" "tk_hash tk = digest" "live_token (ve_sql_now env) db tk"
    by (auto simp: agents_sound_def dest!: find_row)
  from tk(1) s have "token_sound db tk" by (auto simp: agents_sound_def dest: map_of_SomeD)
  moreover have "(\<lambda>a. a \<in> set (aliases_for_agent_models ms)) = usable_alias db g"
    using effective_aliases [OF ms] by (simp add: fun_eq_iff usable_alias_def)
  moreover from tk(3) g have "grant_membership db g" by (simp add: live_token_def)
  then have "\<exists>fi op hm. map_of (at_identities db) (gr_identity_id g) = Some fi \<and> fi_enabled fi \<and> fi_user_id fi = gr_user_id g \<and>
      map_of (at_users db) (gr_user_id g) = Some True \<and>
      map_of (at_people db) (gr_person_id g) = Some op \<and> op_enabled op \<and> op_user_id op = gr_user_id g \<and>
      op_organisation_id op = gr_organisation_id g \<and>
      map_of (at_memberships db) (gr_membership_id g) = Some hm \<and> hm_enabled hm \<and> hm_user_id hm = gr_user_id g \<and>
      (hm_organisation_id hm, hm_project_id hm, hm_environment_id hm) = (gr_organisation_id g, gr_project_id g, gr_environment_id g)"
    unfolding grant_membership_def by (auto split: option.splits)
  ultimately show ?thesis
    using tk g ne db' principal_fields [OF pr] by (auto simp: p agent_scoped_def live_token_def token_sound_def)
qed

lemma demo_authenticates:
  "(case fst (run_state (authenticate_human agent_demo_env (demo_token CHR ''a'')) minted_db) of
      Inl _ \<Rightarrow> False | Inr p \<Rightarrow> p_allowed_model_aliases p = [''fast''] \<and> p_agent_grant_id p = ''agra'' \<and> p_agent_token_id p = ''auta'')"
  by (simp add: authenticate_human_def transaction_def presented_token_def live_token_def load_effective_aliases_def load_effective_models_def
     minted_db_def minted_token_def demo_store_input_def minute_def)
    (simp add: grant_membership_def agent_principal_def demo_fields owns_def models_demo
      zero_principal_def aliases_for_agent_models_def agent_scoped_def amend_def)

theorem human_token_authorises_witness:
  "\<exists>p db'. run_state (authenticate_human agent_demo_env (demo_token CHR ''a'')) minted_db = (Inr p, db') \<and>
     p_allowed_model_aliases p = [''fast''] \<and> db' = touched ''auta'' 100 minted_db"
proof -
  from demo_authenticates obtain p db' where run: "run_state (authenticate_human agent_demo_env (demo_token CHR ''a'')) minted_db = (Inr p, db')"
    and p: "p_allowed_model_aliases p = [''fast'']" "p_agent_token_id p = ''auta''"
    by (cases "run_state (authenticate_human agent_demo_env (demo_token CHR ''a'')) minted_db") (auto split: sum.splits)
  from human_token_authorises [OF minted_reachable run] p run show ?thesis
    by (auto split: option.splits simp: agent_demo_env_def)
qed

section \<open>An idempotency key issues one credential\<close>

lemma record_identity:
  "membership_record identity db membership = Some r \<Longrightarrow> map_option fst (enabled_identity identity db) = Some (rec_identity_id r)"
  by (auto simp: membership_record_def split: option.splits if_splits)

lemma prepare_fields:
  "prepare_mint env identity i key = Inr input \<Longrightarrow>
     bounded_mint input \<and> sm_identity input = identity \<and> sm_key_digest input = me_sha env key"
  by (auto simp: prepare_mint_def Let_def mint_request_def bounded_mint_def split: sum.splits if_splits)

lemma mint_run:
  assumes "run_state (mint_agent_credential env input) db = (out, db')"
  shows "(isl out \<and> db' = db) \<or> run_state (mint_body env input) db = (Inr out, db')"
proof -
  from assms obtain x where x: "run_state (transaction env (mint_body env input)) db = (x, db')"
    and out: "out = (case x of Inl e \<Rightarrow> Inl e | Inr y \<Rightarrow> y)"
    by (auto simp: mint_agent_credential_def split: prod.splits sum.splits)
  show ?thesis
  proof (cases x)
    case (Inl e)
    with x out show ?thesis using transaction_error by fastforce
  next
    case (Inr y)
    with x out show ?thesis by (simp add: ran_transaction)
  qed
qed

lemma earlier_found:
  assumes s: "agents_sound db" and m: "map_of (at_mints db) k = Some m"
    and key: "mint_key m = (rec_identity_id r, fid_oauth_client_id (sm_identity input), sm_key_digest input)"
  shows "earlier_mint r input db = Some m"
  unfolding earlier_mint_def
proof (rule find_value_unique)
  show mem: "(k, m) \<in> set (at_mints db)" using m by (rule map_of_SomeD)
  show "mw_identity_id m = rec_identity_id r \<and> mw_client_id m = fid_oauth_client_id (sm_identity input) \<and>
      mw_key_digest m = sm_key_digest input" using key by (simp add: mint_key_def)
  fix k' m' assume m': "(k', m') \<in> set (at_mints db)" and "mw_identity_id m' = rec_identity_id r \<and>
      mw_client_id m' = fid_oauth_client_id (sm_identity input) \<and> mw_key_digest m' = sm_key_digest input"
  then have "(mint_key \<circ> snd) (k', m') = (mint_key \<circ> snd) (k, m)" using key by (simp add: mint_key_def)
  moreover have "inj_on (mint_key \<circ> snd) (set (at_mints db))" using s by (simp add: agents_sound_def distinct_map)
  ultimately have "(k', m') = (k, m)" using m' mem by (meson inj_onD)
  then show "m' = m" by simp
qed

text \<open>
  C37: Once a credential has been issued under an idempotency key, no later request of the same identity
  and client under that key, whatever happened in between, is issued another, nor is it answered with the
  first one, whose secret the store does not keep: it is refused. Either the refusal changes nothing, or
  it is \<open>response_unrecoverable\<close> and revokes the token that was issued first.
\<close>

theorem idempotency_key_issues_once:
  assumes "agents_reachable db" and prepared: "prepare_mint menv identity i key = Inr input"
    and first: "run_state (mint menv (postgres_agents env) identity i key) db = (Inr r, db1)"
    and later: "agent_step\<^sup>*\<^sup>* db1 db2"
    and sha: "me_sha menv' = me_sha menv" and client: "fid_oauth_client_id identity' = fid_oauth_client_id identity"
    and same: "map_option fst (enabled_identity identity' db2) = map_option fst (enabled_identity identity db)"
    and second: "run_state (mint menv' (postgres_agents env') identity' i' key) db2 = (out, db3)"
  shows "case out of Inr _ \<Rightarrow> False
    | Inl e \<Rightarrow> db3 = db2 \<or> e = err_response_unrecoverable \<and>
        (case map_of (at_tokens db3) (sm_token_id input) of None \<Rightarrow> False | Some tk \<Rightarrow> tk_revoked_at tk \<noteq> None)"
proof -
  have s: "agents_sound db" using assms(1) by (rule reachable_sound)
  note input = prepare_fields [OF prepared]
  from first prepared have "run_state (mint_agent_credential env input) db = (Inr r, db1)"
    by (simp add: mint_def postgres_agents_def)
  from mint_run [OF this] have "run_state (mint_body env input) db = (Inr (Inr r), db1)" by simp
  then obtain rc ms where rc: "membership_record identity db (sm_membership_id input) = Some rc"
    and "case earlier_mint rc input db of
           Some m \<Rightarrow> mw_request_hash m = sm_request_hash input \<and> (Inr r :: err + mint_result) = Inl err_response_unrecoverable \<and>
             db1 = replayed input m db
         | None \<Rightarrow> alias_subset (sm_model_aliases input) (aliases_for_agent_models ms) \<and>
             (\<exists>grant. issued rc input grant db db1 \<and> (Inr r :: err + mint_result) = Inr
               \<lparr>mt_context = context_of_record rc ms, mt_grant_id = grant, mt_access_token = key_token (sm_credential input),
                mt_expires_at = sm_token_expires_at input, mt_model_aliases = sm_model_aliases input\<rparr>)"
    using input by (elim mint_body_run) auto
  then obtain grant where "issued rc input grant db db1" by (auto split: option.splits)
  from issued_sound [OF s conjunct1 [OF input] this] obtain m where s1: "agents_sound db1"
    and m: "map_of (at_mints db1) (sm_mint_id input) = Some m" "mw_token_id m = sm_token_id input"
      "mint_key m = (rec_identity_id rc, fid_oauth_client_id identity, me_sha menv key)"
    using input by auto
  from later s1 have s2: "agents_sound db2" and g: "agents_grow db1 db2"
    using agent_steps_evolve by (auto simp: agents_evolve_def)
  from g m obtain m' where m': "map_of (at_mints db2) (sm_mint_id input) = Some m'" "mw_token_id m' = sm_token_id input"
      "mint_key m' = (rec_identity_id rc, fid_oauth_client_id identity, me_sha menv key)"
    unfolding agents_grow_def by (metis rows_growD mint_grows_def)
  show ?thesis
  proof (cases "prepare_mint menv' identity' i' key")
    case (Inl e)
    with second show ?thesis by (auto simp: mint_def)
  next
    case (Inr input')
    with second have "run_state (mint_agent_credential env' input') db2 = (out, db3)"
      by (simp add: mint_def postgres_agents_def)
    from mint_run [OF this] consider "isl out" "db3 = db2" | "run_state (mint_body env' input') db2 = (Inr out, db3)" by blast
    then show ?thesis
    proof cases
      case 1
      then show ?thesis by (cases out) auto
    next
      case 2
      then obtain rc' ms' where rc': "membership_record identity' db2 (sm_membership_id input') = Some rc'"
        and "case earlier_mint rc' input' db2 of
               Some m \<Rightarrow> mw_request_hash m = sm_request_hash input' \<and> out = Inl err_response_unrecoverable \<and> db3 = replayed input' m db2
             | None \<Rightarrow> alias_subset (sm_model_aliases input') (aliases_for_agent_models ms') \<and>
                 (\<exists>grant. issued rc' input' grant db2 db3 \<and> out = Inr
                   \<lparr>mt_context = context_of_record rc' ms', mt_grant_id = grant, mt_access_token = key_token (sm_credential input'),
                    mt_expires_at = sm_token_expires_at input', mt_model_aliases = sm_model_aliases input'\<rparr>)"
        using prepare_fields [OF Inr] by (elim mint_body_run) auto
      moreover have e: "earlier_mint rc' input' db2 = Some m'"
        using s2 m'(1)
      proof (rule earlier_found)
        have "rec_identity_id rc' = rec_identity_id rc"
          using record_identity [OF rc] record_identity [OF rc'] same by (metis option.inject)
        then show "mint_key m' = (rec_identity_id rc', fid_oauth_client_id (sm_identity input'), sm_key_digest input')"
          using m'(3) prepare_fields [OF Inr] sha client by simp
      qed
      ultimately show ?thesis using replayed_sound [OF s2 e] m'(2) by auto
    qed
  qed
qed

theorem idempotency_key_issues_once_witness:
  "\<exists>db3 tk. run_state (mint (demo_mint_env CHR ''b'') (postgres_agents agent_demo_env) demo_identity demo_mint_input (demo_key CHR ''a'')) minted_db =
       (Inl err_response_unrecoverable, db3) \<and> map_of (at_tokens db3) ''auta'' = Some tk \<and> tk_revoked_at tk \<noteq> None"
proof -
  let ?run = "run_state (mint (demo_mint_env CHR ''b'') (postgres_agents agent_demo_env) demo_identity demo_mint_input (demo_key CHR ''a'')) minted_db"
  obtain db3 where run: "?run = (Inl err_response_unrecoverable, db3)" and changed: "at_mints db3 \<noteq> at_mints minted_db"
    by (simp add: mint_def prepare_demo postgres_agents_def demo_run membership_demo models_demo demo_store_input_def minted_db_def)
      (simp add: demo_run earlier_mint_def revoke_tokens_def replay_mints_def map_values_def demo_identity_def)
  obtain r where first: "run_state (mint (demo_mint_env CHR ''a'') (postgres_agents agent_demo_env) demo_identity demo_mint_input (demo_key CHR ''a''))
      agent_demo_db = (Inr r, minted_db)"
    using minted_db_run by blast
  have "agents_reachable agent_demo_db" by (rule agents_reachable.started [OF no_agents_demo])
  moreover have "me_sha (demo_mint_env CHR ''b'') = me_sha (demo_mint_env CHR ''a'')" by (simp add: demo_mint_env_def)
  moreover have "map_option fst (enabled_identity demo_identity minted_db) = map_option fst (enabled_identity demo_identity agent_demo_db)"
    by (simp add: enabled_identity_def minted_db_def)
  ultimately show ?thesis
    using idempotency_key_issues_once [OF _ prepare_demo first rtranclp.rtrancl_refl _ _ _ run] run changed
    by (auto simp: demo_store_input_def split: option.splits)
qed

section \<open>Offboarding\<close>

text \<open>What the trigger does to one grant and the tokens under it.\<close>

lemma clear_enabled_agents [simp]:
  "at_grants (clear_enabled w i db) = at_grants db" "at_tokens (clear_enabled w i db) = at_tokens db"
  by (simp_all add: clear_enabled_def split: watched.splits)

lemma disable_grants:
  assumes "watched_enabled db w i" and "map_of (at_grants db) k = Some g" and "grant_of w i g"
  shows "map_of (at_grants (disable now w i db)) k = Some (disabled_grant now g)"
  using assms by (simp add: disable_def revoke_authority_def Let_def go_map_simps)

lemma disable_tokens:
  assumes "watched_enabled db w i" and "map_of (at_tokens db) j = Some tk"
    and "map_of (at_grants db) (tk_grant_id tk) = Some g" and "grant_of w i g"
  shows "\<exists>tk'. map_of (at_tokens (disable now w i db)) j = Some tk' \<and> tk_grant_id tk' = tk_grant_id tk \<and> tk_revoked_at tk' \<noteq> None"
proof -
  have same: "grant_of w i (disabled_grant now g) = grant_of w i g"
    by (simp add: grant_of_def disabled_grant_def split: watched.splits)
  have "map_of (at_tokens (disable now w i db)) j = Some (revoked_token now tk)"
    using assms same
    by (simp add: disable_def revoke_authority_def Let_def revoke_tokens_rows go_map_simps)
  then show ?thesis by (simp add: revoked_token_def split: option.splits)
qed

text \<open>
  C38: Once a user, a person or an identity is disabled, no token issued before authenticates again,
  whatever happens later, a renewed enabling included; and a grant of theirs can authorise again only if
  its client had logged out before. (A grant that was open or revoked by policy stays closed for good.)
\<close>

theorem offboarding_closes_grants:
  assumes "agents_reachable db" and w: "watched_enabled db w i"
    and later: "agent_step\<^sup>*\<^sup>* (disable now w i db) db2"
    and run: "run_state (authenticate_human env digest) db2 = (Inr p, db3)"
    and g: "map_of (at_grants db) (p_agent_grant_id p) = Some g" "grant_of w i g"
  shows "gr_reason g = Some ''client_logout'' \<and> map_of (at_tokens db) (p_agent_token_id p) = None"
proof
  let ?db1 = "disable now w i db"
  have s: "agents_sound db" using assms(1) by (rule reachable_sound)
  then have s1: "agents_sound ?db1" and g1: "agents_grow db ?db1" using disable_keeps by (auto simp: agents_evolve_def)
  with later have s2: "agents_sound db2" and g2: "agents_grow ?db1 db2" using agent_steps_evolve by (auto simp: agents_evolve_def)
  from run obtain j tk g' pr ms where
    t: "find (\<lambda>(_, tk). tk_hash tk = digest \<and> live_token (ve_sql_now env) db2 tk) (at_tokens db2) = Some (j, tk)" and
    g': "map_of (at_grants db2) (tk_grant_id tk) = Some g'" and pr: "agent_principal db2 j tk g' = Some pr" and
    p: "p = agent_scoped (filter (\<lambda>a. a \<in> set (aliases_for_agent_models ms)) (gr_aliases g')) pr"
    by (rule authenticate_run)
  from s2 t have tk: "map_of (at_tokens db2) j = Some tk" and live: "live_token (ve_sql_now env) db2 tk"
    by (auto simp: agents_sound_def dest!: find_row)
  have ids: "p_agent_grant_id p = tk_grant_id tk" "p_agent_token_id p = j"
    using principal_fields [OF pr] by (simp_all add: p agent_scoped_def)
  have open_grant: "gr_revoked_at g' = None" and open_token: "tk_revoked_at tk = None"
    using live g' by (auto simp: live_token_def)
  show "gr_reason g = Some ''client_logout''"
  proof (rule ccontr)
    assume reason: "gr_reason g \<noteq> Some ''client_logout''"
    from disable_grants [OF w g] have d: "map_of (at_grants ?db1) (tk_grant_id tk) = Some (disabled_grant now g)" by (simp add: ids)
    have "gr_revoked_at (disabled_grant now g) \<noteq> None" by (simp add: disabled_grant_def split: option.splits)
    moreover have "\<not> renewable (disabled_grant now g)" using reason
      by (auto simp: renewable_def disabled_grant_def split: option.splits)
    moreover from g2 d g' have "grant_grows (disabled_grant now g) g'"
      unfolding agents_grow_def by (metis rows_growD option.inject)
    ultimately show False using open_grant by (simp add: grant_grows_def)
  qed
  show "map_of (at_tokens db) (p_agent_token_id p) = None"
  proof (rule ccontr)
    assume "map_of (at_tokens db) (p_agent_token_id p) \<noteq> None"
    then obtain tk0 where tk0: "map_of (at_tokens db) j = Some tk0" by (auto simp: ids)
    from g1 g2 have "agents_grow db db2" by (rule agents_grow_trans)
    with tk0 tk have "tk_grant_id tk0 = tk_grant_id tk"
      unfolding agents_grow_def by (metis rows_growD token_grows_def option.inject)
    with disable_tokens [OF w tk0 _ g(2), of now] g(1) obtain tk1 where
      "map_of (at_tokens ?db1) j = Some tk1" "tk_revoked_at tk1 \<noteq> None" by (auto simp: ids)
    with g2 tk have "tk_revoked_at tk \<noteq> None"
      unfolding agents_grow_def by (metis rows_growD token_grows_def option.inject)
    with open_token show False by simp
  qed
qed

text \<open>The example: log out, disable, enable again, and mint under a new key.\<close>

definition logged_out_db :: agent_db where
  "logged_out_db = minted_db
     \<lparr>at_grants := map_values (logged_out 50) (at_grants minted_db), at_tokens := map_values (revoked_token 50) (at_tokens minted_db)\<rparr>"

definition returned_db :: agent_db where
  "returned_db = disable 60 Users ''usr_1'' logged_out_db\<lparr>at_users := [(''usr_1'', True)]\<rparr>"

definition reminted_db :: agent_db where
  "reminted_db = snd (run_state (mint_agent_credential agent_demo_env (demo_store_input CHR ''b'')) returned_db)"

lemma logged_out_run:
  "run_state (revoke_grant (demo_mint_env CHR ''a'') (postgres_agents agent_demo_env) demo_identity ''hm_1'' demo_client) minted_db =
     (None, logged_out_db)"
  by (simp add: revoke_grant_def demo_strings demo_client_valid postgres_agents_def demo_mint_env_def revoke_agent_grant_def
      transaction_def as_error_def)
    (simp add: live_grant_def minted_db_def demo_fields demo_identity_def minted_token_def demo_store_input_def logged_out_db_def
      amend_def map_values_def revoke_tokens_def)

lemma returned_db_eq:
  "returned_db = with_agents (at_grants logged_out_db) (at_tokens logged_out_db) (at_mints minted_db) agent_demo_db"
  by (simp add: returned_db_def disable_def watched_enabled_def logged_out_db_def minted_db_def demo_fields clear_enabled_def
      revoke_authority_def Let_def revoke_tokens_rows map_rows_def map_values_def logged_out_def disabled_grant_def grant_of_def
      revoked_token_def minted_token_def demo_store_input_def amend_def agent_demo_db_def)

lemma demo_tokens_differ: "demo_token CHR ''b'' \<noteq> demo_token CHR ''a''" "demo_key CHR ''b'' \<noteq> demo_key CHR ''a''"
  "hex_encode (replicate 8 CHR ''b'') \<noteq> hex_encode (replicate 8 CHR ''a'')"
proof -
  show "hex_encode (replicate 8 CHR ''b'') \<noteq> hex_encode (replicate 8 CHR ''a'')" by (simp add: hex_encode_inject)
  show "demo_token CHR ''b'' \<noteq> demo_token CHR ''a''"
    by (simp add: demo_token_def hex_encode_inject)
  show "demo_key CHR ''b'' \<noteq> demo_key CHR ''a''"
    using b64_decode_encode [of "replicate 16 CHR ''b''"] b64_decode_encode [of "replicate 16 CHR ''a''"]
    by (auto simp: demo_key_def)
qed

definition remint :: "(err + mint_result) \<times> agent_db" where
  "remint = run_state (mint_agent_credential agent_demo_env (demo_store_input CHR ''b'')) returned_db"

lemma remint_tables:
  "isl (fst remint) = False \<and> reminted_db = with_agents (at_grants minted_db)
     [(''auta'', revoked_token 50 (minted_token (demo_store_input CHR ''a'') ''agra'' 1)\<lparr>tk_replaced_by := Some ''autb''\<rparr>),
      (''autb'', minted_token (demo_store_input CHR ''b'') ''agra'' 2)] (at_mints reminted_db) agent_demo_db"
  by (simp add: remint_def demo_run membership_demo models_demo demo_store_input_def returned_db_eq
      logged_out_db_def minted_db_def reminted_db_def)
    (simp add: demo_run earlier_mint_def alias_subset_def aliases_for_agent_models_def
     binding_grant_def insert_token_def insert_mint_def revoke_tokens_def link_replaced_def next_generation_def minted_token_def
     map_values_def logged_out_def revoked_token_def renewable_def renewed_grant_def amend_def
     demo_store_input_def demo_identity_def demo_fields demo_tokens_differ
     demo_tokens_differ [THEN not_sym])

lemma remint_run:
  "\<exists>r. run_state (mint (demo_mint_env CHR ''b'') (postgres_agents agent_demo_env) demo_identity demo_mint_input (demo_key CHR ''b'')) returned_db =
     (r, reminted_db)"
  by (simp add: mint_def prepare_demo postgres_agents_def reminted_db_def demo_store_input_def)
    (metis surjective_pairing)

lemmas reminted_tables = remint_tables [THEN conjunct2]

lemma reauthenticates:
  "case fst (run_state (authenticate_human agent_demo_env (demo_token CHR ''b'')) reminted_db) of
     Inl _ \<Rightarrow> False | Inr p \<Rightarrow> p_agent_grant_id p = ''agra'' \<and> p_agent_token_id p = ''autb''"
  by (subst reminted_tables, simp add: authenticate_human_def transaction_def presented_token_def live_token_def load_effective_aliases_def load_effective_models_def
     minted_db_def revoked_token_def minted_token_def demo_store_input_def minute_def demo_tokens_differ demo_tokens_differ [THEN not_sym])
    (simp add: grant_membership_def agent_principal_def demo_fields owns_def models_demo
      zero_principal_def aliases_for_agent_models_def agent_scoped_def amend_def)

theorem offboarding_closes_grants_witness:
  "\<exists>g p db3. map_of (at_grants logged_out_db) ''agra'' = Some g \<and> gr_reason g = Some ''client_logout'' \<and>
     run_state (authenticate_human agent_demo_env (demo_token CHR ''b'')) reminted_db = (Inr p, db3) \<and>
     p_agent_grant_id p = ''agra'' \<and> map_of (at_tokens logged_out_db) (p_agent_token_id p) = None"
proof -
  have reach: "agents_reachable logged_out_db"
    by (rule agents_reachable.stepped [OF minted_reachable agent_step.revoked [OF logged_out_run]])
  have w: "watched_enabled logged_out_db Users ''usr_1''"
    by (simp add: watched_enabled_def logged_out_db_def minted_db_def demo_fields)
  have "agent_step (disable 60 Users ''usr_1'' logged_out_db) returned_db"
    by (rule agent_step.elsewhere) (simp_all add: returned_db_def)
  moreover have "agent_step returned_db reminted_db" using remint_run by (metis agent_step.minted)
  ultimately have later: "agent_step\<^sup>*\<^sup>* (disable 60 Users ''usr_1'' logged_out_db) reminted_db" by simp
  obtain g where g: "map_of (at_grants logged_out_db) ''agra'' = Some g" "grant_of Users ''usr_1'' g"
    by (simp add: logged_out_db_def minted_db_def map_values_def logged_out_def grant_of_def)
  from reauthenticates obtain p db3 where run: "run_state (authenticate_human agent_demo_env (demo_token CHR ''b'')) reminted_db = (Inr p, db3)"
    and p: "p_agent_grant_id p = ''agra''"
    by (cases "run_state (authenticate_human agent_demo_env (demo_token CHR ''b'')) reminted_db") (auto split: sum.splits)
  from offboarding_closes_grants [OF reach w later run _ g(2)] g(1) p run show ?thesis by auto
qed

end
