(* ===== verification/Pg_Ledger.thy ===== *)
theory Pg_Ledger
  imports Agent_Steps Store_Interface
begin

text \<open>
  \<open>internal/store/postgres/store.go\<close>: the request ledger, routes and keys in PostgreSQL, with the triggers
  of \<open>migrations/0002\<close> and \<open>0003\<close> that guard them, as functions of the tables. The tables extend those of
  \<open>Agent_Store\<close>, so that one database answers for both kinds of credential. Instants are stored as they
  are given; durations are stored in milliseconds, as the code converts them. The error that
  \<open>mapWriteError\<close> wraps is the error.
\<close>

section \<open>Tables\<close>

record pg_key =
  pk_key :: api_key
  pk_expires_at :: "time option"
  pk_last_used_at :: "time option"

text \<open>
  A ledger row has either the three columns of a service account's key or the four of a person's agent;
  the others are NULL (\<open>inference_requests_actor_0014_check\<close>). In \<open>lr_request\<close> the NULLs that the code
  reads with COALESCE are empty strings and zeros, and the three columns of the key are empty.
\<close>

record request_row =
  lr_request :: inference_request
  lr_service :: "(string \<times> string \<times> string) option"
  lr_human :: "(string \<times> string \<times> string \<times> string) option"

record pg_db = agent_db +
  pg_service_accounts :: "(string, service_account) go_map"
  pg_keys :: "(string, pg_key) go_map"
  pg_requests :: "(string, request_row) go_map"
  pg_attempts :: "(string, provider_attempt) go_map"

type_synonym pg_env = "pg_db sql_env"

definition on_agents :: "(agent_db, 'a) state \<Rightarrow> (pg_db, 'a) state" where
  "on_agents m = State (\<lambda>db.
     case run_state m (agent_db.truncate db) of (r, tables) \<Rightarrow> (r, agent_db.extend tables (agent_db.more db)))"

section \<open>Keys\<close>

definition key_usable :: "time \<Rightarrow> string \<Rightarrow> pg_key \<Rightarrow> bool" where
  "key_usable now digest k \<longleftrightarrow>
     ak_digest (pk_key k) = digest \<and> ak_revoked_at (pk_key k) = None \<and>
     (case pk_expires_at k of None \<Rightarrow> True | Some t \<Rightarrow> now < t)"

definition key_principal :: "pg_db \<Rightarrow> pg_key \<Rightarrow> principal option" where
  "key_principal db k =
     (case map_of (pg_service_accounts db) (ak_service_account_id (pk_key k)) of
        None \<Rightarrow> None
      | Some sa \<Rightarrow>
          (case (map_of (at_organisations db) (sa_organisation_id sa), map_of (at_projects db) (sa_project_id sa),
                 map_of (at_environments db) (sa_environment_id sa)) of
             (Some org, Some project, Some environment) \<Rightarrow> Some (zero_principal
               \<lparr>p_credential_kind := ''service_account_key'', p_organisation_id := sa_organisation_id sa,
                p_organisation_name := nr_name org, p_organisation_slug := nr_slug org, p_project_id := sa_project_id sa,
                p_project_name := nr_name project, p_project_slug := nr_slug project,
                p_environment_id := sa_environment_id sa, p_environment_name := nr_name environment,
                p_environment_slug := nr_slug environment, p_service_account_id := sa_id sa, p_service_account := sa_name sa,
                p_api_key_id := ak_id (pk_key k), p_key_prefix := ak_prefix (pk_key k), p_scopes := ak_scopes (pk_key k)\<rparr>)
           | _ \<Rightarrow> None))"

definition use_key :: "time \<Rightarrow> string \<Rightarrow> pg_db \<Rightarrow> principal option \<times> pg_db" where
  "use_key now digest db =
     (case find (\<lambda>(_, k). key_usable now digest k \<and> key_principal db k \<noteq> None) (pg_keys db) of
        None \<Rightarrow> (None, db)
      | Some (i, k) \<Rightarrow> (key_principal db k, db\<lparr>pg_keys := amend i (pk_last_used_at_update (\<lambda>_. Some now)) (pg_keys db)\<rparr>))"

definition pg_authenticate :: "pg_env \<Rightarrow> string \<Rightarrow> (pg_db, err + principal) state" where
  "pg_authenticate env digest =
     or_return (returning env ''authenticate API key'' (use_key (ve_sql_now env) digest)) (\<lambda>found.
       case found of None \<Rightarrow> fails ErrUnauthenticated | Some p \<Rightarrow> ok p)"

section \<open>Routes\<close>

definition joined_route :: "pg_db \<Rightarrow> stored_route \<Rightarrow> route option" where
  "joined_route db r =
     (case (map_of (at_models db) (sr_model_id r), map_of (at_targets db) (sr_target_id r)) of
        (Some m, Some t) \<Rightarrow> Some (materialise_route r m t)
      | _ \<Rightarrow> None)"

definition stored_tenant :: "stored_route \<Rightarrow> tenant" where
  "stored_tenant r = (sr_organisation_id r, sr_project_id r, sr_environment_id r)"

definition named_route :: "principal \<Rightarrow> string \<Rightarrow> pg_db \<Rightarrow> string option" where
  "named_route pr name db = map_option fst (find (\<lambda>(_, r). stored_tenant r = tenant_of pr \<and>
     (case map_of (at_models db) (sr_model_id r) of None \<Rightarrow> False | Some m \<Rightarrow> mdl_alias m = name \<and> mdl_enabled m)) (at_routes db))"

definition route_of_id :: "principal \<Rightarrow> string \<Rightarrow> pg_db \<Rightarrow> route option" where
  "route_of_id pr i db =
     (case map_of (at_routes db) i of
        None \<Rightarrow> None
      | Some r \<Rightarrow> if stored_tenant r = tenant_of pr then joined_route db r else None)"

definition usable_target :: "principal \<Rightarrow> route \<Rightarrow> err + route" where
  "usable_target pr rt =
     (if \<not> r_enabled rt \<or> \<not> t_enabled (r_target rt) \<or> t_health_status (r_target rt) = ''unavailable'' then Inl ErrUnavailable
      else if t_capacity_mode (r_target rt) = ''dedicated'' \<and> t_owner_organisation_id (r_target rt) \<noteq> p_organisation_id pr
      then Inl ErrForbidden else Inr rt)"

definition pg_resolve_route :: "pg_env \<Rightarrow> principal \<Rightarrow> string \<Rightarrow> (pg_db, err + route) state" where
  "pg_resolve_route env pr name =
     (if \<not> allows_model pr name then fails ErrForbidden
      else or_return (transaction env
        (or_return (query env ''lock route'' (named_route pr name)) (\<lambda>found.
           case found of
             None \<Rightarrow> fails ErrNotFound
           | Some i \<Rightarrow>
               or_return (query env ''resolve route'' (route_of_id pr i)) (\<lambda>joined.
                 case joined of None \<Rightarrow> fails ErrNotFound | Some rt \<Rightarrow> commit env rt))))
        (\<lambda>rt. State_Monad.return (usable_target pr rt)))"

definition tenant_routes :: "principal \<Rightarrow> pg_db \<Rightarrow> route list" where
  "tenant_routes pr db = sort_key r_model_alias
     (List.map_filter (\<lambda>(_, r). if stored_tenant r = tenant_of pr then joined_route db r else None) (at_routes db))"

definition pg_list_routes :: "pg_env \<Rightarrow> principal \<Rightarrow> (pg_db, err + route list) state" where
  "pg_list_routes env pr = query env ''list routes'' (tenant_routes pr)"

definition set_health :: "string \<Rightarrow> string \<Rightarrow> time \<Rightarrow> bool \<Rightarrow> pg_db \<Rightarrow> err + pg_db option" where
  "set_health i status checked_at successful db = Inr
     (case map_of (at_targets db) i of
        None \<Rightarrow> None
      | Some t \<Rightarrow> Some (db\<lparr>at_targets := amend i (\<lambda>t. t\<lparr>t_health_status := status, t_last_health_check_at := Some checked_at,
          t_last_success_at := (if successful then Some checked_at else t_last_success_at t)\<rparr>) (at_targets db)\<rparr>))"

definition pg_update_target_health :: "pg_env \<Rightarrow> string \<Rightarrow> string \<Rightarrow> time \<Rightarrow> bool \<Rightarrow> (pg_db, err option) state" where
  "pg_update_target_health env i status checked_at successful =
     as_error (update_one env ''update target health'' (set_health i status checked_at successful))"

section \<open>Requests\<close>

definition service_actor :: "pg_db \<Rightarrow> principal \<Rightarrow> bool" where
  "service_actor db pr \<longleftrightarrow>
     (case map_of (pg_keys db) (p_api_key_id pr) of
        None \<Rightarrow> False
      | Some k \<Rightarrow> ak_service_account_id (pk_key k) = p_service_account_id pr \<and> ak_prefix (pk_key k) = p_key_prefix pr) \<and>
     (case map_of (pg_service_accounts db) (p_service_account_id pr) of
        None \<Rightarrow> False
      | Some sa \<Rightarrow> (sa_organisation_id sa, sa_project_id sa, sa_environment_id sa) = tenant_of pr)"

definition human_actor :: "pg_db \<Rightarrow> principal \<Rightarrow> bool" where
  "human_actor db pr \<longleftrightarrow>
     map_of (at_grants db) (p_agent_grant_id pr) \<noteq> None \<and> map_of (at_tokens db) (p_agent_token_id pr) \<noteq> None \<and>
     (case map_of (at_memberships db) (p_human_membership_id pr) of None \<Rightarrow> False | Some hm \<Rightarrow> hm_user_id hm = p_human_user_id pr)"

definition is_human :: "principal \<Rightarrow> bool" where
  "is_human pr \<longleftrightarrow> p_credential_kind pr = ''human_agent_token''"

definition started_row :: "request_start \<Rightarrow> request_row" where
  "started_row start =
     (let pr = rs_principal start
      in \<lparr>lr_request = (new_request start)\<lparr>ir_service_account_id := [], ir_api_key_id := [], ir_key_prefix := []\<rparr>,
          lr_service = (if is_human pr then None else Some (p_service_account_id pr, p_api_key_id pr, p_key_prefix pr)),
          lr_human = (if is_human pr then Some (p_human_user_id pr, p_human_membership_id pr, p_agent_grant_id pr, p_agent_token_id pr)
            else None)\<rparr>)"

definition insert_request :: "request_start \<Rightarrow> pg_db \<Rightarrow> err + pg_db" where
  "insert_request start db =
     (if map_of (pg_requests db) (rs_id start) \<noteq> None then Inl unique_violation
      else if \<not> (if is_human (rs_principal start) then human_actor db (rs_principal start) else service_actor db (rs_principal start))
      then Inl foreign_key_violation
      else Inr (db\<lparr>pg_requests := AList.update (rs_id start) (started_row start) (pg_requests db)\<rparr>))"

definition pg_create_inference_request :: "pg_env \<Rightarrow> request_start \<Rightarrow> (pg_db, err option) state" where
  "pg_create_inference_request env start = as_error (exec env ''create inference request'' (insert_request start))"

definition put_row :: "string \<Rightarrow> inference_request \<Rightarrow> pg_db \<Rightarrow> pg_db" where
  "put_row i q db = db\<lparr>pg_requests := amend i (lr_request_update (\<lambda>_. q)) (pg_requests db)\<rparr>"

definition attachable :: "pg_db \<Rightarrow> inference_request \<Rightarrow> stored_route \<Rightarrow> bool" where
  "attachable db q r \<longleftrightarrow>
     ir_status q = ''in_progress'' \<and> ir_route_id q = [] \<and> ir_attempt_count q = 0 \<and> stored_tenant r = request_tenant q \<and>
     (case map_of (at_models db) (sr_model_id r) of None \<Rightarrow> False | Some m \<Rightarrow> mdl_alias m = ir_model_alias q)"

definition attach_route :: "string \<Rightarrow> string \<Rightarrow> pg_db \<Rightarrow> err + pg_db option" where
  "attach_route rid route_id db = Inr
     (case (map_of (pg_requests db) rid, map_of (at_routes db) route_id) of
        (Some row, Some r) \<Rightarrow>
          if attachable db (lr_request row) r
          then Some (put_row rid ((lr_request row)\<lparr>ir_route_id := route_id, ir_bound_target_id := sr_target_id r,
            ir_bound_model_id := sr_model_id r, ir_route_binding_generation := sr_binding_generation r\<rparr>) db)
          else None
      | _ \<Rightarrow> None)"

definition pg_set_inference_request_route :: "pg_env \<Rightarrow> string \<Rightarrow> string \<Rightarrow> (pg_db, err option) state" where
  "pg_set_inference_request_route env rid route_id =
     as_error (update_one env ''attach inference route'' (attach_route rid route_id))"

definition whole_milliseconds :: "duration \<Rightarrow> int" where
  "whole_milliseconds d = (if d < 0 then 0 else d div 1000000)"

definition stored_duration :: "duration \<Rightarrow> duration" where
  "stored_duration d = whole_milliseconds d * 1000000"

definition request_attempts :: "string \<Rightarrow> pg_db \<Rightarrow> provider_attempt list" where
  "request_attempts rid db = filter (\<lambda>a. pa_inference_request_id a = rid) (map snd (pg_attempts db))"

text \<open>The lifecycle trigger counts the attempts of a request that completes.\<close>

definition finish_row :: "request_finish \<Rightarrow> pg_db \<Rightarrow> err + pg_db option" where
  "finish_row fin db =
     (case map_of (pg_requests db) (rf_id fin) of
        None \<Rightarrow> Inr None
      | Some row \<Rightarrow>
          let q = lr_request row; attempts = request_attempts (rf_id fin) db
          in if ir_status q \<noteq> ''in_progress'' then Inr None
             else if rf_status fin \<noteq> ''in_progress'' \<and>
               (ir_attempt_count q \<noteq> int (length attempts) \<or> list_ex (\<lambda>a. pa_status a = ''in_progress'') attempts)
             then Inl check_violation
             else Inr (Some (put_row (rf_id fin)
               (finish_request (fin\<lparr>rf_duration := stored_duration (rf_duration fin)\<rparr>) q) db)))"

definition pg_complete_inference_request :: "pg_env \<Rightarrow> request_finish \<Rightarrow> (pg_db, err option) state" where
  "pg_complete_inference_request env fin = as_error (update_one env ''complete inference request'' (finish_row fin))"

section \<open>Attempts\<close>

definition count_attempt :: "string \<Rightarrow> pg_db \<Rightarrow> err + pg_db option" where
  "count_attempt rid db = Inr
     (case map_of (pg_requests db) rid of
        None \<Rightarrow> None
      | Some row \<Rightarrow>
          if ir_status (lr_request row) \<noteq> ''in_progress'' then None
          else Some (put_row rid ((lr_request row)\<lparr>ir_attempt_count := ir_attempt_count (lr_request row) + 1\<rparr>) db))"

text \<open>The triggers that guard a new attempt, on the row counted just before.\<close>

definition attempt_allowed :: "attempt_start \<Rightarrow> pg_db \<Rightarrow> bool" where
  "attempt_allowed start db \<longleftrightarrow>
     (case map_of (pg_requests db) (as_inference_request_id start) of
        None \<Rightarrow> False
      | Some row \<Rightarrow>
          let q = lr_request row; existing = int (length (request_attempts (as_inference_request_id start) db))
          in ir_status q = ''in_progress'' \<and> ir_started_at q \<le> as_started_at start \<and>
             as_attempt_number start = existing + 1 \<and> ir_attempt_count q = existing + 1 \<and>
             ir_bound_target_id q = as_target_id start \<and> ir_bound_target_id q \<noteq> [] \<and>
             (case map_of (at_routes db) (ir_route_id q) of
                None \<Rightarrow> False
              | Some r \<Rightarrow> sr_target_id r = as_target_id start \<and>
                  (case map_of (at_targets db) (sr_target_id r) of
                     None \<Rightarrow> False | Some t \<Rightarrow> as_attempt_number start \<le> t_max_attempts t)))"

definition insert_attempt :: "attempt_start \<Rightarrow> pg_db \<Rightarrow> err + pg_db" where
  "insert_attempt start db =
     (if map_of (pg_attempts db) (as_id start) \<noteq> None then Inl unique_violation
      else if \<not> attempt_allowed start db then Inl check_violation
      else Inr (db\<lparr>pg_attempts := AList.update (as_id start) (new_attempt start) (pg_attempts db)\<rparr>))"

definition pg_create_provider_attempt :: "pg_env \<Rightarrow> attempt_start \<Rightarrow> (pg_db, err option) state" where
  "pg_create_provider_attempt env start = as_error (transaction env
     (or_return (update_one env ''increment attempt count'' (count_attempt (as_inference_request_id start))) (\<lambda>_.
      or_return (exec env ''create provider attempt'' (insert_attempt start)) (\<lambda>_.
      commit env ()))))"

definition finish_attempt_row :: "attempt_finish \<Rightarrow> pg_db \<Rightarrow> err + pg_db option" where
  "finish_attempt_row fin db =
     (case map_of (pg_attempts db) (af_id fin) of
        None \<Rightarrow> Inr None
      | Some a \<Rightarrow>
          if pa_status a \<noteq> ''in_progress'' then Inr None
          else if af_status fin \<noteq> ''in_progress'' \<and>
            (case map_of (pg_requests db) (pa_inference_request_id a) of
               None \<Rightarrow> True | Some row \<Rightarrow> ir_status (lr_request row) \<noteq> ''in_progress'')
          then Inl check_violation
          else Inr (Some (db\<lparr>pg_attempts := amend (af_id fin)
            (finish_attempt (fin\<lparr>af_duration := stored_duration (af_duration fin)\<rparr>)) (pg_attempts db)\<rparr>)))"

definition pg_complete_provider_attempt :: "pg_env \<Rightarrow> attempt_finish \<Rightarrow> (pg_db, err option) state" where
  "pg_complete_provider_attempt env fin = as_error (update_one env ''complete provider attempt'' (finish_attempt_row fin))"

section \<open>Reading requests\<close>

text \<open>
  The three columns of the key are scanned into strings, which \<open>database/sql\<close> refuses for NULL.
\<close>

definition scan_request :: "request_row \<Rightarrow> err + inference_request" where
  "scan_request row =
     (case lr_service row of
        None \<Rightarrow> Inl err_scan_null
      | Some (account, key, prefix) \<Rightarrow>
          Inr ((lr_request row)\<lparr>ir_service_account_id := account, ir_api_key_id := key, ir_key_prefix := prefix\<rparr>))"

fun scan_rows :: "request_row list \<Rightarrow> err + inference_request list" where
  "scan_rows [] = Inr []"
| "scan_rows (row # rows) =
     (case scan_request row of
        Inl e \<Rightarrow> Inl e
      | Inr q \<Rightarrow> (case scan_rows rows of Inl e \<Rightarrow> Inl e | Inr qs \<Rightarrow> Inr (q # qs)))"

definition row_in_window :: "principal \<Rightarrow> usage_filter \<Rightarrow> inference_request \<Rightarrow> bool" where
  "row_in_window pr flt q \<longleftrightarrow>
     request_tenant q = tenant_of pr \<and> uf_from flt \<le> ir_started_at q \<and> ir_started_at q < uf_to flt \<and>
     (uf_model_alias flt = [] \<or> ir_model_alias q = uf_model_alias flt)"

definition page_limit :: "usage_filter \<Rightarrow> int" where
  "page_limit flt = (if uf_limit flt \<le> 0 then 10000 else uf_limit flt)"

definition selected_rows :: "principal \<Rightarrow> usage_filter \<Rightarrow> pg_db \<Rightarrow> request_row list" where
  "selected_rows pr flt db = take (nat (page_limit flt + 1))
     (sort_key (\<lambda>row. - ir_started_at (lr_request row))
       (filter (\<lambda>row. row_in_window pr flt (lr_request row)) (map snd (pg_requests db))))"

definition page_of :: "usage_filter \<Rightarrow> inference_request list \<Rightarrow> request_page" where
  "page_of flt qs =
     (if int (length qs) > page_limit flt
      then \<lparr>rp_requests = take (nat (page_limit flt)) qs, rp_truncated = True\<rparr>
      else \<lparr>rp_requests = qs, rp_truncated = False\<rparr>)"

definition pg_list_inference_requests :: "pg_env \<Rightarrow> principal \<Rightarrow> usage_filter \<Rightarrow> (pg_db, err + request_page) state" where
  "pg_list_inference_requests env pr flt =
     or_return (query env ''list inference requests'' (selected_rows pr flt)) (\<lambda>rows.
       case scan_rows rows of Inl e \<Rightarrow> fails e | Inr qs \<Rightarrow> ok (page_of flt qs))"

definition own_row :: "principal \<Rightarrow> string \<Rightarrow> pg_db \<Rightarrow> request_row option" where
  "own_row pr rid db =
     (case map_of (pg_requests db) rid of
        None \<Rightarrow> None
      | Some row \<Rightarrow> if request_tenant (lr_request row) = tenant_of pr then Some row else None)"

definition pg_get_inference_request :: "pg_env \<Rightarrow> principal \<Rightarrow> string \<Rightarrow> (pg_db, err + inference_request) state" where
  "pg_get_inference_request env pr rid =
     or_return (query env ''get inference request'' (own_row pr rid)) (\<lambda>found.
       case found of
         None \<Rightarrow> fails ErrNotFound
       | Some row \<Rightarrow> State_Monad.return (scan_request row))"

section \<open>The method table\<close>

definition postgres_ops :: "pg_env \<Rightarrow> agent_env \<Rightarrow> pg_db store_ops" where
  "postgres_ops env agents =
     \<lparr>st_authenticate = pg_authenticate env,
      st_authenticate_human = Some (\<lambda>digest. on_agents (authenticate_human agents digest)),
      st_resolve_route = pg_resolve_route env,
      st_create_inference_request = pg_create_inference_request env,
      st_set_inference_request_route = pg_set_inference_request_route env,
      st_complete_inference_request = pg_complete_inference_request env,
      st_create_provider_attempt = pg_create_provider_attempt env,
      st_complete_provider_attempt = pg_complete_provider_attempt env,
      st_update_target_health = pg_update_target_health env,
      st_list_routes = pg_list_routes env,
      st_list_inference_requests = pg_list_inference_requests env,
      st_get_inference_request = pg_get_inference_request env\<rparr>"

end
