(* ===== verification/Pg_Refinement.thy ===== *)
theory Pg_Refinement
  imports Pg_Ledger Gateway_Properties
begin

text \<open>
  The PostgreSQL store keeps the ledger contract the gateway relies on, so everything proved of the gateway
  over that contract holds of it; and where its reads differ from the in-memory store's.
\<close>

section \<open>The rows the contract speaks of\<close>

definition stored_request :: "request_row \<Rightarrow> inference_request" where
  "stored_request row =
     (case lr_service row of
        None \<Rightarrow> lr_request row
      | Some (account, key, prefix) \<Rightarrow>
          (lr_request row)\<lparr>ir_service_account_id := account, ir_api_key_id := key, ir_key_prefix := prefix\<rparr>)"

definition pg_row :: "pg_db \<Rightarrow> string \<rightharpoonup> inference_request" where
  "pg_row db i = map_option stored_request (map_of (pg_requests db) i)"

definition pg_good :: "pg_db \<Rightarrow> bool" where
  "pg_good db \<longleftrightarrow> keyed (ir_id \<circ> lr_request) (pg_requests db)"

lemma stored_fields [simp]:
  "ir_status (stored_request row) = ir_status (lr_request row)"
  "ir_attempt_count (stored_request row) = ir_attempt_count (lr_request row)"
  by (simp_all add: stored_request_def split: option.splits prod.splits)

lemma stored_update:
  "stored_request (row\<lparr>lr_request := (lr_request row)\<lparr>ir_route_id := a, ir_bound_target_id := b, ir_bound_model_id := c,
     ir_route_binding_generation := d\<rparr>\<rparr>) = (stored_request row)\<lparr>ir_route_id := a, ir_bound_target_id := b, ir_bound_model_id := c,
     ir_route_binding_generation := d\<rparr>"
  "stored_request (row\<lparr>lr_request := finish_request f (lr_request row)\<rparr>) = finish_request f (stored_request row)"
  "stored_request (row\<lparr>lr_request := (lr_request row)\<lparr>ir_attempt_count := n\<rparr>\<rparr>) = (stored_request row)\<lparr>ir_attempt_count := n\<rparr>"
  by (simp_all add: stored_request_def finish_request_def split: option.splits prod.splits)

lemma pg_row_put:
  assumes "map_of (pg_requests db) i = Some row"
  shows "pg_row (put_row i q db) = (pg_row db)(i \<mapsto> stored_request (row\<lparr>lr_request := q\<rparr>))"
  using assms by (auto simp: pg_row_def put_row_def fun_eq_iff go_map_simps)

lemma pg_good_put:
  assumes "pg_good db" and "map_of (pg_requests db) i = Some row" and "ir_id q = ir_id (lr_request row)"
  shows "pg_good (put_row i q db)"
  using assms unfolding pg_good_def put_row_def amend_def keyed_def
  by (fastforce simp: image_iff split_def comp_def)

lemma pg_same_requests: "pg_requests db' = pg_requests db \<Longrightarrow> pg_good db \<Longrightarrow> pg_good db' \<and> pg_row db' = pg_row db"
  by (simp add: pg_good_def pg_row_def fun_eq_iff)

section \<open>What each statement does to the rows\<close>

lemma ran_update_one [ran]:
  "run_state (update_one env st f) db = (Inr u, db') \<longleftrightarrow> ve_refuses env st db = None \<and> f db = Inr (Some db')"
  by (auto simp: update_one_def split: option.splits sum.splits)

lemma update_one_error: "run_state (update_one env st f) db = (Inl e, db') \<Longrightarrow> db' = db"
  by (auto simp: update_one_def split: option.splits sum.splits)

lemma exec_error: "run_state (exec env st f) db = (Inl e, db') \<Longrightarrow> db' = db"
  by (auto simp: exec_def split: option.splits sum.splits)

lemma as_error_cases:
  "run_state (as_error m) db = (e, db') \<longleftrightarrow>
     (case e of None \<Rightarrow> run_state m db = (Inr (), db') | Some x \<Rightarrow> run_state m db = (Inl x, db'))"
  by (cases "run_state m db") (auto simp: as_error_def split: sum.splits option.splits)

lemma create_law:
  assumes g: "pg_good db" and run: "run_state (pg_create_inference_request env rstart) db = (e, db')"
  shows "pg_good db' \<and>
      (case e of
         None \<Rightarrow> pg_row db (rs_id rstart) = None \<and> (\<exists>q. fresh_row rstart q \<and> pg_row db' = (pg_row db)(rs_id rstart \<mapsto> q))
       | Some _ \<Rightarrow> pg_row db' = pg_row db)"
proof (cases e)
  case None
  with run have new: "map_of (pg_requests db) (rs_id rstart) = None"
    and db': "db' = db\<lparr>pg_requests := AList.update (rs_id rstart) (started_row rstart) (pg_requests db)\<rparr>"
    by (auto simp: pg_create_inference_request_def as_error_cases ran insert_request_def split: if_splits)
  have "ir_id (lr_request (started_row rstart)) = rs_id rstart" by (simp add: started_row_def Let_def new_request_def)
  then have "pg_good db'" using g by (auto simp: pg_good_def db')
  moreover have "pg_row db' = (pg_row db)(rs_id rstart \<mapsto> stored_request (started_row rstart))"
    by (simp add: pg_row_def db' fun_eq_iff go_map_simps)
  moreover have "fresh_row rstart (stored_request (started_row rstart))"
    by (simp add: fresh_row_def stored_request_def started_row_def Let_def)
  ultimately show ?thesis using None new by (auto simp: pg_row_def)
next
  case (Some x)
  with run have "db' = db" by (auto simp: pg_create_inference_request_def as_error_cases dest: exec_error)
  with g Some show ?thesis by simp
qed

lemma attach_routeD:
  assumes "attach_route rid route_id db = Inr (Some db')"
  obtains row and r :: stored_route where "map_of (pg_requests db) rid = Some row" "ir_status (lr_request row) = ''in_progress''"
    "db' = put_row rid ((lr_request row)\<lparr>ir_route_id := route_id, ir_bound_target_id := sr_target_id r,
       ir_bound_model_id := sr_model_id r, ir_route_binding_generation := sr_binding_generation r\<rparr>) db"
proof (cases "map_of (pg_requests db) rid"; cases "map_of (at_routes db) route_id")
  fix row r assume "map_of (pg_requests db) rid = Some row" "map_of (at_routes db) route_id = Some r"
  with assms that [of row r] show thesis by (auto simp: attach_route_def attachable_def split: if_splits)
qed (use assms in \<open>simp_all add: attach_route_def\<close>)

lemma bind_law:
  assumes g: "pg_good db" and run: "run_state (pg_set_inference_request_route env rid route_id) db = (e, db')"
  shows "pg_good db' \<and>
      (case e of
         None \<Rightarrow> (\<exists>q q'. pg_row db rid = Some q \<and> ir_status q = ''in_progress'' \<and> bind_request route_id q q' \<and>
                    pg_row db' = (pg_row db)(rid \<mapsto> q'))
       | Some _ \<Rightarrow> pg_row db' = pg_row db)"
proof (cases e)
  case None
  with run have "attach_route rid route_id db = Inr (Some db')"
    by (simp add: pg_set_inference_request_route_def as_error_cases ran)
  then obtain row and r :: stored_route where row: "map_of (pg_requests db) rid = Some row" "ir_status (lr_request row) = ''in_progress''"
    and db': "db' = put_row rid ((lr_request row)\<lparr>ir_route_id := route_id, ir_bound_target_id := sr_target_id r,
            ir_bound_model_id := sr_model_id r, ir_route_binding_generation := sr_binding_generation r\<rparr>) db"
    by (rule attach_routeD)
  have "pg_good db'" unfolding db' by (rule pg_good_put [OF g row(1)]) simp
  have "pg_row db' = (pg_row db)(rid \<mapsto> (stored_request row)\<lparr>ir_route_id := route_id, ir_bound_target_id := sr_target_id r,
            ir_bound_model_id := sr_model_id r, ir_route_binding_generation := sr_binding_generation r\<rparr>)"
    unfolding db' pg_row_put [OF row(1)] stored_update ..
  then have "\<exists>q'. bind_request route_id (stored_request row) q' \<and> pg_row db' = (pg_row db)(rid \<mapsto> q')"
    using bind_requestI by blast
  with None row \<open>pg_good db'\<close> show ?thesis by (auto simp: pg_row_def)
next
  case (Some x)
  with run have "db' = db" by (auto simp: pg_set_inference_request_route_def as_error_cases dest: update_one_error)
  with g Some show ?thesis by simp
qed

lemma complete_law:
  assumes g: "pg_good db" and run: "run_state (pg_complete_inference_request env rfinish) db = (e, db')"
  shows "pg_good db' \<and>
      (case e of
         None \<Rightarrow> (\<exists>q q'. pg_row db (rf_id rfinish) = Some q \<and> ir_status q = ''in_progress'' \<and> finished_row rfinish q q' \<and>
                    pg_row db' = (pg_row db)(rf_id rfinish \<mapsto> q'))
       | Some _ \<Rightarrow> pg_row db' = pg_row db)"
proof (cases e)
  case None
  let ?f = "rfinish\<lparr>rf_duration := stored_duration (rf_duration rfinish)\<rparr>"
  from None run obtain row where row: "map_of (pg_requests db) (rf_id rfinish) = Some row" "ir_status (lr_request row) = ''in_progress''"
    and db': "db' = put_row (rf_id rfinish) (finish_request ?f (lr_request row)) db"
    by (auto simp: pg_complete_inference_request_def as_error_cases ran finish_row_def Let_def split: option.splits if_splits)
  have "pg_good db'" unfolding db' by (rule pg_good_put [OF g row(1)]) (simp add: finish_request_def)
  moreover have "pg_row db' = (pg_row db)(rf_id rfinish \<mapsto> finish_request ?f (stored_request row))"
    unfolding db' pg_row_put [OF row(1)] stored_update ..
  moreover have "finished_row rfinish (stored_request row) (finish_request ?f (stored_request row))"
    by (simp add: finished_row_def finish_request_def)
  ultimately show ?thesis using None row by (auto simp: pg_row_def)
next
  case (Some x)
  with run have "db' = db" by (auto simp: pg_complete_inference_request_def as_error_cases dest: update_one_error)
  with g Some show ?thesis by simp
qed

lemma attempt_law:
  assumes g: "pg_good db" and run: "run_state (pg_create_provider_attempt env astart) db = (e, db')"
  shows "pg_good db' \<and>
      (case e of
         None \<Rightarrow> (\<exists>q. pg_row db (as_inference_request_id astart) = Some q \<and> ir_status q = ''in_progress'' \<and>
                    as_attempt_number astart = ir_attempt_count q + 1 \<and>
                    pg_row db' = (pg_row db)(as_inference_request_id astart \<mapsto> q\<lparr>ir_attempt_count := ir_attempt_count q + 1\<rparr>))
       | Some _ \<Rightarrow> pg_row db' = pg_row db)"
proof (cases e)
  case None
  let ?i = "as_inference_request_id astart"
  from None run obtain db1 where count: "count_attempt ?i db = Inr (Some db1)" and ins: "insert_attempt astart db1 = Inr db'"
    by (auto simp: pg_create_provider_attempt_def as_error_cases ran simp del: run_state_or_return)
  from count obtain row where row: "map_of (pg_requests db) ?i = Some row" "ir_status (lr_request row) = ''in_progress''"
    and db1: "db1 = put_row ?i ((lr_request row)\<lparr>ir_attempt_count := ir_attempt_count (lr_request row) + 1\<rparr>) db"
    by (auto simp: count_attempt_def split: option.splits if_splits)
  have rows: "pg_row db1 = (pg_row db)(?i \<mapsto> (stored_request row)\<lparr>ir_attempt_count := ir_attempt_count (lr_request row) + 1\<rparr>)"
    unfolding db1 pg_row_put [OF row(1)] stored_update ..
  from ins have "attempt_allowed astart db1" and same: "pg_requests db' = pg_requests db1"
    by (auto simp: insert_attempt_def split: if_splits)
  then have "as_attempt_number astart = ir_attempt_count (lr_request row) + 1"
    using row by (auto simp: attempt_allowed_def Let_def db1 put_row_def go_map_simps)
  moreover have "pg_good db1" unfolding db1 by (rule pg_good_put [OF g row(1)]) simp
  ultimately show ?thesis
    using None row rows pg_same_requests [OF same] by (auto simp: pg_row_def)
next
  case (Some x)
  with run have "db' = db" by (auto simp: pg_create_provider_attempt_def as_error_cases dest: transaction_error)
  with g Some show ?thesis by simp
qed

lemma update_one_requests:
  assumes "\<And>db db'. f db = Inr (Some db') \<Longrightarrow> pg_requests db' = pg_requests db"
    and "run_state (as_error (update_one env st f)) db = (e, db')"
  shows "pg_requests db' = pg_requests db"
  using assms(2) by (cases e) (auto simp: as_error_cases ran dest: assms(1) update_one_error)

lemma truncate_requests: "pg_requests (agent_db.extend tables (agent_db.more db)) = pg_requests db"
  by (cases db) (simp add: agent_db.defs)

lemma query_requests: "run_state (query env st f) db = (r, db') \<Longrightarrow> db' = db"
  by (auto simp: query_def split: option.splits)

lemma pg_quiet:
  "run_state (pg_authenticate env d) db = (r1, db') \<Longrightarrow> pg_requests db' = pg_requests db"
  "run_state (on_agents m) db = (r2, db') \<Longrightarrow> pg_requests db' = pg_requests db"
  "run_state (pg_resolve_route env pr name) db = (r3, db') \<Longrightarrow> pg_requests db' = pg_requests db"
  "run_state (pg_complete_provider_attempt env afinish) db = (r4, db') \<Longrightarrow> pg_requests db' = pg_requests db"
  "run_state (pg_update_target_health env i status t b) db = (r5, db') \<Longrightarrow> pg_requests db' = pg_requests db"
proof -
  show "run_state (pg_authenticate env d) db = (r1, db') \<Longrightarrow> pg_requests db' = pg_requests db"
    by (auto simp: pg_authenticate_def returning_def use_key_def split: option.splits prod.splits)
  show "run_state (on_agents m) db = (r2, db') \<Longrightarrow> pg_requests db' = pg_requests db"
    by (auto simp: on_agents_def truncate_requests split: prod.splits)
  show "pg_requests db' = pg_requests db" if "run_state (pg_resolve_route env pr name) db = (r3, db')"
  proof (cases "allows_model pr name")
    case True
    with that obtain x where "run_state (transaction env (or_return (query env ''lock route'' (named_route pr name)) (\<lambda>found.
        case found of None \<Rightarrow> fails ErrNotFound
        | Some i \<Rightarrow> or_return (query env ''resolve route'' (route_of_id pr i)) (\<lambda>joined.
            case joined of None \<Rightarrow> fails ErrNotFound | Some rt \<Rightarrow> commit env rt)))) db = (x, db')"
      by (auto simp: pg_resolve_route_def split: prod.splits sum.splits)
    from transaction_result [OF this] show ?thesis
      by (auto simp: ran simp del: run_state_or_return split: option.splits)
  qed (use that in \<open>simp add: pg_resolve_route_def\<close>)
  show "run_state (pg_complete_provider_attempt env afinish) db = (r4, db') \<Longrightarrow> pg_requests db' = pg_requests db"
    unfolding pg_complete_provider_attempt_def
    by (erule update_one_requests [rotated]) (auto simp: finish_attempt_row_def split: option.splits if_splits)
  show "run_state (pg_update_target_health env i status t b) db = (r5, db') \<Longrightarrow> pg_requests db' = pg_requests db"
    unfolding pg_update_target_health_def
    by (erule update_one_requests [rotated]) (auto simp: set_health_def split: option.splits)
qed

lemmas pg_quiet_laws = pg_quiet [THEN pg_same_requests]

interpretation pg: request_ledger "postgres_ops env agents" pg_row pg_good for env agents
proof unfold_locales
  fix s t e rstart rid route_id rfinish astart afinish d pr name i status b f r1 r2 r3
  fix tm :: time
  assume g: "pg_good s"
  note laws = create_law bind_law complete_law attempt_law
  note ops = postgres_ops_def
  show "run_state (st_create_inference_request (postgres_ops env agents) rstart) s = (e, t) \<Longrightarrow> pg_good t \<and>
      (case e of
         None \<Rightarrow> pg_row s (rs_id rstart) = None \<and> (\<exists>q. fresh_row rstart q \<and> pg_row t = (pg_row s)(rs_id rstart \<mapsto> q))
       | Some _ \<Rightarrow> pg_row t = pg_row s)"
    using create_law [OF g] by (simp add: ops)
  show "run_state (st_set_inference_request_route (postgres_ops env agents) rid route_id) s = (e, t) \<Longrightarrow> pg_good t \<and>
      (case e of
         None \<Rightarrow> (\<exists>q q'. pg_row s rid = Some q \<and> ir_status q = ''in_progress'' \<and> bind_request route_id q q' \<and>
                    pg_row t = (pg_row s)(rid \<mapsto> q'))
       | Some _ \<Rightarrow> pg_row t = pg_row s)"
    using bind_law [OF g] by (simp add: ops)
  show "run_state (st_complete_inference_request (postgres_ops env agents) rfinish) s = (e, t) \<Longrightarrow> pg_good t \<and>
      (case e of
         None \<Rightarrow> (\<exists>q q'. pg_row s (rf_id rfinish) = Some q \<and> ir_status q = ''in_progress'' \<and> finished_row rfinish q q' \<and>
                    pg_row t = (pg_row s)(rf_id rfinish \<mapsto> q'))
       | Some _ \<Rightarrow> pg_row t = pg_row s)"
    using complete_law [OF g] by (simp add: ops)
  show "run_state (st_create_provider_attempt (postgres_ops env agents) astart) s = (e, t) \<Longrightarrow> pg_good t \<and>
      (case e of
         None \<Rightarrow> (\<exists>q. pg_row s (as_inference_request_id astart) = Some q \<and> ir_status q = ''in_progress'' \<and>
                    as_attempt_number astart = ir_attempt_count q + 1 \<and>
                    pg_row t = (pg_row s)(as_inference_request_id astart \<mapsto> q\<lparr>ir_attempt_count := ir_attempt_count q + 1\<rparr>))
       | Some _ \<Rightarrow> pg_row t = pg_row s)"
    using attempt_law [OF g] by (simp add: ops)
  show "run_state (st_authenticate (postgres_ops env agents) d) s = (r1, t) \<Longrightarrow> pg_good t \<and> pg_row t = pg_row s"
    using pg_quiet_laws(1) g by (simp add: ops)
  show "pg_good t \<and> pg_row t = pg_row s"
    if "st_authenticate_human (postgres_ops env agents) = Some f" "run_state (f d) s = (r2, t)"
  proof -
    from that have "run_state (on_agents (authenticate_human agents d)) s = (r2, t)" by (auto simp: ops)
    then show ?thesis by (rule pg_quiet_laws(2) [OF _ g])
  qed
  show "run_state (st_resolve_route (postgres_ops env agents) pr name) s = (r3, t) \<Longrightarrow> pg_good t \<and> pg_row t = pg_row s"
    using pg_quiet_laws(3) g by (simp add: ops)
  show "run_state (st_complete_provider_attempt (postgres_ops env agents) afinish) s = (e, t) \<Longrightarrow> pg_good t \<and> pg_row t = pg_row s"
    using pg_quiet_laws(4) g by (simp add: ops)
  show "run_state (st_update_target_health (postgres_ops env agents) i status tm b) s = (e, t) \<Longrightarrow> pg_good t \<and> pg_row t = pg_row s"
    using pg_quiet_laws(5) g by (simp add: ops)
qed

end
