(* ===== verification/Pg_Properties.thy ===== *)
theory Pg_Properties
  imports Pg_Refinement "HOL-Library.Multiset"
begin

text \<open>
  The gateway over the PostgreSQL ledger, and what a person's agent leaves in that ledger.
\<close>

section \<open>A small database\<close>

text \<open>
  One service account with the key of \<open>sample_http\<close>, one person's agent, and no routes.
\<close>

definition pg_demo_grant :: grant_row where
  "pg_demo_grant =
     \<lparr>gr_user_id = ''usr_1'', gr_identity_id = ''fid_1'', gr_person_id = ''per_1'', gr_membership_id = ''hm_1'',
      gr_organisation_id = ''org_1'', gr_project_id = ''prj_1'', gr_environment_id = ''env_1'', gr_client_id = ''cli'',
      gr_instance_digest = ''instance'', gr_aliases = [''fast''], gr_authenticated_at = 0, gr_expires_at = 1000,
      gr_revoked_at = None, gr_reason = None\<rparr>"

definition pg_demo_token :: token_row where
  "pg_demo_token =
     \<lparr>tk_grant_id = ''agr_1'', tk_prefix = ''alz_h_2222'', tk_hash = ''digest'', tk_generation = 1, tk_issued_at = 0,
      tk_expires_at = 600, tk_last_used_at = None, tk_revoked_at = None, tk_replaced_by = None\<rparr>"

definition pg_demo_key :: pg_key where
  "pg_demo_key =
     \<lparr>pk_key = \<lparr>ak_id = ''key_1'', ak_service_account_id = ''sa_1'', ak_prefix = ''alz_k_1111111111111111'', ak_digest = sample_token CHR 0x11 CHR 0x12,
        ak_scopes = sample_scopes, ak_revoked_at = None\<rparr>,
      pk_expires_at = None, pk_last_used_at = None\<rparr>"

definition pg_demo :: pg_db where
  "pg_demo =
     \<lparr>at_identities = [], at_users = [], at_people = [],
      at_memberships = [(''hm_1'', \<lparr>hm_user_id = ''usr_1'', hm_organisation_id = ''org_1'', hm_project_id = ''prj_1'',
        hm_environment_id = ''env_1'', hm_enabled = True\<rparr>)],
      at_organisations = [(''org_1'', \<lparr>nr_name = ''Org'', nr_slug = ''org''\<rparr>)],
      at_projects = [(''prj_1'', \<lparr>nr_name = ''Prj'', nr_slug = ''prj''\<rparr>)],
      at_environments = [(''env_1'', \<lparr>nr_name = ''Env'', nr_slug = ''env''\<rparr>)],
      at_ownerships = [], at_routes = [], at_models = [], at_targets = [], at_catalogue = [], at_groups = [],
      at_group_people = [], at_group_models = [], at_grants = [(''agr_1'', pg_demo_grant)], at_tokens = [(''aut_1'', pg_demo_token)], at_mints = [],
      pg_service_accounts = [(''sa_1'', \<lparr>sa_id = ''sa_1'', sa_organisation_id = ''org_1'', sa_project_id = ''prj_1'',
        sa_environment_id = ''env_1'', sa_name = ''app''\<rparr>)],
      pg_keys = [(''key_1'', pg_demo_key)], pg_requests = [], pg_attempts = []\<rparr>"

definition pg_demo_env :: pg_env where
  "pg_demo_env = \<lparr>ve_refuses = (\<lambda>_ _. None), ve_ids = (\<lambda>p _. Inr p), ve_sql_now = 100\<rparr>"

definition demo_agents :: agent_env where
  "demo_agents = \<lparr>ve_refuses = (\<lambda>_ _. None), ve_ids = (\<lambda>p _. Inr p), ve_sql_now = 100\<rparr>"

definition pg_demo_world :: "pg_db world" where
  "pg_demo_world = \<lparr>w_store = pg_demo, w_tick = 0, w_writer = \<lparr>rw_header = [], rw_sent = None, rw_body = []\<rparr>,
     w_committed = False, w_calls = []\<rparr>"

definition pg_demo_after :: "pg_db world" where
  "pg_demo_after = snd (run_state (serve_http sample_env sample_config sample_lib (postgres_ops pg_demo_env demo_agents) sample_http)
     pg_demo_world)"

lemma pg_demo_run:
  "run_state (serve_http sample_env sample_config sample_lib (postgres_ops pg_demo_env demo_agents) sample_http) pg_demo_world =
     ((), pg_demo_after)"
  by (simp add: pg_demo_after_def prod_eq_iff)

lemma pg_demo_ok: "pg_good (w_store pg_demo_world)" "unsent pg_demo_world" "pg_row (w_store pg_demo_world) = Map.empty"
  by (simp_all add: pg_demo_world_def pg_good_def keyed_def unsent_def pg_demo_def pg_row_def fun_eq_iff)

definition pg_agent_start :: request_start where
  "pg_agent_start =
     \<lparr>rs_id = ''req_1'',
      rs_principal = zero_principal\<lparr>p_credential_kind := ''human_agent_token'', p_organisation_id := ''org_1'', p_project_id := ''prj_1'',
        p_environment_id := ''env_1'', p_human_user_id := ''usr_1'', p_human_membership_id := ''hm_1'', p_agent_grant_id := ''agr_1'',
        p_agent_token_id := ''aut_1''\<rparr>,
      rs_model_alias = ''fast'', rs_started_at = 10\<rparr>"

definition pg_reader :: principal where
  "pg_reader = zero_principal\<lparr>p_credential_kind := ''service_account_key'', p_organisation_id := ''org_1'', p_project_id := ''prj_1'',
     p_environment_id := ''env_1'', p_service_account_id := ''sa_1'', p_api_key_id := ''key_1''\<rparr>"

definition pg_window :: usage_filter where
  "pg_window = \<lparr>uf_from = 0, uf_to = 100, uf_model_alias = [], uf_limit = 0\<rparr>"

definition pg_after_agent :: pg_db where
  "pg_after_agent = pg_demo\<lparr>pg_requests := [(''req_1'', started_row pg_agent_start)]\<rparr>"

lemma pg_agent_created:
  "run_state (pg_create_inference_request pg_demo_env pg_agent_start) pg_demo = (None, pg_after_agent)"
  by (simp add: pg_create_inference_request_def ran_as_error ran insert_request_def pg_after_agent_def pg_agent_start_def
      pg_demo_env_def is_human_def human_actor_def zero_principal_def pg_demo_def)

lemma scan_rows_fail: "row \<in> set rows \<Longrightarrow> scan_request row = Inl err_scan_null \<Longrightarrow> scan_rows rows = Inl err_scan_null"
proof (induction rows)
  case (Cons x xs)
  then show ?case by (cases "scan_request x") (auto simp: scan_request_def split: option.splits)
qed simp

definition pg_demo_principal :: principal where
  "pg_demo_principal = zero_principal
     \<lparr>p_credential_kind := ''service_account_key'', p_organisation_id := ''org_1'', p_organisation_name := ''Org'',
      p_organisation_slug := ''org'', p_project_id := ''prj_1'', p_project_name := ''Prj'', p_project_slug := ''prj'',
      p_environment_id := ''env_1'', p_environment_name := ''Env'', p_environment_slug := ''env'', p_service_account_id := ''sa_1'',
      p_service_account := ''app'', p_api_key_id := ''key_1'', p_key_prefix := ''alz_k_1111111111111111'', p_scopes := sample_scopes\<rparr>"

definition pg_key_used :: pg_db where
  "pg_key_used = pg_demo\<lparr>pg_keys := [(''key_1'', pg_demo_key\<lparr>pk_last_used_at := Some 100\<rparr>)]\<rparr>"

lemma pg_demo_authenticate:
  "run_state (pg_authenticate pg_demo_env (sample_token CHR 0x11 CHR 0x12)) pg_demo = (Inr pg_demo_principal, pg_key_used)"
  by (simp add: pg_authenticate_def returning_def use_key_def key_usable_def key_principal_def pg_demo_def pg_demo_key_def
    pg_demo_env_def amend_def pg_demo_principal_def pg_key_used_def)

lemma pg_demo_protocol_auth:
  "run_state (authenticate_protocol id (postgres_ops pg_demo_env demo_agents) ProtocolResponses (hr_header sample_http)) pg_demo =
     (Inr pg_demo_principal, pg_key_used)"
proof -
  let ?t = "sample_token CHR 0x11 CHR 0x12"
  have "has_prefix ''alz_k_'' ?t" by (simp add: sample_token_text)
  then show ?thesis
    by (simp add: authenticate_protocol_def api_authenticate_def sample_bearer sample_token_valid postgres_ops_def
      pg_demo_authenticate map_auth_error_def)
qed

definition pg_demo_start :: "int \<Rightarrow> request_start" where
  "pg_demo_start t = \<lparr>rs_id = ''req_'', rs_principal = pg_demo_principal, rs_model_alias = ''other'', rs_started_at = t\<rparr>"

lemma pg_demo_create:
  "run_state (pg_create_inference_request pg_demo_env (pg_demo_start t)) pg_key_used =
     (None, pg_key_used\<lparr>pg_requests := [(''req_'', started_row (pg_demo_start t))]\<rparr>)"
  by (simp add: pg_create_inference_request_def ran_as_error ran insert_request_def pg_key_used_def pg_demo_start_def
      pg_demo_env_def is_human_def service_actor_def zero_principal_def pg_demo_def pg_demo_principal_def pg_demo_key_def tenant_of_def)

lemma pg_demo_resolve:
  "run_state (pg_resolve_route pg_demo_env pg_demo_principal ''other'') (pg_key_used\<lparr>pg_requests := rows\<rparr>) =
     (Inl ErrNotFound, pg_key_used\<lparr>pg_requests := rows\<rparr>)"
  by (simp add: pg_resolve_route_def transaction_def query_def exec_def named_route_def pg_key_used_def pg_demo_def pg_demo_env_def
    allows_model_def pg_demo_principal_def zero_principal_def)

lemma pg_demo_scope: "has_scope pg_demo_principal scope_inference_write"
  by (simp add: has_scope_def pg_demo_principal_def sample_scopes_def scope_inference_write_def)

lemma pg_demo_complete:
  "run_state (pg_complete_inference_request pg_demo_env f) (pg_key_used\<lparr>pg_requests := [(''req_'', started_row (pg_demo_start t))]\<rparr>) =
     (None, pg_key_used\<lparr>pg_requests := [(''req_'', started_row (pg_demo_start t)\<lparr>lr_request :=
        finish_request (f\<lparr>rf_duration := stored_duration (rf_duration f)\<rparr>) (lr_request (started_row (pg_demo_start t)))\<rparr>)]\<rparr>)"
  if "rf_id f = ''req_''"
  using that
  by (simp add: pg_complete_inference_request_def ran_as_error ran finish_row_def pg_demo_env_def started_row_def Let_def new_request_def
    request_attempts_def pg_key_used_def pg_demo_def put_row_def amend_def pg_demo_start_def)

lemma pg_demo_fields:
  "st_resolve_route (postgres_ops pg_demo_env demo_agents) = pg_resolve_route pg_demo_env"
  "st_create_inference_request (postgres_ops pg_demo_env demo_agents) = pg_create_inference_request pg_demo_env"
  "st_complete_inference_request (postgres_ops pg_demo_env demo_agents) = pg_complete_inference_request pg_demo_env"
  "w_store pg_demo_world = pg_demo" "w_tick pg_demo_world = 0" "w_writer pg_demo_world = \<lparr>rw_header = [], rw_sent = None, rw_body = []\<rparr>"
  "w_committed pg_demo_world = False" "w_calls pg_demo_world = []"
  by (simp_all add: postgres_ops_def pg_demo_world_def)

lemma pg_demo_identified:
  "run_state (serve_http sample_env sample_config sample_lib (postgres_ops pg_demo_env demo_agents) sample_http) pg_demo_world =
   run_state (serve_request sample_env sample_config sample_lib (postgres_ops pg_demo_env demo_agents) ProtocolResponses ''req_''
      pg_demo_principal sample_chat_request)
     (pg_demo_world\<lparr>w_tick := 1, w_writer := identify_response ''req_'' (w_writer pg_demo_world), w_store := pg_key_used\<rparr>)"
  by (simp add: serve_http_def serve_identified_def protocol_for_path_def sample_fields vary_api_key_def run_on_store
    pg_demo_protocol_auth sample_decode pg_demo_world_def)

lemma pg_demo_refused:
  "response_status (w_writer pg_demo_after) = Some 404 \<and> \<not> w_committed pg_demo_after \<and> pg_row (w_store pg_demo_after) ''req_'' \<noteq> None"
  unfolding pg_demo_after_def pg_demo_identified
  by (simp add: serve_request_def now_at_def run_on_store sample_fields pg_demo_fields pg_demo_create [unfolded pg_demo_start_def]
    serve_authorised_def pg_demo_scope pg_demo_resolve route_error_def finish_then_def complete_request_def
    pg_demo_complete [unfolded pg_demo_start_def] identify_response_def pg_row_def
    set_header_def write_protocol_error_def write_error_def write_json_def write_payload_def write_header_def response_status_def)

section \<open>Properties\<close>

text \<open>
  C39: the gateway over the PostgreSQL store answers as it records. \<open>Store\<close> of \<open>store.go\<close> implements the
  ledger contract - a create adds the row that was not there, a bind and a completion change a row in
  progress only, an attempt counts one - for every choice of what the database refuses and whoever the
  agents are; hence, as over the in-memory store, a request is turned away without a row and without a
  call of the provider, or leaves exactly one new row whose HTTP status is the status sent, and the rows
  keep their identifiers.
\<close>

theorem postgres_requests_answered_as_recorded:
  assumes "run_state (serve_http env cfg lib (postgres_ops db_env agents) r) w = (a, w')"
    and "pg_good (w_store w)" and "unsent w"
  shows "pg_good (w_store w') \<and>
    ((pg_row (w_store w') = pg_row (w_store w) \<and> w_calls w' = w_calls w \<and>
        (\<exists>status. response_status (w_writer w') = Some status \<and> status \<ge> 400)) \<or>
     (\<exists>rid q status calls. pg_row (w_store w) rid = None \<and> pg_row (w_store w') = (pg_row (w_store w))(rid \<mapsto> q) \<and>
        w_calls w' = w_calls w @ calls \<and> int (length calls) \<le> ir_attempt_count q \<and>
        response_status (w_writer w') = Some status \<and>
        status = (if w_committed w' then 200 else if ir_status q = ''in_progress'' then 503 else ir_http_status q)))"
  by (rule pg.answered_as_recorded [OF assms])

theorem postgres_requests_answered_as_recorded_witness:
  "\<exists>q. pg_row (w_store pg_demo_after) ''req_'' = Some q \<and> (ir_status q = ''in_progress'' \<or> ir_http_status q = 404)"
  using postgres_requests_answered_as_recorded [OF pg_demo_run pg_demo_ok(1,2)] pg_demo_refused
  by (fastforce simp: pg_demo_ok(3) split: if_splits)

section \<open>Rows of agents\<close>

text \<open>
  What the store does to the table of requests, in any order: the four operations that write it, and
  everything else.
\<close>

inductive pg_step :: "pg_db \<Rightarrow> pg_db \<Rightarrow> bool" where
  create: "run_state (pg_create_inference_request env start) db = (e, db') \<Longrightarrow> pg_step db db'"
| bind: "run_state (pg_set_inference_request_route env rid route_id) db = (e, db') \<Longrightarrow> pg_step db db'"
| complete: "run_state (pg_complete_inference_request env fin) db = (e, db') \<Longrightarrow> pg_step db db'"
| attempt: "run_state (pg_create_provider_attempt env astart) db = (e, db') \<Longrightarrow> pg_step db db'"
| elsewhere: "pg_requests db' = pg_requests db \<Longrightarrow> pg_step db db'"

text \<open>What no operation changes of a row.\<close>

definition row_facts :: "request_row \<Rightarrow> (string \<times> string \<times> string) option \<times> tenant \<times> time \<times> string" where
  "row_facts row = (lr_service row, request_tenant (lr_request row), ir_started_at (lr_request row), ir_model_alias (lr_request row))"

definition rows_kept :: "pg_db \<Rightarrow> pg_db \<Rightarrow> bool" where
  "rows_kept db db' \<longleftrightarrow>
     (\<forall>i row. map_of (pg_requests db) i = Some row \<longrightarrow>
        (\<exists>row'. map_of (pg_requests db') i = Some row' \<and> row_facts row' = row_facts row))"

interpretation kept_rows: step_preorder rows_kept
  by unfold_locales (simp_all add: rows_kept_def, metis)

lemma put_row_kept:
  "map_of (pg_requests db) i = Some row \<Longrightarrow> request_tenant q = request_tenant (lr_request row) \<Longrightarrow>
     ir_started_at q = ir_started_at (lr_request row) \<Longrightarrow> ir_model_alias q = ir_model_alias (lr_request row) \<Longrightarrow>
     rows_kept db (put_row i q db)"
  by (simp add: rows_kept_def put_row_def go_map_simps row_facts_def)

lemma count_attempt_kept: "count_attempt rid db = Inr (Some db') \<Longrightarrow> rows_kept db db'"
  by (auto simp: count_attempt_def request_tenant_def intro: put_row_kept split: option.splits if_splits)

lemma pg_step_kept: "pg_step db db' \<Longrightarrow> rows_kept db db'"
proof (induction rule: pg_step.induct)
  case (create env start db e db')
  then show ?case
    by (cases e) (auto simp: pg_create_inference_request_def as_error_cases ran insert_request_def rows_kept_def go_map_simps
      dest!: exec_error split: if_splits)
next
  case (bind env rid route_id db e db')
  show ?case
  proof (cases e)
    case None
    with bind have "attach_route rid route_id db = Inr (Some db')"
      by (simp add: pg_set_inference_request_route_def as_error_cases ran)
    then show ?thesis by (rule attach_routeD) (auto simp: request_tenant_def intro: put_row_kept)
  next
    case (Some x)
    with bind have "db' = db" by (auto simp: pg_set_inference_request_route_def as_error_cases dest: update_one_error)
    then show ?thesis by (simp add: kept_rows.rel_refl)
  qed
next
  case (complete env fin db e db')
  show ?case
  proof (cases e)
    case None
    with complete have "finish_row fin db = Inr (Some db')" by (simp add: pg_complete_inference_request_def as_error_cases ran)
    then show ?thesis
      by (auto simp: finish_row_def Let_def finish_request_def request_tenant_def intro: put_row_kept split: option.splits if_splits)
  next
    case (Some x)
    with complete have "db' = db" by (auto simp: pg_complete_inference_request_def as_error_cases dest: update_one_error)
    then show ?thesis by (simp add: kept_rows.rel_refl)
  qed
next
  case (attempt env astart db e db')
  from as_error_result [OF attempt [unfolded pg_create_provider_attempt_def]] obtain r
    where "run_state (transaction env
     (or_return (update_one env ''increment attempt count'' (count_attempt (as_inference_request_id astart))) (\<lambda>_.
      or_return (exec env ''create provider attempt'' (insert_attempt astart)) (\<lambda>_.
      commit env ())))) db = (r, db')" ..
  from transaction_result [OF this] show ?case
    by (auto simp: ran insert_attempt_def kept_rows.rel_refl simp del: run_state_or_return split: if_splits dest!: count_attempt_kept)
      (simp add: rows_kept_def)
qed (simp add: rows_kept_def)

lemma pg_steps_kept: "pg_step\<^sup>*\<^sup>* db db' \<Longrightarrow> rows_kept db db'"
  by (induction rule: rtranclp_induct) (use kept_rows.rel_refl kept_rows.rel_trans pg_step_kept in blast)+

text \<open>\<open>LIMIT\<close>: a row is among the first \<open>n\<close> when no more than \<open>n\<close> rows come no later.\<close>

lemma mem_take_sort_key:
  assumes "x \<in> set xs" and "length (filter (\<lambda>y. f y \<le> f x) xs) \<le> n"
  shows "x \<in> set (take n (sort_key f xs))"
proof -
  let ?s = "sort_key f xs"
  from assms(1) obtain j where j: "j < length ?s" "?s ! j = x" by (metis in_set_conv_nth set_sort)
  have sorted: "sorted (map f ?s)" by simp
  have "{..j} \<subseteq> {i. i < length ?s \<and> f (?s ! i) \<le> f x}"
  proof
    fix i assume "i \<in> {..j}"
    with j sorted_nth_mono [OF sorted, of i j] show "i \<in> {i. i < length ?s \<and> f (?s ! i) \<le> f x}" by simp
  qed
  then have "card {..j} \<le> card {i. i < length ?s \<and> f (?s ! i) \<le> f x}" by (intro card_mono) simp_all
  also have "\<dots> = length (filter (\<lambda>y. f y \<le> f x) ?s)" by (simp add: length_filter_conv_card)
  also have "\<dots> = length (filter (\<lambda>y. f y \<le> f x) xs)"
    using mset_sort [of f xs] by (metis mset_filter size_mset)
  finally have "j < n" using assms(2) by simp
  with j show ?thesis by (metis in_set_conv_nth length_take min_less_iff_conj nth_take)
qed

text \<open>
  C40: one request of a person's agent makes its tenant's usage unreadable, for good. The row that
  \<open>CreateInferenceRequest\<close> inserts for a human agent has NULL in \<open>service_account_id\<close>, \<open>api_key_id\<close> and
  \<open>key_prefix\<close>, nothing the store does later changes that, and \<open>scanRequest\<close> scans these columns into strings; so, after any
  further operations and even when the database refuses nothing, \<open>GetInferenceRequest\<close> of that row fails
  for every principal of the tenant, and so does every \<open>ListInferenceRequests\<close> whose window holds the row
  and whose query reaches it: the query fetches one row more than the limit, newest first, so it does
  when the rows of the window that are as new as this one, itself included, are at most that many.
\<close>

theorem agent_request_breaks_reads:
  assumes "run_state (pg_create_inference_request env start) db = (None, db1)" and "is_human (rs_principal start)"
    and later: "pg_step\<^sup>*\<^sup>* db1 db2"
    and "tenant_of pr = tenant_of (rs_principal start)" and "\<forall>statement. ve_refuses env' statement db2 = None"
    and "uf_from flt \<le> rs_started_at start" and "rs_started_at start < uf_to flt"
    and "uf_model_alias flt \<in> {[], rs_model_alias start}"
    and newer: "int (length (filter (\<lambda>(_, row). row_in_window pr flt (lr_request row) \<and>
      rs_started_at start \<le> ir_started_at (lr_request row)) (pg_requests db2))) \<le> page_limit flt + 1"
  shows "run_state (pg_get_inference_request env' pr (rs_id start)) db2 = (Inl err_scan_null, db2) \<and>
    run_state (pg_list_inference_requests env' pr flt) db2 = (Inl err_scan_null, db2)"
proof -
  from assms(1) have "map_of (pg_requests db1) (rs_id start) = Some (started_row start)"
    by (auto simp: pg_create_inference_request_def ran_as_error ran insert_request_def go_map_simps split: if_splits)
  with pg_steps_kept [OF later] obtain row where stored: "map_of (pg_requests db2) (rs_id start) = Some row"
    and facts: "row_facts row = row_facts (started_row start)" unfolding rows_kept_def by blast
  from facts assms(2) have null: "scan_request row = Inl err_scan_null" and time: "ir_started_at (lr_request row) = rs_started_at start"
    by (simp_all add: row_facts_def scan_request_def started_row_def Let_def new_request_def)
  have window: "row_in_window pr flt (lr_request row)"
    using facts assms(4,6-8) by (auto simp: row_facts_def row_in_window_def started_row_def Let_def new_request_def request_tenant_def tenant_of_def)
  then have tenant: "request_tenant (lr_request row) = tenant_of pr" by (simp add: row_in_window_def)
  let ?rows = "filter (\<lambda>row. row_in_window pr flt (lr_request row)) (map snd (pg_requests db2))"
  have "length (filter (\<lambda>r. - ir_started_at (lr_request r) \<le> - ir_started_at (lr_request row)) ?rows) \<le> nat (page_limit flt + 1)"
    using newer by (simp add: time filter_map comp_def split_def conj_commute)
  moreover have "row \<in> set ?rows" using stored window by (force dest: map_of_SomeD)
  ultimately have "row \<in> set (selected_rows pr flt db2)" unfolding selected_rows_def by (intro mem_take_sort_key)
  then have "scan_rows (selected_rows pr flt db2) = Inl err_scan_null" using null by (rule scan_rows_fail)
  with stored null tenant assms(5) show ?thesis
    by (simp add: pg_get_inference_request_def pg_list_inference_requests_def own_row_def query_def)
qed

theorem agent_request_breaks_reads_witness:
  "run_state (pg_get_inference_request pg_demo_env pg_reader ''req_1'') pg_after_agent = (Inl err_scan_null, pg_after_agent) \<and>
   run_state (pg_list_inference_requests pg_demo_env pg_reader pg_window) pg_after_agent = (Inl err_scan_null, pg_after_agent)"
  using agent_request_breaks_reads [OF pg_agent_created _ rtranclp.rtrancl_refl, of pg_reader pg_demo_env pg_window]
  by (simp add: pg_agent_start_def is_human_def tenant_of_def pg_reader_def pg_demo_env_def pg_window_def page_limit_def
      pg_after_agent_def)

end
