(* ===== verification/Spec2Isabelle.thy ===== *)
theory Spec2Isabelle
  imports Gateway_Properties Control_Properties Worker Billing_Properties Agent_Properties Pg_Properties
begin

text \<open>
  Alzette is an inference gateway: tenants present an API key, name a model alias, and the gateway
  resolves the alias to a route of the tenant, calls the route's provider target, answers in the
  client's wire protocol and records every request and every provider attempt in a usage ledger. This
  development models the program's own logic as functions and state transformers of HOL, translated
  from the Go sources under \<open>src/internal\<close>.

  \<^bold>\<open>How the parts correspond to the code.\<close>
  \<^item> \<open>Go_Prelude\<close>, \<open>Go_Strings\<close>, \<open>Go_Float\<close>, \<open>Go_Json\<close>, \<open>Go_Marshal\<close>: what the program uses of Go and of its standard
    library - errors as a datatype, insertion-ordered maps, the state monad with its preservation
    rules, byte strings, UTF-8 white space, hexadecimal and base64, the rounding of \<open>float64\<close>
    operations, \<open>encoding/json\<close> (lexing with the
    depth limit, duplicate and case-folded keys, strict decoding into structs, marshalling of maps).
  \<^item> \<open>Credentials\<close> and \<open>Platform\<close>: \<open>credentials.go\<close>, \<open>ids.go\<close> and the records of \<open>platform/types.go\<close>.
  \<^item> \<open>Provisioning\<close>: \<open>provisioning/validate.go\<close>, every check in its order.
  \<^item> \<open>Memory_Store\<close>, \<open>Memory_Ledger\<close>: \<open>store/memory/store.go\<close>. One record holds the maps of \<open>Store\<close>; every
    method is a state transformer over it. The mutex makes each method one step, so an execution is a
    sequence of methods (\<open>mem_step\<close>, \<open>mem_reachable\<close> in \<open>Memory_Invariants\<close>).
  \<^item> \<open>Store_Interface\<close>: the \<open>Store\<close> interface of \<open>platform/types.go\<close> as a table of operations, its laws
    as the locale \<open>request_ledger\<close>, and the in-memory store as an interpretation of it.
  \<^item> \<open>Http_Api\<close>: \<open>api/api.go\<close>. A response writer is a record of the header, the status sent with its
    header, and the body written.
  \<^item> \<open>Gateway_Request\<close>: \<open>gateway/request.go\<close>; \<open>Gateway_Core\<close>: the pure functions of \<open>gateway/gateway.go\<close>;
    \<open>Gateway_Attempt\<close> and \<open>Gateway_Stream\<close>: one buffered and one streaming attempt (\<open>gateway.go\<close>,
    \<open>stream.go\<close>); \<open>Gateway_Protocol\<close>, \<open>Gateway_Anthropic\<close>, \<open>Gateway_Responses\<close>, \<open>Gateway_Encoders\<close>: the
    three wire protocols, their requests, responses and streams (\<open>protocol*.go\<close>); \<open>Gateway_Serve\<close>:
    \<open>Gateway.ServeHTTP\<close> and \<open>serveStreaming\<close>, composed of these.
  \<^item> \<open>Control_Figures\<close>, \<open>Control_Usage\<close>, \<open>Control_Views\<close>, \<open>Control_Plane\<close>: \<open>control/control.go\<close> and
    \<open>client_dashboard.go\<close>, from the figures of a window of ledger rows to the pages of \<open>ServeHTTP\<close>.
  \<^item> \<open>Worker\<close>: \<open>worker/worker.go\<close>, the loop as a recursion over the events that wake it.
  \<^item> \<open>Sql_Transactions\<close>: what a store in PostgreSQL is built of. Tables are a record of maps; a
    statement reads or changes them, or is refused; a transaction that ends with an error leaves them
    as they were. Which statements the database refuses is a function of the statement and the tables
    (\<open>ve_refuses\<close>), so a theorem about every such function is about every failure of the database.
  \<^item> \<open>Billing\<close>, \<open>Billing_Events\<close>, \<open>Billing_Stripe\<close>, \<open>Billing_Webhook\<close>: \<open>billing/*.go\<close>;
    \<open>Billing_Ledger\<close>, \<open>Billing_Store\<close>: \<open>store/postgres/billing.go\<close> and the statements of
    \<open>endpoints.go\<close> and \<open>portal.go\<close> it runs. An execution is a sequence of its operations.
  \<^item> \<open>Agent_Auth\<close>, \<open>Agent_Mint\<close>: \<open>federation/oidc.go\<close> and \<open>agentauth/*.go\<close>; \<open>Agent_Store\<close>,
    \<open>Agent_Ledger\<close>, \<open>Agent_Steps\<close>: \<open>store/postgres/agentauth.go\<close>, the offboarding triggers, and the
    executions of both (\<open>agent_step\<close>). The service uses the store through the locale
    \<open>agent_provider\<close>.
  \<^item> \<open>Pg_Ledger\<close>: \<open>store/postgres/store.go\<close> with the lifecycle triggers; \<open>Pg_Refinement\<close> interprets
    \<open>request_ledger\<close> on it, so that what is proved of the gateway over the contract holds over
    PostgreSQL too.

  \<^bold>\<open>The world of a request.\<close> The handler is a state transformer over \<open>world\<close>: the store, the response
  writer, the calls made to the provider and a counter. Everything the handler cannot know - the
  clock, fresh identifiers, cancellation, the provider's answers, failing writes - is a function of
  that counter in \<open>gateway_env\<close>, so a theorem about every \<open>gateway_env\<close> is about every behaviour of the
  environment, time-varying ones included. Third-party code (Bifrost, \<open>net/url\<close>, \<open>mime\<close>, SHA-256,
  \<open>strconv.ParseFloat\<close>) is a field of \<open>gateway_env\<close>, \<open>protocol_lib\<close> or \<open>bifrost\<close>.

  \<^bold>\<open>What is shown.\<close>
  \<^item> The ledger: rows only grow, attempts are numbered, a resolved route binds, listings are
    tenant-scoped, provisioning is idempotent, rotation replaces keys and revocation refuses them
    (\<open>Memory_Properties\<close>, over all reachable stores).
  \<^item> The handler: \<open>Gateway_Accounting\<close> proves, inside \<open>request_ledger\<close>, that an attempt writes one ledger
    row before at most one provider call, that the loops make at most \<open>MaxAttempts\<close> attempts, and that
    the response sent and the row agree; \<open>Gateway_Properties\<close> states it for the whole handler.
  \<^item> Requests and protocols: the validator accepts exactly well-formed conversations, accepted requests
    are bounded, tool names survive the Responses translation, answers of the Anthropic adapter are
    readable by it again.
  \<^item> Usage: the figures equal their declarative definitions, a report or a snapshot is of the caller's
    own rows (\<open>Control_Figures\<close>, \<open>Control_Properties\<close>).
  \<^item> Billing: a requirement is paid only on evidence, a processed receipt is final, the webhook
    acknowledges verified events only (\<open>Billing_Safety\<close>, \<open>Billing_Properties\<close>).
  \<^item> Agents: a token authorises what its grant covers while the person may act, a grant has one live
    token, an idempotency key issues once, offboarding closes (\<open>Agent_Properties\<close>).
  \<^item> PostgreSQL: the refinement of the ledger contract, and one way in which the reads of the ledger
    fail (\<open>Pg_Properties\<close>).
  \<^item> Arithmetic: retry delays and \<open>Retry-After\<close>, with the 64-bit wrap-around of \<open>time.Duration\<close>; shares
    in \<open>float64\<close>, which add up to 100 but for rounding (\<open>Control_Figures\<close>).
  \<^item> The worker: what a round does, and at which round its loop returns (\<open>Worker\<close>).

  \<^bold>\<open>Bounds and fuel.\<close> No definition runs on fuel. The attempt loops recurse over the attempts left, which
  start at \<open>MaxAttempts\<close>; the stream loop recurses over the frames of the provider's body, which is
  finite because the code limits it; JSON values are read by recursion over the text.

  \<^bold>\<open>Not modelled.\<close> SQL text is not interpreted: each statement is written as the function of the tables
  that it computes, with the constraints and triggers that decide its outcome; concurrency between
  transactions is their order. Instants are stored exactly, though PostgreSQL keeps microseconds. The
  portal's HTML and browser sessions and the store's operations for them, the commands' flag parsing
  and process wiring, and the generated or purely input-output code are left out. \<open>PROJECT.json\<close> lists
  every part with its status.
\<close>

end
